(* ===== verification/Prelude.thy ===== *)
theory Prelude
  imports Main "HOL-Library.AList"
begin

text \<open>
  Shared vocabulary of the development: results with errors and their sequencing, the traversal
  of a list by a fallible function, reachable states of a step relation, the facts about
  insertion-ordered dictionaries that the components use, and the collections of facts the
  component proofs draw on.
\<close>

named_theorems accept_iff \<open>what a validator accepts, as an equivalence\<close>
named_theorems snapshot_defs \<open>definitions unfolded when a snapshot is rebuilt\<close>

section \<open>Results: a raised error is a left value\<close>

fun rbind :: "'e + 'a \<Rightarrow> ('a \<Rightarrow> 'e + 'b) \<Rightarrow> 'e + 'b" where
  "rbind (Inl e) f = Inl e"
| "rbind (Inr x) f = f x"

lemma rbind_Inr_iff [simp]: "rbind m f = Inr y \<longleftrightarrow> (\<exists>x. m = Inr x \<and> f x = Inr y)"
  by (cases m) auto

lemma rbind_InrE:
  assumes "rbind m f = Inr y"
  obtains x where "m = Inr x" and "f x = Inr y"
  using assms by auto

lemma rbind_Inl_iff: "rbind m f = Inl e \<longleftrightarrow> m = Inl e \<or> (\<exists>x. m = Inr x \<and> f x = Inl e)"
  by (cases m) auto

lemma rbind_assoc: "rbind (rbind m f) g = rbind m (\<lambda>x. rbind (f x) g)"
  by (cases m) auto

definition guard :: "bool \<Rightarrow> 'e \<Rightarrow> 'e + unit" where
  "guard b e = (if b then Inr () else Inl e)"

lemma guard_iff [simp]: "guard b e = Inr x \<longleftrightarrow> b" "guard b e = Inl e' \<longleftrightarrow> \<not> b \<and> e' = e"
  by (auto simp: guard_def)

lemma guard_True [simp]: "guard True e = Inr ()"
  by (simp add: guard_def)

lemma guard_False [simp]: "guard False e = Inl e"
  by (simp add: guard_def)

text \<open>\<open>except E as e: raise F\<close>: the error is replaced, a value passes.\<close>

definition with_error :: "('e \<Rightarrow> 'f) \<Rightarrow> 'e + 'a \<Rightarrow> 'f + 'a" where
  "with_error f m = (case m of Inl e \<Rightarrow> Inl (f e) | Inr x \<Rightarrow> Inr x)"

lemma with_error_simps [simp]:
  "with_error f (Inl e) = Inl (f e)" "with_error f (Inr x) = Inr x"
  by (simp_all add: with_error_def)

lemma with_error_iff [simp]:
  "with_error f m = Inr x \<longleftrightarrow> m = Inr x" "with_error f m = Inl e \<longleftrightarrow> (\<exists>e'. m = Inl e' \<and> e = f e')"
  by (auto simp: with_error_def split: sum.splits)

section \<open>Effects: a function on the state of the world with a result\<close>

text \<open>A call that raises stops the sequence; the state it reached is kept.\<close>

definition io_bind :: "('w \<Rightarrow> ('e + 'a) \<times> 'w) \<Rightarrow> ('a \<Rightarrow> 'w \<Rightarrow> ('e + 'b) \<times> 'w) \<Rightarrow> 'w \<Rightarrow> ('e + 'b) \<times> 'w" where
  "io_bind m f w = (case m w of (Inl e, w') \<Rightarrow> (Inl e, w') | (Inr x, w') \<Rightarrow> f x w')"

definition io_get :: "('w \<Rightarrow> 'a \<times> 'w) \<Rightarrow> 'w \<Rightarrow> ('e + 'a) \<times> 'w" where
  "io_get g w = (let (x, w') = g w in (Inr x, w'))"

definition io_lift :: "'e + 'a \<Rightarrow> 'w \<Rightarrow> ('e + 'a) \<times> 'w" where
  "io_lift r w = (r, w)"

lemma io_bind_InrE:
  assumes "io_bind m k s = (Inr y, s')"
  obtains x s1 where "m s = (Inr x, s1)" and "k x s1 = (Inr y, s')"
  using assms by (cases "m s"; cases "fst (m s)") (auto simp: io_bind_def)

lemma io_lift_Inr: "io_lift r s = (Inr x, s') \<longleftrightarrow> r = Inr x \<and> s' = s"
  by (auto simp: io_lift_def)

lemma io_bind_Inr: "fst (m w) = Inr x \<Longrightarrow> io_bind m f w = f x (snd (m w))"
  by (cases "m w") (simp add: io_bind_def)

lemma io_get_fst [simp]: "fst (io_get g w) = Inr (fst (g w))" "snd (io_get g w) = snd (g w)"
  by (simp_all add: io_get_def Let_def split_beta)

lemma io_lift_fst [simp]: "fst (io_lift r w) = r" "snd (io_lift r w) = w"
  by (simp_all add: io_lift_def)

section \<open>Dictionaries: association lists in insertion order\<close>

text \<open>
  \<open>AList.update\<close> overwrites in place or appends, and \<open>AList.delete\<close> drops a key, as the
  item assignment and \<open>pop\<close> of a Python dict do.  Two dicts are equal when they hold the same
  keys with the same values, whatever their order.
\<close>

definition dict_eq :: "('k \<times> 'v) list \<Rightarrow> ('k \<times> 'v) list \<Rightarrow> bool" where
  "dict_eq a b \<longleftrightarrow> list_all (\<lambda>k. map_of a k = map_of b k) (map fst a @ map fst b)"

lemma dict_eq_iff [simp]: "dict_eq a b \<longleftrightarrow> map_of a = map_of b"
proof
  assume e: "dict_eq a b"
  show "map_of a = map_of b"
  proof
    fix k
    show "map_of a k = map_of b k"
    proof (cases "k \<in> set (map fst a @ map fst b)")
      case True
      with e show ?thesis by (auto simp: dict_eq_def list_all_iff)
    next
      case False
      then have "map_of a k = None" and "map_of b k = None"
        by (simp_all add: map_of_eq_None_iff)
      then show ?thesis by simp
    qed
  qed
qed (simp add: dict_eq_def list_all_iff)

lemma map_of_eqD: "map_of a = map_of b \<Longrightarrow> fst ` set a = fst ` set b"
  by (metis dom_map_of_conv_image_fst)

lemma update_fresh: "k \<notin> fst ` set d \<Longrightarrow> AList.update k v d = d @ [(k, v)]"
  by (induction d) auto

section \<open>Reachable states and invariants\<close>

inductive reachable :: "('s \<Rightarrow> bool) \<Rightarrow> ('s \<Rightarrow> 's \<Rightarrow> bool) \<Rightarrow> 's \<Rightarrow> bool"
  for start step where
  reach_start: "start s \<Longrightarrow> reachable start step s"
| reach_step: "reachable start step s \<Longrightarrow> step s t \<Longrightarrow> reachable start step t"

locale inductive_invariant =
  fixes start :: "'s \<Rightarrow> bool" and step :: "'s \<Rightarrow> 's \<Rightarrow> bool" and inv :: "'s \<Rightarrow> bool"
  assumes inv_start: "start s \<Longrightarrow> inv s"
    and inv_step: "inv s \<Longrightarrow> step s t \<Longrightarrow> inv t"
begin

lemma reachable_inv: "reachable start step s \<Longrightarrow> inv s"
  by (induction rule: reachable.induct) (auto intro: inv_start inv_step)

lemma rtranclp_inv: "step\<^sup>*\<^sup>* s t \<Longrightarrow> inv s \<Longrightarrow> inv t"
  by (induction rule: rtranclp_induct) (auto intro: inv_step)

end

end
