(* ===== verification/Binary64.thy ===== *)
theory Binary64
  imports Complex_Main "HOL-Library.Log_Nat"
begin

text \<open>
  Python's \<open>float\<close> is an IEEE-754 binary64 number.  Every finite binary64 value is a rational
  number, so the models keep a finite float as its exact value of type \<^typ>\<open>rat\<close> and apply the
  rounding \<open>fl\<close> (round to nearest, ties to even, 53 bits of precision, gradual underflow at
  \<open>2 powi -1074\<close>) after every arithmetic operation, in the place where the hardware
  rounds.  The two zeros are identified: no comparison of the modelled code tells them apart.
\<close>

section \<open>Rounding to an integer, ties to even\<close>

definition rne :: "rat \<Rightarrow> int" where
  "rne x = (let f = \<lfloor>x\<rfloor>; r = x - of_int f in
     if r < 1/2 then f else if 1/2 < r then f + 1 else if even f then f else f + 1)"

lemma rne_of_int [simp]: "rne (of_int k) = k"
  by (simp add: rne_def)

lemma rne_lower: "\<lfloor>x\<rfloor> \<le> rne x"
  by (simp add: rne_def Let_def)

lemma rne_upper: "rne x \<le> \<lfloor>x\<rfloor> + 1"
  by (simp add: rne_def Let_def)

lemma rne_mono: "x \<le> y \<Longrightarrow> rne x \<le> rne y"
proof (cases "\<lfloor>x\<rfloor> = \<lfloor>y\<rfloor>")
  case True
  moreover assume "x \<le> y"
  ultimately show ?thesis by (auto simp: rne_def Let_def)
next
  case False
  moreover assume "x \<le> y"
  ultimately have "\<lfloor>x\<rfloor> + 1 \<le> \<lfloor>y\<rfloor>"
    using floor_mono [of x y] by simp
  then show ?thesis
    using rne_upper [of x] rne_lower [of y] by simp
qed

lemma floor_minus_frac:
  assumes "x \<noteq> of_int \<lfloor>x\<rfloor>"
  shows "\<lfloor>- x\<rfloor> = - \<lfloor>x\<rfloor> - 1"
  using assms by (intro floor_unique) (auto, linarith+)

lemma rne_minus: "rne (- x) = - rne x" for x :: rat
proof (cases "x = of_int \<lfloor>x\<rfloor>")
  case True
  then show ?thesis by (metis of_int_minus rne_of_int)
next
  case False
  define f where "f = \<lfloor>x\<rfloor>"
  have m: "\<lfloor>- x\<rfloor> = - f - 1"
    using floor_minus_frac [OF False] by (simp add: f_def)
  show ?thesis
    unfolding rne_def Let_def m f_def [symmetric]
    by (auto simp: algebra_simps) 
qed

section \<open>The exponent of a rational\<close>

definition ilog2 :: "rat \<Rightarrow> int" where
  "ilog2 x = (let (n, d) = quotient_of \<bar>x\<bar>; e = bitlen n - bitlen d
     in if 2 powi e \<le> \<bar>x\<bar> then e else e - 1)"

lemma bitlen_powi:
  assumes "0 < n"
  shows "2 powi (bitlen n - 1) \<le> (of_int n :: rat)" and "(of_int n :: rat) < 2 powi (bitlen n)"
proof -
  have b: "1 \<le> bitlen n"
    using assms by (simp add: bitlen_def floorlog_def)
  have "2 ^ nat (bitlen n - 1) \<le> n" and "n < 2 ^ nat (bitlen n)"
    using bitlen_bounds [OF assms] by auto
  then have "(of_int (2 ^ nat (bitlen n - 1)) :: rat) \<le> of_int n"
    and "(of_int n :: rat) < of_int (2 ^ nat (bitlen n))"
    unfolding of_int_le_iff of_int_less_iff by blast+
  then show "2 powi (bitlen n - 1) \<le> (of_int n :: rat)"
    and "(of_int n :: rat) < 2 powi (bitlen n)"
    using b by (simp_all add: power_int_def)
qed

lemma ilog2_bounds:
  assumes "x \<noteq> 0"
  shows "2 powi (ilog2 x) \<le> \<bar>x\<bar>" and "\<bar>x\<bar> < 2 powi (ilog2 x + 1)"
proof -
  obtain n d where q: "quotient_of \<bar>x\<bar> = (n, d)" by fastforce
  have d: "0 < d" using quotient_of_denom_pos [OF q] .
  have x: "\<bar>x\<bar> = of_int n / of_int d" using quotient_of_div [OF q] .
  have "0 < \<bar>x\<bar>" using assms by simp
  then have n: "0 < n" using x d by (simp add: zero_less_divide_iff)
  define e where "e = bitlen n - bitlen d"
  have "of_int n * (2::rat) powi (bitlen d - 1) < 2 powi (bitlen n) * of_int d"
    by (rule mult_less_le_imp_less) (use bitlen_powi [OF n] bitlen_powi [OF d] n in auto)
  then have hi: "\<bar>x\<bar> < 2 powi (e + 1)"
    using d by (simp add: x e_def field_simps power_int_diff power_int_add)
  have "2 powi (bitlen n - 1) * of_int d < of_int n * (2::rat) powi (bitlen d)"
    by (rule mult_le_less_imp_less) (use bitlen_powi [OF n] bitlen_powi [OF d] n d in auto)
  then have lo: "2 powi (e - 1) < \<bar>x\<bar>"
    using d by (simp add: x e_def field_simps power_int_diff power_int_add)
  have i: "ilog2 x = (if 2 powi e \<le> \<bar>x\<bar> then e else e - 1)"
    by (simp add: ilog2_def q e_def)
  show "2 powi (ilog2 x) \<le> \<bar>x\<bar>" "\<bar>x\<bar> < 2 powi (ilog2 x + 1)"
    using hi lo by (auto simp: i)
qed

lemma powi2_less [simp]: "(2::rat) powi a < 2 powi b \<longleftrightarrow> a < b"
  by (metis less_le_not_le linorder_not_less one_less_numeral_iff power_int_increasing
      power_int_strict_increasing semiring_norm(76))

lemma powi2_le [simp]: "(2::rat) powi a \<le> 2 powi b \<longleftrightarrow> a \<le> b"
  using powi2_less [of b a] by linarith

lemma ilog2_minus [simp]: "ilog2 (- x) = ilog2 x"
  by (simp add: ilog2_def)

lemma ilog2_mono: "0 < x \<Longrightarrow> x \<le> y \<Longrightarrow> ilog2 x \<le> ilog2 y"
  using ilog2_bounds(1) [of x] ilog2_bounds(2) [of y]
  by (metis abs_of_pos less_le_trans not_less powi2_less zless_add1_eq order.strict_iff_not
      order.strict_trans1 linorder_not_le)

section \<open>Rounding to binary64\<close>

definition qexp :: "rat \<Rightarrow> int" where
  "qexp x = max (ilog2 x - 52) (- 1074)"

definition fl :: "rat \<Rightarrow> rat" where
  "fl x = (if x = 0 then 0
     else let q = 2 powi (qexp x) in of_int (rne (x / q)) * q)"

definition is_dbl :: "rat \<Rightarrow> bool" where
  "is_dbl x \<longleftrightarrow> fl x = x"

lemma fl_0 [simp]: "fl 0 = 0"
  by (simp add: fl_def)

lemma fl_minus [simp]: "fl (- x) = - fl x"
  by (simp add: fl_def Let_def qexp_def rne_minus)

lemma powi2_split:
  assumes "i \<le> j"
  shows "(of_int m * 2 powi j :: rat) = of_int (m * 2 ^ nat (j - i)) * 2 powi i"
proof -
  have "(2 powi j :: rat) = 2 powi (j - i) * 2 powi i"
    by (simp add: power_int_add [symmetric])
  then show ?thesis using assms by (simp add: power_int_def)
qed

text \<open>A multiple of the quantum of \<open>x\<close> bounds the rounded value when it bounds \<open>x\<close>.\<close>

lemma fl_le_grid:
  assumes "x \<noteq> 0" and "qexp x \<le> j" and "x \<le> of_int m * 2 powi j"
  shows "fl x \<le> of_int m * 2 powi j"
proof -
  define q :: rat where "q = 2 powi (qexp x)"
  have q: "0 < q" by (simp add: q_def)
  have b: "of_int m * 2 powi j = of_int (m * 2 ^ nat (j - qexp x)) * q"
    using powi2_split [OF assms(2)] by (simp add: q_def)
  have "x / q \<le> of_int (m * 2 ^ nat (j - qexp x))"
    using assms(3) q unfolding b by (simp add: pos_divide_le_eq)
  then have "rne (x / q) \<le> m * 2 ^ nat (j - qexp x)"
    using rne_mono rne_of_int by metis
  then have "(of_int (rne (x / q)) :: rat) \<le> of_int (m * 2 ^ nat (j - qexp x))"
    unfolding of_int_le_iff .
  then have "of_int (rne (x / q)) * q \<le> of_int (m * 2 ^ nat (j - qexp x)) * q"
    using q by (simp only: mult_le_cancel_right_pos)
  then show ?thesis
    using assms(1) by (simp add: fl_def q_def [symmetric] b)
qed

lemma grid_le_fl:
  assumes "x \<noteq> 0" and "qexp x \<le> j" and "of_int m * 2 powi j \<le> x"
  shows "of_int m * 2 powi j \<le> fl x"
  using fl_le_grid [of "- x" j "- m"] assms by (simp add: qexp_def)

lemma fl_nonneg: "0 \<le> x \<Longrightarrow> 0 \<le> fl x"
  using grid_le_fl [of x "qexp x" 0] by (cases "x = 0") auto

lemma fl_mono_pos:
  assumes "0 < x" and "x \<le> y"
  shows "fl x \<le> fl y"
proof (cases "qexp x = qexp y")
  case True
  have "x / 2 powi (qexp y) \<le> y / 2 powi (qexp y)"
    using assms by (simp add: divide_right_mono)
  then have "rne (x / 2 powi (qexp y)) \<le> rne (y / 2 powi (qexp y))"
    by (rule rne_mono)
  then show ?thesis
    using assms True by (simp add: fl_def Let_def)
next
  case False
  have l: "ilog2 x \<le> ilog2 y" using assms by (rule ilog2_mono)
  with False have ne: "ilog2 x + 1 \<le> ilog2 y" and qy: "qexp y = ilog2 y - 52"
    by (auto simp: qexp_def)
  have "x < 2 powi (ilog2 x + 1)"
    using ilog2_bounds(2) [of x] assms by simp
  also have "\<dots> \<le> 2 powi (ilog2 y)" using ne by simp
  finally have "x \<le> of_int 1 * 2 powi (ilog2 y)" by simp
  then have "fl x \<le> of_int 1 * 2 powi (ilog2 y)"
    using assms ne qy l by (intro fl_le_grid) (auto simp: qexp_def)
  also have "\<dots> \<le> fl y"
    using assms ilog2_bounds(1) [of y] qy by (intro grid_le_fl) auto
  finally show ?thesis .
qed

lemma fl_mono: "x \<le> y \<Longrightarrow> fl x \<le> fl y"
proof -
  assume le: "x \<le> y"
  consider "0 < x" | "x \<le> 0" "0 \<le> y" | "y < 0" by linarith
  then show ?thesis
  proof cases
    case 1
    then show ?thesis using le by (rule fl_mono_pos)
  next
    case 2
    then show ?thesis using fl_nonneg [of "- x"] fl_nonneg [of y] by simp
  next
    case 3
    then show ?thesis using fl_mono_pos [of "- y" "- x"] le by simp
  qed
qed

lemma fl_exact: "qexp (of_int k * 2 powi j) \<le> j \<Longrightarrow> fl (of_int k * 2 powi j) = of_int k * 2 powi j"
  using fl_le_grid [of "of_int k * 2 powi j" j k] grid_le_fl [of "of_int k * 2 powi j" j k]
  by (cases "k = 0") auto

lemma fl_grid_strict:
  assumes "\<bar>k\<bar> < 2 ^ 53" and "- 1074 \<le> j"
  shows "fl (of_int k * 2 powi j) = of_int k * 2 powi j"
proof (cases "k = 0")
  case False
  define y :: rat where "y = of_int k * 2 powi j"
  have y: "y \<noteq> 0" using False by (simp add: y_def)
  have "(of_int \<bar>k\<bar> :: rat) < of_int (2 ^ 53)"
    using assms(1) unfolding of_int_less_iff .
  then have "\<bar>y\<bar> < 2 powi (53 + j)"
    by (simp add: y_def abs_mult power_int_add)
  then have "(2::rat) powi (ilog2 y) < 2 powi (53 + j)"
    using ilog2_bounds(1) [OF y] by linarith
  then have "qexp y \<le> j"
    using assms(2) by (simp add: qexp_def)
  then show ?thesis unfolding y_def by (rule fl_exact)
qed simp

lemma fl_grid:
  assumes "\<bar>k\<bar> \<le> 2 ^ 53" and "- 1074 \<le> j"
  shows "fl (of_int k * 2 powi j) = of_int k * 2 powi j"
proof (cases "\<bar>k\<bar> = 2 ^ 53")
  case True
  then have k: "of_int k = (of_int (sgn k) * 2 powi 53 :: rat)"
    by (cases "0 \<le> k") auto
  have e: "of_int k * 2 powi j = (of_int (sgn k) * 2 powi (53 + j) :: rat)"
    unfolding k by (simp add: power_int_add)
  have "\<bar>sgn k\<bar> < 2 ^ 53" by (simp add: sgn_if)
  then show ?thesis
    unfolding e by (rule fl_grid_strict) (use assms(2) in simp)
next
  case False
  then show ?thesis using assms by (intro fl_grid_strict) auto
qed

lemma rne_abs_le:
  assumes "\<bar>x\<bar> \<le> of_int m"
  shows "\<bar>rne x\<bar> \<le> m"
  using rne_mono [of x "of_int m"] rne_mono [of "of_int (- m)" x] assms
  by (simp only: rne_of_int) linarith

lemma fl_idem [simp]: "fl (fl x) = fl x"
proof (cases "x = 0")
  case False
  define q :: rat where "q = 2 powi (qexp x)"
  have q: "0 < q" by (simp add: q_def)
  have "\<bar>x\<bar> < 2 powi (ilog2 x + 1)" using ilog2_bounds(2) [OF False] .
  also have "\<dots> \<le> 2 powi (53 + qexp x)" by (simp add: qexp_def)
  also have "\<dots> = of_int (2 ^ 53) * q" by (simp add: power_int_add q_def)
  finally have "\<bar>x / q\<bar> \<le> of_int (2 ^ 53)"
    using q by (simp add: pos_divide_le_eq)
  then have "\<bar>rne (x / q)\<bar> \<le> 2 ^ 53" by (rule rne_abs_le)
  then have "fl (of_int (rne (x / q)) * 2 powi (qexp x)) = of_int (rne (x / q)) * 2 powi (qexp x)"
    by (rule fl_grid) (simp add: qexp_def)
  then show ?thesis using False by (simp add: fl_def [of x] q_def Let_def)
qed simp

lemma fl_small_int:
  assumes "\<bar>k\<bar> \<le> 2 ^ 53"
  shows "fl (of_int k) = of_int k"
  using fl_grid [OF assms, of 0] by simp

lemma fl_1 [simp]: "fl 1 = 1"
  using fl_small_int [of 1] by simp

lemma fl_half [simp]: "fl (1 / 2) = 1 / 2"
  using fl_grid [of 1 "- 1"] by (simp add: power_int_minus)

lemma is_dbl_fl [simp]: "is_dbl (fl x)"
  by (simp add: is_dbl_def)

lemma is_dbl_simps [simp]: "is_dbl 0" "is_dbl 1" "is_dbl (- x) = is_dbl x"
  by (auto simp: is_dbl_def)

section \<open>The float operations of the language\<close>

text \<open>
  \<open>+\<close>, \<open>-\<close>, \<open>*\<close>, \<open>/\<close> on finite floats: the exact result, rounded.  A quotient that
  exceeds the largest double is \<open>inf\<close> in Python and stays a large rational here; the one
  division of the modelled code feeds a power whose value is \<open>0.0\<close> in both cases.
\<close>

definition fadd :: "rat \<Rightarrow> rat \<Rightarrow> rat" where "fadd a b = fl (a + b)"
definition fsub :: "rat \<Rightarrow> rat \<Rightarrow> rat" where "fsub a b = fl (a - b)"
definition fmul :: "rat \<Rightarrow> rat \<Rightarrow> rat" where "fmul a b = fl (a * b)"
definition fdiv :: "rat \<Rightarrow> rat \<Rightarrow> rat" where "fdiv a b = fl (a / b)"

lemmas float_op_defs = fadd_def fsub_def fmul_def fdiv_def

text \<open>\<open>float(n)\<close> on an int: \<open>None\<close> is the OverflowError of an int beyond the largest double.\<close>

definition float_of_int :: "int \<Rightarrow> rat option" where
  "float_of_int n = (let f = fl (of_int n) in if \<bar>f\<bar> < 2 ^ 1024 then Some f else None)"

lemma fl_pow2: "0 \<le> k \<Longrightarrow> fl (2 powi k) = 2 powi k"
proof -
  assume "0 \<le> k"
  have "qexp (of_int 1 * 2 powi k) \<le> k"
    using \<open>0 \<le> k\<close> ilog2_bounds(1) [of "2 powi k"] powi2_le [of "ilog2 (2 powi k)" k] by (simp add: qexp_def)
  from fl_exact [OF this] show ?thesis by simp
qed

lemma float_of_int_pow2: "k < 1024 \<Longrightarrow> float_of_int (2 ^ k) = Some (2 ^ k)"
proof -
  assume "k < 1024"
  then have "(2::rat) ^ k < 2 ^ 1024" by (intro power_strict_increasing) auto
  then show ?thesis using fl_pow2 [of "int k"] by (simp add: float_of_int_def Let_def power_int_def)
qed

lemma float_of_int_overflow:
  assumes "2 ^ 1024 \<le> n"
  shows "float_of_int n = None"
proof -
  have "(2::rat) powi 1024 \<le> of_int n"
    using assms by (metis of_int_le_iff of_int_numeral of_int_power power_int_numeral)
  then have "(2::rat) powi 1024 \<le> fl (of_int n)" using fl_mono fl_pow2 [of 1024] by fastforce
  then show ?thesis by (simp add: float_of_int_def Let_def)
qed

text \<open>The exact values of the decimal literals of the program, in lowest terms.\<close>

lemma dbl_literals:
  "fl (1/4) = 1/4"
  "fl (1/10) = 3602879701896397 / 36028797018963968"
  "fl (1/5) = 3602879701896397 / 18014398509481984"
  "fl (3/10) = 5404319552844595 / 18014398509481984"
  "fl (2/5) = 3602879701896397 / 9007199254740992"
  "fl (3/5) = 5404319552844595 / 9007199254740992"
  "fl (7/10) = 3152519739159347 / 4503599627370496"
  "fl (4/5) = 3602879701896397 / 4503599627370496"
  "fl (9/10) = 8106479329266893 / 9007199254740992"
  "fl (1/20) = 3602879701896397 / 72057594037927936"
  "fl (1/100) = 5764607523034235 / 576460752303423488"
  "fl (1/50) = 5764607523034235 / 288230376151711744"
  "fl (3/100) = 1080863910568919 / 36028797018963968"
  by code_simp+

section \<open>The interface of a rounding\<close>

text \<open>
  What the components rely on: rounding is monotone, symmetric, idempotent and keeps one.
  The consequences below are proved from these laws alone.
\<close>

locale rounding =
  fixes rnd :: "rat \<Rightarrow> rat"
  assumes rnd_mono: "x \<le> y \<Longrightarrow> rnd x \<le> rnd y"
    and rnd_minus: "rnd (- x) = - rnd x"
    and rnd_idem: "rnd (rnd x) = rnd x"
    and rnd_one: "rnd 1 = 1"
begin

lemma rnd_zero: "rnd 0 = 0"
  using rnd_minus [of 0] by simp

lemma rnd_ge: "rnd a = a \<Longrightarrow> a \<le> x \<Longrightarrow> a \<le> rnd x"
  using rnd_mono by metis

lemma rnd_le: "rnd a = a \<Longrightarrow> x \<le> a \<Longrightarrow> rnd x \<le> a"
  using rnd_mono by metis

lemma rnd_nonneg: "0 \<le> x \<Longrightarrow> 0 \<le> rnd x"
  by (rule rnd_ge [OF rnd_zero])

lemma rnd_grow: "rnd a = a \<Longrightarrow> 0 \<le> d \<Longrightarrow> a \<le> rnd (a + d)"
  by (rule rnd_ge) auto

lemma rnd_shrink: "rnd a = a \<Longrightarrow> d \<le> 0 \<Longrightarrow> rnd (a + d) \<le> a"
  by (rule rnd_le) auto

lemma rnd_abs: "\<bar>rnd x\<bar> = rnd \<bar>x\<bar>"
  using rnd_nonneg [of x] rnd_nonneg [of "- x"] rnd_minus [of x] by (auto simp: abs_if)

text \<open>Multiplying by a factor of the unit interval never moves a float away from zero.\<close>

lemma rnd_contract:
  assumes "rnd v = v" and "0 \<le> f" and "f \<le> 1"
  shows "\<bar>rnd (v * f)\<bar> \<le> \<bar>v\<bar>"
proof -
  have "\<bar>v * f\<bar> \<le> \<bar>v\<bar>"
    using assms by (simp add: abs_mult mult_left_le)
  then have "rnd \<bar>v * f\<bar> \<le> rnd \<bar>v\<bar>" by (rule rnd_mono)
  then show ?thesis using assms(1) rnd_abs by metis
qed

lemma rnd_sign:
  assumes "0 \<le> f"
  shows "0 \<le> v \<Longrightarrow> 0 \<le> rnd (v * f)" and "v \<le> 0 \<Longrightarrow> rnd (v * f) \<le> 0"
  using assms rnd_nonneg [of "v * f"] rnd_le [OF rnd_zero, of "v * f"]
  by (auto simp: mult_nonpos_nonneg)

end

interpretation b64: rounding fl
  by unfold_locales (auto intro: fl_mono)

end
