(* ===== verification/Py_Values.thy ===== *)
theory Py_Values
  imports Prelude Binary64
begin

text \<open>
  The Python objects that reach the validators: the dynamic type of an untrusted argument is a
  constructor of \<open>pyobj\<close>, so that an \<open>isinstance\<close> test of the source is a case
  distinction.  A Python \<open>str\<close> is its list of code points.
\<close>

section \<open>Strings\<close>

type_synonym pystr = "nat list"

definition u :: "string \<Rightarrow> pystr" where
  "u s = map of_char s"

lemma u_eq_iff [simp]: "u s = u t \<longleftrightarrow> s = t"
  unfolding u_def by (rule inj_map_eq_map) (simp add: inj_def)

lemma u_Nil_iff [simp]: "u s = [] \<longleftrightarrow> s = []" "[] = u s \<longleftrightarrow> s = []"
  by (auto simp: u_def)

lemma length_u [simp]: "length (u s) = length s"
  by (simp add: u_def)

text \<open>\<open>str.isspace\<close> on one code point: the Unicode whitespace characters \<open>str.strip\<close> removes.\<close>

definition is_space :: "nat \<Rightarrow> bool" where
  "is_space c \<longleftrightarrow> 9 \<le> c \<and> c \<le> 13 \<or> 28 \<le> c \<and> c \<le> 32 \<or> c = 133 \<or> c = 160 \<or> c = 5760
     \<or> 8192 \<le> c \<and> c \<le> 8202 \<or> c = 8232 \<or> c = 8233 \<or> c = 8239 \<or> c = 8287 \<or> c = 12288"

definition strip :: "pystr \<Rightarrow> pystr" where
  "strip s = rev (dropWhile is_space (rev (dropWhile is_space s)))"

lemma dropWhile_idem: "dropWhile P (dropWhile P xs) = dropWhile P xs"
  by (induction xs) auto

lemma strip_ends:
  assumes "strip s \<noteq> []"
  shows "\<not> is_space (hd (strip s))" and "\<not> is_space (last (strip s))"
proof -
  define d where "d = dropWhile is_space s"
  define r where "r = dropWhile is_space (rev d)"
  have s: "strip s = rev r" by (simp add: strip_def d_def r_def)
  have "r \<noteq> []" using assms s by simp
  then have l: "\<not> is_space (hd r)"
    unfolding r_def by (rule hd_dropWhile)
  then show "\<not> is_space (last (strip s))" using s by (simp add: last_rev)
  have "\<exists>p. rev d = p @ r"
    unfolding r_def by (metis takeWhile_dropWhile_id)
  then obtain p where "d = rev r @ rev p" by (metis rev_append rev_rev_ident)
  then have "d \<noteq> []" and "hd d = hd (rev r)" using \<open>r \<noteq> []\<close> by auto
  then show "\<not> is_space (hd (strip s))"
    using hd_dropWhile [of is_space s] s by (simp add: d_def)
qed

lemma strip_trimmed:
  assumes "s \<noteq> []" and "\<not> is_space (hd s)" and "\<not> is_space (last s)"
  shows "strip s = s"
proof -
  have "dropWhile is_space s = s" using assms by (cases s) auto
  moreover have "dropWhile is_space (rev s) = rev s"
    using assms by (cases "rev s") (auto simp: last_rev [symmetric] hd_rev)
  ultimately show ?thesis by (simp add: strip_def)
qed

lemma strip_strip [simp]: "strip (strip s) = strip s"
proof (cases "strip s = []")
  case True
  then show ?thesis by (simp add: strip_def [of "[]"])
next
  case False
  then show ?thesis by (intro strip_trimmed strip_ends)
qed

lemma length_strip: "length (strip s) \<le> length s"
  by (metis strip_def length_rev length_dropWhile_le le_trans)

section \<open>Objects\<close>

datatype pyfloat = Fin rat | PosInf | NegInf | NaN

datatype pyobj =
    PNone
  | PBool bool
  | PInt int
  | PFloat pyfloat
  | PStr pystr
  | PBytes "nat list"
  | PList "pyobj list"
  | PTuple "pyobj list"
  | PDict "(pyobj \<times> pyobj) list"
  | PProxy "(pyobj \<times> pyobj) list" \<comment> \<open>a \<open>MappingProxyType\<close>\<close>
  | PObj pystr \<comment> \<open>an instance of some other class\<close>

text \<open>An argument guarded by \<open>isinstance\<close> of a class of the program: an instance or not.\<close>

datatype 'a arg = Inst 'a | NotInst

abbreviation flt :: "rat \<Rightarrow> pyobj" where
  "flt x \<equiv> PFloat (Fin x)"

fun is_bool :: "pyobj \<Rightarrow> bool" where
  "is_bool (PBool _) = True"
| "is_bool _ = False"

text \<open>\<open>isinstance(v, int)\<close> and \<open>isinstance(v, (int, float))\<close>: a bool is an int.\<close>

fun is_int :: "pyobj \<Rightarrow> bool" where
  "is_int (PBool _) = True"
| "is_int (PInt _) = True"
| "is_int _ = False"

fun is_number :: "pyobj \<Rightarrow> bool" where
  "is_number (PFloat _) = True"
| "is_number v = is_int v"

fun is_str :: "pyobj \<Rightarrow> bool" where
  "is_str (PStr _) = True"
| "is_str _ = False"

text \<open>\<open>float(v)\<close> on an int or a float; \<open>None\<close> is the exception it raises.\<close>

fun py_float :: "pyobj \<Rightarrow> pyfloat option" where
  "py_float (PFloat f) = Some f"
| "py_float (PInt n) = map_option Fin (float_of_int n)"
| "py_float (PBool b) = Some (Fin (of_bool b))"
| "py_float _ = None"

text \<open>\<open>math.isfinite\<close>.\<close>

fun isfinite :: "pyfloat \<Rightarrow> bool" where
  "isfinite (Fin _) = True"
| "isfinite _ = False"

fun fin_val :: "pyfloat \<Rightarrow> rat" where
  "fin_val (Fin x) = x"
| "fin_val _ = 0"

text \<open>
  What the validators of numeric fields are meant to accept: a finite int or float, never a bool;
  the value is the float they normalise to.
\<close>

fun float_value :: "pyobj \<Rightarrow> rat option" where
  "float_value (PFloat (Fin x)) = Some x"
| "float_value (PInt n) = float_of_int n"
| "float_value _ = None"

section \<open>Keys of an untrusted dict\<close>

definition unknown_keys :: "(pyobj \<times> pyobj) list \<Rightarrow> pystr list \<Rightarrow> pyobj list" where
  "unknown_keys d fs = filter (\<lambda>k. k \<notin> set (map PStr fs)) (map fst d)"

definition missing_keys :: "(pyobj \<times> pyobj) list \<Rightarrow> pystr list \<Rightarrow> pystr list" where
  "missing_keys d fs = filter (\<lambda>f. PStr f \<notin> set (map fst d)) fs"

definition has_key :: "(pyobj \<times> pyobj) list \<Rightarrow> pystr \<Rightarrow> bool" where
  "has_key d k \<longleftrightarrow> map_of d (PStr k) \<noteq> None"

lemma unknown_keys_Nil_iff: "unknown_keys d fs = [] \<longleftrightarrow> fst ` set d \<subseteq> PStr ` set fs"
  by (auto simp: unknown_keys_def filter_empty_conv)

lemma missing_keys_Nil_iff: "missing_keys d fs = [] \<longleftrightarrow> PStr ` set fs \<subseteq> fst ` set d"
  by (auto simp: missing_keys_def filter_empty_conv)

lemma has_key_iff: "has_key d k \<longleftrightarrow> PStr k \<in> fst ` set d"
  by (auto simp: has_key_def map_of_eq_None_iff)

text \<open>The three checks of a strict parser together: exactly the declared keys.\<close>

lemma exact_keys:
  assumes "f \<in> set fs"
  shows "unknown_keys d fs = [] \<and> has_key d f \<and> missing_keys d (removeAll f fs) = []
     \<longleftrightarrow> fst ` set d = PStr ` set fs"
proof -
  have e: "PStr ` set fs = insert (PStr f) (PStr ` (set fs - {f}))" using assms by blast
  show ?thesis
    unfolding unknown_keys_Nil_iff missing_keys_Nil_iff has_key_iff set_removeAll set_eq_subset
    by (auto simp only: e insert_subset)
qed

section \<open>The interface of a numeric validator\<close>

text \<open>
  Two modules of the program define the same chain of checks with their own error class:
  \<open>req\<close> converts and requires a finite number, \<open>rng\<close> requires a range.
\<close>

locale float_validator =
  fixes req :: "pyobj \<Rightarrow> pystr \<Rightarrow> 'e + rat"
    and rng :: "rat \<Rightarrow> pystr \<Rightarrow> rat \<Rightarrow> rat \<Rightarrow> 'e + rat"
  assumes req_iff: "req v n = Inr x \<longleftrightarrow> float_value v = Some x"
    and rng_iff: "rng x n lo hi = Inr y \<longleftrightarrow> y = x \<and> lo \<le> x \<and> x \<le> hi"
begin

lemma in_range_iff:
  "rbind (req v n) (\<lambda>f. rng f n lo hi) = Inr x \<longleftrightarrow> float_value v = Some x \<and> lo \<le> x \<and> x \<le> hi"
  by (auto simp: req_iff rng_iff)

lemma rejects_bool: "\<exists>e. req (PBool b) n = Inl e"
  using req_iff [of "PBool b" n] by (cases "req (PBool b) n") auto

lemma rejects_non_finite: "f \<noteq> Fin (fin_val f) \<Longrightarrow> \<exists>e. req (PFloat f) n = Inl e"
  using req_iff [of "PFloat f" n] by (cases "req (PFloat f) n"; cases f) auto

end

section \<open>The interface of a persisted snapshot\<close>

text \<open>
  A snapshot type is written out as a dict and read back by a strict parser.  The laws: what the
  parser accepts is valid, and it reads back exactly what was written.
\<close>

locale snapshot =
  fixes valid :: "'s \<Rightarrow> bool"
    and to_dict :: "'s \<Rightarrow> pyobj"
    and from_dict :: "pyobj \<Rightarrow> 'e + 's"
  assumes from_dict_valid: "from_dict v = Inr s \<Longrightarrow> valid s"
    and from_to: "valid s \<Longrightarrow> from_dict (to_dict s) = Inr s"
begin

lemma to_dict_inj: "valid s \<Longrightarrow> valid t \<Longrightarrow> to_dict s = to_dict t \<Longrightarrow> s = t"
  using from_to by (metis sum.inject(2))

lemma reparse: "from_dict v = Inr s \<Longrightarrow> from_dict (to_dict s) = Inr s"
  by (blast intro: from_to from_dict_valid)

lemma valid_iff_parsed: "valid s \<longleftrightarrow> (\<exists>v. from_dict v = Inr s)"
  by (blast intro: from_to from_dict_valid)

end

end
