(* ===== verification/Emotional_Models.thy ===== *)
theory Emotional_Models
  imports Py_Values
begin

text \<open>
  \<open>backend/emotional_domain/models.py\<close>: the validated snapshots \<open>EmotionalStateV1\<close> and
  \<open>AppraisalV1\<close>.  Every raise of the module is a constructor of \<open>domain_error\<close>; the
  lemmas show that each construction path accepts exactly the payloads that denote a valid
  snapshot, that re-validation is harmless and that writing and reading back is the identity.
\<close>

section \<open>Constants and errors\<close>

definition EMOTIONAL_SCHEMA_VERSION :: int where
  "EMOTIONAL_SCHEMA_VERSION = 1"

definition VALID_COPING_MODES :: "pystr list" where
  "VALID_COPING_MODES = map u [''HEALTHY'', ''DEFENSIVE'', ''DISSOCIATED'', ''MANIC'']"

definition DISCRETE_EMOTIONS :: "pystr list" where
  "DISCRETE_EMOTIONS = map u [''joy'', ''sadness'', ''anger'', ''fear'', ''disgust'', ''surprise'',
     ''trust'', ''anticipation'', ''tenderness'', ''guilt'', ''pride'', ''jealousy'', ''gratitude'']"

datatype domain_error =
    VersionNoneOrBool
  | VersionNotInt
  | VersionUnsupported int
  | FieldBool pystr
  | FieldType pystr
  | FieldNotConvertible pystr
  | FieldNonFinite pystr
  | FieldRange pystr rat rat
  | FieldNotPositive pystr
  | FieldNegative pystr
  | CopingNotStr
  | CopingUnknown
  | NotADict
  | UnknownFields
  | VersionMissing
  | MissingFields
  | ItemMissing pystr \<comment> \<open>the KeyError of \<open>data[k]\<close>\<close>
  | EmotionsNotDict
  | EmotionKeyNotStr
  | EmotionUnknown
  | ConfigOrder pystr
  | ConfigUnexpected
  | TimeBool
  | TimeNone
  | TimeType
  | TimeNotConvertible
  | TimeNonFinite
  | TimeNotPositive
  | RegulationInvalid pystr
  | WrongArgument pystr
  | SnapshotConflict
  | InvalidJson
  | NotAStr

section \<open>Validation helpers\<close>

definition require_schema_version :: "pyobj \<Rightarrow> domain_error + int" where
  "require_schema_version value =
     (if value = PNone \<or> is_bool value then Inl VersionNoneOrBool
      else (case value of
        PInt n \<Rightarrow> if n \<noteq> EMOTIONAL_SCHEMA_VERSION then Inl (VersionUnsupported n) else Inr n
      | _ \<Rightarrow> Inl VersionNotInt))"

definition require_finite_float :: "pyobj \<Rightarrow> pystr \<Rightarrow> domain_error + rat" where
  "require_finite_float value name =
     (if is_bool value then Inl (FieldBool name)
      else if \<not> is_number value then Inl (FieldType name)
      else (case py_float value of
        None \<Rightarrow> Inl (FieldNotConvertible name)
      | Some f \<Rightarrow> if \<not> isfinite f then Inl (FieldNonFinite name) else Inr (fin_val f)))"

definition require_range :: "rat \<Rightarrow> pystr \<Rightarrow> rat \<Rightarrow> rat \<Rightarrow> domain_error + rat" where
  "require_range value name lo hi =
     (if value < lo \<or> value > hi then Inl (FieldRange name lo hi) else Inr value)"

definition require_finite_float_in_range ::
  "pyobj \<Rightarrow> pystr \<Rightarrow> rat \<Rightarrow> rat \<Rightarrow> domain_error + rat" where
  "require_finite_float_in_range value name lo hi =
     rbind (require_finite_float value name) (\<lambda>f. require_range f name lo hi)"

definition require_positive_float :: "pyobj \<Rightarrow> pystr \<Rightarrow> domain_error + rat" where
  "require_positive_float value name =
     rbind (require_finite_float value name)
       (\<lambda>f. if f \<le> 0 then Inl (FieldNotPositive name) else Inr f)"

lemma require_schema_version_iff [accept_iff]:
  "require_schema_version v = Inr n \<longleftrightarrow> v = PInt EMOTIONAL_SCHEMA_VERSION \<and> n = EMOTIONAL_SCHEMA_VERSION"
  by (cases v) (auto simp: require_schema_version_def)

interpretation em: float_validator require_finite_float require_range
proof
  fix v n x
  show "require_finite_float v n = Inr x \<longleftrightarrow> float_value v = Some x"
    by (cases v rule: float_value.cases) (auto simp: require_finite_float_def split: option.splits)
qed (auto simp: require_range_def)

lemmas require_finite_float_iff [accept_iff] = em.req_iff

lemma require_in_range_iff [accept_iff]:
  "require_finite_float_in_range v n lo hi = Inr x
     \<longleftrightarrow> float_value v = Some x \<and> lo \<le> x \<and> x \<le> hi"
  unfolding require_finite_float_in_range_def by (rule em.in_range_iff)

lemma require_positive_float_iff [accept_iff]:
  "require_positive_float v n = Inr x \<longleftrightarrow> float_value v = Some x \<and> 0 < x"
  by (fastforce simp: require_positive_float_def em.req_iff split: if_splits)

lemma require_in_range_flt:
  "lo \<le> x \<Longrightarrow> x \<le> hi \<Longrightarrow> require_finite_float_in_range (flt x) n lo hi = Inr x"
  by (simp add: accept_iff)

lemma require_positive_flt: "0 < x \<Longrightarrow> require_positive_float (flt x) n = Inr x"
  by (simp add: accept_iff)

definition dict_item :: "(pyobj \<times> pyobj) list \<Rightarrow> pystr \<Rightarrow> domain_error + pyobj" where
  "dict_item d k = (case map_of d (PStr k) of None \<Rightarrow> Inl (ItemMissing k) | Some v \<Rightarrow> Inr v)"

lemma dict_item_iff [accept_iff]: "dict_item d k = Inr v \<longleftrightarrow> map_of d (PStr k) = Some v"
  by (simp add: dict_item_def split: option.splits)

section \<open>EmotionalStateV1\<close>

record EmotionalStateV1 =
  es_pleasure :: rat
  es_arousal :: rat
  es_dominance :: rat
  es_libido :: rat
  es_aggression :: rat
  es_connection :: rat
  es_energy :: rat
  es_tension :: rat
  es_coping_mode :: pystr
  es_timestamp :: rat
  es_schema_version :: int

text \<open>The keyword arguments of the constructors, before validation.\<close>

record state_args =
  arg_pleasure :: pyobj
  arg_arousal :: pyobj
  arg_dominance :: pyobj
  arg_libido :: pyobj
  arg_aggression :: pyobj
  arg_connection :: pyobj
  arg_energy :: pyobj
  arg_tension :: pyobj
  arg_coping_mode :: pyobj
  arg_timestamp :: pyobj
  arg_schema_version :: pyobj

definition STATE_FIELDS :: "pystr list" where
  "STATE_FIELDS = map u [''pleasure'', ''arousal'', ''dominance'', ''libido'', ''aggression'',
     ''connection'', ''energy'', ''tension'', ''coping_mode'', ''timestamp'', ''schema_version'']"

definition require_coping_mode :: "pyobj \<Rightarrow> domain_error + pystr" where
  "require_coping_mode v = (case v of
     PStr s \<Rightarrow> if s \<notin> set VALID_COPING_MODES then Inl CopingUnknown else Inr s
   | _ \<Rightarrow> Inl CopingNotStr)"

lemma require_coping_mode_iff [accept_iff]:
  "require_coping_mode v = Inr s \<longleftrightarrow> v = PStr s \<and> s \<in> set VALID_COPING_MODES"
  by (auto simp: require_coping_mode_def split: pyobj.splits)

definition validate_state_fields :: "state_args \<Rightarrow> domain_error + EmotionalStateV1" where
  "validate_state_fields a =
     rbind (require_schema_version (arg_schema_version a)) (\<lambda>sv.
     rbind (require_finite_float_in_range (arg_pleasure a) (u ''pleasure'') (-1) 1) (\<lambda>p.
     rbind (require_finite_float_in_range (arg_arousal a) (u ''arousal'') (-1) 1) (\<lambda>ar.
     rbind (require_finite_float_in_range (arg_dominance a) (u ''dominance'') (-1) 1) (\<lambda>d.
     rbind (require_finite_float_in_range (arg_libido a) (u ''libido'') 0 1) (\<lambda>lib.
     rbind (require_finite_float_in_range (arg_aggression a) (u ''aggression'') 0 1) (\<lambda>agg.
     rbind (require_finite_float_in_range (arg_connection a) (u ''connection'') 0 1) (\<lambda>con.
     rbind (require_finite_float_in_range (arg_energy a) (u ''energy'') 0 1) (\<lambda>eng.
     rbind (require_finite_float_in_range (arg_tension a) (u ''tension'') 0 1) (\<lambda>ten.
     rbind (require_coping_mode (arg_coping_mode a)) (\<lambda>cm.
     rbind (require_positive_float (arg_timestamp a) (u ''timestamp'')) (\<lambda>ts.
     Inr \<lparr>es_pleasure = p, es_arousal = ar, es_dominance = d, es_libido = lib,
          es_aggression = agg, es_connection = con, es_energy = eng, es_tension = ten,
          es_coping_mode = cm, es_timestamp = ts, es_schema_version = sv\<rparr>)))))))))))"

text \<open>The instance's fields as the arguments of another constructor call.\<close>

definition args_of_state :: "EmotionalStateV1 \<Rightarrow> state_args" where
  "args_of_state s = \<lparr>arg_pleasure = flt (es_pleasure s), arg_arousal = flt (es_arousal s),
     arg_dominance = flt (es_dominance s), arg_libido = flt (es_libido s),
     arg_aggression = flt (es_aggression s), arg_connection = flt (es_connection s),
     arg_energy = flt (es_energy s), arg_tension = flt (es_tension s),
     arg_coping_mode = PStr (es_coping_mode s), arg_timestamp = flt (es_timestamp s),
     arg_schema_version = PInt (es_schema_version s)\<rparr>"

text \<open>Direct construction: \<open>__post_init__\<close> validates and stores the normalised values.\<close>

definition EmotionalStateV1_init :: "state_args \<Rightarrow> domain_error + EmotionalStateV1" where
  "EmotionalStateV1_init a = validate_state_fields a"

text \<open>The factory validates, then constructs, which validates once more.\<close>

definition EmotionalStateV1_create :: "state_args \<Rightarrow> domain_error + EmotionalStateV1" where
  "EmotionalStateV1_create a =
     rbind (validate_state_fields a) (\<lambda>t. EmotionalStateV1_init (args_of_state t))"

definition EmotionalStateV1_neutral :: "pyobj \<Rightarrow> domain_error + EmotionalStateV1" where
  "EmotionalStateV1_neutral timestamp = EmotionalStateV1_create
     \<lparr>arg_pleasure = flt 0, arg_arousal = flt 0, arg_dominance = flt 0, arg_libido = flt 0,
      arg_aggression = flt 0, arg_connection = flt (fl (5/10)), arg_energy = flt (fl (8/10)),
      arg_tension = flt 0, arg_coping_mode = PStr (u ''HEALTHY''), arg_timestamp = timestamp,
      arg_schema_version = PInt EMOTIONAL_SCHEMA_VERSION\<rparr>"

definition state_args_of_dict :: "(pyobj \<times> pyobj) list \<Rightarrow> domain_error + state_args" where
  "state_args_of_dict d =
     rbind (dict_item d (u ''pleasure'')) (\<lambda>p.
     rbind (dict_item d (u ''arousal'')) (\<lambda>a.
     rbind (dict_item d (u ''dominance'')) (\<lambda>dm.
     rbind (dict_item d (u ''libido'')) (\<lambda>l.
     rbind (dict_item d (u ''aggression'')) (\<lambda>ag.
     rbind (dict_item d (u ''connection'')) (\<lambda>c.
     rbind (dict_item d (u ''energy'')) (\<lambda>e.
     rbind (dict_item d (u ''tension'')) (\<lambda>t.
     rbind (dict_item d (u ''coping_mode'')) (\<lambda>cm.
     rbind (dict_item d (u ''timestamp'')) (\<lambda>ts.
     rbind (dict_item d (u ''schema_version'')) (\<lambda>sv.
     Inr \<lparr>arg_pleasure = p, arg_arousal = a, arg_dominance = dm, arg_libido = l,
          arg_aggression = ag, arg_connection = c, arg_energy = e, arg_tension = t,
          arg_coping_mode = cm, arg_timestamp = ts, arg_schema_version = sv\<rparr>)))))))))))"

definition EmotionalStateV1_from_dict :: "pyobj \<Rightarrow> domain_error + EmotionalStateV1" where
  "EmotionalStateV1_from_dict data = (case data of
     PDict d \<Rightarrow>
       rbind (guard (unknown_keys d STATE_FIELDS = []) UnknownFields) (\<lambda>_.
       rbind (guard (has_key d (u ''schema_version'')) VersionMissing) (\<lambda>_.
       rbind (guard (missing_keys d (removeAll (u ''schema_version'') STATE_FIELDS) = [])
         MissingFields) (\<lambda>_.
       rbind (state_args_of_dict d) EmotionalStateV1_create)))
   | _ \<Rightarrow> Inl NotADict)"

definition EmotionalStateV1_to_dict :: "EmotionalStateV1 \<Rightarrow> pyobj" where
  "EmotionalStateV1_to_dict s = PDict
     [(PStr (u ''schema_version''), PInt (es_schema_version s)),
      (PStr (u ''pleasure''), flt (es_pleasure s)),
      (PStr (u ''arousal''), flt (es_arousal s)),
      (PStr (u ''dominance''), flt (es_dominance s)),
      (PStr (u ''libido''), flt (es_libido s)),
      (PStr (u ''aggression''), flt (es_aggression s)),
      (PStr (u ''connection''), flt (es_connection s)),
      (PStr (u ''energy''), flt (es_energy s)),
      (PStr (u ''tension''), flt (es_tension s)),
      (PStr (u ''coping_mode''), PStr (es_coping_mode s)),
      (PStr (u ''timestamp''), flt (es_timestamp s))]"

subsection \<open>The invariant of a snapshot, and what an argument denotes\<close>

definition valid_state :: "EmotionalStateV1 \<Rightarrow> bool" where
  "valid_state s \<longleftrightarrow>
     - 1 \<le> es_pleasure s \<and> es_pleasure s \<le> 1 \<and> - 1 \<le> es_arousal s \<and> es_arousal s \<le> 1
   \<and> - 1 \<le> es_dominance s \<and> es_dominance s \<le> 1 \<and> 0 \<le> es_libido s \<and> es_libido s \<le> 1
   \<and> 0 \<le> es_aggression s \<and> es_aggression s \<le> 1 \<and> 0 \<le> es_connection s \<and> es_connection s \<le> 1
   \<and> 0 \<le> es_energy s \<and> es_energy s \<le> 1 \<and> 0 \<le> es_tension s \<and> es_tension s \<le> 1
   \<and> es_coping_mode s \<in> set VALID_COPING_MODES \<and> 0 < es_timestamp s
   \<and> es_schema_version s = EMOTIONAL_SCHEMA_VERSION"

definition denotes_state :: "state_args \<Rightarrow> EmotionalStateV1 \<Rightarrow> bool" where
  "denotes_state a s \<longleftrightarrow>
     float_value (arg_pleasure a) = Some (es_pleasure s)
   \<and> float_value (arg_arousal a) = Some (es_arousal s)
   \<and> float_value (arg_dominance a) = Some (es_dominance s)
   \<and> float_value (arg_libido a) = Some (es_libido s)
   \<and> float_value (arg_aggression a) = Some (es_aggression s)
   \<and> float_value (arg_connection a) = Some (es_connection s)
   \<and> float_value (arg_energy a) = Some (es_energy s)
   \<and> float_value (arg_tension a) = Some (es_tension s)
   \<and> arg_coping_mode a = PStr (es_coping_mode s)
   \<and> float_value (arg_timestamp a) = Some (es_timestamp s)
   \<and> arg_schema_version a = PInt (es_schema_version s)"

lemma validate_state_iff:
  "validate_state_fields a = Inr s \<longleftrightarrow> denotes_state a s \<and> valid_state s"
  by (cases s) (auto simp: validate_state_fields_def accept_iff denotes_state_def valid_state_def)

lemma denotes_args_of_state [simp]: "denotes_state (args_of_state s) s"
  by (simp add: denotes_state_def args_of_state_def)

lemma denotes_state_unique: "denotes_state a s \<Longrightarrow> denotes_state a t \<Longrightarrow> s = t"
  by (cases s; cases t) (auto simp: denotes_state_def)

lemma validate_args_of_state [simp]:
  "valid_state s \<Longrightarrow> validate_state_fields (args_of_state s) = Inr s"
  by (simp add: validate_state_iff)

text \<open>The second validation of the factory never fails and never changes a value.\<close>

lemma create_eq_validate: "EmotionalStateV1_create a = validate_state_fields a"
proof (cases "validate_state_fields a")
  case (Inl e)
  then show ?thesis by (simp add: EmotionalStateV1_create_def)
next
  case (Inr t)
  then have "valid_state t" by (simp add: validate_state_iff)
  with Inr show ?thesis by (simp add: EmotionalStateV1_create_def EmotionalStateV1_init_def)
qed

lemma create_state_iff [accept_iff]:
  "EmotionalStateV1_create a = Inr s \<longleftrightarrow> denotes_state a s \<and> valid_state s"
  by (simp add: create_eq_validate validate_state_iff)

lemma state_args_of_dict_iff:
  "state_args_of_dict d = Inr a \<longleftrightarrow>
     map_of d (PStr (u ''pleasure'')) = Some (arg_pleasure a)
   \<and> map_of d (PStr (u ''arousal'')) = Some (arg_arousal a)
   \<and> map_of d (PStr (u ''dominance'')) = Some (arg_dominance a)
   \<and> map_of d (PStr (u ''libido'')) = Some (arg_libido a)
   \<and> map_of d (PStr (u ''aggression'')) = Some (arg_aggression a)
   \<and> map_of d (PStr (u ''connection'')) = Some (arg_connection a)
   \<and> map_of d (PStr (u ''energy'')) = Some (arg_energy a)
   \<and> map_of d (PStr (u ''tension'')) = Some (arg_tension a)
   \<and> map_of d (PStr (u ''coping_mode'')) = Some (arg_coping_mode a)
   \<and> map_of d (PStr (u ''timestamp'')) = Some (arg_timestamp a)
   \<and> map_of d (PStr (u ''schema_version'')) = Some (arg_schema_version a)"
  by (cases a) (auto simp: state_args_of_dict_def dict_item_iff)

lemma from_dict_valid_state: "EmotionalStateV1_from_dict v = Inr s \<Longrightarrow> valid_state s"
  by (cases v) (auto simp: EmotionalStateV1_from_dict_def create_state_iff)

lemma from_dict_to_dict_state:
  assumes "valid_state s"
  shows "EmotionalStateV1_from_dict (EmotionalStateV1_to_dict s) = Inr s"
proof -
  have "state_args_of_dict (case EmotionalStateV1_to_dict s of PDict d \<Rightarrow> d) = Inr (args_of_state s)"
    by (simp add: state_args_of_dict_iff EmotionalStateV1_to_dict_def args_of_state_def)
  then show ?thesis
    using assms
    by (simp add: EmotionalStateV1_from_dict_def EmotionalStateV1_to_dict_def create_eq_validate
        unknown_keys_def missing_keys_def has_key_def STATE_FIELDS_def)
qed

interpretation es: snapshot valid_state EmotionalStateV1_to_dict EmotionalStateV1_from_dict
  by unfold_locales (auto intro: from_dict_valid_state from_dict_to_dict_state)

section \<open>AppraisalV1\<close>

type_synonym emotions = "(pystr \<times> rat) list"

record AppraisalV1 =
  ap_valence_shift :: rat
  ap_arousal_shift :: rat
  ap_dominance_shift :: rat
  ap_discrete_emotions :: emotions
  ap_schema_version :: int

definition APPRAISAL_SCALAR_FIELDS :: "pystr list" where
  "APPRAISAL_SCALAR_FIELDS =
     map u [''valence_shift'', ''arousal_shift'', ''dominance_shift'', ''schema_version'']"

definition APPRAISAL_ALL_FIELDS :: "pystr list" where
  "APPRAISAL_ALL_FIELDS = APPRAISAL_SCALAR_FIELDS @ [u ''discrete_emotions'']"

text \<open>The name \<open>discrete_emotions['...']\<close> under which an intensity is reported.\<close>

definition emotion_field :: "pystr \<Rightarrow> pystr" where
  "emotion_field e = u ''discrete_emotions['' @ [39] @ e @ [39, 93]"

fun validate_emotion_items ::
  "(pyobj \<times> pyobj) list \<Rightarrow> emotions \<Rightarrow> domain_error + emotions" where
  "validate_emotion_items [] result = Inr result"
| "validate_emotion_items ((emotion, intensity) # items) result = (case emotion of
     PStr e \<Rightarrow>
       if e \<notin> set DISCRETE_EMOTIONS then Inl EmotionUnknown
       else rbind (require_finite_float_in_range intensity (emotion_field e) 0 1)
         (\<lambda>x. validate_emotion_items items (AList.update e x result))
   | _ \<Rightarrow> Inl EmotionKeyNotStr)"

definition validate_discrete_emotions :: "pyobj \<Rightarrow> domain_error + emotions" where
  "validate_discrete_emotions raw =
     (if raw = PNone \<or> is_bool raw then Inl EmotionsNotDict
      else (case raw of
        PDict d \<Rightarrow> validate_emotion_items d []
      | _ \<Rightarrow> Inl EmotionsNotDict))"

definition emotions_items :: "emotions \<Rightarrow> (pyobj \<times> pyobj) list" where
  "emotions_items es = map (\<lambda>(e, x). (PStr e, flt x)) es"

text \<open>Direct construction: scalars first, then a fresh validated copy of the mapping.\<close>

definition AppraisalV1_init ::
  "pyobj \<Rightarrow> pyobj \<Rightarrow> pyobj \<Rightarrow> pyobj \<Rightarrow> pyobj \<Rightarrow> domain_error + AppraisalV1" where
  "AppraisalV1_init valence_shift arousal_shift dominance_shift discrete_emotions schema_version =
     rbind (require_schema_version schema_version) (\<lambda>sv.
     rbind (require_finite_float_in_range valence_shift (u ''valence_shift'') (-1) 1) (\<lambda>vs.
     rbind (require_finite_float_in_range arousal_shift (u ''arousal_shift'') (-1) 1) (\<lambda>ar.
     rbind (require_finite_float_in_range dominance_shift (u ''dominance_shift'') (-1) 1) (\<lambda>ds.
     rbind (case discrete_emotions of
         PProxy d \<Rightarrow> validate_discrete_emotions (PDict d)
       | de \<Rightarrow> validate_discrete_emotions de) (\<lambda>validated.
     Inr \<lparr>ap_valence_shift = vs, ap_arousal_shift = ar, ap_dominance_shift = ds,
          ap_discrete_emotions = validated, ap_schema_version = sv\<rparr>)))))"

definition AppraisalV1_neutral :: "domain_error + AppraisalV1" where
  "AppraisalV1_neutral =
     AppraisalV1_init (flt 0) (flt 0) (flt 0) (PDict []) (PInt EMOTIONAL_SCHEMA_VERSION)"

text \<open>The factory; \<open>None\<close> for the mapping is the sentinel \<open>_UNSET\<close> of an omitted argument.\<close>

definition AppraisalV1_create ::
  "pyobj \<Rightarrow> pyobj \<Rightarrow> pyobj \<Rightarrow> pyobj option \<Rightarrow> pyobj \<Rightarrow> domain_error + AppraisalV1" where
  "AppraisalV1_create valence_shift arousal_shift dominance_shift discrete_emotions schema_version =
     rbind (require_schema_version schema_version) (\<lambda>sv.
     rbind (require_finite_float_in_range valence_shift (u ''valence_shift'') (-1) 1) (\<lambda>vs.
     rbind (require_finite_float_in_range arousal_shift (u ''arousal_shift'') (-1) 1) (\<lambda>ar.
     rbind (require_finite_float_in_range dominance_shift (u ''dominance_shift'') (-1) 1) (\<lambda>ds.
     rbind (guard (discrete_emotions \<noteq> Some PNone) EmotionsNotDict) (\<lambda>_.
     rbind (validate_discrete_emotions
         (case discrete_emotions of None \<Rightarrow> PDict [] | Some raw \<Rightarrow> raw)) (\<lambda>de.
     AppraisalV1_init (flt vs) (flt ar) (flt ds) (PDict (emotions_items de)) (PInt sv)))))))"

definition AppraisalV1_from_dict :: "pyobj \<Rightarrow> domain_error + AppraisalV1" where
  "AppraisalV1_from_dict data = (case data of
     PDict d \<Rightarrow>
       rbind (guard (unknown_keys d APPRAISAL_ALL_FIELDS = []) UnknownFields) (\<lambda>_.
       rbind (guard (has_key d (u ''schema_version'')) VersionMissing) (\<lambda>_.
       rbind (guard (missing_keys d (map u [''valence_shift'', ''arousal_shift'', ''dominance_shift''])
         = []) MissingFields) (\<lambda>_.
       rbind (case map_of d (PStr (u ''discrete_emotions'')) of
           None \<Rightarrow> Inr None
         | Some de_raw \<Rightarrow> if de_raw = PNone then Inl EmotionsNotDict else Inr (Some de_raw)) (\<lambda>de_input.
       rbind (dict_item d (u ''valence_shift'')) (\<lambda>vs.
       rbind (dict_item d (u ''arousal_shift'')) (\<lambda>ar.
       rbind (dict_item d (u ''dominance_shift'')) (\<lambda>ds.
       rbind (dict_item d (u ''schema_version'')) (\<lambda>sv.
       AppraisalV1_create vs ar ds de_input sv))))))))
   | _ \<Rightarrow> Inl NotADict)"

definition AppraisalV1_to_dict :: "AppraisalV1 \<Rightarrow> pyobj" where
  "AppraisalV1_to_dict a = PDict
     [(PStr (u ''schema_version''), PInt (ap_schema_version a)),
      (PStr (u ''valence_shift''), flt (ap_valence_shift a)),
      (PStr (u ''arousal_shift''), flt (ap_arousal_shift a)),
      (PStr (u ''dominance_shift''), flt (ap_dominance_shift a)),
      (PStr (u ''discrete_emotions''), PDict (emotions_items (ap_discrete_emotions a)))]"

subsection \<open>The invariant of an appraisal\<close>

definition valid_emotions :: "emotions \<Rightarrow> bool" where
  "valid_emotions es \<longleftrightarrow> distinct (map fst es)
     \<and> list_all (\<lambda>(e, x). e \<in> set DISCRETE_EMOTIONS \<and> 0 \<le> x \<and> x \<le> 1) es"

definition valid_appraisal :: "AppraisalV1 \<Rightarrow> bool" where
  "valid_appraisal a \<longleftrightarrow>
     - 1 \<le> ap_valence_shift a \<and> ap_valence_shift a \<le> 1
   \<and> - 1 \<le> ap_arousal_shift a \<and> ap_arousal_shift a \<le> 1
   \<and> - 1 \<le> ap_dominance_shift a \<and> ap_dominance_shift a \<le> 1
   \<and> valid_emotions (ap_discrete_emotions a)
   \<and> ap_schema_version a = EMOTIONAL_SCHEMA_VERSION"

lemma valid_emotions_Nil [simp]: "valid_emotions []"
  by (simp add: valid_emotions_def)

lemma valid_emotions_update:
  assumes "valid_emotions es" and "e \<in> set DISCRETE_EMOTIONS" and "0 \<le> x" and "x \<le> 1"
  shows "valid_emotions (AList.update e x es)"
proof -
  have "set (AList.update e x es) \<subseteq> insert (e, x) (set es)"
    by (induction es) auto
  with assms show ?thesis
    by (auto simp: valid_emotions_def distinct_update list_all_iff)
qed

lemma validate_emotion_items_valid:
  "validate_emotion_items items r = Inr es \<Longrightarrow> valid_emotions r \<Longrightarrow> valid_emotions es"
proof (induction items r rule: validate_emotion_items.induct)
  case (2 emotion intensity items r)
  then show ?case
    by (auto simp: require_in_range_iff split: pyobj.splits if_splits intro: valid_emotions_update)
qed simp

lemma validate_discrete_emotions_valid:
  "validate_discrete_emotions raw = Inr es \<Longrightarrow> valid_emotions es"
  by (auto simp: validate_discrete_emotions_def split: pyobj.splits if_splits
      dest: validate_emotion_items_valid)

lemma validate_emotion_items_rebuild:
  "valid_emotions es \<Longrightarrow> fst ` set r \<inter> fst ` set es = {}
     \<Longrightarrow> validate_emotion_items (emotions_items es) r = Inr (r @ es)"
proof (induction es arbitrary: r)
  case Nil
  then show ?case by (simp add: emotions_items_def)
next
  case (Cons p es)
  obtain e x where p: "p = (e, x)" by (cases p)
  have v: "require_finite_float_in_range (flt x) (emotion_field e) 0 1 = Inr x"
    using Cons.prems by (simp add: require_in_range_iff valid_emotions_def p)
  have "validate_emotion_items (emotions_items es) (AList.update e x r) = Inr (AList.update e x r @ es)"
    using Cons.prems
    by (intro Cons.IH) (auto simp: valid_emotions_def p update_fresh image_iff)
  then show ?case
    using Cons.prems v by (simp add: emotions_items_def p valid_emotions_def update_fresh)
qed

lemma validate_discrete_emotions_rebuild [simp]:
  "valid_emotions es \<Longrightarrow> validate_discrete_emotions (PDict (emotions_items es)) = Inr es"
  using validate_emotion_items_rebuild [of es "[]"] by (simp add: validate_discrete_emotions_def)

lemma appraisal_init_valid: "AppraisalV1_init vs ar ds de sv = Inr a \<Longrightarrow> valid_appraisal a"
  by (auto simp: AppraisalV1_init_def valid_appraisal_def require_schema_version_iff
      require_in_range_iff split: pyobj.splits dest: validate_discrete_emotions_valid)

lemma appraisal_create_valid: "AppraisalV1_create vs ar ds de sv = Inr a \<Longrightarrow> valid_appraisal a"
  by (auto simp: AppraisalV1_create_def dest: appraisal_init_valid)

lemma appraisal_init_rebuild:
  "valid_appraisal a \<Longrightarrow> AppraisalV1_init (flt (ap_valence_shift a)) (flt (ap_arousal_shift a))
     (flt (ap_dominance_shift a)) (PDict (emotions_items (ap_discrete_emotions a)))
     (PInt (ap_schema_version a)) = Inr a"
  by (simp add: AppraisalV1_init_def valid_appraisal_def accept_iff)

lemma appraisal_create_rebuild:
  assumes "valid_appraisal a"
  shows "AppraisalV1_create (flt (ap_valence_shift a)) (flt (ap_arousal_shift a))
     (flt (ap_dominance_shift a)) (Some (PDict (emotions_items (ap_discrete_emotions a))))
     (PInt (ap_schema_version a)) = Inr a"
  using assms appraisal_init_rebuild [OF assms]
  by (simp add: AppraisalV1_create_def valid_appraisal_def require_in_range_iff
      require_schema_version_iff)

lemma neutral_appraisal:
  "AppraisalV1_neutral = Inr \<lparr>ap_valence_shift = 0, ap_arousal_shift = 0, ap_dominance_shift = 0,
     ap_discrete_emotions = [], ap_schema_version = EMOTIONAL_SCHEMA_VERSION\<rparr>"
  by (simp add: AppraisalV1_neutral_def AppraisalV1_init_def accept_iff validate_discrete_emotions_def)

lemma from_dict_valid_appraisal: "AppraisalV1_from_dict v = Inr a \<Longrightarrow> valid_appraisal a"
  by (cases v) (auto simp: AppraisalV1_from_dict_def dest: appraisal_create_valid)

lemma from_dict_to_dict_appraisal:
  "valid_appraisal a \<Longrightarrow> AppraisalV1_from_dict (AppraisalV1_to_dict a) = Inr a"
  using appraisal_create_rebuild [of a]
  by (simp add: AppraisalV1_from_dict_def AppraisalV1_to_dict_def unknown_keys_def missing_keys_def
      has_key_def APPRAISAL_ALL_FIELDS_def APPRAISAL_SCALAR_FIELDS_def dict_item_def)

interpretation ap: snapshot valid_appraisal AppraisalV1_to_dict AppraisalV1_from_dict
  by unfold_locales (auto intro: from_dict_valid_appraisal from_dict_to_dict_appraisal)

section \<open>Properties of the snapshots\<close>

lemma schema_version_field: "u ''schema_version'' \<in> set STATE_FIELDS"
  by (simp add: STATE_FIELDS_def)

text \<open>\<open>EmotionalStateV1.from_dict\<close> accepts exactly the dicts that carry the eleven fields of the
  schema and nothing else, whose values denote a snapshot inside the documented ranges; the
  accepted snapshot is the denoted one.\<close>

lemma from_dict_state_iff:
  "EmotionalStateV1_from_dict v = Inr s \<longleftrightarrow>
     (\<exists>d a. v = PDict d \<and> fst ` set d = PStr ` set STATE_FIELDS
        \<and> state_args_of_dict d = Inr a \<and> denotes_state a s \<and> valid_state s)"
  unfolding exact_keys [OF schema_version_field, symmetric]
  by (cases v) (auto simp: EmotionalStateV1_from_dict_def create_state_iff)

text \<open>Writing a valid emotional snapshot with \<open>to_dict\<close> and reading it back with \<open>from_dict\<close>
  gives the same snapshot, and two valid snapshots with the same dict are equal.\<close>

theorem state_dict_roundtrip:
  assumes "valid_state s" and "valid_state t"
  shows "EmotionalStateV1_from_dict (EmotionalStateV1_to_dict s) = Inr s
     \<and> (EmotionalStateV1_to_dict s = EmotionalStateV1_to_dict t \<longrightarrow> s = t)"
  using assms by (blast intro: es.from_to es.to_dict_inj)

definition calm_state :: EmotionalStateV1 where
  "calm_state = \<lparr>es_pleasure = 1/4, es_arousal = 0, es_dominance = 1/2, es_libido = 0,
     es_aggression = 0, es_connection = 1/2, es_energy = 1, es_tension = 1/8,
     es_coping_mode = u ''HEALTHY'', es_timestamp = 1000, es_schema_version = 1\<rparr>"

lemma valid_calm_state: "valid_state calm_state"
  by (simp add: valid_state_def calm_state_def EMOTIONAL_SCHEMA_VERSION_def VALID_COPING_MODES_def)

theorem state_dict_roundtrip_witness:
  "valid_state calm_state
     \<and> EmotionalStateV1_from_dict (EmotionalStateV1_to_dict calm_state) = Inr calm_state"
  using state_dict_roundtrip [OF valid_calm_state valid_calm_state] valid_calm_state by simp

text \<open>Every way to build an appraisal (direct construction, the factory, \<open>from_dict\<close>) yields
  only valid appraisals: shifts in \<open>[-1, 1]\<close>, known emotion names without duplicates,
  intensities in \<open>[0, 1]\<close>; and a valid appraisal is rebuilt unchanged by each of them.\<close>

theorem appraisal_paths_valid:
  "(\<forall>vs ar ds de sv a. AppraisalV1_init vs ar ds de sv = Inr a \<longrightarrow> valid_appraisal a)
   \<and> (\<forall>vs ar ds de sv a. AppraisalV1_create vs ar ds de sv = Inr a \<longrightarrow> valid_appraisal a)
   \<and> (\<forall>v a. AppraisalV1_from_dict v = Inr a \<longrightarrow> valid_appraisal a)
   \<and> (\<forall>a. valid_appraisal a \<longrightarrow> AppraisalV1_from_dict (AppraisalV1_to_dict a) = Inr a)"
  by (blast intro: appraisal_init_valid appraisal_create_valid ap.from_dict_valid ap.from_to)

definition warm_appraisal :: AppraisalV1 where
  "warm_appraisal = \<lparr>ap_valence_shift = 1/2, ap_arousal_shift = 0, ap_dominance_shift = - (1/4),
     ap_discrete_emotions = [(u ''joy'', 3/4), (u ''tenderness'', 1/2)], ap_schema_version = 1\<rparr>"

lemma valid_warm_appraisal: "valid_appraisal warm_appraisal"
  by (simp add: valid_appraisal_def warm_appraisal_def valid_emotions_def DISCRETE_EMOTIONS_def
      EMOTIONAL_SCHEMA_VERSION_def)

theorem appraisal_paths_valid_witness:
  "AppraisalV1_from_dict (AppraisalV1_to_dict warm_appraisal) = Inr warm_appraisal
     \<and> valid_appraisal warm_appraisal"
  using appraisal_paths_valid valid_warm_appraisal by blast

end
