(* ===== verification/Emotional_Transition.thy ===== *)
theory Emotional_Transition
  imports Emotional_Models
begin

text \<open>
  \<open>backend/emotional_domain/transition.py\<close>: the pure transition of the emotional state.  The
  power \<open>0.5 ** x\<close> is computed by the platform's C library, whose last bit is not specified, so
  it is the parameter \<open>pw\<close> of the model; \<open>pow_ok\<close> states what C guarantees of it.
\<close>

section \<open>Constants and regulation reasons\<close>

definition DEFAULT_MAX_SHIFT :: rat where "DEFAULT_MAX_SHIFT = fl (25/100)"
definition DEFAULT_PAD_HALF_LIFE :: rat where "DEFAULT_PAD_HALF_LIFE = 3600"
definition DEFAULT_TENSION_HALF_LIFE :: rat where "DEFAULT_TENSION_HALF_LIFE = 7200"
definition DEFAULT_PAD_BASELINE :: rat where "DEFAULT_PAD_BASELINE = 0"
definition DEFAULT_TENSION_BASELINE :: rat where "DEFAULT_TENSION_BASELINE = 0"
definition DEFAULT_NEGATIVE_PLEASURE_THRESHOLD :: rat where
  "DEFAULT_NEGATIVE_PLEASURE_THRESHOLD = - fl (3/10)"
definition DEFAULT_POSITIVE_PLEASURE_THRESHOLD :: rat where
  "DEFAULT_POSITIVE_PLEASURE_THRESHOLD = fl (3/10)"
definition DEFAULT_TENSION_INCREASE :: rat where "DEFAULT_TENSION_INCREASE = fl (5/100)"
definition DEFAULT_TENSION_RELIEF :: rat where "DEFAULT_TENSION_RELIEF = fl (5/100)"
definition DEFAULT_ACTIVATION_THRESHOLD :: rat where "DEFAULT_ACTIVATION_THRESHOLD = fl (8/10)"
definition DEFAULT_RECOVERY_THRESHOLD :: rat where "DEFAULT_RECOVERY_THRESHOLD = fl (3/10)"
definition DEFAULT_DISSOCIATION_AROUSAL_FACTOR :: rat where
  "DEFAULT_DISSOCIATION_AROUSAL_FACTOR = fl (5/10)"

lemmas transition_defaults =
  DEFAULT_MAX_SHIFT_def DEFAULT_PAD_HALF_LIFE_def DEFAULT_TENSION_HALF_LIFE_def
  DEFAULT_PAD_BASELINE_def DEFAULT_TENSION_BASELINE_def DEFAULT_NEGATIVE_PLEASURE_THRESHOLD_def
  DEFAULT_POSITIVE_PLEASURE_THRESHOLD_def DEFAULT_TENSION_INCREASE_def DEFAULT_TENSION_RELIEF_def
  DEFAULT_ACTIVATION_THRESHOLD_def DEFAULT_RECOVERY_THRESHOLD_def
  DEFAULT_DISSOCIATION_AROUSAL_FACTOR_def

datatype RegulationReason =
    NONE
  | HIGH_TENSION_POSITIVE_DOMINANCE
  | HIGH_TENSION_NONPOSITIVE_DOMINANCE
  | RECOVERED

fun reason_value :: "RegulationReason \<Rightarrow> pystr" where
  "reason_value NONE = u ''none''"
| "reason_value HIGH_TENSION_POSITIVE_DOMINANCE = u ''high_tension_positive_dominance''"
| "reason_value HIGH_TENSION_NONPOSITIVE_DOMINANCE = u ''high_tension_nonpositive_dominance''"
| "reason_value RECOVERED = u ''recovered''"

section \<open>TransitionConfig\<close>

definition CONFIG_FIELDS :: "pystr list" where
  "CONFIG_FIELDS = map u [''pad_half_life'', ''tension_half_life'', ''pad_baseline'',
     ''tension_baseline'', ''max_pleasure_shift'', ''max_arousal_shift'', ''max_dominance_shift'',
     ''negative_pleasure_threshold'', ''positive_pleasure_threshold'', ''tension_increase'',
     ''tension_relief'', ''activation_threshold'', ''recovery_threshold'',
     ''dissociation_arousal_factor'']"

definition require_positive_finite :: "pyobj \<Rightarrow> pystr \<Rightarrow> domain_error + rat" where
  "require_positive_finite value name = rbind (require_finite_float value name)
     (\<lambda>f. if f \<le> 0 then Inl (FieldNotPositive name) else Inr f)"

definition require_nonnegative_finite :: "pyobj \<Rightarrow> pystr \<Rightarrow> domain_error + rat" where
  "require_nonnegative_finite value name = rbind (require_finite_float value name)
     (\<lambda>f. if f < 0 then Inl (FieldNegative name) else Inr f)"

definition validate_not_bool :: "pyobj \<Rightarrow> pystr \<Rightarrow> domain_error + unit" where
  "validate_not_bool raw name = (if is_bool raw then Inl (FieldBool name) else Inr ())"

definition validate_positive_finite :: "pyobj \<Rightarrow> pystr \<Rightarrow> domain_error + rat" where
  "validate_positive_finite raw name =
     rbind (validate_not_bool raw name) (\<lambda>_. require_positive_finite raw name)"

definition validate_range :: "pyobj \<Rightarrow> pystr \<Rightarrow> rat \<Rightarrow> rat \<Rightarrow> domain_error + rat" where
  "validate_range raw name lo hi =
     rbind (validate_not_bool raw name) (\<lambda>_. require_finite_float_in_range raw name lo hi)"

definition validate_shift_cap :: "pyobj \<Rightarrow> pystr \<Rightarrow> domain_error + rat" where
  "validate_shift_cap raw name =
     rbind (validate_not_bool raw name) (\<lambda>_.
     rbind (require_finite_float raw name)
       (\<lambda>f. if f < 0 \<or> f > 1 then Inl (FieldRange name 0 1) else Inr f))"

definition validate_nonnegative :: "pyobj \<Rightarrow> pystr \<Rightarrow> domain_error + rat" where
  "validate_nonnegative raw name =
     rbind (validate_not_bool raw name) (\<lambda>_. require_nonnegative_finite raw name)"

record TransitionConfig =
  tc_pad_half_life :: rat
  tc_tension_half_life :: rat
  tc_pad_baseline :: rat
  tc_tension_baseline :: rat
  tc_max_pleasure_shift :: rat
  tc_max_arousal_shift :: rat
  tc_max_dominance_shift :: rat
  tc_negative_pleasure_threshold :: rat
  tc_positive_pleasure_threshold :: rat
  tc_tension_increase :: rat
  tc_tension_relief :: rat
  tc_activation_threshold :: rat
  tc_recovery_threshold :: rat
  tc_dissociation_arousal_factor :: rat

type_synonym kwargs = "(pystr \<times> pyobj) list"

definition kwarg :: "kwargs \<Rightarrow> pystr \<Rightarrow> rat \<Rightarrow> pyobj" where
  "kwarg kw k dflt = (case map_of kw k of None \<Rightarrow> flt dflt | Some v \<Rightarrow> v)"

text \<open>
  Construction with keyword arguments: the checks of \<open>__post_init__\<close> in their order.  The code
  keeps an int argument as it is and Python converts it at each use; the model keeps the float.
\<close>

definition TransitionConfig_init :: "kwargs \<Rightarrow> domain_error + TransitionConfig" where
  "TransitionConfig_init kw =
     rbind (validate_positive_finite (kwarg kw (u ''pad_half_life'') DEFAULT_PAD_HALF_LIFE)
       (u ''pad_half_life'')) (\<lambda>phl.
     rbind (validate_positive_finite (kwarg kw (u ''tension_half_life'') DEFAULT_TENSION_HALF_LIFE)
       (u ''tension_half_life'')) (\<lambda>thl.
     rbind (validate_range (kwarg kw (u ''pad_baseline'') DEFAULT_PAD_BASELINE)
       (u ''pad_baseline'') (-1) 1) (\<lambda>pb.
     rbind (validate_range (kwarg kw (u ''tension_baseline'') DEFAULT_TENSION_BASELINE)
       (u ''tension_baseline'') 0 1) (\<lambda>tb.
     rbind (validate_shift_cap (kwarg kw (u ''max_pleasure_shift'') DEFAULT_MAX_SHIFT)
       (u ''max_pleasure_shift'')) (\<lambda>mp.
     rbind (validate_shift_cap (kwarg kw (u ''max_arousal_shift'') DEFAULT_MAX_SHIFT)
       (u ''max_arousal_shift'')) (\<lambda>ma.
     rbind (validate_shift_cap (kwarg kw (u ''max_dominance_shift'') DEFAULT_MAX_SHIFT)
       (u ''max_dominance_shift'')) (\<lambda>md.
     rbind (validate_range (kwarg kw (u ''negative_pleasure_threshold'')
       DEFAULT_NEGATIVE_PLEASURE_THRESHOLD) (u ''negative_pleasure_threshold'') (-1) 1) (\<lambda>np.
     rbind (validate_range (kwarg kw (u ''positive_pleasure_threshold'')
       DEFAULT_POSITIVE_PLEASURE_THRESHOLD) (u ''positive_pleasure_threshold'') (-1) 1) (\<lambda>pp.
     rbind (guard (\<not> np \<ge> pp) (ConfigOrder (u ''positive_pleasure_threshold''))) (\<lambda>_.
     rbind (validate_range (kwarg kw (u ''tension_increase'') DEFAULT_TENSION_INCREASE)
       (u ''tension_increase'') 0 1) (\<lambda>ti.
     rbind (validate_range (kwarg kw (u ''tension_relief'') DEFAULT_TENSION_RELIEF)
       (u ''tension_relief'') 0 1) (\<lambda>tr.
     rbind (validate_range (kwarg kw (u ''activation_threshold'') DEFAULT_ACTIVATION_THRESHOLD)
       (u ''activation_threshold'') 0 1) (\<lambda>act.
     rbind (validate_range (kwarg kw (u ''recovery_threshold'') DEFAULT_RECOVERY_THRESHOLD)
       (u ''recovery_threshold'') 0 1) (\<lambda>rt.
     rbind (guard (\<not> rt \<ge> act) (ConfigOrder (u ''activation_threshold''))) (\<lambda>_.
     rbind (validate_range (kwarg kw (u ''dissociation_arousal_factor'')
       DEFAULT_DISSOCIATION_AROUSAL_FACTOR) (u ''dissociation_arousal_factor'') 0 1) (\<lambda>daf.
     Inr \<lparr>tc_pad_half_life = phl, tc_tension_half_life = thl, tc_pad_baseline = pb,
          tc_tension_baseline = tb, tc_max_pleasure_shift = mp, tc_max_arousal_shift = ma,
          tc_max_dominance_shift = md, tc_negative_pleasure_threshold = np,
          tc_positive_pleasure_threshold = pp, tc_tension_increase = ti, tc_tension_relief = tr,
          tc_activation_threshold = act, tc_recovery_threshold = rt,
          tc_dissociation_arousal_factor = daf\<rparr>))))))))))))))))"

definition TransitionConfig_create :: "kwargs \<Rightarrow> domain_error + TransitionConfig" where
  "TransitionConfig_create kw =
     (if filter (\<lambda>k. k \<notin> set CONFIG_FIELDS) (map fst kw) \<noteq> [] then Inl ConfigUnexpected
      else TransitionConfig_init kw)"

definition TransitionConfig_defaults :: "domain_error + TransitionConfig" where
  "TransitionConfig_defaults = TransitionConfig_init []"

definition valid_config :: "TransitionConfig \<Rightarrow> bool" where
  "valid_config c \<longleftrightarrow>
     0 < tc_pad_half_life c \<and> 0 < tc_tension_half_life c
   \<and> - 1 \<le> tc_pad_baseline c \<and> tc_pad_baseline c \<le> 1
   \<and> 0 \<le> tc_tension_baseline c \<and> tc_tension_baseline c \<le> 1
   \<and> 0 \<le> tc_max_pleasure_shift c \<and> tc_max_pleasure_shift c \<le> 1
   \<and> 0 \<le> tc_max_arousal_shift c \<and> tc_max_arousal_shift c \<le> 1
   \<and> 0 \<le> tc_max_dominance_shift c \<and> tc_max_dominance_shift c \<le> 1
   \<and> - 1 \<le> tc_negative_pleasure_threshold c
   \<and> tc_negative_pleasure_threshold c < tc_positive_pleasure_threshold c
   \<and> tc_positive_pleasure_threshold c \<le> 1
   \<and> 0 \<le> tc_tension_increase c \<and> tc_tension_increase c \<le> 1
   \<and> 0 \<le> tc_tension_relief c \<and> tc_tension_relief c \<le> 1
   \<and> 0 \<le> tc_recovery_threshold c
   \<and> tc_recovery_threshold c < tc_activation_threshold c \<and> tc_activation_threshold c \<le> 1
   \<and> 0 \<le> tc_dissociation_arousal_factor c \<and> tc_dissociation_arousal_factor c \<le> 1"

section \<open>RegulationResult and TransitionResult\<close>

record RegulationResult =
  rr_previous_mode :: pystr
  rr_current_mode :: pystr
  rr_changed :: bool
  rr_reason :: RegulationReason

definition require_mode :: "pyobj \<Rightarrow> pystr \<Rightarrow> domain_error + pystr" where
  "require_mode v name = (case v of
     PStr m \<Rightarrow> if m \<notin> set VALID_COPING_MODES then Inl (RegulationInvalid name) else Inr m
   | _ \<Rightarrow> Inl (RegulationInvalid name))"

definition RegulationResult_init ::
  "pyobj \<Rightarrow> pyobj \<Rightarrow> pyobj \<Rightarrow> RegulationReason arg \<Rightarrow> domain_error + RegulationResult" where
  "RegulationResult_init previous_mode current_mode changed reason =
     rbind (require_mode previous_mode (u ''previous_mode'')) (\<lambda>pm.
     rbind (require_mode current_mode (u ''current_mode'')) (\<lambda>cm.
     (case changed of
        PBool ch \<Rightarrow>
          rbind (guard (ch = (pm \<noteq> cm)) (RegulationInvalid (u ''changed''))) (\<lambda>_.
          (case reason of
             NotInst \<Rightarrow> Inl (RegulationInvalid (u ''reason''))
           | Inst r \<Rightarrow>
               if \<not> ch \<and> r \<noteq> NONE then Inl (RegulationInvalid (u ''reason''))
               else if ch \<and> r = NONE then Inl (RegulationInvalid (u ''reason''))
               else if r = RECOVERED \<and> cm \<noteq> u ''HEALTHY'' then Inl (RegulationInvalid (u ''reason''))
               else if r = HIGH_TENSION_POSITIVE_DOMINANCE \<and> cm \<noteq> u ''DEFENSIVE''
               then Inl (RegulationInvalid (u ''reason''))
               else if r = HIGH_TENSION_NONPOSITIVE_DOMINANCE \<and> cm \<noteq> u ''DISSOCIATED''
               then Inl (RegulationInvalid (u ''reason''))
               else Inr \<lparr>rr_previous_mode = pm, rr_current_mode = cm, rr_changed = ch, rr_reason = r\<rparr>))
      | _ \<Rightarrow> Inl (RegulationInvalid (u ''changed'')))))"

definition RegulationResult_to_dict :: "RegulationResult \<Rightarrow> pyobj" where
  "RegulationResult_to_dict r = PDict
     [(PStr (u ''previous_mode''), PStr (rr_previous_mode r)),
      (PStr (u ''current_mode''), PStr (rr_current_mode r)),
      (PStr (u ''changed''), PBool (rr_changed r)),
      (PStr (u ''reason''), PStr (reason_value (rr_reason r)))]"

record TransitionResult =
  tr_state :: EmotionalStateV1
  tr_regulation :: RegulationResult

definition TransitionResult_init ::
  "EmotionalStateV1 arg \<Rightarrow> RegulationResult arg \<Rightarrow> domain_error + TransitionResult" where
  "TransitionResult_init state regulation = (case state of
     NotInst \<Rightarrow> Inl (WrongArgument (u ''state''))
   | Inst s \<Rightarrow> (case regulation of
       NotInst \<Rightarrow> Inl (WrongArgument (u ''regulation''))
     | Inst r \<Rightarrow> Inr \<lparr>tr_state = s, tr_regulation = r\<rparr>))"

definition TransitionResult_to_dict :: "TransitionResult \<Rightarrow> pyobj" where
  "TransitionResult_to_dict r = PDict
     [(PStr (u ''state''), EmotionalStateV1_to_dict (tr_state r)),
      (PStr (u ''regulation''), RegulationResult_to_dict (tr_regulation r))]"

section \<open>Core maths\<close>

definition exponential_decay :: "(rat \<Rightarrow> rat) \<Rightarrow> rat \<Rightarrow> rat \<Rightarrow> rat \<Rightarrow> rat \<Rightarrow> rat" where
  "exponential_decay pw value baseline elapsed half_life =
     (if half_life \<le> 0 then value
      else let factor = pw (fdiv elapsed half_life)
           in fadd baseline (fmul (fsub value baseline) factor))"

definition clamp :: "rat \<Rightarrow> rat \<Rightarrow> rat \<Rightarrow> rat" where
  "clamp value lo hi = (if value < lo then lo else if value > hi then hi else value)"

definition clamp_shift :: "rat \<Rightarrow> rat \<Rightarrow> rat" where
  "clamp_shift raw_shift cap = clamp raw_shift (- cap) cap"

definition validate_current_time :: "pyobj \<Rightarrow> domain_error + rat" where
  "validate_current_time raw_time =
     (if is_bool raw_time then Inl TimeBool
      else if raw_time = PNone then Inl TimeNone
      else if \<not> is_number raw_time then Inl TimeType
      else (case py_float raw_time of
        None \<Rightarrow> Inl TimeNotConvertible
      | Some f \<Rightarrow>
          if \<not> isfinite f then Inl TimeNonFinite
          else if fin_val f \<le> 0 then Inl TimeNotPositive
          else Inr (fin_val f)))"

definition determine_coping_mode :: "rat \<Rightarrow> rat \<Rightarrow> pystr \<Rightarrow> TransitionConfig \<Rightarrow> pystr" where
  "determine_coping_mode tension dominance previous_mode config =
     (if tension \<ge> tc_activation_threshold config
      then (if dominance > 0 then u ''DEFENSIVE'' else u ''DISSOCIATED'')
      else if tension \<le> tc_recovery_threshold config then u ''HEALTHY''
      else previous_mode)"

section \<open>The transition\<close>

definition transition ::
  "(rat \<Rightarrow> rat) \<Rightarrow> EmotionalStateV1 arg \<Rightarrow> AppraisalV1 arg \<Rightarrow> pyobj \<Rightarrow> TransitionConfig arg
     \<Rightarrow> domain_error + TransitionResult" where
  "transition pw previous_state appraisal current_time config = (case previous_state of
     NotInst \<Rightarrow> Inl (WrongArgument (u ''previous_state''))
   | Inst s \<Rightarrow> (case appraisal of
     NotInst \<Rightarrow> Inl (WrongArgument (u ''appraisal''))
   | Inst a \<Rightarrow> (case config of
     NotInst \<Rightarrow> Inl (WrongArgument (u ''config''))
   | Inst c \<Rightarrow>
     rbind (validate_current_time current_time) (\<lambda>validated_time.
     let (elapsed_seconds, output_timestamp) =
           (if validated_time < es_timestamp s then (0, es_timestamp s)
            else (fsub validated_time (es_timestamp s), validated_time));
         post_decay_pleasure = exponential_decay pw (es_pleasure s) (tc_pad_baseline c)
           elapsed_seconds (tc_pad_half_life c);
         post_decay_arousal = exponential_decay pw (es_arousal s) (tc_pad_baseline c)
           elapsed_seconds (tc_pad_half_life c);
         post_decay_dominance = exponential_decay pw (es_dominance s) (tc_pad_baseline c)
           elapsed_seconds (tc_pad_half_life c);
         post_decay_tension = exponential_decay pw (es_tension s) (tc_tension_baseline c)
           elapsed_seconds (tc_tension_half_life c);
         effective_valence = clamp_shift (ap_valence_shift a) (tc_max_pleasure_shift c);
         effective_arousal = clamp_shift (ap_arousal_shift a) (tc_max_arousal_shift c);
         effective_dominance = clamp_shift (ap_dominance_shift a) (tc_max_dominance_shift c);
         clamped_pleasure = clamp (fadd post_decay_pleasure effective_valence) (-1) 1;
         clamped_arousal = clamp (fadd post_decay_arousal effective_arousal) (-1) 1;
         clamped_dominance = clamp (fadd post_decay_dominance effective_dominance) (-1) 1;
         tension_delta =
           (if clamped_pleasure < tc_negative_pleasure_threshold c then tc_tension_increase c
            else if clamped_pleasure > tc_positive_pleasure_threshold c then - tc_tension_relief c
            else 0);
         clamped_tension = clamp (fadd post_decay_tension tension_delta) 0 1;
         new_coping_mode =
           determine_coping_mode clamped_tension clamped_dominance (es_coping_mode s) c;
         reg_arousal =
           (if new_coping_mode = u ''DISSOCIATED''
            then clamp (fmul clamped_arousal (tc_dissociation_arousal_factor c)) (-1) 1
            else clamped_arousal);
         mode_changed = (es_coping_mode s \<noteq> new_coping_mode);
         reason =
           (if \<not> mode_changed then NONE
            else if new_coping_mode = u ''HEALTHY'' then RECOVERED
            else if new_coping_mode = u ''DEFENSIVE'' then HIGH_TENSION_POSITIVE_DOMINANCE
            else if new_coping_mode = u ''DISSOCIATED'' then HIGH_TENSION_NONPOSITIVE_DOMINANCE
            else NONE)
     in rbind (RegulationResult_init (PStr (es_coping_mode s)) (PStr new_coping_mode)
          (PBool mode_changed) (Inst reason)) (\<lambda>regulation.
        rbind (EmotionalStateV1_create
          \<lparr>arg_pleasure = flt clamped_pleasure, arg_arousal = flt reg_arousal,
           arg_dominance = flt clamped_dominance, arg_libido = flt (es_libido s),
           arg_aggression = flt (es_aggression s), arg_connection = flt (es_connection s),
           arg_energy = flt (es_energy s), arg_tension = flt clamped_tension,
           arg_coping_mode = PStr new_coping_mode, arg_timestamp = flt output_timestamp,
           arg_schema_version = PInt EMOTIONAL_SCHEMA_VERSION\<rparr>) (\<lambda>new_state.
        TransitionResult_init (Inst new_state) (Inst regulation)))))))"

section \<open>Configurations are valid\<close>

lemma require_positive_finite_iff [accept_iff]:
  "require_positive_finite v n = Inr x \<longleftrightarrow> float_value v = Some x \<and> 0 < x"
  by (fastforce simp: require_positive_finite_def em.req_iff split: if_splits)

lemma float_value_not_bool: "float_value v = Some x \<Longrightarrow> \<not> is_bool v"
  by (cases v) auto

lemma validate_not_bool_iff [accept_iff]: "validate_not_bool v n = Inr x \<longleftrightarrow> \<not> is_bool v"
  by (simp add: validate_not_bool_def)

lemma validate_positive_finite_iff [accept_iff]:
  "validate_positive_finite v n = Inr x \<longleftrightarrow> float_value v = Some x \<and> 0 < x"
  by (auto simp: validate_positive_finite_def accept_iff dest: float_value_not_bool)

lemma validate_range_iff [accept_iff]:
  "validate_range v n lo hi = Inr x \<longleftrightarrow> float_value v = Some x \<and> lo \<le> x \<and> x \<le> hi"
  by (auto simp: validate_range_def accept_iff dest: float_value_not_bool)

lemma validate_shift_cap_iff [accept_iff]:
  "validate_shift_cap v n = Inr x \<longleftrightarrow> float_value v = Some x \<and> 0 \<le> x \<and> x \<le> 1"
  by (fastforce simp: validate_shift_cap_def accept_iff not_less split: if_splits
      dest: float_value_not_bool)

lemma config_init_valid: "TransitionConfig_init kw = Inr c \<Longrightarrow> valid_config c"
  by (auto simp: TransitionConfig_init_def accept_iff valid_config_def)

lemma config_create_valid: "TransitionConfig_create kw = Inr c \<Longrightarrow> valid_config c"
  by (auto simp: TransitionConfig_create_def dest: config_init_valid split: if_splits)

definition default_config :: TransitionConfig where
  "default_config = \<lparr>tc_pad_half_life = 3600, tc_tension_half_life = 7200, tc_pad_baseline = 0,
     tc_tension_baseline = 0, tc_max_pleasure_shift = fl (25/100), tc_max_arousal_shift = fl (25/100),
     tc_max_dominance_shift = fl (25/100), tc_negative_pleasure_threshold = - fl (3/10),
     tc_positive_pleasure_threshold = fl (3/10), tc_tension_increase = fl (5/100),
     tc_tension_relief = fl (5/100), tc_activation_threshold = fl (8/10),
     tc_recovery_threshold = fl (3/10), tc_dissociation_arousal_factor = fl (5/10)\<rparr>"

lemma validate_flt [simp]:
  "0 < x \<Longrightarrow> validate_positive_finite (flt x) n = Inr x"
  "lo \<le> x \<Longrightarrow> x \<le> hi \<Longrightarrow> validate_range (flt x) n lo hi = Inr x"
  "0 \<le> x \<Longrightarrow> x \<le> 1 \<Longrightarrow> validate_shift_cap (flt x) n = Inr x"
  by (simp_all add: accept_iff)

lemma default_config_defaults: "TransitionConfig_defaults = Inr default_config"
  unfolding TransitionConfig_defaults_def TransitionConfig_init_def
  by (simp add: kwarg_def transition_defaults default_config_def dbl_literals)

lemma valid_default_config: "valid_config default_config"
  using default_config_defaults config_init_valid unfolding TransitionConfig_defaults_def by blast

section \<open>The transition in closed form\<close>

lemma clamp_bounds [simp]:
  "lo \<le> hi \<Longrightarrow> lo \<le> clamp x lo hi" "lo \<le> hi \<Longrightarrow> clamp x lo hi \<le> hi"
  by (auto simp: clamp_def)

lemma clamp_mono: "lo \<le> hi \<Longrightarrow> x \<le> y \<Longrightarrow> clamp x lo hi \<le> clamp y lo hi"
  by (auto simp: clamp_def)

lemma clamp_id [simp]: "lo \<le> x \<Longrightarrow> x \<le> hi \<Longrightarrow> clamp x lo hi = x"
  by (simp add: clamp_def)

lemma validate_current_time_iff [accept_iff]:
  "validate_current_time v = Inr t \<longleftrightarrow> float_value v = Some t \<and> 0 < t"
  by (cases v rule: float_value.cases)
    (auto simp: validate_current_time_def split: option.splits if_splits)

definition elapsed_at :: "EmotionalStateV1 \<Rightarrow> rat \<Rightarrow> rat" where
  "elapsed_at s t = (if t < es_timestamp s then 0 else fsub t (es_timestamp s))"

definition decayed :: "(rat \<Rightarrow> rat) \<Rightarrow> TransitionConfig \<Rightarrow> rat \<Rightarrow> rat \<Rightarrow> rat" where
  "decayed pw c e x = exponential_decay pw x (tc_pad_baseline c) e (tc_pad_half_life c)"

definition next_pleasure where
  "next_pleasure pw s a t c = clamp (fadd (decayed pw c (elapsed_at s t) (es_pleasure s))
     (clamp_shift (ap_valence_shift a) (tc_max_pleasure_shift c))) (-1) 1"

definition next_raw_arousal where
  "next_raw_arousal pw s a t c = clamp (fadd (decayed pw c (elapsed_at s t) (es_arousal s))
     (clamp_shift (ap_arousal_shift a) (tc_max_arousal_shift c))) (-1) 1"

definition next_dominance where
  "next_dominance pw s a t c = clamp (fadd (decayed pw c (elapsed_at s t) (es_dominance s))
     (clamp_shift (ap_dominance_shift a) (tc_max_dominance_shift c))) (-1) 1"

definition tension_delta :: "TransitionConfig \<Rightarrow> rat \<Rightarrow> rat" where
  "tension_delta c p = (if p < tc_negative_pleasure_threshold c then tc_tension_increase c
     else if p > tc_positive_pleasure_threshold c then - tc_tension_relief c else 0)"

definition next_tension where
  "next_tension pw s a t c = clamp (fadd (exponential_decay pw (es_tension s)
     (tc_tension_baseline c) (elapsed_at s t) (tc_tension_half_life c))
     (tension_delta c (next_pleasure pw s a t c))) 0 1"

definition next_mode where
  "next_mode pw s a t c = determine_coping_mode (next_tension pw s a t c)
     (next_dominance pw s a t c) (es_coping_mode s) c"

definition next_arousal where
  "next_arousal pw s a t c = (if next_mode pw s a t c = u ''DISSOCIATED''
     then clamp (fmul (next_raw_arousal pw s a t c) (tc_dissociation_arousal_factor c)) (-1) 1
     else next_raw_arousal pw s a t c)"

definition next_state where
  "next_state pw s a t c = s\<lparr>es_pleasure := next_pleasure pw s a t c,
     es_arousal := next_arousal pw s a t c, es_dominance := next_dominance pw s a t c,
     es_tension := next_tension pw s a t c, es_coping_mode := next_mode pw s a t c,
     es_timestamp := max t (es_timestamp s)\<rparr>"

definition mode_reason :: "pystr \<Rightarrow> pystr \<Rightarrow> RegulationReason" where
  "mode_reason old new = (if old = new then NONE else if new = u ''HEALTHY'' then RECOVERED
     else if new = u ''DEFENSIVE'' then HIGH_TENSION_POSITIVE_DOMINANCE
     else HIGH_TENSION_NONPOSITIVE_DOMINANCE)"

definition regulation_of :: "pystr \<Rightarrow> pystr \<Rightarrow> RegulationResult" where
  "regulation_of old new = \<lparr>rr_previous_mode = old, rr_current_mode = new,
     rr_changed = (old \<noteq> new), rr_reason = mode_reason old new\<rparr>"

lemma valid_mode_literals [simp]:
  "u ''DEFENSIVE'' \<in> set VALID_COPING_MODES" "u ''DISSOCIATED'' \<in> set VALID_COPING_MODES"
  "u ''HEALTHY'' \<in> set VALID_COPING_MODES" "u ''MANIC'' \<in> set VALID_COPING_MODES"
  by (simp_all add: VALID_COPING_MODES_def)

lemma next_mode_cases:
  "next_mode pw s a t c \<in> {u ''DEFENSIVE'', u ''DISSOCIATED'', u ''HEALTHY'', es_coping_mode s}"
  by (simp add: next_mode_def determine_coping_mode_def)

lemma next_mode_valid: "valid_state s \<Longrightarrow> next_mode pw s a t c \<in> set VALID_COPING_MODES"
  using next_mode_cases [of pw s a t c] by (auto simp: valid_state_def)

lemma next_state_valid: "valid_state s \<Longrightarrow> 0 < t \<Longrightarrow> valid_state (next_state pw s a t c)"
  using next_mode_valid [of s pw a t c]
  by (simp add: valid_state_def next_state_def next_pleasure_def next_arousal_def
      next_raw_arousal_def next_dominance_def next_tension_def)

lemma mode_reason_NONE [simp]: "mode_reason old new = NONE \<longleftrightarrow> old = new"
  by (simp add: mode_reason_def)

lemma regulation_ok:
  assumes "old \<in> set VALID_COPING_MODES"
    and "new \<in> {u ''DEFENSIVE'', u ''DISSOCIATED'', u ''HEALTHY'', old}"
  shows "RegulationResult_init (PStr old) (PStr new) (PBool (old \<noteq> new)) (Inst (mode_reason old new))
     = Inr (regulation_of old new)"
proof (cases "old = new")
  case True
  with assms show ?thesis
    by (simp add: RegulationResult_init_def require_mode_def mode_reason_def regulation_of_def)
next
  case False
  then consider "new = u ''DEFENSIVE''" | "new = u ''DISSOCIATED''" | "new = u ''HEALTHY''"
    using assms(2) by blast
  then show ?thesis
    by cases (use False assms(1) in \<open>simp_all add: RegulationResult_init_def require_mode_def
        mode_reason_def regulation_of_def valid_mode_literals\<close>)
qed

lemma reason_closed:
  "new \<in> {u ''DEFENSIVE'', u ''DISSOCIATED'', u ''HEALTHY'', old} \<Longrightarrow>
   (if \<not> (old \<noteq> new) then NONE else if new = u ''HEALTHY'' then RECOVERED
    else if new = u ''DEFENSIVE'' then HIGH_TENSION_POSITIVE_DOMINANCE
    else if new = u ''DISSOCIATED'' then HIGH_TENSION_NONPOSITIVE_DOMINANCE else NONE)
   = mode_reason old new"
  by (auto simp: mode_reason_def)

lemma transition_closed_form:
  assumes "valid_state s"
  shows "transition pw (Inst s) (Inst a) time (Inst c) =
     rbind (validate_current_time time) (\<lambda>t.
       Inr \<lparr>tr_state = next_state pw s a t c,
            tr_regulation = regulation_of (es_coping_mode s) (next_mode pw s a t c)\<rparr>)"
proof (cases "validate_current_time time")
  case (Inl e)
  then show ?thesis by (simp add: transition_def)
next
  case (Inr t)
  then have t: "0 < t" by (simp add: accept_iff)
  let ?m = "next_mode pw s a t c"
  have d: "denotes_state
          \<lparr>arg_pleasure = flt (next_pleasure pw s a t c), arg_arousal = flt (next_arousal pw s a t c),
           arg_dominance = flt (next_dominance pw s a t c), arg_libido = flt (es_libido s),
           arg_aggression = flt (es_aggression s), arg_connection = flt (es_connection s),
           arg_energy = flt (es_energy s), arg_tension = flt (next_tension pw s a t c),
           arg_coping_mode = PStr ?m, arg_timestamp = flt (max t (es_timestamp s)),
           arg_schema_version = PInt EMOTIONAL_SCHEMA_VERSION\<rparr> (next_state pw s a t c)"
    using assms by (simp add: denotes_state_def next_state_def valid_state_def)
  note create = iffD2 [OF create_state_iff, OF conjI, OF d next_state_valid [OF assms t]]
  have mode: "es_coping_mode s \<in> set VALID_COPING_MODES"
    using assms by (simp add: valid_state_def)
  have p: "(if t < es_timestamp s then (0, es_timestamp s)
      else (fsub t (es_timestamp s), t)) = (elapsed_at s t, max t (es_timestamp s))"
    by (simp add: elapsed_at_def max_def)
  note folds = next_pleasure_def [symmetric] next_raw_arousal_def [symmetric]
    next_dominance_def [symmetric] tension_delta_def [symmetric] next_tension_def [symmetric]
    next_mode_def [symmetric] next_arousal_def [symmetric]
  show ?thesis
    unfolding transition_def arg.case Inr rbind.simps Let_def p prod.case
      decayed_def [symmetric] folds reason_closed [OF next_mode_cases]
      regulation_ok [OF mode next_mode_cases] create TransitionResult_init_def
    by simp
qed

lemma transition_Inr_iff:
  "valid_state s \<Longrightarrow> transition pw (Inst s) (Inst a) time (Inst c) = Inr r \<longleftrightarrow>
     (\<exists>t. float_value time = Some t \<and> 0 < t \<and> r = \<lparr>tr_state = next_state pw s a t c,
        tr_regulation = regulation_of (es_coping_mode s) (next_mode pw s a t c)\<rparr>)"
  by (auto simp: transition_closed_form accept_iff)

section \<open>Decay and shifts under rounding\<close>

text \<open>What C guarantees of \<open>pow(0.5, x)\<close>: one at zero, between zero and one on the non-negative axis.\<close>

definition pow_ok :: "(rat \<Rightarrow> rat) \<Rightarrow> bool" where
  "pow_ok pw \<longleftrightarrow> pw 0 = 1 \<and> (\<forall>x\<ge>0. 0 \<le> pw x \<and> pw x \<le> 1)"

lemma pow_ok_range: "pow_ok pw \<Longrightarrow> 0 \<le> x \<Longrightarrow> 0 \<le> pw x \<and> pw x \<le> 1"
  by (simp add: pow_ok_def)

lemma elapsed_nonneg: "0 \<le> elapsed_at s t"
  by (simp add: elapsed_at_def fsub_def b64.rnd_nonneg)

lemma exponent_nonneg: "0 \<le> e \<Longrightarrow> 0 < h \<Longrightarrow> 0 \<le> fdiv e h"
  by (simp add: fdiv_def b64.rnd_nonneg)

lemma decay_to_zero:
  assumes "is_dbl v" and "0 < h"
  shows "exponential_decay pw v 0 e h = fmul v (pw (fdiv e h))"
  using assms by (simp add: exponential_decay_def float_op_defs is_dbl_def)

lemma decay_contracts:
  assumes "pow_ok pw" and "is_dbl v" and "0 \<le> e" and "0 < h"
  shows "\<bar>exponential_decay pw v 0 e h\<bar> \<le> \<bar>v\<bar>"
  using assms pow_ok_range [OF assms(1) exponent_nonneg [OF assms(3,4)]]
  by (simp add: decay_to_zero fmul_def b64.rnd_contract is_dbl_def)

lemma clamp_shift_bounds:
  "0 \<le> cap \<Longrightarrow> - cap \<le> clamp_shift x cap" "0 \<le> cap \<Longrightarrow> clamp_shift x cap \<le> cap"
  by (auto simp: clamp_shift_def clamp_def)

lemma clamp_shift_zero [simp]: "0 \<le> cap \<Longrightarrow> clamp_shift 0 cap = 0"
  by (simp add: clamp_shift_def)

lemma clamp_abs: "\<bar>clamp x (-1) 1\<bar> \<le> \<bar>x\<bar>"
  by (auto simp: clamp_def)

lemma shifted_between:
  assumes "0 \<le> cap"
  shows "clamp (fsub d cap) (-1) 1 \<le> clamp (fadd d (clamp_shift x cap)) (-1) 1"
    and "clamp (fadd d (clamp_shift x cap)) (-1) 1 \<le> clamp (fadd d cap) (-1) 1"
  using clamp_shift_bounds [OF assms, of x]
  by (auto intro!: clamp_mono fl_mono simp: float_op_defs)

lemma decay_no_shift:
  assumes "pow_ok pw" and "valid_config c" and "tc_pad_baseline c = 0" and "is_dbl v" and "0 \<le> cap"
  shows "\<bar>clamp (fadd (decayed pw c (elapsed_at s t) v) (clamp_shift 0 cap)) (-1) 1\<bar> \<le> \<bar>v\<bar>"
proof -
  let ?d = "decayed pw c (elapsed_at s t) v"
  have h: "0 < tc_pad_half_life c" using assms(2) by (simp add: valid_config_def)
  have "?d = fmul v (pw (fdiv (elapsed_at s t) (tc_pad_half_life c)))"
    using assms(3,4) h by (simp add: decayed_def decay_to_zero)
  then have "fadd ?d (clamp_shift 0 cap) = ?d"
    using assms(5) by (simp add: fadd_def fmul_def)
  moreover have "\<bar>?d\<bar> \<le> \<bar>v\<bar>"
    using decay_contracts [OF assms(1,4) elapsed_nonneg h] assms(3) by (simp add: decayed_def)
  ultimately show ?thesis using clamp_abs order_trans by metis
qed

section \<open>Turns as a step relation\<close>

definition turn_step :: "(rat \<Rightarrow> rat) \<Rightarrow> TransitionConfig \<Rightarrow> EmotionalStateV1 \<Rightarrow> EmotionalStateV1 \<Rightarrow> bool" where
  "turn_step pw c s s' \<longleftrightarrow>
     (\<exists>a time r. transition pw (Inst s) (Inst a) time (Inst c) = Inr r \<and> s' = tr_state r)"

definition starts_neutral :: "EmotionalStateV1 \<Rightarrow> bool" where
  "starts_neutral s \<longleftrightarrow> (\<exists>ts. EmotionalStateV1_neutral ts = Inr s)"

text \<open>What every state of a conversation satisfies.\<close>

definition turn_inv :: "EmotionalStateV1 \<Rightarrow> bool" where
  "turn_inv s \<longleftrightarrow> valid_state s \<and> es_coping_mode s \<noteq> u ''MANIC'' \<and> es_libido s = 0
     \<and> es_aggression s = 0 \<and> es_connection s = 1/2 \<and> es_energy s = fl (8/10)"

lemma neutral_turn_inv: "EmotionalStateV1_neutral ts = Inr s \<Longrightarrow> turn_inv s"
  by (cases s) (auto simp: EmotionalStateV1_neutral_def create_state_iff denotes_state_def turn_inv_def)

lemma next_mode_manic: "next_mode pw s a t c = u ''MANIC'' \<Longrightarrow> es_coping_mode s = u ''MANIC''"
  using next_mode_cases [of pw s a t c] by auto

lemma step_turn_inv: "turn_inv s \<Longrightarrow> turn_step pw c s s' \<Longrightarrow> turn_inv s'"
  by (auto simp: turn_step_def turn_inv_def transition_Inr_iff next_state_valid)
    (auto simp: next_state_def dest: next_mode_manic)

interpretation turns: inductive_invariant starts_neutral "turn_step pw c" turn_inv for pw c
  by unfold_locales (auto simp: starts_neutral_def intro: neutral_turn_inv step_turn_inv)

section \<open>Properties of the transition\<close>

text \<open>C3: on a valid previous state and a valid time the transition always returns; the new
  snapshot is valid, its timestamp never goes back, and the four drives are carried over.\<close>

theorem transition_total_valid:
  assumes "valid_state s" and "float_value time = Some t" and "0 < t"
  shows "\<exists>r. transition pw (Inst s) (Inst a) time (Inst c) = Inr r
     \<and> valid_state (tr_state r)
     \<and> es_timestamp (tr_state r) = max t (es_timestamp s)
     \<and> es_libido (tr_state r) = es_libido s \<and> es_aggression (tr_state r) = es_aggression s
     \<and> es_connection (tr_state r) = es_connection s \<and> es_energy (tr_state r) = es_energy s"
  using assms next_state_valid [OF assms(1,3)]
  by (auto simp: transition_Inr_iff next_state_def)

theorem transition_total_valid_witness:
  "\<exists>r. transition (\<lambda>_. 1) (Inst calm_state) (Inst warm_appraisal) (flt 2000) (Inst default_config)
     = Inr r \<and> valid_state (tr_state r) \<and> es_timestamp (tr_state r) = 2000"
  using transition_total_valid [OF valid_calm_state, of "flt 2000" 2000 "\<lambda>_. 1" warm_appraisal
      default_config]
  by (auto simp: calm_state_def)

text \<open>C30: the transition raises on instances exactly when the time is not a positive finite number.\<close>

theorem transition_error_iff:
  assumes "valid_state s"
  shows "(\<exists>e. transition pw (Inst s) (Inst a) time (Inst c) = Inl e)
     \<longleftrightarrow> (\<forall>t. float_value time = Some t \<longrightarrow> t \<le> 0)"
proof (cases "validate_current_time time")
  case (Inl e)
  then have "\<not> (\<exists>t. float_value time = Some t \<and> 0 < t)"
    using validate_current_time_iff [of time] by auto
  with Inl assms show ?thesis by (auto simp: transition_closed_form not_less)
next
  case (Inr t)
  then have "float_value time = Some t" and "0 < t" by (simp_all add: accept_iff)
  with Inr assms show ?thesis by (simp add: transition_closed_form)
qed

theorem transition_error_iff_witness:
  "\<exists>e. transition (\<lambda>_. 1) (Inst calm_state) (Inst warm_appraisal) (PBool True)
     (Inst default_config) = Inl e"
  using transition_error_iff [OF valid_calm_state] by simp

text \<open>A clock that runs backwards has the effect of no time passing: the result is that of a
  transition at the previous timestamp.\<close>

theorem transition_clock_regression:
  assumes "valid_state s" and "float_value time = Some t" and "0 < t" and "t < es_timestamp s"
  shows "transition pw (Inst s) (Inst a) time (Inst c)
     = transition pw (Inst s) (Inst a) (flt (es_timestamp s)) (Inst c)"
proof -
  have "elapsed_at s t = elapsed_at s (es_timestamp s)"
    using assms(4) by (simp add: elapsed_at_def fsub_def)
  then have n: "next_pleasure pw s a t c = next_pleasure pw s a (es_timestamp s) c"
    "next_raw_arousal pw s a t c = next_raw_arousal pw s a (es_timestamp s) c"
    "next_dominance pw s a t c = next_dominance pw s a (es_timestamp s) c"
    "next_tension pw s a t c = next_tension pw s a (es_timestamp s) c"
    by (simp_all add: next_pleasure_def next_raw_arousal_def next_dominance_def next_tension_def)
  have v: "validate_current_time time = Inr t"
    "validate_current_time (flt (es_timestamp s)) = Inr (es_timestamp s)"
    using assms by (simp_all add: accept_iff valid_state_def)
  show ?thesis
    using assms(1,4) n v
    by (simp add: transition_closed_form next_state_def next_arousal_def next_mode_def)
qed

theorem transition_clock_regression_witness:
  "transition (\<lambda>_. 1) (Inst calm_state) (Inst warm_appraisal) (flt 7) (Inst default_config)
     = transition (\<lambda>_. 1) (Inst calm_state) (Inst warm_appraisal) (flt 1000) (Inst default_config)"
  using transition_clock_regression [OF valid_calm_state, of "flt 7" 7] by (simp add: calm_state_def)

text \<open>C27: the returned mode is the one the returned tension and dominance call for: at or above the
  activation threshold DEFENSIVE or DISSOCIATED by the sign of dominance, at or below the recovery
  threshold HEALTHY, in between the previous mode; the regulation report agrees with it, and MANIC
  is never entered.\<close>

theorem transition_mode_exact:
  assumes "valid_state s"
    and "transition pw (Inst s) (Inst a) time (Inst c) = Inr r"
  shows "es_coping_mode (tr_state r) =
        (if es_tension (tr_state r) \<ge> tc_activation_threshold c
         then (if es_dominance (tr_state r) > 0 then u ''DEFENSIVE'' else u ''DISSOCIATED'')
         else if es_tension (tr_state r) \<le> tc_recovery_threshold c then u ''HEALTHY''
         else es_coping_mode s)
     \<and> rr_previous_mode (tr_regulation r) = es_coping_mode s
     \<and> rr_current_mode (tr_regulation r) = es_coping_mode (tr_state r)
     \<and> rr_changed (tr_regulation r) = (es_coping_mode (tr_state r) \<noteq> es_coping_mode s)
     \<and> (rr_reason (tr_regulation r) = NONE) = (es_coping_mode (tr_state r) = es_coping_mode s)
     \<and> (es_coping_mode (tr_state r) = u ''MANIC'' \<longrightarrow> es_coping_mode s = u ''MANIC'')"
  unfolding determine_coping_mode_def [symmetric]
  using assms
  by (auto simp: transition_Inr_iff next_state_def next_mode_def [symmetric] regulation_of_def
      dest: next_mode_manic)

theorem transition_mode_exact_witness:
  "\<exists>r. transition (\<lambda>_. 1) (Inst (calm_state\<lparr>es_tension := 1, es_dominance := -1\<rparr>))
      (Inst warm_appraisal) (flt 2000) (Inst default_config) = Inr r
     \<and> rr_previous_mode (tr_regulation r) = u ''HEALTHY''"
proof -
  let ?s = "calm_state\<lparr>es_tension := 1, es_dominance := -1\<rparr>"
  have v: "valid_state ?s" using valid_calm_state by (simp add: valid_state_def)
  obtain r where r: "transition (\<lambda>_. 1) (Inst ?s) (Inst warm_appraisal) (flt 2000)
      (Inst default_config) = Inr r"
    using v by (simp add: transition_Inr_iff)
  then show ?thesis
    using transition_mode_exact [OF v r] by (simp add: calm_state_def)
qed

text \<open>Two appraisals with the same scalar shifts give the same transition, whatever their
  discrete emotions.\<close>

theorem transition_ignores_emotions:
  "transition pw s (Inst (a\<lparr>ap_discrete_emotions := es\<rparr>)) time c = transition pw s (Inst a) time c"
  by (simp add: transition_def split: arg.splits)

text \<open>C29: one appraisal moves pleasure and dominance at most by the configured cap from their decayed
  values, up to the rounding of that sum, and arousal too unless dissociation scales it.\<close>

theorem transition_bounded_shift:
  assumes "valid_state s" and "valid_config c"
    and "transition pw (Inst s) (Inst a) time (Inst c) = Inr r"
    and "float_value time = Some t"
  shows "clamp (fsub (decayed pw c (elapsed_at s t) (es_pleasure s)) (tc_max_pleasure_shift c)) (-1) 1
       \<le> es_pleasure (tr_state r)
     \<and> es_pleasure (tr_state r)
       \<le> clamp (fadd (decayed pw c (elapsed_at s t) (es_pleasure s)) (tc_max_pleasure_shift c)) (-1) 1
     \<and> clamp (fsub (decayed pw c (elapsed_at s t) (es_dominance s)) (tc_max_dominance_shift c)) (-1) 1
       \<le> es_dominance (tr_state r)
     \<and> es_dominance (tr_state r)
       \<le> clamp (fadd (decayed pw c (elapsed_at s t) (es_dominance s)) (tc_max_dominance_shift c)) (-1) 1
     \<and> (es_coping_mode (tr_state r) \<noteq> u ''DISSOCIATED'' \<longrightarrow>
         clamp (fsub (decayed pw c (elapsed_at s t) (es_arousal s)) (tc_max_arousal_shift c)) (-1) 1
           \<le> es_arousal (tr_state r)
         \<and> es_arousal (tr_state r)
           \<le> clamp (fadd (decayed pw c (elapsed_at s t) (es_arousal s)) (tc_max_arousal_shift c)) (-1) 1)"
  using assms
  by (auto simp: transition_Inr_iff next_state_def next_pleasure_def next_dominance_def
      next_arousal_def next_raw_arousal_def valid_config_def intro!: shifted_between)

theorem transition_bounded_shift_witness:
  "\<exists>r. transition (\<lambda>_. 1) (Inst calm_state) (Inst warm_appraisal) (flt 1000) (Inst default_config)
      = Inr r
     \<and> es_pleasure (tr_state r) \<le> clamp (fadd (decayed (\<lambda>_. 1) default_config
         (elapsed_at calm_state 1000) (1/4)) (tc_max_pleasure_shift default_config)) (-1) 1"
proof -
  obtain r where r: "transition (\<lambda>_. 1) (Inst calm_state) (Inst warm_appraisal) (flt 1000)
      (Inst default_config) = Inr r"
    using valid_calm_state by (simp add: transition_Inr_iff)
  then show ?thesis
    using transition_bounded_shift [OF valid_calm_state valid_default_config r, of 1000]
    by (simp add: calm_state_def)
qed

text \<open>With the baseline at zero, a neutral appraisal never moves any of the three axes further
  from neutral, whatever time has passed.\<close>

theorem transition_neutral_decays:
  assumes "pow_ok pw" and "valid_config c" and "tc_pad_baseline c = 0" and "valid_state s"
    and "is_dbl (es_pleasure s)" and "is_dbl (es_arousal s)" and "is_dbl (es_dominance s)"
    and "AppraisalV1_neutral = Inr a"
    and "transition pw (Inst s) (Inst a) time (Inst c) = Inr r"
  shows "\<bar>es_pleasure (tr_state r)\<bar> \<le> \<bar>es_pleasure s\<bar>
     \<and> \<bar>es_dominance (tr_state r)\<bar> \<le> \<bar>es_dominance s\<bar>
     \<and> \<bar>es_arousal (tr_state r)\<bar> \<le> \<bar>es_arousal s\<bar>"
proof -
  obtain t where r: "tr_state r = next_state pw s a t c"
    using assms(4,9) by (auto simp: transition_Inr_iff)
  have a: "ap_valence_shift a = 0" "ap_arousal_shift a = 0" "ap_dominance_shift a = 0"
    using assms(8) by (auto simp: neutral_appraisal)
  have caps: "0 \<le> tc_max_pleasure_shift c" "0 \<le> tc_max_arousal_shift c"
    "0 \<le> tc_max_dominance_shift c" "0 \<le> tc_dissociation_arousal_factor c"
    "tc_dissociation_arousal_factor c \<le> 1"
    using assms(2) by (auto simp: valid_config_def)
  note shrink = decay_no_shift [OF assms(1,2,3)]
  have ar: "\<bar>next_raw_arousal pw s a t c\<bar> \<le> \<bar>es_arousal s\<bar>"
    using shrink [OF assms(6) caps(2)] by (simp add: next_raw_arousal_def a)
  have "fl (next_raw_arousal pw s a t c) = next_raw_arousal pw s a t c"
    by (simp add: next_raw_arousal_def fadd_def clamp_def)
  from b64.rnd_contract [OF this caps(4,5)] ar
  have "\<bar>next_arousal pw s a t c\<bar> \<le> \<bar>es_arousal s\<bar>"
    by (auto simp: next_arousal_def fmul_def intro: order_trans [OF clamp_abs])
  then show ?thesis
    using shrink [OF assms(5) caps(1)] shrink [OF assms(7) caps(3)]
    by (simp add: r next_state_def next_pleasure_def next_dominance_def a)
qed

definition step_pow :: "rat \<Rightarrow> rat" where
  "step_pow x = (if x = 0 then 1 else 1/2)"

lemma pow_ok_step_pow: "pow_ok step_pow"
  by (simp add: pow_ok_def step_pow_def)

lemma dbl_quarter: "is_dbl (1/4)"
  by (simp add: is_dbl_def dbl_literals)

theorem transition_neutral_decays_witness:
  "\<exists>a r. AppraisalV1_neutral = Inr a
     \<and> transition step_pow (Inst calm_state) (Inst a) (flt 4600) (Inst default_config) = Inr r
     \<and> \<bar>es_pleasure (tr_state r)\<bar> \<le> 1/4"
proof -
  obtain a where a: "AppraisalV1_neutral = Inr a" by (simp add: neutral_appraisal)
  obtain r where r: "transition step_pow (Inst calm_state) (Inst a) (flt 4600)
      (Inst default_config) = Inr r"
    using valid_calm_state by (simp add: transition_Inr_iff)
  have b: "tc_pad_baseline default_config = 0" by (simp add: default_config_def)
  have d: "is_dbl (es_pleasure calm_state)" "is_dbl (es_arousal calm_state)"
    "is_dbl (es_dominance calm_state)"
    by (simp_all add: calm_state_def is_dbl_def dbl_literals)
  have "\<bar>es_pleasure (tr_state r)\<bar> \<le> \<bar>es_pleasure calm_state\<bar>"
    using transition_neutral_decays [OF pow_ok_step_pow valid_default_config b valid_calm_state d a r]
    by simp
  then have "\<bar>es_pleasure (tr_state r)\<bar> \<le> 1/4" by (simp add: calm_state_def)
  with a r show ?thesis by blast
qed

text \<open>C28: in a conversation that starts from the neutral snapshot and goes through any number of
  transitions, whatever the appraisals, clocks and configuration, every snapshot is valid, the
  mode is never MANIC and the four drives keep their neutral values.\<close>

theorem conversation_invariant:
  assumes "reachable starts_neutral (turn_step pw c) s"
  shows "valid_state s \<and> es_coping_mode s \<noteq> u ''MANIC'' \<and> es_libido s = 0
     \<and> es_aggression s = 0 \<and> es_connection s = 1/2 \<and> es_energy s = fl (8/10)"
  using turns.reachable_inv [OF assms] unfolding turn_inv_def by simp

theorem conversation_invariant_witness:
  "\<exists>s. reachable starts_neutral (turn_step step_pow default_config) s \<and> valid_state s"
proof -
  have "float_value (flt 5) = Some 5" by simp
  then have "\<exists>s. EmotionalStateV1_neutral (flt 5) = Inr s"
    by (simp add: EmotionalStateV1_neutral_def create_eq_validate validate_state_fields_def accept_iff
        dbl_literals require_coping_mode_def VALID_COPING_MODES_def EMOTIONAL_SCHEMA_VERSION_def
        require_in_range_flt require_positive_flt require_schema_version_def)
  then obtain s where "starts_neutral s" unfolding starts_neutral_def by blast
  then have "reachable starts_neutral (turn_step step_pow default_config) s" by (rule reach_start)
  with conversation_invariant show ?thesis by blast
qed

text \<open>With no time elapsed the decay is the identity when the baseline is zero; with another
  baseline it is not, because \<open>value - baseline\<close> is rounded: from \<open>2 ** -60\<close> with baseline
  \<open>1.0\<close> it gives \<open>0.0\<close>.\<close>

theorem decay_at_rest:
  assumes "pow_ok pw" and "is_dbl v" and "0 < h"
  shows "exponential_decay pw v 0 0 h = v
     \<and> exponential_decay pw (1 / 2 ^ 60) 1 0 h = 0 \<and> is_dbl (1 / 2 ^ 60)"
proof -
  have "fl (1 / 2 ^ 60 - 1) = - 1" and d: "is_dbl (1 / 2 ^ 60)" by code_simp+
  then show ?thesis
    using assms by (simp add: exponential_decay_def float_op_defs pow_ok_def is_dbl_def)
qed

theorem decay_at_rest_witness:
  "exponential_decay step_pow (1/4) 0 0 3600 = 1/4 \<and> exponential_decay step_pow (1 / 2 ^ 60) 1 0 3600 = 0"
  using decay_at_rest [OF pow_ok_step_pow dbl_quarter, of 3600] by simp

end
