(* ===== verification/Appraisal_Parser.thy ===== *)
theory Appraisal_Parser
  imports Emotional_Models
begin

text \<open>
  \<open>backend/emotional_domain/appraisal_parser.py\<close>: from untrusted model output to an appraisal.
  The exceptions of the module are the values of \<open>parse_exc\<close>; the public function catches them.
\<close>

section \<open>Codes and results\<close>

datatype ParseErrorCode =
    invalid_structure
  | unknown_top_level_key
  | missing_required_field
  | conflicting_aliases
  | invalid_numeric_value
  | unsupported_emotion
  | unexpected_parser_failure

record ParseResult =
  pr_appraisal :: AppraisalV1
  pr_is_fallback :: bool
  pr_error_code :: "ParseErrorCode option"

text \<open>The three \<open>except\<close> clauses of the public function tell these apart.\<close>

datatype parse_exc =
    ParserFailure ParseErrorCode
  | DomainExc domain_error
  | OtherExc

definition ALLOWED_TOP_LEVEL_KEYS :: "pystr list" where
  "ALLOWED_TOP_LEVEL_KEYS = map u [''valence_shift'', ''arousal_shift'', ''dominance_shift'',
     ''discrete_emotions'', ''valence'', ''triggered_emotions'']"

definition REQUIRED_SHIFTS :: "pystr list" where
  "REQUIRED_SHIFTS = map u [''valence_shift'', ''arousal_shift'', ''dominance_shift'']"

section \<open>Helpers\<close>

definition validate_normalize_shift :: "pyobj \<Rightarrow> pystr \<Rightarrow> parse_exc + rat" where
  "validate_normalize_shift value field_name =
     with_error (\<lambda>_. ParserFailure invalid_numeric_value)
       (require_finite_float_in_range value field_name (-1) 1)"

text \<open>The loop over a mapping: a non-string key fails, an unknown emotion is skipped.\<close>

fun normalize_emotion_items :: "(pyobj \<times> pyobj) list \<Rightarrow> emotions \<Rightarrow> parse_exc + emotions" where
  "normalize_emotion_items [] result = Inr result"
| "normalize_emotion_items ((k, v) # items) result = (case k of
     PStr e \<Rightarrow>
       if e \<notin> set DISCRETE_EMOTIONS then normalize_emotion_items items result
       else rbind (with_error (\<lambda>_. ParserFailure invalid_numeric_value)
           (require_finite_float_in_range v (emotion_field e) 0 1))
         (\<lambda>x. normalize_emotion_items items (AList.update e x result))
   | _ \<Rightarrow> Inl (ParserFailure unsupported_emotion))"

definition validate_normalize_emotions :: "pyobj \<Rightarrow> parse_exc + emotions" where
  "validate_normalize_emotions value = (case value of
     PDict d \<Rightarrow> normalize_emotion_items d []
   | _ \<Rightarrow> Inl (ParserFailure unsupported_emotion))"

text \<open>\<open>None\<close> is the sentinel \<open>_ABSENT\<close>: the key was not in the payload.\<close>

definition parse_discrete_emotions :: "pyobj option \<Rightarrow> parse_exc + emotions" where
  "parse_discrete_emotions de_raw = (case de_raw of
     None \<Rightarrow> Inr []
   | Some (PDict d) \<Rightarrow> normalize_emotion_items d []
   | Some _ \<Rightarrow> Inl (ParserFailure unsupported_emotion))"

definition py_item :: "(pyobj \<times> pyobj) list \<Rightarrow> pystr \<Rightarrow> parse_exc + pyobj" where
  "py_item d k = (case map_of d (PStr k) of None \<Rightarrow> Inl OtherExc | Some v \<Rightarrow> Inr v)"

text \<open>
  One alias pair: both present, each side is normalised and the two must agree; the alias alone is
  popped and stored under the canonical name.
\<close>

definition translate_valence ::
  "(pyobj \<times> pyobj) list \<Rightarrow> (pyobj \<times> pyobj) list \<Rightarrow> parse_exc + (pyobj \<times> pyobj) list" where
  "translate_valence raw result =
     (case map_of raw (PStr (u ''valence'')) of
        None \<Rightarrow> Inr result
      | Some alias \<Rightarrow> (case map_of raw (PStr (u ''valence_shift'')) of
          Some canonical \<Rightarrow>
            rbind (validate_normalize_shift alias (u ''valence'')) (\<lambda>alias_norm.
            rbind (validate_normalize_shift canonical (u ''valence_shift'')) (\<lambda>canonical_norm.
            if alias_norm \<noteq> canonical_norm then Inl (ParserFailure conflicting_aliases)
            else Inr (AList.delete (PStr (u ''valence'')) result)))
        | None \<Rightarrow> Inr (AList.update (PStr (u ''valence_shift'')) alias
            (AList.delete (PStr (u ''valence'')) result))))"

definition translate_emotions ::
  "(pyobj \<times> pyobj) list \<Rightarrow> (pyobj \<times> pyobj) list \<Rightarrow> parse_exc + (pyobj \<times> pyobj) list" where
  "translate_emotions raw result =
     (case map_of raw (PStr (u ''triggered_emotions'')) of
        None \<Rightarrow> Inr result
      | Some alias \<Rightarrow> (case map_of raw (PStr (u ''discrete_emotions'')) of
          Some canonical \<Rightarrow>
            rbind (validate_normalize_emotions alias) (\<lambda>alias_norm.
            rbind (validate_normalize_emotions canonical) (\<lambda>canonical_norm.
            if \<not> dict_eq alias_norm canonical_norm then Inl (ParserFailure conflicting_aliases)
            else Inr (AList.delete (PStr (u ''triggered_emotions'')) result)))
        | None \<Rightarrow> Inr (AList.update (PStr (u ''discrete_emotions'')) alias
            (AList.delete (PStr (u ''triggered_emotions'')) result))))"

definition translate_aliases :: "(pyobj \<times> pyobj) list \<Rightarrow> parse_exc + (pyobj \<times> pyobj) list" where
  "translate_aliases raw = rbind (translate_valence raw raw) (translate_emotions raw)"

section \<open>The parser\<close>

definition do_parse :: "pyobj \<Rightarrow> parse_exc + ParseResult" where
  "do_parse raw = (case raw of
     PDict d \<Rightarrow>
       rbind (guard (unknown_keys d ALLOWED_TOP_LEVEL_KEYS = [])
         (ParserFailure unknown_top_level_key)) (\<lambda>_.
       rbind (translate_aliases d) (\<lambda>translated.
       rbind (guard (missing_keys translated REQUIRED_SHIFTS = [])
         (ParserFailure missing_required_field)) (\<lambda>_.
       rbind (py_item translated (u ''valence_shift'')) (\<lambda>v.
       rbind (validate_normalize_shift v (u ''valence_shift'')) (\<lambda>valence_shift.
       rbind (py_item translated (u ''arousal_shift'')) (\<lambda>ar.
       rbind (validate_normalize_shift ar (u ''arousal_shift'')) (\<lambda>arousal_shift.
       rbind (py_item translated (u ''dominance_shift'')) (\<lambda>dm.
       rbind (validate_normalize_shift dm (u ''dominance_shift'')) (\<lambda>dominance_shift.
       rbind (parse_discrete_emotions (map_of translated (PStr (u ''discrete_emotions''))))
         (\<lambda>filtered_emotions.
       rbind (with_error DomainExc (AppraisalV1_create (flt valence_shift) (flt arousal_shift)
           (flt dominance_shift) (Some (PDict (emotions_items filtered_emotions)))
           (PInt EMOTIONAL_SCHEMA_VERSION))) (\<lambda>appraisal.
       Inr \<lparr>pr_appraisal = appraisal, pr_is_fallback = False, pr_error_code = None\<rparr>)))))))))))
   | _ \<Rightarrow> Inl (ParserFailure invalid_structure))"

definition fallback :: "ParseErrorCode \<Rightarrow> domain_error + ParseResult" where
  "fallback code = rbind AppraisalV1_neutral
     (\<lambda>a. Inr \<lparr>pr_appraisal = a, pr_is_fallback = True, pr_error_code = Some code\<rparr>)"

definition parse_llm_appraisal :: "pyobj \<Rightarrow> domain_error + ParseResult" where
  "parse_llm_appraisal raw = (case do_parse raw of
     Inr r \<Rightarrow> Inr r
   | Inl (ParserFailure code) \<Rightarrow> fallback code
   | Inl (DomainExc _) \<Rightarrow> fallback invalid_numeric_value
   | Inl OtherExc \<Rightarrow> fallback unexpected_parser_failure)"

section \<open>Lemmas\<close>

definition neutral_value :: AppraisalV1 where
  "neutral_value = \<lparr>ap_valence_shift = 0, ap_arousal_shift = 0, ap_dominance_shift = 0,
     ap_discrete_emotions = [], ap_schema_version = EMOTIONAL_SCHEMA_VERSION\<rparr>"

lemma fallback_eq [simp]:
  "fallback code = Inr \<lparr>pr_appraisal = neutral_value, pr_is_fallback = True, pr_error_code = Some code\<rparr>"
  by (simp add: fallback_def neutral_appraisal neutral_value_def)

lemma valid_neutral_value [simp]: "valid_appraisal neutral_value"
  by (simp add: valid_appraisal_def neutral_value_def)

lemma validate_normalize_shift_iff [accept_iff]:
  "validate_normalize_shift v n = Inr x \<longleftrightarrow> float_value v = Some x \<and> - 1 \<le> x \<and> x \<le> 1"
  by (simp add: validate_normalize_shift_def require_in_range_iff)

lemma validate_normalize_shift_error:
  "validate_normalize_shift v n = Inl e \<Longrightarrow> e = ParserFailure invalid_numeric_value"
  by (simp add: validate_normalize_shift_def)

lemma py_item_iff [accept_iff]: "py_item d k = Inr v \<longleftrightarrow> map_of d (PStr k) = Some v"
  by (simp add: py_item_def split: option.splits)

lemma normalize_emotion_items_valid:
  "normalize_emotion_items items r = Inr es \<Longrightarrow> valid_emotions r \<Longrightarrow> valid_emotions es"
proof (induction items r rule: normalize_emotion_items.induct)
  case (2 k v items r)
  then show ?case
    by (auto simp: require_in_range_iff split: pyobj.splits if_splits
        intro: valid_emotions_update)
qed simp

lemma normalize_emotion_items_error:
  "normalize_emotion_items items r = Inl e \<Longrightarrow>
     e \<in> {ParserFailure invalid_numeric_value, ParserFailure unsupported_emotion}"
  by (induction items r rule: normalize_emotion_items.induct)
    (auto simp: rbind_Inl_iff split: pyobj.splits if_splits)

lemma parse_discrete_emotions_valid: "parse_discrete_emotions m = Inr es \<Longrightarrow> valid_emotions es"
  by (auto simp: parse_discrete_emotions_def split: option.splits pyobj.splits
      dest: normalize_emotion_items_valid)

lemma parse_discrete_emotions_error:
  "parse_discrete_emotions m = Inl e \<Longrightarrow>
     e \<in> {ParserFailure invalid_numeric_value, ParserFailure unsupported_emotion}"
  by (auto simp: parse_discrete_emotions_def split: option.splits pyobj.splits
      dest: normalize_emotion_items_error)

text \<open>On a mapping of known emotions the lenient loop and the strict one agree.\<close>

lemma normalize_known_items:
  "valid_emotions es \<Longrightarrow> fst ` set r \<inter> fst ` set es = {}
     \<Longrightarrow> normalize_emotion_items (emotions_items es) r = Inr (r @ es)"
proof (induction es arbitrary: r)
  case (Cons p es)
  obtain e x where p: "p = (e, x)" by (cases p)
  have v: "require_finite_float_in_range (flt x) (emotion_field e) 0 1 = Inr x"
    using Cons.prems by (simp add: require_in_range_iff valid_emotions_def p)
  have "normalize_emotion_items (emotions_items es) (AList.update e x r) = Inr (AList.update e x r @ es)"
    using Cons.prems
    by (intro Cons.IH) (auto simp: valid_emotions_def p update_fresh image_iff)
  then show ?case
    using Cons.prems v by (simp add: emotions_items_def p valid_emotions_def update_fresh)
qed (simp add: emotions_items_def)

lemma create_from_parsed:
  assumes "valid_emotions es" and "- 1 \<le> v" "v \<le> 1" "- 1 \<le> ar" "ar \<le> 1" "- 1 \<le> d" "d \<le> 1"
  shows "AppraisalV1_create (flt v) (flt ar) (flt d) (Some (PDict (emotions_items es)))
     (PInt EMOTIONAL_SCHEMA_VERSION) = Inr \<lparr>ap_valence_shift = v, ap_arousal_shift = ar,
       ap_dominance_shift = d, ap_discrete_emotions = es, ap_schema_version = EMOTIONAL_SCHEMA_VERSION\<rparr>"
  using appraisal_create_rebuild [of "\<lparr>ap_valence_shift = v, ap_arousal_shift = ar,
       ap_dominance_shift = d, ap_discrete_emotions = es, ap_schema_version = EMOTIONAL_SCHEMA_VERSION\<rparr>"]
    assms by (simp add: valid_appraisal_def)

text \<open>The step after the key check, on a dict that carries only canonical names.\<close>

lemma do_parse_success:
  "do_parse raw = Inr r \<Longrightarrow> valid_appraisal (pr_appraisal r) \<and> \<not> pr_is_fallback r \<and> pr_error_code r = None"
  by (cases raw) (auto simp: do_parse_def dest: appraisal_create_valid)

lemma translate_valence_error:
  "translate_valence d r = Inl e \<Longrightarrow>
     e \<in> {ParserFailure invalid_numeric_value, ParserFailure conflicting_aliases}"
  by (auto simp: translate_valence_def rbind_Inl_iff split: option.splits if_splits
      dest: validate_normalize_shift_error)

lemma translate_emotions_error:
  "translate_emotions d r = Inl e \<Longrightarrow> e \<in> {ParserFailure invalid_numeric_value,
     ParserFailure unsupported_emotion, ParserFailure conflicting_aliases}"
  by (auto simp: translate_emotions_def validate_normalize_emotions_def rbind_Inl_iff
      split: option.splits if_splits pyobj.splits dest!: normalize_emotion_items_error)

text \<open>After the check of the required keys no lookup can raise.\<close>

lemma py_item_present:
  "missing_keys d REQUIRED_SHIFTS = [] \<Longrightarrow> k \<in> set REQUIRED_SHIFTS \<Longrightarrow> py_item d k \<noteq> Inl e"
  unfolding missing_keys_Nil_iff py_item_def
  by (auto simp: map_of_eq_None_iff split: option.splits)

lemma do_parse_error:
  assumes "do_parse raw = Inl e"
  shows "e \<in> ParserFailure ` {invalid_structure, unknown_top_level_key, missing_required_field,
     conflicting_aliases, invalid_numeric_value, unsupported_emotion}"
proof (cases raw)
  case (PDict d)
  have k: "u ''valence_shift'' \<in> set REQUIRED_SHIFTS" "u ''arousal_shift'' \<in> set REQUIRED_SHIFTS"
    "u ''dominance_shift'' \<in> set REQUIRED_SHIFTS"
    by (simp_all add: REQUIRED_SHIFTS_def)
  show ?thesis
    using assms
    by (auto simp: PDict do_parse_def translate_aliases_def rbind_Inl_iff py_item_present k
        validate_normalize_shift_iff create_from_parsed
        dest!: translate_valence_error translate_emotions_error validate_normalize_shift_error
          parse_discrete_emotions_error parse_discrete_emotions_valid)
qed (use assms in \<open>auto simp: do_parse_def\<close>)

lemma parse_llm_appraisal_Inr: "\<exists>r. parse_llm_appraisal raw = Inr r"
  by (auto simp: parse_llm_appraisal_def split: sum.splits parse_exc.splits)

section \<open>Properties of the parser\<close>

text \<open>C40: the parser never raises: every input gives a result whose appraisal is valid.  A result is
  a fallback exactly when it carries an error code, and then its appraisal is the neutral one; the
  code for unexpected failures is never produced.\<close>

theorem parse_total:
  "\<exists>r. parse_llm_appraisal raw = Inr r \<and> valid_appraisal (pr_appraisal r)
     \<and> pr_is_fallback r = (pr_error_code r \<noteq> None)
     \<and> (pr_is_fallback r \<longrightarrow> AppraisalV1_neutral = Inr (pr_appraisal r))
     \<and> pr_error_code r \<noteq> Some unexpected_parser_failure"
proof (cases "do_parse raw")
  case (Inr r)
  with do_parse_success [of raw r] show ?thesis by (simp add: parse_llm_appraisal_def)
next
  case (Inl e)
  from do_parse_error [OF Inl] Inl show ?thesis
    by (auto simp: parse_llm_appraisal_def neutral_appraisal neutral_value_def [symmetric])
qed

theorem parse_total_witness:
  "\<exists>r. parse_llm_appraisal PNone = Inr r \<and> pr_error_code r = Some invalid_structure
     \<and> AppraisalV1_neutral = Inr (pr_appraisal r)"
proof -
  have "\<exists>a. parse_llm_appraisal PNone = Inr \<lparr>pr_appraisal = a, pr_is_fallback = True,
      pr_error_code = Some invalid_structure\<rparr>"
    using neutral_appraisal by (simp add: parse_llm_appraisal_def do_parse_def fallback_def)
  then show ?thesis using parse_total [of PNone] by fastforce
qed

text \<open>An appraisal written with the canonical keys, or with the legacy keys, is parsed back to
  itself without fallback.\<close>

theorem parse_roundtrip:
  assumes "valid_appraisal a"
    and "kv = ''valence_shift'' \<and> ke = ''discrete_emotions''
       \<or> kv = ''valence'' \<and> ke = ''triggered_emotions''"
  shows "parse_llm_appraisal (PDict
       [(PStr (u kv), flt (ap_valence_shift a)),
        (PStr (u ''arousal_shift''), flt (ap_arousal_shift a)),
        (PStr (u ''dominance_shift''), flt (ap_dominance_shift a)),
        (PStr (u ke), PDict (emotions_items (ap_discrete_emotions a)))])
     = Inr \<lparr>pr_appraisal = a, pr_is_fallback = False, pr_error_code = None\<rparr>"
proof -
  have n: "normalize_emotion_items (emotions_items (ap_discrete_emotions a)) []
      = Inr (ap_discrete_emotions a)"
    using normalize_known_items [of "ap_discrete_emotions a" "[]"] assms(1)
    by (simp add: valid_appraisal_def)
  have s: "validate_normalize_shift (flt x) k = Inr x" if "- 1 \<le> x" "x \<le> 1" for x k
    using that by (simp add: validate_normalize_shift_iff)
  note b = assms(1) [unfolded valid_appraisal_def]
  have c: "AppraisalV1_create (flt (ap_valence_shift a)) (flt (ap_arousal_shift a))
     (flt (ap_dominance_shift a)) (Some (PDict (emotions_items (ap_discrete_emotions a))))
     (PInt EMOTIONAL_SCHEMA_VERSION) = Inr a"
    using appraisal_create_rebuild [OF assms(1)] b by simp
  show ?thesis
    using assms(2) b
    by (elim disjE conjE; hypsubst)
      (simp_all add: parse_llm_appraisal_def do_parse_def unknown_keys_def missing_keys_def
        ALLOWED_TOP_LEVEL_KEYS_def REQUIRED_SHIFTS_def translate_aliases_def translate_valence_def
        translate_emotions_def py_item_def parse_discrete_emotions_def s n c)
qed

theorem parse_roundtrip_witness:
  "parse_llm_appraisal (PDict
       [(PStr (u ''valence''), flt (1/2)), (PStr (u ''arousal_shift''), flt 0),
        (PStr (u ''dominance_shift''), flt (- (1/4))),
        (PStr (u ''triggered_emotions''),
          PDict [(PStr (u ''joy''), flt (3/4)), (PStr (u ''tenderness''), flt (1/2))])])
     = Inr \<lparr>pr_appraisal = warm_appraisal, pr_is_fallback = False, pr_error_code = None\<rparr>"
  using parse_roundtrip [OF valid_warm_appraisal, of "''valence''" "''triggered_emotions''"]
  by (simp add: warm_appraisal_def emotions_items_def)

text \<open>When both names of the valence are present, the parser goes on only if both denote the same
  float in \<open>[-1, 1]\<close>: an invalid side is reported as an invalid number, never as a conflict, and two
  valid but different sides as a conflict.\<close>

theorem parse_valence_conflict:
  assumes "unknown_keys d ALLOWED_TOP_LEVEL_KEYS = []"
    and "map_of d (PStr (u ''valence'')) = Some v" and "map_of d (PStr (u ''valence_shift'')) = Some w"
    and "parse_llm_appraisal (PDict d) = Inr r"
  shows "(validate_normalize_shift v (u ''valence'') = Inl e \<longrightarrow> pr_error_code r = Some invalid_numeric_value)
     \<and> (validate_normalize_shift w (u ''valence_shift'') = Inl e
          \<longrightarrow> pr_error_code r = Some invalid_numeric_value)
     \<and> (\<forall>x y. validate_normalize_shift v (u ''valence'') = Inr x
          \<and> validate_normalize_shift w (u ''valence_shift'') = Inr y \<and> x \<noteq> y
          \<longrightarrow> pr_error_code r = Some conflicting_aliases)"
proof -
  have t: "parse_llm_appraisal (PDict d) = (case rbind (translate_valence d d) (\<lambda>_. Inr ()) of
      Inl (ParserFailure c) \<Rightarrow> fallback c | _ \<Rightarrow> parse_llm_appraisal (PDict d))"
    using assms(1)
    by (cases "translate_valence d d")
      (auto simp: parse_llm_appraisal_def do_parse_def translate_aliases_def split: parse_exc.splits)
  show ?thesis
    using assms(2-4) t
    by (cases "validate_normalize_shift v (u ''valence'')";
        cases "validate_normalize_shift w (u ''valence_shift'')")
      (auto simp: translate_valence_def dest!: validate_normalize_shift_error)
qed

theorem parse_valence_conflict_witness:
  "\<exists>r. parse_llm_appraisal (PDict [(PStr (u ''valence''), PInt 1), (PStr (u ''valence_shift''), PInt 0)])
       = Inr r \<and> pr_error_code r = Some conflicting_aliases"
proof -
  let ?d = "[(PStr (u ''valence''), PInt 1), (PStr (u ''valence_shift''), PInt 0)]"
  obtain r where r: "parse_llm_appraisal (PDict ?d) = Inr r" using parse_llm_appraisal_Inr by blast
  have f: "float_of_int 1 = Some 1" "float_of_int 0 = Some 0" by (simp_all add: float_of_int_def)
  have "unknown_keys ?d ALLOWED_TOP_LEVEL_KEYS = []"
    by (simp add: unknown_keys_def ALLOWED_TOP_LEVEL_KEYS_def)
  from parse_valence_conflict [OF this _ _ r, of "PInt 1" "PInt 0"] f
  have "pr_error_code r = Some conflicting_aliases" by (simp add: validate_normalize_shift_iff)
  with r show ?thesis by blast
qed

end
