(* ===== verification/Emotional_Serialization.thy ===== *)
theory Emotional_Serialization
  imports Emotional_Models
begin

text \<open>
  \<open>backend/emotional_domain/serialization.py\<close> and \<open>migration.py\<close>: snapshots as JSON text and the
  upgrade of snapshots written before the schema was versioned.  The \<open>json\<close> module is a parameter:
  \<open>dumps\<close> writes a value with sorted keys, \<open>loads\<close> reads a text, \<open>None\<close> being its
  \<open>JSONDecodeError\<close>.
\<close>

section \<open>JSON text\<close>

text \<open>Two values that differ at most in the order of the keys of their dicts.\<close>

inductive json_same :: "pyobj \<Rightarrow> pyobj \<Rightarrow> bool" where
  same_refl: "json_same v v"
| same_dict: "distinct (map fst d') \<Longrightarrow> fst ` set d = fst ` set d' \<Longrightarrow>
     (\<And>k v v'. map_of d k = Some v \<Longrightarrow> map_of d' k = Some v' \<Longrightarrow> json_same v v')
     \<Longrightarrow> json_same (PDict d) (PDict d')"

inductive_cases json_same_dictE: "json_same (PDict d) w"
inductive_cases json_same_fltE: "json_same (flt x) w"
inductive_cases json_same_intE: "json_same (PInt n) w"
inductive_cases json_same_strE: "json_same (PStr s) w"

text \<open>What the documentation of \<open>json\<close> promises for a value: it is read back, up to key order.\<close>

definition json_codec :: "(pyobj \<Rightarrow> pystr) \<Rightarrow> (pystr \<Rightarrow> pyobj option) \<Rightarrow> pyobj \<Rightarrow> bool" where
  "json_codec dumps loads v \<longleftrightarrow> (\<exists>w. loads (dumps v) = Some w \<and> json_same v w)"

section \<open>serialization.py\<close>

definition serialize_state ::
  "(pyobj \<Rightarrow> pystr) \<Rightarrow> EmotionalStateV1 arg \<Rightarrow> domain_error + pystr" where
  "serialize_state dumps state = (case state of
     NotInst \<Rightarrow> Inl (WrongArgument (u ''state''))
   | Inst s \<Rightarrow> Inr (dumps (EmotionalStateV1_to_dict s)))"

definition deserialize_state ::
  "(pystr \<Rightarrow> pyobj option) \<Rightarrow> pyobj \<Rightarrow> domain_error + EmotionalStateV1" where
  "deserialize_state loads payload = (case payload of
     PStr text \<Rightarrow> (case loads text of
       None \<Rightarrow> Inl InvalidJson
     | Some data \<Rightarrow> EmotionalStateV1_from_dict data)
   | _ \<Rightarrow> Inl NotAStr)"

definition serialize_appraisal ::
  "(pyobj \<Rightarrow> pystr) \<Rightarrow> AppraisalV1 arg \<Rightarrow> domain_error + pystr" where
  "serialize_appraisal dumps appraisal = (case appraisal of
     NotInst \<Rightarrow> Inl (WrongArgument (u ''appraisal''))
   | Inst a \<Rightarrow> Inr (dumps (AppraisalV1_to_dict a)))"

definition deserialize_appraisal ::
  "(pystr \<Rightarrow> pyobj option) \<Rightarrow> pyobj \<Rightarrow> domain_error + AppraisalV1" where
  "deserialize_appraisal loads payload = (case payload of
     PStr text \<Rightarrow> (case loads text of
       None \<Rightarrow> Inl InvalidJson
     | Some data \<Rightarrow> AppraisalV1_from_dict data)
   | _ \<Rightarrow> Inl NotAStr)"

section \<open>migration.py\<close>

definition LEGACY_EXACT_FIELDS :: "pystr list" where
  "LEGACY_EXACT_FIELDS = map u [''pleasure'', ''arousal'', ''dominance'', ''libido'', ''aggression'',
     ''connection'', ''energy'', ''tension'', ''coping_mode'', ''last_update'']"

definition legacy_args_of_dict :: "(pyobj \<times> pyobj) list \<Rightarrow> domain_error + state_args" where
  "legacy_args_of_dict d =
     rbind (dict_item d (u ''last_update'')) (\<lambda>timestamp.
     rbind (dict_item d (u ''pleasure'')) (\<lambda>p.
     rbind (dict_item d (u ''arousal'')) (\<lambda>a.
     rbind (dict_item d (u ''dominance'')) (\<lambda>dm.
     rbind (dict_item d (u ''libido'')) (\<lambda>l.
     rbind (dict_item d (u ''aggression'')) (\<lambda>ag.
     rbind (dict_item d (u ''connection'')) (\<lambda>c.
     rbind (dict_item d (u ''energy'')) (\<lambda>e.
     rbind (dict_item d (u ''tension'')) (\<lambda>t.
     rbind (dict_item d (u ''coping_mode'')) (\<lambda>cm.
     Inr \<lparr>arg_pleasure = p, arg_arousal = a, arg_dominance = dm, arg_libido = l,
          arg_aggression = ag, arg_connection = c, arg_energy = e, arg_tension = t,
          arg_coping_mode = cm, arg_timestamp = timestamp,
          arg_schema_version = PInt EMOTIONAL_SCHEMA_VERSION\<rparr>))))))))))"

definition migrate_legacy_snapshot :: "pyobj \<Rightarrow> domain_error + EmotionalStateV1" where
  "migrate_legacy_snapshot raw = (case raw of
     PDict data \<Rightarrow>
       rbind (guard (\<not> (has_key data (u ''last_update'') \<and> has_key data (u ''timestamp'')))
         SnapshotConflict) (\<lambda>_.
       (case map_of data (PStr (u ''schema_version'')) of
          Some sv \<Rightarrow>
            rbind (guard (sv \<noteq> PNone) VersionNoneOrBool) (\<lambda>_.
            rbind (guard (\<not> (is_bool sv \<or> \<not> is_int sv)) VersionNotInt) (\<lambda>_.
            rbind (guard (sv = PInt EMOTIONAL_SCHEMA_VERSION)
              (VersionUnsupported (case sv of PInt n \<Rightarrow> n | _ \<Rightarrow> 0))) (\<lambda>_.
            rbind (guard (unknown_keys data STATE_FIELDS = []) UnknownFields) (\<lambda>_.
            rbind (guard (\<not> has_key data (u ''last_update'')) SnapshotConflict) (\<lambda>_.
            EmotionalStateV1_from_dict (PDict data))))))
        | None \<Rightarrow>
            rbind (guard (unknown_keys data LEGACY_EXACT_FIELDS = []) UnknownFields) (\<lambda>_.
            rbind (guard (missing_keys data LEGACY_EXACT_FIELDS = []) MissingFields) (\<lambda>_.
            rbind (legacy_args_of_dict data) EmotionalStateV1_create))))
   | _ \<Rightarrow> Inl NotADict)"

section \<open>Lemmas\<close>

text \<open>The parser looks at a dict only through its keys and their values.\<close>

lemma from_dict_map_of:
  assumes "map_of d = map_of d'"
  shows "EmotionalStateV1_from_dict (PDict d) = EmotionalStateV1_from_dict (PDict d')"
proof -
  have k: "fst ` set d = fst ` set d'" using assms by (rule map_of_eqD)
  have "state_args_of_dict d = state_args_of_dict d'"
    by (simp add: state_args_of_dict_def dict_item_def assms)
  moreover have "unknown_keys d fs = [] \<longleftrightarrow> unknown_keys d' fs = []"
    and "missing_keys d fs = [] \<longleftrightarrow> missing_keys d' fs = []" for fs
    by (simp_all add: unknown_keys_Nil_iff missing_keys_Nil_iff k)
  moreover have "has_key d f = has_key d' f" for f by (simp add: has_key_def assms)
  ultimately show ?thesis by (simp add: EmotionalStateV1_from_dict_def)
qed

lemma json_same_scalar [simp]:
  "json_same (flt x) w \<longleftrightarrow> w = flt x" "json_same (PInt n) w \<longleftrightarrow> w = PInt n"
  "json_same (PStr s) w \<longleftrightarrow> w = PStr s"
  by (auto elim: json_same_fltE json_same_intE json_same_strE intro: same_refl)

lemma json_same_flat:
  assumes "json_same (PDict d) w" and "\<forall>(k, v) \<in> set d. \<forall>w. json_same v w \<longrightarrow> w = v"
  shows "\<exists>d'. w = PDict d' \<and> map_of d' = map_of d"
  using assms(1)
proof cases
  case same_refl
  then show ?thesis by blast
next
  case (same_dict d')
  note w = same_dict(1) and keys = same_dict(3) and vals = same_dict(4)
  have "map_of d' k = map_of d k" for k
  proof (cases "map_of d k")
    case None
    then have "k \<notin> fst ` set d'" using keys by (simp add: map_of_eq_None_iff)
    then show ?thesis using None by (simp add: map_of_eq_None_iff [THEN iffD2])
  next
    case (Some v)
    then have "k \<in> fst ` set d'" using keys by (metis map_of_eq_None_iff option.distinct(1))
    then obtain v' where v': "map_of d' k = Some v'" by (metis map_of_eq_None_iff not_None_eq)
    have "(k, v) \<in> set d" using Some by (rule map_of_SomeD)
    with vals [OF Some v'] assms(2) Some v' show ?thesis by auto
  qed
  with w show ?thesis by blast
qed

lemma state_dict_scalar:
  "EmotionalStateV1_to_dict s = PDict d \<Longrightarrow> \<forall>(k, v) \<in> set d. \<forall>w. json_same v w \<longrightarrow> w = v"
  by (auto simp: EmotionalStateV1_to_dict_def)

text \<open>The upgrade as a rewriting of the dict: the renamed time stamp and the version added.\<close>

definition upgrade_dict :: "(pyobj \<times> pyobj) list \<Rightarrow> (pyobj \<times> pyobj) list" where
  "upgrade_dict d = (PStr (u ''schema_version''), PInt EMOTIONAL_SCHEMA_VERSION)
     # map (\<lambda>(k, v). (if k = PStr (u ''last_update'') then PStr (u ''timestamp'') else k, v)) d"

lemma map_of_rename_other:
  assumes "k \<noteq> a" and "k \<noteq> b"
  shows "map_of (map (\<lambda>(k, v). (if k = a then b else k, v)) d) k = map_of d k"
  using assms by (induction d) auto

lemma map_of_rename_new:
  assumes "b \<notin> fst ` set d"
  shows "map_of (map (\<lambda>(k, v). (if k = a then b else k, v)) d) b = map_of d a"
  using assms by (induction d) auto

lemma legacy_args_upgrade:
  assumes "fst ` set d = PStr ` set LEGACY_EXACT_FIELDS"
  shows "legacy_args_of_dict d = Inr a \<longleftrightarrow> state_args_of_dict (upgrade_dict d) = Inr a"
proof -
  have "PStr (u ''timestamp'') \<notin> fst ` set d"
    unfolding assms by (auto simp: LEGACY_EXACT_FIELDS_def)
  note new = map_of_rename_new [OF this]
  show ?thesis
    unfolding state_args_of_dict_iff
    by (cases a) (auto simp: legacy_args_of_dict_def dict_item_iff upgrade_dict_def new
        map_of_rename_other)
qed

lemma upgrade_keys:
  assumes "fst ` set d = PStr ` set LEGACY_EXACT_FIELDS"
  shows "fst ` set (upgrade_dict d) = PStr ` set STATE_FIELDS"
proof -
  let ?r = "\<lambda>k. if k = PStr (u ''last_update'') then PStr (u ''timestamp'') else k"
  have "fst ` set (upgrade_dict d) = insert (PStr (u ''schema_version'')) (?r ` (fst ` set d))"
    by (auto simp: upgrade_dict_def image_iff split: if_splits) force+
  also have "\<dots> = PStr ` set STATE_FIELDS"
    unfolding assms by (auto simp: LEGACY_EXACT_FIELDS_def STATE_FIELDS_def)
  finally show ?thesis .
qed

lemma migrate_versioned:
  assumes "has_key d (u ''schema_version'')"
  shows "migrate_legacy_snapshot (PDict d) = Inr s \<longleftrightarrow> EmotionalStateV1_from_dict (PDict d) = Inr s"
proof
  assume "EmotionalStateV1_from_dict (PDict d) = Inr s"
  then obtain a where k: "fst ` set d = PStr ` set STATE_FIELDS"
    and a: "state_args_of_dict d = Inr a" and s: "denotes_state a s" "valid_state s"
    and f: "EmotionalStateV1_from_dict (PDict d) = Inr s"
    unfolding exact_keys [OF schema_version_field, symmetric]
    by (auto simp: EmotionalStateV1_from_dict_def create_state_iff)
  have "map_of d (PStr (u ''schema_version'')) = Some (PInt EMOTIONAL_SCHEMA_VERSION)"
    using a s by (simp add: state_args_of_dict_iff denotes_state_def valid_state_def)
  moreover have "\<not> has_key d (u ''last_update'')" and "unknown_keys d STATE_FIELDS = []"
    unfolding has_key_iff unknown_keys_Nil_iff k by (auto simp: STATE_FIELDS_def)
  ultimately show "migrate_legacy_snapshot (PDict d) = Inr s"
    using f by (simp add: migrate_legacy_snapshot_def)
next
  assume "migrate_legacy_snapshot (PDict d) = Inr s"
  with assms show "EmotionalStateV1_from_dict (PDict d) = Inr s"
    by (auto simp: migrate_legacy_snapshot_def has_key_def)
qed

lemma migrate_unversioned:
  assumes "\<not> has_key d (u ''schema_version'')"
  shows "migrate_legacy_snapshot (PDict d) = Inr s \<longleftrightarrow>
     fst ` set d = PStr ` set LEGACY_EXACT_FIELDS
     \<and> EmotionalStateV1_from_dict (PDict (upgrade_dict d)) = Inr s"
proof (cases "fst ` set d = PStr ` set LEGACY_EXACT_FIELDS")
  case True
  then have "unknown_keys d LEGACY_EXACT_FIELDS = []" "missing_keys d LEGACY_EXACT_FIELDS = []"
    "\<not> has_key d (u ''timestamp'')"
    unfolding unknown_keys_Nil_iff missing_keys_Nil_iff has_key_iff True
    by (auto simp: LEGACY_EXACT_FIELDS_def)
  then have "migrate_legacy_snapshot (PDict d) = rbind (legacy_args_of_dict d) EmotionalStateV1_create"
    using assms by (simp add: migrate_legacy_snapshot_def has_key_def)
  moreover have "EmotionalStateV1_from_dict (PDict (upgrade_dict d))
      = rbind (state_args_of_dict (upgrade_dict d)) EmotionalStateV1_create"
    using exact_keys [OF schema_version_field, of "upgrade_dict d"] upgrade_keys [OF True]
    by (simp add: EmotionalStateV1_from_dict_def)
  ultimately show ?thesis using True legacy_args_upgrade [OF True] by simp
next
  case False
  then have "\<not> (unknown_keys d LEGACY_EXACT_FIELDS = [] \<and> missing_keys d LEGACY_EXACT_FIELDS = [])"
    unfolding unknown_keys_Nil_iff missing_keys_Nil_iff by blast
  then show ?thesis
    using assms False by (auto simp: migrate_legacy_snapshot_def has_key_def)
qed

section \<open>Properties\<close>

text \<open>Whenever the JSON module reads back the text it wrote for the snapshot (up to the order of
  keys, which \<open>sort_keys\<close> changes), deserialising a serialised emotional state gives the state.\<close>

theorem serialize_state_roundtrip:
  assumes "valid_state s" and "json_codec dumps loads (EmotionalStateV1_to_dict s)"
  shows "rbind (serialize_state dumps (Inst s)) (\<lambda>text. deserialize_state loads (PStr text)) = Inr s"
proof -
  obtain d where d: "EmotionalStateV1_to_dict s = PDict d"
    by (simp add: EmotionalStateV1_to_dict_def)
  from assms(2) obtain w where w: "loads (dumps (PDict d)) = Some w" and j: "json_same (PDict d) w"
    by (auto simp: json_codec_def d)
  obtain d' where d': "w = PDict d'" "map_of d' = map_of d"
    using json_same_flat [OF j state_dict_scalar [OF d]] by blast
  have "EmotionalStateV1_from_dict (PDict d') = Inr s"
    using from_dict_map_of [OF d'(2)] es.from_to [OF assms(1)] by (simp add: d)
  then show ?thesis
    by (simp add: serialize_state_def deserialize_state_def d w d')
qed

theorem serialize_state_roundtrip_witness:
  "rbind (serialize_state (\<lambda>_. u ''text'') (Inst calm_state))
     (\<lambda>text. deserialize_state (\<lambda>_. Some (EmotionalStateV1_to_dict calm_state)) (PStr text))
     = Inr calm_state"
  by (rule serialize_state_roundtrip [OF valid_calm_state]) (auto simp: json_codec_def intro: same_refl)

text \<open>Migration accepts exactly two forms: a payload with a schema version, which must be a valid
  v1 snapshot and is returned as it is, and a payload without one, which must carry exactly the legacy
  fields and is read as the v1 snapshot obtained by renaming \<open>last_update\<close> to \<open>timestamp\<close>.\<close>

theorem migrate_exact:
  "migrate_legacy_snapshot v = Inr s \<longleftrightarrow>
     (\<exists>d. v = PDict d \<and>
        (if has_key d (u ''schema_version'') then EmotionalStateV1_from_dict (PDict d) = Inr s
         else fst ` set d = PStr ` set LEGACY_EXACT_FIELDS
           \<and> EmotionalStateV1_from_dict (PDict (upgrade_dict d)) = Inr s))"
  by (cases v) (auto simp: migrate_versioned migrate_unversioned,
      simp_all add: migrate_legacy_snapshot_def)

end
