(* ===== verification/Relationship.thy ===== *)
theory Relationship
  imports Emotional_Models
begin

text \<open>
  \<open>backend/relationship.py\<close>: the relationship snapshot, the label derived from it, the migration of
  legacy snapshots and the transition driven by an appraisal.  The module repeats the numeric
  validators of the emotional domain with an error class of its own; both are interpretations of
  the same interface.
\<close>

section \<open>Errors and validators\<close>

definition RELATIONSHIP_SCHEMA_VERSION :: int where
  "RELATIONSHIP_SCHEMA_VERSION = 1"

datatype RelationshipDomainError =
    RVersionNoneOrBool
  | RVersionNotInt
  | RVersionUnsupported int
  | RFieldBool pystr
  | RFieldType pystr
  | RFieldNotConvertible pystr
  | RFieldNonFinite pystr
  | RFieldRange pystr rat rat
  | RFieldNotPositive pystr
  | RTimeBool | RTimeNone | RTimeType | RTimeNotConvertible | RTimeNonFinite | RTimeNotPositive
  | RTriggersType
  | RTriggersTooMany nat
  | RTriggerNotStr nat
  | RTriggerEmpty nat
  | RTriggerTooLong nat
  | RNotADict | REmptyDict | RUnknownFields | RVersionMissing | RMissingFields
  | RItemMissing pystr
  | RSnapshotConflict
  | RWrongArgument pystr
  | RClockRegression

definition RELATIONSHIP_FIELDS :: "pystr list" where
  "RELATIONSHIP_FIELDS =
     map u [''trust'', ''affection'', ''tension'', ''triggers'', ''timestamp'', ''schema_version'']"

definition LEGACY_ALLOWED_FIELDS :: "pystr list" where
  "LEGACY_ALLOWED_FIELDS = map u [''user_id'', ''bond_label'', ''trust'', ''affection'', ''tension'',
     ''triggers'', ''last_interaction'']"

definition rel_require_schema_version :: "pyobj \<Rightarrow> RelationshipDomainError + int" where
  "rel_require_schema_version value =
     (if value = PNone \<or> is_bool value then Inl RVersionNoneOrBool
      else (case value of
        PInt n \<Rightarrow> if n \<noteq> RELATIONSHIP_SCHEMA_VERSION then Inl (RVersionUnsupported n) else Inr n
      | _ \<Rightarrow> Inl RVersionNotInt))"

definition rel_require_finite_float :: "pyobj \<Rightarrow> pystr \<Rightarrow> RelationshipDomainError + rat" where
  "rel_require_finite_float value name =
     (if is_bool value then Inl (RFieldBool name)
      else if \<not> is_number value then Inl (RFieldType name)
      else (case py_float value of
        None \<Rightarrow> Inl (RFieldNotConvertible name)
      | Some f \<Rightarrow> if \<not> isfinite f then Inl (RFieldNonFinite name) else Inr (fin_val f)))"

definition rel_require_range :: "rat \<Rightarrow> pystr \<Rightarrow> rat \<Rightarrow> rat \<Rightarrow> RelationshipDomainError + rat" where
  "rel_require_range value name lo hi =
     (if value < lo \<or> value > hi then Inl (RFieldRange name lo hi) else Inr value)"

definition rel_require_finite_float_in_range ::
  "pyobj \<Rightarrow> pystr \<Rightarrow> rat \<Rightarrow> rat \<Rightarrow> RelationshipDomainError + rat" where
  "rel_require_finite_float_in_range value name lo hi =
     rbind (rel_require_finite_float value name) (\<lambda>f. rel_require_range f name lo hi)"

definition rel_require_positive_float :: "pyobj \<Rightarrow> pystr \<Rightarrow> RelationshipDomainError + rat" where
  "rel_require_positive_float value name = rbind (rel_require_finite_float value name)
     (\<lambda>f. if f \<le> 0 then Inl (RFieldNotPositive name) else Inr f)"

definition rel_require_current_time :: "pyobj \<Rightarrow> RelationshipDomainError + rat" where
  "rel_require_current_time value =
     (if is_bool value then Inl RTimeBool
      else if value = PNone then Inl RTimeNone
      else if \<not> is_number value then Inl RTimeType
      else (case py_float value of
        None \<Rightarrow> Inl RTimeNotConvertible
      | Some f \<Rightarrow>
          if \<not> isfinite f then Inl RTimeNonFinite
          else if fin_val f \<le> 0 then Inl RTimeNotPositive
          else Inr (fin_val f)))"

text \<open>The loop of \<open>_validate_triggers\<close>: the index, the set \<open>seen\<close> and the list \<open>result\<close>.\<close>

fun trigger_loop ::
  "nat \<Rightarrow> pyobj list \<Rightarrow> pystr set \<Rightarrow> pystr list \<Rightarrow> RelationshipDomainError + pystr list" where
  "trigger_loop i [] seen result = Inr result"
| "trigger_loop i (item # items) seen result = (case item of
     PStr s \<Rightarrow>
       (let stripped = strip s in
        if stripped = [] then Inl (RTriggerEmpty i)
        else if length stripped > 128 then Inl (RTriggerTooLong i)
        else if stripped \<notin> seen
        then trigger_loop (Suc i) items (insert stripped seen) (result @ [stripped])
        else trigger_loop (Suc i) items seen result)
   | _ \<Rightarrow> Inl (RTriggerNotStr i))"

definition validate_triggers :: "pyobj \<Rightarrow> RelationshipDomainError + pystr list" where
  "validate_triggers raw =
     (let check = (\<lambda>xs. if length xs > 32 then Inl (RTriggersTooMany (length xs))
                        else trigger_loop 0 xs {} [])
      in case raw of PList xs \<Rightarrow> check xs | PTuple xs \<Rightarrow> check xs | _ \<Rightarrow> Inl RTriggersType)"

section \<open>RelationshipStateV1\<close>

record RelationshipStateV1 =
  rs_timestamp :: rat
  rs_schema_version :: int
  rs_trust :: rat
  rs_affection :: rat
  rs_tension :: rat
  rs_triggers :: "pystr list"

record rel_args =
  ra_timestamp :: pyobj
  ra_schema_version :: pyobj
  ra_trust :: pyobj
  ra_affection :: pyobj
  ra_tension :: pyobj
  ra_triggers :: pyobj

definition RelationshipStateV1_init :: "rel_args \<Rightarrow> RelationshipDomainError + RelationshipStateV1" where
  "RelationshipStateV1_init a =
     rbind (rel_require_schema_version (ra_schema_version a)) (\<lambda>sv.
     rbind (rel_require_finite_float_in_range (ra_trust a) (u ''trust'') 0 1) (\<lambda>tr.
     rbind (rel_require_finite_float_in_range (ra_affection a) (u ''affection'') 0 1) (\<lambda>af.
     rbind (rel_require_finite_float_in_range (ra_tension a) (u ''tension'') 0 1) (\<lambda>te.
     rbind (rel_require_positive_float (ra_timestamp a) (u ''timestamp'')) (\<lambda>ts.
     rbind (validate_triggers (ra_triggers a)) (\<lambda>tgs.
     Inr \<lparr>rs_timestamp = ts, rs_schema_version = sv, rs_trust = tr, rs_affection = af,
          rs_tension = te, rs_triggers = tgs\<rparr>))))))"

definition rel_args_of :: "RelationshipStateV1 \<Rightarrow> rel_args" where
  "rel_args_of s = \<lparr>ra_timestamp = flt (rs_timestamp s), ra_schema_version = PInt (rs_schema_version s),
     ra_trust = flt (rs_trust s), ra_affection = flt (rs_affection s), ra_tension = flt (rs_tension s),
     ra_triggers = PTuple (map PStr (rs_triggers s))\<rparr>"

text \<open>The factory runs the same checks and then the constructor on their results.\<close>

definition RelationshipStateV1_create :: "rel_args \<Rightarrow> RelationshipDomainError + RelationshipStateV1" where
  "RelationshipStateV1_create a =
     rbind (rel_require_schema_version (ra_schema_version a)) (\<lambda>sv.
     rbind (rel_require_finite_float_in_range (ra_trust a) (u ''trust'') 0 1) (\<lambda>tr.
     rbind (rel_require_finite_float_in_range (ra_affection a) (u ''affection'') 0 1) (\<lambda>af.
     rbind (rel_require_finite_float_in_range (ra_tension a) (u ''tension'') 0 1) (\<lambda>te.
     rbind (rel_require_positive_float (ra_timestamp a) (u ''timestamp'')) (\<lambda>ts.
     rbind (validate_triggers (ra_triggers a)) (\<lambda>tgs.
     RelationshipStateV1_init \<lparr>ra_timestamp = flt ts, ra_schema_version = PInt sv, ra_trust = flt tr,
       ra_affection = flt af, ra_tension = flt te, ra_triggers = PTuple (map PStr tgs)\<rparr>))))))"

definition RelationshipStateV1_neutral :: "pyobj \<Rightarrow> RelationshipDomainError + RelationshipStateV1" where
  "RelationshipStateV1_neutral timestamp = RelationshipStateV1_create
     \<lparr>ra_timestamp = timestamp, ra_schema_version = PInt RELATIONSHIP_SCHEMA_VERSION,
      ra_trust = flt (fl (5/10)), ra_affection = flt (fl (3/10)), ra_tension = flt 0,
      ra_triggers = PTuple []\<rparr>"

definition rel_item :: "(pyobj \<times> pyobj) list \<Rightarrow> pystr \<Rightarrow> RelationshipDomainError + pyobj" where
  "rel_item d k = (case map_of d (PStr k) of None \<Rightarrow> Inl (RItemMissing k) | Some v \<Rightarrow> Inr v)"

text \<open>The arguments read from a dict whose time stamp is under the key \<open>ts\<close>.\<close>

definition rel_args_of_dict ::
  "pystr \<Rightarrow> (pyobj \<times> pyobj) list \<Rightarrow> pyobj \<Rightarrow> RelationshipDomainError + rel_args" where
  "rel_args_of_dict ts d version =
     rbind (rel_item d (u ''trust'')) (\<lambda>tr.
     rbind (rel_item d (u ''affection'')) (\<lambda>af.
     rbind (rel_item d (u ''tension'')) (\<lambda>te.
     rbind (rel_item d (u ''triggers'')) (\<lambda>tgs.
     rbind (rel_item d ts) (\<lambda>t.
     Inr \<lparr>ra_timestamp = t, ra_schema_version = version, ra_trust = tr, ra_affection = af,
          ra_tension = te, ra_triggers = tgs\<rparr>)))))"

definition RelationshipStateV1_from_dict :: "pyobj \<Rightarrow> RelationshipDomainError + RelationshipStateV1" where
  "RelationshipStateV1_from_dict data = (case data of
     PDict d \<Rightarrow>
       rbind (guard (unknown_keys d RELATIONSHIP_FIELDS = []) RUnknownFields) (\<lambda>_.
       rbind (guard (has_key d (u ''schema_version'')) RVersionMissing) (\<lambda>_.
       rbind (guard (missing_keys d (removeAll (u ''schema_version'') RELATIONSHIP_FIELDS) = [])
         RMissingFields) (\<lambda>_.
       rbind (rel_item d (u ''schema_version'')) (\<lambda>sv.
       rbind (rel_args_of_dict (u ''timestamp'') d sv) RelationshipStateV1_create))))
   | _ \<Rightarrow> Inl RNotADict)"

definition RelationshipStateV1_to_dict :: "RelationshipStateV1 \<Rightarrow> pyobj" where
  "RelationshipStateV1_to_dict s = PDict
     [(PStr (u ''schema_version''), PInt (rs_schema_version s)),
      (PStr (u ''trust''), flt (rs_trust s)),
      (PStr (u ''affection''), flt (rs_affection s)),
      (PStr (u ''tension''), flt (rs_tension s)),
      (PStr (u ''triggers''), PList (map PStr (rs_triggers s))),
      (PStr (u ''timestamp''), flt (rs_timestamp s))]"

section \<open>Bond label\<close>

definition compute_bond_label :: "RelationshipStateV1 \<Rightarrow> pystr" where
  "compute_bond_label s =
     (if rs_tension s > fl (7/10) then u ''Em Conflito''
      else if rs_tension s > fl (4/10) then u ''Tenso''
      else if rs_trust s > fl (8/10) \<and> rs_affection s > fl (8/10) then u ''Alma G'' @ [234] @ u ''mea''
      else if rs_trust s > fl (7/10) \<and> rs_affection s > fl (6/10) then [205] @ u ''ntimos''
      else if rs_trust s > fl (5/10) \<and> rs_affection s > fl (4/10) then u ''Amigos''
      else if rs_trust s < fl (3/10) then u ''Desconfiada''
      else u ''Conhecidos'')"

section \<open>Migration\<close>

definition migrate_legacy_relationship_snapshot ::
  "pyobj \<Rightarrow> RelationshipDomainError + RelationshipStateV1" where
  "migrate_legacy_relationship_snapshot payload = (case payload of
     PDict data \<Rightarrow>
       rbind (guard (data \<noteq> []) REmptyDict) (\<lambda>_.
       rbind (guard (\<not> (has_key data (u ''last_interaction'') \<and> has_key data (u ''timestamp'')))
         RSnapshotConflict) (\<lambda>_.
       (case map_of data (PStr (u ''schema_version'')) of
          Some sv \<Rightarrow>
            rbind (guard (sv \<noteq> PNone) RVersionNoneOrBool) (\<lambda>_.
            rbind (guard (\<not> (is_bool sv \<or> \<not> is_int sv)) RVersionNotInt) (\<lambda>_.
            rbind (guard (sv = PInt RELATIONSHIP_SCHEMA_VERSION)
              (RVersionUnsupported (case sv of PInt n \<Rightarrow> n | _ \<Rightarrow> 0))) (\<lambda>_.
            rbind (guard (unknown_keys data RELATIONSHIP_FIELDS = []) RUnknownFields) (\<lambda>_.
            rbind (guard (\<not> has_key data (u ''last_interaction'')) RSnapshotConflict) (\<lambda>_.
            RelationshipStateV1_from_dict (PDict data))))))
        | None \<Rightarrow>
            rbind (guard (unknown_keys data LEGACY_ALLOWED_FIELDS = []) RUnknownFields) (\<lambda>_.
            rbind (guard (missing_keys data (map u [''trust'', ''affection'', ''tension'',
              ''triggers'', ''last_interaction'']) = []) RMissingFields) (\<lambda>_.
            rbind (rel_args_of_dict (u ''last_interaction'') data (PInt RELATIONSHIP_SCHEMA_VERSION))
              RelationshipStateV1_create)))))
   | _ \<Rightarrow> Inl RNotADict)"

section \<open>Transition configuration\<close>

definition validate_config_float :: "pyobj \<Rightarrow> pystr \<Rightarrow> rat \<Rightarrow> rat \<Rightarrow> RelationshipDomainError + rat" where
  "validate_config_float raw name lo hi =
     (if is_bool raw then Inl (RFieldBool name)
      else if \<not> is_number raw then Inl (RFieldType name)
      else (case py_float raw of
        None \<Rightarrow> Inl (RFieldNotConvertible name)
      | Some f \<Rightarrow>
          if \<not> isfinite f then Inl (RFieldNonFinite name)
          else if fin_val f < lo \<or> fin_val f > hi then Inl (RFieldRange name lo hi)
          else Inr (fin_val f)))"

record RelationshipTransitionConfig =
  rc_trust_positive_threshold :: rat
  rc_trust_positive_delta :: rat
  rc_trust_negative_threshold :: rat
  rc_trust_negative_delta :: rat
  rc_tenderness_threshold :: rat
  rc_tenderness_boost :: rat
  rc_joy_threshold :: rat
  rc_joy_boost :: rat
  rc_gratitude_threshold :: rat
  rc_gratitude_boost :: rat
  rc_anger_threshold :: rat
  rc_anger_spike :: rat
  rc_disgust_threshold :: rat
  rc_disgust_spike :: rat
  rc_tension_valence_threshold :: rat
  rc_tension_valence_spike :: rat
  rc_reconciliation_valence_threshold :: rat
  rc_reconciliation_delta :: rat

definition rel_kwarg :: "(pystr \<times> pyobj) list \<Rightarrow> pystr \<Rightarrow> rat \<Rightarrow> pyobj" where
  "rel_kwarg kw k dflt = (case map_of kw k of None \<Rightarrow> flt dflt | Some v \<Rightarrow> v)"

text \<open>Construction with keyword arguments over the defaults of the class.\<close>

definition RelationshipTransitionConfig_init ::
  "(pystr \<times> pyobj) list \<Rightarrow> RelationshipDomainError + RelationshipTransitionConfig" where
  "RelationshipTransitionConfig_init kw =
     rbind (validate_config_float (rel_kwarg kw (u ''trust_positive_threshold'') (fl (2/10))) (u ''trust_positive_threshold'') (-1) 1) (\<lambda>v0.
     rbind (validate_config_float (rel_kwarg kw (u ''trust_positive_delta'') (fl (2/100))) (u ''trust_positive_delta'') 0 1) (\<lambda>v1.
     rbind (validate_config_float (rel_kwarg kw (u ''trust_negative_threshold'') (- fl (3/10))) (u ''trust_negative_threshold'') (-1) 1) (\<lambda>v2.
     rbind (validate_config_float (rel_kwarg kw (u ''trust_negative_delta'') (- fl (5/100))) (u ''trust_negative_delta'') (-1) 0) (\<lambda>v3.
     rbind (validate_config_float (rel_kwarg kw (u ''tenderness_threshold'') (fl (3/10))) (u ''tenderness_threshold'') 0 1) (\<lambda>v4.
     rbind (validate_config_float (rel_kwarg kw (u ''tenderness_boost'') (fl (3/100))) (u ''tenderness_boost'') 0 1) (\<lambda>v5.
     rbind (validate_config_float (rel_kwarg kw (u ''joy_threshold'') (fl (3/10))) (u ''joy_threshold'') 0 1) (\<lambda>v6.
     rbind (validate_config_float (rel_kwarg kw (u ''joy_boost'') (fl (1/100))) (u ''joy_boost'') 0 1) (\<lambda>v7.
     rbind (validate_config_float (rel_kwarg kw (u ''gratitude_threshold'') (fl (3/10))) (u ''gratitude_threshold'') 0 1) (\<lambda>v8.
     rbind (validate_config_float (rel_kwarg kw (u ''gratitude_boost'') (fl (2/100))) (u ''gratitude_boost'') 0 1) (\<lambda>v9.
     rbind (validate_config_float (rel_kwarg kw (u ''anger_threshold'') (fl (3/10))) (u ''anger_threshold'') 0 1) (\<lambda>v10.
     rbind (validate_config_float (rel_kwarg kw (u ''anger_spike'') (fl (1/10))) (u ''anger_spike'') 0 1) (\<lambda>v11.
     rbind (validate_config_float (rel_kwarg kw (u ''disgust_threshold'') (fl (3/10))) (u ''disgust_threshold'') 0 1) (\<lambda>v12.
     rbind (validate_config_float (rel_kwarg kw (u ''disgust_spike'') (fl (1/10))) (u ''disgust_spike'') 0 1) (\<lambda>v13.
     rbind (validate_config_float (rel_kwarg kw (u ''tension_valence_threshold'') (- fl (5/10))) (u ''tension_valence_threshold'') (-1) 1) (\<lambda>v14.
     rbind (validate_config_float (rel_kwarg kw (u ''tension_valence_spike'') (fl (5/100))) (u ''tension_valence_spike'') 0 1) (\<lambda>v15.
     rbind (validate_config_float (rel_kwarg kw (u ''reconciliation_valence_threshold'') (fl (3/10))) (u ''reconciliation_valence_threshold'') (-1) 1) (\<lambda>v16.
     rbind (validate_config_float (rel_kwarg kw (u ''reconciliation_delta'') (fl (1/10))) (u ''reconciliation_delta'') 0 1) (\<lambda>v17.
     Inr \<lparr>rc_trust_positive_threshold = v0, rc_trust_positive_delta = v1,
          rc_trust_negative_threshold = v2, rc_trust_negative_delta = v3, rc_tenderness_threshold
          = v4, rc_tenderness_boost = v5, rc_joy_threshold = v6, rc_joy_boost = v7,
          rc_gratitude_threshold = v8, rc_gratitude_boost = v9, rc_anger_threshold = v10,
          rc_anger_spike = v11, rc_disgust_threshold = v12, rc_disgust_spike = v13,
          rc_tension_valence_threshold = v14, rc_tension_valence_spike = v15,
          rc_reconciliation_valence_threshold = v16, rc_reconciliation_delta = v17\<rparr>))))))))))))))))))"

definition RelationshipTransitionConfig_defaults ::
  "RelationshipDomainError + RelationshipTransitionConfig" where
  "RelationshipTransitionConfig_defaults = RelationshipTransitionConfig_init []"

definition valid_rel_config :: "RelationshipTransitionConfig \<Rightarrow> bool" where
  "valid_rel_config c \<longleftrightarrow>
     - 1 \<le> rc_trust_positive_threshold c \<and> rc_trust_positive_threshold c \<le> 1
   \<and> 0 \<le> rc_trust_positive_delta c \<and> rc_trust_positive_delta c \<le> 1
   \<and> - 1 \<le> rc_trust_negative_threshold c \<and> rc_trust_negative_threshold c \<le> 1
   \<and> - 1 \<le> rc_trust_negative_delta c \<and> rc_trust_negative_delta c \<le> 0
   \<and> 0 \<le> rc_tenderness_threshold c \<and> rc_tenderness_threshold c \<le> 1
   \<and> 0 \<le> rc_tenderness_boost c \<and> rc_tenderness_boost c \<le> 1
   \<and> 0 \<le> rc_joy_threshold c \<and> rc_joy_threshold c \<le> 1
   \<and> 0 \<le> rc_joy_boost c \<and> rc_joy_boost c \<le> 1
   \<and> 0 \<le> rc_gratitude_threshold c \<and> rc_gratitude_threshold c \<le> 1
   \<and> 0 \<le> rc_gratitude_boost c \<and> rc_gratitude_boost c \<le> 1
   \<and> 0 \<le> rc_anger_threshold c \<and> rc_anger_threshold c \<le> 1
   \<and> 0 \<le> rc_anger_spike c \<and> rc_anger_spike c \<le> 1
   \<and> 0 \<le> rc_disgust_threshold c \<and> rc_disgust_threshold c \<le> 1
   \<and> 0 \<le> rc_disgust_spike c \<and> rc_disgust_spike c \<le> 1
   \<and> - 1 \<le> rc_tension_valence_threshold c \<and> rc_tension_valence_threshold c \<le> 1
   \<and> 0 \<le> rc_tension_valence_spike c \<and> rc_tension_valence_spike c \<le> 1
   \<and> - 1 \<le> rc_reconciliation_valence_threshold c \<and> rc_reconciliation_valence_threshold c \<le> 1
   \<and> 0 \<le> rc_reconciliation_delta c \<and> rc_reconciliation_delta c \<le> 1"

section \<open>The transition\<close>

definition rel_clamp :: "rat \<Rightarrow> rat \<Rightarrow> rat \<Rightarrow> rat" where
  "rel_clamp value lo hi = (if value < lo then lo else if value > hi then hi else value)"

definition get_emo :: "emotions \<Rightarrow> pystr \<Rightarrow> rat" where
  "get_emo emotions key = (case map_of emotions key of None \<Rightarrow> 0 | Some x \<Rightarrow> x)"

definition trust_delta :: "RelationshipTransitionConfig \<Rightarrow> rat \<Rightarrow> rat" where
  "trust_delta c valence =
     (if valence > rc_trust_positive_threshold c then rc_trust_positive_delta c
      else if valence < rc_trust_negative_threshold c then rc_trust_negative_delta c
      else 0)"

definition affection_boost :: "RelationshipTransitionConfig \<Rightarrow> emotions \<Rightarrow> rat" where
  "affection_boost c emotions =
     (let b0 = 0;
          b1 = (if get_emo emotions (u ''tenderness'') > rc_tenderness_threshold c
                then fadd b0 (rc_tenderness_boost c) else b0);
          b2 = (if get_emo emotions (u ''joy'') > rc_joy_threshold c
                then fadd b1 (rc_joy_boost c) else b1)
      in if get_emo emotions (u ''gratitude'') > rc_gratitude_threshold c
         then fadd b2 (rc_gratitude_boost c) else b2)"

definition tension_spike :: "RelationshipTransitionConfig \<Rightarrow> emotions \<Rightarrow> rat \<Rightarrow> rat" where
  "tension_spike c emotions valence =
     (let t0 = 0;
          t1 = (if get_emo emotions (u ''anger'') > rc_anger_threshold c
                then fadd t0 (rc_anger_spike c) else t0);
          t2 = (if get_emo emotions (u ''disgust'') > rc_disgust_threshold c
                then fadd t1 (rc_disgust_spike c) else t1)
      in if valence < rc_tension_valence_threshold c
         then fadd t2 (rc_tension_valence_spike c) else t2)"

definition transition_relationship ::
  "RelationshipStateV1 arg \<Rightarrow> AppraisalV1 arg \<Rightarrow> pyobj \<Rightarrow> RelationshipTransitionConfig arg
     \<Rightarrow> RelationshipDomainError + RelationshipStateV1" where
  "transition_relationship previous_state appraisal current_time config = (case previous_state of
     NotInst \<Rightarrow> Inl (RWrongArgument (u ''previous_state''))
   | Inst s \<Rightarrow> (case appraisal of
     NotInst \<Rightarrow> Inl (RWrongArgument (u ''appraisal''))
   | Inst a \<Rightarrow> (case config of
     NotInst \<Rightarrow> Inl (RWrongArgument (u ''config''))
   | Inst c \<Rightarrow>
     rbind (rel_require_current_time current_time) (\<lambda>validated_time.
     rbind (guard (\<not> validated_time < rs_timestamp s) RClockRegression) (\<lambda>_.
     let valence = ap_valence_shift a;
         emotions = ap_discrete_emotions a;
         new_trust = rel_clamp (fadd (rs_trust s) (trust_delta c valence)) 0 1;
         new_affection = rel_clamp (fadd (rs_affection s) (affection_boost c emotions)) 0 1;
         spiked_tension = rel_clamp (fadd (rs_tension s) (tension_spike c emotions valence)) 0 1;
         new_tension =
           (if valence > rc_reconciliation_valence_threshold c \<and> spiked_tension > 0
            then rel_clamp (fsub spiked_tension (rc_reconciliation_delta c)) 0 1
            else spiked_tension)
     in RelationshipStateV1_create
          \<lparr>ra_timestamp = flt validated_time, ra_schema_version = PInt RELATIONSHIP_SCHEMA_VERSION,
           ra_trust = flt new_trust, ra_affection = flt new_affection, ra_tension = flt new_tension,
           ra_triggers = PTuple (map PStr (rs_triggers s))\<rparr>)))))"

section \<open>Validators: what they accept\<close>

interpretation rel: float_validator rel_require_finite_float rel_require_range
proof
  fix v n x
  show "rel_require_finite_float v n = Inr x \<longleftrightarrow> float_value v = Some x"
    by (cases v rule: float_value.cases)
      (auto simp: rel_require_finite_float_def split: option.splits)
qed (auto simp: rel_require_range_def)

lemma rel_require_schema_version_iff [accept_iff]:
  "rel_require_schema_version v = Inr n
     \<longleftrightarrow> v = PInt RELATIONSHIP_SCHEMA_VERSION \<and> n = RELATIONSHIP_SCHEMA_VERSION"
  by (cases v) (auto simp: rel_require_schema_version_def)

lemma rel_require_in_range_iff [accept_iff]:
  "rel_require_finite_float_in_range v n lo hi = Inr x
     \<longleftrightarrow> float_value v = Some x \<and> lo \<le> x \<and> x \<le> hi"
  unfolding rel_require_finite_float_in_range_def by (rule rel.in_range_iff)

lemma rel_require_positive_float_iff [accept_iff]:
  "rel_require_positive_float v n = Inr x \<longleftrightarrow> float_value v = Some x \<and> 0 < x"
  by (fastforce simp: rel_require_positive_float_def rel.req_iff split: if_splits)

lemma rel_require_current_time_iff [accept_iff]:
  "rel_require_current_time v = Inr t \<longleftrightarrow> float_value v = Some t \<and> 0 < t"
  by (cases v rule: float_value.cases)
    (auto simp: rel_require_current_time_def split: option.splits if_splits)

lemma validate_config_float_iff [accept_iff]:
  "validate_config_float v n lo hi = Inr x \<longleftrightarrow> float_value v = Some x \<and> lo \<le> x \<and> x \<le> hi"
  by (cases v rule: float_value.cases)
    (auto simp: validate_config_float_def not_less split: option.splits if_splits)

lemma rel_item_iff [accept_iff]: "rel_item d k = Inr v \<longleftrightarrow> map_of d (PStr k) = Some v"
  by (simp add: rel_item_def split: option.splits)

lemma rel_config_valid: "RelationshipTransitionConfig_init kw = Inr c \<Longrightarrow> valid_rel_config c"
  unfolding RelationshipTransitionConfig_init_def validate_config_float_iff valid_rel_config_def
  by (elim rbind_InrE) (simp add: validate_config_float_iff, elim conjE, hypsubst, simp)

section \<open>Triggers\<close>

definition valid_trigger :: "pystr \<Rightarrow> bool" where
  "valid_trigger t \<longleftrightarrow> strip t = t \<and> t \<noteq> [] \<and> length t \<le> 128"

definition valid_triggers :: "pystr list \<Rightarrow> bool" where
  "valid_triggers ts \<longleftrightarrow> length ts \<le> 32 \<and> distinct ts \<and> list_all valid_trigger ts"

text \<open>The order-preserving deduplication: the first occurrence of every string is kept.\<close>

fun keep_first :: "pystr set \<Rightarrow> pystr list \<Rightarrow> pystr list" where
  "keep_first seen [] = []"
| "keep_first seen (x # xs) = (if x \<in> seen then keep_first seen xs else x # keep_first (insert x seen) xs)"

lemma set_keep_first: "set (keep_first seen xs) = set xs - seen"
  by (induction seen xs rule: keep_first.induct) auto

lemma distinct_keep_first: "distinct (keep_first seen xs)"
  by (induction seen xs rule: keep_first.induct) (auto simp: set_keep_first)

lemma length_keep_first: "length (keep_first seen xs) \<le> length xs"
  by (induction seen xs rule: keep_first.induct) auto

lemma keep_first_distinct: "distinct xs \<Longrightarrow> set xs \<inter> seen = {} \<Longrightarrow> keep_first seen xs = xs"
  by (induction seen xs rule: keep_first.induct) auto

lemma trigger_loop_iff:
  "trigger_loop i items seen r = Inr ts \<longleftrightarrow>
     (\<exists>ss. items = map PStr ss \<and> list_all (\<lambda>s. valid_trigger (strip s)) ss
        \<and> ts = r @ keep_first seen (map strip ss))"
proof (induction i items seen r rule: trigger_loop.induct)
  case (2 i item items seen r)
  show ?case
  proof (cases item)
    case (PStr s)
    show ?thesis
    proof (cases "valid_trigger (strip s)")
      case True
      then show ?thesis
        using 2 [OF PStr refl]
        by (auto simp: PStr valid_trigger_def Let_def Cons_eq_map_conv)
    next
      case False
      then show ?thesis
        by (auto simp: PStr valid_trigger_def Let_def Cons_eq_map_conv)
    qed
  qed (auto simp: Cons_eq_map_conv)
qed auto

lemma validate_triggers_iff:
  "validate_triggers raw = Inr ts \<longleftrightarrow>
     (\<exists>ss. (raw = PList (map PStr ss) \<or> raw = PTuple (map PStr ss)) \<and> length ss \<le> 32
        \<and> list_all (\<lambda>s. valid_trigger (strip s)) ss \<and> ts = keep_first {} (map strip ss))"
  by (cases raw) (auto simp: validate_triggers_def trigger_loop_iff)

lemma validate_triggers_valid: "validate_triggers raw = Inr ts \<Longrightarrow> valid_triggers ts"
  by (auto simp: validate_triggers_iff valid_triggers_def distinct_keep_first set_keep_first
      list_all_iff intro: order_trans [OF length_keep_first])

lemma validate_triggers_rebuild:
  assumes "valid_triggers ts"
  shows "validate_triggers (PTuple (map PStr ts)) = Inr ts"
    and "validate_triggers (PList (map PStr ts)) = Inr ts"
proof -
  have "map strip ts = ts"
    using assms by (simp add: valid_triggers_def list_all_iff valid_trigger_def map_idI)
  then have "ts = keep_first {} (map strip ts)"
    using assms by (simp add: valid_triggers_def keep_first_distinct)
  moreover have "list_all (\<lambda>s. valid_trigger (strip s)) ts"
    using assms by (simp add: valid_triggers_def list_all_iff valid_trigger_def)
  ultimately show "validate_triggers (PTuple (map PStr ts)) = Inr ts"
    and "validate_triggers (PList (map PStr ts)) = Inr ts"
    using assms unfolding validate_triggers_iff valid_triggers_def by blast+
qed

section \<open>The invariant of a relationship snapshot\<close>

definition valid_relationship :: "RelationshipStateV1 \<Rightarrow> bool" where
  "valid_relationship s \<longleftrightarrow> 0 < rs_timestamp s \<and> rs_schema_version s = RELATIONSHIP_SCHEMA_VERSION
     \<and> 0 \<le> rs_trust s \<and> rs_trust s \<le> 1 \<and> 0 \<le> rs_affection s \<and> rs_affection s \<le> 1
     \<and> 0 \<le> rs_tension s \<and> rs_tension s \<le> 1 \<and> valid_triggers (rs_triggers s)"

definition denotes_relationship :: "rel_args \<Rightarrow> RelationshipStateV1 \<Rightarrow> bool" where
  "denotes_relationship a s \<longleftrightarrow>
     float_value (ra_timestamp a) = Some (rs_timestamp s)
   \<and> ra_schema_version a = PInt (rs_schema_version s)
   \<and> float_value (ra_trust a) = Some (rs_trust s)
   \<and> float_value (ra_affection a) = Some (rs_affection s)
   \<and> float_value (ra_tension a) = Some (rs_tension s)
   \<and> validate_triggers (ra_triggers a) = Inr (rs_triggers s)"

lemma rel_init_iff:
  "RelationshipStateV1_init a = Inr s \<longleftrightarrow> denotes_relationship a s \<and> valid_relationship s"
  by (cases s) (auto simp: RelationshipStateV1_init_def accept_iff denotes_relationship_def
      valid_relationship_def dest: validate_triggers_valid)

lemma denotes_rel_args_of [simp]: "valid_relationship s \<Longrightarrow> denotes_relationship (rel_args_of s) s"
  by (simp add: denotes_relationship_def rel_args_of_def valid_relationship_def
      validate_triggers_rebuild)

text \<open>The factory is the constructor on its own result, so the repeated validation is harmless.\<close>

lemma rel_create_unfold:
  "RelationshipStateV1_create a = rbind (RelationshipStateV1_init a)
     (\<lambda>t. RelationshipStateV1_init (rel_args_of t))"
  by (simp add: RelationshipStateV1_create_def RelationshipStateV1_init_def [of a] rbind_assoc
      rel_args_of_def)

lemma rel_create_iff [accept_iff]:
  "RelationshipStateV1_create a = Inr s \<longleftrightarrow> denotes_relationship a s \<and> valid_relationship s"
proof -
  have "RelationshipStateV1_init (rel_args_of t) = Inr t" if "valid_relationship t" for t
    using that denotes_rel_args_of [OF that] by (simp add: rel_init_iff)
  moreover have "valid_relationship t" if "RelationshipStateV1_init a = Inr t" for t
    using that by (simp add: rel_init_iff)
  ultimately have "RelationshipStateV1_create a = RelationshipStateV1_init a"
    by (cases "RelationshipStateV1_init a") (simp_all add: rel_create_unfold)
  then show ?thesis by (simp add: rel_init_iff)
qed

lemma rel_args_of_dict_iff:
  "rel_args_of_dict ts d version = Inr a \<longleftrightarrow>
     map_of d (PStr (u ''trust'')) = Some (ra_trust a)
   \<and> map_of d (PStr (u ''affection'')) = Some (ra_affection a)
   \<and> map_of d (PStr (u ''tension'')) = Some (ra_tension a)
   \<and> map_of d (PStr (u ''triggers'')) = Some (ra_triggers a)
   \<and> map_of d (PStr ts) = Some (ra_timestamp a) \<and> ra_schema_version a = version"
  by (cases a) (auto simp: rel_args_of_dict_def rel_item_iff)

lemma rel_schema_version_field: "u ''schema_version'' \<in> set RELATIONSHIP_FIELDS"
  by (simp add: RELATIONSHIP_FIELDS_def)

lemma rel_from_dict_iff:
  "RelationshipStateV1_from_dict (PDict d) = Inr s \<longleftrightarrow>
     fst ` set d = PStr ` set RELATIONSHIP_FIELDS
     \<and> (\<exists>sv a. map_of d (PStr (u ''schema_version'')) = Some sv
         \<and> rel_args_of_dict (u ''timestamp'') d sv = Inr a
         \<and> denotes_relationship a s \<and> valid_relationship s)"
  unfolding exact_keys [OF rel_schema_version_field, symmetric]
  by (auto simp: RelationshipStateV1_from_dict_def rel_create_iff rel_item_iff)

lemma rel_from_dict_valid: "RelationshipStateV1_from_dict v = Inr s \<Longrightarrow> valid_relationship s"
  by (cases v) (auto simp: rel_from_dict_iff, simp_all add: RelationshipStateV1_from_dict_def)

lemma rel_from_dict_to_dict:
  assumes "valid_relationship s"
  shows "RelationshipStateV1_from_dict (RelationshipStateV1_to_dict s) = Inr s"
proof -
  let ?a = "rel_args_of s\<lparr>ra_triggers := PList (map PStr (rs_triggers s))\<rparr>"
  obtain d where d: "RelationshipStateV1_to_dict s = PDict d"
    and sv: "map_of d (PStr (u ''schema_version'')) = Some (PInt (rs_schema_version s))"
    and a: "rel_args_of_dict (u ''timestamp'') d (PInt (rs_schema_version s)) = Inr ?a"
    and k: "fst ` set d = PStr ` set RELATIONSHIP_FIELDS"
    by (auto simp: RelationshipStateV1_to_dict_def rel_args_of_dict_iff rel_args_of_def
        RELATIONSHIP_FIELDS_def)
  have "denotes_relationship ?a s"
    using assms by (simp add: denotes_relationship_def rel_args_of_def valid_relationship_def
        validate_triggers_rebuild)
  then show ?thesis
    unfolding d rel_from_dict_iff using sv a k assms by blast
qed

interpretation rs: snapshot valid_relationship RelationshipStateV1_to_dict RelationshipStateV1_from_dict
  by unfold_locales (auto intro: rel_from_dict_valid rel_from_dict_to_dict)

section \<open>The transition in closed form\<close>

lemma rel_clamp_bounds [simp]: "0 \<le> rel_clamp x 0 1" "rel_clamp x 0 1 \<le> 1"
  by (auto simp: rel_clamp_def)

lemma rel_clamp_ge: "a \<le> 1 \<Longrightarrow> a \<le> x \<Longrightarrow> a \<le> rel_clamp x 0 1"
  by (simp add: rel_clamp_def)

lemma rel_clamp_le: "0 \<le> a \<Longrightarrow> x \<le> a \<Longrightarrow> rel_clamp x 0 1 \<le> a"
  by (simp add: rel_clamp_def)

lemma rel_clamp_id: "0 \<le> a \<Longrightarrow> a \<le> 1 \<Longrightarrow> rel_clamp a 0 1 = a"
  by (simp add: rel_clamp_def)

definition spiked_tension where
  "spiked_tension s a c = rel_clamp (fadd (rs_tension s)
     (tension_spike c (ap_discrete_emotions a) (ap_valence_shift a))) 0 1"

definition next_relationship where
  "next_relationship s a t c = s\<lparr>
     rs_timestamp := t,
     rs_trust := rel_clamp (fadd (rs_trust s) (trust_delta c (ap_valence_shift a))) 0 1,
     rs_affection := rel_clamp (fadd (rs_affection s) (affection_boost c (ap_discrete_emotions a))) 0 1,
     rs_tension := (if ap_valence_shift a > rc_reconciliation_valence_threshold c
         \<and> spiked_tension s a c > 0
       then rel_clamp (fsub (spiked_tension s a c) (rc_reconciliation_delta c)) 0 1
       else spiked_tension s a c)\<rparr>"

lemma next_relationship_valid:
  "valid_relationship s \<Longrightarrow> 0 < t \<Longrightarrow> valid_relationship (next_relationship s a t c)"
  by (simp add: valid_relationship_def next_relationship_def spiked_tension_def)

lemma transition_relationship_closed_form:
  assumes "valid_relationship s"
  shows "transition_relationship (Inst s) (Inst a) time (Inst c) =
     rbind (rel_require_current_time time) (\<lambda>t.
       if t < rs_timestamp s then Inl RClockRegression else Inr (next_relationship s a t c))"
proof (cases "rel_require_current_time time")
  case (Inl e)
  then show ?thesis by (simp add: transition_relationship_def)
next
  case (Inr t)
  then have t: "0 < t" by (simp add: accept_iff)
  let ?n = "next_relationship s a t c"
  let ?args = "\<lparr>ra_timestamp = flt t, ra_schema_version = PInt RELATIONSHIP_SCHEMA_VERSION,
     ra_trust = flt (rs_trust ?n), ra_affection = flt (rs_affection ?n),
     ra_tension = flt (rs_tension ?n), ra_triggers = PTuple (map PStr (rs_triggers s))\<rparr>"
  have "denotes_relationship ?args ?n"
    using assms by (simp add: denotes_relationship_def next_relationship_def valid_relationship_def
        validate_triggers_rebuild)
  then have create: "RelationshipStateV1_create ?args = Inr ?n"
    using next_relationship_valid [OF assms t] by (simp add: rel_create_iff)
  have trust: "rel_clamp (fadd (rs_trust s) (trust_delta c (ap_valence_shift a))) 0 1 = rs_trust ?n"
    and affection: "rel_clamp (fadd (rs_affection s) (affection_boost c (ap_discrete_emotions a))) 0 1
      = rs_affection ?n"
    and tension: "(if ap_valence_shift a > rc_reconciliation_valence_threshold c
         \<and> spiked_tension s a c > 0
       then rel_clamp (fsub (spiked_tension s a c) (rc_reconciliation_delta c)) 0 1
       else spiked_tension s a c) = rs_tension ?n"
    by (simp_all add: next_relationship_def)
  show ?thesis
    unfolding transition_relationship_def arg.case Inr rbind.simps Let_def
      spiked_tension_def [symmetric] trust affection tension create
    by (simp add: guard_def)
qed

lemma transition_relationship_iff:
  "valid_relationship s \<Longrightarrow> transition_relationship (Inst s) (Inst a) time (Inst c) = Inr s' \<longleftrightarrow>
     (\<exists>t. float_value time = Some t \<and> 0 < t \<and> rs_timestamp s \<le> t \<and> s' = next_relationship s a t c)"
  by (fastforce simp: transition_relationship_closed_form rel_require_current_time_iff
      split: if_splits)

lemma fadd_nonneg: "0 \<le> a \<Longrightarrow> 0 \<le> b \<Longrightarrow> 0 \<le> fadd a b"
  by (simp add: fadd_def b64.rnd_nonneg)

lemma affection_boost_nonneg: "valid_rel_config c \<Longrightarrow> 0 \<le> affection_boost c es"
  by (simp add: affection_boost_def Let_def valid_rel_config_def fadd_nonneg)

lemma tension_spike_nonneg: "valid_rel_config c \<Longrightarrow> 0 \<le> tension_spike c es v"
  by (simp add: tension_spike_def Let_def valid_rel_config_def fadd_nonneg)

lemma clamp_grows: "is_dbl x \<Longrightarrow> x \<le> 1 \<Longrightarrow> 0 \<le> d \<Longrightarrow> x \<le> rel_clamp (fadd x d) 0 1"
  by (intro rel_clamp_ge) (auto simp: fadd_def is_dbl_def b64.rnd_grow)

lemma clamp_shrinks: "is_dbl x \<Longrightarrow> 0 \<le> x \<Longrightarrow> d \<le> 0 \<Longrightarrow> rel_clamp (fadd x d) 0 1 \<le> x"
  by (intro rel_clamp_le) (auto simp: fadd_def is_dbl_def b64.rnd_shrink)

section \<open>Migration ignores identity and label\<close>

text \<open>The same dict with other values under \<open>user_id\<close> and \<open>bond_label\<close>.\<close>

definition relabel :: "(pyobj \<Rightarrow> pyobj) \<Rightarrow> (pyobj \<times> pyobj) list \<Rightarrow> (pyobj \<times> pyobj) list" where
  "relabel f d = map (\<lambda>(k, v).
     (k, if k = PStr (u ''user_id'') \<or> k = PStr (u ''bond_label'') then f v else v)) d"

lemma map_fst_relabel: "map fst (relabel f d) = map fst d"
  by (induction d) (auto simp: relabel_def)

lemma map_of_relabel:
  "k \<noteq> PStr (u ''user_id'') \<Longrightarrow> k \<noteq> PStr (u ''bond_label'') \<Longrightarrow> map_of (relabel f d) k = map_of d k"
  by (induction d) (auto simp: relabel_def)

lemma has_key_relabel: "has_key (relabel f d) k = has_key d k"
  unfolding has_key_iff using map_fst_relabel [of f d] by (metis image_set)

lemma keys_relabel:
  "unknown_keys (relabel f d) fs = unknown_keys d fs" "missing_keys (relabel f d) fs = missing_keys d fs"
  "relabel f d = [] \<longleftrightarrow> d = []"
  unfolding unknown_keys_def missing_keys_def map_fst_relabel by (simp_all add: relabel_def)

lemmas relabel_simps = map_of_relabel has_key_relabel keys_relabel

lemma args_relabel:
  "ts \<noteq> u ''user_id'' \<Longrightarrow> ts \<noteq> u ''bond_label'' \<Longrightarrow>
     rel_args_of_dict ts (relabel f d) v = rel_args_of_dict ts d v"
  by (simp add: rel_args_of_dict_def rel_item_def map_of_relabel)

lemma from_dict_relabel:
  "RelationshipStateV1_from_dict (PDict (relabel f d)) = RelationshipStateV1_from_dict (PDict d)"
  by (simp add: RelationshipStateV1_from_dict_def relabel_simps args_relabel rel_item_def)

lemma migrate_relabel:
  "migrate_legacy_relationship_snapshot (PDict (relabel f d))
     = migrate_legacy_relationship_snapshot (PDict d)"
  by (simp add: migrate_legacy_relationship_snapshot_def relabel_simps args_relabel from_dict_relabel
      split: option.splits)

lemma migrate_valid: "migrate_legacy_relationship_snapshot v = Inr s \<Longrightarrow> valid_relationship s"
  by (cases v) (auto simp: migrate_legacy_relationship_snapshot_def rel_create_iff
      split: option.splits dest: rel_from_dict_valid)

lemma migrate_v1:
  assumes "valid_relationship s"
  shows "migrate_legacy_relationship_snapshot (RelationshipStateV1_to_dict s) = Inr s"
  using rel_from_dict_to_dict [OF assms] assms
  by (simp add: migrate_legacy_relationship_snapshot_def RelationshipStateV1_to_dict_def has_key_def
      unknown_keys_def RELATIONSHIP_FIELDS_def valid_relationship_def)

section \<open>Properties\<close>

text \<open>The relationship transition returns exactly when the time is a positive finite number not
  before the previous time stamp (a clock that runs backwards is rejected); the new snapshot is
  valid, carries that time and keeps the triggers.\<close>

theorem relationship_transition_exact:
  assumes "valid_relationship s"
  shows "transition_relationship (Inst s) (Inst a) time (Inst c) = Inr s'
     \<longleftrightarrow> (\<exists>t. float_value time = Some t \<and> 0 < t \<and> rs_timestamp s \<le> t
           \<and> s' = next_relationship s a t c \<and> valid_relationship s' \<and> rs_timestamp s' = t
           \<and> rs_triggers s' = rs_triggers s)"
  using assms by (auto simp: transition_relationship_iff next_relationship_valid)
    (auto simp: next_relationship_def)

definition friend_state :: RelationshipStateV1 where
  "friend_state = \<lparr>rs_timestamp = 1000, rs_schema_version = 1, rs_trust = 1/2, rs_affection = 1/4,
     rs_tension = 1/8, rs_triggers = [u ''chuva'']\<rparr>"

lemma valid_friend_state: "valid_relationship friend_state"
proof -
  have "strip (u ''chuva'') = u ''chuva''" by code_simp
  then show ?thesis
    by (simp add: valid_relationship_def friend_state_def valid_triggers_def valid_trigger_def
        RELATIONSHIP_SCHEMA_VERSION_def)
qed

lemma validate_config_flt [simp]:
  "lo \<le> x \<Longrightarrow> x \<le> hi \<Longrightarrow> validate_config_float (flt x) n lo hi = Inr x"
  by (simp add: accept_iff)

lemma rel_defaults: "\<exists>c. RelationshipTransitionConfig_defaults = Inr c"
  unfolding RelationshipTransitionConfig_defaults_def RelationshipTransitionConfig_init_def
  by (simp add: rel_kwarg_def dbl_literals)

theorem relationship_transition_exact_witness:
  "\<exists>c s'. RelationshipTransitionConfig_defaults = Inr c
     \<and> transition_relationship (Inst friend_state) (Inst warm_appraisal) (flt 2000) (Inst c) = Inr s'
     \<and> valid_relationship s' \<and> rs_triggers s' = [u ''chuva'']"
proof -
  obtain c where c: "RelationshipTransitionConfig_defaults = Inr c" using rel_defaults by blast
  let ?s = "next_relationship friend_state warm_appraisal 2000 c"
  have "rs_timestamp ?s = 2000" "rs_triggers ?s = rs_triggers friend_state" "rs_timestamp friend_state = 1000"
    "rs_triggers friend_state = [u ''chuva'']"
    by (simp_all add: next_relationship_def friend_state_def)
  moreover have "valid_relationship ?s" by (rule next_relationship_valid [OF valid_friend_state]) simp
  ultimately show ?thesis
    using relationship_transition_exact [OF valid_friend_state, of warm_appraisal "flt 2000" c ?s] c
    by auto
qed

text \<open>How a turn moves the metrics.  Trust rises only on a valence above the positive threshold,
  falls only on one below the negative threshold, and is unchanged in between; affection never
  falls; tension falls only when the valence is above the reconciliation threshold.\<close>

theorem relationship_metric_directions:
  assumes "valid_relationship s" and "valid_rel_config c"
    and "is_dbl (rs_trust s)" and "is_dbl (rs_affection s)" and "is_dbl (rs_tension s)"
    and "transition_relationship (Inst s) (Inst a) time (Inst c) = Inr s'"
  shows "(rs_trust s < rs_trust s' \<longrightarrow> ap_valence_shift a > rc_trust_positive_threshold c)
     \<and> (rs_trust s' < rs_trust s \<longrightarrow> ap_valence_shift a < rc_trust_negative_threshold c)
     \<and> rs_affection s \<le> rs_affection s'
     \<and> (rs_tension s' < rs_tension s \<longrightarrow> ap_valence_shift a > rc_reconciliation_valence_threshold c)"
proof -
  obtain t where s': "s' = next_relationship s a t c"
    using assms(1,6) by (auto simp: transition_relationship_iff)
  have r: "0 \<le> rs_trust s" "rs_trust s \<le> 1" "rs_affection s \<le> 1" "rs_tension s \<le> 1"
    using assms(1) by (simp_all add: valid_relationship_def)
  have d: "0 \<le> rc_trust_positive_delta c" "rc_trust_negative_delta c \<le> 0"
    using assms(2) by (simp_all add: valid_rel_config_def)
  have "rs_affection s \<le> rs_affection s'"
    using clamp_grows [OF assms(4) r(3) affection_boost_nonneg [OF assms(2)]]
    by (simp add: s' next_relationship_def)
  moreover have "rs_tension s \<le> spiked_tension s a c"
    unfolding spiked_tension_def by (rule clamp_grows [OF assms(5) r(4) tension_spike_nonneg [OF assms(2)]])
  then have "rs_tension s \<le> rs_tension s'" if "\<not> ap_valence_shift a > rc_reconciliation_valence_threshold c"
    using that by (simp add: s' next_relationship_def)
  moreover have "rs_trust s \<le> rs_trust s'" if "\<not> ap_valence_shift a < rc_trust_negative_threshold c"
    using that clamp_grows [OF assms(3) r(2)] d(1)
    by (simp add: s' next_relationship_def trust_delta_def)
  moreover have "rs_trust s' \<le> rs_trust s" if "\<not> ap_valence_shift a > rc_trust_positive_threshold c"
    using that clamp_shrinks [OF assms(3) r(1)] d(2)
    by (simp add: s' next_relationship_def trust_delta_def)
  ultimately show ?thesis by (meson not_less)
qed

theorem relationship_metric_directions_witness:
  "\<exists>c s'. RelationshipTransitionConfig_defaults = Inr c
     \<and> transition_relationship (Inst friend_state) (Inst warm_appraisal) (flt 2000) (Inst c) = Inr s'
     \<and> rs_affection friend_state \<le> rs_affection s'"
proof -
  obtain c where c: "RelationshipTransitionConfig_defaults = Inr c" using rel_defaults by blast
  then have v: "valid_rel_config c"
    unfolding RelationshipTransitionConfig_defaults_def by (rule rel_config_valid)
  have d: "is_dbl (rs_trust friend_state)" "is_dbl (rs_affection friend_state)"
    "is_dbl (rs_tension friend_state)"
    by (simp_all add: friend_state_def is_dbl_def dbl_literals) code_simp
  let ?s = "next_relationship friend_state warm_appraisal 2000 c"
  have t: "transition_relationship (Inst friend_state) (Inst warm_appraisal) (flt 2000) (Inst c) = Inr ?s"
    using valid_friend_state by (simp add: transition_relationship_iff friend_state_def)
  from relationship_metric_directions [OF valid_friend_state v d t] c t show ?thesis by blast
qed

text \<open>\<open>_validate_triggers\<close> accepts exactly the lists and tuples of at most 32 strings that are
  non-empty and at most 128 characters after trimming, and returns the trimmed strings with later
  duplicates dropped and the order kept.\<close>

theorem validate_triggers_exact:
  "validate_triggers raw = Inr ts \<longleftrightarrow>
     (\<exists>ss. (raw = PList (map PStr ss) \<or> raw = PTuple (map PStr ss)) \<and> length ss \<le> 32
        \<and> list_all (\<lambda>s. strip s \<noteq> [] \<and> length (strip s) \<le> 128) ss
        \<and> ts = keep_first {} (map strip ss) \<and> distinct ts \<and> set ts = strip ` set ss)"
  unfolding validate_triggers_iff
  by (auto simp: valid_trigger_def distinct_keep_first set_keep_first)

text \<open>Migration yields only valid snapshots, returns a current snapshot as it is, and its result
  does not depend on the values stored under \<open>user_id\<close> and \<open>bond_label\<close>.\<close>

theorem migrate_relationship_safe:
  "(migrate_legacy_relationship_snapshot v = Inr s \<longrightarrow> valid_relationship s)
   \<and> (valid_relationship s \<longrightarrow>
       migrate_legacy_relationship_snapshot (RelationshipStateV1_to_dict s) = Inr s)
   \<and> migrate_legacy_relationship_snapshot (PDict (relabel f d))
       = migrate_legacy_relationship_snapshot (PDict d)"
  by (blast intro: migrate_valid migrate_v1 migrate_relabel)

theorem migrate_relationship_safe_witness:
  "migrate_legacy_relationship_snapshot (RelationshipStateV1_to_dict friend_state) = Inr friend_state"
  using migrate_relationship_safe valid_friend_state by blast

end
