(* ===== verification/Emotion_Presentation.thy ===== *)
theory Emotion_Presentation
  imports Emotional_Models "HOL-Library.Multiset" "HOL-Library.Product_Lexorder" "HOL-Library.List_Lexorder"
begin

text \<open>
  \<open>backend/emotion_presentation.py\<close>: the public projection of the emotional state.  The response
  classes are declared with pydantic; the model keeps the validators of the module and the bounds its
  fields declare.
\<close>

section \<open>Errors and the mood classifier\<close>

datatype presentation_error =
    PresentationError pystr
  | PTypeError pystr
  | PValidation pystr \<comment> \<open>a ValueError of a field validator or a violated field bound\<close>
  | POverflow \<comment> \<open>the OverflowError of \<open>float(n)\<close>, which the validators do not catch\<close>

definition PUBLIC_EMOTION_SCHEMA_VERSION :: int where
  "PUBLIC_EMOTION_SCHEMA_VERSION = 1"

definition classify_pad_mood :: "rat \<Rightarrow> rat \<Rightarrow> rat \<Rightarrow> pystr" where
  "classify_pad_mood pleasure arousal dominance =
     (if arousal > fl (5/10) then
        (if pleasure > fl (5/10) then
           (if dominance > fl (3/10) then u ''EXTASE/DOMINANTE''
            else if dominance < - fl (3/10) then u ''ENCANTADA''
            else u ''ALEGRE/EXCITADA'')
         else if pleasure < - fl (5/10) then
           (if dominance > fl (3/10) then u ''FURIA/ODIO''
            else if dominance < - fl (3/10) then u ''TERROR/PANICO''
            else u ''ESTRESSE/AGONIA'')
         else u ''NEUTRA'')
      else
        (if pleasure > fl (5/10) then u ''RELAXADA/SATISFEITA''
         else if pleasure < - fl (5/10) then
           (if dominance > fl (3/10) then u ''DESPREZO/FRIO''
            else if dominance < - fl (3/10) then u ''DEPRESSAO/TRISTEZA''
            else u ''TEDIO'')
         else u ''NEUTRA''))"

section \<open>Response models\<close>

record PublicPAD =
  pp_pleasure :: rat
  pp_arousal :: rat
  pp_dominance :: rat

record PublicDominantEmotion =
  pd_name :: pystr
  pd_intensity :: rat

record EmotionStateResponse =
  er_schema_version :: int
  er_mood_label :: pystr
  er_pad :: PublicPAD
  er_dominant_emotions :: "PublicDominantEmotion list"
  er_timestamp :: rat

text \<open>The \<open>mode="before"\<close> validator of the numeric fields, then the declared bounds.\<close>

definition reject_non_finite :: "pystr \<Rightarrow> pyobj \<Rightarrow> presentation_error + rat" where
  "reject_non_finite field value =
     (if is_bool value then Inl (PValidation field)
      else if \<not> is_number value then Inl (PValidation field)
      else (case py_float value of
        None \<Rightarrow> Inl POverflow
      | Some f \<Rightarrow> if \<not> isfinite f then Inl (PValidation field) else Inr (fin_val f)))"

definition field_bounds :: "pystr \<Rightarrow> rat \<Rightarrow> rat \<Rightarrow> rat \<Rightarrow> presentation_error + rat" where
  "field_bounds field lo hi x = (if lo \<le> x \<and> x \<le> hi then Inr x else Inl (PValidation field))"

definition PublicPAD_init :: "pyobj \<Rightarrow> pyobj \<Rightarrow> pyobj \<Rightarrow> presentation_error + PublicPAD" where
  "PublicPAD_init pleasure arousal dominance =
     rbind (rbind (reject_non_finite (u ''pleasure'') pleasure) (field_bounds (u ''pleasure'') (-1) 1)) (\<lambda>p.
     rbind (rbind (reject_non_finite (u ''arousal'') arousal) (field_bounds (u ''arousal'') (-1) 1)) (\<lambda>a.
     rbind (rbind (reject_non_finite (u ''dominance'') dominance) (field_bounds (u ''dominance'') (-1) 1)) (\<lambda>d.
     Inr \<lparr>pp_pleasure = p, pp_arousal = a, pp_dominance = d\<rparr>)))"

definition validate_emotion_name :: "pyobj \<Rightarrow> presentation_error + pystr" where
  "validate_emotion_name value = (case value of
     PStr s \<Rightarrow> if s \<notin> set DISCRETE_EMOTIONS then Inl (PValidation (u ''name'')) else Inr s
   | _ \<Rightarrow> Inl (PValidation (u ''name'')))"

definition PublicDominantEmotion_init ::
  "pyobj \<Rightarrow> pyobj \<Rightarrow> presentation_error + PublicDominantEmotion" where
  "PublicDominantEmotion_init name intensity =
     rbind (validate_emotion_name name) (\<lambda>n.
     rbind (guard (n \<noteq> []) (PValidation (u ''name''))) (\<lambda>_.
     rbind (rbind (reject_non_finite (u ''intensity'') intensity) (field_bounds (u ''intensity'') 0 1)) (\<lambda>x.
     Inr \<lparr>pd_name = n, pd_intensity = x\<rparr>)))"

definition validate_public_version :: "pyobj \<Rightarrow> presentation_error + int" where
  "validate_public_version value =
     (if value = PNone \<or> is_bool value then Inl (PValidation (u ''schema_version''))
      else (case value of
        PInt n \<Rightarrow> if n \<noteq> 1 then Inl (PValidation (u ''schema_version'')) else Inr n
      | _ \<Rightarrow> Inl (PValidation (u ''schema_version''))))"

fun no_duplicate_names :: "PublicDominantEmotion list \<Rightarrow> pystr set \<Rightarrow> bool" where
  "no_duplicate_names [] seen = True"
| "no_duplicate_names (item # items) seen =
     (if pd_name item \<in> seen then False else no_duplicate_names items (insert (pd_name item) seen))"

definition limit_to_three ::
  "PublicDominantEmotion list \<Rightarrow> presentation_error + PublicDominantEmotion list" where
  "limit_to_three value =
     (if length value > 3 then Inl (PValidation (u ''dominant_emotions''))
      else if \<not> no_duplicate_names value {} then Inl (PValidation (u ''dominant_emotions''))
      else Inr value)"

definition reject_non_finite_timestamp :: "pyobj \<Rightarrow> presentation_error + rat" where
  "reject_non_finite_timestamp value = rbind (reject_non_finite (u ''timestamp'') value)
     (\<lambda>f. if f \<le> 0 then Inl (PValidation (u ''timestamp'')) else Inr f)"

definition EmotionStateResponse_init ::
  "pyobj \<Rightarrow> pystr \<Rightarrow> PublicPAD \<Rightarrow> PublicDominantEmotion list \<Rightarrow> pyobj
     \<Rightarrow> presentation_error + EmotionStateResponse" where
  "EmotionStateResponse_init schema_version mood_label pad dominant_emotions timestamp =
     rbind (validate_public_version schema_version) (\<lambda>sv.
     rbind (guard (mood_label \<noteq> []) (PValidation (u ''mood_label''))) (\<lambda>_.
     rbind (limit_to_three dominant_emotions) (\<lambda>de.
     rbind (reject_non_finite_timestamp timestamp) (\<lambda>ts.
     Inr \<lparr>er_schema_version = sv, er_mood_label = mood_label, er_pad = pad,
          er_dominant_emotions = de, er_timestamp = ts\<rparr>))))"

section \<open>The projection\<close>

text \<open>\<open>sort(key=lambda x: (-x[1], x[0]))\<close>: by descending intensity, then by name.\<close>

definition sort_emotions :: "emotions \<Rightarrow> emotions" where
  "sort_emotions es = sort_key (\<lambda>(name, intensity). (- intensity, name)) es"

fun build_dominant :: "emotions \<Rightarrow> presentation_error + PublicDominantEmotion list" where
  "build_dominant [] = Inr []"
| "build_dominant ((name, intensity) # es) =
     rbind (PublicDominantEmotion_init (PStr name) (flt intensity)) (\<lambda>e.
     rbind (build_dominant es) (\<lambda>rest. Inr (e # rest)))"

text \<open>An argument is the object \<open>None\<close>, an instance, or an object of another class.\<close>

definition project_public_emotion ::
  "EmotionalStateV1 arg option \<Rightarrow> AppraisalV1 arg option \<Rightarrow> presentation_error + EmotionStateResponse" where
  "project_public_emotion state appraisal =
     rbind (guard (state \<noteq> None) (PresentationError (u ''state''))) (\<lambda>_.
     rbind (guard (appraisal \<noteq> None) (PresentationError (u ''appraisal''))) (\<lambda>_.
     (case state of Some (Inst s) \<Rightarrow> (case appraisal of Some (Inst a) \<Rightarrow>
        (let mood_label = classify_pad_mood (es_pleasure s) (es_arousal s) (es_dominance s) in
         rbind (PublicPAD_init (flt (es_pleasure s)) (flt (es_arousal s)) (flt (es_dominance s))) (\<lambda>pad.
         let raw_emotions = filter (\<lambda>(name, intensity). intensity > 0) (ap_discrete_emotions a);
             top = take 3 (sort_emotions raw_emotions)
         in rbind (build_dominant top) (\<lambda>dominant_emotions.
            EmotionStateResponse_init (PInt PUBLIC_EMOTION_SCHEMA_VERSION) mood_label pad
              dominant_emotions (flt (es_timestamp s)))))
      | _ \<Rightarrow> Inl (PTypeError (u ''appraisal'')))
    | _ \<Rightarrow> Inl (PTypeError (u ''state'')))))"

section \<open>The projection in closed form\<close>

interpretation pub: float_validator "\<lambda>v n. reject_non_finite n v" "\<lambda>x n lo hi. field_bounds n lo hi x"
proof
  fix v n x
  show "reject_non_finite n v = Inr x \<longleftrightarrow> float_value v = Some x"
    by (cases v rule: float_value.cases) (auto simp: reject_non_finite_def split: option.splits)
qed (auto simp: field_bounds_def)

lemma reject_flt [simp]: "reject_non_finite n (flt x) = Inr x"
  by (simp add: pub.req_iff)

lemma field_bounds_ok [simp]: "lo \<le> x \<Longrightarrow> x \<le> hi \<Longrightarrow> field_bounds n lo hi x = Inr x"
  by (simp add: field_bounds_def)

definition dominant_of :: "emotions \<Rightarrow> PublicDominantEmotion list" where
  "dominant_of es = map (\<lambda>(n, x). \<lparr>pd_name = n, pd_intensity = x\<rparr>)
     (take 3 (sort_emotions (filter (\<lambda>(n, x). x > 0) es)))"

lemma no_duplicate_names_iff:
  "no_duplicate_names xs seen \<longleftrightarrow> distinct (map pd_name xs) \<and> pd_name ` set xs \<inter> seen = {}"
  by (induction xs seen rule: no_duplicate_names.induct) auto

lemma emotion_nonempty: "n \<in> set DISCRETE_EMOTIONS \<Longrightarrow> n \<noteq> []"
  by (auto simp: DISCRETE_EMOTIONS_def)

lemma build_dominant_ok:
  "list_all (\<lambda>(n, x). n \<in> set DISCRETE_EMOTIONS \<and> 0 \<le> x \<and> x \<le> 1) es
     \<Longrightarrow> build_dominant es = Inr (map (\<lambda>(n, x). \<lparr>pd_name = n, pd_intensity = x\<rparr>) es)"
  by (induction es rule: build_dominant.induct)
    (auto simp: PublicDominantEmotion_init_def validate_emotion_name_def emotion_nonempty)

lemma set_sort_emotions [simp]: "set (sort_emotions es) = set es"
  by (simp add: sort_emotions_def)

lemma distinct_sort_emotions:
  assumes "distinct (map fst es)"
  shows "distinct (map fst (sort_emotions es))"
proof -
  have "mset (map fst (sort_emotions es)) = mset (map fst es)"
    by (simp add: sort_emotions_def)
  then show ?thesis using assms by (metis mset_eq_imp_distinct_iff)
qed

lemma distinct_filter_keys: "distinct (map fst es) \<Longrightarrow> distinct (map fst (filter P es))"
  by (induction es) auto

lemma top_emotions_distinct:
  "valid_emotions es \<Longrightarrow> distinct (map fst (take 3 (sort_emotions (filter P es))))"
  by (simp add: valid_emotions_def take_map [symmetric] distinct_sort_emotions distinct_filter_keys)

lemma mood_nonempty: "classify_pad_mood p a d \<noteq> []"
  by (simp add: classify_pad_mood_def)

lemma project_closed_form:
  assumes "valid_state s" and "valid_appraisal a"
  shows "project_public_emotion (Some (Inst s)) (Some (Inst a)) = Inr
     \<lparr>er_schema_version = 1,
      er_mood_label = classify_pad_mood (es_pleasure s) (es_arousal s) (es_dominance s),
      er_pad = \<lparr>pp_pleasure = es_pleasure s, pp_arousal = es_arousal s, pp_dominance = es_dominance s\<rparr>,
      er_dominant_emotions = dominant_of (ap_discrete_emotions a),
      er_timestamp = es_timestamp s\<rparr>"
proof -
  let ?top = "take 3 (sort_emotions (filter (\<lambda>(n, x). x > 0) (ap_discrete_emotions a)))"
  have v: "valid_emotions (ap_discrete_emotions a)"
    using assms(2) by (simp add: valid_appraisal_def)
  have "set ?top \<subseteq> set (ap_discrete_emotions a)"
    by (auto dest: in_set_takeD)
  then have b: "build_dominant ?top = Inr (dominant_of (ap_discrete_emotions a))"
    using v unfolding dominant_of_def
    by (intro build_dominant_ok) (auto simp: valid_emotions_def list_all_iff)
  have "map pd_name (dominant_of (ap_discrete_emotions a)) = map fst ?top"
    by (auto simp: dominant_of_def)
  then have l: "limit_to_three (dominant_of (ap_discrete_emotions a)) = Inr (dominant_of (ap_discrete_emotions a))"
    using top_emotions_distinct [OF v]
    by (simp add: limit_to_three_def no_duplicate_names_iff) (simp add: dominant_of_def)
  show ?thesis
    using assms(1)
    by (simp add: project_public_emotion_def PublicPAD_init_def b l EmotionStateResponse_init_def
        validate_public_version_def PUBLIC_EMOTION_SCHEMA_VERSION_def mood_nonempty
        reject_non_finite_timestamp_def valid_state_def)
qed

section \<open>The three strongest\<close>

lemma sorted_take_drop:
  "sorted (map k xs) \<Longrightarrow> x \<in> set (take n xs) \<Longrightarrow> y \<in> set (drop n xs) \<Longrightarrow> k x \<le> k y"
proof -
  assume "sorted (map k xs)"
  then have "sorted (map k (take n xs) @ map k (drop n xs))"
    by (metis append_take_drop_id map_append)
  moreover assume "x \<in> set (take n xs)" "y \<in> set (drop n xs)"
  ultimately show ?thesis by (auto simp: sorted_append)
qed

lemma dominant_of_members:
  "e \<in> set (dominant_of es) \<Longrightarrow> (pd_name e, pd_intensity e) \<in> set es \<and> 0 < pd_intensity e"
  by (auto simp: dominant_of_def dest!: in_set_takeD)

lemma dominant_of_strongest:
  assumes "(n, x) \<in> set es" and "0 < x" and "n \<notin> pd_name ` set (dominant_of es)"
    and "e \<in> set (dominant_of es)"
  shows "length (dominant_of es) = 3
     \<and> (x < pd_intensity e \<or> x = pd_intensity e \<and> pd_name e \<le> n)"
proof -
  define L where "L = sort_emotions (filter (\<lambda>(n, x). x > 0) es)"
  have D: "dominant_of es = map (\<lambda>(n, x). \<lparr>pd_name = n, pd_intensity = x\<rparr>) (take 3 L)"
    by (simp add: dominant_of_def L_def)
  have s: "sorted (map (\<lambda>(n, x). (- x, n)) L)" by (simp add: L_def sort_emotions_def)
  have "(n, x) \<in> set L" using assms(1,2) by (simp add: L_def)
  moreover have "(n, x) \<notin> set (take 3 L)"
    using assms(3) unfolding D by force
  ultimately have dr: "(n, x) \<in> set (drop 3 L)"
    by (metis Un_iff append_take_drop_id set_append)
  then have "3 < length L"
    by (metis drop_eq_Nil2 empty_iff list.set(1) not_le)
  moreover obtain m y where e: "(m, y) \<in> set (take 3 L)" "e = \<lparr>pd_name = m, pd_intensity = y\<rparr>"
    using assms(4) unfolding D by auto
  moreover have "(- y, m) \<le> (- x, n)"
    using sorted_take_drop [OF s e(1) dr] by simp
  ultimately show ?thesis unfolding D by auto
qed

section \<open>Properties\<close>

text \<open>For a valid state and a valid appraisal the projection never raises; it publishes the PAD
  coordinates and the time stamp of the state, and at most three emotions with distinct names.\<close>

theorem project_total:
  assumes "valid_state s" and "valid_appraisal a"
  shows "\<exists>r. project_public_emotion (Some (Inst s)) (Some (Inst a)) = Inr r
     \<and> er_pad r = \<lparr>pp_pleasure = es_pleasure s, pp_arousal = es_arousal s, pp_dominance = es_dominance s\<rparr>
     \<and> er_timestamp r = es_timestamp s
     \<and> er_mood_label r = classify_pad_mood (es_pleasure s) (es_arousal s) (es_dominance s)
     \<and> length (er_dominant_emotions r) \<le> 3 \<and> distinct (map pd_name (er_dominant_emotions r))"
proof -
  have "map pd_name (dominant_of (ap_discrete_emotions a))
      = map fst (take 3 (sort_emotions (filter (\<lambda>(n, x). x > 0) (ap_discrete_emotions a))))"
    by (auto simp: dominant_of_def)
  then have "distinct (map pd_name (dominant_of (ap_discrete_emotions a)))"
    using assms(2) by (simp add: top_emotions_distinct valid_appraisal_def)
  moreover have "length (dominant_of (ap_discrete_emotions a)) \<le> 3" by (simp add: dominant_of_def)
  ultimately show ?thesis using project_closed_form [OF assms] by simp
qed

theorem project_total_witness:
  "\<exists>r. project_public_emotion (Some (Inst calm_state)) (Some (Inst warm_appraisal)) = Inr r
     \<and> er_timestamp r = 1000"
  using project_total [OF valid_calm_state valid_warm_appraisal] by (auto simp: calm_state_def)

text \<open>The published emotions are the strongest of the appraisal: every one is felt with positive
  intensity, and an emotion of positive intensity is left out only when three are published that
  are stronger, or equally strong with a name that comes first.\<close>

theorem project_strongest:
  assumes "valid_state s" and "valid_appraisal a"
    and "project_public_emotion (Some (Inst s)) (Some (Inst a)) = Inr r"
    and "(n, x) \<in> set (ap_discrete_emotions a)" and "0 < x"
    and "n \<notin> pd_name ` set (er_dominant_emotions r)" and "e \<in> set (er_dominant_emotions r)"
  shows "length (er_dominant_emotions r) = 3
     \<and> (x < pd_intensity e \<or> x = pd_intensity e \<and> pd_name e \<le> n)
     \<and> (pd_name e, pd_intensity e) \<in> set (ap_discrete_emotions a) \<and> 0 < pd_intensity e"
proof -
  have "er_dominant_emotions r = dominant_of (ap_discrete_emotions a)"
    using assms(3) project_closed_form [OF assms(1,2)] by auto
  then show ?thesis
    using assms(4-7) dominant_of_strongest [of n x] dominant_of_members [of e] by simp
qed

definition mixed_appraisal :: AppraisalV1 where
  "mixed_appraisal = warm_appraisal\<lparr>ap_discrete_emotions :=
     [(u ''joy'', 1/2), (u ''fear'', 1/4), (u ''pride'', 1/2), (u ''anger'', 1)]\<rparr>"

theorem project_strongest_witness:
  "\<exists>r. project_public_emotion (Some (Inst calm_state)) (Some (Inst mixed_appraisal)) = Inr r
     \<and> length (er_dominant_emotions r) = 3"
proof -
  have v: "valid_appraisal mixed_appraisal"
    using valid_warm_appraisal
    by (simp add: mixed_appraisal_def valid_appraisal_def valid_emotions_def DISCRETE_EMOTIONS_def)
  let ?d = "dominant_of (ap_discrete_emotions mixed_appraisal)"
  have d: "?d = [\<lparr>pd_name = u ''anger'', pd_intensity = 1\<rparr>, \<lparr>pd_name = u ''joy'', pd_intensity = 1/2\<rparr>,
      \<lparr>pd_name = u ''pride'', pd_intensity = 1/2\<rparr>]"
    by code_simp
  obtain r where r: "project_public_emotion (Some (Inst calm_state)) (Some (Inst mixed_appraisal)) = Inr r"
    and e: "er_dominant_emotions r = ?d"
    using project_closed_form [OF valid_calm_state v] by simp
  have "(u ''fear'', 1/4) \<in> set (ap_discrete_emotions mixed_appraisal)"
    by (simp add: mixed_appraisal_def)
  from project_strongest [OF valid_calm_state v r this, of "\<lparr>pd_name = u ''anger'', pd_intensity = 1\<rparr>"] r
  show ?thesis by (simp add: e d)
qed

text \<open>The public response depends on the emotional state only through its PAD coordinates and its
  time stamp: drives, tension and coping mode never reach it.\<close>

theorem project_hides_internals:
  assumes "es_pleasure s = es_pleasure t" and "es_arousal s = es_arousal t"
    and "es_dominance s = es_dominance t" and "es_timestamp s = es_timestamp t"
  shows "project_public_emotion (Some (Inst s)) a = project_public_emotion (Some (Inst t)) a"
  by (simp add: project_public_emotion_def assms split: option.splits arg.splits)

theorem project_hides_internals_witness:
  "project_public_emotion (Some (Inst calm_state)) (Some (Inst warm_appraisal))
     = project_public_emotion (Some (Inst (calm_state\<lparr>es_tension := 1, es_coping_mode := u ''MANIC''\<rparr>)))
         (Some (Inst warm_appraisal))"
  by (rule project_hides_internals) simp_all

end
