(* ===== verification/Affective_Engine.thy ===== *)
theory Affective_Engine
  imports Emotion_Presentation
begin

text \<open>
  \<open>backend/emotional_core.py\<close>: the first affective engine, kept for the acting instructions of the
  prompt builder.  \<open>str.lower\<close> is the parameter \<open>lower\<close>; the two coping instructions, fixed texts of
  the source, are constructors.
\<close>

section \<open>State\<close>

record EmotionalState =
  el_pleasure :: rat
  el_arousal :: rat
  el_dominance :: rat
  el_libido :: rat
  el_aggression :: rat
  el_connection :: rat
  el_energy :: rat
  el_tension :: rat
  el_coping_mode :: pystr
  el_last_update :: rat

datatype affective_error =
  AOverflow \<comment> \<open>the OverflowError of \<open>math.isfinite\<close> on an int beyond the largest double\<close>

section \<open>OCCAppraisal\<close>

fun starts_with :: "pystr \<Rightarrow> pystr \<Rightarrow> bool" where
  "starts_with [] s = True"
| "starts_with (c # w) [] = False"
| "starts_with (c # w) (d # s) = (c = d \<and> starts_with w s)"

text \<open>\<open>w in text\<close>.\<close>

fun contains :: "pystr \<Rightarrow> pystr \<Rightarrow> bool" where
  "contains w [] = (w = [])"
| "contains w (c # s) = (starts_with w (c # s) \<or> contains w s)"

definition affection_words :: "pystr list" where
  "affection_words = [u ''gostosa'', u ''linda'', u ''te quero'', u ''beijo'', u ''vem c'' @ [225]]"

definition insult_words :: "pystr list" where
  "insult_words = [u ''burra'', u ''idiota'', u ''odeio'', u ''cale a boca'', u ''in'' @ [250] @ u ''til'']"

definition command_words :: "pystr list" where
  "command_words = [u ''ajoelha'', u ''obede'' @ [231] @ u ''a'', u ''sou seu dono'', u ''manda quem pode'']"

definition occ_evaluate ::
  "(pystr \<Rightarrow> pystr) \<Rightarrow> pystr \<Rightarrow> EmotionalState \<Rightarrow> rat \<times> rat \<times> rat" where
  "occ_evaluate lower user_input s =
     (let text = lower user_input;
          (p, a, d) = (0, 0, 0);
          (p, a, d) = (if list_ex (\<lambda>w. contains w text) affection_words
             then (fadd p (fl (3/10)), fadd a (fl (4/10)), fadd d (fl (1/10))) else (p, a, d));
          (p, a, d) = (if list_ex (\<lambda>w. contains w text) insult_words
             then (fsub p (fl (5/10)), fadd a (fl (5/10)), fsub d (fl (2/10))) else (p, a, d));
          (p, a, d) = (if list_ex (\<lambda>w. contains w text) command_words
             then (fsub p (fl (3/10)), fadd a (fl (3/10)), fsub d (fl (4/10))) else (p, a, d));
          a = (if el_libido s > fl (7/10) then fadd a (fl (1/10)) else a)
      in (p, a, d))"

section \<open>CopingMechanism\<close>

datatype coping_instruction = NoInstruction | DefensiveInstruction | DissociatedInstruction

definition regulate :: "EmotionalState \<Rightarrow> EmotionalState \<times> coping_instruction" where
  "regulate s =
     (let t0 = el_tension s;
          t1 = (if el_pleasure s < - fl (3/10) then fadd t0 (fl (5/100))
                else if el_pleasure s > fl (3/10) then fsub t0 (fl (5/100))
                else t0);
          new_tension = max 0 (min 1 t1)
      in if new_tension > fl (8/10) then
           (if el_dominance s > 0
            then (s\<lparr>el_tension := new_tension, el_coping_mode := u ''DEFENSIVE'',
                    el_aggression := max 0 (min 1 (fadd (el_aggression s) (fl (1/10))))\<rparr>,
                  DefensiveInstruction)
            else (s\<lparr>el_tension := new_tension, el_coping_mode := u ''DISSOCIATED'',
                    el_arousal := fmul (el_arousal s) (fl (5/10))\<rparr>,
                  DissociatedInstruction))
         else if new_tension < fl (3/10)
         then (s\<lparr>el_tension := new_tension, el_coping_mode := u ''HEALTHY''\<rparr>, NoInstruction)
         else (s\<lparr>el_tension := new_tension\<rparr>, NoInstruction))"

section \<open>AffectiveEngine\<close>

definition engine_clamp :: "rat \<Rightarrow> rat \<Rightarrow> rat \<Rightarrow> rat" where
  "engine_clamp value min_v max_v = max min_v (min value max_v)"

definition apply_time_decay :: "EmotionalState \<Rightarrow> rat \<Rightarrow> EmotionalState" where
  "apply_time_decay s current_time =
     (let elapsed = fsub current_time (el_last_update s);
          decay = (if elapsed > 3600 then fl (5/10) else fl (95/100))
      in s\<lparr>el_pleasure := fmul (el_pleasure s) decay, el_arousal := fmul (el_arousal s) decay,
           el_dominance := fmul (el_dominance s) (fl (98/100)),
           el_tension := (if el_coping_mode s = u ''HEALTHY'' then fmul (el_tension s) (fl (9/10))
                          else el_tension s)\<rparr>)"

definition get_override_shift :: "pyobj option \<Rightarrow> pystr \<Rightarrow> affective_error + rat" where
  "get_override_shift perception_override key = (case perception_override of
     Some (PDict d) \<Rightarrow> (case map_of d (PStr key) of
         None \<Rightarrow> Inr 0
       | Some val \<Rightarrow>
           if is_bool val then Inr 0
           else if \<not> is_number val then Inr 0
           else (case py_float val of
             None \<Rightarrow> Inl AOverflow
           | Some f \<Rightarrow> if \<not> isfinite f then Inr 0 else Inr (fin_val f)))
   | _ \<Rightarrow> Inr 0)"

text \<open>Steps 2 and 3 of the update: the PAD coordinates and the libido.\<close>

definition apply_shifts :: "EmotionalState \<Rightarrow> rat \<Rightarrow> rat \<Rightarrow> rat \<Rightarrow> rat \<Rightarrow> EmotionalState" where
  "apply_shifts s current_time p_final_shift a_final_shift d_final_shift =
     (let new_pleasure = engine_clamp (fadd (el_pleasure s) p_final_shift) (-1) 1;
          new_arousal = engine_clamp (fadd (el_arousal s) a_final_shift) (-1) 1;
          new_dominance = engine_clamp (fadd (el_dominance s) d_final_shift) (-1) 1;
          new_libido = (if new_arousal > fl (5/10) \<and> new_pleasure > 0
            then engine_clamp (fadd (el_libido s) (fl (5/100))) 0 1
            else engine_clamp (fsub (el_libido s) (fl (1/100))) 0 1)
      in s\<lparr>el_pleasure := new_pleasure, el_arousal := new_arousal, el_dominance := new_dominance,
           el_libido := new_libido, el_last_update := current_time\<rparr>)"

definition update_state ::
  "(pystr \<Rightarrow> pystr) \<Rightarrow> EmotionalState \<Rightarrow> pystr \<Rightarrow> rat \<Rightarrow> pyobj option
     \<Rightarrow> affective_error + EmotionalState \<times> coping_instruction" where
  "update_state lower state0 user_input current_time perception_override =
     (let s = apply_time_decay state0 current_time;
          (p_shift, a_shift, d_shift) = occ_evaluate lower user_input s
      in rbind (get_override_shift perception_override (u ''valence'')) (\<lambda>pv.
         rbind (get_override_shift perception_override (u ''arousal_shift'')) (\<lambda>av.
         rbind (get_override_shift perception_override (u ''dominance_shift'')) (\<lambda>dv.
         Inr (regulate (apply_shifts s current_time (fadd p_shift pv) (fadd a_shift av)
           (fadd d_shift dv)))))))"

definition get_emotional_label :: "EmotionalState \<Rightarrow> pystr" where
  "get_emotional_label s = classify_pad_mood (el_pleasure s) (el_arousal s) (el_dominance s)"

section \<open>Lemmas\<close>

definition in_ranges :: "EmotionalState \<Rightarrow> bool" where
  "in_ranges s \<longleftrightarrow> - 1 \<le> el_pleasure s \<and> el_pleasure s \<le> 1 \<and> - 1 \<le> el_arousal s \<and> el_arousal s \<le> 1
     \<and> - 1 \<le> el_dominance s \<and> el_dominance s \<le> 1 \<and> 0 \<le> el_libido s \<and> el_libido s \<le> 1
     \<and> 0 \<le> el_aggression s \<and> el_aggression s \<le> 1 \<and> 0 \<le> el_tension s \<and> el_tension s \<le> 1
     \<and> el_coping_mode s \<in> set VALID_COPING_MODES"

lemma fmul_unit:
  assumes "- 1 \<le> x" and "x \<le> 1" and "0 \<le> f" and "f \<le> 1"
  shows "- 1 \<le> fmul x f" and "fmul x f \<le> 1"
proof -
  have "\<bar>x * f\<bar> \<le> 1 * 1"
    unfolding abs_mult using assms by (intro mult_mono) auto
  then have "- 1 \<le> x * f" "x * f \<le> 1" by auto
  then show "- 1 \<le> fmul x f" "fmul x f \<le> 1"
    using fl_mono [of "- 1" "x * f"] fl_mono [of "x * f" 1] by (simp_all add: fmul_def)
qed

lemma fmul_nonneg: "0 \<le> x \<Longrightarrow> 0 \<le> f \<Longrightarrow> 0 \<le> fmul x f"
  by (simp add: fmul_def b64.rnd_nonneg)

lemma fl_unit: "0 \<le> x \<Longrightarrow> x \<le> 1 \<Longrightarrow> 0 \<le> fl x \<and> fl x \<le> 1"
  using fl_mono [of x 1] by (simp add: b64.rnd_nonneg)

lemma engine_clamp_bounds [simp]:
  "lo \<le> hi \<Longrightarrow> lo \<le> engine_clamp x lo hi" "lo \<le> hi \<Longrightarrow> engine_clamp x lo hi \<le> hi"
  by (auto simp: engine_clamp_def)

lemma decay_in_ranges: "in_ranges s \<Longrightarrow> in_ranges (apply_time_decay s t)"
  using fl_unit [of "5/10"] fl_unit [of "95/100"] fl_unit [of "98/100"] fl_unit [of "9/10"]
  by (simp add: in_ranges_def apply_time_decay_def Let_def fmul_unit fmul_nonneg)

lemma regulate_in_ranges:
  assumes "in_ranges s"
  shows "in_ranges (fst (regulate s))"
proof -
  define nt where "nt = max 0 (min 1 (if el_pleasure s < - fl (3/10) then fadd (el_tension s) (fl (5/100))
    else if el_pleasure s > fl (3/10) then fsub (el_tension s) (fl (5/100)) else el_tension s))"
  have nt: "0 \<le> nt" "nt \<le> 1" by (simp_all add: nt_def)
  have modes: "u ''DEFENSIVE'' \<in> set VALID_COPING_MODES" "u ''DISSOCIATED'' \<in> set VALID_COPING_MODES"
    "u ''HEALTHY'' \<in> set VALID_COPING_MODES"
    by (simp_all add: VALID_COPING_MODES_def)
  have h: "0 \<le> fl (5/10)" "fl (5/10) \<le> 1" using fl_unit [of "5/10"] by simp_all
  show ?thesis
    unfolding regulate_def Let_def nt_def [symmetric]
    using assms nt modes fmul_unit [OF _ _ h, of "el_arousal s"] by (auto simp: in_ranges_def)
qed

lemma apply_shifts_in_ranges: "in_ranges s \<Longrightarrow> in_ranges (apply_shifts s t p a d)"
  by (simp add: in_ranges_def apply_shifts_def Let_def)

text \<open>An override raises exactly on an int too large for a double.\<close>

lemma get_override_shift_error:
  "get_override_shift override k = Inl e \<longleftrightarrow> (\<exists>d n. override = Some (PDict d)
     \<and> map_of d (PStr k) = Some (PInt n) \<and> float_of_int n = None)"
proof -
  have e: "e = AOverflow" by (cases e)
  have "\<And>v. py_float v = None \<and> is_number v \<and> \<not> is_bool v \<longleftrightarrow> (\<exists>n. v = PInt n \<and> float_of_int n = None)"
    by (case_tac v) auto
  then show ?thesis
    unfolding e get_override_shift_def
    by (cases override) (auto split: pyobj.splits option.splits)
qed

section \<open>Properties\<close>

text \<open>The affective engine keeps its state in the documented ranges: whatever the text, the clock
  and the perception override, an update that returns yields PAD in \<open>[-1, 1]\<close>, drives and tension in
  \<open>[0, 1]\<close> and a known coping mode.\<close>

theorem update_state_in_ranges:
  assumes "in_ranges s" and "update_state lower s text t override = Inr (s', i)"
  shows "in_ranges s'"
proof -
  obtain ps as ds where o: "occ_evaluate lower text (apply_time_decay s t) = (ps, as, ds)"
    by (metis prod_cases3)
  show ?thesis
    using assms(2) regulate_in_ranges [OF apply_shifts_in_ranges [OF decay_in_ranges [OF assms(1)]]]
    unfolding update_state_def Let_def o prod.case
    by (elim rbind_InrE) (metis Inr_inject fst_conv)
qed

definition resting_state :: EmotionalState where
  "resting_state = \<lparr>el_pleasure = 1/2, el_arousal = 0, el_dominance = 0, el_libido = 0,
     el_aggression = 0, el_connection = 1/2, el_energy = 1, el_tension = 0,
     el_coping_mode = u ''HEALTHY'', el_last_update = 1\<rparr>"

theorem update_state_in_ranges_witness:
  "\<exists>s' i. update_state id resting_state (u ''linda'') 5 None = Inr (s', i) \<and> in_ranges s'"
proof -
  have r: "in_ranges resting_state"
    by (simp add: in_ranges_def resting_state_def VALID_COPING_MODES_def)
  have "\<exists>s' i. update_state id resting_state (u ''linda'') 5 None = Inr (s', i)"
    by (simp add: update_state_def Let_def get_override_shift_def split: prod.splits)
  with update_state_in_ranges [OF r] show ?thesis by blast
qed

text \<open>The engine raises exactly when one of the three override fields is an int too large for a
  double: \<open>math.isfinite\<close> is applied before any conversion is guarded, so such a perception makes the
  update fail instead of being ignored like the other invalid values.\<close>

theorem update_state_raises_iff:
  "(\<exists>e. update_state lower s text t override = Inl e) \<longleftrightarrow>
     (\<exists>d k n. override = Some (PDict d)
        \<and> k \<in> {''valence'', ''arousal_shift'', ''dominance_shift''}
        \<and> map_of d (PStr (u k)) = Some (PInt n) \<and> float_of_int n = None)"
proof -
  obtain ps as ds where o: "occ_evaluate lower text (apply_time_decay s t) = (ps, as, ds)"
    by (metis prod_cases3)
  have "(\<exists>e. update_state lower s text t override = Inl e) \<longleftrightarrow>
      (\<exists>k e. k \<in> {''valence'', ''arousal_shift'', ''dominance_shift''}
         \<and> get_override_shift override (u k) = Inl e)"
    unfolding update_state_def Let_def o prod.case
    by (cases "get_override_shift override (u ''valence'')";
        cases "get_override_shift override (u ''arousal_shift'')";
        cases "get_override_shift override (u ''dominance_shift'')") auto
  then show ?thesis unfolding get_override_shift_error by blast
qed

end
