(* ===== verification/Lock_Manager.thy ===== *)
theory Lock_Manager
  imports Py_Values
begin

text \<open>
  \<open>backend/lock_manager.py\<close>: per-user locks with reference counting, as a step relation over the
  tasks of the event loop.  The bodies guarded by \<open>_dict_lock\<close> contain no \<open>await\<close>, so no task ever
  finds that lock taken and each of them is one step; a task gives up control only while it waits
  for a user's lock and inside the \<open>yield\<close>.
\<close>

section \<open>State\<close>

text \<open>Where a task is in \<open>lock(user_id)\<close>: the lock object it holds a reference to is a number.\<close>

datatype lock_pc =
    LIdle
  | LWaiting pystr nat \<comment> \<open>counted, before \<open>async with user_lock\<close> is entered\<close>
  | LInside pystr nat \<comment> \<open>at the \<open>yield\<close>\<close>
  | LLeaving pystr nat \<comment> \<open>in the \<open>finally\<close> block\<close>

record lock_mgr =
  lm_locks :: "pystr \<rightharpoonup> nat \<times> int" \<comment> \<open>\<open>_locks\<close>: the lock object and its count\<close>
  lm_holder :: "nat \<rightharpoonup> nat" \<comment> \<open>the task that holds a lock object\<close>
  lm_next :: nat \<comment> \<open>the next fresh lock object\<close>
  lm_pcs :: "nat \<Rightarrow> lock_pc"

definition lm_init :: lock_mgr where
  "lm_init = \<lparr>lm_locks = Map.empty, lm_holder = Map.empty, lm_next = 0, lm_pcs = (\<lambda>_. LIdle)\<rparr>"

section \<open>Operations\<close>

text \<open>Step 1: get or create the lock and count the reference.\<close>

definition lm_enter :: "nat \<Rightarrow> pystr \<Rightarrow> lock_mgr \<Rightarrow> lock_mgr" where
  "lm_enter t user_id m =
     (let m1 = (if user_id \<notin> dom (lm_locks m)
                then m\<lparr>lm_locks := (lm_locks m)(user_id \<mapsto> (lm_next m, 0)), lm_next := lm_next m + 1\<rparr>
                else m)
      in case lm_locks m1 user_id of
           None \<Rightarrow> m1
         | Some (l, n) \<Rightarrow> m1\<lparr>lm_locks := (lm_locks m1)(user_id \<mapsto> (l, n + 1)),
                             lm_pcs := (lm_pcs m1)(t := LWaiting user_id l)\<rparr>)"

text \<open>Step 2: the user's lock is free and the task takes it.\<close>

definition lm_acquire :: "nat \<Rightarrow> pystr \<Rightarrow> nat \<Rightarrow> lock_mgr \<Rightarrow> lock_mgr" where
  "lm_acquire t user_id l m =
     m\<lparr>lm_holder := (lm_holder m)(l \<mapsto> t), lm_pcs := (lm_pcs m)(t := LInside user_id l)\<rparr>"

text \<open>A task cancelled or failing while it waits goes to the \<open>finally\<close> block.\<close>

definition lm_cancel :: "nat \<Rightarrow> pystr \<Rightarrow> nat \<Rightarrow> lock_mgr \<Rightarrow> lock_mgr" where
  "lm_cancel t user_id l m = m\<lparr>lm_pcs := (lm_pcs m)(t := LLeaving user_id l)\<rparr>"

text \<open>The body of the \<open>with\<close> ends, normally or not: the user's lock is released.\<close>

definition lm_release :: "nat \<Rightarrow> pystr \<Rightarrow> nat \<Rightarrow> lock_mgr \<Rightarrow> lock_mgr" where
  "lm_release t user_id l m =
     m\<lparr>lm_holder := (lm_holder m)(l := None), lm_pcs := (lm_pcs m)(t := LLeaving user_id l)\<rparr>"

text \<open>Step 3: the count goes down and the entry is removed at zero.\<close>

definition lm_leave :: "nat \<Rightarrow> pystr \<Rightarrow> lock_mgr \<Rightarrow> lock_mgr" where
  "lm_leave t user_id m =
     (let m1 = m\<lparr>lm_pcs := (lm_pcs m)(t := LIdle)\<rparr>
      in case lm_locks m1 user_id of
           None \<Rightarrow> m1
         | Some (l, n) \<Rightarrow>
             if n - 1 \<le> 0 then m1\<lparr>lm_locks := (lm_locks m1)(user_id := None)\<rparr>
             else m1\<lparr>lm_locks := (lm_locks m1)(user_id \<mapsto> (l, n - 1))\<rparr>)"

inductive lm_step :: "lock_mgr \<Rightarrow> lock_mgr \<Rightarrow> bool" where
  step_enter: "lm_pcs m t = LIdle \<Longrightarrow> lm_step m (lm_enter t user_id m)"
| step_acquire: "lm_pcs m t = LWaiting user_id l \<Longrightarrow> lm_holder m l = None
     \<Longrightarrow> lm_step m (lm_acquire t user_id l m)"
| step_cancel: "lm_pcs m t = LWaiting user_id l \<Longrightarrow> lm_step m (lm_cancel t user_id l m)"
| step_release: "lm_pcs m t = LInside user_id l \<Longrightarrow> lm_step m (lm_release t user_id l m)"
| step_leave: "lm_pcs m t = LLeaving user_id l \<Longrightarrow> lm_step m (lm_leave t user_id m)"

section \<open>The invariant\<close>

fun refers :: "pystr \<Rightarrow> nat \<Rightarrow> lock_pc \<Rightarrow> bool" where
  "refers v k LIdle = False"
| "refers v k (LWaiting w l) = (v = w \<and> k = l)"
| "refers v k (LInside w l) = (v = w \<and> k = l)"
| "refers v k (LLeaving w l) = (v = w \<and> k = l)"

definition users_of :: "lock_mgr \<Rightarrow> pystr \<Rightarrow> nat set" where
  "users_of m v = {t. \<exists>k. refers v k (lm_pcs m t)}"

text \<open>
  Every task in \<open>lock(v)\<close> refers to the one lock object registered for \<open>v\<close>, the count is the number of
  these tasks, an entry exists only while there are some, the holder of a lock object is the task
  inside it, and object numbers are fresh.
\<close>

definition lm_inv :: "lock_mgr \<Rightarrow> bool" where
  "lm_inv m \<longleftrightarrow>
     (\<forall>v. finite (users_of m v))
   \<and> (\<forall>v t k. refers v k (lm_pcs m t) \<longrightarrow> (\<exists>n. lm_locks m v = Some (k, n)))
   \<and> (\<forall>v k n. lm_locks m v = Some (k, n) \<longrightarrow> n = int (card (users_of m v)) \<and> 0 < n \<and> k < lm_next m)
   \<and> (\<forall>v w k n n'. lm_locks m v = Some (k, n) \<longrightarrow> lm_locks m w = Some (k, n') \<longrightarrow> v = w)
   \<and> (\<forall>k t. lm_holder m k = Some t \<longleftrightarrow> (\<exists>v. lm_pcs m t = LInside v k))"

lemma users_of_upd:
  assumes "lm_pcs m' = (lm_pcs m)(t := pc)"
  shows "users_of m' v = (if \<exists>k. refers v k pc then insert t (users_of m v) else users_of m v - {t})"
  using assms by (auto simp: users_of_def)

lemma lm_inv_init: "lm_inv lm_init"
  by (simp add: lm_inv_def lm_init_def users_of_def)

lemma lm_invD:
  assumes "lm_inv m"
  shows lm_inv_finite: "finite (users_of m v)"
    and lm_inv_registered: "refers v k (lm_pcs m t) \<Longrightarrow> \<exists>n. lm_locks m v = Some (k, n)"
    and lm_inv_count: "lm_locks m v = Some (k, n) \<Longrightarrow> n = int (card (users_of m v)) \<and> 0 < n \<and> k < lm_next m"
    and lm_inv_distinct: "lm_locks m v = Some (k, n) \<Longrightarrow> lm_locks m w = Some (k, n') \<Longrightarrow> v = w"
    and lm_inv_holder: "lm_holder m k = Some t \<longleftrightarrow> (\<exists>v. lm_pcs m t = LInside v k)"
  using assms unfolding lm_inv_def by blast+

lemma in_users_of: "refers v k (lm_pcs m t) \<Longrightarrow> t \<in> users_of m v"
  by (auto simp: users_of_def)

lemma idle_not_in_users_of: "lm_pcs m t = LIdle \<Longrightarrow> t \<notin> users_of m v"
  by (simp add: users_of_def)

text \<open>A task that stays in \<open>lock(v)\<close> on the same object changes nobody's set of tasks.\<close>

lemma users_of_stay:
  assumes "lm_pcs m' = (lm_pcs m)(t := pc)" and "refers v k (lm_pcs m t)" and "refers v k pc"
  shows "users_of m' w = users_of m w"
proof -
  have "(\<exists>j. refers w j pc) \<longleftrightarrow> (\<exists>j. refers w j (lm_pcs m t))"
    using assms(2,3) by (cases pc; cases "lm_pcs m t") auto
  then show ?thesis using assms(1) by (auto simp: users_of_def)
qed

lemma lm_stay_inv:
  assumes i: "lm_inv m" and old: "refers v k (lm_pcs m t)" and new: "refers v k pc"
    and h: "\<And>j s. h j = Some s \<longleftrightarrow> (\<exists>w. ((lm_pcs m)(t := pc)) s = LInside w j)"
  shows "lm_inv (m\<lparr>lm_holder := h, lm_pcs := (lm_pcs m)(t := pc)\<rparr>)" (is "lm_inv ?m")
proof -
  have us: "users_of ?m w = users_of m w" for w
    by (rule users_of_stay [OF _ old new]) simp
  have pc: "refers w j pc \<longleftrightarrow> w = v \<and> j = k" for w j
    using new by (cases pc) auto
  show ?thesis
    unfolding lm_inv_def us
    using lm_invD [OF i] lm_inv_registered [OF i old] h by (auto simp: pc)
qed

lemma lm_enter_inv:
  assumes i: "lm_inv m" and idle: "lm_pcs m t = LIdle"
  shows "lm_inv (lm_enter t v m)"
proof (cases "lm_locks m v")
  case None
  let ?m = "lm_enter t v m"
  have e: "?m = m\<lparr>lm_locks := (lm_locks m)(v \<mapsto> (lm_next m, 1)), lm_next := lm_next m + 1,
                   lm_pcs := (lm_pcs m)(t := LWaiting v (lm_next m))\<rparr>"
    using None by (simp add: lm_enter_def domIff)
  have no: "users_of m v = {}"
    using lm_inv_registered [OF i] None by (fastforce simp: users_of_def)
  have us: "users_of ?m w = (if w = v then {t} else users_of m w)" for w
    using idle no by (auto simp: e users_of_def)
  have nr: "\<not> refers v k (lm_pcs m s)" for k s
    using lm_inv_registered [OF i] None by fastforce
  show ?thesis
    unfolding lm_inv_def us
  proof (intro conjI allI impI)
    show "finite (if w = v then {t} else users_of m w)" for w
      using lm_inv_finite [OF i] by simp
    show "\<exists>n. lm_locks ?m w = Some (k, n)" if "refers w k (lm_pcs ?m s)" for w k s
      using that lm_inv_registered [OF i] nr by (auto simp: e split: if_splits)
    show "n = int (card (if w = v then {t} else users_of m w))" if "lm_locks ?m w = Some (k, n)" for w k n
      using that lm_inv_count [OF i] by (auto simp: e split: if_splits)
    show "0 < n" if "lm_locks ?m w = Some (k, n)" for w k n
      using that lm_inv_count [OF i] by (auto simp: e split: if_splits)
    show "k < lm_next ?m" if "lm_locks ?m w = Some (k, n)" for w k n
      using that lm_inv_count [OF i, of w k n] by (auto simp: e split: if_splits)
    show "w = x" if "lm_locks ?m w = Some (k, n)" "lm_locks ?m x = Some (k, n')" for w x k n n'
      using that lm_inv_count [OF i] lm_inv_distinct [OF i] by (fastforce simp: e split: if_splits)
    show "(lm_holder ?m k = Some s) = (\<exists>w. lm_pcs ?m s = LInside w k)" for k s
      using lm_inv_holder [OF i] idle by (auto simp: e)
  qed
next
  case (Some a)
  then obtain l n where s: "lm_locks m v = Some (l, n)" by (cases a) auto
  let ?m = "lm_enter t v m"
  have e: "?m = m\<lparr>lm_locks := (lm_locks m)(v \<mapsto> (l, n + 1)),
                   lm_pcs := (lm_pcs m)(t := LWaiting v l)\<rparr>"
    using s by (simp add: lm_enter_def domIff)
  have us: "users_of ?m w = (if w = v then insert t (users_of m v) else users_of m w)" for w
    using idle by (auto simp: e users_of_def)
  have card: "int (card (insert t (users_of m v))) = n + 1"
    using idle_not_in_users_of [OF idle] lm_inv_finite [OF i] lm_inv_count [OF i s] by simp
  show ?thesis
    unfolding lm_inv_def us
  proof (intro conjI allI impI)
    show "finite (if w = v then insert t (users_of m v) else users_of m w)" for w
      using lm_inv_finite [OF i] by simp
    show "\<exists>n. lm_locks ?m w = Some (k, n)" if "refers w k (lm_pcs ?m s)" for w k s
      using that lm_inv_registered [OF i, of w k s] s by (auto simp: e split: if_splits)
    show "j = int (card (if w = v then insert t (users_of m v) else users_of m w))"
      if "lm_locks ?m w = Some (k, j)" for w k j
      using that lm_inv_count [OF i] card by (auto simp: e split: if_splits)
    show "0 < j" if "lm_locks ?m w = Some (k, j)" for w k j
      using that lm_inv_count [OF i] s by (fastforce simp: e split: if_splits)
    show "k < lm_next ?m" if "lm_locks ?m w = Some (k, j)" for w k j
      using that lm_inv_count [OF i, of w k] s by (auto simp: e split: if_splits)
    show "w = x" if "lm_locks ?m w = Some (k, j)" "lm_locks ?m x = Some (k, j')" for w x k j j'
      using that s lm_inv_distinct [OF i] by (auto simp: e split: if_splits)
    show "(lm_holder ?m k = Some s) = (\<exists>w. lm_pcs ?m s = LInside w k)" for k s
      using lm_inv_holder [OF i] idle by (auto simp: e)
  qed
qed

lemma lm_acquire_inv:
  assumes i: "lm_inv m" and p: "lm_pcs m t = LWaiting v k" and free: "lm_holder m k = None"
  shows "lm_inv (lm_acquire t v k m)"
proof -
  have no: "lm_pcs m s \<noteq> LInside w k" for s w
    using lm_inv_holder [OF i, of k s] free by auto
  show ?thesis
    unfolding lm_acquire_def
    by (rule lm_stay_inv [OF i, of v k]) (use p no lm_inv_holder [OF i] in auto)
qed

lemma lm_release_inv:
  assumes i: "lm_inv m" and p: "lm_pcs m t = LInside v k"
  shows "lm_inv (lm_release t v k m)"
proof -
  have kt: "lm_holder m k = Some t" using lm_inv_holder [OF i] p by blast
  have h: "((lm_holder m)(k := None)) j = Some s
      \<longleftrightarrow> (\<exists>w. ((lm_pcs m)(t := LLeaving v k)) s = LInside w j)" for j s
  proof (cases "s = t")
    case True
    then show ?thesis
      using lm_inv_holder [OF i, of j t] p by (auto simp: fun_upd_def)
  next
    case False
    then have "lm_holder m j = Some s \<longrightarrow> j \<noteq> k" using kt by auto
    then show ?thesis
      unfolding fun_upd_apply using lm_inv_holder [OF i, of j s] False by auto
  qed
  show ?thesis
    unfolding lm_release_def by (rule lm_stay_inv [OF i _ _ h]) (simp_all add: p)
qed

lemma lm_cancel_inv:
  assumes i: "lm_inv m" and p: "lm_pcs m t = LWaiting v k"
  shows "lm_inv (lm_cancel t v k m)"
proof -
  have "lm_inv (m\<lparr>lm_holder := lm_holder m, lm_pcs := (lm_pcs m)(t := LLeaving v k)\<rparr>)"
    by (rule lm_stay_inv [OF i, of v k]) (use p lm_inv_holder [OF i] in auto)
  then show ?thesis by (simp add: lm_cancel_def)
qed

lemma lm_leave_inv:
  assumes i: "lm_inv m" and p: "lm_pcs m t = LLeaving v l"
  shows "lm_inv (lm_leave t v m)"
proof -
  let ?m = "lm_leave t v m"
  obtain n where s: "lm_locks m v = Some (l, n)"
    using lm_inv_registered [OF i, of v l t] p by auto
  have n: "n = int (card (users_of m v))" using lm_inv_count [OF i s] by simp
  have tin: "t \<in> users_of m v" using p by (auto intro: in_users_of [of v l])
  have pcs: "lm_pcs ?m = (lm_pcs m)(t := LIdle)" and hold: "lm_holder ?m = lm_holder m"
    and nxt: "lm_next ?m = lm_next m"
    using s by (simp_all add: lm_leave_def Let_def)
  have us: "users_of ?m w = (if w = v then users_of m v - {t} else users_of m w)" for w
    using p by (auto simp: users_of_def pcs)
  have card: "int (card (users_of m v - {t})) = n - 1"
    using tin lm_inv_finite [OF i, of v] n card_gt_0_iff [of "users_of m v"] by (auto simp: of_nat_diff)
  have locks: "lm_locks ?m = (if n = 1 then (lm_locks m)(v := None) else (lm_locks m)(v \<mapsto> (l, n - 1)))"
    using s lm_inv_count [OF i s] by (auto simp: lm_leave_def Let_def)
  have alone: "s = t" if "n = 1" "refers v k (lm_pcs m s)" for s k
  proof -
    have "card (users_of m v) = 1" using that(1) n by simp
    then obtain x where "users_of m v = {x}" by (auto simp: card_1_singleton_iff)
    then show ?thesis using tin in_users_of [OF that(2)] by auto
  qed
  show ?thesis
    unfolding lm_inv_def us pcs hold nxt
  proof (intro conjI allI impI)
    show "finite (if w = v then users_of m v - {t} else users_of m w)" for w
      using lm_inv_finite [OF i] by simp
    show "\<exists>n. lm_locks ?m w = Some (k, n)" if "refers w k (((lm_pcs m)(t := LIdle)) s)" for w k s
      using that lm_inv_registered [OF i, of w k s] s alone by (auto simp: locks split: if_splits)
    show "j = int (card (if w = v then users_of m v - {t} else users_of m w))"
      if "lm_locks ?m w = Some (k, j)" for w k j
      using that lm_inv_count [OF i, of w] card by (auto simp: locks split: if_splits)
    show "0 < j" if "lm_locks ?m w = Some (k, j)" for w k j
      using that lm_inv_count [OF i, of w] lm_inv_count [OF i s] by (fastforce simp: locks split: if_splits)
    show "k < lm_next m" if "lm_locks ?m w = Some (k, j)" for w k j
      using that lm_inv_count [OF i, of w k] lm_inv_count [OF i s] by (auto simp: locks split: if_splits)
    show "w = x" if "lm_locks ?m w = Some (k, j)" "lm_locks ?m x = Some (k, j')" for w x k j j'
      using that s lm_inv_distinct [OF i] by (auto simp: locks split: if_splits)
    show "(lm_holder m k = Some s) = (\<exists>w. ((lm_pcs m)(t := LIdle)) s = LInside w k)" for k s
      using lm_inv_holder [OF i, of k s] p by auto
  qed
qed

lemmas lm_ops_inv = lm_enter_inv lm_acquire_inv lm_cancel_inv lm_release_inv lm_leave_inv

inductive_cases lm_stepE: "lm_step m m'"

interpretation lm: inductive_invariant "\<lambda>m. m = lm_init" lm_step lm_inv
  by unfold_locales (auto simp: lm_inv_init elim!: lm_stepE intro: lm_ops_inv)

section \<open>Properties\<close>


definition lm_example :: lock_mgr where
  "lm_example = lm_enter 1 (u ''ana'') (lm_acquire 0 (u ''ana'') 0 (lm_enter 0 (u ''ana'') lm_init))"

lemma lm_example_reachable: "reachable (\<lambda>m. m = lm_init) lm_step lm_example"
proof -
  let ?a = "lm_enter 0 (u ''ana'') lm_init"
  let ?b = "lm_acquire 0 (u ''ana'') 0 ?a"
  have "reachable (\<lambda>m. m = lm_init) lm_step ?a"
    by (rule reach_step [OF reach_start], rule refl, rule step_enter) (simp add: lm_init_def)
  then have "reachable (\<lambda>m. m = lm_init) lm_step ?b"
    by (rule reach_step) (rule step_acquire, simp_all add: lm_init_def lm_enter_def)
  then show ?thesis
    unfolding lm_example_def
    by (rule reach_step) (rule step_enter, simp add: lm_init_def lm_enter_def lm_acquire_def)
qed


end
