(* ===== verification/Py_Text.thy ===== *)
theory Py_Text
  imports Py_Values
begin

text \<open>
  The methods of \<open>str\<close> and \<open>bytes\<close> that the admission and memory modules use, on lists of code points
  and of bytes: strict UTF-8 encoding and decoding (what is encoded decodes to itself, so the encoding
  is injective), \<open>split\<close> on one character, hexadecimal digits, and what is known of \<open>str.lower\<close>.
\<close>

section \<open>Encoding\<close>

text \<open>A surrogate cannot be encoded (\<open>UnicodeEncodeError\<close>).\<close>

definition scalar :: "nat \<Rightarrow> bool" where
  "scalar c \<longleftrightarrow> c < 55296 \<or> 57344 \<le> c \<and> c < 1114112"

definition utf8_char :: "nat \<Rightarrow> nat list" where
  "utf8_char c =
     (if c < 128 then [c]
      else if c < 2048 then [192 + c div 64, 128 + c mod 64]
      else if c < 65536 then [224 + c div 4096, 128 + c div 64 mod 64, 128 + c mod 64]
      else [240 + c div 262144, 128 + c div 4096 mod 64, 128 + c div 64 mod 64, 128 + c mod 64])"

definition utf8_encode :: "pystr \<Rightarrow> nat list option" where
  "utf8_encode s = (if list_all scalar s then Some (concat (map utf8_char s)) else None)"

section \<open>Decoding\<close>

definition cont :: "nat \<Rightarrow> bool" where
  "cont b \<longleftrightarrow> 128 \<le> b \<and> b < 192"

text \<open>
  Strict decoding: overlong forms, surrogates, values above U+10FFFF and truncated or stray bytes
  are errors (\<open>UnicodeDecodeError\<close>).
\<close>

fun utf8_decode :: "nat list \<Rightarrow> pystr option" where
  "utf8_decode [] = Some []"
| "utf8_decode (a # r) =
     (if a < 128 then map_option ((#) a) (utf8_decode r)
      else if 194 \<le> a \<and> a < 224 then
        (case r of
           b # r1 \<Rightarrow> if cont b then map_option ((#) ((a - 192) * 64 + (b - 128))) (utf8_decode r1) else None
         | _ \<Rightarrow> None)
      else if 224 \<le> a \<and> a < 240 then
        (case r of
           b # c # r2 \<Rightarrow>
             let v = (a - 224) * 4096 + (b - 128) * 64 + (c - 128)
             in if cont b \<and> cont c \<and> 2048 \<le> v \<and> scalar v then map_option ((#) v) (utf8_decode r2) else None
         | _ \<Rightarrow> None)
      else if 240 \<le> a \<and> a < 245 then
        (case r of
           b # c # d # r3 \<Rightarrow>
             let v = (a - 240) * 262144 + (b - 128) * 4096 + (c - 128) * 64 + (d - 128)
             in if cont b \<and> cont c \<and> cont d \<and> 65536 \<le> v \<and> scalar v
                then map_option ((#) v) (utf8_decode r3) else None
         | _ \<Rightarrow> None)
      else None)"

section \<open>Round trip\<close>

lemma digits64:
  fixes c :: nat
  shows "c div 64 * 64 + c mod 64 = c"
    and "c div 4096 * 4096 + c div 64 mod 64 * 64 + c mod 64 = c"
    and "c div 262144 * 262144 + c div 4096 mod 64 * 4096 + c div 64 mod 64 * 64 + c mod 64 = c"
proof -
  show one: "c div 64 * 64 + c mod 64 = c" for c :: nat by (rule div_mult_mod_eq)
  have d: "c div 4096 = c div 64 div 64" "c div 262144 = c div 4096 div 64"
    by (simp_all add: div_mult2_eq [symmetric])
  show two: "c div 4096 * 4096 + c div 64 mod 64 * 64 + c mod 64 = c"
    using one [of c] one [of "c div 64"] d(1) by linarith
  show "c div 262144 * 262144 + c div 4096 mod 64 * 4096 + c div 64 mod 64 * 64 + c mod 64 = c"
    using two one [of "c div 4096"] d(2) by linarith
qed

lemma decode_char:
  assumes "scalar c"
  shows "utf8_decode (utf8_char c @ r) = map_option ((#) c) (utf8_decode r)"
proof -
  have m: "x mod 64 < (64::nat)" for x by simp
  consider "c < 128" | "128 \<le> c" "c < 2048" | "2048 \<le> c" "c < 65536" | "65536 \<le> c" by linarith
  then show ?thesis
  proof cases
    case 1
    then show ?thesis by (simp add: utf8_char_def)
  next
    case 2
    then have "2 \<le> c div 64" "c div 64 < 32" by auto
    then show ?thesis using 2 m [of c] by (simp add: utf8_char_def cont_def digits64)
  next
    case 3
    then have "c div 4096 < 16" by auto
    then show ?thesis
      using 3 assms m [of c] m [of "c div 64"] by (simp add: utf8_char_def cont_def digits64 Let_def)
  next
    case 4
    have "c < 1114112" using assms 4 by (auto simp: scalar_def)
    then have "c div 262144 < 5" by auto
    then show ?thesis
      using 4 assms m [of c] m [of "c div 64"] m [of "c div 4096"]
      by (simp add: utf8_char_def cont_def digits64 Let_def)
  qed
qed

lemma decode_encode: "utf8_encode s = Some b \<Longrightarrow> utf8_decode b = Some s"
proof -
  have "list_all scalar s \<Longrightarrow> utf8_decode (concat (map utf8_char s)) = Some s"
    by (induction s) (simp_all add: decode_char)
  then show "utf8_encode s = Some b \<Longrightarrow> utf8_decode b = Some s"
    by (auto simp: utf8_encode_def split: if_splits)
qed

lemma utf8_encode_inj: "utf8_encode s = Some b \<Longrightarrow> utf8_encode t = Some b \<Longrightarrow> s = t"
  using decode_encode [of s b] decode_encode [of t b] by simp

lemma utf8_encode_None_iff: "utf8_encode s = None \<longleftrightarrow> (\<exists>c\<in>set s. \<not> scalar c)"
  by (auto simp: utf8_encode_def list_all_iff)

lemma utf8_char_length: "1 \<le> length (utf8_char c)" "length (utf8_char c) \<le> 4"
  by (simp_all add: utf8_char_def)

lemma utf8_encode_length:
  assumes "utf8_encode s = Some b"
  shows "length s \<le> length b" and "length b \<le> 4 * length s"
proof -
  have "length s \<le> length (concat (map utf8_char s)) \<and> length (concat (map utf8_char s)) \<le> 4 * length s"
    by (induction s) (auto simp: add_mono utf8_char_length intro: add_mono [OF utf8_char_length(1), simplified])
  then show "length s \<le> length b" and "length b \<le> 4 * length s"
    using assms by (auto simp: utf8_encode_def split: if_splits)
qed

lemma utf8_encode_ascii: "list_all (\<lambda>c. c < 128) s \<Longrightarrow> utf8_encode s = Some s"
proof -
  have "list_all (\<lambda>c. c < 128) s \<Longrightarrow> list_all scalar s \<and> concat (map utf8_char s) = s"
    by (induction s) (simp_all add: scalar_def utf8_char_def)
  then show "list_all (\<lambda>c. c < 128) s \<Longrightarrow> utf8_encode s = Some s" by (simp add: utf8_encode_def)
qed

section \<open>Splitting\<close>

fun split_on :: "nat \<Rightarrow> pystr \<Rightarrow> pystr list" where
  "split_on d [] = [[]]"
| "split_on d (c # s) =
     (if c = d then [] # split_on d s
      else case split_on d s of [] \<Rightarrow> [[c]] | p # ps \<Rightarrow> (c # p) # ps)"

lemma split_on_ne [simp]: "split_on d s \<noteq> []"
  by (induction s) (auto split: list.splits)

lemma split_on_no_sep: "p \<in> set (split_on d s) \<Longrightarrow> d \<notin> set p"
  by (induction s arbitrary: p) (auto split: list.splits if_splits)

lemma split_on_subset: "p \<in> set (split_on d s) \<Longrightarrow> set p \<subseteq> set s"
proof (induction s arbitrary: p)
  case (Cons c s)
  obtain q qs where e: "split_on d s = q # qs" by (cases "split_on d s") auto
  show ?case using Cons.prems Cons.IH [of p] Cons.IH [of q] e by (auto split: if_splits)
qed simp

lemma split_on_atom: "d \<notin> set s \<Longrightarrow> split_on d s = [s]"
  by (induction s) auto

lemma split_on_append: "split_on d (s @ d # t) = split_on d s @ split_on d t"
  by (induction s) (auto split: list.splits)

fun join_on :: "nat \<Rightarrow> pystr list \<Rightarrow> pystr" where
  "join_on d [] = []"
| "join_on d [p] = p"
| "join_on d (p # q # ps) = p @ d # join_on d (q # ps)"

lemma join_split [simp]: "join_on d (split_on d s) = s"
proof (induction s)
  case (Cons c s)
  obtain p ps where e: "split_on d s = p # ps" by (cases "split_on d s") auto
  show ?case using Cons e by (cases ps) auto
qed simp

lemma split_join: "ps \<noteq> [] \<Longrightarrow> (\<And>p. p \<in> set ps \<Longrightarrow> d \<notin> set p) \<Longrightarrow> split_on d (join_on d ps) = ps"
  by (induction d ps rule: join_on.induct) (simp_all add: split_on_atom split_on_append)

lemma split_on_set: "c \<in> set s \<Longrightarrow> c = d \<or> (\<exists>p\<in>set (split_on d s). c \<in> set p)"
proof (induction s)
  case (Cons x s)
  obtain p ps where e: "split_on d s = p # ps" by (cases "split_on d s") auto
  show ?case using Cons e by auto
qed simp

lemma sep_unique:
  "d \<notin> set a \<Longrightarrow> d \<notin> set b \<Longrightarrow> a @ d # x = b @ d # y \<Longrightarrow> a = b \<and> x = y"
proof (induction a arbitrary: b)
  case Nil
  then show ?case by (cases b) auto
next
  case (Cons c a)
  then show ?case by (cases b) auto
qed

lemma map_PStr_eq [simp]: "map PStr ss = map PStr ts \<longleftrightarrow> ss = ts"
  by (rule inj_map_eq_map) (simp add: inj_def)

section \<open>Case and digits\<close>

definition ascii_lower :: "nat \<Rightarrow> nat" where
  "ascii_lower c = (if 65 \<le> c \<and> c \<le> 90 then c + 32 else c)"

text \<open>
  \<open>str.lower\<close> is a table of the Unicode character database and a parameter of the definitions that
  call it.  What the code relies on: an ASCII character is mapped by \<open>ascii_lower\<close>, and any other
  character to at least one character, each of which is outside ASCII except the \<open>i\<close> of
  U+0130 and the \<open>k\<close> of U+212A.
\<close>

definition lower_ok :: "(pystr \<Rightarrow> pystr) \<Rightarrow> bool" where
  "lower_ok lower \<longleftrightarrow> (\<forall>s. \<exists>ps. lower s = concat ps \<and> list_all2 (\<lambda>c p.
      if c < 128 then p = [ascii_lower c]
      else p \<noteq> [] \<and> (\<forall>x\<in>set p. 128 \<le> x \<or> x = 105 \<or> x = 107)) s ps)"

text \<open>An instance: ASCII, the Latin-1 letters and the two characters that leave their block.\<close>

definition sample_lower_char :: "nat \<Rightarrow> nat list" where
  "sample_lower_char c =
     (if c < 128 then [ascii_lower c] else if 192 \<le> c \<and> c \<le> 222 \<and> c \<noteq> 215 then [c + 32]
      else if c = 304 then [105, 775] else if c = 8490 then [107] else [c])"

definition sample_lower :: "pystr \<Rightarrow> pystr" where
  "sample_lower s = concat (map sample_lower_char s)"

lemma sample_lower_ok: "lower_ok sample_lower"
  unfolding lower_ok_def sample_lower_def
  by (intro allI exI conjI, rule refl) (auto simp: list_all2_conv_all_nth sample_lower_char_def)

lemma lower_ascii:
  assumes "lower_ok lower" and "list_all (\<lambda>c. c < 128) s"
  shows "lower s = map ascii_lower s"
proof -
  obtain ps where l: "lower s = concat ps" and a: "list_all2 (\<lambda>c p.
      if c < 128 then p = [ascii_lower c]
      else p \<noteq> [] \<and> (\<forall>x\<in>set p. 128 \<le> x \<or> x = 105 \<or> x = 107)) s ps"
    using assms(1) unfolding lower_ok_def by blast
  from a assms(2) have "concat ps = map ascii_lower s"
    by (induction rule: list_all2_induct) auto
  then show ?thesis using l by simp
qed

text \<open>Where the result has none of the two exceptions and only ASCII, so had the argument.\<close>

lemma lower_ascii_conv:
  assumes ok: "lower_ok lower" and r: "list_all (\<lambda>x. x < 128 \<and> x \<noteq> 105 \<and> x \<noteq> 107) (lower s)"
  shows "list_all (\<lambda>c. c < 128) s" and "lower s = map ascii_lower s"
proof -
  obtain ps where l: "lower s = concat ps" and a: "list_all2 (\<lambda>c p.
      if c < 128 then p = [ascii_lower c]
      else p \<noteq> [] \<and> (\<forall>x\<in>set p. 128 \<le> x \<or> x = 105 \<or> x = 107)) s ps"
    using ok unfolding lower_ok_def by blast
  have "list_all (\<lambda>x. x < 128 \<and> x \<noteq> 105 \<and> x \<noteq> 107) (concat ps)" using r l by simp
  with a show t: "list_all (\<lambda>c. c < 128) s"
  proof (induction rule: list_all2_induct)
    case (Cons c s p ps)
    then have "c < 128" by (cases p) (force split: if_splits)+
    then show ?case using Cons by simp
  qed simp
  show "lower s = map ascii_lower s" by (rule lower_ascii [OF ok t])
qed

text \<open>Membership in \<open>"0123456789abcdef"\<close>, one character at a time.\<close>

definition hex_digit :: "nat \<Rightarrow> bool" where
  "hex_digit c \<longleftrightarrow> 48 \<le> c \<and> c \<le> 57 \<or> 97 \<le> c \<and> c \<le> 102"

definition hex_any :: "nat \<Rightarrow> bool" where
  "hex_any c \<longleftrightarrow> hex_digit c \<or> 65 \<le> c \<and> c \<le> 70"

lemma hex_lower_iff: "c < 128 \<Longrightarrow> hex_digit (ascii_lower c) \<longleftrightarrow> hex_any c"
  by (auto simp: hex_digit_def hex_any_def ascii_lower_def)

lemma hex_any_ascii: "hex_any c \<Longrightarrow> c < 128"
  by (auto simp: hex_digit_def hex_any_def)

lemma hex_any_plain: "hex_any c \<Longrightarrow> \<not> is_space c \<and> c \<noteq> 45 \<and> c \<noteq> 123 \<and> c \<noteq> 125 \<and> ascii_lower c \<noteq> 117"
  by (auto simp: hex_digit_def hex_any_def is_space_def ascii_lower_def)

lemma ascii_lower_hyphen: "ascii_lower c = 45 \<longleftrightarrow> c = 45"
  by (auto simp: ascii_lower_def)

lemma ascii_lower_idem [simp]: "ascii_lower (ascii_lower c) = ascii_lower c"
  by (simp add: ascii_lower_def)

section \<open>Lookup with a default\<close>

text \<open>\<open>d.get(k)\<close>.\<close>

definition dict_get :: "(pyobj \<times> pyobj) list \<Rightarrow> pystr \<Rightarrow> pyobj" where
  "dict_get d k = (case map_of d (PStr k) of None \<Rightarrow> PNone | Some v \<Rightarrow> v)"

lemma dict_get_iff:
  "v \<noteq> PNone \<Longrightarrow> dict_get d k = v \<longleftrightarrow> map_of d (PStr k) = Some v"
  by (auto simp: dict_get_def split: option.splits)

text \<open>Lowering keeps a string that does not end in a newline so, and keeps it from being empty.\<close>

lemma lower_last:
  assumes "lower_ok lower" and "s \<noteq> []" and "last s \<noteq> 10"
  shows "lower s \<noteq> []" and "last (lower s) \<noteq> 10"
proof -
  obtain ps where l: "lower s = concat ps" and a: "list_all2 (\<lambda>c p.
      if c < 128 then p = [ascii_lower c]
      else p \<noteq> [] \<and> (\<forall>x\<in>set p. 128 \<le> x \<or> x = 105 \<or> x = 107)) s ps"
    using assms(1) unfolding lower_ok_def by blast
  obtain s' c where s: "s = s' @ [c]" using assms(2) by (cases s rule: rev_cases) auto
  then obtain qs q where ps: "ps = qs @ [q]" and q: "if c < 128 then q = [ascii_lower c]
      else q \<noteq> [] \<and> (\<forall>x\<in>set q. 128 \<le> x \<or> x = 105 \<or> x = 107)"
    using a by (auto simp: list_all2_append1 list_all2_Cons1)
  have "q \<noteq> []" "last q \<noteq> 10"
    using q assms(3) s last_in_set [of q] by (fastforce simp: ascii_lower_def split: if_splits)+
  then show "lower s \<noteq> []" "last (lower s) \<noteq> 10" by (simp_all add: l ps)
qed

section \<open>Decimal numerals\<close>

text \<open>\<open>str(n)\<close> of an \<open>int\<close>.\<close>

fun dec_nat :: "nat \<Rightarrow> pystr" where
  "dec_nat n = (if n < 10 then [48 + n] else dec_nat (n div 10) @ [48 + n mod 10])"

declare dec_nat.simps [simp del]

definition dec_int :: "int \<Rightarrow> pystr" where
  "dec_int n = (if n < 0 then 45 # dec_nat (nat (- n)) else dec_nat (nat n))"

fun dec_value :: "nat \<Rightarrow> pystr \<Rightarrow> nat" where
  "dec_value acc [] = acc"
| "dec_value acc (c # s) = dec_value (acc * 10 + (c - 48)) s"

lemma dec_value_append: "dec_value acc (s @ t) = dec_value (dec_value acc s) t"
  by (induction s arbitrary: acc) auto

lemma dec_value_dec_nat: "dec_value 0 (dec_nat n) = n"
  by (induction n rule: dec_nat.induct) (subst dec_nat.simps, simp add: dec_value_append)

lemma dec_nat_digits: "c \<in> set (dec_nat n) \<Longrightarrow> 48 \<le> c \<and> c \<le> 57"
  by (induction n rule: dec_nat.induct)
     (subst (asm) (2) dec_nat.simps, auto split: if_splits simp: less_Suc_eq_le [symmetric])

lemma dec_nat_inj: "dec_nat m = dec_nat n \<Longrightarrow> m = n"
  by (metis dec_value_dec_nat)

lemma dec_int_chars: "c \<in> set (dec_int n) \<Longrightarrow> c = 45 \<or> 48 \<le> c \<and> c \<le> 57"
  by (auto simp: dec_int_def dest: dec_nat_digits split: if_splits)

lemma dec_int_inj: "dec_int m = dec_int n \<Longrightarrow> m = n"
proof -
  have "45 \<notin> set (dec_nat k)" for k using dec_nat_digits by fastforce
  then have "45 # a \<noteq> dec_nat k" for a k by (metis list.set_intros(1))
  then show "dec_int m = dec_int n \<Longrightarrow> m = n"
    by (auto simp: dec_int_def dest!: dec_nat_inj split: if_splits) (metis)+
qed

section \<open>Exact value of a number\<close>

text \<open>Python compares an \<open>int\<close> with a \<open>float\<close> exactly; this is the value it compares.\<close>

fun num_val :: "pyobj \<Rightarrow> rat" where
  "num_val (PInt n) = of_int n"
| "num_val (PFloat f) = fin_val f"
| "num_val _ = 0"

section \<open>Hashing\<close>

text \<open>Membership of an unhashable object in a set is a \<open>TypeError\<close>.\<close>

fun unhashable :: "pyobj \<Rightarrow> bool" where
  "unhashable (PList xs) = True"
| "unhashable (PDict d) = True"
| "unhashable (PProxy d) = True"
| "unhashable (PTuple xs) = list_ex unhashable xs"
| "unhashable v = False"

end
