(* ===== verification/Admission_Contracts.thy ===== *)
theory Admission_Contracts
  imports Py_Text
begin

text \<open>
  \<open>backend/admission_contracts.py\<close>: the limits of one chat request, the canonical request identity,
  the estimate of a text in UTF-8 bytes and the validation of a new message.  \<open>str.lower\<close> is the
  parameter \<open>lower\<close> with the hypothesis \<open>lower_ok\<close>.
\<close>

section \<open>Limits and errors\<close>

definition NEW_MESSAGE_MAX_CHARS :: nat where "NEW_MESSAGE_MAX_CHARS = 4000"
definition LEGACY_HISTORY_MAX_CHARS :: nat where "LEGACY_HISTORY_MAX_CHARS = 10000"
definition MESSAGE_MAX_ESTIMATED_UNITS :: nat where "MESSAGE_MAX_ESTIMATED_UNITS = 6000"
definition PROVIDER_INPUT_MAX_ESTIMATED_UNITS :: nat where "PROVIDER_INPUT_MAX_ESTIMATED_UNITS = 16000"
definition USER_REQUESTS_PER_MINUTE :: nat where "USER_REQUESTS_PER_MINUTE = 20"
definition NETWORK_REQUESTS_PER_MINUTE :: nat where "NETWORK_REQUESTS_PER_MINUTE = 60"
definition APPLICATION_REQUESTS_PER_MINUTE :: nat where "APPLICATION_REQUESTS_PER_MINUTE = 25"
definition USER_REQUESTS_PER_DAY :: nat where "USER_REQUESTS_PER_DAY = 200"
definition USER_ESTIMATED_UNITS_PER_DAY :: nat where "USER_ESTIMATED_UNITS_PER_DAY = 250000"

record AdmissionConfig =
  ac_new_message_max_chars :: nat
  ac_legacy_history_max_chars :: nat
  ac_message_max_estimated_units :: nat
  ac_provider_input_max_estimated_units :: nat
  ac_user_requests_per_minute :: nat
  ac_network_requests_per_minute :: nat
  ac_application_requests_per_minute :: nat
  ac_user_requests_per_day :: nat
  ac_user_estimated_units_per_day :: nat

definition AdmissionConfig_default :: AdmissionConfig where
  "AdmissionConfig_default = \<lparr>
     ac_new_message_max_chars = NEW_MESSAGE_MAX_CHARS,
     ac_legacy_history_max_chars = LEGACY_HISTORY_MAX_CHARS,
     ac_message_max_estimated_units = MESSAGE_MAX_ESTIMATED_UNITS,
     ac_provider_input_max_estimated_units = PROVIDER_INPUT_MAX_ESTIMATED_UNITS,
     ac_user_requests_per_minute = USER_REQUESTS_PER_MINUTE,
     ac_network_requests_per_minute = NETWORK_REQUESTS_PER_MINUTE,
     ac_application_requests_per_minute = APPLICATION_REQUESTS_PER_MINUTE,
     ac_user_requests_per_day = USER_REQUESTS_PER_DAY,
     ac_user_estimated_units_per_day = USER_ESTIMATED_UNITS_PER_DAY\<rparr>"

record AdmissionError =
  ae_code :: pystr
  actual_chars :: nat
  actual_units :: nat
  max_chars :: nat
  max_units :: nat

definition plain_error :: "pystr \<Rightarrow> AdmissionError" where
  "plain_error code = \<lparr>ae_code = code, actual_chars = 0, actual_units = 0, max_chars = 0, max_units = 0\<rparr>"

definition AdmissionError_str :: "AdmissionError \<Rightarrow> pystr" where
  "AdmissionError_str e = ae_code e"

text \<open>What the functions of the admission modules raise.\<close>

datatype adm_exn =
    Rejected AdmissionError
  | UnicodeEncodeError
  | TypeError
  | ValueError
  | AdmissionConfigurationError
  | AdmissionUnavailable

section \<open>Request identity\<close>

fun is_hex :: "pystr \<Rightarrow> bool" where
  "is_hex [] = True"
| "is_hex (ch # s) = (if \<not> hex_digit ch then False else is_hex s)"

definition bad_request_id :: adm_exn where
  "bad_request_id = Rejected (plain_error (u ''invalid_request_id''))"

definition str_startswith :: "pystr \<Rightarrow> pystr \<Rightarrow> bool" where
  "str_startswith p s \<longleftrightarrow> take (length p) s = p"

definition str_endswith :: "pystr \<Rightarrow> pystr \<Rightarrow> bool" where
  "str_endswith p s \<longleftrightarrow> str_startswith (rev p) (rev s)"

definition UUID_LENGTHS :: "nat list" where
  "UUID_LENGTHS = [8, 4, 4, 4, 12]"

definition validate_canonical_uuid :: "(pystr \<Rightarrow> pystr) \<Rightarrow> pystr \<Rightarrow> adm_exn + pystr" where
  "validate_canonical_uuid lower raw =
     rbind (guard (length raw = 36) bad_request_id) (\<lambda>_.
     rbind (guard (raw = strip raw) bad_request_id) (\<lambda>_.
     rbind (guard (\<not> (str_startswith (u ''{'') raw \<or> str_endswith (u ''}'') raw)) bad_request_id) (\<lambda>_.
     rbind (guard (\<not> str_startswith (u ''urn:'') (lower raw)) bad_request_id) (\<lambda>_.
     let parts = split_on 45 raw in
     rbind (guard (length parts = 5) bad_request_id) (\<lambda>_.
     rbind (guard (list_all (\<lambda>(part, expected). length part = expected) (zip parts UUID_LENGTHS))
              bad_request_id) (\<lambda>_.
     let normalized = lower raw in
     rbind (guard (list_all is_hex (split_on 45 normalized)) bad_request_id) (\<lambda>_.
     Inr normalized)))))))"

record RequestIdentity =
  request_id :: pystr

fun RequestIdentity_init :: "(pystr \<Rightarrow> pystr) \<Rightarrow> pyobj \<Rightarrow> adm_exn + RequestIdentity" where
  "RequestIdentity_init lower (PStr raw) =
     rbind (validate_canonical_uuid lower raw) (\<lambda>normalized. Inr \<lparr>request_id = normalized\<rparr>)"
| "RequestIdentity_init lower _ = Inl bad_request_id"

definition RequestIdentity_parse :: "(pystr \<Rightarrow> pystr) \<Rightarrow> pyobj \<Rightarrow> adm_exn + RequestIdentity" where
  "RequestIdentity_parse lower raw = RequestIdentity_init lower raw"

section \<open>Input estimation and message validation\<close>

fun estimate_text_units :: "pyobj \<Rightarrow> adm_exn + nat" where
  "estimate_text_units (PStr text) =
     (case utf8_encode text of
        None \<Rightarrow> Inl UnicodeEncodeError
      | Some b \<Rightarrow> Inr (max 1 (length b)))"
| "estimate_text_units _ = Inl TypeError"

fun validate_new_message :: "pyobj \<Rightarrow> adm_exn + unit" where
  "validate_new_message (PStr text) =
     (let char_count = length text in
      if char_count > NEW_MESSAGE_MAX_CHARS then
        Inl (Rejected ((plain_error (u ''message_too_long''))
               \<lparr>actual_chars := char_count, max_chars := NEW_MESSAGE_MAX_CHARS\<rparr>))
      else
        rbind (estimate_text_units (PStr text)) (\<lambda>unit_count.
          if unit_count > MESSAGE_MAX_ESTIMATED_UNITS then
            Inl (Rejected \<lparr>ae_code = u ''message_budget_exceeded'', actual_chars = char_count,
                   actual_units = unit_count, max_chars = NEW_MESSAGE_MAX_CHARS,
                   max_units = MESSAGE_MAX_ESTIMATED_UNITS\<rparr>)
          else Inr ()))"
| "validate_new_message _ =
     Inl (Rejected ((plain_error (u ''message_too_long''))\<lparr>max_chars := NEW_MESSAGE_MAX_CHARS\<rparr>))"

section \<open>The canonical form\<close>

text \<open>Hexadecimal digits of either case in groups of 8, 4, 4, 4 and 12, joined by hyphens.\<close>

definition uuid_shape :: "bool list" where
  "uuid_shape = replicate 8 True @ False # replicate 4 True @ False # replicate 4 True
     @ False # replicate 4 True @ False # replicate 12 True"

definition is_uuid :: "pystr \<Rightarrow> bool" where
  "is_uuid s \<longleftrightarrow> list_all2 (\<lambda>h c. if h then hex_any c else c = 45) uuid_shape s"

text \<open>The same text in lower case only.\<close>

definition lower_uuid_text :: "pystr \<Rightarrow> bool" where
  "lower_uuid_text s \<longleftrightarrow> list_all2 (\<lambda>h c. if h then hex_digit c else c = 45) uuid_shape s"

lemma is_hex_iff [simp]: "is_hex s \<longleftrightarrow> list_all hex_digit s"
  by (induction s) auto

lemma replicate_all2: "list_all2 P (replicate n x) s \<longleftrightarrow> length s = n \<and> list_all (P x) s"
  by (auto simp: list_all2_conv_all_nth list_all_length)

lemma is_uuid_iff:
  "is_uuid s \<longleftrightarrow> (\<exists>p q r v w. s = join_on 45 [p, q, r, v, w] \<and> map length [p, q, r, v, w] = UUID_LENGTHS
     \<and> list_all (list_all hex_any) [p, q, r, v, w])"
  by (auto simp: is_uuid_def uuid_shape_def UUID_LENGTHS_def list_all2_append1 list_all2_Cons1
       replicate_all2; fastforce)

text \<open>The parts of a string that splits into groups of the right lengths.\<close>

lemma uuid_split_iff:
  "length (split_on 45 s) = 5
     \<and> list_all (\<lambda>(part, expected). length part = expected) (zip (split_on 45 s) UUID_LENGTHS)
   \<longleftrightarrow> (\<exists>p q r v w. split_on 45 s = [p, q, r, v, w] \<and> map length [p, q, r, v, w] = UUID_LENGTHS)"
proof -
  have five: "length xs = 5 \<longleftrightarrow> (\<exists>p q r v w. xs = [p, q, r, v, w])" for xs :: "pystr list"
    by (auto simp: length_Suc_conv numeral_eq_Suc)
  show ?thesis unfolding five by (auto simp: UUID_LENGTHS_def)
qed

lemma is_uuid_split:
  assumes "is_uuid s"
  shows "\<exists>p q r v w. split_on 45 s = [p, q, r, v, w] \<and> map length [p, q, r, v, w] = UUID_LENGTHS
     \<and> list_all (list_all hex_any) [p, q, r, v, w]"
proof -
  obtain p q r v w where s: "s = join_on 45 [p, q, r, v, w]"
    and l: "map length [p, q, r, v, w] = UUID_LENGTHS" and h: "list_all (list_all hex_any) [p, q, r, v, w]"
    using assms is_uuid_iff by blast
  have "45 \<notin> set x" if "x \<in> set [p, q, r, v, w]" for x
    using h that hex_any_plain by (fastforce simp: list_all_iff)
  then have "split_on 45 s = [p, q, r, v, w]" unfolding s by (intro split_join) auto
  then show ?thesis using l h by blast
qed

lemma is_uuid_chars: "is_uuid s \<Longrightarrow> list_all (\<lambda>c. c = 45 \<or> hex_any c) s"
proof -
  assume "is_uuid s"
  then obtain p q r v w where "split_on 45 s = [p, q, r, v, w]" "list_all (list_all hex_any) [p, q, r, v, w]"
    using is_uuid_split by blast
  then show ?thesis using split_on_set [of _ s 45] by (fastforce simp: list_all_iff)
qed

lemma is_uuid_ends:
  assumes "is_uuid s"
  shows "s \<noteq> []" "hex_any (hd s)" "hex_any (last s)" "length s = 36"
proof -
  obtain p q r v w where s: "s = join_on 45 [p, q, r, v, w]"
    and l: "map length [p, q, r, v, w] = UUID_LENGTHS" and h: "list_all (list_all hex_any) [p, q, r, v, w]"
    using assms is_uuid_iff by blast
  have ne: "p \<noteq> []" "w \<noteq> []" using l by (auto simp: UUID_LENGTHS_def)
  then show "s \<noteq> []" "hex_any (hd s)" "hex_any (last s)" using h by (simp_all add: s list_all_iff)
  show "length s = 36" using l by (simp add: s UUID_LENGTHS_def)
qed

lemma lower_uuid:
  assumes "lower_ok lower" and "is_uuid s"
  shows "lower s = map ascii_lower s" and "is_uuid (map ascii_lower s)"
proof -
  have "list_all (\<lambda>c. c < 128) s"
    using is_uuid_chars [OF assms(2)] hex_any_ascii by (fastforce simp: list_all_iff)
  then show "lower s = map ascii_lower s" by (rule lower_ascii [OF assms(1)])
  have "hex_any c \<Longrightarrow> hex_any (ascii_lower c)" for c
    by (auto simp: hex_any_def hex_digit_def ascii_lower_def)
  then have "list_all2 (\<lambda>h c. if h then hex_any (ascii_lower c) else ascii_lower c = 45) uuid_shape s"
    using assms(2) unfolding is_uuid_def by (elim list_all2_mono) (simp add: ascii_lower_hyphen split: if_splits)
  then show "is_uuid (map ascii_lower s)" by (simp add: is_uuid_def list_all2_map2)
qed

text \<open>The last check of the validator, alone, forces ASCII hexadecimal digits in the original.\<close>

lemma hex_parts_conv:
  assumes ok: "lower_ok lower" and h: "list_all is_hex (split_on 45 (lower s))"
  shows "list_all (\<lambda>c. c = 45 \<or> hex_any c) s" and "lower s = map ascii_lower s"
proof -
  have c: "x = 45 \<or> hex_digit x" if "x \<in> set (lower s)" for x
    using split_on_set [OF that, of 45] h by (fastforce simp: list_all_iff)
  then have "list_all (\<lambda>x. x < 128 \<and> x \<noteq> 105 \<and> x \<noteq> 107) (lower s)"
    by (fastforce simp: list_all_iff hex_digit_def)
  from lower_ascii_conv [OF ok this] show l: "lower s = map ascii_lower s"
    and "list_all (\<lambda>c. c = 45 \<or> hex_any c) s"
    using c ascii_lower_hyphen hex_lower_iff by (auto simp: list_all_iff)
qed

lemma map_lower_split: "split_on 45 (map ascii_lower s) = map (map ascii_lower) (split_on 45 s)"
  by (induction s) (auto simp: ascii_lower_hyphen split: list.splits)

lemma validate_uuid_iff:
  assumes ok: "lower_ok lower"
  shows "validate_canonical_uuid lower raw = Inr n \<longleftrightarrow> is_uuid raw \<and> n = map ascii_lower raw"
proof
  assume v: "validate_canonical_uuid lower raw = Inr n"
  then have n: "lower raw = n" and h: "list_all is_hex (split_on 45 (lower raw))"
    and "length (split_on 45 raw) = 5
     \<and> list_all (\<lambda>(part, expected). length part = expected) (zip (split_on 45 raw) UUID_LENGTHS)"
    by (auto simp: validate_canonical_uuid_def Let_def simp del: is_hex_iff)
  then obtain p q r v w where sp: "split_on 45 raw = [p, q, r, v, w]"
    and l: "map length [p, q, r, v, w] = UUID_LENGTHS"
    using uuid_split_iff by blast
  note c = hex_parts_conv [OF ok h]
  have raw: "raw = join_on 45 [p, q, r, v, w]" using join_split [of 45 raw] sp by simp
  have "list_all hex_any x" if "x \<in> set [p, q, r, v, w]" for x
    using split_on_no_sep [of x 45 raw] split_on_subset [of x 45 raw] c(1) that sp
    by (fastforce simp: list_all_iff)
  then have "list_all (list_all hex_any) [p, q, r, v, w]" by (simp add: list_all_iff)
  then show "is_uuid raw \<and> n = map ascii_lower raw" using raw l n c(2) is_uuid_iff by blast
next
  assume a: "is_uuid raw \<and> n = map ascii_lower raw"
  note e = is_uuid_ends [OF conjunct1 [OF a]]
  note lo = lower_uuid [OF ok conjunct1 [OF a]]
  have "raw = strip raw" using strip_trimmed [of raw] e hex_any_plain by metis
  moreover have "\<not> str_startswith (u ''{'') raw" "\<not> str_endswith (u ''}'') raw"
    using e hex_any_plain by (auto simp: str_startswith_def str_endswith_def u_def take_Suc hd_rev hd_conv_nth)
  moreover have "\<not> str_startswith (u ''urn:'') (lower raw)"
    using e(1,2) hex_any_plain [OF e(2)] lo by (cases raw) (auto simp: str_startswith_def u_def)
  moreover have "list_all is_hex (split_on 45 (lower raw))"
  proof -
    obtain p q r v w where "split_on 45 raw = [p, q, r, v, w]" "list_all (list_all hex_any) [p, q, r, v, w]"
      using is_uuid_split a by blast
    then show ?thesis
      unfolding lo map_lower_split using hex_lower_iff hex_any_ascii by (simp add: list_all_iff)
  qed
  moreover have "length (split_on 45 raw) = 5
     \<and> list_all (\<lambda>(part, expected). length part = expected) (zip (split_on 45 raw) UUID_LENGTHS)"
    unfolding uuid_split_iff using is_uuid_split a by blast
  ultimately show "validate_canonical_uuid lower raw = Inr n"
    using a e lo by (simp add: validate_canonical_uuid_def Let_def)
qed

section \<open>Properties\<close>

text \<open>A \<open>RequestIdentity\<close> is a canonical UUID and nothing else.  The constructor accepts exactly the
  36-character strings of hexadecimal digits of either case in groups of 8, 4, 4, 4 and 12 joined by
  hyphens; it stores the lower-case form, which is itself accepted and stored unchanged; every other object
  is refused with the code \<open>invalid_request_id\<close> and no other data.\<close>

theorem request_identity_exact:
  assumes "lower_ok lower"
  shows "RequestIdentity_init lower v =
     (case v of
        PStr raw \<Rightarrow> if is_uuid raw then Inr \<lparr>request_id = map ascii_lower raw\<rparr> else Inl bad_request_id
      | _ \<Rightarrow> Inl bad_request_id)
   \<and> (\<forall>r. RequestIdentity_init lower v = Inr r
        \<longrightarrow> RequestIdentity_init lower (PStr (request_id r)) = Inr r)"
proof -
  have err: "validate_canonical_uuid lower raw = Inl e \<Longrightarrow> e = bad_request_id" for raw e
    by (auto simp: validate_canonical_uuid_def Let_def rbind_Inl_iff)
  have s: "RequestIdentity_init lower (PStr raw) =
      (if is_uuid raw then Inr \<lparr>request_id = map ascii_lower raw\<rparr> else Inl bad_request_id)" for raw
    using validate_uuid_iff [OF assms, of raw] err [of raw]
    by (cases "validate_canonical_uuid lower raw") auto
  then have 1: "RequestIdentity_init lower v =
     (case v of
        PStr raw \<Rightarrow> if is_uuid raw then Inr \<lparr>request_id = map ascii_lower raw\<rparr> else Inl bad_request_id
      | _ \<Rightarrow> Inl bad_request_id)"
    by (cases v) auto
  have "RequestIdentity_init lower (PStr (request_id r)) = Inr r" if "RequestIdentity_init lower v = Inr r" for r
    using that lower_uuid [OF assms] unfolding 1 s by (auto split: pyobj.splits if_splits)
  then show ?thesis using 1 by blast
qed

theorem request_identity_exact_witness:
  "lower_ok sample_lower
   \<and> RequestIdentity_init sample_lower (PStr (u ''550E8400-E29B-41D4-A716-446655440000''))
       = Inr \<lparr>request_id = u ''550e8400-e29b-41d4-a716-446655440000''\<rparr>
   \<and> RequestIdentity_init sample_lower (PStr (u ''{50e8400-e29b-41d4-a716-44665544000}'')) = Inl bad_request_id"
proof -
  have a: "is_uuid (u ''550E8400-E29B-41D4-A716-446655440000'')"
    "map ascii_lower (u ''550E8400-E29B-41D4-A716-446655440000'') = u ''550e8400-e29b-41d4-a716-446655440000''"
    by code_simp+
  have b: "\<not> is_uuid (u ''{50e8400-e29b-41d4-a716-44665544000}'')" by code_simp
  show ?thesis
    using request_identity_exact [OF sample_lower_ok, of "PStr (u ''550E8400-E29B-41D4-A716-446655440000'')"]
      request_identity_exact [OF sample_lower_ok, of "PStr (u ''{50e8400-e29b-41d4-a716-44665544000}'')"]
      sample_lower_ok a b by (simp del: RequestIdentity_init.simps)
qed

text \<open>\<open>validate_new_message\<close> on every argument: a message is accepted exactly when it is a \<open>str\<close> of
  at most 4000 characters, without lone surrogates, whose UTF-8 form has at most 6000 bytes; too many
  characters are reported before too many bytes, each with the counts that were exceeded; a short enough
  message with a lone surrogate raises \<open>UnicodeEncodeError\<close> instead of an \<open>AdmissionError\<close>.\<close>

theorem validate_new_message_exact:
  "validate_new_message v =
     (case v of
        PStr text \<Rightarrow>
          (if length text > 4000 then
             Inl (Rejected \<lparr>ae_code = u ''message_too_long'', actual_chars = length text, actual_units = 0,
                            max_chars = 4000, max_units = 0\<rparr>)
           else case utf8_encode text of
             None \<Rightarrow> Inl UnicodeEncodeError
           | Some b \<Rightarrow>
               if length b > 6000 then
                 Inl (Rejected \<lparr>ae_code = u ''message_budget_exceeded'', actual_chars = length text,
                                actual_units = length b, max_chars = 4000, max_units = 6000\<rparr>)
               else Inr ())
      | _ \<Rightarrow> Inl (Rejected \<lparr>ae_code = u ''message_too_long'', actual_chars = 0, actual_units = 0,
                            max_chars = 4000, max_units = 0\<rparr>))"
  by (cases v)
     (auto simp: plain_error_def NEW_MESSAGE_MAX_CHARS_def MESSAGE_MAX_ESTIMATED_UNITS_def
       split: option.splits)

end
