(* ===== verification/Admission.thy ===== *)
theory Admission
  imports Admission_Contracts
begin

text \<open>
  \<open>backend/admission.py\<close>: the runtime configuration, the network identity behind trusted proxies, the
  HMAC references with domain separation, the admission request and the exact parsing of the decision
  of the admission store.  Parameters: HMAC-SHA256 in hexadecimal (\<open>hmac\<close>), the text forms of the
  \<open>ipaddress\<close> module (\<open>ip_parse\<close>, \<open>ip_str\<close>, \<open>net_parse\<close>), \<open>str.lower\<close>, and the remote procedure
  call of the store.
\<close>

unbundle bit_operations_syntax

section \<open>Constants\<close>

definition MESSAGE_HMAC_DOMAIN :: "nat list" where "MESSAGE_HMAC_DOMAIN = u ''message''"
definition NETWORK_HMAC_DOMAIN :: "nat list" where "NETWORK_HMAC_DOMAIN = u ''network''"
definition TURN_CORRELATION_DOMAIN :: "nat list" where "TURN_CORRELATION_DOMAIN = u ''turn-correlation''"
definition USER_REFERENCE_DOMAIN :: "nat list" where "USER_REFERENCE_DOMAIN = u ''user-reference''"
definition UNKNOWN_NETWORK_IDENTITY :: pystr where "UNKNOWN_NETWORK_IDENTITY = u ''unknown''"

definition ADMITTED :: pystr where "ADMITTED = u ''admitted''"
definition REQUEST_REPLAY_UNAVAILABLE :: pystr where "REQUEST_REPLAY_UNAVAILABLE = u ''request_replay_unavailable''"
definition REQUEST_ID_CONFLICT :: pystr where "REQUEST_ID_CONFLICT = u ''request_id_conflict''"
definition USER_RATE_LIMITED :: pystr where "USER_RATE_LIMITED = u ''user_rate_limited''"
definition NETWORK_RATE_LIMITED :: pystr where "NETWORK_RATE_LIMITED = u ''network_rate_limited''"
definition APPLICATION_RATE_LIMITED :: pystr where "APPLICATION_RATE_LIMITED = u ''application_rate_limited''"
definition USER_DAILY_REQUEST_QUOTA_EXCEEDED :: pystr where
  "USER_DAILY_REQUEST_QUOTA_EXCEEDED = u ''user_daily_request_quota_exceeded''"
definition USER_DAILY_UNIT_QUOTA_EXCEEDED :: pystr where
  "USER_DAILY_UNIT_QUOTA_EXCEEDED = u ''user_daily_unit_quota_exceeded''"
definition INVALID_ADMISSION_INPUT :: pystr where "INVALID_ADMISSION_INPUT = u ''invalid_admission_input''"

definition ADMISSION_DECISIONS :: "pystr list" where
  "ADMISSION_DECISIONS =
     [ADMITTED, REQUEST_REPLAY_UNAVAILABLE, REQUEST_ID_CONFLICT, USER_RATE_LIMITED, NETWORK_RATE_LIMITED,
      APPLICATION_RATE_LIMITED, USER_DAILY_REQUEST_QUOTA_EXCEEDED, USER_DAILY_UNIT_QUOTA_EXCEEDED,
      INVALID_ADMISSION_INPUT]"

definition EXPECTED_RETRY_AFTER :: "(pystr \<times> int) list" where
  "EXPECTED_RETRY_AFTER =
     [(ADMITTED, 0), (REQUEST_REPLAY_UNAVAILABLE, 0), (REQUEST_ID_CONFLICT, 0), (INVALID_ADMISSION_INPUT, 0),
      (USER_RATE_LIMITED, 60), (NETWORK_RATE_LIMITED, 60), (APPLICATION_RATE_LIMITED, 60),
      (USER_DAILY_REQUEST_QUOTA_EXCEEDED, 86400), (USER_DAILY_UNIT_QUOTA_EXCEEDED, 86400)]"

lemmas decision_defs = ADMITTED_def REQUEST_REPLAY_UNAVAILABLE_def REQUEST_ID_CONFLICT_def
  USER_RATE_LIMITED_def NETWORK_RATE_LIMITED_def APPLICATION_RATE_LIMITED_def
  USER_DAILY_REQUEST_QUOTA_EXCEEDED_def USER_DAILY_UNIT_QUOTA_EXCEEDED_def INVALID_ADMISSION_INPUT_def

section \<open>Addresses and networks of the \<open>ipaddress\<close> module\<close>

record ip_addr =
  ip_version :: int
  ip_int :: int
  ip_scope :: "pystr option"

record ip_net =
  net_version :: int
  net_addr :: int
  net_mask :: int

text \<open>\<open>address in network\<close>.\<close>

definition in_network :: "ip_addr \<Rightarrow> ip_net \<Rightarrow> bool" where
  "in_network a n \<longleftrightarrow> ip_version a = net_version n \<and> ip_int a AND net_mask n = net_addr n"

section \<open>Runtime configuration\<close>

fun validate_secret_bytes :: "pyobj \<Rightarrow> adm_exn + nat list" where
  "validate_secret_bytes (PBytes b) =
     (if length b < 32 then Inl AdmissionConfigurationError
      else case utf8_decode b of
        None \<Rightarrow> Inl AdmissionConfigurationError
      | Some decoded \<Rightarrow> if strip decoded = [] then Inl AdmissionConfigurationError else Inr b)"
| "validate_secret_bytes _ = Inl AdmissionConfigurationError"

record AdmissionRuntimeConfig =
  secret_bytes :: "nat list"
  trusted_proxy_networks :: "ip_net list"

fun inst_all :: "'a arg list \<Rightarrow> 'a list option" where
  "inst_all [] = Some []"
| "inst_all (Inst x # xs) = map_option ((#) x) (inst_all xs)"
| "inst_all (NotInst # xs) = None"

fun AdmissionRuntimeConfig_init :: "pyobj \<Rightarrow> ip_net arg list arg \<Rightarrow> adm_exn + AdmissionRuntimeConfig" where
  "AdmissionRuntimeConfig_init secret nets =
     rbind (validate_secret_bytes secret) (\<lambda>b.
       case nets of
         NotInst \<Rightarrow> Inl AdmissionConfigurationError
       | Inst ns \<Rightarrow>
           (case inst_all ns of
              None \<Rightarrow> Inl AdmissionConfigurationError
            | Some l \<Rightarrow> Inr \<lparr>secret_bytes = b, trusted_proxy_networks = l\<rparr>))"

fun parse_cidrs :: "(pystr \<Rightarrow> ip_net option) \<Rightarrow> pystr list \<Rightarrow> adm_exn + ip_net list" where
  "parse_cidrs net_parse [] = Inr []"
| "parse_cidrs net_parse (raw_token # rest) =
     (let token = strip raw_token in
      if token = [] then Inl AdmissionConfigurationError
      else case net_parse token of
        None \<Rightarrow> Inl AdmissionConfigurationError
      | Some n \<Rightarrow> rbind (parse_cidrs net_parse rest) (\<lambda>ns. Inr (n # ns)))"

definition trusted_networks :: "(pystr \<Rightarrow> ip_net option) \<Rightarrow> pyobj \<Rightarrow> adm_exn + ip_net list" where
  "trusted_networks net_parse trusted_proxy_cidrs =
     (if trusted_proxy_cidrs = PNone \<or> trusted_proxy_cidrs = PStr [] then Inr []
      else case trusted_proxy_cidrs of
        PStr s \<Rightarrow> parse_cidrs net_parse (split_on 44 s)
      | _ \<Rightarrow> Inl AdmissionConfigurationError)"

definition AdmissionRuntimeConfig_from_values ::
    "(pystr \<Rightarrow> ip_net option) \<Rightarrow> pyobj \<Rightarrow> pyobj \<Rightarrow> adm_exn + AdmissionRuntimeConfig" where
  "AdmissionRuntimeConfig_from_values net_parse secret trusted_proxy_cidrs =
     (case secret of
        PStr s \<Rightarrow>
          if s = [] \<or> strip s = [] then Inl AdmissionConfigurationError
          else case utf8_encode s of
            None \<Rightarrow> Inl AdmissionConfigurationError
          | Some b \<Rightarrow>
              rbind (validate_secret_bytes (PBytes b)) (\<lambda>_.
              rbind (trusted_networks net_parse trusted_proxy_cidrs) (\<lambda>networks.
              AdmissionRuntimeConfig_init (PBytes b) (Inst (map Inst networks))))
      | _ \<Rightarrow> Inl AdmissionConfigurationError)"

definition env_get :: "(pystr \<rightharpoonup> pyobj) \<Rightarrow> pystr \<Rightarrow> pyobj" where
  "env_get env k = (case env k of None \<Rightarrow> PNone | Some v \<Rightarrow> v)"

definition AdmissionRuntimeConfig_from_env ::
    "(pystr \<Rightarrow> ip_net option) \<Rightarrow> (pystr \<rightharpoonup> pyobj) \<Rightarrow> (pystr \<rightharpoonup> pyobj) option
     \<Rightarrow> adm_exn + AdmissionRuntimeConfig" where
  "AdmissionRuntimeConfig_from_env net_parse os_environ env =
     (let source = (case env of None \<Rightarrow> os_environ | Some e \<Rightarrow> e)
      in AdmissionRuntimeConfig_from_values net_parse (env_get source (u ''ADMISSION_HMAC_SECRET''))
           (env_get source (u ''TRUSTED_PROXY_CIDRS'')))"

section \<open>Network identity\<close>

fun parse_ip :: "(pystr \<Rightarrow> ip_addr option) \<Rightarrow> pyobj \<Rightarrow> ip_addr option" where
  "parse_ip ip_parse (PStr s) = (if s = [] \<or> s \<noteq> strip s then None else ip_parse s)"
| "parse_ip ip_parse _ = None"

definition is_trusted :: "ip_addr \<Rightarrow> ip_net list \<Rightarrow> bool" where
  "is_trusted address networks \<longleftrightarrow>
     list_ex (\<lambda>network. ip_version address = net_version network \<and> in_network address network) networks"

text \<open>The loop over the forwarded addresses; \<open>None\<close> is its early return of the unknown identity.\<close>

fun parse_chain :: "(pystr \<Rightarrow> ip_addr option) \<Rightarrow> pystr list \<Rightarrow> ip_addr list option" where
  "parse_chain ip_parse [] = Some []"
| "parse_chain ip_parse (raw_token # rest) =
     (let token = strip raw_token in
      if token = [] then None
      else case parse_ip ip_parse (PStr token) of
        None \<Rightarrow> None
      | Some a \<Rightarrow> map_option ((#) a) (parse_chain ip_parse rest))"

definition resolve_network_identity ::
    "(pystr \<Rightarrow> ip_addr option) \<Rightarrow> (ip_addr \<Rightarrow> pystr) \<Rightarrow> pyobj \<Rightarrow> pyobj \<Rightarrow> ip_net list \<Rightarrow> pystr" where
  "resolve_network_identity ip_parse ip_str peer_host x_forwarded_for nets =
     (case parse_ip ip_parse peer_host of
        None \<Rightarrow> UNKNOWN_NETWORK_IDENTITY
      | Some peer \<Rightarrow>
          if \<not> is_trusted peer nets then ip_str peer
          else case x_forwarded_for of
            PStr xff \<Rightarrow>
              if xff = [] then UNKNOWN_NETWORK_IDENTITY
              else (case parse_chain ip_parse (split_on 44 xff) of
                      None \<Rightarrow> UNKNOWN_NETWORK_IDENTITY
                    | Some [] \<Rightarrow> UNKNOWN_NETWORK_IDENTITY
                    | Some (a # as) \<Rightarrow>
                        (case find (\<lambda>address. \<not> is_trusted address nets) (rev (a # as)) of
                           Some address \<Rightarrow> ip_str address
                         | None \<Rightarrow> ip_str a))
          | _ \<Rightarrow> UNKNOWN_NETWORK_IDENTITY)"

section \<open>HMAC references\<close>

text \<open>The bytes that are authenticated: the domain, a zero byte and the encoded payload.\<close>

definition hmac_message :: "nat list \<Rightarrow> pystr \<Rightarrow> adm_exn + nat list" where
  "hmac_message domain payload =
     (case utf8_encode payload of
        None \<Rightarrow> Inl UnicodeEncodeError
      | Some b \<Rightarrow> Inr (domain @ 0 # b))"

definition compute_hmac_sha256 ::
    "(nat list \<Rightarrow> nat list \<Rightarrow> pystr) \<Rightarrow> pyobj \<Rightarrow> nat list \<Rightarrow> pyobj \<Rightarrow> adm_exn + pystr" where
  "compute_hmac_sha256 hmac secret domain payload =
     rbind (validate_secret_bytes secret) (\<lambda>validated_secret.
     rbind (guard (domain \<in> set [MESSAGE_HMAC_DOMAIN, NETWORK_HMAC_DOMAIN]) ValueError) (\<lambda>_.
     case payload of
       PStr p \<Rightarrow> rbind (hmac_message domain p) (\<lambda>m. Inr (hmac validated_secret m))
     | _ \<Rightarrow> Inl TypeError))"

definition unavailable :: "'a \<Rightarrow> adm_exn" where
  "unavailable e = AdmissionUnavailable"

fun compute_turn_correlation ::
    "(pystr \<Rightarrow> pystr) \<Rightarrow> (nat list \<Rightarrow> nat list \<Rightarrow> pystr) \<Rightarrow> AdmissionRuntimeConfig arg \<Rightarrow> pyobj \<Rightarrow> adm_exn + pystr"
where
  "compute_turn_correlation lower hmac NotInst rid = Inl AdmissionUnavailable"
| "compute_turn_correlation lower hmac (Inst config) rid =
     rbind (with_error unavailable (RequestIdentity_init lower rid)) (\<lambda>identity.
     rbind (validate_secret_bytes (PBytes (secret_bytes config))) (\<lambda>validated_secret.
     rbind (hmac_message TURN_CORRELATION_DOMAIN (request_id identity)) (\<lambda>m.
     Inr (hmac validated_secret m))))"

fun compute_user_reference ::
    "(nat list \<Rightarrow> nat list \<Rightarrow> pystr) \<Rightarrow> AdmissionRuntimeConfig arg \<Rightarrow> pyobj \<Rightarrow> adm_exn + pystr"
where
  "compute_user_reference hmac NotInst user = Inl AdmissionUnavailable"
| "compute_user_reference hmac (Inst config) user =
     (case user of
        PStr s \<Rightarrow>
          if s = [] \<or> strip s = [] then Inl AdmissionUnavailable
          else
            rbind (validate_secret_bytes (PBytes (secret_bytes config))) (\<lambda>validated_secret.
            rbind (hmac_message USER_REFERENCE_DOMAIN s) (\<lambda>m.
            Inr (hmac validated_secret m)))
      | _ \<Rightarrow> Inl AdmissionUnavailable)"

section \<open>The admission request\<close>

fun is_lower_hex64 :: "pyobj \<Rightarrow> bool" where
  "is_lower_hex64 (PStr s) \<longleftrightarrow> length s = 64 \<and> list_all hex_digit s"
| "is_lower_hex64 _ \<longleftrightarrow> False"

record AdmissionRequest =
  ar_user_id :: pystr
  ar_request_id :: pystr
  message_hmac_sha256 :: pystr
  network_hmac_sha256 :: pystr
  estimated_units :: int

text \<open>
  The constructor with its \<open>__post_init__\<close>: an admitted user identifier, a canonical request
  identifier, which is stored normalised, two digests and a count within the budget.
\<close>

fun require_user :: "pyobj \<Rightarrow> adm_exn + pystr" where
  "require_user (PStr s) =
     (if s = [] \<or> strip s = [] \<or> length s > 128 then Inl AdmissionUnavailable else Inr s)"
| "require_user _ = Inl AdmissionUnavailable"

fun require_digest :: "pyobj \<Rightarrow> adm_exn + pystr" where
  "require_digest (PStr s) = (if is_lower_hex64 (PStr s) then Inr s else Inl AdmissionUnavailable)"
| "require_digest _ = Inl AdmissionUnavailable"

fun require_units :: "pyobj \<Rightarrow> adm_exn + int" where
  "require_units (PInt n) =
     (if 1 \<le> n \<and> n \<le> int MESSAGE_MAX_ESTIMATED_UNITS then Inr n else Inl AdmissionUnavailable)"
| "require_units _ = Inl AdmissionUnavailable"

definition AdmissionRequest_init ::
    "(pystr \<Rightarrow> pystr) \<Rightarrow> pyobj \<Rightarrow> pyobj \<Rightarrow> pyobj \<Rightarrow> pyobj \<Rightarrow> pyobj \<Rightarrow> adm_exn + AdmissionRequest" where
  "AdmissionRequest_init lower user rid mh nh units =
     rbind (require_user user) (\<lambda>user'.
     rbind (with_error unavailable (RequestIdentity_init lower rid)) (\<lambda>canonical.
     rbind (require_digest mh) (\<lambda>mh'.
     rbind (require_digest nh) (\<lambda>nh'.
     rbind (require_units units) (\<lambda>units'.
     Inr \<lparr>ar_user_id = user', ar_request_id = request_id canonical, message_hmac_sha256 = mh',
          network_hmac_sha256 = nh', estimated_units = units'\<rparr>)))))"

definition rpc_params :: "AdmissionRequest \<Rightarrow> (pystr \<times> pyobj) list" where
  "rpc_params r =
     [(u ''p_user_id'', PStr (ar_user_id r)), (u ''p_request_id'', PStr (ar_request_id r)),
      (u ''p_message_hmac_sha256'', PStr (message_hmac_sha256 r)),
      (u ''p_network_hmac_sha256'', PStr (network_hmac_sha256 r)),
      (u ''p_estimated_units'', PInt (estimated_units r))]"

definition canonical_identity :: "(pystr \<Rightarrow> ip_addr option) \<Rightarrow> (ip_addr \<Rightarrow> pystr) \<Rightarrow> pystr \<Rightarrow> bool" where
  "canonical_identity ip_parse ip_str net \<longleftrightarrow>
     net = UNKNOWN_NETWORK_IDENTITY
   \<or> (case parse_ip ip_parse (PStr net) of None \<Rightarrow> False | Some a \<Rightarrow> net = ip_str a)"

definition build_admission_request ::
    "(pystr \<Rightarrow> pystr) \<Rightarrow> (nat list \<Rightarrow> nat list \<Rightarrow> pystr) \<Rightarrow> (pystr \<Rightarrow> ip_addr option) \<Rightarrow> (ip_addr \<Rightarrow> pystr)
     \<Rightarrow> pyobj \<Rightarrow> RequestIdentity arg \<Rightarrow> pyobj \<Rightarrow> pyobj \<Rightarrow> AdmissionRuntimeConfig arg \<Rightarrow> adm_exn + AdmissionRequest"
where
  "build_admission_request lower hmac ip_parse ip_str user identity message net config =
     rbind (guard (case user of PStr s \<Rightarrow> s \<noteq> [] \<and> length s \<le> 128 | _ \<Rightarrow> False) AdmissionUnavailable) (\<lambda>_.
     case identity of NotInst \<Rightarrow> Inl AdmissionUnavailable | Inst ident \<Rightarrow>
     rbind (guard (is_str message \<and> is_str net) AdmissionUnavailable) (\<lambda>_.
     case config of NotInst \<Rightarrow> Inl AdmissionUnavailable | Inst cfg \<Rightarrow>
     rbind (guard (case net of PStr n \<Rightarrow> canonical_identity ip_parse ip_str n | _ \<Rightarrow> False)
              AdmissionUnavailable) (\<lambda>_.
     rbind (compute_hmac_sha256 hmac (PBytes (secret_bytes cfg)) MESSAGE_HMAC_DOMAIN message) (\<lambda>mh.
     rbind (compute_hmac_sha256 hmac (PBytes (secret_bytes cfg)) NETWORK_HMAC_DOMAIN net) (\<lambda>nh.
     rbind (estimate_text_units message) (\<lambda>units.
     AdmissionRequest_init lower user (PStr (request_id ident)) (PStr mh) (PStr nh) (PInt (int units))))))))"

section \<open>The decision of the store\<close>

record AdmissionResult =
  adm_decision :: pystr
  retry_after_seconds :: int

definition AdmissionResult_init :: "pystr \<Rightarrow> pyobj \<Rightarrow> adm_exn + AdmissionResult" where
  "AdmissionResult_init decision retry =
     rbind (guard (decision \<in> set ADMISSION_DECISIONS) AdmissionUnavailable) (\<lambda>_.
     case retry of
       PInt n \<Rightarrow>
         if Some n \<noteq> map_of EXPECTED_RETRY_AFTER decision then Inl AdmissionUnavailable
         else Inr \<lparr>adm_decision = decision, retry_after_seconds = n\<rparr>
     | _ \<Rightarrow> Inl AdmissionUnavailable)"

fun parse_admission_row :: "pyobj \<Rightarrow> adm_exn + AdmissionResult" where
  "parse_admission_row (PDict row) =
     rbind (guard (set (map fst row) = set [PStr (u ''decision''), PStr (u ''retry_after_seconds'')])
              AdmissionUnavailable) (\<lambda>_.
     let decision = dict_get row (u ''decision''); retry_after = dict_get row (u ''retry_after_seconds'') in
     case decision of
       PStr d \<Rightarrow>
         if d \<notin> set ADMISSION_DECISIONS then Inl AdmissionUnavailable
         else (case retry_after of
                 PInt n \<Rightarrow>
                   if n < 0 \<or> Some n \<noteq> map_of EXPECTED_RETRY_AFTER d then Inl AdmissionUnavailable
                   else AdmissionResult_init d retry_after
               | _ \<Rightarrow> Inl AdmissionUnavailable)
     | _ \<Rightarrow> Inl AdmissionUnavailable)"
| "parse_admission_row _ = Inl AdmissionUnavailable"

fun parse_admission_result :: "pyobj \<Rightarrow> adm_exn + AdmissionResult" where
  "parse_admission_result (PList [row]) = parse_admission_row row"
| "parse_admission_result _ = Inl AdmissionUnavailable"

text \<open>
  A client is a function from the procedure's name and its parameters to the payload of the response;
  \<open>None\<close> is any exception of the call.
\<close>

type_synonym admission_client = "pystr \<Rightarrow> (pystr \<times> pyobj) list \<Rightarrow> pyobj option"

definition reserve_admission_sync ::
    "admission_client option \<Rightarrow> AdmissionRequest arg \<Rightarrow> adm_exn + AdmissionResult" where
  "reserve_admission_sync client request =
     (case (client, request) of
        (Some rpc, Inst r) \<Rightarrow>
          (case rpc (u ''reserve_admission'') (rpc_params r) of
             None \<Rightarrow> Inl AdmissionUnavailable
           | Some payload \<Rightarrow> parse_admission_result payload)
      | _ \<Rightarrow> Inl AdmissionUnavailable)"

section \<open>What the parameters promise\<close>

definition hmac_ok :: "(nat list \<Rightarrow> nat list \<Rightarrow> pystr) \<Rightarrow> bool" where
  "hmac_ok hmac \<longleftrightarrow> (\<forall>k m. is_lower_hex64 (PStr (hmac k m)))"

text \<open>
  The text of an address that was parsed from a trimmed string is trimmed, not empty, and parses to
  the same address.
\<close>

definition ip_ok :: "(pystr \<Rightarrow> ip_addr option) \<Rightarrow> (ip_addr \<Rightarrow> pystr) \<Rightarrow> bool" where
  "ip_ok ip_parse ip_str \<longleftrightarrow> (\<forall>t a. t \<noteq> [] \<longrightarrow> strip t = t \<longrightarrow> ip_parse t = Some a
     \<longrightarrow> ip_str a \<noteq> [] \<and> strip (ip_str a) = ip_str a \<and> ip_parse (ip_str a) = Some a)"

lemma ip_okD:
  assumes "ip_ok ip_parse ip_str" and "parse_ip ip_parse v = Some a"
  shows "parse_ip ip_parse (PStr (ip_str a)) = Some a"
  using assms by (cases v) (auto simp: ip_ok_def split: if_splits)

section \<open>Helper facts\<close>

lemma validate_secret_iff:
  "validate_secret_bytes v = Inr b \<longleftrightarrow>
     v = PBytes b \<and> 32 \<le> length b \<and> (\<exists>t. utf8_decode b = Some t \<and> strip t \<noteq> [])"
  by (cases v) (auto split: option.splits if_splits)

lemma inst_all_Inst [simp]: "inst_all (map Inst xs) = Some xs"
  by (induction xs) auto

lemma validate_secret_error: "validate_secret_bytes v = Inl e \<Longrightarrow> e = AdmissionConfigurationError"
  by (cases v) (auto split: option.splits if_splits)

lemma parse_cidrs_error: "parse_cidrs np ts = Inl e \<Longrightarrow> e = AdmissionConfigurationError"
  by (induction ts) (auto simp: Let_def rbind_Inl_iff split: option.splits if_splits)

lemma parse_cidrs_iff:
  "parse_cidrs np ts = Inr ns \<longleftrightarrow>
     list_all2 (\<lambda>t n. strip t \<noteq> [] \<and> np (strip t) = Some n) ts ns"
  by (induction ts arbitrary: ns) (auto simp: Let_def list_all2_Cons1 split: option.splits)

text \<open>A parsed chain of a header with one more hop on the left.\<close>

lemma parse_chain_append:
  "parse_chain ip_parse (xs @ ys) =
     (case parse_chain ip_parse xs of
        None \<Rightarrow> None
      | Some as \<Rightarrow> map_option ((@) as) (parse_chain ip_parse ys))"
  by (cases "parse_chain ip_parse ys"; induction xs)
     (auto simp: Let_def split: option.splits simp del: parse_ip.simps)

lemma parse_chain_source:
  "parse_chain ip_parse ts = Some as \<Longrightarrow> a \<in> set as \<Longrightarrow> \<exists>t. parse_ip ip_parse (PStr t) = Some a"
  by (induction ts arbitrary: as) (auto simp: Let_def split: option.splits if_splits simp del: parse_ip.simps)

lemma resolve_canonical:
  assumes ok: "ip_ok ip_parse ip_str"
  shows "canonical_identity ip_parse ip_str (resolve_network_identity ip_parse ip_str peer xff nets)"
proof -
  have c: "canonical_identity ip_parse ip_str (ip_str a)" if "parse_ip ip_parse v = Some a" for v a
    using ip_okD [OF ok that] by (simp add: canonical_identity_def del: parse_ip.simps)
  have "canonical_identity ip_parse ip_str UNKNOWN_NETWORK_IDENTITY" by (simp add: canonical_identity_def)
  moreover have "canonical_identity ip_parse ip_str (ip_str a)"
    if "parse_chain ip_parse ts = Some as" "a \<in> set as" for ts as a
    using parse_chain_source [OF that] c by blast
  moreover have "find P (rev as) = Some a \<Longrightarrow> a \<in> set as" for P as and a :: ip_addr
    by (metis find_Some_iff nth_mem set_rev)
  ultimately show ?thesis
    unfolding resolve_network_identity_def
    by (auto split: option.splits pyobj.splits list.splits intro: c simp del: parse_ip.simps rev.simps) blast
qed

lemma estimate_of_valid_message:
  assumes "validate_new_message (PStr message) = Inr ()"
  shows "\<exists>b. utf8_encode message = Some b \<and> length b \<le> MESSAGE_MAX_ESTIMATED_UNITS
     \<and> estimate_text_units (PStr message) = Inr (max 1 (length b))"
  using assms by (auto simp: Let_def split: option.splits if_splits)

lemma find_rev_append:
  "\<exists>a\<in>set ys. P a \<Longrightarrow> find P (rev (xs @ ys)) = find P (rev ys)"
proof -
  have "find P (zs @ ws) = find P zs" if "\<exists>a\<in>set zs. P a" for zs ws
    using that by (induction zs) auto
  then show "\<exists>a\<in>set ys. P a \<Longrightarrow> find P (rev (xs @ ys)) = find P (rev ys)" by simp
qed

text \<open>
  Resolution behind a trusted peer, when the header parses: the last address that is not a trusted
  proxy, or the first of the chain.
\<close>

lemma resolve_chain:
  assumes "parse_ip ip_parse peer = Some p" and "is_trusted p nets"
    and "parse_chain ip_parse (split_on 44 xff) = Some as" and "\<exists>a\<in>set as. \<not> is_trusted a nets"
  shows "\<exists>a. find (\<lambda>a. \<not> is_trusted a nets) (rev as) = Some a
     \<and> resolve_network_identity ip_parse ip_str peer (PStr xff) nets = ip_str a"
proof -
  have "xff \<noteq> []" using assms(3) by (auto simp: strip_def)
  moreover obtain b bs where as: "as = b # bs" using assms(4) by (cases as) auto
  moreover have "find (\<lambda>a. \<not> is_trusted a nets) (rev as) \<noteq> None"
    using assms(4) by (auto simp: find_None_iff)
  ultimately show ?thesis
    using assms by (auto simp: resolve_network_identity_def simp del: rev.simps parse_ip.simps split: option.splits)
qed

text \<open>The two checks of the parser and of the constructor of the result, together.\<close>

lemma expected_retry_domain:
  "map_of EXPECTED_RETRY_AFTER d = Some n \<Longrightarrow> d \<in> set ADMISSION_DECISIONS \<and> 0 \<le> n"
  by (auto simp: EXPECTED_RETRY_AFTER_def ADMISSION_DECISIONS_def split: if_splits)

lemma parse_retry_iff:
  "(case t of PInt n \<Rightarrow>
      if n < 0 \<or> Some n \<noteq> map_of EXPECTED_RETRY_AFTER d then Inl AdmissionUnavailable
      else AdmissionResult_init d t
    | _ \<Rightarrow> Inl AdmissionUnavailable) = Inr r
   \<longleftrightarrow> (\<exists>n. t = PInt n \<and> map_of EXPECTED_RETRY_AFTER d = Some n
         \<and> r = \<lparr>adm_decision = d, retry_after_seconds = n\<rparr>)"
  using expected_retry_domain [of d]
  by (cases t; cases "map_of EXPECTED_RETRY_AFTER d") (auto simp: AdmissionResult_init_def)

lemma parse_row_iff:
  "parse_admission_row (PDict row) = Inr r \<longleftrightarrow>
     fst ` set row = {PStr (u ''decision''), PStr (u ''retry_after_seconds'')}
   \<and> (\<exists>d n. dict_get row (u ''decision'') = PStr d \<and> dict_get row (u ''retry_after_seconds'') = PInt n
         \<and> map_of EXPECTED_RETRY_AFTER d = Some n
         \<and> r = \<lparr>adm_decision = d, retry_after_seconds = n\<rparr>)"
proof (cases "dict_get row (u ''decision'')")
  case (PStr d)
  show ?thesis
  proof (cases "d \<in> set ADMISSION_DECISIONS")
    case True
    then show ?thesis
      unfolding parse_admission_row.simps Let_def PStr pyobj.case rbind_Inr_iff guard_iff
      by (simp add: parse_retry_iff)
  next
    case False
    then show ?thesis using PStr expected_retry_domain [of d] by auto
  qed
qed auto

lemma parse_row_error: "parse_admission_row x = Inl e \<Longrightarrow> e = AdmissionUnavailable"
  by (cases x) (auto simp: AdmissionResult_init_def Let_def rbind_Inl_iff split: pyobj.splits if_splits)

lemma parse_result_iff:
  "parse_admission_result v = Inr r \<longleftrightarrow>
     (\<exists>row d n. v = PList [PDict row]
        \<and> fst ` set row = {PStr (u ''decision''), PStr (u ''retry_after_seconds'')}
        \<and> map_of row (PStr (u ''decision'')) = Some (PStr d)
        \<and> map_of row (PStr (u ''retry_after_seconds'')) = Some (PInt n)
        \<and> map_of EXPECTED_RETRY_AFTER d = Some n
        \<and> r = \<lparr>adm_decision = d, retry_after_seconds = n\<rparr>)"
proof (cases v rule: parse_admission_result.cases)
  case (1 x)
  show ?thesis
  proof (cases x)
    case (PDict row)
    then show ?thesis
      unfolding 1 parse_admission_result.simps by (simp only: parse_row_iff) (auto simp: dict_get_iff)
  qed (simp_all add: 1)
qed simp_all

lemma parse_result_error: "parse_admission_result v = Inl e \<Longrightarrow> e = AdmissionUnavailable"
  by (cases v rule: parse_admission_result.cases) (auto intro: parse_row_error simp del: parse_admission_row.simps)

section \<open>Properties\<close>

text \<open>C37: a client cannot choose its network identity.  If the peer is not a trusted proxy, the
  \<open>X-Forwarded-For\<close> header has no influence.  If the part of the header written by the trusted proxies
  parses and names a hop outside the trusted networks, then whatever text precedes it the identity is
  still the last such hop, or the request falls back to the unknown identity.\<close>

theorem network_identity_unspoofable:
  assumes p: "parse_ip ip_parse peer = Some p"
    and c: "parse_chain ip_parse (split_on 44 xff) = Some as" and un: "\<exists>a\<in>set as. \<not> is_trusted a nets"
  shows "(\<not> is_trusted p nets \<longrightarrow> resolve_network_identity ip_parse ip_str peer header nets = ip_str p)
    \<and> (is_trusted p nets \<longrightarrow>
         (\<exists>a. find (\<lambda>a. \<not> is_trusted a nets) (rev as) = Some a
            \<and> resolve_network_identity ip_parse ip_str peer (PStr xff) nets = ip_str a
            \<and> resolve_network_identity ip_parse ip_str peer (PStr (forged @ 44 # xff)) nets
                \<in> {ip_str a, UNKNOWN_NETWORK_IDENTITY}))"
proof (intro conjI impI)
  show "resolve_network_identity ip_parse ip_str peer header nets = ip_str p" if "\<not> is_trusted p nets"
    using p that by (simp add: resolve_network_identity_def)
  assume t: "is_trusted p nets"
  obtain a where a: "find (\<lambda>a. \<not> is_trusted a nets) (rev as) = Some a"
    "resolve_network_identity ip_parse ip_str peer (PStr xff) nets = ip_str a"
    using resolve_chain [OF p t c un] by blast
  have "resolve_network_identity ip_parse ip_str peer (PStr (forged @ 44 # xff)) nets
      \<in> {ip_str a, UNKNOWN_NETWORK_IDENTITY}"
  proof (cases "parse_chain ip_parse (split_on 44 forged)")
    case None
    then show ?thesis
      using p t by (simp add: resolve_network_identity_def split_on_append parse_chain_append)
  next
    case (Some bs)
    then have full: "parse_chain ip_parse (split_on 44 (forged @ 44 # xff)) = Some (bs @ as)"
      by (simp add: split_on_append parse_chain_append c)
    show ?thesis
      using resolve_chain [OF p t full] un a(1) find_rev_append [OF un, of bs] by auto
  qed
  with a show "\<exists>a. find (\<lambda>a. \<not> is_trusted a nets) (rev as) = Some a
      \<and> resolve_network_identity ip_parse ip_str peer (PStr xff) nets = ip_str a
      \<and> resolve_network_identity ip_parse ip_str peer (PStr (forged @ 44 # xff)) nets
          \<in> {ip_str a, UNKNOWN_NETWORK_IDENTITY}" by blast
qed

text \<open>A table of three addresses, as an instance of the parameters.\<close>

definition sample_ips :: "(pystr \<times> ip_addr) list" where
  "sample_ips =
     [(u ''10.0.0.1'', \<lparr>ip_version = 4, ip_int = 167772161, ip_scope = None\<rparr>),
      (u ''203.0.113.7'', \<lparr>ip_version = 4, ip_int = 3405803783, ip_scope = None\<rparr>),
      (u ''198.51.100.9'', \<lparr>ip_version = 4, ip_int = 3325256713, ip_scope = None\<rparr>)]"

definition sample_ip_str :: "ip_addr \<Rightarrow> pystr" where
  "sample_ip_str a = (case map_of (map prod.swap sample_ips) a of None \<Rightarrow> [] | Some t \<Rightarrow> t)"

definition private_net :: ip_net where
  "private_net = \<lparr>net_version = 4, net_addr = 167772160, net_mask = 4278190080\<rparr>"

lemma sample_ips_ok: "ip_ok (map_of sample_ips) sample_ip_str"
proof -
  have l: "list_all (\<lambda>(t, a). sample_ip_str a \<noteq> [] \<and> strip (sample_ip_str a) = sample_ip_str a
      \<and> map_of sample_ips (sample_ip_str a) = Some a) sample_ips"
    by code_simp
  show ?thesis using l unfolding ip_ok_def list_all_iff by (auto dest!: map_of_SomeD)
qed

theorem network_identity_unspoofable_witness:
  "resolve_network_identity (map_of sample_ips) sample_ip_str (PStr (u ''10.0.0.1''))
     (PStr (u ''198.51.100.9'' @ 44 # u '' 203.0.113.7, 10.0.0.1'')) [private_net]
   \<in> {u ''203.0.113.7'', UNKNOWN_NETWORK_IDENTITY}"
proof -
  let ?p = "\<lparr>ip_version = 4, ip_int = 167772161, ip_scope = None\<rparr> :: ip_addr"
  let ?c = "\<lparr>ip_version = 4, ip_int = 3405803783, ip_scope = None\<rparr> :: ip_addr"
  have f: "parse_ip (map_of sample_ips) (PStr (u ''10.0.0.1'')) = Some ?p"
    "parse_chain (map_of sample_ips) (split_on 44 (u '' 203.0.113.7, 10.0.0.1'')) = Some [?c, ?p]"
    by (simp_all add: u_def strip_def is_space_def sample_ips_def)
  have g: "is_trusted ?p [private_net]" "\<not> is_trusted ?c [private_net]" by (code_simp, code_simp)
  have h: "sample_ip_str ?c = u ''203.0.113.7''" by code_simp
  have e: "\<exists>a\<in>set [?c, ?p]. \<not> is_trusted a [private_net]"
    and fi: "find (\<lambda>a. \<not> is_trusted a [private_net]) (rev [?c, ?p]) = Some ?c"
    using g by simp_all
  obtain a where "find (\<lambda>a. \<not> is_trusted a [private_net]) (rev [?c, ?p]) = Some a"
    "resolve_network_identity (map_of sample_ips) sample_ip_str (PStr (u ''10.0.0.1''))
       (PStr (u ''198.51.100.9'' @ 44 # u '' 203.0.113.7, 10.0.0.1'')) [private_net]
     \<in> {sample_ip_str a, UNKNOWN_NETWORK_IDENTITY}"
    using network_identity_unspoofable [OF f e, THEN conjunct2, rule_format, OF g(1)] by blast
  then show ?thesis using fi h by (simp only: option.inject)
qed

text \<open>C38: an accepted message always yields a well-formed admission request.  With a validated
  secret, a message that passed \<open>validate_new_message\<close>, a parsed request identity, the identity
  resolved from the connection (if it can be encoded) and a non-blank user identifier of at most 128
  characters, \<open>build_admission_request\<close> raises nothing; the request carries the user, the canonical
  identifier, the two digests and the number of UTF-8 bytes of the message, between 1 and 6000.\<close>

theorem admission_request_total:
  assumes ok: "lower_ok lower" "hmac_ok hmac" "ip_ok ip_parse ip_str"
    and secret: "validate_secret_bytes (PBytes (secret_bytes cfg)) = Inr k"
    and msg: "validate_new_message (PStr message) = Inr ()"
    and ident: "RequestIdentity_init lower rid = Inr i"
    and net: "net = resolve_network_identity ip_parse ip_str peer xff nets" "utf8_encode net = Some nb"
    and user: "strip user \<noteq> []" "length user \<le> 128"
  shows "\<exists>mb. utf8_encode message = Some mb \<and> length mb \<le> 6000
    \<and> build_admission_request lower hmac ip_parse ip_str (PStr user) (Inst i) (PStr message) (PStr net) (Inst cfg)
      = Inr \<lparr>ar_user_id = user, ar_request_id = request_id i,
             message_hmac_sha256 = hmac k (MESSAGE_HMAC_DOMAIN @ 0 # mb),
             network_hmac_sha256 = hmac k (NETWORK_HMAC_DOMAIN @ 0 # nb),
             estimated_units = int (max 1 (length mb))\<rparr>"
proof -
  obtain mb where mb: "utf8_encode message = Some mb" "length mb \<le> MESSAGE_MAX_ESTIMATED_UNITS"
    and est: "estimate_text_units (PStr message) = Inr (max 1 (length mb))"
    using estimate_of_valid_message [OF msg] by blast
  have ne: "user \<noteq> []" using user by (auto simp: strip_def)
  have can: "canonical_identity ip_parse ip_str net" unfolding net(1) by (rule resolve_canonical [OF ok(3)])
  have id: "RequestIdentity_init lower (PStr (request_id i)) = Inr i"
  proof -
    obtain raw where "is_uuid raw" "i = \<lparr>request_id = map ascii_lower raw\<rparr>"
      using ident validate_uuid_iff [OF ok(1)] by (cases rid) auto
    then show ?thesis
      using validate_uuid_iff [OF ok(1), of "request_id i" "request_id i"] lower_uuid [OF ok(1)] by simp
  qed
  have dig: "require_digest (PStr (hmac k m)) = Inr (hmac k m)" for m
    using ok(2) by (simp add: hmac_ok_def)
  have units: "require_units (PInt (int (max 1 (length mb)))) = Inr (int (max 1 (length mb)))"
    using mb(2) by (simp add: MESSAGE_MAX_ESTIMATED_UNITS_def)
  have "build_admission_request lower hmac ip_parse ip_str (PStr user) (Inst i) (PStr message) (PStr net) (Inst cfg)
      = Inr \<lparr>ar_user_id = user, ar_request_id = request_id i,
             message_hmac_sha256 = hmac k (MESSAGE_HMAC_DOMAIN @ 0 # mb),
             network_hmac_sha256 = hmac k (NETWORK_HMAC_DOMAIN @ 0 # nb),
             estimated_units = int (max 1 (length mb))\<rparr>"
    unfolding build_admission_request_def compute_hmac_sha256_def AdmissionRequest_init_def
    using secret can est id mb(1) net(2) user ne dig units
    by (simp add: hmac_message_def del: validate_secret_bytes.simps estimate_text_units.simps
        RequestIdentity_init.simps require_digest.simps require_units.simps)
  then show ?thesis using mb by (auto simp: MESSAGE_MAX_ESTIMATED_UNITS_def)
qed

definition sample_hmac :: "nat list \<Rightarrow> nat list \<Rightarrow> pystr" where
  "sample_hmac k m = replicate 64 (48 + length m mod 10)"

lemma sample_hmac_ok: "hmac_ok sample_hmac"
  by (auto simp: hmac_ok_def sample_hmac_def hex_digit_def list_all_iff)
     (metis Suc_eq_plus1 less_Suc_eq_le mod_less_divisor numeral_eq_Suc zero_less_numeral)?

definition sample_config :: AdmissionRuntimeConfig where
  "sample_config = \<lparr>secret_bytes = u ''0123456789abcdef0123456789abcdef'', trusted_proxy_networks = [private_net]\<rparr>"

theorem admission_request_total_witness:
  "\<exists>mb r. utf8_encode (u ''oi'') = Some mb
     \<and> build_admission_request sample_lower sample_hmac (map_of sample_ips) sample_ip_str
         (PStr (u ''ana'')) (Inst \<lparr>request_id = u ''550e8400-e29b-41d4-a716-446655440000''\<rparr>) (PStr (u ''oi''))
         (PStr (u ''10.0.0.1'')) (Inst sample_config) = Inr r
     \<and> estimated_units r = int (max 1 (length mb))"
proof -
  have s: "validate_secret_bytes (PBytes (secret_bytes sample_config)) = Inr (secret_bytes sample_config)"
    by (simp add: sample_config_def u_def strip_def is_space_def)
  have m: "validate_new_message (PStr (u ''oi'')) = Inr ()"
    by (simp add: u_def utf8_encode_def scalar_def utf8_char_def NEW_MESSAGE_MAX_CHARS_def
        MESSAGE_MAX_ESTIMATED_UNITS_def)
  have i: "RequestIdentity_init sample_lower (PStr (u ''550E8400-E29B-41D4-A716-446655440000''))
       = Inr \<lparr>request_id = u ''550e8400-e29b-41d4-a716-446655440000''\<rparr>"
    and n: "u ''10.0.0.1'' = resolve_network_identity (map_of sample_ips) sample_ip_str
       (PStr (u ''10.0.0.1'')) PNone []"
    by code_simp+
  have e: "utf8_encode (u ''10.0.0.1'') = Some (u ''10.0.0.1'')"
    by (rule utf8_encode_ascii) (simp add: u_def)
  have us: "strip (u ''ana'') \<noteq> []" "length (u ''ana'') \<le> 128"
    by (simp_all add: u_def strip_def is_space_def)
  show ?thesis
    using admission_request_total [OF sample_lower_ok sample_hmac_ok sample_ips_ok s m i n e us]
    by (elim exE conjE) (rule exI, rule exI, intro conjI, assumption, assumption, simp)
qed

text \<open>Domain separation.  The bytes authenticated for a message, a network identity, a turn
  correlation and a user reference never coincide for different purposes or different texts: the four
  domains contain no zero byte and UTF-8 is injective.\<close>

theorem hmac_domain_separation:
  assumes d: "d \<in> {MESSAGE_HMAC_DOMAIN, NETWORK_HMAC_DOMAIN, TURN_CORRELATION_DOMAIN, USER_REFERENCE_DOMAIN}"
    and d': "d' \<in> {MESSAGE_HMAC_DOMAIN, NETWORK_HMAC_DOMAIN, TURN_CORRELATION_DOMAIN, USER_REFERENCE_DOMAIN}"
    and m: "hmac_message d p = Inr m" and m': "hmac_message d' p' = Inr m"
  shows "d = d' \<and> p = p'"
proof -
  have z: "0 \<notin> set x" if "x \<in> {MESSAGE_HMAC_DOMAIN, NETWORK_HMAC_DOMAIN, TURN_CORRELATION_DOMAIN, USER_REFERENCE_DOMAIN}" for x
    using that by (auto simp: MESSAGE_HMAC_DOMAIN_def NETWORK_HMAC_DOMAIN_def TURN_CORRELATION_DOMAIN_def
        USER_REFERENCE_DOMAIN_def u_def)
  obtain b b' where b: "utf8_encode p = Some b" "utf8_encode p' = Some b'" "d @ 0 # b = d' @ 0 # b'"
    using m m' by (auto simp: hmac_message_def split: option.splits)
  have "d = d' \<and> b = b'"
    by (rule sep_unique [OF z [OF d] z [OF d'] b(3)])
  then show ?thesis using b utf8_encode_inj by blast
qed

theorem hmac_domain_separation_witness:
  "hmac_message MESSAGE_HMAC_DOMAIN (u ''oi'') = Inr (u ''message'' @ 0 # u ''oi'')
   \<and> hmac_message NETWORK_HMAC_DOMAIN (u ''oi'') \<noteq> hmac_message MESSAGE_HMAC_DOMAIN (u ''oi'')"
proof -
  have m: "hmac_message MESSAGE_HMAC_DOMAIN (u ''oi'') = Inr (u ''message'' @ 0 # u ''oi'')"
    using utf8_encode_ascii [of "u ''oi''"] by (simp add: hmac_message_def MESSAGE_HMAC_DOMAIN_def u_def)
  have d: "NETWORK_HMAC_DOMAIN \<noteq> MESSAGE_HMAC_DOMAIN" by (simp add: NETWORK_HMAC_DOMAIN_def MESSAGE_HMAC_DOMAIN_def)
  show ?thesis
    using hmac_domain_separation [of NETWORK_HMAC_DOMAIN MESSAGE_HMAC_DOMAIN "u ''oi''" _ "u ''oi''"] m d by auto
qed

text \<open>C39: the decision of the store is read fail-closed.  \<open>parse_admission_result\<close> accepts exactly a list
  of one dict whose keys are \<open>decision\<close> and \<open>retry_after_seconds\<close>, with one of the nine decisions and
  the integer the table prescribes for it; everything else is \<open>AdmissionUnavailable\<close>.  So a client, however
  it behaves, can make \<open>reserve_admission_sync\<close> return only such a result or raise that error.\<close>

theorem admission_result_exact:
  "(parse_admission_result v = Inr r \<longleftrightarrow>
      (\<exists>row d n. v = PList [PDict row]
         \<and> fst ` set row = {PStr (u ''decision''), PStr (u ''retry_after_seconds'')}
         \<and> map_of row (PStr (u ''decision'')) = Some (PStr d)
         \<and> map_of row (PStr (u ''retry_after_seconds'')) = Some (PInt n)
         \<and> map_of EXPECTED_RETRY_AFTER d = Some n
         \<and> r = \<lparr>adm_decision = d, retry_after_seconds = n\<rparr>))
   \<and> (parse_admission_result v = Inl e \<longrightarrow> e = AdmissionUnavailable)
   \<and> (reserve_admission_sync client request = Inr r' \<longrightarrow>
        map_of EXPECTED_RETRY_AFTER (adm_decision r') = Some (retry_after_seconds r'))
   \<and> (reserve_admission_sync client request = Inl e' \<longrightarrow> e' = AdmissionUnavailable)"
  using parse_result_iff parse_result_error
  by (auto simp: reserve_admission_sync_def split: option.splits arg.splits)

theorem admission_result_exact_witness:
  "reserve_admission_sync
     (Some (\<lambda>name params. Some (PList [PDict [(PStr (u ''decision''), PStr (u ''user_rate_limited'')),
                                             (PStr (u ''retry_after_seconds''), PInt 60)]])))
     (Inst \<lparr>ar_user_id = u ''ana'', ar_request_id = [], message_hmac_sha256 = [], network_hmac_sha256 = [],
            estimated_units = 1\<rparr>)
   = Inr \<lparr>adm_decision = u ''user_rate_limited'', retry_after_seconds = 60\<rparr>
   \<and> map_of EXPECTED_RETRY_AFTER (u ''user_rate_limited'') = Some 60"
proof -
  let ?c = "Some (\<lambda>name params. Some (PList [PDict [(PStr (u ''decision''), PStr (u ''user_rate_limited'')),
                                             (PStr (u ''retry_after_seconds''), PInt 60)]])) :: admission_client option"
  let ?r = "Inst \<lparr>ar_user_id = u ''ana'', ar_request_id = [], message_hmac_sha256 = [], network_hmac_sha256 = [],
            estimated_units = 1\<rparr> :: AdmissionRequest arg"
  have r: "reserve_admission_sync ?c ?r = Inr \<lparr>adm_decision = u ''user_rate_limited'', retry_after_seconds = 60\<rparr>"
    by code_simp
  then show ?thesis
    using admission_result_exact [of _ _ _ ?c ?r "\<lparr>adm_decision = u ''user_rate_limited'', retry_after_seconds = 60\<rparr>"]
    by simp
qed

text \<open>\<open>AdmissionRuntimeConfig.from_values\<close> accepts exactly a secret \<open>str\<close> that is not blank and has
  at least 32 bytes in UTF-8, with proxy networks that are absent or all parse; the stored secret is the
  encoded text; every other input is \<open>AdmissionConfigurationError\<close>.\<close>

theorem admission_config_exact:
  "(AdmissionRuntimeConfig_from_values np secret cidrs = Inr c \<longleftrightarrow>
      (\<exists>s b. secret = PStr s \<and> strip s \<noteq> [] \<and> utf8_encode s = Some b \<and> 32 \<le> length b
         \<and> secret_bytes c = b
         \<and> (cidrs \<in> {PNone, PStr []} \<and> trusted_proxy_networks c = []
            \<or> (\<exists>t. cidrs = PStr t \<and> t \<noteq> [] \<and> list_all2 (\<lambda>t n. strip t \<noteq> [] \<and> np (strip t) = Some n)
                     (split_on 44 t) (trusted_proxy_networks c)))))
   \<and> (AdmissionRuntimeConfig_from_values np secret cidrs = Inl e \<longrightarrow> e = AdmissionConfigurationError)"
proof -
  have v: "validate_secret_bytes (PBytes b) =
      (if 32 \<le> length b then Inr b else Inl AdmissionConfigurationError)"
    if "utf8_encode s = Some b" "strip s \<noteq> []" for s b
    using decode_encode [OF that(1)] that(2) by simp
  have ne: "strip s \<noteq> [] \<Longrightarrow> s \<noteq> []" for s by (auto simp: strip_def)
  have t: "trusted_networks np cidrs = Inr ns \<longleftrightarrow>
      (cidrs \<in> {PNone, PStr []} \<and> ns = []
       \<or> (\<exists>t. cidrs = PStr t \<and> t \<noteq> [] \<and> list_all2 (\<lambda>t n. strip t \<noteq> [] \<and> np (strip t) = Some n)
                (split_on 44 t) ns))" for ns
    by (cases cidrs) (auto simp: trusted_networks_def parse_cidrs_iff)
  have te: "trusted_networks np cidrs = Inl e \<Longrightarrow> e = AdmissionConfigurationError" for e
    by (cases cidrs) (auto simp: trusted_networks_def dest: parse_cidrs_error split: if_splits)
  have "AdmissionRuntimeConfig_from_values np (PStr s) cidrs = Inr c \<longleftrightarrow>
      (\<exists>b. strip s \<noteq> [] \<and> utf8_encode s = Some b \<and> 32 \<le> length b \<and> secret_bytes c = b
         \<and> trusted_networks np cidrs = Inr (trusted_proxy_networks c))" for s
  proof (cases "utf8_encode s")
    case (Some b)
    then show ?thesis
      using v [OF Some] ne [of s]
      by (cases c) (auto simp: AdmissionRuntimeConfig_from_values_def simp del: validate_secret_bytes.simps)
  qed (simp add: AdmissionRuntimeConfig_from_values_def)
  then have "AdmissionRuntimeConfig_from_values np secret cidrs = Inr c \<longleftrightarrow>
      (\<exists>s b. secret = PStr s \<and> strip s \<noteq> [] \<and> utf8_encode s = Some b \<and> 32 \<le> length b \<and> secret_bytes c = b
         \<and> trusted_networks np cidrs = Inr (trusted_proxy_networks c))"
    by (cases secret) (simp_all add: AdmissionRuntimeConfig_from_values_def)
  moreover have "AdmissionRuntimeConfig_from_values np secret cidrs = Inl e \<Longrightarrow> e = AdmissionConfigurationError"
    by (cases secret) (auto simp: AdmissionRuntimeConfig_from_values_def rbind_Inl_iff
        simp del: validate_secret_bytes.simps split: option.splits if_splits
        dest: te validate_secret_error)
  ultimately show ?thesis unfolding t by blast
qed

theorem admission_config_exact_witness:
  "AdmissionRuntimeConfig_from_values (\<lambda>t. if t = u ''10.0.0.0/8'' then Some private_net else None)
     (PStr (u ''0123456789abcdef0123456789abcdef'')) (PStr (u '' 10.0.0.0/8'')) = Inr sample_config
   \<and> AdmissionRuntimeConfig_from_values (\<lambda>t. None) PNone PNone = Inl AdmissionConfigurationError"
proof -
  let ?np = "\<lambda>t. if t = u ''10.0.0.0/8'' then Some private_net else None"
  let ?k = "u ''0123456789abcdef0123456789abcdef''" and ?t = "u '' 10.0.0.0/8''"
  have k: "strip ?k \<noteq> []" "32 \<le> length ?k"
    by (simp_all add: u_def strip_def is_space_def)
  have e: "utf8_encode ?k = Some ?k" by (rule utf8_encode_ascii) (simp add: u_def)
  have t: "split_on 44 ?t = [?t]" "strip ?t = u ''10.0.0.0/8''" "u ''10.0.0.0/8'' \<noteq> []"
    by (simp_all add: u_def strip_def is_space_def)
  have c: "secret_bytes sample_config = ?k" "trusted_proxy_networks sample_config = [private_net]"
    by (simp_all add: sample_config_def)
  have "list_all2 (\<lambda>t n. strip t \<noteq> [] \<and> ?np (strip t) = Some n) (split_on 44 ?t) (trusted_proxy_networks sample_config)"
    unfolding t c by (simp add: t)
  moreover have "?t \<noteq> []" by simp
  ultimately have "AdmissionRuntimeConfig_from_values ?np (PStr ?k) (PStr ?t) = Inr sample_config"
    using admission_config_exact [of ?np "PStr ?k" "PStr ?t" sample_config] k e c by blast
  moreover have "AdmissionRuntimeConfig_from_values (\<lambda>t. None) PNone PNone = Inl AdmissionConfigurationError"
    by (simp add: AdmissionRuntimeConfig_from_values_def)
  ultimately show ?thesis by blast
qed

end
