(* ===== verification/Archival_Memory.thy ===== *)
theory Archival_Memory
  imports Py_Text
begin

text \<open>
  \<open>backend/archival_memory.py\<close>: the strict parser of the facts a language model extracts from a turn and
  the idempotency key of an extraction.  Parameters: SHA-256 in hexadecimal (\<open>sha256\<close>) and \<open>str.lower\<close>
  (\<open>lower\<close>, with \<open>lower_ok\<close>).
\<close>

section \<open>Data\<close>

definition ARCHIVAL_SCHEMA_VERSION :: int where "ARCHIVAL_SCHEMA_VERSION = 1"
definition EXTRACTOR_VERSION :: int where "EXTRACTOR_VERSION = 1"

text \<open>One constructor per message of \<open>ArchivalValidationError\<close>.\<close>

datatype archival_reason =
    EnvelopeNotDict | EnvelopeUnknownKeys | VersionsRequired | BadSchemaVersion | BadExtractorVersion
  | FactsNotList | TooManyFacts | FactNotDict | FactUnknownKeys | ContentNotString | ContentEmpty
  | ContentTooLong | ImportanceNotNumber | ImportanceOutOfRange | TagsNotList | TooManyTags
  | TagNotString | TagEmpty | TagTooLong | TagPattern pystr

datatype archival_exn = ArchivalValidationError archival_reason | OverflowError

record PersistedTurnRef =
  ptr_user_id :: pystr
  source_chat_log_id :: int
  assistant_chat_log_id :: int

record ArchivalFact =
  af_content :: pystr
  af_importance :: rat
  af_tags :: "pystr list"

record ArchivalExtractionEnvelope =
  env_facts :: "ArchivalFact list"
  env_schema_version :: int
  env_extractor_version :: int

section \<open>The idempotency key\<close>

definition idempotency_input :: "pystr \<Rightarrow> int \<Rightarrow> int \<Rightarrow> pystr" where
  "idempotency_input user_id source version = user_id @ 58 # dec_int source @ 58 # dec_int version"

text \<open>\<open>None\<close> is the \<open>UnicodeEncodeError\<close> of a user identifier with a lone surrogate.\<close>

definition compute_idempotency_key ::
    "(nat list \<Rightarrow> pystr) \<Rightarrow> pystr \<Rightarrow> int \<Rightarrow> int \<Rightarrow> pystr option" where
  "compute_idempotency_key sha256 user_id source version =
     map_option sha256 (utf8_encode (idempotency_input user_id source version))"

section \<open>Parsing\<close>

definition reject :: "bool \<Rightarrow> archival_reason \<Rightarrow> archival_exn + unit" where
  "reject b r = guard (\<not> b) (ArchivalValidationError r)"

definition tag_alnum :: "nat \<Rightarrow> bool" where
  "tag_alnum c \<longleftrightarrow> 97 \<le> c \<and> c \<le> 122 \<or> 48 \<le> c \<and> c \<le> 57"

definition tag_char :: "nat \<Rightarrow> bool" where
  "tag_char c \<longleftrightarrow> tag_alnum c \<or> c = 95 \<or> c = 45"

text \<open>
  \<open>re.match(r"^[a-z0-9][a-z0-9_-]*$", s)\<close>: the dollar also matches before a newline at the end.
\<close>

fun tag_match :: "pystr \<Rightarrow> bool" where
  "tag_match [] = False"
| "tag_match (c # cs) \<longleftrightarrow> tag_alnum c
     \<and> (list_all tag_char cs \<or> cs \<noteq> [] \<and> last cs = 10 \<and> list_all tag_char (butlast cs))"

text \<open>The loop over the tags; \<open>seen\<close> holds the accepted tags in order.\<close>

fun parse_tags :: "(pystr \<Rightarrow> pystr) \<Rightarrow> pystr list \<Rightarrow> pyobj list \<Rightarrow> archival_exn + pystr list" where
  "parse_tags lower seen [] = Inr seen"
| "parse_tags lower seen (PStr tag # tags) =
     (let norm_tag = lower (strip tag) in
      rbind (reject (norm_tag = []) TagEmpty) (\<lambda>_.
      rbind (reject (length norm_tag > 32) TagTooLong) (\<lambda>_.
      rbind (reject (\<not> tag_match norm_tag) (TagPattern norm_tag)) (\<lambda>_.
      parse_tags lower (if norm_tag \<notin> set seen then seen @ [norm_tag] else seen) tags))))"
| "parse_tags lower seen (_ # tags) = Inl (ArchivalValidationError TagNotString)"

text \<open>
  The comparison \<open>0.0 <= importance <= 1.0\<close> is exact on an \<open>int\<close>; \<open>math.isfinite\<close> converts it to a
  float first and raises \<open>OverflowError\<close> if it is too large.
\<close>

definition parse_importance :: "pyobj \<Rightarrow> archival_exn + rat" where
  "parse_importance v =
     rbind (reject (is_bool v \<or> \<not> is_number v) ImportanceNotNumber) (\<lambda>_.
     case py_float v of
       None \<Rightarrow> Inl OverflowError
     | Some f \<Rightarrow>
         rbind (reject (\<not> isfinite f \<or> \<not> (0 \<le> num_val v \<and> num_val v \<le> 1)) ImportanceOutOfRange) (\<lambda>_.
         Inr (fin_val f)))"

fun parse_content :: "pyobj \<Rightarrow> archival_exn + pystr" where
  "parse_content (PStr content) =
     (let trimmed_content = strip content in
      rbind (reject (trimmed_content = []) ContentEmpty) (\<lambda>_.
      rbind (reject (length trimmed_content > 500) ContentTooLong) (\<lambda>_.
      Inr trimmed_content)))"
| "parse_content _ = Inl (ArchivalValidationError ContentNotString)"

definition FACT_KEYS :: "pystr list" where
  "FACT_KEYS = [u ''content'', u ''importance'', u ''tags'']"

fun parse_fact :: "(pystr \<Rightarrow> pystr) \<Rightarrow> pyobj \<Rightarrow> archival_exn + ArchivalFact" where
  "parse_fact lower (PDict d) =
     rbind (reject (unknown_keys d FACT_KEYS \<noteq> []) FactUnknownKeys) (\<lambda>_.
     rbind (parse_content (dict_get d (u ''content''))) (\<lambda>content.
     rbind (parse_importance (dict_get d (u ''importance''))) (\<lambda>importance.
     case dict_get d (u ''tags'') of
       PList tags \<Rightarrow>
         rbind (reject (length tags > 8) TooManyTags) (\<lambda>_.
         rbind (parse_tags lower [] tags) (\<lambda>deduplicated_tags.
         Inr \<lparr>af_content = content, af_importance = importance, af_tags = deduplicated_tags\<rparr>))
     | _ \<Rightarrow> Inl (ArchivalValidationError TagsNotList))))"
| "parse_fact lower _ = Inl (ArchivalValidationError FactNotDict)"

fun parse_facts :: "(pystr \<Rightarrow> pystr) \<Rightarrow> pyobj list \<Rightarrow> archival_exn + ArchivalFact list" where
  "parse_facts lower [] = Inr []"
| "parse_facts lower (x # xs) =
     rbind (parse_fact lower x) (\<lambda>f. rbind (parse_facts lower xs) (\<lambda>fs. Inr (f # fs)))"

definition ENVELOPE_KEYS :: "pystr list" where
  "ENVELOPE_KEYS = [u ''facts'', u ''schema_version'', u ''extractor_version'']"

fun parse_archival_extraction ::
    "(pystr \<Rightarrow> pystr) \<Rightarrow> pyobj \<Rightarrow> archival_exn + ArchivalExtractionEnvelope" where
  "parse_archival_extraction lower (PDict d) =
     rbind (reject (unknown_keys d ENVELOPE_KEYS \<noteq> []) EnvelopeUnknownKeys) (\<lambda>_.
     rbind (reject (\<not> has_key d (u ''schema_version'') \<or> \<not> has_key d (u ''extractor_version''))
              VersionsRequired) (\<lambda>_.
     let schema_version = dict_get d (u ''schema_version'');
         extractor_version = dict_get d (u ''extractor_version'') in
     rbind (reject (schema_version \<noteq> PInt ARCHIVAL_SCHEMA_VERSION) BadSchemaVersion) (\<lambda>_.
     rbind (reject (extractor_version \<noteq> PInt EXTRACTOR_VERSION) BadExtractorVersion) (\<lambda>_.
     case dict_get d (u ''facts'') of
       PList facts_list \<Rightarrow>
         rbind (reject (length facts_list > 5) TooManyFacts) (\<lambda>_.
         rbind (parse_facts lower facts_list) (\<lambda>parsed_facts.
         Inr \<lparr>env_facts = parsed_facts, env_schema_version = ARCHIVAL_SCHEMA_VERSION,
              env_extractor_version = EXTRACTOR_VERSION\<rparr>))
     | _ \<Rightarrow> Inl (ArchivalValidationError FactsNotList)))))"
| "parse_archival_extraction lower _ = Inl (ArchivalValidationError EnvelopeNotDict)"

section \<open>What an accepted envelope is\<close>

definition tag_ok :: "pystr \<Rightarrow> bool" where
  "tag_ok t \<longleftrightarrow> t \<noteq> [] \<and> length t \<le> 32 \<and> tag_alnum (hd t) \<and> list_all tag_char t"

text \<open>The first occurrence of each element, in order.\<close>

definition firsts :: "'a list \<Rightarrow> 'a list" where
  "firsts xs = rev (remdups (rev xs))"

definition keys_within :: "(pyobj \<times> pyobj) list \<Rightarrow> pystr list \<Rightarrow> bool" where
  "keys_within d ks \<longleftrightarrow> fst ` set d \<subseteq> PStr ` set ks"

definition fact_of :: "(pystr \<Rightarrow> pystr) \<Rightarrow> pyobj \<Rightarrow> ArchivalFact \<Rightarrow> bool" where
  "fact_of lower v f \<longleftrightarrow> (\<exists>d content importance tags.
     v = PDict d \<and> keys_within d FACT_KEYS
   \<and> map_of d (PStr (u ''content'')) = Some (PStr content)
   \<and> af_content f = strip content \<and> strip content \<noteq> [] \<and> length (strip content) \<le> 500
   \<and> map_of d (PStr (u ''importance'')) = Some importance
   \<and> float_value importance = Some (af_importance f) \<and> 0 \<le> num_val importance \<and> num_val importance \<le> 1
   \<and> map_of d (PStr (u ''tags'')) = Some (PList (map PStr tags)) \<and> length tags \<le> 8
   \<and> list_all tag_ok (map (\<lambda>t. lower (strip t)) tags)
   \<and> af_tags f = firsts (map (\<lambda>t. lower (strip t)) tags))"

definition fact_ok :: "ArchivalFact \<Rightarrow> bool" where
  "fact_ok f \<longleftrightarrow> af_content f \<noteq> [] \<and> strip (af_content f) = af_content f \<and> length (af_content f) \<le> 500
     \<and> 0 \<le> af_importance f \<and> af_importance f \<le> 1
     \<and> length (af_tags f) \<le> 8 \<and> distinct (af_tags f) \<and> list_all tag_ok (af_tags f)"

section \<open>The parts of the parser\<close>

lemma reject_iff [simp]: "reject b r = Inr x \<longleftrightarrow> \<not> b"
  by (simp add: reject_def)

lemma tag_match_ok:
  assumes "lower_ok lower"
  shows "lower (strip t) \<noteq> [] \<and> length (lower (strip t)) \<le> 32 \<and> tag_match (lower (strip t))
     \<longleftrightarrow> tag_ok (lower (strip t))"
proof (cases "strip t = []")
  case True
  then show ?thesis using lower_ascii [OF assms, of "[]"] by (simp add: tag_ok_def)
next
  case False
  then have "last (strip t) \<noteq> 10" using strip_ends(2) [of t] by (auto simp: is_space_def)
  then have "last (lower (strip t)) \<noteq> 10" by (rule lower_last [OF assms False])
  then show ?thesis by (cases "lower (strip t)") (auto simp: tag_ok_def tag_char_def)
qed

lemma firsts_snoc: "firsts (xs @ [x]) = (if x \<in> set xs then firsts xs else firsts xs @ [x])"
  by (simp add: firsts_def)

lemma set_firsts [simp]: "set (firsts xs) = set xs"
  by (simp add: firsts_def)

lemma parse_tags_iff:
  assumes "lower_ok lower"
  shows "parse_tags lower (firsts acc) xs = Inr r \<longleftrightarrow>
     (\<exists>ts. xs = map PStr ts \<and> list_all tag_ok (map (\<lambda>t. lower (strip t)) ts)
        \<and> r = firsts (acc @ map (\<lambda>t. lower (strip t)) ts))"
proof (induction xs arbitrary: acc)
  case Nil
  then show ?case by auto
next
  case (Cons x xs)
  show ?case
  proof (cases x)
    case (PStr t)
    let ?n = "lower (strip t)"
    have step: "(if ?n \<notin> set (firsts acc) then firsts acc @ [?n] else firsts acc) = firsts (acc @ [?n])"
      by (simp add: firsts_snoc)
    have "parse_tags lower (firsts acc) (x # xs) = Inr r \<longleftrightarrow>
        tag_ok ?n \<and> parse_tags lower (firsts (acc @ [?n])) xs = Inr r"
      unfolding PStr parse_tags.simps Let_def step tag_match_ok [OF assms, symmetric] by auto
    also have "\<dots> \<longleftrightarrow> (\<exists>ts. xs = map PStr ts \<and> tag_ok ?n \<and> list_all tag_ok (map (\<lambda>t. lower (strip t)) ts)
        \<and> r = firsts (acc @ ?n # map (\<lambda>t. lower (strip t)) ts))"
      unfolding Cons.IH by auto
    finally show ?thesis by (auto simp: PStr Cons_eq_map_conv)
  qed (auto simp: Cons_eq_map_conv)
qed

lemma parse_importance_iff:
  "parse_importance v = Inr x \<longleftrightarrow> float_value v = Some x \<and> 0 \<le> num_val v \<and> num_val v \<le> 1"
proof (cases v)
  case (PInt n)
  then show ?thesis by (cases "float_of_int n") (auto simp: parse_importance_def)
next
  case (PFloat f)
  then show ?thesis by (cases f) (auto simp: parse_importance_def)
qed (simp_all add: parse_importance_def)

lemma parse_content_iff:
  "parse_content v = Inr c \<longleftrightarrow>
     (\<exists>s. v = PStr s \<and> c = strip s \<and> strip s \<noteq> [] \<and> length (strip s) \<le> 500)"
  by (cases v) (auto simp: Let_def)

lemma parse_fact_iff:
  assumes "lower_ok lower"
  shows "parse_fact lower v = Inr f \<longleftrightarrow> fact_of lower v f"
proof (cases v)
  case (PDict d)
  have tags: "parse_tags lower [] xs = Inr r \<longleftrightarrow>
      (\<exists>ts. xs = map PStr ts \<and> list_all tag_ok (map (\<lambda>t. lower (strip t)) ts)
         \<and> r = firsts (map (\<lambda>t. lower (strip t)) ts))" for xs r
    using parse_tags_iff [OF assms, of "[]"] by (simp add: firsts_def)
  have imp: "float_value (dict_get d k) = Some x \<longleftrightarrow>
      (\<exists>v. map_of d (PStr k) = Some v \<and> float_value v = Some x)" for k x
    by (auto simp: dict_get_def split: option.splits)
  have val: "map_of d (PStr k) = Some v \<Longrightarrow> dict_get d k = v" for k v by (simp add: dict_get_def)
  show ?thesis
  proof (cases "dict_get d (u ''tags'')")
    case (PList xs)
    then have tg: "map_of d (PStr (u ''tags'')) = Some (PList xs)" by (simp add: dict_get_iff)
    show ?thesis
      unfolding PDict fact_of_def parse_fact.simps PList pyobj.case
      by (cases f) (auto simp: unknown_keys_Nil_iff keys_within_def parse_content_iff parse_importance_iff
        tags dict_get_iff imp val tg)
  qed (auto simp: PDict fact_of_def dict_get_def split: option.splits)
qed (simp_all add: fact_of_def)

lemma parse_facts_iff:
  assumes "lower_ok lower"
  shows "parse_facts lower xs = Inr fs \<longleftrightarrow> list_all2 (fact_of lower) xs fs"
  by (induction xs arbitrary: fs) (auto simp: parse_fact_iff [OF assms] list_all2_Cons1)

lemma fact_of_ok:
  assumes "fact_of lower v f"
  shows "fact_ok f"
proof -
  obtain content imp tags where
    f: "float_value imp = Some (af_importance f)" "0 \<le> num_val imp" "num_val imp \<le> 1"
    and t: "length tags \<le> 8" "list_all tag_ok (map (\<lambda>t. lower (strip t)) tags)"
      "af_tags f = firsts (map (\<lambda>t. lower (strip t)) tags)"
    and c: "af_content f = strip content" "strip content \<noteq> []" "length (strip content) \<le> 500"
    using assms unfolding fact_of_def by blast
  have "0 \<le> af_importance f \<and> af_importance f \<le> 1"
  proof (cases imp)
    case (PInt n)
    then have "n = 0 \<or> n = 1" using f by auto
    moreover have "float_of_int 0 = Some 0" "float_of_int 1 = Some 1" by code_simp+
    ultimately show ?thesis using f PInt by auto
  next
    case (PFloat x)
    then show ?thesis using f by (cases x) auto
  qed (use f in auto)
  moreover have "length (af_tags f) \<le> 8"
    using t(1) length_remdups_leq [of "rev (map (\<lambda>t. lower (strip t)) tags)"] by (simp add: t(3) firsts_def)
  ultimately show ?thesis
    using c t by (auto simp: fact_ok_def firsts_def list_all_iff)
qed

lemma parse_envelope_iff:
  assumes "lower_ok lower"
  shows "parse_archival_extraction lower v = Inr env \<longleftrightarrow>
     (\<exists>d xs. v = PDict d \<and> keys_within d ENVELOPE_KEYS
        \<and> map_of d (PStr (u ''schema_version'')) = Some (PInt 1)
        \<and> map_of d (PStr (u ''extractor_version'')) = Some (PInt 1)
        \<and> map_of d (PStr (u ''facts'')) = Some (PList xs) \<and> length xs \<le> 5
        \<and> list_all2 (fact_of lower) xs (env_facts env)
        \<and> env_schema_version env = 1 \<and> env_extractor_version env = 1)"
proof (cases v)
  case (PDict d)
  show ?thesis
  proof (cases "dict_get d (u ''facts'')")
    case (PList xs)
    then have tg: "map_of d (PStr (u ''facts'')) = Some (PList xs)" by (simp add: dict_get_iff)
    show ?thesis
      unfolding PDict parse_archival_extraction.simps PList pyobj.case Let_def
      by (cases env) (auto simp: unknown_keys_Nil_iff keys_within_def parse_facts_iff [OF assms] tg has_key_def
        dict_get_iff ARCHIVAL_SCHEMA_VERSION_def EXTRACTOR_VERSION_def)
  qed (auto simp: PDict Let_def dict_get_def split: option.splits)
qed simp_all

section \<open>Properties\<close>

text \<open>\<open>parse_archival_extraction\<close> accepts exactly the envelopes of version 1 with at most five facts,
  each with the three known keys, a content that is not blank and at most 500 characters once trimmed, a
  finite importance between 0 and 1 that is not a bool, and at most eight tags that after trimming and
  lowering match \<open>[a-z0-9][a-z0-9_-]*\<close> with at most 32 characters; the result holds the trimmed
  content, the importance as a float and the first occurrence of each tag.  In particular every fact it
  returns is within these bounds, with distinct tags.\<close>

theorem archival_parse_exact:
  assumes "lower_ok lower"
  shows "(parse_archival_extraction lower v = Inr env \<longleftrightarrow>
     (\<exists>d xs. v = PDict d \<and> keys_within d ENVELOPE_KEYS
        \<and> map_of d (PStr (u ''schema_version'')) = Some (PInt 1)
        \<and> map_of d (PStr (u ''extractor_version'')) = Some (PInt 1)
        \<and> map_of d (PStr (u ''facts'')) = Some (PList xs) \<and> length xs \<le> 5
        \<and> list_all2 (fact_of lower) xs (env_facts env)
        \<and> env_schema_version env = 1 \<and> env_extractor_version env = 1))
   \<and> (parse_archival_extraction lower v = Inr env \<longrightarrow> length (env_facts env) \<le> 5 \<and> list_all fact_ok (env_facts env))"
proof -
  have "list_all2 (fact_of lower) xs ys \<Longrightarrow> length ys = length xs \<and> list_all fact_ok ys" for xs ys
    by (induction rule: list_all2_induct) (auto intro: fact_of_ok)
  then have "parse_archival_extraction lower v = Inr env \<Longrightarrow> length (env_facts env) \<le> 5 \<and> list_all fact_ok (env_facts env)"
    unfolding parse_envelope_iff [OF assms] by fastforce
  with parse_envelope_iff [OF assms, of v env] show ?thesis by (rule_tac conjI) (assumption, rule impI)
qed

definition sample_envelope :: pyobj where
  "sample_envelope = PDict [
     (PStr (u ''facts''), PList [PDict [
        (PStr (u ''content''), PStr (u '' likes tea '')), (PStr (u ''importance''), PInt 1),
        (PStr (u ''tags''), PList [PStr (u ''Tea''), PStr (u '' tea'')])]]),
     (PStr (u ''schema_version''), PInt 1), (PStr (u ''extractor_version''), PInt 1)]"

definition sample_fact :: ArchivalFact where
  "sample_fact = \<lparr>af_content = u ''likes tea'', af_importance = 1, af_tags = [u ''tea'']\<rparr>"

theorem archival_parse_exact_witness:
  "parse_archival_extraction sample_lower sample_envelope
     = Inr \<lparr>env_facts = [sample_fact], env_schema_version = 1, env_extractor_version = 1\<rparr>
   \<and> fact_ok sample_fact"
proof -
  have f: "float_of_int 1 = Some 1" by code_simp
  have t: "strip (u '' likes tea '') = u ''likes tea''" "strip (u ''Tea'') = u ''Tea''" "strip (u '' tea'') = u ''tea''"
    by (simp_all add: u_def strip_def is_space_def)
  have l: "sample_lower (u ''Tea'') = u ''tea''" "sample_lower (u ''tea'') = u ''tea''" "tag_match (u ''tea'')"
    by (simp_all add: u_def sample_lower_def sample_lower_char_def ascii_lower_def tag_alnum_def tag_char_def)
  have p: "parse_archival_extraction sample_lower sample_envelope
     = Inr \<lparr>env_facts = [sample_fact], env_schema_version = 1, env_extractor_version = 1\<rparr>"
    by (simp add: sample_envelope_def sample_fact_def dict_get_def unknown_keys_def has_key_def
        ENVELOPE_KEYS_def FACT_KEYS_def ARCHIVAL_SCHEMA_VERSION_def EXTRACTOR_VERSION_def reject_def
        parse_importance_def Let_def f t l)
  then show ?thesis
    using archival_parse_exact [OF sample_lower_ok, of sample_envelope
        "\<lparr>env_facts = [sample_fact], env_schema_version = 1, env_extractor_version = 1\<rparr>"] by simp
qed

text \<open>The idempotency key separates extractions: the texts that are hashed coincide only for the same
  user, the same source message and the same extractor version, even if the user identifier contains
  colons or digits; so do the encoded bytes given to SHA-256.\<close>

theorem idempotency_input_injective:
  assumes "utf8_encode (idempotency_input user source version) = Some b"
    and "utf8_encode (idempotency_input user' source' version') = Some b"
  shows "user = user' \<and> source = source' \<and> version = version'"
proof -
  have nc: "58 \<notin> set (rev (dec_int n))" for n using dec_int_chars [of 58 n] by auto
  have "idempotency_input user source version = idempotency_input user' source' version'"
    using assms utf8_encode_inj by blast
  then have "rev (dec_int version) @ 58 # rev (dec_int source) @ 58 # rev user =
      rev (dec_int version') @ 58 # rev (dec_int source') @ 58 # rev user'"
    unfolding idempotency_input_def by (metis (no_types) append_Cons append_Nil append_assoc rev.simps(2) rev_append)
  then have "rev (dec_int version) = rev (dec_int version')
      \<and> rev (dec_int source) @ 58 # rev user = rev (dec_int source') @ 58 # rev user'"
    by (rule sep_unique [OF nc nc])
  then show ?thesis using sep_unique [OF nc nc] dec_int_inj by (metis rev_is_rev_conv)
qed

theorem idempotency_input_injective_witness:
  "utf8_encode (idempotency_input (u ''a:1'') 2 1) \<noteq> utf8_encode (idempotency_input (u ''a'') 1 1)"
proof
  assume e: "utf8_encode (idempotency_input (u ''a:1'') 2 1) = utf8_encode (idempotency_input (u ''a'') 1 1)"
  have "\<exists>b. utf8_encode (idempotency_input (u ''a'') 1 1) = Some b"
    by (simp add: utf8_encode_def scalar_def idempotency_input_def u_def dec_int_def dec_nat.simps)
  then show False using idempotency_input_injective [of "u ''a:1''" 2 1 _ "u ''a''" 1 1] e by auto
qed

text \<open>An importance that is an integer too large for a float escapes the parser as \<open>OverflowError\<close>,
  not as \<open>ArchivalValidationError\<close>, in the first fact of any envelope that is otherwise accepted up to
  there.\<close>

theorem archival_importance_overflow:
  assumes "float_of_int n = None" and "parse_content content = Inr c" and "length rest \<le> 4"
  shows "parse_archival_extraction lower (PDict [
      (PStr (u ''facts''), PList (PDict [(PStr (u ''content''), content), (PStr (u ''importance''), PInt n),
                                         (PStr (u ''tags''), tags)] # rest)),
      (PStr (u ''schema_version''), PInt 1), (PStr (u ''extractor_version''), PInt 1)]) = Inl OverflowError"
  using assms by (simp add: dict_get_def unknown_keys_def has_key_def ENVELOPE_KEYS_def FACT_KEYS_def
      ARCHIVAL_SCHEMA_VERSION_def EXTRACTOR_VERSION_def reject_def parse_importance_def)

theorem archival_importance_overflow_witness:
  "parse_archival_extraction sample_lower (PDict [
      (PStr (u ''facts''), PList [PDict [(PStr (u ''content''), PStr (u ''x'')), (PStr (u ''importance''), PInt (2 ^ 1024)),
                                         (PStr (u ''tags''), PList [])]]),
      (PStr (u ''schema_version''), PInt 1), (PStr (u ''extractor_version''), PInt 1)]) = Inl OverflowError"
proof -
  have n: "float_of_int (2 ^ 1024) = None" by (rule float_of_int_overflow) (rule order_refl)
  have c: "parse_content (PStr (u ''x'')) = Inr (u ''x'')"
    by (simp add: u_def strip_def is_space_def reject_def)
  show ?thesis by (rule archival_importance_overflow [OF n c]) simp
qed

end
