(* ===== verification/Turn_Execution.thy ===== *)
theory Turn_Execution
  imports Py_Text
begin

text \<open>
  \<open>backend/turn_execution.py\<close>: failure codes, the monotonic budget of a turn, the validated
  configuration, the exponential backoff, and the two helpers that run blocking operations: a read
  that may be abandoned at its timeout and a write that never is.  The clock is an argument of the
  budget's properties; the write helper is a step relation whose steps are the events of the loop.
  \<open>str.lower\<close> and the conversions \<open>float(str)\<close> and \<open>int(str)\<close> are parameters of the parser of
  the environment.
\<close>

section \<open>Failures\<close>

datatype TurnErrorCode =
    turn_timeout | upstream_rate_limited | provider_unavailable | provider_invalid_request
  | provider_invalid_response | persistence_unavailable | internal_error

definition error_code_value :: "TurnErrorCode \<Rightarrow> pystr" where
  "error_code_value c = (case c of
     turn_timeout \<Rightarrow> u ''turn_timeout''
   | upstream_rate_limited \<Rightarrow> u ''upstream_rate_limited''
   | provider_unavailable \<Rightarrow> u ''provider_unavailable''
   | provider_invalid_request \<Rightarrow> u ''provider_invalid_request''
   | provider_invalid_response \<Rightarrow> u ''provider_invalid_response''
   | persistence_unavailable \<Rightarrow> u ''persistence_unavailable''
   | internal_error \<Rightarrow> u ''internal_error'')"

text \<open>
  What a stage of a turn raises: a \<open>TurnExecutionError\<close> with its code, the cancellation of the
  task, or an exception of the operation itself.
\<close>

datatype 'x turn_exn = TurnExecutionError TurnErrorCode | CancelledError | Raised 'x

definition DeadlineExceeded :: "'x turn_exn" where
  "DeadlineExceeded = TurnExecutionError turn_timeout"

section \<open>The budget\<close>

record TurnBudget =
  tb_deadline :: rat
  tb_reserve :: rat

definition remaining :: "TurnBudget \<Rightarrow> rat \<Rightarrow> rat" where
  "remaining b now = max 0 (fsub (tb_deadline b) now)"

definition remaining_before_reserve :: "TurnBudget \<Rightarrow> rat \<Rightarrow> rat" where
  "remaining_before_reserve b now = max 0 (fsub (remaining b now) (tb_reserve b))"

definition has_reserve :: "TurnBudget \<Rightarrow> rat \<Rightarrow> bool" where
  "has_reserve b now \<longleftrightarrow> remaining b now \<ge> tb_reserve b"

definition assert_enough_for :: "TurnBudget \<Rightarrow> rat \<Rightarrow> rat \<Rightarrow> 'x turn_exn + unit" where
  "assert_enough_for b now needed = guard (\<not> needed > remaining b now) DeadlineExceeded"

definition remaining_for_attempt :: "TurnBudget \<Rightarrow> rat \<Rightarrow> rat \<Rightarrow> rat" where
  "remaining_for_attempt b now attempt_timeout = min attempt_timeout (remaining_before_reserve b now)"

record GroqCallParams =
  gp_max_attempts :: int
  gp_connect_timeout :: rat
  gp_provider_attempt_timeout :: rat
  gp_base_backoff :: rat
  gp_max_backoff :: rat
  gp_max_jitter :: rat

definition compute_effective_attempt_timeout :: "GroqCallParams \<Rightarrow> TurnBudget \<Rightarrow> rat \<Rightarrow> rat" where
  "compute_effective_attempt_timeout p b now =
     min (gp_provider_attempt_timeout p) (remaining_before_reserve b now)"

section \<open>A blocking read\<close>

text \<open>How the awaited thread ends: in time, by the timeout of \<open>wait_for\<close>, or cancelled.\<close>

datatype ('a, 'x) read_end = ReadResult 'a | ReadRaises "'x turn_exn" | ReadTimesOut | ReadCancelled

text \<open>The \<open>except\<close> clauses; \<open>allow\<close> is membership in \<open>allowlist_exceptions\<close>.\<close>

fun classify_read :: "('x \<Rightarrow> bool) \<Rightarrow> ('a, 'x) read_end \<Rightarrow> 'x turn_exn + 'a" where
  "classify_read allow (ReadResult x) = Inr x"
| "classify_read allow ReadTimesOut = Inl DeadlineExceeded"
| "classify_read allow ReadCancelled = Inl CancelledError"
| "classify_read allow (ReadRaises CancelledError) = Inl CancelledError"
| "classify_read allow (ReadRaises (TurnExecutionError c)) = Inl (TurnExecutionError c)"
| "classify_read allow (ReadRaises (Raised x)) =
     (if allow x then Inl (Raised x) else Inl (TurnExecutionError persistence_unavailable))"

text \<open>\<open>op\<close> gives the end of the thread for the timeout it is awaited with.\<close>

definition run_blocking_read ::
    "TurnBudget \<Rightarrow> rat \<Rightarrow> rat \<Rightarrow> ('x \<Rightarrow> bool) \<Rightarrow> (rat \<Rightarrow> ('a, 'x) read_end) \<Rightarrow> 'x turn_exn + 'a" where
  "run_blocking_read b now supabase_timeout allow op =
     (let timeout = min (remaining_before_reserve b now) supabase_timeout in
      if timeout \<le> 0 then Inl DeadlineExceeded else classify_read allow (op timeout))"

section \<open>A blocking write\<close>

text \<open>
  The worker thread ends with a value, a \<open>TurnExecutionError\<close> or an exception of the operation; it is
  never cancelled, because the loop awaits it through \<open>shield\<close>.
\<close>

datatype ('a, 'x) worker_end = WorkerResult 'a | WorkerTurnError TurnErrorCode | WorkerRaised 'x

record ('a, 'x) write_state =
  ws_worker :: "('a, 'x) worker_end option" \<comment> \<open>\<open>None\<close>: the worker task is not done\<close>
  ws_cancelled :: bool \<comment> \<open>\<open>original_cancel is not None\<close>\<close>
  ws_exit :: "('x turn_exn + 'a) option" \<comment> \<open>what the coroutine returned or raised\<close>

text \<open>Phases 2 to 4, once the worker is done.\<close>

definition classify_write :: "('x \<Rightarrow> bool) \<Rightarrow> bool \<Rightarrow> ('a, 'x) worker_end \<Rightarrow> 'x turn_exn + 'a" where
  "classify_write allow cancelled w =
     (if cancelled then Inl CancelledError
      else case w of
        WorkerResult x \<Rightarrow> Inr x
      | WorkerRaised x \<Rightarrow>
          if allow x then Inl (Raised x) else Inl (TurnExecutionError persistence_unavailable)
      | WorkerTurnError c \<Rightarrow> Inl (TurnExecutionError c))"

text \<open>The check before starting: no task is created when the budget is exhausted.\<close>

definition start_write :: "TurnBudget \<Rightarrow> rat \<Rightarrow> ('a, 'x) write_state" where
  "start_write b now = \<lparr>ws_worker = None, ws_cancelled = False,
     ws_exit = (if remaining b now \<le> 0 then Some (Inl DeadlineExceeded) else None)\<rparr>"

definition worker_started :: "('a, 'x) write_state \<Rightarrow> bool" where
  "worker_started s \<longleftrightarrow> ws_exit s = None"

inductive write_step :: "('x \<Rightarrow> bool) \<Rightarrow> ('a, 'x) write_state \<Rightarrow> ('a, 'x) write_state \<Rightarrow> bool" for allow where
  worker_ends: "ws_exit s = None \<Longrightarrow> ws_worker s = None \<Longrightarrow> write_step allow s (s\<lparr>ws_worker := Some w\<rparr>)"
| cancel_arrives: "ws_exit s = None \<Longrightarrow> write_step allow s (s\<lparr>ws_cancelled := True\<rparr>)"
| helper_exits: "ws_exit s = None \<Longrightarrow> ws_worker s = Some w
     \<Longrightarrow> write_step allow s (s\<lparr>ws_exit := Some (classify_write allow (ws_cancelled s) w)\<rparr>)"

section \<open>The configuration\<close>

datatype config_exn = ConfigValueError | ConfigOverflowError

definition cfg_err :: "bool \<Rightarrow> config_exn + unit" where
  "cfg_err bad = guard (\<not> bad) ConfigValueError"

definition assert_finite_positive :: "pyobj \<Rightarrow> config_exn + unit" where
  "assert_finite_positive v =
     rbind (cfg_err (is_bool v)) (\<lambda>_.
     rbind (cfg_err (\<not> is_number v)) (\<lambda>_.
     case py_float v of
       None \<Rightarrow> Inl ConfigOverflowError
     | Some f \<Rightarrow> rbind (cfg_err (\<not> isfinite f)) (\<lambda>_. cfg_err (fin_val f \<le> 0))))"

definition assert_finite_nonnegative :: "pyobj \<Rightarrow> config_exn + unit" where
  "assert_finite_nonnegative v =
     rbind (cfg_err (is_bool v)) (\<lambda>_.
     rbind (cfg_err (\<not> is_number v)) (\<lambda>_.
     case py_float v of
       None \<Rightarrow> Inl ConfigOverflowError
     | Some f \<Rightarrow> rbind (cfg_err (\<not> isfinite f)) (\<lambda>_. cfg_err (fin_val f < 0))))"

text \<open>The arguments of the constructor, and the values it keeps: it does not convert its numbers.\<close>

record exec_args =
  xa_total_deadline :: pyobj
  xa_connect_timeout :: pyobj
  xa_provider_attempt_timeout :: pyobj
  xa_supabase_timeout :: pyobj
  xa_commit_reserve :: pyobj
  xa_max_attempts :: pyobj
  xa_base_backoff :: pyobj
  xa_max_backoff :: pyobj
  xa_max_jitter :: pyobj
  xa_frontend_timeout_ms :: pyobj

record TurnExecutionConfig =
  total_deadline :: rat
  connect_timeout :: rat
  provider_attempt_timeout :: rat
  supabase_timeout :: rat
  commit_reserve :: rat
  max_attempts :: int
  base_backoff :: rat
  max_backoff :: rat
  max_jitter :: rat
  frontend_timeout_ms :: int

definition require_int :: "pyobj \<Rightarrow> config_exn + int" where
  "require_int v = (case v of PInt n \<Rightarrow> Inr n | _ \<Rightarrow> Inl ConfigValueError)"

definition TurnExecutionConfig_init :: "exec_args \<Rightarrow> config_exn + TurnExecutionConfig" where
  "TurnExecutionConfig_init a =
     rbind (assert_finite_positive (xa_total_deadline a)) (\<lambda>_.
     rbind (assert_finite_positive (xa_connect_timeout a)) (\<lambda>_.
     rbind (assert_finite_positive (xa_provider_attempt_timeout a)) (\<lambda>_.
     rbind (assert_finite_positive (xa_supabase_timeout a)) (\<lambda>_.
     rbind (assert_finite_positive (xa_commit_reserve a)) (\<lambda>_.
     rbind (assert_finite_positive (xa_base_backoff a)) (\<lambda>_.
     rbind (assert_finite_positive (xa_max_backoff a)) (\<lambda>_.
     rbind (assert_finite_nonnegative (xa_max_jitter a)) (\<lambda>_.
     rbind (require_int (xa_max_attempts a)) (\<lambda>attempts.
     rbind (cfg_err (attempts < 1)) (\<lambda>_.
     rbind (cfg_err (attempts > 5)) (\<lambda>_.
     rbind (require_int (xa_frontend_timeout_ms a)) (\<lambda>frontend.
     rbind (cfg_err (frontend < 1000)) (\<lambda>_.
     rbind (cfg_err (frontend > 300000)) (\<lambda>_.
     let c = \<lparr>total_deadline = num_val (xa_total_deadline a),
              connect_timeout = num_val (xa_connect_timeout a),
              provider_attempt_timeout = num_val (xa_provider_attempt_timeout a),
              supabase_timeout = num_val (xa_supabase_timeout a),
              commit_reserve = num_val (xa_commit_reserve a), max_attempts = attempts,
              base_backoff = num_val (xa_base_backoff a), max_backoff = num_val (xa_max_backoff a),
              max_jitter = num_val (xa_max_jitter a), frontend_timeout_ms = frontend\<rparr> in
     rbind (cfg_err (connect_timeout c > provider_attempt_timeout c)) (\<lambda>_.
     rbind (cfg_err (provider_attempt_timeout c \<ge> total_deadline c)) (\<lambda>_.
     rbind (cfg_err (commit_reserve c < 2 * supabase_timeout c)) (\<lambda>_.
     rbind (cfg_err (commit_reserve c \<ge> total_deadline c)) (\<lambda>_.
     rbind (cfg_err (base_backoff c > max_backoff c)) (\<lambda>_.
     rbind (cfg_err (\<not> (0 \<le> max_jitter c \<and> max_jitter c \<le> 1))) (\<lambda>_.
     rbind (cfg_err (total_deadline c > 300)) (\<lambda>_.
     rbind (cfg_err (connect_timeout c > 30)) (\<lambda>_.
     rbind (cfg_err (provider_attempt_timeout c > 120)) (\<lambda>_.
     rbind (cfg_err (supabase_timeout c > 30)) (\<lambda>_.
     rbind (cfg_err (commit_reserve c > 120)) (\<lambda>_.
     Inr c)))))))))))))))))))))))))"

definition exec_default_args :: exec_args where
  "exec_default_args = \<lparr>xa_total_deadline = flt 45, xa_connect_timeout = flt 3,
     xa_provider_attempt_timeout = flt 15, xa_supabase_timeout = flt 5, xa_commit_reserve = flt 10,
     xa_max_attempts = PInt 2, xa_base_backoff = flt (1/4), xa_max_backoff = flt (3/4),
     xa_max_jitter = flt (fl (1/10)), xa_frontend_timeout_ms = PInt 50000\<rparr>"

definition TurnExecutionConfig_defaults :: "config_exn + TurnExecutionConfig" where
  "TurnExecutionConfig_defaults = TurnExecutionConfig_init exec_default_args"

definition to_groq_params :: "TurnExecutionConfig \<Rightarrow> GroqCallParams" where
  "to_groq_params c = \<lparr>gp_max_attempts = max_attempts c, gp_connect_timeout = connect_timeout c,
     gp_provider_attempt_timeout = provider_attempt_timeout c, gp_base_backoff = base_backoff c,
     gp_max_backoff = max_backoff c, gp_max_jitter = max_jitter c\<rparr>"

text \<open>
  The environment: each variable is absent or a string.  \<open>fp\<close> and \<open>ip\<close> are \<open>float(str)\<close> and
  \<open>int(str)\<close>, with \<open>None\<close> for their \<open>ValueError\<close>.
\<close>

type_synonym env = "pystr \<Rightarrow> pystr option"

definition env_text :: "(pystr \<Rightarrow> pystr) \<Rightarrow> pystr \<Rightarrow> config_exn + pystr" where
  "env_text lower raw =
     (let val = strip raw in
      rbind (cfg_err (val = [])) (\<lambda>_.
      rbind (cfg_err (lower val \<in> set [u ''true'', u ''false'', u ''yes'', u ''no''])) (\<lambda>_. Inr val)))"

definition env_float ::
    "(pystr \<Rightarrow> pystr) \<Rightarrow> (pystr \<Rightarrow> pyfloat option) \<Rightarrow> env \<Rightarrow> pystr \<Rightarrow> rat \<Rightarrow> config_exn + rat" where
  "env_float lower fp source key dflt = (case source key of
     None \<Rightarrow> Inr dflt
   | Some raw \<Rightarrow>
       rbind (env_text lower raw) (\<lambda>val.
       case fp val of
         None \<Rightarrow> Inl ConfigValueError
       | Some f \<Rightarrow> rbind (cfg_err (\<not> isfinite f)) (\<lambda>_. Inr (fin_val f))))"

definition env_nonnegative_float ::
    "(pystr \<Rightarrow> pystr) \<Rightarrow> (pystr \<Rightarrow> pyfloat option) \<Rightarrow> env \<Rightarrow> pystr \<Rightarrow> rat \<Rightarrow> config_exn + rat" where
  "env_nonnegative_float lower fp source key dflt = (case source key of
     None \<Rightarrow> Inr dflt
   | Some raw \<Rightarrow>
       rbind (env_text lower raw) (\<lambda>val.
       case fp val of
         None \<Rightarrow> Inl ConfigValueError
       | Some f \<Rightarrow>
           rbind (cfg_err (\<not> isfinite f)) (\<lambda>_.
           rbind (cfg_err (fin_val f < 0)) (\<lambda>_.
           rbind (cfg_err (fin_val f > 1)) (\<lambda>_. Inr (fin_val f))))))"

definition env_int ::
    "(pystr \<Rightarrow> pystr) \<Rightarrow> (pystr \<Rightarrow> int option) \<Rightarrow> env \<Rightarrow> pystr \<Rightarrow> int \<Rightarrow> config_exn + int" where
  "env_int lower ip source key dflt = (case source key of
     None \<Rightarrow> Inr dflt
   | Some raw \<Rightarrow>
       rbind (env_text lower raw) (\<lambda>val.
       case ip val of
         None \<Rightarrow> Inl ConfigValueError
       | Some i \<Rightarrow> rbind (cfg_err (i \<le> 0)) (\<lambda>_. Inr i)))"

definition TurnExecutionConfig_from_env ::
    "(pystr \<Rightarrow> pystr) \<Rightarrow> (pystr \<Rightarrow> pyfloat option) \<Rightarrow> (pystr \<Rightarrow> int option) \<Rightarrow> env
     \<Rightarrow> config_exn + TurnExecutionConfig" where
  "TurnExecutionConfig_from_env lower fp ip source =
     rbind (env_float lower fp source (u ''TURN_TOTAL_DEADLINE'') 45) (\<lambda>td.
     rbind (env_float lower fp source (u ''TURN_CONNECT_TIMEOUT'') 3) (\<lambda>ct.
     rbind (env_float lower fp source (u ''TURN_PROVIDER_ATTEMPT_TIMEOUT'') 15) (\<lambda>pt.
     rbind (env_float lower fp source (u ''TURN_SUPABASE_TIMEOUT'') 5) (\<lambda>st.
     rbind (env_float lower fp source (u ''TURN_COMMIT_RESERVE'') 10) (\<lambda>cr.
     rbind (env_float lower fp source (u ''TURN_BASE_BACKOFF'') (1/4)) (\<lambda>bb.
     rbind (env_float lower fp source (u ''TURN_MAX_BACKOFF'') (3/4)) (\<lambda>mb.
     rbind (env_nonnegative_float lower fp source (u ''TURN_MAX_JITTER'') (fl (1/10))) (\<lambda>mj.
     rbind (env_int lower ip source (u ''TURN_MAX_ATTEMPTS'') 2) (\<lambda>ma.
     rbind (env_int lower ip source (u ''TURN_FRONTEND_TIMEOUT_MS'') 50000) (\<lambda>ft.
     TurnExecutionConfig_init \<lparr>xa_total_deadline = flt td, xa_connect_timeout = flt ct,
       xa_provider_attempt_timeout = flt pt, xa_supabase_timeout = flt st, xa_commit_reserve = flt cr,
       xa_max_attempts = PInt ma, xa_base_backoff = flt bb, xa_max_backoff = flt mb,
       xa_max_jitter = flt mj, xa_frontend_timeout_ms = PInt ft\<rparr>))))))))))"

definition create_budget :: "TurnExecutionConfig \<Rightarrow> rat \<Rightarrow> TurnBudget" where
  "create_budget c now = \<lparr>tb_deadline = fadd now (total_deadline c), tb_reserve = commit_reserve c\<rparr>"

section \<open>Backoff\<close>

text \<open>\<open>random\<close> is the value drawn from the random source.\<close>

definition compute_backoff :: "int \<Rightarrow> rat \<Rightarrow> rat \<Rightarrow> rat \<Rightarrow> rat \<Rightarrow> config_exn + rat" where
  "compute_backoff attempt base cap jitter_fraction random =
     (if attempt < 0 then Inr 0
      else case float_of_int (2 ^ nat attempt) of
        None \<Rightarrow> Inl ConfigOverflowError
      | Some p \<Rightarrow>
          (let delay = min (fmul base p) cap;
               jitter = fmul (fmul delay jitter_fraction) random
           in Inr (min (fadd delay jitter) cap)))"

definition compute_backoff_from_params :: "int \<Rightarrow> GroqCallParams \<Rightarrow> rat \<Rightarrow> config_exn + rat" where
  "compute_backoff_from_params attempt p random =
     compute_backoff attempt (gp_base_backoff p) (gp_max_backoff p) (gp_max_jitter p) random"

section \<open>What a valid configuration is\<close>

definition valid_exec_config :: "TurnExecutionConfig \<Rightarrow> bool" where
  "valid_exec_config c \<longleftrightarrow>
     0 < connect_timeout c \<and> connect_timeout c \<le> provider_attempt_timeout c \<and> connect_timeout c \<le> 30
   \<and> provider_attempt_timeout c < total_deadline c \<and> provider_attempt_timeout c \<le> 120
   \<and> 0 < supabase_timeout c \<and> supabase_timeout c \<le> 30
   \<and> 2 * supabase_timeout c \<le> commit_reserve c \<and> commit_reserve c \<le> 120
   \<and> commit_reserve c < total_deadline c \<and> total_deadline c \<le> 300
   \<and> 0 < base_backoff c \<and> base_backoff c \<le> max_backoff c \<and> 0 \<le> max_jitter c \<and> max_jitter c \<le> 1
   \<and> 1 \<le> max_attempts c \<and> max_attempts c \<le> 5
   \<and> 1000 \<le> frontend_timeout_ms c \<and> frontend_timeout_ms c \<le> 300000"

text \<open>The field \<open>v\<close> is a finite number, not a bool, of exact value \<open>x\<close>.\<close>

definition number_of :: "pyobj \<Rightarrow> rat \<Rightarrow> bool" where
  "number_of v x \<longleftrightarrow> float_value v \<noteq> None \<and> x = num_val v"

lemma cfg_err_iff [simp]: "cfg_err b = Inr x \<longleftrightarrow> \<not> b"
  by (simp add: cfg_err_def)

lemma fl_int_pos: "0 < fl (of_int n) \<longleftrightarrow> 0 < n" and fl_int_neg: "fl (of_int n) < 0 \<longleftrightarrow> n < 0"
proof -
  have p: "1 \<le> k \<Longrightarrow> 1 \<le> fl (of_int k)" for k
    using fl_mono [of 1 "of_int k"] by simp
  show "0 < fl (of_int n) \<longleftrightarrow> 0 < n"
    using p [of n] fl_mono [of "of_int n" 0] by (cases "0 < n") auto
  show "fl (of_int n) < 0 \<longleftrightarrow> n < 0"
    using p [of "- n"] fl_mono [of 0 "of_int n"] by (cases "n < 0") auto
qed

lemma assert_positive_iff: "assert_finite_positive v = Inr x \<longleftrightarrow> float_value v \<noteq> None \<and> 0 < num_val v"
proof (cases v)
  case (PInt n)
  then show ?thesis
    using fl_int_pos [of n] by (auto simp: assert_finite_positive_def float_of_int_def Let_def not_le)
next
  case (PFloat f)
  then show ?thesis by (cases f) (auto simp: assert_finite_positive_def not_le)
qed (simp_all add: assert_finite_positive_def)

lemma assert_nonnegative_iff:
  "assert_finite_nonnegative v = Inr x \<longleftrightarrow> float_value v \<noteq> None \<and> 0 \<le> num_val v"
proof (cases v)
  case (PInt n)
  then show ?thesis
    using fl_int_neg [of n] by (auto simp: assert_finite_nonnegative_def float_of_int_def Let_def not_less)
next
  case (PFloat f)
  then show ?thesis by (cases f) (auto simp: assert_finite_nonnegative_def not_less)
qed (simp_all add: assert_finite_nonnegative_def)

lemma require_int_iff: "require_int v = Inr n \<longleftrightarrow> v = PInt n"
  by (cases v) (auto simp: require_int_def)

lemmas config_iff = assert_positive_iff assert_nonnegative_iff require_int_iff

text \<open>The invariant of the write helper.\<close>

definition write_inv :: "('x \<Rightarrow> bool) \<Rightarrow> ('a, 'x) write_state \<Rightarrow> bool" where
  "write_inv allow s \<longleftrightarrow>
     (\<forall>r. ws_exit s = Some r \<longrightarrow> (\<exists>w. ws_worker s = Some w \<and> r = classify_write allow (ws_cancelled s) w))"

inductive_cases write_stepE: "write_step allow s t"

interpretation write_helper:
  inductive_invariant "\<lambda>s. s = start_write b now \<and> 0 < remaining b now" "write_step allow" "write_inv allow"
  for b now allow
  by unfold_locales (auto simp: write_inv_def start_write_def elim!: write_stepE)

section \<open>Properties\<close>


definition write_example :: "(nat, nat) write_state" where
  "write_example = \<lparr>ws_worker = Some (WorkerRaised 7), ws_cancelled = True, ws_exit = Some (Inl CancelledError)\<rparr>"

lemma write_example_reachable:
  "reachable (\<lambda>s. s = start_write \<lparr>tb_deadline = 45, tb_reserve = 10\<rparr> 0
      \<and> 0 < remaining \<lparr>tb_deadline = 45, tb_reserve = 10\<rparr> 0) (write_step (\<lambda>x. x = 7)) write_example"
proof -
  let ?b = "\<lparr>tb_deadline = 45, tb_reserve = 10\<rparr> :: TurnBudget"
  let ?R = "reachable (\<lambda>s. s = start_write ?b 0 \<and> 0 < remaining ?b 0) (write_step (\<lambda>x. x = 7))
    :: (nat, nat) write_state \<Rightarrow> bool"
  have r: "0 < remaining ?b 0" by code_simp
  have s: "start_write ?b 0 = (\<lparr>ws_worker = None, ws_cancelled = False, ws_exit = None\<rparr> :: (nat, nat) write_state)"
    using r by (simp add: start_write_def)
  have "?R \<lparr>ws_worker = None, ws_cancelled = False, ws_exit = None\<rparr>"
    using r s by (intro reach_start) simp
  then have "?R \<lparr>ws_worker = None, ws_cancelled = True, ws_exit = None\<rparr>"
    by (rule reach_step)
       (use cancel_arrives [of "\<lparr>ws_worker = None, ws_cancelled = False, ws_exit = None\<rparr>" "\<lambda>x. x = 7"] in simp)
  then have "?R \<lparr>ws_worker = Some (WorkerRaised 7), ws_cancelled = True, ws_exit = None\<rparr>"
    by (rule reach_step)
       (use worker_ends [of "\<lparr>ws_worker = None, ws_cancelled = True, ws_exit = None\<rparr>" "\<lambda>x. x = 7" "WorkerRaised 7"] in simp)
  then show ?thesis
    unfolding write_example_def
    by (rule reach_step)
       (use helper_exits [of "\<lparr>ws_worker = Some (WorkerRaised 7), ws_cancelled = True, ws_exit = None\<rparr>"
            "WorkerRaised 7" "\<lambda>x. x = 7"] in \<open>simp add: classify_write_def\<close>)
qed


text \<open>\<open>TurnExecutionConfig\<close> is exactly its documented invariants: the constructor accepts its
  arguments if and only if every timeout is a finite number that is not a bool, the two counts are
  integers, and the values satisfy the ordering and the safety limits; it keeps them unchanged.\<close>

theorem exec_config_exact:
  "TurnExecutionConfig_init a = Inr c \<longleftrightarrow>
     number_of (xa_total_deadline a) (total_deadline c)
   \<and> number_of (xa_connect_timeout a) (connect_timeout c)
   \<and> number_of (xa_provider_attempt_timeout a) (provider_attempt_timeout c)
   \<and> number_of (xa_supabase_timeout a) (supabase_timeout c)
   \<and> number_of (xa_commit_reserve a) (commit_reserve c)
   \<and> number_of (xa_base_backoff a) (base_backoff c)
   \<and> number_of (xa_max_backoff a) (max_backoff c)
   \<and> number_of (xa_max_jitter a) (max_jitter c)
   \<and> xa_max_attempts a = PInt (max_attempts c)
   \<and> xa_frontend_timeout_ms a = PInt (frontend_timeout_ms c)
   \<and> valid_exec_config c" (is "?l \<longleftrightarrow> ?r")
proof
  assume ?l
  then show ?r
    unfolding TurnExecutionConfig_init_def Let_def
    by (elim rbind_InrE) (auto simp: config_iff number_of_def valid_exec_config_def)
next
  assume r: ?r
  obtain td ct pt st cr ma bb mb mj ft where c: "c = \<lparr>total_deadline = td, connect_timeout = ct,
      provider_attempt_timeout = pt, supabase_timeout = st, commit_reserve = cr, max_attempts = ma,
      base_backoff = bb, max_backoff = mb, max_jitter = mj, frontend_timeout_ms = ft\<rparr>"
    by (cases c) blast
  have p: "assert_finite_positive (xa_total_deadline a) = Inr ()"
    "assert_finite_positive (xa_connect_timeout a) = Inr ()"
    "assert_finite_positive (xa_provider_attempt_timeout a) = Inr ()"
    "assert_finite_positive (xa_supabase_timeout a) = Inr ()"
    "assert_finite_positive (xa_commit_reserve a) = Inr ()"
    "assert_finite_positive (xa_base_backoff a) = Inr ()"
    "assert_finite_positive (xa_max_backoff a) = Inr ()"
    "assert_finite_nonnegative (xa_max_jitter a) = Inr ()"
    "require_int (xa_max_attempts a) = Inr ma" "require_int (xa_frontend_timeout_ms a) = Inr ft"
    using r by (auto simp: config_iff number_of_def valid_exec_config_def c)
  have q: "num_val (xa_total_deadline a) = td" "num_val (xa_connect_timeout a) = ct"
    "num_val (xa_provider_attempt_timeout a) = pt" "num_val (xa_supabase_timeout a) = st"
    "num_val (xa_commit_reserve a) = cr" "num_val (xa_base_backoff a) = bb"
    "num_val (xa_max_backoff a) = mb" "num_val (xa_max_jitter a) = mj"
    using r by (simp_all add: number_of_def c)
  have v: "valid_exec_config c" using r by blast
  show ?l
    unfolding TurnExecutionConfig_init_def p q rbind.simps Let_def
    using v by (simp add: valid_exec_config_def c cfg_err_def)
qed

text \<open>The delay of a retry lies between the base and the cap: for every attempt below 1024 and
  any draw of the random source, jitter included, \<open>compute_backoff\<close> returns a float between \<open>base\<close> and
  \<open>cap\<close>, and from attempt 1024 on it raises \<open>OverflowError\<close>.\<close>

theorem compute_backoff_bounds:
  assumes "is_dbl base" "is_dbl cap" "0 < base" "base \<le> cap" "0 \<le> jitter" "0 \<le> random" "0 \<le> attempt"
  shows "(attempt < 1024 \<longrightarrow> (\<exists>d. compute_backoff attempt base cap jitter random = Inr d \<and> base \<le> d \<and> d \<le> cap))
    \<and> (1024 \<le> attempt \<longrightarrow> compute_backoff attempt base cap jitter random = Inl ConfigOverflowError)"
proof (intro conjI impI)
  have d: "fl base = base" "fl cap = cap" using assms(1,2) by (simp_all add: is_dbl_def)
  assume "attempt < 1024"
  then have p: "float_of_int (2 ^ nat attempt) = Some (2 ^ nat attempt)"
    using assms(7) by (intro float_of_int_pow2) auto
  define delay where "delay = min (fmul base (2 ^ nat attempt)) cap"
  define j where "j = fmul (fmul delay jitter) random"
  have "base \<le> base * 2 ^ nat attempt" using assms(3) by simp
  then have "base \<le> fmul base (2 ^ nat attempt)"
    unfolding fmul_def using b64.rnd_ge d(1) by blast
  then have bd: "base \<le> delay" and dc: "delay \<le> cap" using assms(4) by (auto simp: delay_def)
  have fd: "fl delay = delay" using d by (simp add: delay_def min_def fmul_def)
  have "0 \<le> j"
    unfolding j_def fmul_def using bd assms by (intro fl_nonneg mult_nonneg_nonneg) auto
  then have "delay \<le> fadd delay j" unfolding fadd_def by (rule b64.rnd_grow [OF fd])
  then have "base \<le> min (fadd delay j) cap" using bd assms(4) by simp
  moreover have "compute_backoff attempt base cap jitter random = Inr (min (fadd delay j) cap)"
    using assms(7) p by (simp add: compute_backoff_def delay_def j_def Let_def)
  ultimately show "\<exists>d. compute_backoff attempt base cap jitter random = Inr d \<and> base \<le> d \<and> d \<le> cap" by simp
next
  assume "1024 \<le> attempt"
  then have "(2::int) ^ 1024 \<le> 2 ^ nat attempt" by (intro power_increasing) auto
  then show "compute_backoff attempt base cap jitter random = Inl ConfigOverflowError"
    using float_of_int_overflow assms(7) by (simp add: compute_backoff_def)
qed

theorem compute_backoff_bounds_witness:
  "\<exists>d. compute_backoff 1 (1/4) (3/4) (fl (1/10)) (1/2) = Inr d \<and> 1/4 \<le> d \<and> d \<le> 3/4"
proof -
  have "is_dbl (1/4)" "is_dbl (3/4)" "0 \<le> fl (1/10)" by code_simp+
  then show ?thesis using compute_backoff_bounds [of "1/4" "3/4" "fl (1/10)" "1/2" 1] by simp
qed

text \<open>A read never eats into the commit reserve and leaks nothing.  \<open>run_blocking_read\<close> starts its
  operation only if more than the reserve is left, with a positive timeout of at most
  \<open>supabase_timeout\<close> and at most the time before the reserve; otherwise it raises \<open>turn_timeout\<close>
  without running it.  An exception of the operation comes out as itself only if it is allow-listed.\<close>

theorem blocking_read_safe:
  "(min (remaining_before_reserve b now) st \<le> 0 \<longrightarrow> run_blocking_read b now st allow op = Inl DeadlineExceeded)
   \<and> (0 < min (remaining_before_reserve b now) st \<longrightarrow>
        tb_reserve b < remaining b now
      \<and> (\<exists>t. 0 < t \<and> t \<le> st \<and> t \<le> remaining_before_reserve b now
           \<and> (run_blocking_read b now st allow op = Inr x \<longleftrightarrow> op t = ReadResult x)))
   \<and> (run_blocking_read b now st allow op = Inl (Raised e) \<longrightarrow> allow e)"
proof (intro conjI impI)
  show "run_blocking_read b now st allow op = Inl DeadlineExceeded"
    if "min (remaining_before_reserve b now) st \<le> 0"
    using that by (simp add: run_blocking_read_def)
next
  assume p: "0 < min (remaining_before_reserve b now) st"
  then have "0 < fl (remaining b now - tb_reserve b)"
    by (simp add: remaining_before_reserve_def fsub_def max_def split: if_splits)
  then show "tb_reserve b < remaining b now"
    using fl_mono [of "remaining b now - tb_reserve b" 0] by fastforce
  have c: "classify_read allow e = Inr x \<longleftrightarrow> e = ReadResult x" for e
    by (cases "(allow, e)" rule: classify_read.cases) auto
  show "\<exists>t. 0 < t \<and> t \<le> st \<and> t \<le> remaining_before_reserve b now
      \<and> (run_blocking_read b now st allow op = Inr x \<longleftrightarrow> op t = ReadResult x)"
    using p c by (intro exI [of _ "min (remaining_before_reserve b now) st"])
      (simp add: run_blocking_read_def Let_def not_le [symmetric] del: not_le)
next
  have c: "classify_read allow r = Inl (Raised e) \<Longrightarrow> allow e" for r
    by (cases "(allow, r)" rule: classify_read.cases) (auto simp: DeadlineExceeded_def split: if_splits)
  assume "run_blocking_read b now st allow op = Inl (Raised e)"
  then show "allow e"
    using c by (simp add: run_blocking_read_def Let_def DeadlineExceeded_def split: if_splits)
qed

theorem blocking_read_safe_witness:
  "tb_reserve \<lparr>tb_deadline = 45, tb_reserve = 10\<rparr> < remaining \<lparr>tb_deadline = 45, tb_reserve = 10\<rparr> 30"
proof -
  have "fl 15 = 15" "fl 5 = 5" using fl_small_int [of 15] fl_small_int [of 5] by simp_all
  then have "0 < min (remaining_before_reserve \<lparr>tb_deadline = 45, tb_reserve = 10\<rparr> 30) 5"
    by (simp add: remaining_before_reserve_def remaining_def fsub_def)
  then show ?thesis
    by (rule blocking_read_safe [THEN conjunct2, THEN conjunct1, rule_format, THEN conjunct1])
qed

end
