(* ===== verification/Transactional_Schema.thy ===== *)
theory Transactional_Schema
  imports Py_Text
begin

text \<open>
  \<open>backend/transactional_schema.py\<close>: the key lists of stored payloads, the canonical payload hash, deep
  freezing of JSON documents, and the records of the tables \<open>turn_requests\<close> and \<open>outbox_events\<close> with
  their conversions to and from rows.  The canonical JSON text and SHA-256 are parameters.
\<close>

section \<open>Mappings\<close>

text \<open>\<open>isinstance(v, Mapping)\<close>: a dict or a read-only view of one.\<close>

fun as_mapping :: "pyobj \<Rightarrow> (pyobj \<times> pyobj) list option" where
  "as_mapping (PDict d) = Some d"
| "as_mapping (PProxy d) = Some d"
| "as_mapping _ = None"

text \<open>\<open>isinstance(v, (list, tuple))\<close>.\<close>

fun as_sequence :: "pyobj \<Rightarrow> pyobj list option" where
  "as_sequence (PList xs) = Some xs"
| "as_sequence (PTuple xs) = Some xs"
| "as_sequence _ = None"

section \<open>Key lists\<close>

definition FORBIDDEN_PAYLOAD_KEYS :: "pystr list" where
  "FORBIDDEN_PAYLOAD_KEYS = map u [''prompt'', ''system_prompt'', ''meta_cognition'',
     ''internal_instructions'', ''message'', ''user_message'', ''assistant_message'', ''content'']"

definition REPLAY_PAYLOAD_ALLOWED_KEYS :: "pystr list" where
  "REPLAY_PAYLOAD_ALLOWED_KEYS = map u [''response'', ''emotion_state'', ''message_id'', ''request_id'', ''duration_ms'']"

definition OUTBOX_PAYLOAD_ALLOWED_KEYS :: "pystr list" where
  "OUTBOX_PAYLOAD_ALLOWED_KEYS =
     map u [''ref'', ''request_id'', ''turn_id'', ''message_id'', ''entity_id'', ''kind'', ''version'']"

section \<open>The canonical hash\<close>

datatype schema_exn = SchemaTypeError | SchemaUnicodeError | KeyError pystr

text \<open>
  \<open>canon\<close> is \<open>json.dumps\<close> with sorted keys and compact separators; \<open>None\<close> is its \<open>TypeError\<close> or
  \<open>ValueError\<close>.
\<close>

definition canonical_payload_hash ::
    "(pyobj \<Rightarrow> pystr option) \<Rightarrow> (nat list \<Rightarrow> pystr) \<Rightarrow> pyobj \<Rightarrow> schema_exn + pystr" where
  "canonical_payload_hash canon sha256 payload = (case as_mapping payload of
     None \<Rightarrow> Inl SchemaTypeError
   | Some d \<Rightarrow> (case canon (PDict d) of
       None \<Rightarrow> Inl SchemaTypeError
     | Some canonical \<Rightarrow> (case utf8_encode canonical of
         None \<Rightarrow> Inl SchemaUnicodeError
       | Some b \<Rightarrow> Inr (sha256 b))))"

section \<open>Deep freezing\<close>

lemma size_value [termination_simp]: "(k, v) \<in> set d \<Longrightarrow> size v < Suc (size_list (size_prod size size) d)"
  by (induction d) auto

fun deep_freeze :: "pyobj \<Rightarrow> pyobj" where
  "deep_freeze (PDict d) = PProxy (map (\<lambda>(k, v). (k, deep_freeze v)) d)"
| "deep_freeze (PProxy d) = PProxy (map (\<lambda>(k, v). (k, deep_freeze v)) d)"
| "deep_freeze (PList xs) = PTuple (map deep_freeze xs)"
| "deep_freeze (PTuple xs) = PTuple (map deep_freeze xs)"
| "deep_freeze v = v"

fun deep_unfreeze :: "pyobj \<Rightarrow> pyobj" where
  "deep_unfreeze (PProxy d) = PDict (map (\<lambda>(k, v). (k, deep_unfreeze v)) d)"
| "deep_unfreeze (PTuple xs) = PList (map deep_unfreeze xs)"
| "deep_unfreeze v = v"

text \<open>A plain JSON document: no read-only views and no tuples at any depth.\<close>

fun plain_json :: "pyobj \<Rightarrow> bool" where
  "plain_json (PDict d) \<longleftrightarrow> list_all (\<lambda>(k, v). plain_json v) d"
| "plain_json (PList xs) \<longleftrightarrow> list_all plain_json xs"
| "plain_json (PProxy d) \<longleftrightarrow> False"
| "plain_json (PTuple xs) \<longleftrightarrow> False"
| "plain_json v \<longleftrightarrow> True"

lemma unfreeze_freeze: "plain_json v \<Longrightarrow> deep_unfreeze (deep_freeze v) = v"
  by (induction v rule: plain_json.induct) (auto simp: list_all_iff intro!: map_idI)

lemma freeze_unfreeze: "deep_freeze (deep_unfreeze v) = deep_freeze v"
  by (induction v rule: deep_unfreeze.induct) auto

lemma freeze_idem [simp]: "deep_freeze (deep_freeze v) = deep_freeze v"
  by (induction v rule: deep_freeze.induct) auto

lemma freeze_None_iff [simp]: "deep_freeze v = PNone \<longleftrightarrow> v = PNone" "deep_unfreeze v = PNone \<longleftrightarrow> v = PNone"
  by (cases v; simp)+

lemma as_mapping_freeze:
  "as_mapping (deep_freeze v) = map_option (map (\<lambda>(k, v). (k, deep_freeze v))) (as_mapping v)"
  by (cases v) auto

section \<open>Rows\<close>

text \<open>A row is a dict with string keys, in insertion order.\<close>

type_synonym row = "(pystr \<times> pyobj) list"

definition row_item :: "row \<Rightarrow> pystr \<Rightarrow> schema_exn + pyobj" where
  "row_item r k = (case map_of r k of None \<Rightarrow> Inl (KeyError k) | Some v \<Rightarrow> Inr v)"

definition row_get :: "row \<Rightarrow> pystr \<Rightarrow> pyobj \<Rightarrow> pyobj" where
  "row_get r k dflt = (case map_of r k of None \<Rightarrow> dflt | Some v \<Rightarrow> v)"

text \<open>\<open>del row[k]\<close> for each server-owned column that is \<open>None\<close>.\<close>

definition drop_none :: "pystr list \<Rightarrow> row \<Rightarrow> row" where
  "drop_none owned r = fold (\<lambda>k r. if map_of r k = Some PNone then AList.delete k r else r) owned r"

section \<open>Turn requests\<close>

record TurnRequestRecord =
  tq_user_id :: pyobj
  tq_request_id :: pyobj
  tq_payload_hash_sha256 :: pyobj
  tq_status :: pyobj
  tq_expected_revision :: pyobj
  tq_lease_owner :: pyobj
  tq_lease_expires_at :: pyobj
  tq_committed_revision :: pyobj
  tq_user_message_chat_log_id :: pyobj
  tq_assistant_message_chat_log_id :: pyobj
  tq_replay_payload :: pyobj
  tq_error_code :: pyobj
  tq_id :: pyobj
  tq_created_at :: pyobj
  tq_updated_at :: pyobj
  tq_completed_at :: pyobj

definition TurnRequestRecord_init :: "TurnRequestRecord \<Rightarrow> TurnRequestRecord" where
  "TurnRequestRecord_init r =
     (if tq_replay_payload r \<noteq> PNone then r\<lparr>tq_replay_payload := deep_freeze (tq_replay_payload r)\<rparr> else r)"

definition TurnRequestRecord_to_db_row :: "TurnRequestRecord \<Rightarrow> row" where
  "TurnRequestRecord_to_db_row r =
     [(u ''user_id'', tq_user_id r),
      (u ''request_id'', tq_request_id r),
      (u ''payload_hash_sha256'', tq_payload_hash_sha256 r),
      (u ''status'', tq_status r),
      (u ''expected_revision'', tq_expected_revision r),
      (u ''lease_owner'', tq_lease_owner r),
      (u ''lease_expires_at'', tq_lease_expires_at r),
      (u ''committed_revision'', tq_committed_revision r),
      (u ''user_message_chat_log_id'', tq_user_message_chat_log_id r),
      (u ''assistant_message_chat_log_id'', tq_assistant_message_chat_log_id r),
      (u ''replay_payload'', if tq_replay_payload r \<noteq> PNone then deep_unfreeze (tq_replay_payload r) else PNone),
      (u ''error_code'', tq_error_code r),
      (u ''id'', tq_id r),
      (u ''created_at'', tq_created_at r),
      (u ''updated_at'', tq_updated_at r),
      (u ''completed_at'', tq_completed_at r)]"

definition TurnRequestRecord_from_db_row :: "row \<Rightarrow> schema_exn + TurnRequestRecord" where
  "TurnRequestRecord_from_db_row w =
     rbind (row_item w (u ''user_id'')) (\<lambda>user_id.
     rbind (row_item w (u ''request_id'')) (\<lambda>request_id.
     rbind (row_item w (u ''payload_hash_sha256'')) (\<lambda>payload_hash.
     rbind (row_item w (u ''status'')) (\<lambda>status.
     Inr (TurnRequestRecord_init \<lparr>
       tq_user_id = user_id, tq_request_id = request_id, tq_payload_hash_sha256 = payload_hash,
       tq_status = status,
       tq_expected_revision = row_get w (u ''expected_revision'') (PInt 0),
       tq_lease_owner = row_get w (u ''lease_owner'') PNone,
       tq_lease_expires_at = row_get w (u ''lease_expires_at'') PNone,
       tq_committed_revision = row_get w (u ''committed_revision'') PNone,
       tq_user_message_chat_log_id = row_get w (u ''user_message_chat_log_id'') PNone,
       tq_assistant_message_chat_log_id = row_get w (u ''assistant_message_chat_log_id'') PNone,
       tq_replay_payload = row_get w (u ''replay_payload'') PNone,
       tq_error_code = row_get w (u ''error_code'') PNone,
       tq_id = row_get w (u ''id'') PNone,
       tq_created_at = row_get w (u ''created_at'') PNone,
       tq_updated_at = row_get w (u ''updated_at'') PNone,
       tq_completed_at = row_get w (u ''completed_at'') PNone\<rparr>)))))"

definition TURN_REQUEST_SERVER_OWNED :: "pystr list" where
  "TURN_REQUEST_SERVER_OWNED = map u [''id'', ''created_at'', ''updated_at'', ''completed_at'']"

definition TurnRequestRecord_to_insert_row :: "TurnRequestRecord \<Rightarrow> row" where
  "TurnRequestRecord_to_insert_row r = drop_none TURN_REQUEST_SERVER_OWNED (TurnRequestRecord_to_db_row r)"

section \<open>Outbox events\<close>

record OutboxEventRecord =
  ob_event_type :: pyobj
  ob_user_id :: pyobj
  ob_payload :: pyobj
  ob_status :: pyobj
  ob_idempotency_key :: pyobj
  ob_contract_version :: pyobj
  ob_attempts :: pyobj
  ob_turn_request_id :: pyobj
  ob_next_attempt_at :: pyobj
  ob_lease_owner :: pyobj
  ob_lease_expires_at :: pyobj
  ob_error_code :: pyobj
  ob_id :: pyobj
  ob_created_at :: pyobj
  ob_updated_at :: pyobj
  ob_processed_at :: pyobj
  ob_dead_lettered_at :: pyobj
  ob_retention_until :: pyobj

definition OutboxEventRecord_init :: "OutboxEventRecord \<Rightarrow> OutboxEventRecord" where
  "OutboxEventRecord_init r = r\<lparr>ob_payload := deep_freeze (ob_payload r)\<rparr>"

definition OutboxEventRecord_to_db_row :: "OutboxEventRecord \<Rightarrow> row" where
  "OutboxEventRecord_to_db_row r =
     [(u ''event_type'', ob_event_type r),
      (u ''user_id'', ob_user_id r),
      (u ''payload'', deep_unfreeze (ob_payload r)),
      (u ''status'', ob_status r),
      (u ''idempotency_key'', ob_idempotency_key r),
      (u ''contract_version'', ob_contract_version r),
      (u ''attempts'', ob_attempts r),
      (u ''turn_request_id'', ob_turn_request_id r),
      (u ''next_attempt_at'', ob_next_attempt_at r),
      (u ''lease_owner'', ob_lease_owner r),
      (u ''lease_expires_at'', ob_lease_expires_at r),
      (u ''error_code'', ob_error_code r),
      (u ''id'', ob_id r),
      (u ''created_at'', ob_created_at r),
      (u ''updated_at'', ob_updated_at r),
      (u ''processed_at'', ob_processed_at r),
      (u ''dead_lettered_at'', ob_dead_lettered_at r),
      (u ''retention_until'', ob_retention_until r)]"

definition OutboxEventRecord_from_db_row :: "row \<Rightarrow> schema_exn + OutboxEventRecord" where
  "OutboxEventRecord_from_db_row w =
     rbind (row_item w (u ''event_type'')) (\<lambda>event_type.
     rbind (row_item w (u ''user_id'')) (\<lambda>user_id.
     rbind (row_item w (u ''payload'')) (\<lambda>payload.
     rbind (row_item w (u ''status'')) (\<lambda>status.
     rbind (row_item w (u ''idempotency_key'')) (\<lambda>idempotency_key.
     Inr (OutboxEventRecord_init \<lparr>
       ob_event_type = event_type, ob_user_id = user_id, ob_payload = payload, ob_status = status,
       ob_idempotency_key = idempotency_key,
       ob_contract_version = row_get w (u ''contract_version'') (PInt 1),
       ob_attempts = row_get w (u ''attempts'') (PInt 0),
       ob_turn_request_id = row_get w (u ''turn_request_id'') PNone,
       ob_next_attempt_at = row_get w (u ''next_attempt_at'') PNone,
       ob_lease_owner = row_get w (u ''lease_owner'') PNone,
       ob_lease_expires_at = row_get w (u ''lease_expires_at'') PNone,
       ob_error_code = row_get w (u ''error_code'') PNone,
       ob_id = row_get w (u ''id'') PNone,
       ob_created_at = row_get w (u ''created_at'') PNone,
       ob_updated_at = row_get w (u ''updated_at'') PNone,
       ob_processed_at = row_get w (u ''processed_at'') PNone,
       ob_dead_lettered_at = row_get w (u ''dead_lettered_at'') PNone,
       ob_retention_until = row_get w (u ''retention_until'') PNone\<rparr>))))))"

definition OUTBOX_SERVER_OWNED :: "pystr list" where
  "OUTBOX_SERVER_OWNED =
     map u [''id'', ''created_at'', ''updated_at'', ''processed_at'', ''dead_lettered_at'', ''retention_until'']"

definition OutboxEventRecord_to_insert_row :: "OutboxEventRecord \<Rightarrow> row" where
  "OutboxEventRecord_to_insert_row r = drop_none OUTBOX_SERVER_OWNED (OutboxEventRecord_to_db_row r)"

section \<open>Rows give the records back\<close>

text \<open>A lookup that defaults to \<open>None\<close> does not notice that columns with \<open>None\<close> were dropped.\<close>

lemma row_get_drop_none: "row_get (drop_none owned r) k PNone = row_get r k PNone"
proof -
  have "row_get (fold (\<lambda>k r. if map_of r k = Some PNone then AList.delete k r else r) ks r) k PNone
      = row_get r k PNone" for ks r
  proof (induction ks arbitrary: r)
    case (Cons j ks)
    then show ?case by (simp add: row_get_def delete_conv')
  qed simp
  then show ?thesis by (simp add: drop_none_def)
qed

lemma map_of_drop_none: "k \<notin> set owned \<Longrightarrow> map_of (drop_none owned r) k = map_of r k"
proof -
  have "k \<notin> set ks \<Longrightarrow>
      map_of (fold (\<lambda>k r. if map_of r k = Some PNone then AList.delete k r else r) ks r) k = map_of r k" for ks r
    by (induction ks arbitrary: r) (simp_all add: delete_conv')
  then show "k \<notin> set owned \<Longrightarrow> map_of (drop_none owned r) k = map_of r k" by (simp add: drop_none_def)
qed

text \<open>\<open>from_db_row\<close> reads a row only through the lookups above.\<close>

lemma turn_request_row_cong:
  assumes "\<And>k. k \<notin> set TURN_REQUEST_SERVER_OWNED \<Longrightarrow> map_of v k = map_of w k"
    and "\<And>k. row_get v k PNone = row_get w k PNone"
  shows "TurnRequestRecord_from_db_row v = TurnRequestRecord_from_db_row w"
  using assms unfolding TurnRequestRecord_from_db_row_def row_item_def row_get_def [of _ _ "PInt 0"]
  by (simp add: TURN_REQUEST_SERVER_OWNED_def)

lemma outbox_row_cong:
  assumes "\<And>k. k \<notin> set OUTBOX_SERVER_OWNED \<Longrightarrow> map_of v k = map_of w k"
    and "\<And>k. row_get v k PNone = row_get w k PNone"
  shows "OutboxEventRecord_from_db_row v = OutboxEventRecord_from_db_row w"
  using assms unfolding OutboxEventRecord_from_db_row_def row_item_def row_get_def [of _ _ "PInt 0"]
    row_get_def [of _ _ "PInt 1"]
  by (simp add: OUTBOX_SERVER_OWNED_def)

lemma turn_request_insert:
  "TurnRequestRecord_from_db_row (TurnRequestRecord_to_insert_row r) = TurnRequestRecord_from_db_row (TurnRequestRecord_to_db_row r)"
  unfolding TurnRequestRecord_to_insert_row_def
  by (rule turn_request_row_cong) (rule map_of_drop_none, assumption, rule row_get_drop_none)

lemma outbox_insert:
  "OutboxEventRecord_from_db_row (OutboxEventRecord_to_insert_row r) = OutboxEventRecord_from_db_row (OutboxEventRecord_to_db_row r)"
  unfolding OutboxEventRecord_to_insert_row_def
  by (rule outbox_row_cong) (rule map_of_drop_none, assumption, rule row_get_drop_none)

lemma turn_request_roundtrip:
  "TurnRequestRecord_from_db_row (TurnRequestRecord_to_db_row (TurnRequestRecord_init r)) = Inr (TurnRequestRecord_init r)"
  by (cases r) (simp add: TurnRequestRecord_from_db_row_def TurnRequestRecord_to_db_row_def
      TurnRequestRecord_init_def row_item_def row_get_def freeze_unfreeze)

lemma outbox_roundtrip:
  "OutboxEventRecord_from_db_row (OutboxEventRecord_to_db_row (OutboxEventRecord_init r)) = Inr (OutboxEventRecord_init r)"
  by (cases r) (simp add: OutboxEventRecord_from_db_row_def OutboxEventRecord_to_db_row_def
      OutboxEventRecord_init_def row_item_def row_get_def freeze_unfreeze)

section \<open>Properties\<close>

text \<open>A record of either table is read back from the row it was written to, and from the row it is
  inserted with, where the server-owned columns that are \<open>None\<close> have been dropped; and a plain JSON payload
  comes out of its record as it went in.\<close>

theorem schema_rows_roundtrip:
  "TurnRequestRecord_from_db_row (TurnRequestRecord_to_db_row (TurnRequestRecord_init r)) = Inr (TurnRequestRecord_init r)
   \<and> TurnRequestRecord_from_db_row (TurnRequestRecord_to_insert_row (TurnRequestRecord_init r)) = Inr (TurnRequestRecord_init r)
   \<and> OutboxEventRecord_from_db_row (OutboxEventRecord_to_db_row (OutboxEventRecord_init e)) = Inr (OutboxEventRecord_init e)
   \<and> OutboxEventRecord_from_db_row (OutboxEventRecord_to_insert_row (OutboxEventRecord_init e)) = Inr (OutboxEventRecord_init e)
   \<and> (plain_json (ob_payload e) \<longrightarrow>
        map_of (OutboxEventRecord_to_db_row (OutboxEventRecord_init e)) (u ''payload'') = Some (ob_payload e))"
  unfolding turn_request_insert outbox_insert turn_request_roundtrip outbox_roundtrip
  by (simp add: OutboxEventRecord_to_db_row_def OutboxEventRecord_init_def unfreeze_freeze)

theorem schema_rows_roundtrip_witness:
  "map_of (OutboxEventRecord_to_db_row (OutboxEventRecord_init
     \<lparr>ob_event_type = PStr (u ''archival''), ob_user_id = PStr (u ''ana''),
      ob_payload = PDict [(PStr (u ''kind''), PList [PInt 1])], ob_status = PStr (u ''pending''),
      ob_idempotency_key = PStr (u ''k''), ob_contract_version = PInt 1, ob_attempts = PInt 0,
      ob_turn_request_id = PNone, ob_next_attempt_at = PNone, ob_lease_owner = PNone, ob_lease_expires_at = PNone, ob_error_code = PNone, ob_id = PNone, ob_created_at = PNone, ob_updated_at = PNone, ob_processed_at = PNone, ob_dead_lettered_at = PNone, ob_retention_until = PNone\<rparr>))
     (u ''payload'') = Some (PDict [(PStr (u ''kind''), PList [PInt 1])])"
  using schema_rows_roundtrip [of undefined "\<lparr>ob_event_type = PStr (u ''archival''), ob_user_id = PStr (u ''ana''),
      ob_payload = PDict [(PStr (u ''kind''), PList [PInt 1])], ob_status = PStr (u ''pending''),
      ob_idempotency_key = PStr (u ''k''), ob_contract_version = PInt 1, ob_attempts = PInt 0,
      ob_turn_request_id = PNone, ob_next_attempt_at = PNone, ob_lease_owner = PNone, ob_lease_expires_at = PNone, ob_error_code = PNone, ob_id = PNone, ob_created_at = PNone, ob_updated_at = PNone, ob_processed_at = PNone, ob_dead_lettered_at = PNone, ob_retention_until = PNone\<rparr>"]
  by simp

end
