(* ===== verification/Turn_Commit.thy ===== *)
theory Turn_Commit
  imports Transactional_Schema Admission_Contracts Emotional_Models Relationship
begin

text \<open>
  \<open>backend/atomic_turn_commit.py\<close>: validation of everything that is sent to the database procedure
  \<open>commit_turn\<close>, the parameters of the call, and the strict parsing of its result.  An exception carries its
  code; the texts of validation messages are omitted.  Parameters: \<open>json.dumps\<close> (\<open>dumps\<close>), its canonical
  form (\<open>canon\<close>), SHA-256, and the remote procedure call, a function on the state of the outside world.
\<close>

section \<open>Constants and exceptions\<close>

definition MAX_REPLAY_PAYLOAD_BYTES :: nat where "MAX_REPLAY_PAYLOAD_BYTES = 8192"
definition MAX_OUTBOX_PAYLOAD_BYTES :: nat where "MAX_OUTBOX_PAYLOAD_BYTES = 8192"

definition SNAPSHOT_FORBIDDEN_KEYS :: "pystr list" where
  "SNAPSHOT_FORBIDDEN_KEYS = FORBIDDEN_PAYLOAD_KEYS @ map u [''user_id'', ''bond_label'']"

definition EMOTIONAL_SNAPSHOT_FIELDS :: "pystr list" where
  "EMOTIONAL_SNAPSHOT_FIELDS = map u [''schema_version'', ''pleasure'', ''arousal'', ''dominance'', ''libido'',
     ''aggression'', ''connection'', ''energy'', ''tension'', ''coping_mode'', ''timestamp'']"

definition RELATIONSHIP_SNAPSHOT_FIELDS :: "pystr list" where
  "RELATIONSHIP_SNAPSHOT_FIELDS =
     map u [''schema_version'', ''trust'', ''affection'', ''tension'', ''triggers'', ''timestamp'']"

definition CONFLICT_CODES :: "pystr list" where
  "CONFLICT_CODES = map u [''revision_mismatch'', ''request_payload_conflict'', ''request_in_progress'', ''lease_conflict'']"

record conflict =
  cf_code :: pystr
  cf_message :: pystr
  cf_expected_revision :: int
  cf_actual_revision :: "int option"
  cf_request_id :: "pystr option"

datatype commit_exn =
    ConflictError conflict
  | ValidationError pystr
  | PersistenceError pystr
  | CommitUnicodeError
  | CommitTypeError

definition database_error :: commit_exn where
  "database_error = PersistenceError (u ''database_error'')"

definition invalid :: "bool \<Rightarrow> string \<Rightarrow> commit_exn + unit" where
  "invalid bad code = guard (\<not> bad) (ValidationError (u code))"

section \<open>Character classes\<close>

text \<open>\<open>re.fullmatch\<close> of \<open>[A-Za-z0-9_.:-]{1,n}\<close> and of \<open>[a-z0-9_]{1,64}\<close>.\<close>

definition key_char :: "nat \<Rightarrow> bool" where
  "key_char c \<longleftrightarrow> 65 \<le> c \<and> c \<le> 90 \<or> 97 \<le> c \<and> c \<le> 122 \<or> 48 \<le> c \<and> c \<le> 57 \<or> c \<in> {95, 46, 58, 45}"

definition key_match :: "nat \<Rightarrow> pystr \<Rightarrow> bool" where
  "key_match n s \<longleftrightarrow> 1 \<le> length s \<and> length s \<le> n \<and> list_all key_char s"

definition code_char :: "nat \<Rightarrow> bool" where
  "code_char c \<longleftrightarrow> 97 \<le> c \<and> c \<le> 122 \<or> 48 \<le> c \<and> c \<le> 57 \<or> c = 95"

definition code_match :: "pystr \<Rightarrow> bool" where
  "code_match s \<longleftrightarrow> 1 \<le> length s \<and> length s \<le> 64 \<and> list_all code_char s"

text \<open>
  \<open>_UUID_RE.match\<close>: the pattern ends in a dollar, which also matches before a newline at the end of
  the string.
\<close>

definition uuid_match :: "pystr \<Rightarrow> bool" where
  "uuid_match s \<longleftrightarrow> lower_uuid_text s \<or> s \<noteq> [] \<and> last s = 10 \<and> lower_uuid_text (butlast s)"

fun is_valid_uuid :: "pyobj \<Rightarrow> bool" where
  "is_valid_uuid (PStr s) = uuid_match s"
| "is_valid_uuid _ = False"

fun is_positive_int :: "pyobj \<Rightarrow> bool" where
  "is_positive_int (PInt n) = (n > 0)"
| "is_positive_int _ = False"

fun has_forbidden :: "pystr list \<Rightarrow> pyobj \<Rightarrow> bool" where
  "has_forbidden fb (PDict d) = list_ex (\<lambda>(k, v). k \<in> PStr ` set fb \<or> has_forbidden fb v) d"
| "has_forbidden fb (PProxy d) = list_ex (\<lambda>(k, v). k \<in> PStr ` set fb \<or> has_forbidden fb v) d"
| "has_forbidden fb (PList xs) = list_ex (has_forbidden fb) xs"
| "has_forbidden fb (PTuple xs) = list_ex (has_forbidden fb) xs"
| "has_forbidden fb _ = False"

section \<open>Committed turns\<close>

record CommittedOutboxRef =
  or_id :: pystr
  or_event_type :: pystr
  or_idempotency_key :: pystr
  or_turn_request_id :: pystr
  or_contract_version :: int

record CommittedTurn =
  ct_user_id :: pystr
  ct_request_id :: pystr
  ct_committed_revision :: int
  ct_user_message_id :: pystr
  ct_assistant_message_id :: pystr
  ct_replay_payload :: pyobj
  ct_outbox_events :: "CommittedOutboxRef list"
  ct_created_at :: pystr
  ct_completed_at :: pystr

definition CommittedTurn_init :: "CommittedTurn \<Rightarrow> CommittedTurn" where
  "CommittedTurn_init t = t\<lparr>ct_replay_payload := deep_freeze (ct_replay_payload t)\<rparr>"

definition outbox_ref_row :: "CommittedOutboxRef \<Rightarrow> pyobj" where
  "outbox_ref_row r = PDict
     [(PStr (u ''id''), PStr (or_id r)), (PStr (u ''event_type''), PStr (or_event_type r)),
      (PStr (u ''idempotency_key''), PStr (or_idempotency_key r)),
      (PStr (u ''turn_request_id''), PStr (or_turn_request_id r)),
      (PStr (u ''contract_version''), PInt (or_contract_version r))]"

definition CommittedTurn_to_db_row :: "CommittedTurn \<Rightarrow> pyobj" where
  "CommittedTurn_to_db_row t = PDict
     [(PStr (u ''user_id''), PStr (ct_user_id t)), (PStr (u ''request_id''), PStr (ct_request_id t)),
      (PStr (u ''committed_revision''), PInt (ct_committed_revision t)),
      (PStr (u ''user_message_id''), PStr (ct_user_message_id t)),
      (PStr (u ''assistant_message_id''), PStr (ct_assistant_message_id t)),
      (PStr (u ''replay_payload''), deep_unfreeze (ct_replay_payload t)),
      (PStr (u ''outbox_events''), PList (map outbox_ref_row (ct_outbox_events t))),
      (PStr (u ''created_at''), PStr (ct_created_at t)), (PStr (u ''completed_at''), PStr (ct_completed_at t))]"

section \<open>Field validators\<close>

definition validate_uuid :: "pyobj \<Rightarrow> string \<Rightarrow> commit_exn + unit" where
  "validate_uuid v code = invalid (\<not> is_valid_uuid v) code"

text \<open>The size check shared by the three payload validators.\<close>

definition check_size :: "(pyobj \<Rightarrow> pystr option) \<Rightarrow> pyobj \<Rightarrow> nat \<Rightarrow> string \<Rightarrow> commit_exn + unit" where
  "check_size dumps payload limit code = (case dumps payload of
     None \<Rightarrow> Inl (ValidationError (u code))
   | Some serialized \<Rightarrow> (case utf8_encode serialized of
       None \<Rightarrow> Inl CommitUnicodeError
     | Some b \<Rightarrow> invalid (length b > limit) code))"

text \<open>The nested function \<open>bounded\<close>; its field is known to be present.\<close>

definition finite_number :: "pyobj \<Rightarrow> bool" where
  "finite_number v \<longleftrightarrow> \<not> is_bool v \<and> is_number v \<and> (case py_float v of None \<Rightarrow> False | Some f \<Rightarrow> isfinite f)"

definition bounded :: "(pyobj \<times> pyobj) list \<Rightarrow> string \<Rightarrow> string \<Rightarrow> rat \<Rightarrow> rat \<Rightarrow> commit_exn + unit" where
  "bounded d code name low high =
     (let v = dict_get d (u name) in
      invalid (\<not> finite_number v \<or> num_val v < low \<or> num_val v > high) code)"

fun bounded_all :: "(pyobj \<times> pyobj) list \<Rightarrow> string \<Rightarrow> string list \<Rightarrow> rat \<Rightarrow> rat \<Rightarrow> commit_exn + unit" where
  "bounded_all d code [] low high = Inr ()"
| "bounded_all d code (n # ns) low high = rbind (bounded d code n low high) (\<lambda>_. bounded_all d code ns low high)"

datatype snapshot_kind = EmotionalKind | RelationshipKind

definition kind_code :: "snapshot_kind \<Rightarrow> string" where
  "kind_code k = (case k of EmotionalKind \<Rightarrow> ''invalid_emotional_state'' | RelationshipKind \<Rightarrow> ''invalid_relationship_state'')"

fun trigger_ok :: "pyobj \<Rightarrow> bool" where
  "trigger_ok (PStr t) \<longleftrightarrow> t = strip t \<and> t \<noteq> [] \<and> length t \<le> 128"
| "trigger_ok _ \<longleftrightarrow> False"

definition validate_snapshot_triggers :: "pyobj \<Rightarrow> string \<Rightarrow> commit_exn + unit" where
  "validate_snapshot_triggers v code = (case as_sequence v of
     None \<Rightarrow> Inl (ValidationError (u code))
   | Some triggers \<Rightarrow>
       rbind (invalid (length triggers > 32) code) (\<lambda>_.
       rbind (invalid (\<not> list_all trigger_ok triggers) code) (\<lambda>_.
       invalid (\<not> distinct triggers) code)))"

definition validate_snapshot_payload ::
    "(pyobj \<Rightarrow> pystr option) \<Rightarrow> pyobj \<Rightarrow> snapshot_kind \<Rightarrow> commit_exn + unit" where
  "validate_snapshot_payload dumps payload kind =
     (let code = kind_code kind in
      if payload = PNone then Inr ()
      else case as_mapping payload of
        None \<Rightarrow> Inl (ValidationError (u code))
      | Some d \<Rightarrow>
          rbind (invalid (\<not> has_key d (u ''schema_version'')) code) (\<lambda>_.
          rbind (invalid (dict_get d (u ''schema_version'') \<noteq> PInt 1) code) (\<lambda>_.
          rbind (invalid (has_forbidden SNAPSHOT_FORBIDDEN_KEYS payload) code) (\<lambda>_.
          let expected = (case kind of EmotionalKind \<Rightarrow> EMOTIONAL_SNAPSHOT_FIELDS
                                     | RelationshipKind \<Rightarrow> RELATIONSHIP_SNAPSHOT_FIELDS) in
          rbind (invalid (fst ` set d \<noteq> PStr ` set expected) code) (\<lambda>_.
          rbind (case kind of
                   EmotionalKind \<Rightarrow>
                     rbind (bounded_all d code [''pleasure'', ''arousal'', ''dominance''] (-1) 1) (\<lambda>_.
                     rbind (bounded_all d code [''libido'', ''aggression'', ''connection'', ''energy'', ''tension''] 0 1) (\<lambda>_.
                     invalid (dict_get d (u ''coping_mode'')
                        \<notin> PStr ` set (map u [''HEALTHY'', ''DEFENSIVE'', ''DISSOCIATED'', ''MANIC''])) code))
                 | RelationshipKind \<Rightarrow>
                     rbind (bounded_all d code [''trust'', ''affection'', ''tension''] 0 1) (\<lambda>_.
                     validate_snapshot_triggers (dict_get d (u ''triggers'')) code)) (\<lambda>_.
          let timestamp = dict_get d (u ''timestamp'') in
          rbind (invalid (\<not> finite_number timestamp \<or> num_val timestamp \<le> 0) code) (\<lambda>_.
          check_size dumps payload MAX_REPLAY_PAYLOAD_BYTES code)))))))"

fun validate_idempotency_key :: "pyobj \<Rightarrow> commit_exn + unit" where
  "validate_idempotency_key (PStr s) = invalid (\<not> key_match 128 s) ''invalid_idempotency_key''"
| "validate_idempotency_key _ = Inl (ValidationError (u ''invalid_idempotency_key''))"

fun validate_lease_owner :: "pyobj \<Rightarrow> commit_exn + unit" where
  "validate_lease_owner PNone = Inr ()"
| "validate_lease_owner (PStr s) = invalid (\<not> key_match 64 s) ''invalid_lease_owner''"
| "validate_lease_owner _ = Inl (ValidationError (u ''invalid_lease_owner''))"

fun validate_error_code :: "pyobj \<Rightarrow> commit_exn + unit" where
  "validate_error_code PNone = Inr ()"
| "validate_error_code (PStr s) = invalid (\<not> code_match s) ''invalid_error_code''"
| "validate_error_code _ = Inl (ValidationError (u ''invalid_error_code''))"

text \<open>The value contract of one entry of an outbox payload.\<close>

definition outbox_entry_ok :: "pyobj \<times> pyobj \<Rightarrow> bool" where
  "outbox_entry_ok e =
     (if fst e = PStr (u ''version'') then (case snd e of PInt n \<Rightarrow> 0 < n \<and> n \<le> 1000 | _ \<Rightarrow> False)
      else (case snd e of PStr s \<Rightarrow> key_match 128 s | _ \<Rightarrow> False))"

definition validate_outbox_event_payload ::
    "(pyobj \<Rightarrow> pystr option) \<Rightarrow> pyobj \<Rightarrow> (pyobj \<times> pyobj) list \<Rightarrow> commit_exn + unit" where
  "validate_outbox_event_payload dumps payload d =
     rbind (invalid (unknown_keys d OUTBOX_PAYLOAD_ALLOWED_KEYS \<noteq> []) ''invalid_outbox_events'') (\<lambda>_.
     rbind (invalid (has_forbidden FORBIDDEN_PAYLOAD_KEYS payload) ''invalid_outbox_events'') (\<lambda>_.
     rbind (check_size dumps payload MAX_OUTBOX_PAYLOAD_BYTES ''invalid_outbox_events'') (\<lambda>_.
     invalid (\<not> list_all outbox_entry_ok d) ''invalid_outbox_events'')))"

definition validate_replay_payload ::
    "(pyobj \<Rightarrow> pystr option) \<Rightarrow> pyobj \<Rightarrow> pyobj option \<Rightarrow> commit_exn + unit" where
  "validate_replay_payload dumps payload expected_request_id = (case as_mapping payload of
     None \<Rightarrow> Inl (ValidationError (u ''invalid_replay_payload''))
   | Some d \<Rightarrow>
       rbind (invalid (has_forbidden FORBIDDEN_PAYLOAD_KEYS payload) ''invalid_replay_payload'') (\<lambda>_.
       rbind (invalid (unknown_keys d REPLAY_PAYLOAD_ALLOWED_KEYS \<noteq> []) ''invalid_replay_payload'') (\<lambda>_.
       rbind (invalid (\<not> is_str (dict_get d (u ''response''))) ''invalid_replay_payload'') (\<lambda>_.
       rbind (invalid (\<not> is_valid_uuid (dict_get d (u ''message_id''))) ''invalid_replay_payload'') (\<lambda>_.
       rbind (invalid (has_key d (u ''request_id'')
                \<and> (\<not> is_valid_uuid (dict_get d (u ''request_id''))
                   \<or> expected_request_id \<noteq> None \<and> Some (dict_get d (u ''request_id'')) \<noteq> expected_request_id))
                ''invalid_replay_payload'') (\<lambda>_.
       check_size dumps payload MAX_REPLAY_PAYLOAD_BYTES ''invalid_replay_payload''))))))"

section \<open>The input of a commit\<close>

record commit_args =
  ca_user_id :: pyobj
  ca_request_id :: pyobj
  ca_expected_revision :: pyobj
  ca_user_message :: pyobj
  ca_assistant_message :: pyobj
  ca_emotional_state :: pyobj
  ca_relationship_state :: pyobj
  ca_public_response :: pyobj
  ca_outbox_events :: pyobj
  ca_replay_payload :: pyobj

fun nonempty_str :: "pyobj \<Rightarrow> bool" where
  "nonempty_str (PStr s) \<longleftrightarrow> s \<noteq> []"
| "nonempty_str _ \<longleftrightarrow> False"

fun nonneg_int :: "pyobj \<Rightarrow> bool" where
  "nonneg_int (PInt n) \<longleftrightarrow> 0 \<le> n"
| "nonneg_int _ \<longleftrightarrow> False"

fun event_type_ok :: "pyobj \<Rightarrow> bool" where
  "event_type_ok (PStr s) \<longleftrightarrow> code_match s"
| "event_type_ok _ \<longleftrightarrow> False"

definition validate_outbox_event :: "(pyobj \<Rightarrow> pystr option) \<Rightarrow> pyobj \<Rightarrow> commit_exn + unit" where
  "validate_outbox_event dumps event = (case as_sequence event of
     Some [event_type, payload, idempotency_key] \<Rightarrow>
       rbind (invalid (\<not> event_type_ok event_type) ''invalid_outbox_events'') (\<lambda>_.
       (case as_mapping payload of
          None \<Rightarrow> Inl (ValidationError (u ''invalid_outbox_events''))
        | Some d \<Rightarrow>
            rbind (validate_outbox_event_payload dumps payload d) (\<lambda>_.
            validate_idempotency_key idempotency_key)))
   | _ \<Rightarrow> Inl (ValidationError (u ''invalid_outbox_events'')))"

fun validate_outbox_events :: "(pyobj \<Rightarrow> pystr option) \<Rightarrow> pyobj list \<Rightarrow> commit_exn + unit" where
  "validate_outbox_events dumps [] = Inr ()"
| "validate_outbox_events dumps (e # es) =
     rbind (validate_outbox_event dumps e) (\<lambda>_. validate_outbox_events dumps es)"

fun as_list :: "pyobj \<Rightarrow> pyobj list option" where
  "as_list (PList xs) = Some xs"
| "as_list _ = None"

definition mapping_get :: "pyobj \<Rightarrow> pystr \<Rightarrow> pyobj" where
  "mapping_get v k = (case as_mapping v of None \<Rightarrow> PNone | Some d \<Rightarrow> dict_get d k)"

definition validate_atomic_commit_input :: "(pyobj \<Rightarrow> pystr option) \<Rightarrow> commit_args \<Rightarrow> commit_exn + unit" where
  "validate_atomic_commit_input dumps a =
     rbind (invalid (\<not> nonempty_str (ca_user_id a)) ''invalid_user_id'') (\<lambda>_.
     rbind (validate_uuid (ca_request_id a) ''invalid_request_id'') (\<lambda>_.
     rbind (invalid (\<not> nonneg_int (ca_expected_revision a)) ''invalid_expected_revision'') (\<lambda>_.
     rbind (invalid (\<not> is_str (ca_user_message a)) ''invalid_user_message'') (\<lambda>_.
     rbind (invalid (\<not> is_str (ca_assistant_message a)) ''invalid_assistant_message'') (\<lambda>_.
     rbind (validate_snapshot_payload dumps (ca_emotional_state a) EmotionalKind) (\<lambda>_.
     rbind (validate_snapshot_payload dumps (ca_relationship_state a) RelationshipKind) (\<lambda>_.
     rbind (invalid (\<not> is_str (ca_public_response a)) ''invalid_public_response'') (\<lambda>_.
     (case as_list (ca_outbox_events a) of
        None \<Rightarrow> Inl (ValidationError (u ''invalid_outbox_events''))
      | Some events \<Rightarrow>
          rbind (validate_outbox_events dumps events) (\<lambda>_.
          rbind (validate_replay_payload dumps (ca_replay_payload a) (Some (ca_request_id a))) (\<lambda>_.
          invalid (mapping_get (ca_replay_payload a) (u ''response'') \<noteq> ca_public_response a)
            ''invalid_public_response'')))))))))))"

section \<open>The parameters of the call\<close>

definition as_dict :: "pyobj \<Rightarrow> pyobj" where
  "as_dict v = (case as_mapping v of None \<Rightarrow> v | Some d \<Rightarrow> PDict d)"

definition event_row :: "(pyobj \<Rightarrow> pyobj) \<Rightarrow> pyobj \<Rightarrow> pyobj" where
  "event_row conv event = (case as_sequence event of
     Some [event_type, payload, idempotency_key] \<Rightarrow>
       PDict [(PStr (u ''event_type''), event_type), (PStr (u ''payload''), conv payload),
              (PStr (u ''idempotency_key''), idempotency_key)]
   | _ \<Rightarrow> PNone)"

definition event_rows :: "(pyobj \<Rightarrow> pyobj) \<Rightarrow> pyobj \<Rightarrow> pyobj" where
  "event_rows conv events = (case as_list events of None \<Rightarrow> PNone | Some es \<Rightarrow> PList (map (event_row conv) es))"

definition build_commit_turn_rpc_payload :: "commit_args \<Rightarrow> pystr \<Rightarrow> pyobj \<Rightarrow> row" where
  "build_commit_turn_rpc_payload a payload_hash_sha256 lease_owner =
     [(u ''p_authenticated_user_id'', ca_user_id a),
      (u ''p_request_id'', ca_request_id a),
      (u ''p_expected_revision'', ca_expected_revision a),
      (u ''p_user_message'', ca_user_message a),
      (u ''p_assistant_message'', ca_assistant_message a),
      (u ''p_payload_hash_sha256'', PStr payload_hash_sha256),
      (u ''p_emotional_state'', as_dict (ca_emotional_state a)),
      (u ''p_relationship_state'', as_dict (ca_relationship_state a)),
      (u ''p_public_response'', ca_public_response a),
      (u ''p_replay_payload'', as_dict (ca_replay_payload a)),
      (u ''p_outbox_events'', event_rows as_dict (ca_outbox_events a)),
      (u ''p_lease_owner'', lease_owner)]"

definition build_canonical_commit_payload :: "commit_args \<Rightarrow> pyobj" where
  "build_canonical_commit_payload a = PDict
     [(PStr (u ''authenticated_user_id''), ca_user_id a),
      (PStr (u ''request_id''), ca_request_id a),
      (PStr (u ''expected_revision''), ca_expected_revision a),
      (PStr (u ''user_message''), ca_user_message a),
      (PStr (u ''assistant_message''), ca_assistant_message a),
      (PStr (u ''emotional_state''), ca_emotional_state a),
      (PStr (u ''relationship_state''), ca_relationship_state a),
      (PStr (u ''public_response''), ca_public_response a),
      (PStr (u ''replay_payload''), ca_replay_payload a),
      (PStr (u ''outbox_events''), event_rows (\<lambda>p. p) (ca_outbox_events a))]"

section \<open>The result\<close>

definition SUCCESS_FIELDS :: "pystr list" where
  "SUCCESS_FIELDS = map u [''user_id'', ''request_id'', ''committed_revision'', ''user_message_id'',
     ''assistant_message_id'', ''replay_payload'', ''outbox_events'', ''created_at'', ''completed_at'']"

definition OUTBOX_REF_FIELDS :: "pystr list" where
  "OUTBOX_REF_FIELDS = map u [''id'', ''event_type'', ''idempotency_key'', ''turn_request_id'', ''contract_version'']"

fun int_of :: "pyobj \<Rightarrow> int option" where
  "int_of (PInt n) = Some n"
| "int_of _ = None"

fun str_of :: "pyobj \<Rightarrow> pystr option" where
  "str_of (PStr s) = Some s"
| "str_of _ = None"

text \<open>\<open>_parse_error_envelope\<close> always raises: this is the exception.\<close>

definition parse_error_envelope :: "pyobj \<Rightarrow> commit_exn" where
  "parse_error_envelope error_info = (case as_mapping error_info of
     None \<Rightarrow> ValidationError (u ''invalid_error_format'')
   | Some d \<Rightarrow> (case dict_get d (u ''code'') of
       PStr code \<Rightarrow>
         (let message = (case str_of (dict_get d (u ''message'')) of None \<Rightarrow> u ''internal error'' | Some m \<Rightarrow> m) in
          if code = [] then ValidationError (u ''invalid_error_format'')
          else if code \<in> set CONFLICT_CODES then
            ConflictError \<lparr>cf_code = code, cf_message = message,
              cf_expected_revision = (case int_of (dict_get d (u ''expected_revision'')) of None \<Rightarrow> 0 | Some n \<Rightarrow> n),
              cf_actual_revision = int_of (dict_get d (u ''actual_revision'')),
              cf_request_id = str_of (dict_get d (u ''request_id''))\<rparr>
          else if code = u ''validation_failed'' then ValidationError code
          else database_error)
     | _ \<Rightarrow> ValidationError (u ''invalid_error_format'')))"

definition parse_outbox_ref :: "pyobj \<Rightarrow> commit_exn + CommittedOutboxRef" where
  "parse_outbox_ref evt = (case as_mapping evt of
     None \<Rightarrow> Inl (ValidationError (u ''invalid_outbox_event''))
   | Some d \<Rightarrow>
       rbind (invalid (missing_keys d OUTBOX_REF_FIELDS \<noteq> []) ''invalid_outbox_event'') (\<lambda>_.
       rbind (invalid (unknown_keys d OUTBOX_REF_FIELDS \<noteq> []) ''invalid_outbox_event'') (\<lambda>_.
       rbind (invalid (\<not> is_valid_uuid (dict_get d (u ''id''))) ''invalid_outbox_event'') (\<lambda>_.
       rbind (invalid (\<not> event_type_ok (dict_get d (u ''event_type''))) ''invalid_outbox_event'') (\<lambda>_.
       rbind (validate_idempotency_key (dict_get d (u ''idempotency_key''))) (\<lambda>_.
       rbind (invalid (\<not> is_valid_uuid (dict_get d (u ''turn_request_id''))) ''invalid_outbox_event'') (\<lambda>_.
       rbind (invalid (\<not> is_positive_int (dict_get d (u ''contract_version''))) ''invalid_outbox_event'') (\<lambda>_.
       (case (str_of (dict_get d (u ''id'')), str_of (dict_get d (u ''event_type'')),
              str_of (dict_get d (u ''idempotency_key'')), str_of (dict_get d (u ''turn_request_id'')),
              int_of (dict_get d (u ''contract_version''))) of
          (Some i, Some t, Some k, Some r, Some v) \<Rightarrow>
            Inr \<lparr>or_id = i, or_event_type = t, or_idempotency_key = k, or_turn_request_id = r, or_contract_version = v\<rparr>
        | _ \<Rightarrow> Inl CommitTypeError)))))))))"

fun parse_outbox_refs :: "pyobj list \<Rightarrow> commit_exn + CommittedOutboxRef list" where
  "parse_outbox_refs [] = Inr []"
| "parse_outbox_refs (e # es) = rbind (parse_outbox_ref e) (\<lambda>r. rbind (parse_outbox_refs es) (\<lambda>rs. Inr (r # rs)))"

definition parse_success :: "(pyobj \<Rightarrow> pystr option) \<Rightarrow> (pyobj \<times> pyobj) list \<Rightarrow> commit_exn + CommittedTurn" where
  "parse_success dumps d =
     rbind (invalid (missing_keys d SUCCESS_FIELDS \<noteq> []) ''invalid_rpc_result'') (\<lambda>_.
     rbind (invalid (unknown_keys d SUCCESS_FIELDS \<noteq> []) ''invalid_rpc_result'') (\<lambda>_.
     let user_id = dict_get d (u ''user_id''); request_id = dict_get d (u ''request_id'');
         committed_revision = dict_get d (u ''committed_revision'');
         user_message_id = dict_get d (u ''user_message_id'');
         assistant_message_id = dict_get d (u ''assistant_message_id'');
         replay_payload = dict_get d (u ''replay_payload'');
         outbox_events_raw = dict_get d (u ''outbox_events'');
         created_at = dict_get d (u ''created_at''); completed_at = dict_get d (u ''completed_at'') in
     rbind (invalid (\<not> nonempty_str user_id) ''invalid_user_id'') (\<lambda>_.
     rbind (validate_uuid request_id ''invalid_request_id'') (\<lambda>_.
     rbind (invalid (\<not> nonneg_int committed_revision) ''invalid_committed_revision'') (\<lambda>_.
     rbind (invalid (\<not> is_str user_message_id \<or> user_message_id \<noteq> request_id) ''invalid_user_message_id'') (\<lambda>_.
     rbind (invalid (\<not> is_valid_uuid assistant_message_id) ''invalid_assistant_message_id'') (\<lambda>_.
     (case as_mapping replay_payload of
        None \<Rightarrow> Inl (ValidationError (u ''invalid_replay_payload''))
      | Some rp \<Rightarrow>
          rbind (validate_replay_payload dumps replay_payload (Some request_id)) (\<lambda>_.
          rbind (invalid (dict_get rp (u ''message_id'') \<noteq> assistant_message_id) ''invalid_assistant_message_id'') (\<lambda>_.
          (case as_list outbox_events_raw of
             None \<Rightarrow> Inl (ValidationError (u ''invalid_outbox_events''))
           | Some evs \<Rightarrow>
               rbind (parse_outbox_refs evs) (\<lambda>outbox_refs.
               rbind (invalid (\<not> nonempty_str created_at) ''invalid_created_at'') (\<lambda>_.
               rbind (invalid (\<not> nonempty_str completed_at) ''invalid_completed_at'') (\<lambda>_.
               (case (str_of user_id, str_of request_id, int_of committed_revision, str_of assistant_message_id,
                      str_of created_at, str_of completed_at) of
                  (Some us, Some rq, Some rv, Some am, Some cr, Some co) \<Rightarrow>
                    Inr (CommittedTurn_init \<lparr>ct_user_id = us, ct_request_id = rq, ct_committed_revision = rv,
                      ct_user_message_id = rq, ct_assistant_message_id = am, ct_replay_payload = PDict rp,
                      ct_outbox_events = outbox_refs, ct_created_at = cr, ct_completed_at = co\<rparr>)
                | _ \<Rightarrow> Inl CommitTypeError)))))))))))))))"

definition parse_commit_turn_result :: "(pyobj \<Rightarrow> pystr option) \<Rightarrow> pyobj \<Rightarrow> commit_exn + CommittedTurn" where
  "parse_commit_turn_result dumps result = (case as_mapping result of
     None \<Rightarrow> Inl (ValidationError (u ''invalid_rpc_result''))
   | Some d \<Rightarrow>
       if has_key d (u ''error'') then Inl (parse_error_envelope (dict_get d (u ''error'')))
       else parse_success dumps d)"

section \<open>The commit\<close>

text \<open>
  The procedure call takes its name, its parameters and the state of the outside world, and gives the
  result, or \<open>None\<close> for any exception of the client, with the new state.
\<close>

type_synonym 'w rpc = "pystr \<Rightarrow> row \<Rightarrow> 'w \<Rightarrow> pyobj option \<times> 'w"

fun hash_error :: "schema_exn \<Rightarrow> commit_exn" where
  "hash_error SchemaUnicodeError = CommitUnicodeError"
| "hash_error _ = CommitTypeError"

text \<open>What happens before the call: validation, then the hash and the parameters.\<close>

definition prepare_commit ::
    "(pyobj \<Rightarrow> pystr option) \<Rightarrow> (pyobj \<Rightarrow> pystr option) \<Rightarrow> (nat list \<Rightarrow> pystr) \<Rightarrow> commit_args \<Rightarrow> pyobj
     \<Rightarrow> commit_exn + row" where
  "prepare_commit dumps canon sha256 a lease_owner =
     rbind (validate_atomic_commit_input dumps a) (\<lambda>_.
     rbind (validate_lease_owner lease_owner) (\<lambda>_.
     rbind (with_error hash_error (canonical_payload_hash canon sha256 (build_canonical_commit_payload a)))
       (\<lambda>payload_hash_sha256.
     Inr (build_commit_turn_rpc_payload a payload_hash_sha256 lease_owner))))"

definition commit_turn ::
    "(pyobj \<Rightarrow> pystr option) \<Rightarrow> (pyobj \<Rightarrow> pystr option) \<Rightarrow> (nat list \<Rightarrow> pystr) \<Rightarrow> 'w rpc \<Rightarrow> commit_args \<Rightarrow> pyobj
     \<Rightarrow> 'w \<Rightarrow> (commit_exn + CommittedTurn) \<times> 'w" where
  "commit_turn dumps canon sha256 rpc a lease_owner w =
     (case prepare_commit dumps canon sha256 a lease_owner of
        Inl e \<Rightarrow> (Inl e, w)
      | Inr rpc_payload \<Rightarrow>
          (case rpc (u ''commit_turn'') rpc_payload w of
             (None, w') \<Rightarrow> (Inl database_error, w')
           | (Some result, w') \<Rightarrow> (parse_commit_turn_result dumps result, w')))"


section \<open>What the validators accept\<close>

lemma invalid_iff [simp]: "invalid b c = Inr x \<longleftrightarrow> \<not> b"
  by (simp add: invalid_def)

definition size_ok :: "(pyobj \<Rightarrow> pystr option) \<Rightarrow> pyobj \<Rightarrow> nat \<Rightarrow> bool" where
  "size_ok dumps payload limit = (case Option.bind (dumps payload) utf8_encode of
     None \<Rightarrow> False | Some b \<Rightarrow> length b \<le> limit)"

lemma check_size_iff [accept_iff]: "check_size dumps v n c = Inr x \<longleftrightarrow> size_ok dumps v n"
  by (auto simp: check_size_def size_ok_def split: option.splits)

lemma validate_uuid_iff' [accept_iff]: "validate_uuid v c = Inr x \<longleftrightarrow> is_valid_uuid v"
  by (simp add: validate_uuid_def)

lemma is_valid_uuid_iff: "is_valid_uuid v \<longleftrightarrow> (\<exists>s. v = PStr s \<and> uuid_match s)"
  by (cases v) auto

lemma nonempty_str_iff: "nonempty_str v \<longleftrightarrow> (\<exists>s. v = PStr s \<and> s \<noteq> [])"
  by (cases v) auto

lemma nonneg_int_iff: "nonneg_int v \<longleftrightarrow> (\<exists>n. v = PInt n \<and> 0 \<le> n)"
  by (cases v) auto

lemma is_positive_int_iff: "is_positive_int v \<longleftrightarrow> (\<exists>n. v = PInt n \<and> 0 < n)"
  by (cases v) auto

lemma is_str_iff: "is_str v \<longleftrightarrow> (\<exists>s. v = PStr s)"
  by (cases v) auto

lemma event_type_ok_iff: "event_type_ok v \<longleftrightarrow> (\<exists>s. v = PStr s \<and> code_match s)"
  by (cases v) auto

lemma validate_idempotency_key_iff [accept_iff]:
  "validate_idempotency_key v = Inr x \<longleftrightarrow> (\<exists>s. v = PStr s \<and> key_match 128 s)"
  by (cases v) auto

lemma validate_lease_owner_iff [accept_iff]:
  "validate_lease_owner v = Inr x \<longleftrightarrow> v = PNone \<or> (\<exists>s. v = PStr s \<and> key_match 64 s)"
  by (cases v) auto

lemmas scalar_iffs = is_valid_uuid_iff nonempty_str_iff nonneg_int_iff is_positive_int_iff is_str_iff
  event_type_ok_iff

lemma dict_get_Cons: "dict_get ((PStr k, v) # d) j = (if j = k then v else dict_get d j)"
  by (simp add: dict_get_def)

text \<open>The contract of a replay payload.\<close>

definition replay_ok :: "(pyobj \<Rightarrow> pystr option) \<Rightarrow> (pyobj \<times> pyobj) list \<Rightarrow> pyobj \<Rightarrow> bool" where
  "replay_ok dumps d rid \<longleftrightarrow>
     fst ` set d \<subseteq> PStr ` set REPLAY_PAYLOAD_ALLOWED_KEYS
     \<and> \<not> has_forbidden FORBIDDEN_PAYLOAD_KEYS (PDict d)
     \<and> is_str (dict_get d (u ''response'')) \<and> is_valid_uuid (dict_get d (u ''message_id''))
     \<and> (has_key d (u ''request_id'') \<longrightarrow>
          is_valid_uuid (dict_get d (u ''request_id'')) \<and> dict_get d (u ''request_id'') = rid)
     \<and> size_ok dumps (PDict d) MAX_REPLAY_PAYLOAD_BYTES"

lemma validate_replay_payload_iff:
  "validate_replay_payload dumps (PDict d) (Some r) = Inr x \<longleftrightarrow> replay_ok dumps d r"
  by (auto simp: validate_replay_payload_def replay_ok_def accept_iff unknown_keys_Nil_iff)

text \<open>The contract of a snapshot: exactly the declared fields, each within its range.\<close>

definition field_in :: "(pyobj \<times> pyobj) list \<Rightarrow> rat \<Rightarrow> rat \<Rightarrow> string \<Rightarrow> bool" where
  "field_in d low high name \<longleftrightarrow> finite_number (dict_get d (u name))
     \<and> low \<le> num_val (dict_get d (u name)) \<and> num_val (dict_get d (u name)) \<le> high"

lemma bounded_all_iff [accept_iff]: "bounded_all d c names lo hi = Inr x \<longleftrightarrow> list_all (field_in d lo hi) names"
  by (induction names) (auto simp: bounded_def field_in_def Let_def not_less)

definition triggers_ok :: "pyobj \<Rightarrow> bool" where
  "triggers_ok v = (case as_sequence v of
     None \<Rightarrow> False | Some ts \<Rightarrow> length ts \<le> 32 \<and> list_all trigger_ok ts \<and> distinct ts)"

lemma validate_snapshot_triggers_iff [accept_iff]: "validate_snapshot_triggers v c = Inr x \<longleftrightarrow> triggers_ok v"
  by (auto simp: validate_snapshot_triggers_def triggers_ok_def split: option.splits)

fun snapshot_fields_ok :: "snapshot_kind \<Rightarrow> (pyobj \<times> pyobj) list \<Rightarrow> bool" where
  "snapshot_fields_ok EmotionalKind d \<longleftrightarrow>
     fst ` set d = PStr ` set EMOTIONAL_SNAPSHOT_FIELDS
     \<and> list_all (field_in d (-1) 1) [''pleasure'', ''arousal'', ''dominance'']
     \<and> list_all (field_in d 0 1) [''libido'', ''aggression'', ''connection'', ''energy'', ''tension'']
     \<and> dict_get d (u ''coping_mode'') \<in> PStr ` set (map u [''HEALTHY'', ''DEFENSIVE'', ''DISSOCIATED'', ''MANIC''])"
| "snapshot_fields_ok RelationshipKind d \<longleftrightarrow>
     fst ` set d = PStr ` set RELATIONSHIP_SNAPSHOT_FIELDS
     \<and> list_all (field_in d 0 1) [''trust'', ''affection'', ''tension'']
     \<and> triggers_ok (dict_get d (u ''triggers''))"

definition snapshot_ok :: "(pyobj \<Rightarrow> pystr option) \<Rightarrow> snapshot_kind \<Rightarrow> (pyobj \<times> pyobj) list \<Rightarrow> bool" where
  "snapshot_ok dumps kind d \<longleftrightarrow> snapshot_fields_ok kind d \<and> dict_get d (u ''schema_version'') = PInt 1
     \<and> \<not> has_forbidden SNAPSHOT_FORBIDDEN_KEYS (PDict d)
     \<and> finite_number (dict_get d (u ''timestamp'')) \<and> 0 < num_val (dict_get d (u ''timestamp''))
     \<and> size_ok dumps (PDict d) MAX_REPLAY_PAYLOAD_BYTES"

lemma snapshot_version_field:
  "fst ` set d = PStr ` set EMOTIONAL_SNAPSHOT_FIELDS \<Longrightarrow> has_key d (u ''schema_version'')"
  "fst ` set d = PStr ` set RELATIONSHIP_SNAPSHOT_FIELDS \<Longrightarrow> has_key d (u ''schema_version'')"
  by (simp_all add: has_key_iff EMOTIONAL_SNAPSHOT_FIELDS_def RELATIONSHIP_SNAPSHOT_FIELDS_def)

lemma validate_snapshot_payload_iff:
  "validate_snapshot_payload dumps (PDict d) kind = Inr x \<longleftrightarrow> snapshot_ok dumps kind d"
proof (cases kind)
  case EmotionalKind
  show ?thesis
    unfolding validate_snapshot_payload_def snapshot_ok_def EmotionalKind
    using snapshot_version_field(1) [of d]
    by (simp only: Let_def accept_iff as_mapping.simps option.case pyobj.distinct if_False snapshot_kind.case
        rbind_Inr_iff invalid_iff not_not de_Morgan_disj not_le snapshot_fields_ok.simps ex_simps simp_thms) argo
next
  case RelationshipKind
  show ?thesis
    unfolding validate_snapshot_payload_def snapshot_ok_def RelationshipKind
    using snapshot_version_field(2) [of d]
    by (simp only: Let_def accept_iff as_mapping.simps option.case pyobj.distinct if_False snapshot_kind.case
        rbind_Inr_iff invalid_iff not_not de_Morgan_disj not_le snapshot_fields_ok.simps ex_simps simp_thms) argo
qed

text \<open>\<open>json.dumps\<close> does not serialise a read-only view.\<close>

definition dumps_no_proxy :: "(pyobj \<Rightarrow> pystr option) \<Rightarrow> bool" where
  "dumps_no_proxy dumps \<longleftrightarrow> (\<forall>d. dumps (PProxy d) = None)"

lemma size_ok_mapping:
  assumes "dumps_no_proxy dumps" and "size_ok dumps v n" and "as_mapping v = Some d"
  shows "v = PDict d"
  using assms by (cases v) (auto simp: dumps_no_proxy_def size_ok_def)

lemma validate_snapshot_cases:
  assumes "dumps_no_proxy dumps" and "validate_snapshot_payload dumps v kind = Inr x"
  shows "v = PNone \<or> (\<exists>d. v = PDict d \<and> snapshot_ok dumps kind d)"
proof (cases "as_mapping v")
  case None
  with assms(2) show ?thesis by (auto simp: validate_snapshot_payload_def Let_def split: if_splits)
next
  case (Some d)
  then have "size_ok dumps v MAX_REPLAY_PAYLOAD_BYTES"
    using assms(2) by (auto simp: validate_snapshot_payload_def Let_def accept_iff split: if_splits)
  then have "v = PDict d" using size_ok_mapping assms(1) Some by blast
  then show ?thesis using assms(2) validate_snapshot_payload_iff by blast
qed

lemma validate_replay_cases:
  assumes "dumps_no_proxy dumps" and "validate_replay_payload dumps v (Some r) = Inr x"
  shows "\<exists>d. v = PDict d \<and> replay_ok dumps d r"
proof (cases "as_mapping v")
  case (Some d)
  then have "size_ok dumps v MAX_REPLAY_PAYLOAD_BYTES"
    using assms(2) by (auto simp: validate_replay_payload_def accept_iff)
  then have "v = PDict d" using size_ok_mapping assms(1) Some by blast
  then show ?thesis using assms(2) validate_replay_payload_iff by blast
qed (use assms(2) in \<open>simp add: validate_replay_payload_def\<close>)

text \<open>The contract of an outbox payload and of one entry of the outbox parameter.\<close>

definition outbox_payload_ok :: "(pyobj \<Rightarrow> pystr option) \<Rightarrow> (pyobj \<times> pyobj) list \<Rightarrow> bool" where
  "outbox_payload_ok dumps p \<longleftrightarrow> fst ` set p \<subseteq> PStr ` set OUTBOX_PAYLOAD_ALLOWED_KEYS
     \<and> \<not> has_forbidden FORBIDDEN_PAYLOAD_KEYS (PDict p) \<and> list_all outbox_entry_ok p
     \<and> size_ok dumps (PDict p) MAX_OUTBOX_PAYLOAD_BYTES"

fun event_row_ok :: "(pyobj \<Rightarrow> pystr option) \<Rightarrow> pyobj \<Rightarrow> bool" where
  "event_row_ok dumps (PDict d) \<longleftrightarrow>
     event_type_ok (dict_get d (u ''event_type''))
     \<and> (case dict_get d (u ''payload'') of PDict p \<Rightarrow> outbox_payload_ok dumps p | _ \<Rightarrow> False)
     \<and> (case dict_get d (u ''idempotency_key'') of PStr s \<Rightarrow> key_match 128 s | _ \<Rightarrow> False)"
| "event_row_ok dumps _ \<longleftrightarrow> False"

lemma validate_outbox_event_row:
  assumes "dumps_no_proxy dumps" and "validate_outbox_event dumps e = Inr x"
  shows "event_row_ok dumps (event_row as_dict e)"
proof -
  obtain et pl ik d where e: "as_sequence e = Some [et, pl, ik]" and d: "as_mapping pl = Some d"
    and et: "event_type_ok et" and ik: "\<exists>s. ik = PStr s \<and> key_match 128 s"
    and v: "validate_outbox_event_payload dumps pl d = Inr ()"
    using assms(2) unfolding validate_outbox_event_def
    by (auto simp: accept_iff split: option.splits list.splits)
  then have "size_ok dumps pl MAX_OUTBOX_PAYLOAD_BYTES" by (auto simp: validate_outbox_event_payload_def accept_iff)
  then have "pl = PDict d" using size_ok_mapping assms(1) d by blast
  then show ?thesis
    using e et ik v by (auto simp: event_row_def as_dict_def dict_get_Cons validate_outbox_event_payload_def
        outbox_payload_ok_def accept_iff unknown_keys_Nil_iff)
qed

lemma validate_outbox_event_rows:
  assumes "dumps_no_proxy dumps"
  shows "validate_outbox_events dumps es = Inr x \<Longrightarrow> list_all (event_row_ok dumps) (map (event_row as_dict) es)"
  by (induction es) (auto dest: validate_outbox_event_row [OF assms])

section \<open>The result is coherent and stable\<close>

definition ref_ok :: "CommittedOutboxRef \<Rightarrow> bool" where
  "ref_ok r \<longleftrightarrow> uuid_match (or_id r) \<and> code_match (or_event_type r) \<and> key_match 128 (or_idempotency_key r)
     \<and> uuid_match (or_turn_request_id r) \<and> 0 < or_contract_version r"

definition committed_ok :: "(pyobj \<Rightarrow> pystr option) \<Rightarrow> CommittedTurn \<Rightarrow> bool" where
  "committed_ok dumps t \<longleftrightarrow>
     ct_user_id t \<noteq> [] \<and> uuid_match (ct_request_id t) \<and> 0 \<le> ct_committed_revision t
     \<and> ct_user_message_id t = ct_request_id t \<and> uuid_match (ct_assistant_message_id t)
     \<and> (case deep_unfreeze (ct_replay_payload t) of
          PDict d \<Rightarrow> replay_ok dumps d (PStr (ct_request_id t))
            \<and> dict_get d (u ''message_id'') = PStr (ct_assistant_message_id t)
        | _ \<Rightarrow> False)
     \<and> list_all ref_ok (ct_outbox_events t) \<and> ct_created_at t \<noteq> [] \<and> ct_completed_at t \<noteq> []"

lemma parse_outbox_ref_ok: "parse_outbox_ref e = Inr r \<Longrightarrow> ref_ok r"
  unfolding parse_outbox_ref_def
  by (auto simp: ref_ok_def accept_iff scalar_iffs split: option.splits)

lemma parse_outbox_refs_ok: "parse_outbox_refs es = Inr rs \<Longrightarrow> list_all ref_ok rs"
  by (induction es arbitrary: rs) (auto dest: parse_outbox_ref_ok)

lemma parse_outbox_ref_row: "ref_ok r \<Longrightarrow> parse_outbox_ref (outbox_ref_row r) = Inr r"
  unfolding parse_outbox_ref_def outbox_ref_row_def
  by (cases r) (simp add: ref_ok_def dict_get_Cons missing_keys_def unknown_keys_def OUTBOX_REF_FIELDS_def)

lemma parse_outbox_refs_rows: "list_all ref_ok rs \<Longrightarrow> parse_outbox_refs (map outbox_ref_row rs) = Inr rs"
  by (induction rs) (auto simp: parse_outbox_ref_row)

lemma plain_dict_get: "plain_json (PDict d) \<Longrightarrow> plain_json (dict_get d k)"
  by (auto simp: dict_get_def list_all_iff split: option.splits dest!: map_of_SomeD)

lemma plain_mapping: "plain_json v \<Longrightarrow> as_mapping v = Some d \<Longrightarrow> v = PDict d"
  by (cases v) auto

lemma parse_success_InrE:
  assumes s: "parse_success dumps d = Inr t"
  obtains us rq rv am rp evs refs cr co where
    "dict_get d (u ''request_id'') = PStr rq" and "as_mapping (dict_get d (u ''replay_payload'')) = Some rp"
    and "validate_replay_payload dumps (dict_get d (u ''replay_payload'')) (Some (PStr rq)) = Inr ()"
    and "dict_get rp (u ''message_id'') = PStr am" and "parse_outbox_refs evs = Inr refs"
    and "us \<noteq> []" "uuid_match rq" "0 \<le> rv" "uuid_match am" "cr \<noteq> []" "co \<noteq> []"
    and "t = CommittedTurn_init \<lparr>ct_user_id = us, ct_request_id = rq, ct_committed_revision = rv,
           ct_user_message_id = rq, ct_assistant_message_id = am, ct_replay_payload = PDict rp,
           ct_outbox_events = refs, ct_created_at = cr, ct_completed_at = co\<rparr>"
proof -
  obtain rp evs where rp: "as_mapping (dict_get d (u ''replay_payload'')) = Some rp"
    and ev: "as_list (dict_get d (u ''outbox_events'')) = Some evs"
    using s by (cases "as_mapping (dict_get d (u ''replay_payload''))"; cases "as_list (dict_get d (u ''outbox_events''))";
        simp add: parse_success_def Let_def)
  have k: "nonempty_str (dict_get d (u ''user_id''))" "is_valid_uuid (dict_get d (u ''request_id''))"
    "nonneg_int (dict_get d (u ''committed_revision''))" "is_valid_uuid (dict_get d (u ''assistant_message_id''))"
    "nonempty_str (dict_get d (u ''created_at''))" "nonempty_str (dict_get d (u ''completed_at''))"
    using s by (simp_all add: parse_success_def Let_def validate_uuid_def rp ev) blast+
  then obtain us rq rv am cr co where e: "dict_get d (u ''user_id'') = PStr us" "dict_get d (u ''request_id'') = PStr rq"
    "dict_get d (u ''committed_revision'') = PInt rv" "dict_get d (u ''assistant_message_id'') = PStr am"
    "dict_get d (u ''created_at'') = PStr cr" "dict_get d (u ''completed_at'') = PStr co"
    unfolding scalar_iffs by blast
  show ?thesis
    using s k that [of rq rp am evs _ us rv cr co] by (auto simp: parse_success_def Let_def validate_uuid_def rp ev e)
qed

lemma parse_success_ok:
  assumes p: "plain_json (PDict d)" and s: "parse_success dumps d = Inr t"
  shows "committed_ok dumps t"
  using s
proof (cases rule: parse_success_InrE)
  case (1 us rq rv am rp evs refs cr co)
  have pr: "plain_json (dict_get d (u ''replay_payload''))" by (rule plain_dict_get [OF p])
  then have r: "dict_get d (u ''replay_payload'') = PDict rp" using 1(2) by (rule plain_mapping)
  then have "deep_unfreeze (deep_freeze (PDict rp)) = PDict rp" using pr unfreeze_freeze by metis
  with 1 r show ?thesis
    by (simp add: committed_ok_def CommittedTurn_init_def validate_replay_payload_iff parse_outbox_refs_ok
        del: deep_freeze.simps)
qed

lemma parse_success_row:
  assumes "committed_ok dumps t" and "deep_freeze (ct_replay_payload t) = ct_replay_payload t"
  shows "parse_commit_turn_result dumps (CommittedTurn_to_db_row t) = Inr t"
proof -
  obtain rp where rp: "deep_unfreeze (ct_replay_payload t) = PDict rp"
    using assms(1) by (auto simp: committed_ok_def split: pyobj.splits)
  then have f: "deep_freeze (PDict rp) = ct_replay_payload t"
    using freeze_unfreeze assms(2) by metis
  show ?thesis
    using assms(1) f rp
    unfolding parse_commit_turn_result_def CommittedTurn_to_db_row_def parse_success_def
      CommittedTurn_init_def committed_ok_def
    by (cases t) (simp add: validate_replay_payload_iff dict_get_Cons missing_keys_def unknown_keys_def SUCCESS_FIELDS_def has_key_def
        validate_uuid_def parse_outbox_refs_rows del: deep_freeze.simps)
qed

lemma parse_frozen: "parse_commit_turn_result dumps r = Inr t \<Longrightarrow> deep_freeze (ct_replay_payload t) = ct_replay_payload t"
  unfolding parse_commit_turn_result_def
  by (auto simp: CommittedTurn_init_def simp del: deep_freeze.simps split: option.splits if_splits
      elim!: parse_success_InrE)

section \<open>What reaches the database\<close>

definition call_ok :: "(pyobj \<Rightarrow> pystr option) \<Rightarrow> pystr \<times> row \<Rightarrow> bool" where
  "call_ok dumps call \<longleftrightarrow>
     (let arg = (\<lambda>k. row_get (snd call) (u k) PNone);
          snap = (\<lambda>kind v. case v of PNone \<Rightarrow> True | PDict d \<Rightarrow> snapshot_ok dumps kind d | _ \<Rightarrow> False) in
      fst call = u ''commit_turn''
      \<and> nonempty_str (arg ''p_authenticated_user_id'') \<and> is_valid_uuid (arg ''p_request_id'')
      \<and> nonneg_int (arg ''p_expected_revision'')
      \<and> is_str (arg ''p_user_message'') \<and> is_str (arg ''p_assistant_message'')
      \<and> snap EmotionalKind (arg ''p_emotional_state'') \<and> snap RelationshipKind (arg ''p_relationship_state'')
      \<and> (case arg ''p_replay_payload'' of
           PDict d \<Rightarrow> replay_ok dumps d (arg ''p_request_id'') \<and> dict_get d (u ''response'') = arg ''p_public_response''
         | _ \<Rightarrow> False)
      \<and> (case arg ''p_outbox_events'' of PList es \<Rightarrow> list_all (event_row_ok dumps) es | _ \<Rightarrow> False)
      \<and> (case arg ''p_lease_owner'' of PNone \<Rightarrow> True | PStr s \<Rightarrow> key_match 64 s | _ \<Rightarrow> False))"

lemma prepared_call_ok:
  assumes p: "dumps_no_proxy dumps" and r: "prepare_commit dumps canon sha256 a lo = Inr row"
  shows "call_ok dumps (u ''commit_turn'', row)"
proof -
  have v: "validate_atomic_commit_input dumps a = Inr ()" and l: "validate_lease_owner lo = Inr ()"
    and row: "\<exists>h. row = build_commit_turn_rpc_payload a h lo"
    using r by (auto simp: prepare_commit_def)
  obtain es where es: "ca_outbox_events a = PList es" and ve: "validate_outbox_events dumps es = Inr ()"
    and sn: "validate_snapshot_payload dumps (ca_emotional_state a) EmotionalKind = Inr ()"
      "validate_snapshot_payload dumps (ca_relationship_state a) RelationshipKind = Inr ()"
    and rp: "validate_replay_payload dumps (ca_replay_payload a) (Some (ca_request_id a)) = Inr ()"
    and pr: "mapping_get (ca_replay_payload a) (u ''response'') = ca_public_response a"
    and sc: "nonempty_str (ca_user_id a)" "is_valid_uuid (ca_request_id a)" "nonneg_int (ca_expected_revision a)"
      "is_str (ca_user_message a)" "is_str (ca_assistant_message a)"
    using v unfolding validate_atomic_commit_input_def
    by (cases "ca_outbox_events a") (auto simp: accept_iff)
  obtain rd where rd: "ca_replay_payload a = PDict rd" "replay_ok dumps rd (ca_request_id a)"
    using validate_replay_cases [OF p rp] by blast
  have s: "ca_emotional_state a = PNone \<or> (\<exists>d. ca_emotional_state a = PDict d \<and> snapshot_ok dumps EmotionalKind d)"
    "ca_relationship_state a = PNone \<or> (\<exists>d. ca_relationship_state a = PDict d \<and> snapshot_ok dumps RelationshipKind d)"
    using sn validate_snapshot_cases [OF p] by blast+
  show ?thesis
    using row l sc s rd pr es validate_outbox_event_rows [OF p ve]
    by (auto simp: call_ok_def Let_def build_commit_turn_rpc_payload_def row_get_def as_dict_def event_rows_def
        mapping_get_def accept_iff)
qed

text \<open>A client that records its calls and answers with \<open>answer\<close>.\<close>

definition recording :: "(pystr \<Rightarrow> row \<Rightarrow> pyobj option) \<Rightarrow> (pystr \<times> row) list rpc" where
  "recording answer name params calls = (answer name params, calls @ [(name, params)])"

section \<open>Snapshots of the domain\<close>

lemma emotional_snapshot_ok:
  assumes "valid_state s" and "size_ok dumps (EmotionalStateV1_to_dict s) MAX_REPLAY_PAYLOAD_BYTES"
  shows "validate_snapshot_payload dumps (EmotionalStateV1_to_dict s) EmotionalKind = Inr ()"
  using assms unfolding EmotionalStateV1_to_dict_def validate_snapshot_payload_iff
  by (simp add: snapshot_ok_def dict_get_Cons field_in_def finite_number_def valid_state_def EMOTIONAL_SCHEMA_VERSION_def
      EMOTIONAL_SNAPSHOT_FIELDS_def SNAPSHOT_FORBIDDEN_KEYS_def FORBIDDEN_PAYLOAD_KEYS_def VALID_COPING_MODES_def)

lemma relationship_snapshot_ok:
  assumes "valid_relationship s" and "size_ok dumps (RelationshipStateV1_to_dict s) MAX_REPLAY_PAYLOAD_BYTES"
  shows "validate_snapshot_payload dumps (RelationshipStateV1_to_dict s) RelationshipKind = Inr ()"
proof -
  have "\<not> list_ex (has_forbidden fb) (map PStr ts)" for fb ts by (induction ts) auto
  moreover have "triggers_ok (PList (map PStr (rs_triggers s)))"
    using assms(1) by (auto simp: triggers_ok_def valid_relationship_def valid_triggers_def valid_trigger_def
        distinct_map list_all_iff inj_on_def)
  ultimately show ?thesis
    using assms unfolding RelationshipStateV1_to_dict_def validate_snapshot_payload_iff
    by (simp add: snapshot_ok_def dict_get_Cons field_in_def finite_number_def valid_relationship_def
        RELATIONSHIP_SCHEMA_VERSION_def RELATIONSHIP_SNAPSHOT_FIELDS_def SNAPSHOT_FORBIDDEN_KEYS_def
        FORBIDDEN_PAYLOAD_KEYS_def)
qed

text \<open>A number that passes the range check is converted to a float within the range.\<close>

lemma finite_number_cases:
  assumes "finite_number v"
  obtains n x where "v = PInt n" "float_of_int n = Some x" "x = fl (of_int n)" | x where "v = flt x"
proof (cases v)
  case (PInt n)
  then show ?thesis using assms that(1) by (auto simp: finite_number_def float_of_int_def Let_def split: if_splits)
next
  case (PFloat f)
  then show ?thesis using assms that(2) by (cases f) (auto simp: finite_number_def)
qed (use assms in \<open>auto simp: finite_number_def\<close>)

lemma field_value:
  assumes "finite_number v" and "lo \<le> num_val v" and "num_val v \<le> hi" and "fl lo = lo" and "fl hi = hi"
  shows "\<exists>x. float_value v = Some x \<and> lo \<le> x \<and> x \<le> hi"
  using assms(1)
proof (cases rule: finite_number_cases)
  case (1 n x)
  then have "fl lo \<le> x" "x \<le> fl hi" using assms(2,3) by (auto intro: fl_mono)
  with 1 assms(4,5) show ?thesis by simp
next
  case (2 x)
  with assms show ?thesis by simp
qed

lemma timestamp_value:
  assumes "finite_number v" and "0 < num_val v"
  shows "\<exists>x. float_value v = Some x \<and> 0 < x"
  using assms(1)
proof (cases rule: finite_number_cases)
  case (1 n x)
  then have "1 \<le> (of_int n :: rat)" using assms(2) by simp
  then have "fl 1 \<le> fl (of_int n)" by (rule fl_mono)
  with 1 show ?thesis by simp
next
  case (2 x)
  with assms show ?thesis by simp
qed

definition field_float :: "(pyobj \<times> pyobj) list \<Rightarrow> string \<Rightarrow> rat" where
  "field_float d name = the (float_value (dict_get d (u name)))"

lemma field_in_value:
  assumes "field_in d lo hi name" and "fl lo = lo" and "fl hi = hi"
  shows "map_of d (PStr (u name)) = Some (dict_get d (u name))
     \<and> float_value (dict_get d (u name)) = Some (field_float d name) \<and> lo \<le> field_float d name \<and> field_float d name \<le> hi"
proof -
  obtain x where "float_value (dict_get d (u name)) = Some x" "lo \<le> x" "x \<le> hi"
    using assms field_value unfolding field_in_def by metis
  moreover from this have "map_of d (PStr (u name)) = Some (dict_get d (u name))"
    by (auto simp: dict_get_def split: option.splits)
  ultimately show ?thesis by (simp add: field_float_def)
qed

lemma timestamp_field:
  assumes "snapshot_ok dumps kind d"
  shows "map_of d (PStr (u ''timestamp'')) = Some (dict_get d (u ''timestamp''))"
    and "float_value (dict_get d (u ''timestamp'')) = Some (field_float d ''timestamp'')"
    and "0 < field_float d ''timestamp''"
proof -
  obtain x where "float_value (dict_get d (u ''timestamp'')) = Some x" "0 < x"
    using assms timestamp_value unfolding snapshot_ok_def by metis
  moreover from this show "map_of d (PStr (u ''timestamp'')) = Some (dict_get d (u ''timestamp''))"
    by (auto simp: dict_get_def split: option.splits)
  ultimately show "float_value (dict_get d (u ''timestamp'')) = Some (field_float d ''timestamp'')"
    and "0 < field_float d ''timestamp''" by (simp_all add: field_float_def)
qed

lemma committed_emotional_loads:
  assumes "snapshot_ok dumps EmotionalKind d"
  shows "\<exists>s. EmotionalStateV1_from_dict (PDict d) = Inr s"
proof -
  note ts = timestamp_field [OF assms]
  have f: "list_all (field_in d (-1) 1) [''pleasure'', ''arousal'', ''dominance'']"
    "list_all (field_in d 0 1) [''libido'', ''aggression'', ''connection'', ''energy'', ''tension'']"
    and keys: "fst ` set d = PStr ` set EMOTIONAL_SNAPSHOT_FIELDS"
    and v: "map_of d (PStr (u ''schema_version'')) = Some (PInt 1)"
    using assms unfolding snapshot_ok_def snapshot_fields_ok.simps by (blast, blast, blast, simp add: dict_get_iff)
  have r: "list_all (\<lambda>n. map_of d (PStr (u n)) = Some (dict_get d (u n)) \<and> float_value (dict_get d (u n)) = Some (field_float d n)
        \<and> -1 \<le> field_float d n \<and> field_float d n \<le> 1) [''pleasure'', ''arousal'', ''dominance'']"
    using f(1) by (rule list.pred_mono_strong) (simp add: field_in_value)
  have q: "list_all (\<lambda>n. map_of d (PStr (u n)) = Some (dict_get d (u n)) \<and> float_value (dict_get d (u n)) = Some (field_float d n)
        \<and> 0 \<le> field_float d n \<and> field_float d n \<le> 1) [''libido'', ''aggression'', ''connection'', ''energy'', ''tension'']"
    using f(2) by (rule list.pred_mono_strong) (simp add: field_in_value)
  obtain cm where cm: "map_of d (PStr (u ''coping_mode'')) = Some (PStr cm)" "cm \<in> set VALID_COPING_MODES"
    using assms by (auto simp: snapshot_ok_def dict_get_iff VALID_COPING_MODES_def)
  let ?a = "\<lparr>arg_pleasure = dict_get d (u ''pleasure''), arg_arousal = dict_get d (u ''arousal''),
    arg_dominance = dict_get d (u ''dominance''), arg_libido = dict_get d (u ''libido''),
    arg_aggression = dict_get d (u ''aggression''), arg_connection = dict_get d (u ''connection''),
    arg_energy = dict_get d (u ''energy''), arg_tension = dict_get d (u ''tension''), arg_coping_mode = PStr cm,
    arg_timestamp = dict_get d (u ''timestamp''), arg_schema_version = PInt 1\<rparr>"
  let ?s = "\<lparr>es_pleasure = field_float d ''pleasure'', es_arousal = field_float d ''arousal'',
    es_dominance = field_float d ''dominance'', es_libido = field_float d ''libido'',
    es_aggression = field_float d ''aggression'', es_connection = field_float d ''connection'',
    es_energy = field_float d ''energy'', es_tension = field_float d ''tension'', es_coping_mode = cm,
    es_timestamp = field_float d ''timestamp'', es_schema_version = 1\<rparr>"
  have "state_args_of_dict d = Inr ?a" using r q ts v cm by (simp add: state_args_of_dict_iff)
  moreover have "denotes_state ?a ?s" using r q ts by (simp add: denotes_state_def)
  moreover have "valid_state ?s" using r q ts cm by (simp add: valid_state_def EMOTIONAL_SCHEMA_VERSION_def)
  moreover have "fst ` set d = PStr ` set STATE_FIELDS"
    using keys by (auto simp: EMOTIONAL_SNAPSHOT_FIELDS_def STATE_FIELDS_def)
  ultimately show ?thesis by (intro exI [of _ ?s]) (simp add: from_dict_state_iff)
qed

lemma triggers_ok_valid:
  assumes "triggers_ok (dict_get d k)"
  shows "\<exists>ts. map_of d (PStr k) = Some (dict_get d k) \<and> validate_triggers (dict_get d k) = Inr ts \<and> valid_triggers ts"
proof -
  obtain vs where vs: "as_sequence (dict_get d k) = Some vs" and ok: "length vs \<le> 32" "list_all trigger_ok vs" "distinct vs"
    using assms by (auto simp: triggers_ok_def split: option.splits)
  have "\<exists>ss. vs = map PStr ss \<and> list_all valid_trigger ss"
    using ok(2)
  proof (induction vs)
    case (Cons v vs)
    have "trigger_ok v \<Longrightarrow> \<exists>s. v = PStr s \<and> valid_trigger s" by (cases v) (simp_all add: valid_trigger_def)
    with Cons obtain s ss where "v = PStr s" "vs = map PStr ss" "valid_trigger s" "list_all valid_trigger ss" by auto
    then show ?case by (intro exI [of _ "s # ss"]) simp
  qed simp
  then obtain ss where ss: "vs = map PStr ss" "list_all valid_trigger ss" by blast
  then have "valid_triggers ss" using ok by (simp add: valid_triggers_def distinct_map)
  then show ?thesis
    using vs ss validate_triggers_rebuild by (cases "dict_get d k") (auto simp: dict_get_def split: option.splits)
qed

lemma committed_relationship_loads:
  assumes "snapshot_ok dumps RelationshipKind d"
  shows "\<exists>s. RelationshipStateV1_from_dict (PDict d) = Inr s"
proof -
  note ts = timestamp_field [OF assms]
  have f: "list_all (field_in d 0 1) [''trust'', ''affection'', ''tension'']"
    and keys: "fst ` set d = PStr ` set RELATIONSHIP_SNAPSHOT_FIELDS"
    and tr: "triggers_ok (dict_get d (u ''triggers''))"
    and v: "map_of d (PStr (u ''schema_version'')) = Some (PInt 1)"
    using assms unfolding snapshot_ok_def snapshot_fields_ok.simps by (blast, blast, blast, simp add: dict_get_iff)
  have q: "list_all (\<lambda>n. map_of d (PStr (u n)) = Some (dict_get d (u n)) \<and> float_value (dict_get d (u n)) = Some (field_float d n)
        \<and> 0 \<le> field_float d n \<and> field_float d n \<le> 1) [''trust'', ''affection'', ''tension'']"
    using f by (rule list.pred_mono_strong) (simp add: field_in_value)
  obtain tgs where t: "map_of d (PStr (u ''triggers'')) = Some (dict_get d (u ''triggers''))"
    "validate_triggers (dict_get d (u ''triggers'')) = Inr tgs" "valid_triggers tgs"
    using triggers_ok_valid [OF tr] by blast
  let ?a = "\<lparr>ra_timestamp = dict_get d (u ''timestamp''), ra_schema_version = PInt 1, ra_trust = dict_get d (u ''trust''),
    ra_affection = dict_get d (u ''affection''), ra_tension = dict_get d (u ''tension''), ra_triggers = dict_get d (u ''triggers'')\<rparr>"
  let ?s = "\<lparr>rs_timestamp = field_float d ''timestamp'', rs_schema_version = 1, rs_trust = field_float d ''trust'',
    rs_affection = field_float d ''affection'', rs_tension = field_float d ''tension'', rs_triggers = tgs\<rparr>"
  have "rel_args_of_dict (u ''timestamp'') d (PInt 1) = Inr ?a" using q ts t by (simp add: rel_args_of_dict_iff)
  moreover have "denotes_relationship ?a ?s" using q ts t by (simp add: denotes_relationship_def)
  moreover have "valid_relationship ?s" using q ts t by (simp add: valid_relationship_def RELATIONSHIP_SCHEMA_VERSION_def)
  moreover have "fst ` set d = PStr ` set RELATIONSHIP_FIELDS"
    using keys by (auto simp: RELATIONSHIP_SNAPSHOT_FIELDS_def RELATIONSHIP_FIELDS_def)
  ultimately show ?thesis using v by (intro exI [of _ ?s]) (auto simp: rel_from_dict_iff)
qed

section \<open>Properties\<close>

text \<open>Whatever JSON document the database procedure returns, a committed turn that the parser accepts from
  it is coherent: its user message is identified by the request, its assistant message by the public
  replay payload, the revision is not negative, the replay payload holds allowed keys only and no forbidden one
  at any depth, and every outbox reference is well formed; and writing the turn out and parsing it again
  gives the same turn.\<close>

theorem committed_turn_roundtrip:
  assumes "plain_json r" and "parse_commit_turn_result dumps r = Inr t"
  shows "committed_ok dumps t \<and> parse_commit_turn_result dumps (CommittedTurn_to_db_row t) = Inr t"
proof -
  obtain d where d: "as_mapping r = Some d"
    using assms(2) by (cases "as_mapping r") (simp_all add: parse_commit_turn_result_def)
  then have "r = PDict d" using assms(1) by (rule plain_mapping [rotated])
  then have c: "committed_ok dumps t"
    using assms by (intro parse_success_ok) (auto simp: parse_commit_turn_result_def split: if_splits)
  then show ?thesis using parse_success_row [OF c parse_frozen [OF assms(2)]] by blast
qed

definition sample_row :: pyobj where
  "sample_row = CommittedTurn_to_db_row
     \<lparr>ct_user_id = u ''ana'', ct_request_id = u ''11111111-1111-1111-1111-111111111111'', ct_committed_revision = 4,
      ct_user_message_id = u ''11111111-1111-1111-1111-111111111111'',
      ct_assistant_message_id = u ''22222222-2222-2222-2222-222222222222'',
      ct_replay_payload = PProxy [(PStr (u ''response''), PStr (u ''hi'')),
        (PStr (u ''message_id''), PStr (u ''22222222-2222-2222-2222-222222222222''))],
      ct_outbox_events = [], ct_created_at = u ''now'', ct_completed_at = u ''now''\<rparr>"

lemma sample_uuids:
  "uuid_match (u ''11111111-1111-1111-1111-111111111111'')" "uuid_match (u ''22222222-2222-2222-2222-222222222222'')"
  by (simp_all add: uuid_match_def lower_uuid_text_def uuid_shape_def u_def hex_digit_def numeral_eq_Suc)

lemma brief_size: "size_ok (\<lambda>_. Some (u ''{}'')) v n \<longleftrightarrow> 2 \<le> n"
  using utf8_encode_ascii [of "u ''{}''"] by (simp add: size_ok_def u_def numeral_2_eq_2)

theorem committed_turn_roundtrip_witness:
  "\<exists>t. parse_commit_turn_result (\<lambda>_. Some (u ''{}'')) sample_row = Inr t
     \<and> ct_committed_revision t = 4 \<and> parse_commit_turn_result (\<lambda>_. Some (u ''{}'')) (CommittedTurn_to_db_row t) = Inr t"
proof -
  have p: "plain_json sample_row" by (simp add: sample_row_def CommittedTurn_to_db_row_def)
  have "validate_replay_payload (\<lambda>_. Some (u ''{}'')) (PDict [(PStr (u ''response''), PStr (u ''hi'')),
        (PStr (u ''message_id''), PStr (u ''22222222-2222-2222-2222-222222222222''))])
      (Some (PStr (u ''11111111-1111-1111-1111-111111111111''))) = Inr ()"
    by (simp add: validate_replay_payload_iff replay_ok_def brief_size dict_get_Cons has_key_def sample_uuids
        MAX_REPLAY_PAYLOAD_BYTES_def FORBIDDEN_PAYLOAD_KEYS_def REPLAY_PAYLOAD_ALLOWED_KEYS_def)
  then obtain t where t: "parse_commit_turn_result (\<lambda>_. Some (u ''{}'')) sample_row = Inr t" "ct_committed_revision t = 4"
    by (simp add: sample_row_def CommittedTurn_to_db_row_def parse_commit_turn_result_def parse_success_def
        dict_get_Cons has_key_def missing_keys_def unknown_keys_def SUCCESS_FIELDS_def validate_uuid_def sample_uuids
        CommittedTurn_init_def)
  with p committed_turn_roundtrip show ?thesis by blast
qed

text \<open>C4: the database is called at most once per commit, and only with parameters that satisfy the whole
  contract: identified user and request, non-negative revision, exact and in-range snapshots, a replay payload
  that agrees with the public response, outbox payloads of allowed scalar fields, no forbidden key at any
  depth, no document over its size limit.  A call that is not made ends in an exception, so a committed turn
  is returned only when the database was called.\<close>

theorem commit_reaches_database_valid:
  assumes "dumps_no_proxy dumps"
  shows "\<exists>calls. snd (commit_turn dumps canon sha256 (recording answer) a lease_owner before) = before @ calls
     \<and> length calls \<le> 1 \<and> list_all (call_ok dumps) calls
     \<and> (calls = [] \<longrightarrow> (\<exists>e. fst (commit_turn dumps canon sha256 (recording answer) a lease_owner before) = Inl e))"
proof (cases "prepare_commit dumps canon sha256 a lease_owner")
  case (Inl e)
  then show ?thesis by (intro exI [of _ "[]"]) (simp add: commit_turn_def)
next
  case (Inr row)
  then have "call_ok dumps (u ''commit_turn'', row)" by (rule prepared_call_ok [OF assms])
  then show ?thesis
    by (intro exI [of _ "[(u ''commit_turn'', row)]"])
       (simp add: commit_turn_def Inr recording_def split: option.splits)
qed

definition sample_dumps :: "pyobj \<Rightarrow> pystr option" where
  "sample_dumps v = (case v of PProxy d \<Rightarrow> None | _ \<Rightarrow> Some (u ''{}''))"

definition sample_args :: commit_args where
  "sample_args = \<lparr>ca_user_id = PStr (u ''ana''), ca_request_id = PStr (u ''11111111-1111-1111-1111-111111111111''),
     ca_expected_revision = PInt 3, ca_user_message = PStr (u ''hello''), ca_assistant_message = PStr (u ''hi''),
     ca_emotional_state = PNone, ca_relationship_state = PNone, ca_public_response = PStr (u ''hi''),
     ca_outbox_events = PList [], ca_replay_payload = PDict [(PStr (u ''response''), PStr (u ''hi'')),
       (PStr (u ''message_id''), PStr (u ''22222222-2222-2222-2222-222222222222''))]\<rparr>"

lemma sample_size: "size_ok sample_dumps (PDict d) n \<longleftrightarrow> 2 \<le> n"
  using utf8_encode_ascii [of "u ''{}''"] by (simp add: size_ok_def sample_dumps_def u_def numeral_2_eq_2)

lemma sample_prepared: "\<exists>row. prepare_commit sample_dumps (\<lambda>_. Some (u ''{}'')) (\<lambda>_. u ''00'') sample_args PNone = Inr row"
proof -
  have "validate_replay_payload sample_dumps (ca_replay_payload sample_args) (Some (ca_request_id sample_args)) = Inr ()"
    by (simp add: sample_args_def validate_replay_payload_iff replay_ok_def sample_size dict_get_Cons has_key_def sample_uuids
        MAX_REPLAY_PAYLOAD_BYTES_def FORBIDDEN_PAYLOAD_KEYS_def REPLAY_PAYLOAD_ALLOWED_KEYS_def)
  then have "validate_atomic_commit_input sample_dumps sample_args = Inr ()"
    by (simp add: validate_atomic_commit_input_def sample_args_def accept_iff sample_uuids validate_snapshot_payload_def
        mapping_get_def dict_get_Cons)
  then show ?thesis
    using utf8_encode_ascii [of "u ''{}''"]
    by (simp add: prepare_commit_def canonical_payload_hash_def build_canonical_commit_payload_def u_def)
qed

theorem commit_reaches_database_valid_witness:
  "\<exists>call. snd (commit_turn sample_dumps (\<lambda>_. Some (u ''{}'')) (\<lambda>_. u ''00'') (recording (\<lambda>_ _. None)) sample_args PNone [])
     = [call] \<and> call_ok sample_dumps call"
proof -
  have "dumps_no_proxy sample_dumps" by (simp add: dumps_no_proxy_def sample_dumps_def)
  from commit_reaches_database_valid [OF this, of "\<lambda>_. Some (u ''{}'')" "\<lambda>_. u ''00''" "\<lambda>_ _. None" sample_args PNone "[]"]
  show ?thesis
    using sample_prepared by (auto simp: commit_turn_def recording_def)
qed

text \<open>The domain and the commit agree on snapshots.  Every valid emotional state and every valid
  relationship state passes the validation of the commit when its text fits the size limit; and every
  snapshot that passes is read back by the strict parser of its domain type, so a committed snapshot never
  becomes unreadable.\<close>

theorem committed_snapshots_load:
  "(valid_state s \<and> size_ok dumps (EmotionalStateV1_to_dict s) MAX_REPLAY_PAYLOAD_BYTES
      \<longrightarrow> validate_snapshot_payload dumps (EmotionalStateV1_to_dict s) EmotionalKind = Inr ())
   \<and> (valid_relationship r \<and> size_ok dumps (RelationshipStateV1_to_dict r) MAX_REPLAY_PAYLOAD_BYTES
      \<longrightarrow> validate_snapshot_payload dumps (RelationshipStateV1_to_dict r) RelationshipKind = Inr ())
   \<and> (validate_snapshot_payload dumps (PDict d) EmotionalKind = Inr () \<longrightarrow>
        (\<exists>t. EmotionalStateV1_from_dict (PDict d) = Inr t))
   \<and> (validate_snapshot_payload dumps (PDict d) RelationshipKind = Inr () \<longrightarrow>
        (\<exists>t. RelationshipStateV1_from_dict (PDict d) = Inr t))"
  unfolding validate_snapshot_payload_iff
  using emotional_snapshot_ok relationship_snapshot_ok committed_emotional_loads committed_relationship_loads
  by blast

theorem committed_snapshots_load_witness:
  "validate_snapshot_payload sample_dumps (EmotionalStateV1_to_dict calm_state) EmotionalKind = Inr ()
   \<and> (\<exists>t. EmotionalStateV1_from_dict (EmotionalStateV1_to_dict calm_state) = Inr t)"
proof -
  obtain d where d: "EmotionalStateV1_to_dict calm_state = PDict d" by (simp add: EmotionalStateV1_to_dict_def)
  then have "size_ok sample_dumps (EmotionalStateV1_to_dict calm_state) MAX_REPLAY_PAYLOAD_BYTES"
    by (simp add: sample_size MAX_REPLAY_PAYLOAD_BYTES_def)
  then show ?thesis
    using committed_snapshots_load [of calm_state sample_dumps _ d] valid_calm_state d by auto
qed

end
