(* ===== verification/Turn_Repositories.thy ===== *)
theory Turn_Repositories
  imports Turn_Commit Turn_Execution
begin

text \<open>
  \<open>backend/turn_repositories.py\<close>: the three adapters between the use case and the database client.  The client
  is a parameter: a query of the profile rows of a user and a remote procedure call, each a function on the
  state of the outside world whose result is the \<open>data\<close> of the response, or \<open>None\<close> for any exception.
\<close>

section \<open>The client\<close>

record 'w client =
  cl_select_profiles :: "pystr \<Rightarrow> 'w \<Rightarrow> pyobj option \<times> 'w"
  cl_rpc :: "'w rpc"

text \<open>What an adapter raises besides a \<open>TurnExecutionError\<close>.\<close>

datatype repo_exn = CommitExn commit_exn | DomainExn domain_error | RelationshipExn RelationshipDomainError

definition persistence_error :: "repo_exn turn_exn" where
  "persistence_error = Raised (CommitExn database_error)"

text \<open>\<open>_REPOSITORY_ERRORS\<close>: what the read and write helpers let through.\<close>

fun repository_error :: "repo_exn \<Rightarrow> bool" where
  "repository_error (CommitExn (ConflictError c)) = True"
| "repository_error (CommitExn (ValidationError c)) = True"
| "repository_error (CommitExn (PersistenceError c)) = True"
| "repository_error _ = False"

definition unwrap_rpc_data :: "pyobj \<Rightarrow> commit_exn + pyobj" where
  "unwrap_rpc_data data =
     rbind (case data of
         PList xs \<Rightarrow> (case xs of [x] \<Rightarrow> Inr x | _ \<Rightarrow> Inl (ValidationError (u ''invalid_rpc_result'')))
       | _ \<Rightarrow> Inr data) (\<lambda>x.
     if as_mapping x = None then Inl (ValidationError (u ''invalid_rpc_result'')) else Inr x)"

section \<open>Loading the state of a user\<close>

record LoadedUserState =
  lu_user_id :: pystr
  lu_revision :: int
  lu_persona_config :: pyobj
  lu_user_profile :: pyobj
  lu_emotional_state :: pyobj
  lu_relationship_state :: pyobj

definition invalid_persisted :: "repo_exn turn_exn" where
  "invalid_persisted = TurnExecutionError internal_error"

text \<open>The neutral state of a user without a profile.\<close>

definition default_state :: "pystr \<Rightarrow> pyobj \<Rightarrow> repo_exn turn_exn + LoadedUserState" where
  "default_state user_id effective_timestamp =
     rbind (with_error (\<lambda>e. Raised (DomainExn e)) (EmotionalStateV1_neutral effective_timestamp)) (\<lambda>es.
     rbind (with_error (\<lambda>e. Raised (RelationshipExn e)) (RelationshipStateV1_neutral effective_timestamp)) (\<lambda>rs.
     Inr \<lparr>lu_user_id = user_id, lu_revision = 0, lu_persona_config = PNone, lu_user_profile = PDict [],
          lu_emotional_state = EmotionalStateV1_to_dict es,
          lu_relationship_state = RelationshipStateV1_to_dict rs\<rparr>))"

definition state_of_row :: "pystr \<Rightarrow> (pyobj \<times> pyobj) list \<Rightarrow> repo_exn turn_exn + LoadedUserState" where
  "state_of_row user_id d =
     (let revision = (case map_of d (PStr (u ''revision'')) of None \<Rightarrow> PInt 0 | Some v \<Rightarrow> v);
          emotional = dict_get d (u ''emotional_state''); relationship = dict_get d (u ''relationship_state'');
          profile = dict_get d (u ''user_profile''); persona = dict_get d (u ''persona_config'');
          as_doc = (\<lambda>v. case as_mapping v of None \<Rightarrow> PDict [] | Some m \<Rightarrow> PDict m) in
      case revision of
        PInt n \<Rightarrow>
          if n < 0 then Inl invalid_persisted
          else if emotional \<noteq> PNone \<and> as_mapping emotional = None then Inl invalid_persisted
          else if relationship \<noteq> PNone \<and> as_mapping relationship = None then Inl invalid_persisted
          else Inr \<lparr>lu_user_id = user_id, lu_revision = n,
                    lu_persona_config = (if is_str persona then persona else PNone),
                    lu_user_profile = as_doc profile,
                    lu_emotional_state = as_doc emotional, lu_relationship_state = as_doc relationship\<rparr>
      | _ \<Rightarrow> Inl invalid_persisted)"

text \<open>\<open>wall_time\<close> is the reading of \<open>time.time()\<close>, used when no default timestamp is given.\<close>

definition UserStateRepository_load ::
    "'w client option \<Rightarrow> pyobj \<Rightarrow> pystr \<Rightarrow> pyobj \<Rightarrow> 'w \<Rightarrow> (repo_exn turn_exn + LoadedUserState) \<times> 'w" where
  "UserStateRepository_load client wall_time user_id default_timestamp w = (case client of
     None \<Rightarrow> (Inl persistence_error, w)
   | Some c \<Rightarrow> (case cl_select_profiles c user_id w of
       (None, w') \<Rightarrow> (Inl persistence_error, w')
     | (Some data, w') \<Rightarrow> ((case data of
         PList rows \<Rightarrow> (case rows of
           [] \<Rightarrow> default_state user_id (if default_timestamp \<noteq> PNone then default_timestamp else wall_time)
         | [row] \<Rightarrow> (case as_mapping row of None \<Rightarrow> Inl invalid_persisted | Some d \<Rightarrow> state_of_row user_id d)
         | _ \<Rightarrow> Inl invalid_persisted)
       | _ \<Rightarrow> Inl persistence_error), w')))"

section \<open>Committing\<close>

text \<open>
  The awaitable handed to \<open>commit_turn\<close>; an exception of \<open>_unwrap_rpc_data\<close> is one of the call, and
  \<open>commit_turn\<close> converts every such exception.
\<close>

definition unwrapping_rpc :: "'w client \<Rightarrow> 'w rpc" where
  "unwrapping_rpc c name params w = (case cl_rpc c name params w of
     (None, w') \<Rightarrow> (None, w')
   | (Some data, w') \<Rightarrow> ((case unwrap_rpc_data data of Inl e \<Rightarrow> None | Inr d \<Rightarrow> Some d), w'))"

text \<open>The \<open>except\<close> clauses of \<open>commit\<close>.\<close>

fun sanitize_commit_exn :: "commit_exn \<Rightarrow> repo_exn turn_exn" where
  "sanitize_commit_exn (ConflictError c) = Raised (CommitExn (ConflictError c))"
| "sanitize_commit_exn (ValidationError c) = Raised (CommitExn (ValidationError c))"
| "sanitize_commit_exn (PersistenceError c) = Raised (CommitExn (PersistenceError c))"
| "sanitize_commit_exn _ = persistence_error"

definition TurnCommitRepository_commit ::
    "(pyobj \<Rightarrow> pystr option) \<Rightarrow> (pyobj \<Rightarrow> pystr option) \<Rightarrow> (nat list \<Rightarrow> pystr) \<Rightarrow> 'w client option
     \<Rightarrow> commit_args \<Rightarrow> pyobj \<Rightarrow> 'w \<Rightarrow> (repo_exn turn_exn + CommittedTurn) \<times> 'w" where
  "TurnCommitRepository_commit dumps canon sha256 client a lease_owner w = (case client of
     None \<Rightarrow> (Inl persistence_error, w)
   | Some c \<Rightarrow> (case validate_lease_owner lease_owner of
       Inl e \<Rightarrow> (Inl (Raised (CommitExn e)), w)
     | Inr _ \<Rightarrow> (case commit_turn dumps canon sha256 (unwrapping_rpc c) a lease_owner w of
         (r, w') \<Rightarrow> (with_error sanitize_commit_exn r, w'))))"

section \<open>Replaying\<close>

datatype ReplayOutcome = Completed CommittedTurn | RequestInProgress | RequestReplayUnavailable

definition parse_replay_committed_turn_result ::
    "(pyobj \<Rightarrow> pystr option) \<Rightarrow> pyobj \<Rightarrow> commit_exn + ReplayOutcome" where
  "parse_replay_committed_turn_result dumps result = (case as_mapping result of
     None \<Rightarrow> Inl (ValidationError (u ''invalid_rpc_result''))
   | Some d \<Rightarrow>
       if has_key d (u ''error'') then Inl (parse_error_envelope (dict_get d (u ''error'')))
       else (let status = dict_get d (u ''status'') in
         if status \<noteq> PNone then
           (if unhashable status then Inl CommitTypeError
            else if status = PStr (u ''request_in_progress'') then Inr RequestInProgress
            else if status = PStr (u ''request_replay_unavailable'') then Inr RequestReplayUnavailable
            else Inl (ValidationError (u ''invalid_rpc_result'')))
         else rbind (parse_commit_turn_result dumps result) (\<lambda>t. Inr (Completed t))))"

definition TurnReplayRepository_replay ::
    "(pyobj \<Rightarrow> pystr option) \<Rightarrow> 'w client option \<Rightarrow> pystr \<Rightarrow> pystr \<Rightarrow> 'w \<Rightarrow> (repo_exn turn_exn + ReplayOutcome) \<times> 'w" where
  "TurnReplayRepository_replay dumps client user_id request w = (case client of
     None \<Rightarrow> (Inl persistence_error, w)
   | Some c \<Rightarrow> (case cl_rpc c (u ''replay_committed_turn'')
         [(u ''p_authenticated_user_id'', PStr user_id), (u ''p_request_id'', PStr request)] w of
       (None, w') \<Rightarrow> (Inl persistence_error, w')
     | (Some data, w') \<Rightarrow>
         (with_error (\<lambda>e. Raised (CommitExn e))
            (rbind (unwrap_rpc_data data) (parse_replay_committed_turn_result dumps)), w')))"

end
