(* ===== verification/Provider_Envelope.thy ===== *)
theory Provider_Envelope
  imports Admission_Contracts
begin

text \<open>
  \<open>backend/provider_envelope.py\<close>: estimation and validation of the messages sent to the provider, truncation of
  a text at UTF-8 boundaries, and the selection of optional context that fits the budget.  The canonical JSON
  text of the messages is a parameter (\<open>canon\<close>; \<open>None\<close> is its \<open>TypeError\<close> or \<open>ValueError\<close>).
\<close>

section \<open>Constants and errors\<close>

definition VALID_ROLES :: "pystr list" where
  "VALID_ROLES = map u [''system'', ''user'', ''assistant'']"

definition VALID_MESSAGE_KEYS :: "pystr list" where
  "VALID_MESSAGE_KEYS = map u [''role'', ''content'']"

definition OMISSION_MARKER :: pystr where
  "OMISSION_MARKER = u ''[...]''"

datatype envelope_exn =
    ProviderEnvelopeError (pe_code: pystr) (pe_actual_units: nat) (pe_max_units: int)
  | EnvelopeTypeError
  | EnvelopeValueError
  | EnvelopeUnicodeError

definition envelope_error :: "string \<Rightarrow> envelope_exn" where
  "envelope_error code = ProviderEnvelopeError (u code) 0 0"

fun adm_error :: "adm_exn \<Rightarrow> envelope_exn" where
  "adm_error UnicodeEncodeError = EnvelopeUnicodeError"
| "adm_error _ = EnvelopeTypeError"

fun is_envelope_error :: "envelope_exn \<Rightarrow> bool" where
  "is_envelope_error (ProviderEnvelopeError c a m) = True"
| "is_envelope_error _ = False"

section \<open>Estimation and validation\<close>

definition estimate_provider_input_units :: "(pyobj \<Rightarrow> pystr option) \<Rightarrow> pyobj \<Rightarrow> envelope_exn + nat" where
  "estimate_provider_input_units canon messages = (case messages of
     PList ms \<Rightarrow> (case canon messages of
       None \<Rightarrow> Inl (envelope_error ''serialization_failed'')
     | Some serialized \<Rightarrow> with_error adm_error (estimate_text_units (PStr serialized)))
   | _ \<Rightarrow> Inl (envelope_error ''invalid_envelope_type''))"

definition validate_message :: "pyobj \<Rightarrow> envelope_exn + unit" where
  "validate_message msg = (case msg of
     PDict d \<Rightarrow>
       rbind (guard (unknown_keys d VALID_MESSAGE_KEYS = []) (envelope_error ''invalid_message_keys'')) (\<lambda>_.
       rbind (guard (\<not> unhashable (dict_get d (u ''role''))) EnvelopeTypeError) (\<lambda>_.
       rbind (guard (dict_get d (u ''role'') \<in> PStr ` set VALID_ROLES) (envelope_error ''invalid_role'')) (\<lambda>_.
       guard (is_str (dict_get d (u ''content''))) (envelope_error ''invalid_content''))))
   | _ \<Rightarrow> Inl (envelope_error ''invalid_message_structure''))"

fun validate_messages :: "pyobj list \<Rightarrow> envelope_exn + unit" where
  "validate_messages [] = Inr ()"
| "validate_messages (m # ms) = rbind (validate_message m) (\<lambda>_. validate_messages ms)"

definition validate_provider_input :: "(pyobj \<Rightarrow> pystr option) \<Rightarrow> pyobj \<Rightarrow> int \<Rightarrow> envelope_exn + unit" where
  "validate_provider_input canon messages limit = (case messages of
     PList ms \<Rightarrow>
       rbind (guard (ms \<noteq> []) (envelope_error ''empty_messages'')) (\<lambda>_.
       rbind (validate_messages ms) (\<lambda>_.
       rbind (estimate_provider_input_units canon messages) (\<lambda>units.
       guard (int units \<le> limit) (ProviderEnvelopeError (u ''budget_exceeded'') units limit))))
   | _ \<Rightarrow> Inl (envelope_error ''invalid_envelope_type''))"

section \<open>Truncation\<close>

text \<open>
  \<open>bytes.decode("utf-8", errors="ignore")\<close>: where no character can be decoded, a byte is dropped.  Dropping the
  bytes of an ill-formed sequence one at a time or together gives the same text, since a continuation byte
  starts no character.
\<close>

definition decode_first :: "nat list \<Rightarrow> (nat \<times> nat list) option" where
  "decode_first b = (case List.find (\<lambda>k. k \<le> length b \<and> map_option length (utf8_decode (take k b)) = Some 1) [1, 2, 3, 4] of
     None \<Rightarrow> None
   | Some k \<Rightarrow> map_option (\<lambda>s. (hd s, drop k b)) (utf8_decode (take k b)))"

lemma find_SomeD: "List.find P xs = Some x \<Longrightarrow> P x \<and> x \<in> set xs"
  by (metis find_Some_iff nth_mem)

lemma decode_first_shorter:
  assumes "decode_first b = Some (c, r)"
  shows "length r < length b"
proof -
  obtain k where k: "List.find (\<lambda>k. k \<le> length b \<and> map_option length (utf8_decode (take k b)) = Some 1) [1, 2, 3, 4] = Some k"
    and r: "r = drop k b"
    using assms by (auto simp: decode_first_def split: option.splits)
  have "k \<le> length b" "1 \<le> k" using find_SomeD [OF k] by auto
  then show ?thesis using r by simp
qed

function utf8_decode_ignore :: "nat list \<Rightarrow> pystr" where
  "utf8_decode_ignore b = (case b of [] \<Rightarrow> []
     | x # r \<Rightarrow> (case decode_first b of
         None \<Rightarrow> utf8_decode_ignore r
       | Some (c, r') \<Rightarrow> c # utf8_decode_ignore r'))"
  by auto

termination
  by (relation "measure length") (auto dest: decode_first_shorter)

declare utf8_decode_ignore.simps [simp del]

definition truncate_utf8_safe :: "pystr \<Rightarrow> int \<Rightarrow> envelope_exn + (pystr \<times> bool)" where
  "truncate_utf8_safe text max_bytes = (case utf8_encode text of
     None \<Rightarrow> Inl EnvelopeUnicodeError
   | Some encoded \<Rightarrow>
       if int (length encoded) \<le> max_bytes then Inr (text, False)
       else (let available = max (max_bytes - int (length OMISSION_MARKER)) 1;
                 truncated = utf8_decode_ignore (take (nat available) encoded)
             in Inr (truncated @ OMISSION_MARKER, True)))"

text \<open>The loop that shortens the tail; a text whose head cannot be encoded is never reached.\<close>

function shrink_tail :: "pystr \<Rightarrow> pystr \<Rightarrow> int \<Rightarrow> pystr" where
  "shrink_tail head tail max_bytes =
     (let r = head @ OMISSION_MARKER @ tail in
      if (case utf8_encode r of None \<Rightarrow> False | Some b \<Rightarrow> int (length b) > max_bytes) \<and> tail \<noteq> []
      then shrink_tail head (butlast tail) max_bytes else r)"
  by pat_completeness auto

termination
  by (relation "measure (\<lambda>(h, t, m). length t)") auto

declare shrink_tail.simps [simp del]

definition truncate_utf8_safe_head_tail :: "pystr \<Rightarrow> int \<Rightarrow> rat \<Rightarrow> envelope_exn + (pystr \<times> bool)" where
  "truncate_utf8_safe_head_tail text max_bytes head_ratio = (case utf8_encode text of
     None \<Rightarrow> Inl EnvelopeUnicodeError
   | Some encoded \<Rightarrow>
       if int (length encoded) \<le> max_bytes then Inr (text, False)
       else (let marker_bytes = int (length OMISSION_MARKER) in
         if max_bytes < marker_bytes + 4 then truncate_utf8_safe text max_bytes
         else (let total_data = max_bytes - marker_bytes;
                   head_bytes = max 1 \<lfloor>fmul (of_int total_data) head_ratio\<rfloor>;
                   tail_bytes = max 1 (total_data - head_bytes);
                   head = utf8_decode_ignore (take (nat head_bytes) encoded);
                   tail = utf8_decode_ignore (drop (length encoded - nat tail_bytes) encoded)
               in Inr (shrink_tail head tail max_bytes, True))))"

section \<open>Selection of optional context\<close>

definition message :: "string \<Rightarrow> pystr \<Rightarrow> pyobj" where
  "message role content = PDict [(PStr (u ''role''), PStr (u role)), (PStr (u ''content''), PStr content)]"

definition msg_get :: "pyobj \<Rightarrow> string \<Rightarrow> pyobj" where
  "msg_get msg k = (case msg of PDict d \<Rightarrow> dict_get d (u k) | _ \<Rightarrow> PNone)"

definition msg_content :: "pyobj \<Rightarrow> pystr" where
  "msg_content msg = (case msg_get msg ''content'' of PStr s \<Rightarrow> s | _ \<Rightarrow> [])"

definition is_system :: "pyobj \<Rightarrow> bool" where
  "is_system msg \<longleftrightarrow> msg_get msg ''role'' = PStr (u ''system'')"

fun find_index :: "('a \<Rightarrow> bool) \<Rightarrow> 'a list \<Rightarrow> nat option" where
  "find_index P [] = None"
| "find_index P (x # xs) = (if P x then Some 0 else map_option Suc (find_index P xs))"

definition append_to_system :: "pyobj list \<Rightarrow> pystr \<Rightarrow> envelope_exn + pyobj list" where
  "append_to_system messages payload = (case find_index is_system messages of
     None \<Rightarrow> Inl (envelope_error ''no_system_message'')
   | Some i \<Rightarrow> Inr (messages[i := message ''system'' (msg_content (messages ! i) @ payload)]))"

definition estimate_remaining_budget ::
    "(pyobj \<Rightarrow> pystr option) \<Rightarrow> pyobj list \<Rightarrow> int \<Rightarrow> pystr \<Rightarrow> envelope_exn + int" where
  "estimate_remaining_budget canon messages limit suffix_payload =
     rbind (estimate_provider_input_units canon (PList messages)) (\<lambda>units.
     rbind (if suffix_payload \<noteq> [] then with_error adm_error (estimate_text_units (PStr suffix_payload)) else Inr 0)
       (\<lambda>suffix_units. Inr (max 0 (limit - int units - int suffix_units))))"

definition validate_selection_priority :: "int list \<Rightarrow> nat \<Rightarrow> envelope_exn + unit" where
  "validate_selection_priority priority n = guard (sort priority = map int [0..<n]) EnvelopeValueError"

record ContextFitResult =
  cf_messages :: "pyobj list"
  cf_selected_indices :: "nat set"
  cf_pruned :: bool

text \<open>
  The content of the system message: the mandatory header, the contents of the selected components in visual
  order, each on a new line, and the suffix.
\<close>

definition built_content :: "pystr \<Rightarrow> pystr list \<Rightarrow> pystr \<Rightarrow> pystr" where
  "built_content header contents suffix_payload = header @ concat (map (\<lambda>c. 10 # c) contents) @ suffix_payload"

definition selected_contents :: "(pystr \<times> pystr) list \<Rightarrow> nat set \<Rightarrow> pystr list" where
  "selected_contents comps sel = map (\<lambda>i. snd (comps ! i)) (filter (\<lambda>i. i \<in> sel) [0..<length comps])"

text \<open>One candidate: the messages that are validated and, on success, the messages that are kept, without the suffix.\<close>

definition try_messages ::
    "(pyobj \<Rightarrow> pystr option) \<Rightarrow> int \<Rightarrow> nat \<Rightarrow> pystr \<Rightarrow> pyobj list \<Rightarrow> pystr \<Rightarrow> envelope_exn + pyobj list" where
  "try_messages canon limit sys suffix_payload current built =
     rbind (validate_provider_input canon (PList (current[sys := message ''system'' built])) limit) (\<lambda>_.
     Inr (current[sys := message ''system'' (take (length built - length suffix_payload) built)]))"

definition fit_step ::
    "(pyobj \<Rightarrow> pystr option) \<Rightarrow> int \<Rightarrow> bool \<Rightarrow> (pystr \<times> pystr) list \<Rightarrow> nat \<Rightarrow> pystr \<Rightarrow> pystr \<Rightarrow> nat
     \<Rightarrow> nat set \<times> pyobj list \<Rightarrow> envelope_exn + (nat set \<times> pyobj list)" where
  "fit_step canon limit truncate_long comps sys header suffix_payload idx st = (case st of (sel, current) \<Rightarrow>
     (let content = snd (comps ! idx); sel' = insert idx sel in
      if content = [] then Inr (sel, current)
      else case try_messages canon limit sys suffix_payload current
                  (built_content header (selected_contents comps sel') suffix_payload) of
        Inr ms \<Rightarrow> Inr (sel', ms)
      | Inl e \<Rightarrow>
          if \<not> is_envelope_error e then Inl e
          else if \<not> truncate_long then Inr (sel - {idx}, current)
          else rbind (estimate_remaining_budget canon current limit suffix_payload) (\<lambda>remaining.
            if remaining \<le> 0 then Inr (sel - {idx}, current)
            else rbind (truncate_utf8_safe content remaining) (\<lambda>(truncated, _).
              if truncated = content then Inr (sel - {idx}, current)
              else case try_messages canon limit sys suffix_payload current
                     (built_content header
                        (selected_contents (comps[idx := (fst (comps ! idx), truncated)]) sel') suffix_payload) of
                Inr ms \<Rightarrow> Inr (sel', ms)
              | Inl e' \<Rightarrow> if is_envelope_error e' then Inr (sel - {idx}, current) else Inl e'))))"

fun fit_loop ::
    "(pyobj \<Rightarrow> pystr option) \<Rightarrow> int \<Rightarrow> bool \<Rightarrow> (pystr \<times> pystr) list \<Rightarrow> nat \<Rightarrow> pystr \<Rightarrow> pystr \<Rightarrow> nat list
     \<Rightarrow> nat set \<times> pyobj list \<Rightarrow> envelope_exn + (nat set \<times> pyobj list)" where
  "fit_loop canon limit tr comps sys header sp [] st = Inr st"
| "fit_loop canon limit tr comps sys header sp (i # is) st =
     rbind (fit_step canon limit tr comps sys header sp i st) (fit_loop canon limit tr comps sys header sp is)"

definition suffix_payload_of :: "pystr \<Rightarrow> pystr" where
  "suffix_payload_of suffix = (if suffix \<noteq> [] then [10, 10] @ suffix else [])"

definition fit_optional_context_impl ::
    "(pyobj \<Rightarrow> pystr option) \<Rightarrow> pyobj list \<Rightarrow> (pystr \<times> pystr) list \<Rightarrow> int \<Rightarrow> bool \<Rightarrow> pystr \<Rightarrow> int list option
     \<Rightarrow> envelope_exn + ContextFitResult" where
  "fit_optional_context_impl canon mandatory comps limit truncate_long suffix priority =
     (let suffix_payload = suffix_payload_of suffix in
      if comps = [] then
        rbind (if suffix \<noteq> []
               then rbind (append_to_system mandatory suffix_payload) (\<lambda>ms.
                    rbind (validate_provider_input canon (PList ms) limit) (\<lambda>_. Inr ms))
               else Inr mandatory) (\<lambda>ms.
        Inr \<lparr>cf_messages = ms, cf_selected_indices = {}, cf_pruned = False\<rparr>)
      else case find_index is_system mandatory of
        None \<Rightarrow> Inl (envelope_error ''no_system_message'')
      | Some sys \<Rightarrow>
          rbind (case priority of
                   None \<Rightarrow> Inr [0..<length comps]
                 | Some p \<Rightarrow> rbind (validate_selection_priority p (length comps)) (\<lambda>_. Inr (map nat p))) (\<lambda>order.
          rbind (fit_loop canon limit truncate_long comps sys (msg_content (mandatory ! sys)) suffix_payload order
                   ({}, mandatory)) (\<lambda>(sel, current).
          rbind (if suffix \<noteq> []
                 then rbind (append_to_system current suffix_payload) (\<lambda>ms.
                      rbind (validate_provider_input canon (PList ms) limit) (\<lambda>_. Inr ms))
                 else Inr current) (\<lambda>ms.
          Inr \<lparr>cf_messages = ms, cf_selected_indices = sel, cf_pruned = (card sel < length comps)\<rparr>))))"

definition fit_optional_context ::
    "(pyobj \<Rightarrow> pystr option) \<Rightarrow> pyobj \<Rightarrow> (pystr \<times> pystr) list \<Rightarrow> int \<Rightarrow> bool \<Rightarrow> pystr \<Rightarrow> int list option
     \<Rightarrow> envelope_exn + ContextFitResult" where
  "fit_optional_context canon mandatory comps limit truncate_long suffix priority =
     rbind (validate_provider_input canon mandatory limit) (\<lambda>_. (case mandatory of
       PList ms \<Rightarrow> fit_optional_context_impl canon ms comps limit truncate_long suffix priority
     | _ \<Rightarrow> Inl (envelope_error ''invalid_envelope_type'')))"

section \<open>Truncation never splits a character\<close>

text \<open>The longest prefix of a text whose encoding fits in \<open>n\<close> bytes.\<close>

fun take_fit :: "nat \<Rightarrow> pystr \<Rightarrow> pystr" where
  "take_fit n [] = []"
| "take_fit n (c # s) = (if length (utf8_char c) \<le> n then c # take_fit (n - length (utf8_char c)) s else [])"

lemma utf8_char_cont: "x \<in> set (tl (utf8_char c)) \<Longrightarrow> cont x"
  by (auto simp: utf8_char_def cont_def split: if_splits)

lemma char_prefix_undecodable:
  assumes "scalar c" and "0 < k" and "k < length (utf8_char c)"
  shows "utf8_decode (take k (utf8_char c)) = None"
proof -
  consider "c < 128" | "128 \<le> c" "c < 2048" | "2048 \<le> c" "c < 65536" | "65536 \<le> c" "c < 1114112"
    using assms(1) by (auto simp: scalar_def) linarith+
  then show ?thesis
  proof cases
    case 1
    then show ?thesis using assms by (simp add: utf8_char_def)
  next
    case 2
    then have "2 \<le> c div 64" "c div 64 < 32" by auto
    moreover have "k = 1" using 2 assms by (simp add: utf8_char_def)
    ultimately show ?thesis using 2 by (simp add: utf8_char_def)
  next
    case 3
    then have "c div 4096 < 16" by auto
    moreover have "k = 1 \<or> k = 2" using 3 assms by (auto simp: utf8_char_def)
    ultimately show ?thesis using 3 by (auto simp: utf8_char_def numeral_2_eq_2)
  next
    case 4
    then have "c div 262144 < 5" by auto
    moreover have "k = 1 \<or> k = 2 \<or> k = 3" using 4 assms by (auto simp: utf8_char_def)
    ultimately show ?thesis using 4 by (auto simp: utf8_char_def numeral_2_eq_2 numeral_3_eq_3)
  qed
qed

lemma decode_first_char:
  assumes "scalar c"
  shows "decode_first (utf8_char c @ r) = Some (c, r)"
proof -
  define n where "n = length (utf8_char c)"
  have n: "n = 1 \<or> n = 2 \<or> n = 3 \<or> n = 4" unfolding n_def utf8_char_def by simp
  have d: "utf8_decode (take n (utf8_char c @ r)) = Some [c]"
    using decode_char [OF assms, of "[]"] by (simp add: n_def)
  have p: "utf8_decode (take k (utf8_char c @ r)) = None" if "0 < k" "k < n" for k
    using char_prefix_undecodable [OF assms, of k] that by (simp add: n_def)
  have "List.find (\<lambda>k. k \<le> length (utf8_char c @ r) \<and> map_option length (utf8_decode (take k (utf8_char c @ r))) = Some 1)
      [1, 2, 3, 4] = Some n"
    using n d p [of 1] p [of 2] p [of 3] by (elim disjE) (simp_all add: n_def [symmetric])
  then show ?thesis using d by (simp add: decode_first_def n_def)
qed

lemma decode_first_None:
  assumes "\<And>k. 0 < k \<Longrightarrow> utf8_decode (take k b) = None"
  shows "decode_first b = None"
proof -
  have "List.find (\<lambda>k. k \<le> length b \<and> map_option length (utf8_decode (take k b)) = Some 1) [1, 2, 3, 4] = None"
    using assms by (simp add: find_None_iff)
  then show ?thesis by (simp add: decode_first_def)
qed

lemma decode_first_cont: "cont x \<Longrightarrow> decode_first (x # r) = None"
proof (rule decode_first_None)
  show "cont x \<Longrightarrow> 0 < k \<Longrightarrow> utf8_decode (take k (x # r)) = None" for k
    by (cases k) (auto simp: cont_def)
qed

lemma decode_ignore_Nil [simp]: "utf8_decode_ignore [] = []"
  by (simp add: utf8_decode_ignore.simps)

lemma decode_ignore_cont: "cont x \<Longrightarrow> utf8_decode_ignore (x # r) = utf8_decode_ignore r"
  by (subst utf8_decode_ignore.simps) (simp add: decode_first_cont)

lemma decode_ignore_conts: "list_all cont p \<Longrightarrow> utf8_decode_ignore (p @ r) = utf8_decode_ignore r"
  by (induction p) (simp_all add: decode_ignore_cont)

lemma decode_ignore_char:
  assumes "scalar c"
  shows "utf8_decode_ignore (utf8_char c @ r) = c # utf8_decode_ignore r"
proof -
  obtain x p where "utf8_char c @ r = x # p" using utf8_char_length(1) [of c] by (cases "utf8_char c") auto
  then show ?thesis
    using decode_first_char [OF assms, of r] by (subst utf8_decode_ignore.simps) simp
qed

lemma decode_ignore_partial:
  assumes "scalar c" and "k < length (utf8_char c)"
  shows "utf8_decode_ignore (take k (utf8_char c)) = []"
proof (cases "k = 0")
  case False
  have "utf8_decode (take j (take k (utf8_char c))) = None" if "0 < j" for j
    using char_prefix_undecodable [OF assms(1), of "min j k"] assms(2) that False by (simp add: min_def split: if_splits)
  then have f: "decode_first (take k (utf8_char c)) = None" by (rule decode_first_None)
  obtain x p where e: "utf8_char c = x # p" using utf8_char_length(1) [of c] by (cases "utf8_char c") auto
  obtain j where j: "k = Suc j" using False by (cases k) auto
  have "list_all cont p" using utf8_char_cont [of _ c] e by (auto simp: list_all_iff)
  then have "list_all cont (take j p)" by (auto simp: list_all_iff dest: in_set_takeD)
  then have "utf8_decode_ignore (take j p) = []" using decode_ignore_conts [of "take j p" "[]"] by simp
  with f show ?thesis by (subst utf8_decode_ignore.simps) (simp add: e j)
qed simp

lemma decode_ignore_take:
  assumes "utf8_encode s = Some b"
  shows "utf8_decode_ignore (take n b) = take_fit n s"
proof -
  have "list_all scalar s \<Longrightarrow> utf8_decode_ignore (take n (concat (map utf8_char s))) = take_fit n s"
    by (induction s arbitrary: n) (auto simp: decode_ignore_char decode_ignore_partial)
  then show ?thesis using assms by (auto simp: utf8_encode_def split: if_splits)
qed

lemma take_fit_prefix: "\<exists>t. s = take_fit n s @ t"
  by (induction n s rule: take_fit.induct) auto

lemma take_fit_length: "length (concat (map utf8_char (take_fit n s))) \<le> n"
  by (induction n s rule: take_fit.induct) auto

lemma decode_ignore_full: "list_all scalar s \<Longrightarrow> utf8_decode_ignore (concat (map utf8_char s)) = s"
  by (induction s) (simp_all add: decode_ignore_char)

text \<open>The end of the encoding decodes to an end of the text.\<close>

lemma decode_ignore_drop:
  assumes "utf8_encode s = Some b"
  shows "\<exists>p t. s = p @ t \<and> utf8_decode_ignore (drop n b) = t \<and> length (concat (map utf8_char t)) \<le> length b - n"
proof -
  have "list_all scalar s \<Longrightarrow> \<exists>p t. s = p @ t \<and> utf8_decode_ignore (drop n (concat (map utf8_char s))) = t
      \<and> length (concat (map utf8_char t)) \<le> length (concat (map utf8_char s)) - n"
  proof (induction s arbitrary: n)
    case (Cons c s)
    let ?l = "length (utf8_char c)"
    consider "n = 0" | "0 < n" "n \<le> ?l" | "?l < n" by linarith
    then show ?case
    proof cases
      case 1
      have "utf8_decode_ignore (concat (map utf8_char s)) = s"
        using Cons.prems decode_ignore_full by simp
      then show ?thesis using Cons.prems 1 by (intro exI [of _ "[]"] exI [of _ "c # s"]) (simp add: decode_ignore_char)
    next
      case 2
      have "list_all cont (drop n (utf8_char c))"
        using 2 utf8_char_cont [of _ c] by (cases n; cases "utf8_char c") (auto simp: list_all_iff dest: in_set_dropD)
      then have "utf8_decode_ignore (drop n (concat (map utf8_char (c # s)))) = s"
        using 2 Cons.prems decode_ignore_full by (simp add: decode_ignore_conts)
      then show ?thesis using 2 by (intro exI [of _ "[c]"] exI [of _ s]) simp
    next
      case 3
      have "list_all scalar s" using Cons.prems by simp
      from Cons.IH [OF this, of "n - ?l"]
      obtain p t where "s = p @ t" "utf8_decode_ignore (drop (n - ?l) (concat (map utf8_char s))) = t"
        "length (concat (map utf8_char t)) \<le> length (concat (map utf8_char s)) - (n - ?l)"
        by blast
      then show ?thesis using 3 by (intro exI [of _ "c # p"] exI [of _ t]) auto
    qed
  qed simp
  then show ?thesis using assms by (auto simp: utf8_encode_def split: if_splits)
qed

definition byte_length :: "pystr \<Rightarrow> nat" where
  "byte_length s = length (concat (map utf8_char s))"

lemma byte_length_simps [simp]:
  "byte_length [] = 0" "byte_length (c # s) = length (utf8_char c) + byte_length s"
  "byte_length (s @ t) = byte_length s + byte_length t"
  by (simp_all add: byte_length_def)

lemma byte_length_marker [simp]: "byte_length OMISSION_MARKER = 5" "length OMISSION_MARKER = 5"
  "list_all scalar OMISSION_MARKER"
  by (simp_all add: OMISSION_MARKER_def u_def utf8_char_def scalar_def)

lemma encode_byte_length: "utf8_encode s = Some b \<Longrightarrow> length b = byte_length s \<and> list_all scalar s"
  by (auto simp: utf8_encode_def byte_length_def split: if_splits)

lemma encode_scalar: "list_all scalar s \<Longrightarrow> \<exists>b. utf8_encode s = Some b \<and> length b = byte_length s"
  by (simp add: utf8_encode_def byte_length_def)

lemma shrink_tail_result:
  assumes "list_all scalar head" and "list_all scalar tail"
  shows "\<exists>j. shrink_tail head tail m = head @ OMISSION_MARKER @ take j tail
     \<and> (int (byte_length head) + 5 \<le> m \<longrightarrow> int (byte_length (shrink_tail head tail m)) \<le> m)"
  using assms(2)
proof (induction tail rule: rev_induct)
  case Nil
  show ?case by (intro exI [of _ 0]) (simp add: shrink_tail.simps)
next
  case (snoc x xs)
  let ?r = "head @ OMISSION_MARKER @ xs @ [x]"
  obtain b where b: "utf8_encode ?r = Some b" "length b = byte_length ?r"
    using encode_scalar [of ?r] assms(1) snoc.prems by auto
  show ?case
  proof (cases "int (length b) > m")
    case True
    obtain j where j: "shrink_tail head xs m = head @ OMISSION_MARKER @ take j xs"
      "int (byte_length head) + 5 \<le> m \<longrightarrow> int (byte_length (shrink_tail head xs m)) \<le> m"
      using snoc by auto
    have "shrink_tail head (xs @ [x]) m = shrink_tail head xs m"
      using True b by (subst shrink_tail.simps) simp
    with j show ?thesis by (intro exI [of _ "min j (length xs)"]) (simp add: min_def)
  next
    case False
    then have "shrink_tail head (xs @ [x]) m = ?r" using b by (subst shrink_tail.simps) simp
    with False b show ?thesis by (intro exI [of _ "Suc (length xs)"]) auto
  qed
qed

lemma truncate_cut:
  assumes "utf8_encode text = Some b" and "m < int (length b)"
  shows "truncate_utf8_safe text m = Inr (take_fit (nat (max (m - 5) 1)) text @ OMISSION_MARKER, True)"
  using assms by (simp add: truncate_utf8_safe_def Let_def decode_ignore_take)

section \<open>What the validators accept\<close>

lemma validate_messages_iff: "validate_messages ms = Inr x \<longleftrightarrow> (\<forall>m\<in>set ms. validate_message m = Inr ())"
  by (induction ms) auto

lemma validate_provider_input_iff:
  "validate_provider_input canon (PList ms) limit = Inr x \<longleftrightarrow>
     ms \<noteq> [] \<and> (\<forall>m\<in>set ms. validate_message m = Inr ())
     \<and> (\<exists>n. estimate_provider_input_units canon (PList ms) = Inr n \<and> int n \<le> limit)"
  by (auto simp: validate_provider_input_def validate_messages_iff)

section \<open>The selection\<close>

lemma find_index_Some:
  assumes "find_index P xs = Some i"
  shows "i < length xs" "P (xs ! i)" "\<forall>j<i. \<not> P (xs ! j)"
  using assms by (induction xs arbitrary: i) (auto split: if_splits simp: nth_Cons split: nat.splits)

lemma find_index_update: "find_index P xs = Some i \<Longrightarrow> P x \<Longrightarrow> find_index P (xs[i := x]) = Some i"
  by (induction xs arbitrary: i) (auto split: if_splits)

lemma message_simps [simp]: "is_system (message ''system'' c)" "msg_content (message r c) = c"
  by (simp_all add: is_system_def msg_content_def msg_get_def message_def dict_get_def)

lemma try_messages_iff:
  "try_messages canon limit sys sp current built = Inr ms \<longleftrightarrow>
     validate_provider_input canon (PList (current[sys := message ''system'' built])) limit = Inr ()
     \<and> ms = current[sys := message ''system'' (take (length built - length sp) built)]"
  by (auto simp: try_messages_def)

lemma built_strip: "take (length (built_content h cs sp) - length sp) (built_content h cs sp) = built_content h cs []"
  by (simp add: built_content_def)

text \<open>
  The invariant of the loop: only the system message differs from the mandatory ones; either nothing is
  selected yet, or the messages with the suffix have passed validation; without truncation the content is
  the header with exactly the selected components.
\<close>

definition fit_inv ::
    "(pyobj \<Rightarrow> pystr option) \<Rightarrow> int \<Rightarrow> bool \<Rightarrow> (pystr \<times> pystr) list \<Rightarrow> nat \<Rightarrow> pyobj list \<Rightarrow> pystr \<Rightarrow> nat set \<times> pyobj list \<Rightarrow> bool" where
  "fit_inv canon limit tr comps sys mandatory sp st \<longleftrightarrow> (case st of (sel, current) \<Rightarrow>
     sel \<subseteq> {i. i < length comps \<and> snd (comps ! i) \<noteq> []}
     \<and> (sel = {} \<and> current = mandatory
        \<or> (\<exists>cs. current = mandatory[sys := message ''system'' (built_content (msg_content (mandatory ! sys)) cs [])]
            \<and> validate_provider_input canon (PList (mandatory[sys := message ''system''
                 (built_content (msg_content (mandatory ! sys)) cs sp)])) limit = Inr ()
            \<and> (\<not> tr \<longrightarrow> cs = selected_contents comps sel))))"

lemma fit_inv_add:
  assumes inv: "fit_inv canon limit tr comps sys mandatory sp (sel, current)"
    and t: "try_messages canon limit sys sp current (built_content (msg_content (mandatory ! sys)) cs sp) = Inr ms"
    and cs: "\<not> tr \<Longrightarrow> cs = selected_contents comps (insert idx sel)"
    and i: "idx < length comps" "snd (comps ! idx) \<noteq> []"
  shows "fit_inv canon limit tr comps sys mandatory sp (insert idx sel, ms)"
proof -
  have upd: "current[sys := x] = mandatory[sys := x]" for x
    using inv unfolding fit_inv_def by auto
  have "ms = mandatory[sys := message ''system'' (built_content (msg_content (mandatory ! sys)) cs [])]"
    and "validate_provider_input canon (PList (mandatory[sys := message ''system''
           (built_content (msg_content (mandatory ! sys)) cs sp)])) limit = Inr ()"
    using t unfolding try_messages_iff upd built_strip by blast+
  moreover have "insert idx sel \<subseteq> {i. i < length comps \<and> snd (comps ! i) \<noteq> []}"
    using inv i unfolding fit_inv_def by auto
  ultimately show ?thesis using cs unfolding fit_inv_def by blast
qed

lemma fit_step_cases:
  assumes step: "fit_step canon limit tr comps sys header sp idx (sel, current) = Inr st'" and fresh: "idx \<notin> sel"
  shows "st' = (sel, current)
     \<or> (\<exists>cs ms. st' = (insert idx sel, ms) \<and> snd (comps ! idx) \<noteq> [] \<and> (\<not> tr \<longrightarrow> cs = selected_contents comps (insert idx sel))
          \<and> try_messages canon limit sys sp current (built_content header cs sp) = Inr ms)"
proof (cases "snd (comps ! idx) = []")
  case True
  then show ?thesis using step by (simp add: fit_step_def)
next
  case ne: False
  have f: "sel - {idx} = sel" using fresh by simp
  let ?b = "built_content header (selected_contents comps (insert idx sel)) sp"
  show ?thesis
  proof (cases "try_messages canon limit sys sp current ?b")
    case (Inr ms)
    then have "st' = (insert idx sel, ms)" using step ne by (simp add: fit_step_def Let_def)
    with Inr ne show ?thesis by blast
  next
    case (Inl e)
    show ?thesis
    proof (cases "tr \<and> is_envelope_error e")
      case False
      then show ?thesis using step ne Inl f by (auto simp: fit_step_def Let_def split: if_splits)
    next
      case True
      then obtain remaining where r: "(if remaining \<le> 0 then Inr (sel - {idx}, current)
          else rbind (truncate_utf8_safe (snd (comps ! idx)) remaining) (\<lambda>(truncated, _).
              if truncated = snd (comps ! idx) then Inr (sel - {idx}, current)
              else case try_messages canon limit sys sp current (built_content header
                     (selected_contents (comps[idx := (fst (comps ! idx), truncated)]) (insert idx sel)) sp) of
                Inr ms \<Rightarrow> Inr (insert idx sel, ms)
              | Inl e' \<Rightarrow> if is_envelope_error e' then Inr (sel - {idx}, current) else Inl e')) = Inr st'"
        using step ne Inl by (auto simp: fit_step_def Let_def)
      then consider "st' = (sel - {idx}, current)"
        | truncated ms where "st' = (insert idx sel, ms)" "try_messages canon limit sys sp current (built_content header
                     (selected_contents (comps[idx := (fst (comps ! idx), truncated)]) (insert idx sel)) sp) = Inr ms"
        by (auto split: if_splits sum.splits)
      then show ?thesis using ne True f by cases auto
    qed
  qed
qed

lemma fit_loop_inv:
  assumes "fit_inv canon limit tr comps sys mandatory sp st" and "set order \<subseteq> {..<length comps}" and "distinct order"
    and "fst st \<inter> set order = {}"
    and "fit_loop canon limit tr comps sys (msg_content (mandatory ! sys)) sp order st = Inr st'"
  shows "fit_inv canon limit tr comps sys mandatory sp st'"
  using assms
proof (induction order arbitrary: st)
  case (Cons i order)
  obtain sel current where st: "st = (sel, current)" by (cases st)
  obtain st1 where s1: "fit_step canon limit tr comps sys (msg_content (mandatory ! sys)) sp i (sel, current) = Inr st1"
    and l: "fit_loop canon limit tr comps sys (msg_content (mandatory ! sys)) sp order st1 = Inr st'"
    using Cons.prems(5) st by auto
  have i: "i < length comps" "i \<notin> sel" using Cons.prems st by auto
  have "fit_inv canon limit tr comps sys mandatory sp st1 \<and> fst st1 \<subseteq> insert i sel"
    using fit_step_cases [OF s1 i(2)] Cons.prems(1) fit_inv_add i(1) unfolding st by fastforce
  then show ?case using Cons.IH [of st1] Cons.prems l st by auto
qed simp

text \<open>The suffix is appended and the messages validated, when there is a suffix.\<close>

definition finish_fit :: "(pyobj \<Rightarrow> pystr option) \<Rightarrow> int \<Rightarrow> pystr \<Rightarrow> pyobj list \<Rightarrow> envelope_exn + pyobj list" where
  "finish_fit canon limit suffix current =
     (if suffix \<noteq> []
      then rbind (append_to_system current (suffix_payload_of suffix)) (\<lambda>ms.
           rbind (validate_provider_input canon (PList ms) limit) (\<lambda>_. Inr ms))
      else Inr current)"

lemma append_to_system_Some:
  "find_index is_system ms = Some s \<Longrightarrow>
     append_to_system ms p = Inr (ms[s := message ''system'' (msg_content (ms ! s) @ p)])"
  by (simp add: append_to_system_def)

lemma finish_fit_valid:
  assumes "finish_fit canon limit suffix current = Inr ms"
    and "suffix = [] \<Longrightarrow> validate_provider_input canon (PList current) limit = Inr ()"
  shows "validate_provider_input canon (PList ms) limit = Inr ()"
  using assms by (auto simp: finish_fit_def split: if_splits)

lemma finish_fit_messages:
  assumes "finish_fit canon limit suffix current = Inr ms"
  shows "length ms = length current"
    and "find_index is_system current \<noteq> Some i \<Longrightarrow> ms ! i = current ! i"
    and "find_index is_system current = Some s \<Longrightarrow> msg_content (ms ! s) = msg_content (current ! s) @ suffix_payload_of suffix"
  using assms find_index_Some(1) [of is_system current]
  by (auto simp: finish_fit_def append_to_system_def suffix_payload_of_def split: if_splits option.splits)

lemma fit_inv_current:
  assumes inv: "fit_inv canon limit tr comps sys mandatory sp (sel, current)"
    and s: "find_index is_system mandatory = Some sys"
    and v: "validate_provider_input canon (PList mandatory) limit = Inr ()"
  shows "find_index is_system current = Some sys" "length current = length mandatory"
    "i \<noteq> sys \<Longrightarrow> current ! i = mandatory ! i"
    "sp = [] \<Longrightarrow> validate_provider_input canon (PList current) limit = Inr ()"
    "\<not> tr \<Longrightarrow> msg_content (current ! sys) = built_content (msg_content (mandatory ! sys)) (selected_contents comps sel) []"
proof -
  note l = find_index_Some(1) [OF s]
  have e: "selected_contents comps {} = []" by (simp add: selected_contents_def)
  consider "sel = {}" "current = mandatory"
    | cs where "current = mandatory[sys := message ''system'' (built_content (msg_content (mandatory ! sys)) cs [])]"
        "validate_provider_input canon (PList (mandatory[sys := message ''system''
                 (built_content (msg_content (mandatory ! sys)) cs sp)])) limit = Inr ()"
        "\<not> tr \<longrightarrow> cs = selected_contents comps sel"
    using inv unfolding fit_inv_def by auto
  then show "find_index is_system current = Some sys" "length current = length mandatory"
    "i \<noteq> sys \<Longrightarrow> current ! i = mandatory ! i"
    "sp = [] \<Longrightarrow> validate_provider_input canon (PList current) limit = Inr ()"
    "\<not> tr \<Longrightarrow> msg_content (current ! sys) = built_content (msg_content (mandatory ! sys)) (selected_contents comps sel) []"
    using s v l by (cases; simp add: e built_content_def find_index_update)+
qed

lemma priority_order:
  assumes "validate_selection_priority p n = Inr ()"
  shows "set (map nat p) = {..<n}" "distinct (map nat p)"
proof -
  have e: "sort p = map int [0..<n]" using assms by (simp add: validate_selection_priority_def)
  have "set p = int ` {..<n}" by (metis e atLeast0LessThan atLeastLessThan_upt list.set_map set_sort)
  then show "set (map nat p) = {..<n}" by (auto simp: image_iff)
  have "distinct p" by (metis e distinct_map distinct_sort distinct_upt inj_on_of_nat)
  moreover have "inj_on nat (set p)" using \<open>set p = int ` {..<n}\<close> by (auto simp: inj_on_def)
  ultimately show "distinct (map nat p)" by (simp add: distinct_map)
qed

lemma fit_impl_cases:
  assumes "fit_optional_context_impl canon ms comps limit tr suffix priority = Inr r" and "comps \<noteq> []"
    and v: "validate_provider_input canon (PList ms) limit = Inr ()"
  obtains sys current where "find_index is_system ms = Some sys"
    "fit_inv canon limit tr comps sys ms (suffix_payload_of suffix) (cf_selected_indices r, current)"
    "finish_fit canon limit suffix current = Inr (cf_messages r)"
    "cf_pruned r \<longleftrightarrow> card (cf_selected_indices r) < length comps"
proof -
  obtain sys order sel current where s: "find_index is_system ms = Some sys"
    and o: "(case priority of None \<Rightarrow> Inr [0..<length comps]
       | Some p \<Rightarrow> rbind (validate_selection_priority p (length comps)) (\<lambda>_. Inr (map nat p))) = Inr order"
    and l: "fit_loop canon limit tr comps sys (msg_content (ms ! sys)) (suffix_payload_of suffix) order ({}, ms) = Inr (sel, current)"
    and f: "finish_fit canon limit suffix current = Inr (cf_messages r)"
    and r: "cf_selected_indices r = sel" "cf_pruned r \<longleftrightarrow> card sel < length comps"
    using assms(1,2) by (auto simp: fit_optional_context_impl_def finish_fit_def Let_def split: option.splits prod.splits)
  have "set order \<subseteq> {..<length comps} \<and> distinct order"
    using o priority_order by (auto split: option.splits)
  moreover have "fit_inv canon limit tr comps sys ms (suffix_payload_of suffix) ({}, ms)"
    by (simp add: fit_inv_def)
  ultimately have "fit_inv canon limit tr comps sys ms (suffix_payload_of suffix) (sel, current)"
    using fit_loop_inv l by fastforce
  then show ?thesis using that s f r by blast
qed

section \<open>Properties\<close>

text \<open>The messages built by \<open>fit_optional_context\<close> always pass the validation of the provider's input, its
  budget included, with or without truncation and suffix.  No message but the system message changes.  With
  truncation off, the system message is the mandatory header followed by the selected components, whole and
  in visual order whatever the selection priority, and the suffix; only components with content are selected.\<close>

theorem fit_optional_context_fits:
  assumes fit: "fit_optional_context canon (PList ms) comps limit tr suffix priority = Inr r"
  shows "validate_provider_input canon (PList (cf_messages r)) limit = Inr ()
    \<and> length (cf_messages r) = length ms
    \<and> (\<forall>i. find_index is_system ms \<noteq> Some i \<longrightarrow> cf_messages r ! i = ms ! i)
    \<and> cf_selected_indices r \<subseteq> {i. i < length comps \<and> snd (comps ! i) \<noteq> []}
    \<and> (comps \<noteq> [] \<longrightarrow> (\<exists>s. find_index is_system ms = Some s
         \<and> (\<not> tr \<longrightarrow> msg_content (cf_messages r ! s) = built_content (msg_content (ms ! s))
                (selected_contents comps (cf_selected_indices r)) (suffix_payload_of suffix))))"
proof -
  have v: "validate_provider_input canon (PList ms) limit = Inr ()"
    and impl: "fit_optional_context_impl canon ms comps limit tr suffix priority = Inr r"
    using fit by (auto simp: fit_optional_context_def)
  show ?thesis
  proof (cases "comps = []")
    case True
    then have f: "finish_fit canon limit suffix ms = Inr (cf_messages r)" and s: "cf_selected_indices r = {}"
      using impl by (auto simp: fit_optional_context_impl_def finish_fit_def Let_def)
    show ?thesis
      using finish_fit_valid [OF f] finish_fit_messages(1,2) [OF f] v s True by auto
  next
    case False
    obtain sys current where s: "find_index is_system ms = Some sys"
      and i: "fit_inv canon limit tr comps sys ms (suffix_payload_of suffix) (cf_selected_indices r, current)"
      and f: "finish_fit canon limit suffix current = Inr (cf_messages r)"
      using fit_impl_cases [OF impl False v] by blast
    note c = fit_inv_current [OF i s v]
    have "suffix_payload_of suffix = [] \<longleftrightarrow> suffix = []" by (simp add: suffix_payload_of_def)
    then have "validate_provider_input canon (PList (cf_messages r)) limit = Inr ()"
      using finish_fit_valid [OF f] c(4) by blast
    moreover have "cf_selected_indices r \<subseteq> {i. i < length comps \<and> snd (comps ! i) \<noteq> []}"
      using i by (simp add: fit_inv_def)
    ultimately show ?thesis
      using finish_fit_messages [OF f] c s by (auto simp: built_content_def)
  qed
qed

definition sample_canon :: "pyobj \<Rightarrow> pystr option" where
  "sample_canon v = (case v of PList ms \<Rightarrow> Some (concat (map msg_content ms)) | _ \<Rightarrow> None)"

theorem fit_optional_context_fits_witness:
  "\<exists>r. fit_optional_context sample_canon (PList [message ''system'' (u ''ab''), message ''user'' (u ''hi'')])
         [(u ''one'', u ''cccccccc''), (u ''two'', u ''dd'')] 12 False (u ''z'') (Some [0, 1]) = Inr r
     \<and> cf_selected_indices r = {1}
     \<and> msg_content (cf_messages r ! 0) = u ''ab'' @ [10] @ u ''dd'' @ [10, 10] @ u ''z''"
proof -
  let ?f = "fit_optional_context sample_canon (PList [message ''system'' (u ''ab''), message ''user'' (u ''hi'')])
         [(u ''one'', u ''cccccccc''), (u ''two'', u ''dd'')] 12 False (u ''z'') (Some [0, 1])"
  have v: "validate_message (message ''system'' c) = Inr ()" "validate_message (message ''user'' c) = Inr ()" for c
    by (simp_all add: validate_message_def message_def unknown_keys_def VALID_MESSAGE_KEYS_def VALID_ROLES_def dict_get_def)
  obtain r where r: "?f = Inr r" "cf_selected_indices r = {1}"
    by (simp add: fit_optional_context_def fit_optional_context_impl_def fit_step_def try_messages_def
        validate_provider_input_def estimate_provider_input_units_def sample_canon_def v Let_def built_content_def
        selected_contents_def suffix_payload_of_def utf8_encode_ascii append_to_system_def
        validate_selection_priority_def u_def)
  have "find_index is_system [message ''system'' (u ''ab''), message ''user'' (u ''hi'')] = Some 0" by simp
  then have "msg_content (cf_messages r ! 0) = u ''ab'' @ [10] @ u ''dd'' @ [10, 10] @ u ''z''"
    using fit_optional_context_fits [OF r(1)] r(2)
    by (simp add: built_content_def selected_contents_def suffix_payload_of_def)
  with r show ?thesis by blast
qed

text \<open>Truncation never splits a character and keeps what it says.  A text that fits is returned as it is.
  Otherwise \<open>_truncate_utf8_safe\<close> returns a prefix of the text and the marker, within the limit when the limit
  is at least 6 bytes (below 5 bytes the result never fits), and \<open>_truncate_utf8_safe_head_tail\<close> returns a
  prefix, the marker and a part of an end of the text, within the limit from 9 bytes on.\<close>

theorem truncate_keeps_characters:
  assumes e: "utf8_encode text = Some b"
  shows "(int (length b) \<le> m \<longrightarrow> truncate_utf8_safe text m = Inr (text, False)
            \<and> truncate_utf8_safe_head_tail text m q = Inr (text, False))
    \<and> (m < int (length b) \<longrightarrow>
        (\<exists>h t. text = h @ t \<and> truncate_utf8_safe text m = Inr (h @ OMISSION_MARKER, True)
           \<and> (6 \<le> m \<longrightarrow> int (byte_length (h @ OMISSION_MARKER)) \<le> m)
           \<and> (m < 5 \<longrightarrow> m < int (byte_length (h @ OMISSION_MARKER))))
      \<and> (9 \<le> m \<and> m \<le> 2 ^ 53 \<and> 0 \<le> q \<and> q \<le> 1 \<longrightarrow>
          (\<exists>h mid t t'. text = h @ mid \<and> (\<exists>p. text = p @ t @ t')
             \<and> truncate_utf8_safe_head_tail text m q = Inr (h @ OMISSION_MARKER @ t, True)
             \<and> int (byte_length (h @ OMISSION_MARKER @ t)) \<le> m)))"
proof (intro conjI impI)
  show "truncate_utf8_safe text m = Inr (text, False)" "truncate_utf8_safe_head_tail text m q = Inr (text, False)"
    if "int (length b) \<le> m"
    using that e by (simp_all add: truncate_utf8_safe_def truncate_utf8_safe_head_tail_def)
next
  assume m: "m < int (length b)"
  obtain t where "text = take_fit (nat (max (m - 5) 1)) text @ t" using take_fit_prefix by blast
  moreover have "byte_length (take_fit n text) \<le> n" for n unfolding byte_length_def by (rule take_fit_length)
  note this [of "nat (max (m - 5) 1)"]
  ultimately show "\<exists>h t. text = h @ t \<and> truncate_utf8_safe text m = Inr (h @ OMISSION_MARKER, True)
           \<and> (6 \<le> m \<longrightarrow> int (byte_length (h @ OMISSION_MARKER)) \<le> m)
           \<and> (m < 5 \<longrightarrow> m < int (byte_length (h @ OMISSION_MARKER)))"
    using truncate_cut [OF e m] by (intro exI [of _ "take_fit (nat (max (m - 5) 1)) text"] exI [of _ t]) auto
next
  assume m: "m < int (length b)" and q: "9 \<le> m \<and> m \<le> 2 ^ 53 \<and> 0 \<le> q \<and> q \<le> 1"
  define hb where "hb = max 1 \<lfloor>fmul (of_int (m - 5)) q\<rfloor>"
  define n where "n = length b - nat (max 1 (m - 5 - hb))"
  have "fl (of_int (m - 5)) = of_int (m - 5)" by (rule fl_small_int) (use q in auto)
  moreover have "of_int (m - 5) * q \<le> (of_int (m - 5) :: rat)" using q by (intro mult_left_le) auto
  ultimately have "fmul (of_int (m - 5)) q \<le> of_int (m - 5)" unfolding fmul_def by (metis fl_mono)
  then have hb: "1 \<le> hb" "hb \<le> m - 5" using q by (auto simp: hb_def floor_le_iff le_floor_iff)
  obtain mid where h: "text = take_fit (nat hb) text @ mid" using take_fit_prefix by blast
  obtain p t where t: "text = p @ t" "utf8_decode_ignore (drop n b) = t" using decode_ignore_drop [OF e] by blast
  have sc: "list_all scalar text" using e encode_byte_length by blast
  then have "list_all scalar (take_fit (nat hb) text)" "list_all scalar t"
    using h t by (metis list_all_append)+
  from shrink_tail_result [OF this, of m] obtain j where
    j: "shrink_tail (take_fit (nat hb) text) t m = take_fit (nat hb) text @ OMISSION_MARKER @ take j t"
    "int (byte_length (take_fit (nat hb) text)) + 5 \<le> m \<longrightarrow> int (byte_length (shrink_tail (take_fit (nat hb) text) t m)) \<le> m"
    by blast
  have "byte_length (take_fit (nat hb) text) \<le> nat hb" unfolding byte_length_def by (rule take_fit_length)
  then have "int (byte_length (take_fit (nat hb) text)) + 5 \<le> m" using hb by linarith
  moreover have "truncate_utf8_safe_head_tail text m q = Inr (shrink_tail (take_fit (nat hb) text) t m, True)"
    using e m q unfolding t(2) [symmetric]
    by (simp add: truncate_utf8_safe_head_tail_def Let_def hb_def n_def decode_ignore_take)
  moreover have "text = p @ take j t @ drop j t" using t by simp
  ultimately show "\<exists>h mid t t'. text = h @ mid \<and> (\<exists>p. text = p @ t @ t')
             \<and> truncate_utf8_safe_head_tail text m q = Inr (h @ OMISSION_MARKER @ t, True)
             \<and> int (byte_length (h @ OMISSION_MARKER @ t)) \<le> m"
    using j h by metis
qed

theorem truncate_keeps_characters_witness:
  "\<exists>h t. u ''abcdefghij'' = h @ t \<and> truncate_utf8_safe (u ''abcdefghij'') 8 = Inr (h @ OMISSION_MARKER, True)
     \<and> int (byte_length (h @ OMISSION_MARKER)) \<le> 8"
proof -
  have e: "utf8_encode (u ''abcdefghij'') = Some (u ''abcdefghij'')"
    by (rule utf8_encode_ascii) (simp add: u_def)
  show ?thesis
    using truncate_keeps_characters [OF e, of 8 "fl (6/10)", THEN conjunct2, rule_format, THEN conjunct1] by auto
qed

end
