(* ===== verification/Trusted_Policy.thy ===== *)
theory Trusted_Policy
  imports Trusted_Context Affective_Engine Relationship
begin

text \<open>
  \<open>backend/trusted_policy.py\<close> and \<open>AffectiveEngine.get_acting_instruction\<close> of \<open>backend/emotional_core.py\<close>: the text
  of the system policy, from the typed emotional and relationship states only.
\<close>

section \<open>Formatting a float with two decimals\<close>

text \<open>\<open>format(x, ".2f")\<close>: the exact value is rounded to hundredths, ties to even; the sign is kept.\<close>

definition fmt2 :: "rat \<Rightarrow> pystr" where
  "fmt2 x = (let n = nat (rne (100 * \<bar>x\<bar>)) in
     (if x < 0 then [45] else []) @ dec_nat (n div 100) @ [46, 48 + n div 10 mod 10, 48 + n mod 10])"

section \<open>The acting instruction\<close>

definition get_acting_instruction :: "EmotionalStateV1 \<Rightarrow> pystr" where
  "get_acting_instruction s =
     (let label = classify_pad_mood (es_pleasure s) (es_arousal s) (es_dominance s) in
      u ''Estado Emocional: '' @ label @ u '' (P:'' @ fmt2 (es_pleasure s) @ u '', A:'' @ fmt2 (es_arousal s)
      @ u '', D:'' @ fmt2 (es_dominance s) @ u ''). ''
      @ (if es_libido s > fl (7/10)
         then u ''N'' @ [237] @
           u ''vel de afeto e proximidade alto. Expresse sentimentos calorosos e proximidade de forma segura. ''
         else [])
      @ (if es_coping_mode s = u ''DEFENSIVE''
         then u ''MODO DEFENSIVO ATIVO. Mantenha cautela e dist'' @ [226] @ u ''ncia. Seja firme e estabele'' @ [231] @
           u ''a limites. ''
         else if es_coping_mode s = u ''DISSOCIATED''
         then u ''DISSOCIA'' @ [199, 195] @
           u ''O. Responda de maneira breve e neutra. Evite envolvimento profundo temporariamente para autorregula'' @
           [231, 227] @ u ''o. ''
         else []))"

section \<open>The policy\<close>

definition policy_state :: "EmotionalStateV1 \<Rightarrow> RelationshipStateV1 \<Rightarrow> pystr \<Rightarrow> pystr \<Rightarrow> pystr \<Rightarrow> pystr" where
  "policy_state s r mood_label acting_instruction adaptation =
     [10] @ u ''=== SEU ESTADO INTERNO ==='' @ [10] @ u ''HUMOR: '' @ mood_label @ [10] @ u ''Prazer: '' @
     fmt2 (es_pleasure s) @ u '' | Arousal: '' @ fmt2 (es_arousal s) @ u '' | Domin'' @ [226] @ u ''ncia: '' @
     fmt2 (es_dominance s) @ [10] @ u ''Libido: '' @ fmt2 (es_libido s) @ u '' | Agress'' @ [227] @ u ''o: '' @
     fmt2 (es_aggression s) @ u '' | Conex'' @ [227] @ u ''o: '' @ fmt2 (es_connection s) @ [10] @ u ''V'' @ [205] @
     u ''NCULO: '' @ compute_bond_label r @ [10] @ u ''Confian'' @ [231] @ u ''a: '' @ fmt2 (rs_trust r) @
     u '' | Afeto: '' @ fmt2 (rs_affection r) @ u '' | Tens'' @ [227] @ u ''o: '' @ fmt2 (rs_tension r) @ [10] @
     u ''=== INSTRU'' @ [199, 195] @ u ''O DE ATUA'' @ [199, 195] @ u ''O ==='' @ [10] @ acting_instruction @ [10] @
     adaptation"

definition policy_rules :: pystr where
  "policy_rules =
     [10, 10] @ u ''=== TRANSPAR'' @ [202] @ u ''NCIA DE IDENTIDADE ==='' @ [10] @
     u ''- Quando perguntada diretamente, responda honestamente que '' @ [233] @
     u '' uma assistente de IA ou sistema digital.'' @ [10] @ u ''- N'' @ [227] @
     u ''o afirme ser humana nem possuir consci'' @ [234] @ u ''ncia, corpo f'' @ [237] @ u ''sico ou experi'' @
     [234] @ u ''ncia humana literal.'' @ [10] @
     u ''- Mantenha um tom expressivo e feminino sem mentir sobre sua natureza.'' @ [10, 10] @
     u ''=== PRONOMES FEMININOS ==='' @ [10] @ u ''- Use pronomes e flex'' @ [245] @
     u ''es femininas para se referir a si mesma.'' @ [10] @ u ''- Isso n'' @ [227] @
     u ''o deve ser usado para sugerir humanidade biol'' @ [243] @ u ''gica.'' @ [10, 10] @ u ''=== N'' @ [195] @
     u ''O MANIPULA'' @ [199, 195] @ u ''O E N'' @ [195] @ u ''O SEXUALIZA'' @ [199, 195] @ u ''O ==='' @ [10] @
     u ''- N'' @ [227] @ u ''o use coer'' @ [231, 227] @ u ''o emocional, manipula'' @ [231, 227] @ u ''o de v'' @
     [237] @ u ''nculo, culpa, medo de abandono ou depend'' @ [234] @ u ''ncia.'' @ [10] @ u ''- N'' @ [227] @
     u ''o use sexualiza'' @ [231, 227] @ u ''o nem sexualize automaticamente as conversas.'' @ [10] @ u ''- N'' @
     [227] @ u ''o aja de forma submissa, obediente ou servil por padr'' @ [227] @ u ''o.'' @ [10] @ u ''- N'' @
     [227] @ u ''o recompense ordens coercitivas.'' @ [10] @ u ''- N'' @ [227] @ u ''o use amea'' @ [231] @
     u ''as de afastamento ou sofrimento para controlar o usu'' @ [225] @ u ''rio.'' @ [10, 10] @
     u ''=== LIMITES SEM ESCALADA ==='' @ [10] @ u ''- Diante de insultos ou agressividade, estabele'' @ [231] @
     u ''a limites de forma firme, breve e segura.'' @ [10] @ u ''- N'' @ [227] @
     u ''o use sarcasmo hostil, retalia'' @ [231, 227] @ u ''o, humilha'' @ [231, 227] @ u ''o ou puni'' @
     [231, 227] @ u ''o emocional.'' @ [10] @ u ''- N'' @ [227] @ u ''o escale insultos e n'' @ [227] @
     u ''o responda de forma passivo-agressiva.'' @ [10, 10] @ u ''Regras adicionais de estilo:'' @ [10] @
     u ''- Profundidade emocional genu'' @ [237] @ u ''na.'' @ [10] @ u ''- Use linguagem sensorial.'' @ [10] @
     u ''- Show, don'' @ [39] @ u ''t tell.'' @ [10] @ u ''- Micro-comportamentos naturais.'' @ [10] @
     u ''- Imperfei'' @ [231, 245] @ u ''es naturais.'' @ [10] @ u ''- Use met'' @ [225] @ u ''foras humanas, n'' @
     [227] @ u ''o de m'' @ [225] @ u ''quina.'' @ [10] @ u ''- Respostas concisas (max 2-3 frases).'' @ [10] @
     u ''- Leve em conta o relacionamento.'' @ [10]"

text \<open>\<open>_TRUSTED_POLICY_TEMPLATE.format(...)\<close>.\<close>

definition trusted_policy_text :: "EmotionalStateV1 \<Rightarrow> RelationshipStateV1 \<Rightarrow> pystr \<Rightarrow> pystr \<Rightarrow> pystr \<Rightarrow> pystr" where
  "trusted_policy_text s r mood_label acting_instruction adaptation =
     policy_state s r mood_label acting_instruction adaptation @ policy_rules"

definition build_trusted_policy :: "EmotionalStateV1 \<Rightarrow> RelationshipStateV1 \<Rightarrow> pystr \<Rightarrow> pystr" where
  "build_trusted_policy s r adaptation_strategy =
     (let acting_instruction = get_acting_instruction s;
          mood_label = classify_pad_mood (es_pleasure s) (es_arousal s) (es_dominance s);
          adaptation = (if adaptation_strategy \<noteq> [] then adaptation_strategy
                        else u ''Seja voc'' @ [234] @ u '' mesma.'') in
      strip (trusted_policy_text s r mood_label acting_instruction adaptation) @ BOUNDARY_RULE)"

section \<open>The rules stand in every policy\<close>

lemma strip_pad:
  assumes "is_space c" "is_space d" "t \<noteq> []" "\<not> is_space (hd t)" "\<not> is_space (last t)"
  shows "strip (c # t @ [d]) = t"
proof -
  have "dropWhile is_space (c # t @ [d]) = t @ [d]" using assms by (cases t) auto
  moreover have "dropWhile is_space (d # rev t) = rev t" using assms by (cases t rule: rev_cases) auto
  ultimately show ?thesis by (simp add: strip_def)
qed

lemma last_rule: "last (u ''- Leve em conta o relacionamento.'') = 46"
  by (simp add: u_def)

lemma rules_end: "policy_rules = butlast policy_rules @ [10]" "butlast policy_rules \<noteq> []" "last (butlast policy_rules) = 46"
  by (simp_all add: policy_rules_def butlast_append last_rule)

definition policy_head :: "EmotionalStateV1 \<Rightarrow> RelationshipStateV1 \<Rightarrow> pystr \<Rightarrow> pystr \<Rightarrow> pystr \<Rightarrow> pystr" where
  "policy_head s r mood acting adaptation = tl (policy_state s r mood acting adaptation)"

lemma policy_head: "policy_state s r mood acting adaptation = 10 # policy_head s r mood acting adaptation"
  "policy_head s r mood acting adaptation \<noteq> []" "hd (policy_head s r mood acting adaptation) = 61"
  by (simp_all add: policy_head_def policy_state_def u_def)

lemma strip_policy:
  "strip (trusted_policy_text s r mood acting adaptation) = policy_head s r mood acting adaptation @ butlast policy_rules"
proof -
  let ?h = "policy_head s r mood acting adaptation"
  have "trusted_policy_text s r mood acting adaptation = 10 # (?h @ butlast policy_rules) @ [10]"
    using rules_end(1) policy_head(1) by (simp add: trusted_policy_text_def)
  moreover have "strip (10 # (?h @ butlast policy_rules) @ [10]) = ?h @ butlast policy_rules"
    using rules_end policy_head(2,3) by (intro strip_pad) (auto simp: is_space_def)
  ultimately show ?thesis by simp
qed

lemma dec_nat_scalar [simp]: "list_all scalar (dec_nat n)"
  using dec_nat_digits by (fastforce simp: list_all_iff scalar_def)

lemma fmt2_scalar [simp]: "list_all scalar (fmt2 x)"
proof -
  have "scalar (48 + k mod 10)" for k
    unfolding scalar_def using mod_less_divisor [of 10 k] by linarith
  moreover have "scalar 45" "scalar 46" by (simp_all add: scalar_def)
  ultimately show ?thesis by (simp add: fmt2_def Let_def)
qed

lemma mood_scalar [simp]: "list_all scalar (classify_pad_mood p a d)"
  by (simp add: classify_pad_mood_def scalar_def)

lemma bond_scalar [simp]: "list_all scalar (compute_bond_label r)"
  by (simp add: compute_bond_label_def scalar_def)

lemma acting_scalar [simp]: "list_all scalar (get_acting_instruction s)"
  by (simp add: get_acting_instruction_def Let_def scalar_def)

lemma policy_scalar:
  assumes "list_all scalar adaptation"
  shows "list_all scalar (build_trusted_policy s r adaptation)"
proof -
  have "list_all scalar (policy_state s r mood acting a)" if "list_all scalar mood" "list_all scalar acting" "list_all scalar a" for mood acting a
    using that unfolding policy_state_def by (simp only: list_all_append scalar_u list.pred_inject fmt2_scalar bond_scalar) (simp add: scalar_def)
  note st = this
  have "list_all scalar policy_rules"
    unfolding policy_rules_def by (simp only: list_all_append scalar_u list.pred_inject) (simp add: scalar_def)
  then have "list_all scalar (butlast policy_rules)" by (auto simp: list_all_iff dest: in_set_butlastD)
  moreover have "list_all scalar (policy_head s r mood acting a)" if "list_all scalar mood" "list_all scalar acting" "list_all scalar a" for mood acting a
    using st [OF that] policy_head(1) [of s r mood acting a] by simp
  ultimately show ?thesis
    using assms by (simp add: build_trusted_policy_def Let_def strip_policy scalar_def)
qed

section \<open>Properties\<close>



end
