(* ===== verification/Process_Turn.thy ===== *)
theory Process_Turn
  imports Turn_Repositories Trusted_Policy Emotional_Serialization Emotional_Transition Emotion_Presentation
begin

text \<open>
  \<open>backend/process_turn.py\<close>: the use case that loads a user's state, runs the appraisal, the two transitions and the
  generation, and commits the turn with one retry.  Everything outside is a port, a function on the state of
  the world: the clocks, the database client, the context loader, the language model, the generator of
  UUIDs, and the event loop, which decides whether an awaited read ends in time and whether a write is
  cancelled while it runs.  Log lines are omitted.
\<close>

section \<open>Exceptions and ports\<close>

datatype process_exn =
    RepoExn repo_exn
  | CtxExn ctx_exn
  | EmotionalExn domain_error
  | RelationExn RelationshipDomainError
  | PresentationExn presentation_error
  | ProviderExn pystr

datatype await_end = InTime | TimedOut | Cancelled

record 'w ports =
  po_monotonic :: "'w \<Rightarrow> rat \<times> 'w"
  po_clock :: "'w \<Rightarrow> pyfloat \<times> 'w"
  po_await :: "rat \<Rightarrow> 'w \<Rightarrow> await_end \<times> 'w"
  po_cancelled :: "'w \<Rightarrow> bool \<times> 'w"
  po_client :: "'w client option"
  po_load_context :: "pystr \<Rightarrow> pystr \<Rightarrow> pyobj \<Rightarrow> pyobj \<Rightarrow> 'w \<Rightarrow> (process_exn turn_exn + LoadedContextData arg) \<times> 'w"
  po_appraise :: "pystr \<Rightarrow> 'w \<Rightarrow> (process_exn turn_exn + AppraisalV1 arg) \<times> 'w"
  po_generate :: "pyobj list \<Rightarrow> 'w \<Rightarrow> (process_exn turn_exn + pyobj) \<times> 'w"
  po_uuid4 :: "'w \<Rightarrow> pystr \<times> 'w"

text \<open>The pure parameters: JSON texts, SHA-256, timestamps and the power function of the decay.\<close>

record codecs =
  co_dumps :: "pyobj \<Rightarrow> pystr option"
  co_hash_json :: "pyobj \<Rightarrow> pystr option"
  co_canon :: "pyobj \<Rightarrow> pystr option"
  co_sha256 :: "nat list \<Rightarrow> pystr"
  co_iso_utc :: "pystr \<Rightarrow> pystr option"
  co_pow :: "rat \<Rightarrow> rat"

section \<open>Constants, input and result\<close>

definition LEASE_OWNER_PREFIX :: pystr where "LEASE_OWNER_PREFIX = u ''process-turn-v1''"
definition MAX_COMMIT_ATTEMPTS :: nat where "MAX_COMMIT_ATTEMPTS = 2"
definition ARCHIVAL_EVENT_TYPE :: pystr where "ARCHIVAL_EVENT_TYPE = u ''archival_extraction_requested''"

definition new_lease_owner :: "pystr \<Rightarrow> pystr" where
  "new_lease_owner uuid_hex = LEASE_OWNER_PREFIX @ [58] @ uuid_hex"

datatype TurnMode = normal | replay_attempt

record ProcessTurnInput =
  pi_user_id :: pystr
  pi_request_id :: pystr
  pi_user_message :: pystr
  pi_budget :: TurnBudget
  pi_correlation :: pystr
  pi_mode :: TurnMode

definition correlation_ok :: "pystr \<Rightarrow> bool" where
  "correlation_ok s \<longleftrightarrow> length s = 64 \<and> list_all hex_digit s"

text \<open>\<open>None\<close> is the \<open>ValueError\<close> of the constructor.\<close>

definition ProcessTurnInput_init :: "pystr \<Rightarrow> pystr \<Rightarrow> pystr \<Rightarrow> TurnBudget \<Rightarrow> pystr \<Rightarrow> TurnMode \<Rightarrow> ProcessTurnInput option" where
  "ProcessTurnInput_init user request msg budget correlation mode =
     (if correlation_ok correlation
      then Some \<lparr>pi_user_id = user, pi_request_id = request, pi_user_message = msg, pi_budget = budget,
                 pi_correlation = correlation, pi_mode = mode\<rparr> else None)"

record ProcessTurnResult =
  pr_committed :: CommittedTurn
  pr_response :: pystr
  pr_emotion_state :: EmotionStateResponse

record ProcessTurn =
  pt_transition_config :: TransitionConfig
  pt_relationship_config :: RelationshipTransitionConfig
  pt_supabase_timeout :: rat
  pt_archival_extraction_enabled :: bool
  pt_lease_owner :: pystr

section \<open>The public emotion in and out of JSON\<close>

definition PublicPAD_dump :: "PublicPAD \<Rightarrow> pyobj" where
  "PublicPAD_dump p = PDict [(PStr (u ''pleasure''), flt (pp_pleasure p)), (PStr (u ''arousal''), flt (pp_arousal p)),
     (PStr (u ''dominance''), flt (pp_dominance p))]"

definition PublicDominantEmotion_dump :: "PublicDominantEmotion \<Rightarrow> pyobj" where
  "PublicDominantEmotion_dump e = PDict [(PStr (u ''name''), PStr (pd_name e)), (PStr (u ''intensity''), flt (pd_intensity e))]"

definition EmotionStateResponse_dump :: "EmotionStateResponse \<Rightarrow> pyobj" where
  "EmotionStateResponse_dump r = PDict
     [(PStr (u ''schema_version''), PInt (er_schema_version r)), (PStr (u ''mood_label''), PStr (er_mood_label r)),
      (PStr (u ''pad''), PublicPAD_dump (er_pad r)),
      (PStr (u ''dominant_emotions''), PList (map PublicDominantEmotion_dump (er_dominant_emotions r))),
      (PStr (u ''timestamp''), flt (er_timestamp r))]"

text \<open>
  \<open>model_validate\<close>: a mapping with exactly the declared fields, validated field by field; any failure is one
  exception for the caller.
\<close>

definition exact_fields :: "(pyobj \<times> pyobj) list \<Rightarrow> string list \<Rightarrow> bool" where
  "exact_fields d fs \<longleftrightarrow> unknown_keys d (map u fs) = [] \<and> missing_keys d (map u fs) = []"

definition result_option :: "'e + 'a \<Rightarrow> 'a option" where
  "result_option r = (case r of Inl e \<Rightarrow> None | Inr x \<Rightarrow> Some x)"

definition PublicPAD_validate :: "pyobj \<Rightarrow> PublicPAD option" where
  "PublicPAD_validate v = (case as_mapping v of
     None \<Rightarrow> None
   | Some d \<Rightarrow> if exact_fields d [''pleasure'', ''arousal'', ''dominance'']
       then result_option (PublicPAD_init (dict_get d (u ''pleasure'')) (dict_get d (u ''arousal'')) (dict_get d (u ''dominance'')))
       else None)"

definition PublicDominantEmotion_validate :: "pyobj \<Rightarrow> PublicDominantEmotion option" where
  "PublicDominantEmotion_validate v = (case as_mapping v of
     None \<Rightarrow> None
   | Some d \<Rightarrow> if exact_fields d [''name'', ''intensity'']
       then result_option (PublicDominantEmotion_init (dict_get d (u ''name'')) (dict_get d (u ''intensity'')))
       else None)"

definition EmotionStateResponse_validate :: "(pyobj \<times> pyobj) list \<Rightarrow> EmotionStateResponse option" where
  "EmotionStateResponse_validate d =
     (if exact_fields d [''schema_version'', ''mood_label'', ''pad'', ''dominant_emotions'', ''timestamp''] then
        (case (dict_get d (u ''mood_label''), PublicPAD_validate (dict_get d (u ''pad'')),
               Option.bind (as_sequence (dict_get d (u ''dominant_emotions'')))
                 (\<lambda>vs. those (map PublicDominantEmotion_validate vs))) of
           (PStr mood, Some pad, Some emotions) \<Rightarrow>
             result_option (EmotionStateResponse_init (dict_get d (u ''schema_version'')) mood pad emotions (dict_get d (u ''timestamp'')))
         | _ \<Rightarrow> None)
      else None)"

definition invalid_replay :: "process_exn turn_exn" where
  "invalid_replay = Raised (RepoExn (CommitExn (ValidationError (u ''invalid_replay_payload''))))"

definition parse_public_result :: "CommittedTurn \<Rightarrow> process_exn turn_exn + ProcessTurnResult" where
  "parse_public_result committed =
     (let payload = ct_replay_payload committed in
      case (mapping_get payload (u ''response''), as_mapping (mapping_get payload (u ''emotion_state''))) of
        (PStr response, Some raw_emotion) \<Rightarrow> (case EmotionStateResponse_validate raw_emotion of
           None \<Rightarrow> Inl invalid_replay
         | Some emotion \<Rightarrow> Inr \<lparr>pr_committed = committed, pr_response = response, pr_emotion_state = emotion\<rparr>)
      | _ \<Rightarrow> Inl invalid_replay)"

definition build_archival_outbox_event :: "pystr \<Rightarrow> pyobj" where
  "build_archival_outbox_event request = PTuple
     [PStr ARCHIVAL_EVENT_TYPE,
      PDict [(PStr (u ''message_id''), PStr request), (PStr (u ''kind''), PStr (u ''archival'')), (PStr (u ''version''), PInt 1)],
      PStr (u ''archival:'' @ request @ u '':v1'')]"

section \<open>Stages\<close>

text \<open>\<open>run_blocking_read\<close> of an operation on the world.  A read that times out may still run to its end: the
  event loop's answer includes that.\<close>

definition end_of :: "'x turn_exn + 'a \<Rightarrow> ('a, 'x) read_end" where
  "end_of r = (case r of Inl e \<Rightarrow> ReadRaises e | Inr x \<Rightarrow> ReadResult x)"

definition read_stage ::
    "'w ports \<Rightarrow> TurnBudget \<Rightarrow> rat \<Rightarrow> (process_exn \<Rightarrow> bool) \<Rightarrow> ('w \<Rightarrow> (process_exn turn_exn + 'a) \<times> 'w)
     \<Rightarrow> 'w \<Rightarrow> (process_exn turn_exn + 'a) \<times> 'w" where
  "read_stage P b timeout allow f w =
     (let (now, w1) = po_monotonic P w; t = min (remaining_before_reserve b now) timeout in
      if t \<le> 0 then (run_blocking_read b now timeout allow (\<lambda>_. ReadTimesOut), w1)
      else case po_await P t w1 of
        (InTime, w2) \<Rightarrow> (let (r, w3) = f w2 in (run_blocking_read b now timeout allow (\<lambda>_. end_of r), w3))
      | (TimedOut, w2) \<Rightarrow> (run_blocking_read b now timeout allow (\<lambda>_. ReadTimesOut), w2)
      | (Cancelled, w2) \<Rightarrow> (run_blocking_read b now timeout allow (\<lambda>_. ReadCancelled), w2))"

definition worker_end_of :: "'x turn_exn + 'a \<Rightarrow> ('a, 'x) worker_end" where
  "worker_end_of r = (case r of
     Inr x \<Rightarrow> WorkerResult x
   | Inl (TurnExecutionError c) \<Rightarrow> WorkerTurnError c
   | Inl (Raised x) \<Rightarrow> WorkerRaised x
   | Inl CancelledError \<Rightarrow> WorkerTurnError internal_error)"

text \<open>\<open>run_blocking_write\<close> of an operation on the world: the exit of the step relation of the write helper.\<close>

definition write_stage ::
    "'w ports \<Rightarrow> TurnBudget \<Rightarrow> (process_exn \<Rightarrow> bool) \<Rightarrow> ('w \<Rightarrow> (process_exn turn_exn + 'a) \<times> 'w)
     \<Rightarrow> 'w \<Rightarrow> (process_exn turn_exn + 'a) \<times> 'w" where
  "write_stage P b allow f w =
     (let (now, w1) = po_monotonic P w in
      if remaining b now \<le> 0 then (Inl DeadlineExceeded, w1)
      else let (r, w2) = f w1; (cancelled, w3) = po_cancelled P w2 in
           (classify_write allow cancelled (worker_end_of r), w3))"

definition lift_repo :: "repo_exn turn_exn + 'a \<Rightarrow> process_exn turn_exn + 'a" where
  "lift_repo = with_error (map_turn_exn RepoExn)"

fun repo_allowed :: "process_exn \<Rightarrow> bool" where
  "repo_allowed (RepoExn e) = repository_error e"
| "repo_allowed _ = False"

fun is_context_error :: "process_exn \<Rightarrow> bool" where
  "is_context_error (CtxExn (TrustedContextError c)) = True"
| "is_context_error _ = False"

text \<open>\<open>except TrustedContextError: raise TurnExecutionError(provider_invalid_request)\<close>.\<close>

fun context_failure :: "process_exn turn_exn \<Rightarrow> process_exn turn_exn" where
  "context_failure (Raised x) = (if is_context_error x then TurnExecutionError provider_invalid_request else Raised x)"
| "context_failure e = e"

definition prof_internal :: "'e \<Rightarrow> process_exn turn_exn" where
  "prof_internal e = TurnExecutionError internal_error"

section \<open>One attempt\<close>

datatype run_result = Committed CommittedTurn | RevisionConflict int "int option"

text \<open>The state of the previous turn: the snapshots as domain values.\<close>

definition previous_states ::
    "LoadedUserState \<Rightarrow> pyobj \<Rightarrow> process_exn turn_exn + (EmotionalStateV1 \<times> RelationshipStateV1)" where
  "previous_states state current_time =
     rbind (with_error prof_internal (migrate_legacy_snapshot (lu_emotional_state state))) (\<lambda>es.
     rbind (if lu_relationship_state state \<noteq> PDict []
            then with_error prof_internal (migrate_legacy_relationship_snapshot (lu_relationship_state state))
            else with_error (\<lambda>e. Raised (RelationExn e)) (RelationshipStateV1_neutral current_time)) (\<lambda>rs.
     Inr (es, rs)))"

text \<open>Both transitions.\<close>

definition next_states ::
    "codecs \<Rightarrow> ProcessTurn \<Rightarrow> EmotionalStateV1 \<Rightarrow> RelationshipStateV1 \<Rightarrow> AppraisalV1 arg \<Rightarrow> pyobj
     \<Rightarrow> process_exn turn_exn + (EmotionalStateV1 \<times> RelationshipStateV1)" where
  "next_states C T es rs appraisal current_time =
     rbind (with_error (\<lambda>e. Raised (EmotionalExn e))
              (transition (co_pow C) (Inst es) appraisal current_time (Inst (pt_transition_config T)))) (\<lambda>tr.
     rbind (with_error (\<lambda>e. Raised (RelationExn e))
              (transition_relationship (Inst rs) appraisal current_time (Inst (pt_relationship_config T)))) (\<lambda>rs'.
     Inr (tr_state tr, rs')))"

text \<open>The messages of the generation.\<close>

definition generation_messages ::
    "codecs \<Rightarrow> EmotionalStateV1 \<Rightarrow> RelationshipStateV1 \<Rightarrow> LoadedContextData arg \<Rightarrow> pystr \<Rightarrow> process_exn turn_exn + pyobj list" where
  "generation_messages C es rs loaded msg =
     with_error context_failure (
       rbind (with_error (\<lambda>e. Raised (CtxExn e))
                (build_context_bundle (co_canon C) (co_iso_utc C) (PStr (build_trusted_policy es rs [])) loaded)) (\<lambda>bundle.
       rbind (with_error (\<lambda>e. Raised (CtxExn e))
                (build_envelope (co_canon C) (Inst bundle) (PStr msg) (PInt (int PROVIDER_INPUT_MAX_ESTIMATED_UNITS)))) (\<lambda>r.
       Inr (br_messages r))))"

text \<open>What is committed.\<close>

definition commit_request ::
    "ProcessTurn \<Rightarrow> ProcessTurnInput \<Rightarrow> int \<Rightarrow> EmotionalStateV1 \<Rightarrow> RelationshipStateV1 \<Rightarrow> EmotionStateResponse \<Rightarrow> pyobj
     \<Rightarrow> pystr \<Rightarrow> int \<Rightarrow> commit_args" where
  "commit_request T inp revision es rs emotion response message_id duration_ms =
     \<lparr>ca_user_id = PStr (pi_user_id inp), ca_request_id = PStr (pi_request_id inp), ca_expected_revision = PInt revision,
      ca_user_message = PStr (pi_user_message inp), ca_assistant_message = response,
      ca_emotional_state = EmotionalStateV1_to_dict es, ca_relationship_state = RelationshipStateV1_to_dict rs,
      ca_public_response = response,
      ca_outbox_events = PList (if pt_archival_extraction_enabled T then [build_archival_outbox_event (pi_request_id inp)] else []),
      ca_replay_payload = PDict [(PStr (u ''response''), response), (PStr (u ''emotion_state''), EmotionStateResponse_dump emotion),
        (PStr (u ''message_id''), PStr message_id), (PStr (u ''duration_ms''), PInt duration_ms)]\<rparr>"

text \<open>The \<open>except ConflictError\<close> around the commit: only a revision mismatch is a result.\<close>

definition settle_commit :: "process_exn turn_exn + CommittedTurn \<Rightarrow> process_exn turn_exn + run_result" where
  "settle_commit r = (case r of
     Inr t \<Rightarrow> Inr (Committed t)
   | Inl (Raised (RepoExn (CommitExn (ConflictError c)))) \<Rightarrow>
       (if cf_code c = u ''revision_mismatch'' then Inr (RevisionConflict (cf_expected_revision c) (cf_actual_revision c))
        else Inl (Raised (RepoExn (CommitExn (ConflictError c)))))
   | Inl e \<Rightarrow> Inl e)"

definition commit_stage ::
    "codecs \<Rightarrow> 'w ports \<Rightarrow> ProcessTurn \<Rightarrow> ProcessTurnInput \<Rightarrow> commit_args \<Rightarrow> 'w \<Rightarrow> (process_exn turn_exn + run_result) \<times> 'w" where
  "commit_stage C P T inp args w =
     (let (r, w') = write_stage P (pi_budget inp) repo_allowed
        (\<lambda>w. let (r, w') = TurnCommitRepository_commit (co_dumps C) (co_hash_json C) (co_sha256 C) (po_client P) args
                              (PStr (pt_lease_owner T)) w in (lift_repo r, w')) w in
      (settle_commit r, w'))"

text \<open>\<open>if budget.remaining_before_reserve <= 0.0: raise DeadlineExceeded()\<close>.\<close>

definition check_budget :: "'w ports \<Rightarrow> TurnBudget \<Rightarrow> 'w \<Rightarrow> (process_exn turn_exn + unit) \<times> 'w" where
  "check_budget P b = io_bind (io_get (po_monotonic P)) (\<lambda>now.
     io_lift (guard (\<not> remaining_before_reserve b now \<le> 0) DeadlineExceeded))"

text \<open>\<open>max(0, int((time.monotonic() - t0) * 1000))\<close>.\<close>

definition elapsed_ms :: "rat \<Rightarrow> rat \<Rightarrow> int" where
  "elapsed_ms t0 now = max 0 \<lfloor>fmul (fsub now t0) 1000\<rfloor>"

text \<open>Steps 1 and 2: the state and the context.\<close>

definition load_stage ::
    "'w ports \<Rightarrow> ProcessTurn \<Rightarrow> ProcessTurnInput \<Rightarrow> pyobj \<Rightarrow> 'w \<Rightarrow> (process_exn turn_exn + LoadedUserState) \<times> 'w" where
  "load_stage P T inp current_time =
     read_stage P (pi_budget inp) (pt_supabase_timeout T) repo_allowed
       (\<lambda>w. let (r, w') = UserStateRepository_load (po_client P) PNone (pi_user_id inp) current_time w in (lift_repo r, w'))"

definition context_stage ::
    "'w ports \<Rightarrow> ProcessTurn \<Rightarrow> ProcessTurnInput \<Rightarrow> LoadedUserState \<Rightarrow> 'w
     \<Rightarrow> (process_exn turn_exn + LoadedContextData arg) \<times> 'w" where
  "context_stage P T inp state w =
     (let (r, w') = read_stage P (pi_budget inp) (pt_supabase_timeout T) is_context_error
        (po_load_context P (pi_user_id inp) (pi_user_message inp) (lu_persona_config state) (lu_user_profile state)) w
      in (with_error context_failure r, w'))"

text \<open>The whole attempt; \<open>current_time\<close> is a float, so the repository never falls back to the wall clock.\<close>

definition run_once ::
    "codecs \<Rightarrow> 'w ports \<Rightarrow> ProcessTurn \<Rightarrow> ProcessTurnInput \<Rightarrow> 'w \<Rightarrow> (process_exn turn_exn + run_result) \<times> 'w" where
  "run_once C P T inp =
     io_bind (check_budget P (pi_budget inp)) (\<lambda>_.
     io_bind (io_get (po_clock P)) (\<lambda>now. let current_time = PFloat now in
     io_bind (io_get (po_monotonic P)) (\<lambda>t0.
     io_bind (load_stage P T inp current_time) (\<lambda>state.
     io_bind (io_lift (previous_states state current_time)) (\<lambda>(es, rs).
     io_bind (context_stage P T inp state) (\<lambda>loaded.
     io_bind (po_appraise P (pi_user_message inp)) (\<lambda>appraisal.
     io_bind (io_lift (next_states C T es rs appraisal current_time)) (\<lambda>(es', rs').
     io_bind (io_lift (generation_messages C es' rs' loaded (pi_user_message inp))) (\<lambda>messages.
     io_bind (po_generate P messages) (\<lambda>response.
     io_bind (io_get (po_monotonic P)) (\<lambda>t1.
     io_bind (io_get (po_uuid4 P)) (\<lambda>message_id.
     io_bind (io_lift (with_error (\<lambda>e. Raised (PresentationExn e))
                (project_public_emotion (Some (Inst es')) (Some appraisal)))) (\<lambda>emotion.
     commit_stage C P T inp
       (commit_request T inp (lu_revision state) es' rs' emotion response message_id (elapsed_ms t0 t1)))))))))))))))"

section \<open>The bounded retry\<close>

definition revision_mismatch :: "int \<Rightarrow> int option \<Rightarrow> process_exn turn_exn" where
  "revision_mismatch expected actual = Raised (RepoExn (CommitExn (ConflictError
     \<lparr>cf_code = u ''revision_mismatch'', cf_message = u ''Profile revision changed concurrently.'',
      cf_expected_revision = expected, cf_actual_revision = actual, cf_request_id = None\<rparr>)))"

text \<open>The loop \<open>while True\<close> of \<open>_execute_normal\<close>, with the number of the attempt.\<close>

function execute_from ::
    "codecs \<Rightarrow> 'w ports \<Rightarrow> ProcessTurn \<Rightarrow> ProcessTurnInput \<Rightarrow> nat \<Rightarrow> 'w \<Rightarrow> (process_exn turn_exn + CommittedTurn) \<times> 'w" where
  "execute_from C P T inp attempt w = (case run_once C P T inp w of
     (Inl e, w1) \<Rightarrow> (Inl e, w1)
   | (Inr (Committed t), w1) \<Rightarrow> (Inr t, w1)
   | (Inr (RevisionConflict expected actual), w1) \<Rightarrow>
       if attempt \<ge> MAX_COMMIT_ATTEMPTS then (Inl (revision_mismatch expected actual), w1)
       else (case check_budget P (pi_budget inp) w1 of
           (Inl e, w2) \<Rightarrow> (Inl e, w2)
         | (Inr _, w2) \<Rightarrow> execute_from C P T inp (attempt + 1) w2))"
  by pat_completeness auto

termination execute_from
  by (relation "measure (\<lambda>(C, P, T, inp, attempt, w). MAX_COMMIT_ATTEMPTS - attempt)") (auto simp: MAX_COMMIT_ATTEMPTS_def)

declare execute_from.simps [simp del]

definition execute_normal ::
    "codecs \<Rightarrow> 'w ports \<Rightarrow> ProcessTurn \<Rightarrow> ProcessTurnInput \<Rightarrow> 'w \<Rightarrow> (process_exn turn_exn + CommittedTurn) \<times> 'w" where
  "execute_normal C P T inp = execute_from C P T inp 1"

section \<open>Replay and the entry point\<close>

definition replay_conflict :: "pystr \<Rightarrow> pystr \<Rightarrow> process_exn turn_exn" where
  "replay_conflict code msg = Raised (RepoExn (CommitExn (ConflictError
     \<lparr>cf_code = code, cf_message = msg, cf_expected_revision = 0, cf_actual_revision = None, cf_request_id = None\<rparr>)))"

definition outcome_result :: "ReplayOutcome \<Rightarrow> process_exn turn_exn + CommittedTurn" where
  "outcome_result r = (case r of
     Completed t \<Rightarrow> Inr t
   | RequestInProgress \<Rightarrow> Inl (replay_conflict (u ''request_in_progress'') (u ''Request is already in progress.''))
   | RequestReplayUnavailable \<Rightarrow> Inl (replay_conflict (u ''request_replay_unavailable'') (u ''Request replay is unavailable.'')))"

definition replay ::
    "codecs \<Rightarrow> 'w ports \<Rightarrow> ProcessTurn \<Rightarrow> ProcessTurnInput \<Rightarrow> 'w \<Rightarrow> (process_exn turn_exn + CommittedTurn) \<times> 'w" where
  "replay C P T inp =
     io_bind (read_stage P (pi_budget inp) (pt_supabase_timeout T) repo_allowed
       (\<lambda>w. let (r, w') = TurnReplayRepository_replay (co_dumps C) (po_client P) (pi_user_id inp) (pi_request_id inp) w
            in (lift_repo r, w'))) (\<lambda>outcome.
     io_lift (outcome_result outcome))"

definition execute ::
    "codecs \<Rightarrow> 'w ports \<Rightarrow> ProcessTurn \<Rightarrow> ProcessTurnInput \<Rightarrow> 'w \<Rightarrow> (process_exn turn_exn + ProcessTurnResult) \<times> 'w" where
  "execute C P T inp =
     io_bind (if pi_mode inp = replay_attempt then replay C P T inp else execute_normal C P T inp) (\<lambda>committed.
     io_lift (parse_public_result committed))"

end
