(* ===== verification/Turn_Calls.thy ===== *)
theory Turn_Calls
  imports Process_Turn
begin

text \<open>
  What one execution of \<open>ProcessTurn\<close> does to the database: the procedure calls it makes, in order, with their
  answers.  The locale \<open>call_log\<close> states what a set of ports promises about the log of calls, the lemmas
  about the stages are proved in it, and the interpretation supplies it for arbitrary ports that are made to
  record their calls.
\<close>

section \<open>The log of calls\<close>

type_synonym call = "pystr \<times> row \<times> pyobj option"

definition quiet :: "('w \<Rightarrow> call list) \<Rightarrow> ('w \<Rightarrow> 'a \<times> 'w) \<Rightarrow> bool" where
  "quiet calls m \<longleftrightarrow> (\<forall>w. calls (snd (m w)) = calls w)"

locale call_log =
  fixes P :: "'w ports" and calls :: "'w \<Rightarrow> call list"
  assumes quiet_clocks: "quiet calls (po_monotonic P)" "quiet calls (po_clock P)"
    and quiet_loop: "quiet calls (po_await P t)" "quiet calls (po_cancelled P)"
    and quiet_context: "quiet calls (po_load_context P user msg persona profile)"
    and quiet_model: "quiet calls (po_appraise P msg)" "quiet calls (po_generate P messages)"
    and quiet_uuid: "quiet calls (po_uuid4 P)"
    and quiet_select: "po_client P = Some c \<Longrightarrow> quiet calls (cl_select_profiles c user)"
    and rpc_logged: "po_client P = Some c \<Longrightarrow> cl_rpc c name params w = (answer, w') \<Longrightarrow> calls w' = calls w @ [(name, params, answer)]"

lemma quietD: "quiet calls m \<Longrightarrow> m w = (x, w') \<Longrightarrow> calls w' = calls w"
  by (metis quiet_def snd_conv)

lemma quietI: "(\<And>w x w'. m w = (x, w') \<Longrightarrow> calls w' = calls w) \<Longrightarrow> quiet calls m"
  by (metis quiet_def prod.collapse)

lemma quiet_io_bind [intro]:
  assumes "quiet calls m" and "\<And>x. quiet calls (f x)"
  shows "quiet calls (io_bind m f)"
proof (rule quietI)
  fix w r w' assume "io_bind m f w = (r, w')"
  then show "calls w' = calls w"
    using quietD [OF assms(1), of w] quietD [OF assms(2)]
    by (auto simp: io_bind_def split: prod.splits sum.splits)
qed

lemma quiet_io_get [intro]: "quiet calls g \<Longrightarrow> quiet calls (io_get g)"
  by (rule quietI) (auto simp: io_get_def Let_def split: prod.splits dest: quietD)

lemma quiet_io_lift [intro]: "quiet calls (io_lift r)"
  by (simp add: quiet_def io_lift_def)

text \<open>What the answer of the procedure means to the commit repository.\<close>

definition commit_answer :: "(pyobj \<Rightarrow> pystr option) \<Rightarrow> pyobj option \<Rightarrow> commit_exn + CommittedTurn" where
  "commit_answer dumps answer = (case answer of
     None \<Rightarrow> Inl database_error
   | Some data \<Rightarrow> (case unwrap_rpc_data data of
       Inl e \<Rightarrow> Inl database_error
     | Inr d \<Rightarrow> parse_commit_turn_result dumps d))"

text \<open>The request of a call.\<close>

definition call_of :: "ProcessTurnInput \<Rightarrow> call \<Rightarrow> bool" where
  "call_of inp c \<longleftrightarrow> row_get (fst (snd c)) (u ''p_authenticated_user_id'') PNone = PStr (pi_user_id inp)
     \<and> row_get (fst (snd c)) (u ''p_request_id'') PNone = PStr (pi_request_id inp)"

definition commit_call :: "codecs \<Rightarrow> ProcessTurnInput \<Rightarrow> call \<Rightarrow> bool" where
  "commit_call C inp c \<longleftrightarrow> call_of inp c \<and> call_ok (co_dumps C) (fst c, fst (snd c))"

definition mismatch_answer :: "codecs \<Rightarrow> call \<Rightarrow> bool" where
  "mismatch_answer C c \<longleftrightarrow> (\<exists>f. commit_answer (co_dumps C) (snd (snd c)) = Inl (ConflictError f) \<and> cf_code f = u ''revision_mismatch'')"

text \<open>One attempt: no call and an exception, or one commit whose answer decides.\<close>

definition attempt ::
    "codecs \<Rightarrow> ProcessTurnInput \<Rightarrow> ('w \<Rightarrow> call list) \<Rightarrow> 'w \<Rightarrow> (process_exn turn_exn + run_result) \<times> 'w \<Rightarrow> bool" where
  "attempt C inp calls w out \<longleftrightarrow>
     calls (snd out) = calls w \<and> (\<exists>e. fst out = Inl e)
   \<or> (\<exists>c. calls (snd out) = calls w @ [c] \<and> commit_call C inp c
        \<and> (\<forall>t. fst out = Inr (Committed t) \<longrightarrow> commit_answer (co_dumps C) (snd (snd c)) = Inr t)
        \<and> (\<forall>x y. fst out = Inr (RevisionConflict x y) \<longrightarrow> mismatch_answer C c))"

lemma attempt_bind [intro]:
  assumes "quiet calls m" and "\<And>x w. attempt C inp calls w (f x w)"
  shows "attempt C inp calls w (io_bind m f w)"
proof (cases "m w")
  case (Pair r w1)
  then have q: "calls w1 = calls w" using quietD assms(1) by metis
  show ?thesis
  proof (cases r)
    case (Inl e)
    then show ?thesis using Pair q by (simp add: io_bind_def attempt_def)
  next
    case (Inr x)
    then show ?thesis using Pair q assms(2) [of w1 x] by (simp add: io_bind_def attempt_def)
  qed
qed

lemma sanitize_conflict: "sanitize_commit_exn e = Raised (CommitExn (ConflictError c)) \<longleftrightarrow> e = ConflictError c"
  by (cases e) (auto simp: persistence_error_def database_error_def)

lemma classify_write_conflict:
  "classify_write repo_allowed cancelled (worker_end_of (lift_repo (with_error sanitize_commit_exn r)))
     = Inl (Raised (RepoExn (CommitExn (ConflictError c)))) \<Longrightarrow> r = Inl (ConflictError c)"
proof (cases r)
  case (Inl e)
  then show "classify_write repo_allowed cancelled (worker_end_of (lift_repo (with_error sanitize_commit_exn r)))
     = Inl (Raised (RepoExn (CommitExn (ConflictError c)))) \<Longrightarrow> r = Inl (ConflictError c)"
    by (cases e) (auto simp: classify_write_def worker_end_of_def lift_repo_def persistence_error_def database_error_def split: if_splits)
qed (auto simp: classify_write_def worker_end_of_def lift_repo_def split: if_splits)

lemma classify_write_result:
  "classify_write repo_allowed cancelled (worker_end_of (lift_repo (with_error sanitize_commit_exn r))) = Inr t \<Longrightarrow> r = Inr t"
proof (cases r)
  case (Inl e)
  then show "classify_write repo_allowed cancelled (worker_end_of (lift_repo (with_error sanitize_commit_exn r))) = Inr t \<Longrightarrow> r = Inr t"
    by (cases e) (auto simp: classify_write_def worker_end_of_def lift_repo_def persistence_error_def database_error_def split: if_splits)
qed (auto simp: classify_write_def worker_end_of_def lift_repo_def split: if_splits)

lemma settle_Committed: "settle_commit r = Inr (Committed t) \<longleftrightarrow> r = Inr t"
  by (auto simp: settle_commit_def split: sum.splits turn_exn.splits process_exn.splits repo_exn.splits commit_exn.splits)

lemma settle_RevisionConflict:
  "settle_commit r = Inr (RevisionConflict x y) \<Longrightarrow>
     \<exists>f. r = Inl (Raised (RepoExn (CommitExn (ConflictError f)))) \<and> cf_code f = u ''revision_mismatch''"
  by (auto simp: settle_commit_def split: sum.splits turn_exn.splits process_exn.splits repo_exn.splits commit_exn.splits if_splits)

text \<open>Validation never reports a conflict: that word is reserved to the database.\<close>

definition no_conflict :: "commit_exn + 'a \<Rightarrow> bool" where
  "no_conflict r \<longleftrightarrow> (\<forall>c. r \<noteq> Inl (ConflictError c))"

lemma no_conflict_simps [simp]:
  "no_conflict (Inr x)" "no_conflict (invalid b code)" "no_conflict (Inl (ValidationError s))" "no_conflict (Inl CommitUnicodeError)"
  by (auto simp: no_conflict_def invalid_def guard_def)

lemma no_conflict_rbind [intro]: "no_conflict m \<Longrightarrow> (\<And>x. no_conflict (f x)) \<Longrightarrow> no_conflict (rbind m f)"
  by (cases m) (auto simp: no_conflict_def)

lemma no_conflict_size [simp]: "no_conflict (check_size dumps v n code)"
  by (auto simp: check_size_def split: option.splits)

lemma no_conflict_bounded1 [simp]: "no_conflict (bounded d code name lo hi)"
  by (simp add: bounded_def Let_def)

lemma no_conflict_bounded [simp]: "no_conflict (bounded_all d code names lo hi)"
  by (induction names) auto

lemma no_conflict_triggers [simp]: "no_conflict (validate_snapshot_triggers v code)"
  by (auto simp: validate_snapshot_triggers_def split: option.splits intro!: no_conflict_rbind)

lemma no_conflict_snapshot [simp]: "no_conflict (validate_snapshot_payload dumps v kind)"
  by (auto simp: validate_snapshot_payload_def Let_def split: option.splits snapshot_kind.splits
      intro!: no_conflict_rbind)

lemma no_conflict_replay [simp]: "no_conflict (validate_replay_payload dumps v r)"
  by (auto simp: validate_replay_payload_def split: option.splits intro!: no_conflict_rbind)

lemma no_conflict_key [simp]: "no_conflict (validate_idempotency_key v)" "no_conflict (validate_lease_owner v)"
  by (cases v; simp)+

lemma no_conflict_event [simp]: "no_conflict (validate_outbox_event dumps e)"
  by (auto simp: validate_outbox_event_def validate_outbox_event_payload_def split: option.splits list.splits
      intro!: no_conflict_rbind)

lemma no_conflict_events [simp]: "no_conflict (validate_outbox_events dumps es)"
  by (induction es) auto

lemma no_conflict_input: "no_conflict (validate_atomic_commit_input dumps a)"
  by (auto simp: validate_atomic_commit_input_def validate_uuid_def split: option.splits intro!: no_conflict_rbind)

lemma hash_error_no_conflict: "hash_error e \<noteq> ConflictError c"
  by (cases e) simp_all

lemma prepare_no_conflict: "prepare_commit dumps canon sha256 a lo \<noteq> Inl (ConflictError c)"
  using no_conflict_input [of dumps a] no_conflict_key(2) [of lo] hash_error_no_conflict [symmetric]
  by (auto simp: prepare_commit_def no_conflict_def rbind_Inl_iff)

lemma settle_no_conflict:
  assumes "r = Inl e" and "\<And>f. e \<noteq> Raised (CommitExn (ConflictError f))"
  shows "\<exists>x. settle_commit (classify_write repo_allowed cancelled (worker_end_of (lift_repo r))) = Inl x"
  using assms
  by (cases e) (auto simp: settle_commit_def classify_write_def worker_end_of_def lift_repo_def
      split: repo_exn.splits commit_exn.splits)

context call_log begin

lemma quiet_read_stage:
  assumes "quiet calls f"
  shows "quiet calls (read_stage P b timeout allow f)"
proof -
  have "calls (snd (read_stage P b timeout allow f w)) = calls w" for w
    using quietD [OF quiet_clocks(1), of w] quietD [OF quiet_loop(1)] quietD [OF assms]
    by (auto simp: read_stage_def Let_def split: prod.splits await_end.splits)
  then show ?thesis by (simp add: quiet_def)
qed

lemma quiet_check_budget: "quiet calls (check_budget P b)"
  unfolding check_budget_def using quiet_clocks by blast

lemma quiet_load_stage: "quiet calls (load_stage P T inp t)"
proof -
  have "quiet calls (\<lambda>w. let (r, w') = UserStateRepository_load (po_client P) PNone (pi_user_id inp) t w in (lift_repo r, w'))"
    using quiet_select
    by (intro quietI) (auto simp: UserStateRepository_load_def Let_def split: option.splits prod.splits dest: quietD)
  then show ?thesis unfolding load_stage_def by (rule quiet_read_stage)
qed

lemma quiet_context_stage: "quiet calls (context_stage P T inp s)"
  by (rule quietI) (auto simp: context_stage_def Let_def split: prod.splits dest: quietD [OF quiet_read_stage [OF quiet_context]])

lemma commit_logged:
  assumes "dumps_no_proxy (co_dumps C)"
    and "TurnCommitRepository_commit (co_dumps C) (co_hash_json C) (co_sha256 C) (po_client P) (commit_request T inp n es rs em resp mid ms) lo w = (r, w')"
  shows "calls w' = calls w \<and> (\<exists>e. r = Inl e \<and> (\<forall>f. e \<noteq> Raised (CommitExn (ConflictError f))))
   \<or> (\<exists>c. calls w' = calls w @ [c] \<and> commit_call C inp c \<and> r = with_error sanitize_commit_exn (commit_answer (co_dumps C) (snd (snd c))))"
proof (cases "po_client P")
  case None
  then show ?thesis using assms(2) by (auto simp: TurnCommitRepository_commit_def persistence_error_def database_error_def)
next
  case (Some cl)
  let ?a = "commit_request T inp n es rs em resp mid ms"
  show ?thesis
  proof (cases "prepare_commit (co_dumps C) (co_hash_json C) (co_sha256 C) ?a lo")
    case (Inl e)
    then show ?thesis
      using assms(2) Some prepare_no_conflict [of "co_dumps C" "co_hash_json C" "co_sha256 C" ?a lo] no_conflict_key(2) [of lo]
      by (auto simp: TurnCommitRepository_commit_def commit_turn_def sanitize_conflict no_conflict_def split: sum.splits)
  next
    case (Inr row)
    obtain answer w1 where cl: "cl_rpc cl (u ''commit_turn'') row w = (answer, w1)" by fastforce
    have "validate_lease_owner lo = Inr ()" and h: "\<exists>h. row = build_commit_turn_rpc_payload ?a h lo"
      using Inr by (auto simp: prepare_commit_def)
    then have "r = with_error sanitize_commit_exn (commit_answer (co_dumps C) answer)" and "w' = w1"
      using assms(2) Some Inr cl
      by (auto simp: TurnCommitRepository_commit_def commit_turn_def unwrapping_rpc_def commit_answer_def
          split: option.splits sum.splits)
    moreover have "commit_call C inp (u ''commit_turn'', row, answer)"
      using prepared_call_ok [OF assms(1) Inr] h
      by (auto simp: commit_call_def call_of_def build_commit_turn_rpc_payload_def commit_request_def row_get_def)
    moreover have "calls w1 = calls w @ [(u ''commit_turn'', row, answer)]" by (rule rpc_logged [OF Some cl])
    ultimately show ?thesis by (intro disjI2 exI [of _ "(u ''commit_turn'', row, answer)"]) simp
  qed
qed

lemma attempt_commit_stage:
  assumes p: "dumps_no_proxy (co_dumps C)"
  shows "attempt C inp calls w (commit_stage C P T inp (commit_request T inp n es rs em resp mid ms) w)"
proof -
  obtain now w1 where w1: "po_monotonic P w = (now, w1)" by fastforce
  obtain r w2 where w2: "TurnCommitRepository_commit (co_dumps C) (co_hash_json C) (co_sha256 C) (po_client P)
      (commit_request T inp n es rs em resp mid ms) (PStr (pt_lease_owner T)) w1 = (r, w2)" by fastforce
  obtain cancelled w3 where w3: "po_cancelled P w2 = (cancelled, w3)" by fastforce
  have c: "calls w1 = calls w" "calls w3 = calls w2"
    using quietD [OF quiet_clocks(1) w1] quietD [OF quiet_loop(2) w3] by simp_all
  show ?thesis
  proof (cases "remaining (pi_budget inp) now \<le> 0")
    case True
    then show ?thesis using w1 c by (simp add: commit_stage_def write_stage_def attempt_def DeadlineExceeded_def settle_commit_def)
  next
    case False
    then have out: "commit_stage C P T inp (commit_request T inp n es rs em resp mid ms) w
        = (settle_commit (classify_write repo_allowed cancelled (worker_end_of (lift_repo r))), w3)"
      using w1 w2 w3 by (simp add: commit_stage_def write_stage_def)
    from commit_logged [OF p w2] show ?thesis
    proof
      assume q: "calls w2 = calls w1 \<and> (\<exists>e. r = Inl e \<and> (\<forall>f. e \<noteq> Raised (CommitExn (ConflictError f))))"
      then have "\<exists>e. settle_commit (classify_write repo_allowed cancelled (worker_end_of (lift_repo r))) = Inl e"
        using settle_no_conflict by blast
      then show ?thesis using q c unfolding attempt_def out by simp
    next
      assume "\<exists>cl. calls w2 = calls w1 @ [cl] \<and> commit_call C inp cl
        \<and> r = with_error sanitize_commit_exn (commit_answer (co_dumps C) (snd (snd cl)))"
      then obtain cl where cl: "calls w2 = calls w1 @ [cl]" "commit_call C inp cl"
        "r = with_error sanitize_commit_exn (commit_answer (co_dumps C) (snd (snd cl)))" by blast
      let ?r = "classify_write repo_allowed cancelled (worker_end_of (lift_repo r))"
      have "?r = Inr t \<Longrightarrow> commit_answer (co_dumps C) (snd (snd cl)) = Inr t" for t
        unfolding cl(3) by (rule classify_write_result)
      moreover have "mismatch_answer C cl" if s: "settle_commit ?r = Inr (RevisionConflict x y)" for x y
      proof -
        obtain f where f: "?r = Inl (Raised (RepoExn (CommitExn (ConflictError f))))" "cf_code f = u ''revision_mismatch''"
          using settle_RevisionConflict [OF s] by blast
        then show ?thesis unfolding mismatch_answer_def
          using classify_write_conflict [OF f(1) [unfolded cl(3)]] by blast
      qed
      ultimately show ?thesis
        using cl(1,2) c unfolding attempt_def out settle_Committed fst_conv snd_conv by (intro disjI2 exI [of _ cl]) simp
    qed
  qed
qed

lemma attempt_run_once:
  assumes "dumps_no_proxy (co_dumps C)"
  shows "attempt C inp calls w (run_once C P T inp w)"
  unfolding run_once_def Let_def
  by (intro attempt_bind quiet_check_budget quiet_io_get quiet_clocks quiet_load_stage quiet_io_lift
      quiet_context_stage quiet_model quiet_uuid) (auto split: prod.splits
      intro!: attempt_bind attempt_commit_stage assms quiet_io_get quiet_clocks quiet_io_lift
      quiet_context_stage quiet_model quiet_uuid)

text \<open>The loop: every commit but the last was answered by a revision mismatch.\<close>

lemma execute_from_calls:
  assumes p: "dumps_no_proxy (co_dumps C)" and "execute_from C P T inp k w = (r, w')"
  shows "\<exists>cs. calls w' = calls w @ cs \<and> length cs \<le> Suc (MAX_COMMIT_ATTEMPTS - k) \<and> list_all (commit_call C inp) cs
     \<and> list_all (mismatch_answer C) (butlast cs)
     \<and> (\<forall>t. r = Inr t \<longrightarrow> cs \<noteq> [] \<and> commit_answer (co_dumps C) (snd (snd (last cs))) = Inr t)"
  using assms(2)
proof (induction "MAX_COMMIT_ATTEMPTS - k" arbitrary: k w r w' rule: less_induct)
  case less
  obtain out w1 where o: "run_once C P T inp w = (out, w1)" by fastforce
  note a = attempt_run_once [OF p, of inp w T, unfolded o attempt_def fst_conv snd_conv]
  note unf = less.prems [unfolded execute_from.simps [of C P T inp k w] o]
  show ?case
  proof (cases "\<exists>x y. out = Inr (RevisionConflict x y) \<and> k < MAX_COMMIT_ATTEMPTS")
    case False
    then have "w' = w1 \<and> (\<forall>t. r = Inr t \<longrightarrow> out = Inr (Committed t))"
      using unf by (auto simp: not_le split: sum.splits run_result.splits if_splits)
    moreover have "\<exists>cs. calls w1 = calls w @ cs \<and> length cs \<le> 1 \<and> list_all (commit_call C inp) cs
        \<and> (\<forall>t. out = Inr (Committed t) \<longrightarrow> cs \<noteq> [] \<and> commit_answer (co_dumps C) (snd (snd (last cs))) = Inr t)"
      using a
    proof
      assume "calls w1 = calls w \<and> (\<exists>e. out = Inl e)"
      then show ?thesis by (intro exI [of _ "[]"]) auto
    qed (elim exE, rule_tac x = "[c]" in exI, auto)
    moreover have "length cs \<le> 1 \<Longrightarrow> list_all (mismatch_answer C) (butlast cs)" for cs
      by (cases cs) auto
    moreover have "length cs \<le> 1 \<Longrightarrow> length cs \<le> Suc n" for cs :: "call list" and n by simp
    ultimately show ?thesis by blast
  next
    case True
    then obtain x y c where k: "k < MAX_COMMIT_ATTEMPTS" and out: "out = Inr (RevisionConflict x y)"
      and c: "calls w1 = calls w @ [c]" "commit_call C inp c" "mismatch_answer C c"
      using a by auto
    obtain b w2 where b: "check_budget P (pi_budget inp) w1 = (b, w2)" by fastforce
    have w2: "calls w2 = calls w1" by (rule quietD [OF quiet_check_budget b])
    show ?thesis
    proof (cases b)
      case (Inl e)
      then have "r = Inl e \<and> w' = w2"
        using unf out k b by simp
      then show ?thesis using c w2 by (intro exI [of _ "[c]"]) simp
    next
      case (Inr z)
      then have "execute_from C P T inp (Suc k) w2 = (r, w')"
        using unf out k b by simp
      moreover have "MAX_COMMIT_ATTEMPTS - Suc k < MAX_COMMIT_ATTEMPTS - k" using k by simp
      ultimately obtain cs where cs: "calls w' = calls w2 @ cs" "length cs \<le> Suc (MAX_COMMIT_ATTEMPTS - Suc k)"
        "list_all (commit_call C inp) cs" "list_all (mismatch_answer C) (butlast cs)"
        "\<forall>t. r = Inr t \<longrightarrow> cs \<noteq> [] \<and> commit_answer (co_dumps C) (snd (snd (last cs))) = Inr t"
        using less.hyps [of "Suc k" w2 r w'] by blast
      then show ?thesis
        using c w2 k by (intro exI [of _ "c # cs"]) auto
    qed
  qed
qed

lemma read_stage_cases:
  assumes "read_stage P b timeout allow f w = (r, w')"
  shows "calls w' = calls w \<and> (\<exists>e. r = Inl e) \<or> (\<exists>w2 x. calls w2 = calls w \<and> f w2 = (x, w') \<and> (\<forall>y. r = Inr y \<longrightarrow> x = Inr y))"
proof -
  obtain now w1 where w1: "po_monotonic P w = (now, w1)" by fastforce
  let ?t = "min (remaining_before_reserve b now) timeout"
  obtain e w2 where w2: "po_await P ?t w1 = (e, w2)" by fastforce
  obtain x w3 where w3: "f w2 = (x, w3)" by fastforce
  have c: "calls w1 = calls w" "calls w2 = calls w"
    using quietD [OF quiet_clocks(1) w1] quietD [OF quiet_loop(1) w2] by simp_all
  show ?thesis
  proof (cases "?t \<le> 0")
    case True
    then have "r = Inl DeadlineExceeded \<and> w' = w1" using assms w1 by (simp add: read_stage_def run_blocking_read_def)
    then show ?thesis using c by simp
  next
    case False
    then have "case e of InTime \<Rightarrow> r = classify_read allow (end_of x) \<and> w' = w3
        | TimedOut \<Rightarrow> r = classify_read allow ReadTimesOut \<and> w' = w2 | Cancelled \<Rightarrow> r = classify_read allow ReadCancelled \<and> w' = w2"
      using assms w1 w2 w3 by (cases e) (auto simp: read_stage_def run_blocking_read_def Let_def)
    moreover have "classify_read allow (end_of x) = Inr y \<Longrightarrow> x = Inr y" for y
      by (cases x; cases "projl x") (auto simp: end_of_def split: if_splits)
    ultimately show ?thesis using c w3 by (cases e) auto
  qed
qed

text \<open>Replay: one call at most, and no commit.\<close>

lemma replay_repository_calls:
  assumes "TurnReplayRepository_replay (co_dumps C) (po_client P) (pi_user_id inp) (pi_request_id inp) w = (x, w')"
  shows "\<exists>cs. calls w' = calls w @ cs \<and> length cs \<le> 1
     \<and> list_all (\<lambda>c. fst c = u ''replay_committed_turn'' \<and> call_of inp c) cs
     \<and> (\<forall>t. x = Inr (Completed t) \<longrightarrow> cs \<noteq> [] \<and> commit_answer (co_dumps C) (snd (snd (last cs))) = Inr t)"
proof (cases "po_client P")
  case None
  then show ?thesis using assms by (auto simp: TurnReplayRepository_replay_def)
next
  case (Some cl)
  let ?ps = "[(u ''p_authenticated_user_id'', PStr (pi_user_id inp)), (u ''p_request_id'', PStr (pi_request_id inp))]"
  obtain answer w1 where a: "cl_rpc cl (u ''replay_committed_turn'') ?ps w = (answer, w1)" by fastforce
  have "call_of inp (u ''replay_committed_turn'', ?ps, answer)" by (simp add: call_of_def row_get_def)
  moreover have "w' = w1" using assms Some a by (auto simp: TurnReplayRepository_replay_def split: option.splits)
  moreover have "commit_answer (co_dumps C) answer = Inr t" if "x = Inr (Completed t)" for t
  proof (cases answer)
    case (Some data)
    then show ?thesis
      using assms \<open>po_client P = Some cl\<close> a that
      by (auto simp: TurnReplayRepository_replay_def commit_answer_def parse_replay_committed_turn_result_def Let_def
          split: option.splits if_splits)
  qed (use assms Some a that in \<open>simp add: TurnReplayRepository_replay_def\<close>)
  ultimately show ?thesis
    using rpc_logged [OF Some a] by (intro exI [of _ "[(u ''replay_committed_turn'', ?ps, answer)]"]) simp
qed

lemma replay_calls:
  assumes "replay C P T inp w = (r, w')"
  shows "\<exists>cs. calls w' = calls w @ cs \<and> length cs \<le> 1
     \<and> list_all (\<lambda>c. fst c = u ''replay_committed_turn'' \<and> call_of inp c) cs
     \<and> (\<forall>t. r = Inr t \<longrightarrow> cs \<noteq> [] \<and> commit_answer (co_dumps C) (snd (snd (last cs))) = Inr t)"
proof -
  let ?f = "\<lambda>w. let (r, w') = TurnReplayRepository_replay (co_dumps C) (po_client P) (pi_user_id inp) (pi_request_id inp) w
            in (lift_repo r, w')"
  obtain x w1 where x: "read_stage P (pi_budget inp) (pt_supabase_timeout T) repo_allowed ?f w = (x, w1)" by fastforce
  then have r: "w' = w1 \<and> (\<forall>t. r = Inr t \<longrightarrow> x = Inr (Completed t))"
    using assms by (auto simp: replay_def io_bind_def io_lift_def outcome_result_def split: sum.splits ReplayOutcome.splits)
  from read_stage_cases [OF x] show ?thesis
  proof
    assume "calls w1 = calls w \<and> (\<exists>e. x = Inl e)"
    then show ?thesis using r by (intro exI [of _ "[]"]) auto
  next
    assume "\<exists>w2 y. calls w2 = calls w \<and> ?f w2 = (y, w1) \<and> (\<forall>z. x = Inr z \<longrightarrow> y = Inr z)"
    then obtain w2 y where y: "calls w2 = calls w" "?f w2 = (y, w1)" "\<forall>z. x = Inr z \<longrightarrow> y = Inr z" by blast
    obtain q where q: "TurnReplayRepository_replay (co_dumps C) (po_client P) (pi_user_id inp) (pi_request_id inp) w2 = (q, w1)" "y = lift_repo q"
      using y(2) by (auto split: prod.splits)
    have "x = Inr (Completed t) \<Longrightarrow> q = Inr (Completed t)" for t using y(3) q(2) by (auto simp: lift_repo_def)
    then show ?thesis using replay_repository_calls [OF q(1)] y(1) r by auto
  qed
qed

end

section \<open>Ports that record their calls\<close>

definition keeping :: "('w \<Rightarrow> 'a \<times> 'w) \<Rightarrow> 'w \<times> 'l \<Rightarrow> 'a \<times> 'w \<times> 'l" where
  "keeping m s = (let (x, w) = m (fst s) in (x, w, snd s))"

definition recorded_rpc :: "'w rpc \<Rightarrow> ('w \<times> call list) rpc" where
  "recorded_rpc rpc name params s = (let (x, w) = rpc name params (fst s) in (x, w, snd s @ [(name, params, x)]))"

definition recorded_client :: "'w client \<Rightarrow> ('w \<times> call list) client" where
  "recorded_client c = \<lparr>cl_select_profiles = \<lambda>user. keeping (cl_select_profiles c user), cl_rpc = recorded_rpc (cl_rpc c)\<rparr>"

definition recorded :: "'w ports \<Rightarrow> ('w \<times> call list) ports" where
  "recorded P = \<lparr>po_monotonic = keeping (po_monotonic P), po_clock = keeping (po_clock P),
     po_await = \<lambda>t. keeping (po_await P t), po_cancelled = keeping (po_cancelled P),
     po_client = map_option recorded_client (po_client P),
     po_load_context = \<lambda>user msg persona profile. keeping (po_load_context P user msg persona profile),
     po_appraise = \<lambda>msg. keeping (po_appraise P msg), po_generate = \<lambda>messages. keeping (po_generate P messages),
     po_uuid4 = keeping (po_uuid4 P)\<rparr>"

lemma quiet_keeping: "quiet snd (keeping m)"
  by (simp add: quiet_def keeping_def Let_def split_beta)

interpretation recorded: call_log "recorded P" snd for P
  by unfold_locales (auto simp: recorded_def recorded_client_def recorded_rpc_def quiet_keeping Let_def split_beta)

section \<open>The result of an execution\<close>

lemma execute_committed:
  assumes "execute C P T inp w = (r, w')"
  shows "\<exists>t. (if pi_mode inp = replay_attempt then replay C P T inp w else execute_normal C P T inp w) = (t, w')
     \<and> (\<forall>res. r = Inr res \<longrightarrow> (\<exists>c. t = Inr c \<and> parse_public_result c = Inr res))"
  using assms by (auto simp: execute_def io_bind_def io_lift_def split: prod.splits sum.splits if_splits)

lemma parse_public_result_fields:
  assumes "parse_public_result c = Inr res"
  shows "pr_committed res = c \<and> mapping_get (ct_replay_payload c) (u ''response'') = PStr (pr_response res)
   \<and> (\<exists>d. as_mapping (mapping_get (ct_replay_payload c) (u ''emotion_state'')) = Some d
        \<and> EmotionStateResponse_validate d = Some (pr_emotion_state res))"
  using assms unfolding parse_public_result_def Let_def by (auto split: pyobj.splits option.splits)

end
