(* ===== verification/Turn_Result.thy ===== *)
theory Turn_Result
  imports Turn_Calls
begin

text \<open>
  The turn that \<open>_run_once\<close> prepares: the public emotion survives the trip through the persisted payload,
  the request passes the whole validation of the commit, and the awaited write is an exit of the step relation
  of the write helper.
\<close>

section \<open>The public emotion through the payload\<close>

definition valid_public :: "EmotionStateResponse \<Rightarrow> bool" where
  "valid_public r \<longleftrightarrow> er_schema_version r = 1 \<and> er_mood_label r \<noteq> []
     \<and> (\<forall>x \<in> {pp_pleasure (er_pad r), pp_arousal (er_pad r), pp_dominance (er_pad r)}. -1 \<le> x \<and> x \<le> 1)
     \<and> length (er_dominant_emotions r) \<le> 3 \<and> distinct (map pd_name (er_dominant_emotions r))
     \<and> (\<forall>e \<in> set (er_dominant_emotions r). pd_name e \<in> set DISCRETE_EMOTIONS \<and> 0 \<le> pd_intensity e \<and> pd_intensity e \<le> 1)
     \<and> 0 < er_timestamp r"

lemma project_valid_public:
  assumes "valid_state s" and "valid_appraisal a" and "project_public_emotion (Some (Inst s)) (Some (Inst a)) = Inr r"
  shows "valid_public r"
proof -
  let ?es = "ap_discrete_emotions a"
  have v: "valid_emotions ?es" using assms(2) by (simp add: valid_appraisal_def)
  have names: "map pd_name (dominant_of ?es) = map fst (take 3 (sort_emotions (filter (\<lambda>(n, x). x > 0) ?es)))"
    by (auto simp: dominant_of_def)
  have "\<forall>e \<in> set (dominant_of ?es). pd_name e \<in> set DISCRETE_EMOTIONS \<and> 0 \<le> pd_intensity e \<and> pd_intensity e \<le> 1"
    using v by (auto simp: dominant_of_def valid_emotions_def list_all_iff dest!: in_set_takeD)
  moreover have "distinct (map pd_name (dominant_of ?es))" unfolding names by (rule top_emotions_distinct [OF v])
  moreover have "length (dominant_of ?es) \<le> 3" by (simp add: dominant_of_def)
  ultimately show ?thesis
    using assms(1,3) project_closed_form [OF assms(1,2)]
    by (auto simp: valid_public_def mood_nonempty valid_state_def)
qed

lemma PublicPAD_validate_frozen:
  "(\<forall>x \<in> {pp_pleasure p, pp_arousal p, pp_dominance p}. -1 \<le> x \<and> x \<le> 1)
     \<Longrightarrow> PublicPAD_validate (deep_freeze (PublicPAD_dump p)) = Some p"
  by (simp add: PublicPAD_validate_def PublicPAD_dump_def exact_fields_def unknown_keys_def missing_keys_def has_key_def
      dict_get_Cons PublicPAD_init_def result_option_def)

lemma PublicDominantEmotion_validate_frozen:
  "pd_name e \<in> set DISCRETE_EMOTIONS \<Longrightarrow> 0 \<le> pd_intensity e \<Longrightarrow> pd_intensity e \<le> 1
     \<Longrightarrow> PublicDominantEmotion_validate (deep_freeze (PublicDominantEmotion_dump e)) = Some e"
  by (simp add: PublicDominantEmotion_validate_def PublicDominantEmotion_dump_def exact_fields_def unknown_keys_def
      missing_keys_def has_key_def dict_get_Cons PublicDominantEmotion_init_def validate_emotion_name_def
      emotion_nonempty result_option_def)

lemma those_map_Some: "(\<And>x. x \<in> set xs \<Longrightarrow> f x = Some (g x)) \<Longrightarrow> those (map f xs) = Some (map g xs)"
  by (induction xs) simp_all

lemma emotion_validate_frozen:
  assumes "valid_public r"
  shows "\<exists>d. as_mapping (deep_freeze (EmotionStateResponse_dump r)) = Some d \<and> EmotionStateResponse_validate d = Some r"
proof -
  have p: "PublicPAD_validate (deep_freeze (PublicPAD_dump (er_pad r))) = Some (er_pad r)"
    using assms by (intro PublicPAD_validate_frozen) (simp add: valid_public_def)
  have "those (map (PublicDominantEmotion_validate \<circ> (deep_freeze \<circ> PublicDominantEmotion_dump)) (er_dominant_emotions r))
      = Some (map (\<lambda>e. e) (er_dominant_emotions r))"
    using assms by (intro those_map_Some) (simp add: valid_public_def PublicDominantEmotion_validate_frozen)
  then have e: "those (map PublicDominantEmotion_validate (map deep_freeze (map PublicDominantEmotion_dump (er_dominant_emotions r))))
      = Some (er_dominant_emotions r)" by (simp add: comp_assoc)
  have l: "limit_to_three (er_dominant_emotions r) = Inr (er_dominant_emotions r)"
    using assms by (simp add: valid_public_def limit_to_three_def no_duplicate_names_iff)
  show ?thesis
    using assms p e l
    by (simp add: EmotionStateResponse_dump_def EmotionStateResponse_validate_def exact_fields_def unknown_keys_def
        missing_keys_def has_key_def dict_get_Cons result_option_def EmotionStateResponse_init_def validate_public_version_def
        reject_non_finite_timestamp_def valid_public_def)
qed

section \<open>The request of a turn is accepted\<close>

lemma lower_uuid_chars:
  assumes "lower_uuid_text s"
  shows "length s = 36 \<and> list_all key_char s"
proof
  show "length s = 36"
    using list_all2_lengthD [OF assms [unfolded lower_uuid_text_def]] by (simp add: uuid_shape_def)
  have "(if h then hex_digit c else c = 45) \<Longrightarrow> key_char c" for h c
    by (auto simp: key_char_def hex_digit_def split: if_splits)
  with assms show "list_all key_char s"
    unfolding lower_uuid_text_def by (induction rule: list_all2_induct) auto
qed

lemma archival_event_accepted:
  assumes "lower_uuid_text r" and "size_ok dumps (PDict [(PStr (u ''message_id''), PStr r), (PStr (u ''kind''), PStr (u ''archival'')),
      (PStr (u ''version''), PInt 1)]) MAX_OUTBOX_PAYLOAD_BYTES"
  shows "validate_outbox_event dumps (build_archival_outbox_event r) = Inr ()"
proof -
  have k: "key_match 128 (u ''archival:'' @ r @ u '':v1'')" "key_match 128 r"
    using lower_uuid_chars [OF assms(1)] by (simp_all add: key_match_def key_char_def u_def)
  have c: "code_match ARCHIVAL_EVENT_TYPE" "key_match 128 (u ''archival'')"
    by (simp_all add: code_match_def code_char_def key_match_def key_char_def ARCHIVAL_EVENT_TYPE_def u_def)
  show ?thesis
    using k c assms(2)
    by (simp add: validate_outbox_event_def build_archival_outbox_event_def validate_outbox_event_payload_def accept_iff
        unknown_keys_def OUTBOX_PAYLOAD_ALLOWED_KEYS_def FORBIDDEN_PAYLOAD_KEYS_def outbox_entry_ok_def)
qed

lemma emotion_no_forbidden: "\<not> has_forbidden FORBIDDEN_PAYLOAD_KEYS (EmotionStateResponse_dump r)"
  by (simp add: EmotionStateResponse_dump_def PublicPAD_dump_def PublicDominantEmotion_dump_def FORBIDDEN_PAYLOAD_KEYS_def list_ex_iff)

text \<open>The documents of the request fit their limits and have a canonical text.\<close>

definition request_fits :: "codecs \<Rightarrow> commit_args \<Rightarrow> bool" where
  "request_fits C a \<longleftrightarrow> size_ok (co_dumps C) (ca_emotional_state a) MAX_REPLAY_PAYLOAD_BYTES
     \<and> size_ok (co_dumps C) (ca_relationship_state a) MAX_REPLAY_PAYLOAD_BYTES
     \<and> size_ok (co_dumps C) (ca_replay_payload a) MAX_REPLAY_PAYLOAD_BYTES
     \<and> (\<forall>e \<in> set (the (as_list (ca_outbox_events a))). size_ok (co_dumps C) (the (as_sequence e) ! 1) MAX_OUTBOX_PAYLOAD_BYTES)
     \<and> Option.bind (co_hash_json C (build_canonical_commit_payload a)) utf8_encode \<noteq> None"

lemma commit_request_validates:
  assumes "valid_state es" "valid_relationship rs" "valid_public em" "0 \<le> n" "uuid_match mid"
    and "pi_user_id inp \<noteq> []" "lower_uuid_text (pi_request_id inp)"
    and f: "request_fits C (commit_request T inp n es rs em (PStr resp) mid ms)"
  shows "validate_atomic_commit_input (co_dumps C) (commit_request T inp n es rs em (PStr resp) mid ms) = Inr ()"
proof -
  let ?a = "commit_request T inp n es rs em (PStr resp) mid ms"
  have s: "validate_snapshot_payload (co_dumps C) (ca_emotional_state ?a) EmotionalKind = Inr ()"
    "validate_snapshot_payload (co_dumps C) (ca_relationship_state ?a) RelationshipKind = Inr ()"
    using emotional_snapshot_ok [OF assms(1)] relationship_snapshot_ok [OF assms(2)] f
    by (simp_all add: request_fits_def commit_request_def)
  have e: "validate_outbox_events (co_dumps C) (the (as_list (ca_outbox_events ?a))) = Inr ()"
    using f archival_event_accepted [OF assms(7)]
    by (auto simp: request_fits_def commit_request_def build_archival_outbox_event_def)
  have "replay_ok (co_dumps C) [(PStr (u ''response''), PStr resp), (PStr (u ''emotion_state''), EmotionStateResponse_dump em),
        (PStr (u ''message_id''), PStr mid), (PStr (u ''duration_ms''), PInt ms)] (PStr (pi_request_id inp))"
    using f assms(5) emotion_no_forbidden [of em]
    by (simp add: replay_ok_def request_fits_def commit_request_def dict_get_Cons has_key_def REPLAY_PAYLOAD_ALLOWED_KEYS_def)
       (simp add: FORBIDDEN_PAYLOAD_KEYS_def)
  then have r: "validate_replay_payload (co_dumps C) (ca_replay_payload ?a) (Some (PStr (pi_request_id inp))) = Inr ()"
    by (simp add: commit_request_def validate_replay_payload_iff)
  have "uuid_match (pi_request_id inp)" using assms(7) by (simp add: uuid_match_def)
  then show ?thesis
    using s e r assms(4,6)
    by (simp add: validate_atomic_commit_input_def commit_request_def accept_iff scalar_iffs mapping_get_def dict_get_Cons)
qed

lemma commit_request_prepares:
  assumes "validate_atomic_commit_input (co_dumps C) a = Inr ()" and "request_fits C a" and "key_match 64 owner"
  shows "\<exists>h. prepare_commit (co_dumps C) (co_hash_json C) (co_sha256 C) a (PStr owner) = Inr (build_commit_turn_rpc_payload a h (PStr owner))"
proof -
  obtain t b where "co_hash_json C (build_canonical_commit_payload a) = Some t" "utf8_encode t = Some b"
    using assms(2) by (auto simp: request_fits_def bind_eq_Some_conv)
  then show ?thesis
    using assms(1,3) by (intro exI [of _ "co_sha256 C b"]) (simp add: prepare_commit_def canonical_payload_hash_def build_canonical_commit_payload_def)
qed

text \<open>A turn whose persisted payload is the payload that was sent.\<close>

lemma parse_echoed_payload:
  assumes "valid_public em"
    and "ct_replay_payload t = deep_freeze (ca_replay_payload (commit_request T inp n es rs em (PStr resp) mid ms))"
  shows "parse_public_result t = Inr \<lparr>pr_committed = t, pr_response = resp, pr_emotion_state = em\<rparr>"
proof -
  obtain d where d: "as_mapping (deep_freeze (EmotionStateResponse_dump em)) = Some d" "EmotionStateResponse_validate d = Some em"
    using emotion_validate_frozen [OF assms(1)] by blast
  then show ?thesis
    using assms(2) by (simp add: parse_public_result_def commit_request_def mapping_get_def dict_get_Cons)
qed

section \<open>The two transitions of a turn\<close>

lemma next_states_closed:
  assumes "valid_state es" and "valid_relationship rs" and "0 < t"
  shows "next_states C T es rs (Inst a) (flt t) =
     (if t < rs_timestamp rs then Inl (Raised (RelationExn RClockRegression))
      else Inr (next_state (co_pow C) es a t (pt_transition_config T), next_relationship rs a t (pt_relationship_config T)))"
proof -
  have "validate_current_time (flt t) = Inr t" using assms(3) by (simp add: accept_iff)
  moreover have "rel_require_current_time (flt t) = Inr t" using assms(3) by (simp add: rel_require_current_time_iff)
  ultimately show ?thesis
    by (simp add: next_states_def transition_closed_form [OF assms(1)] transition_relationship_closed_form [OF assms(2)])
qed

section \<open>Stages that succeed\<close>

lemma read_stage_Inr:
  assumes "0 < remaining_before_reserve b (fst (po_monotonic P w))" and "0 < timeout"
    and "\<And>t w. fst (po_await P t w) = InTime" and "\<And>w. fst (f w) = Inr x"
  shows "fst (read_stage P b timeout allow f w) = Inr x"
proof -
  obtain now w1 where w1: "po_monotonic P w = (now, w1)" by fastforce
  let ?t = "min (remaining_before_reserve b now) timeout"
  obtain w2 where w2: "po_await P ?t w1 = (InTime, w2)" using assms(3) [of ?t w1] by (cases "po_await P ?t w1") auto
  obtain w3 where w3: "f w2 = (Inr x, w3)" using assms(4) [of w2] by (cases "f w2") auto
  show ?thesis
    using assms(1,2) w1 w2 w3 by (simp add: read_stage_def run_blocking_read_def end_of_def Let_def not_le)
qed

lemma write_stage_Inr:
  assumes "0 < remaining b (fst (po_monotonic P w))" and "\<And>w. \<not> fst (po_cancelled P w)"
    and "fst (f (snd (po_monotonic P w))) = Inr x"
  shows "fst (write_stage P b allow f w) = Inr x"
proof -
  obtain now w1 where w1: "po_monotonic P w = (now, w1)" by fastforce
  obtain w2 where w2: "f w1 = (Inr x, w2)" using assms(3) w1 by (cases "f w1") auto
  obtain w3 where w3: "po_cancelled P w2 = (False, w3)" using assms(2) [of w2] by (cases "po_cancelled P w2") auto
  show ?thesis
    using assms(1) w1 w2 w3 by (simp add: write_stage_def not_le worker_end_of_def classify_write_def)
qed

lemma remaining_after_reserve: "0 < remaining_before_reserve b now \<Longrightarrow> 0 \<le> tb_reserve b \<Longrightarrow> 0 < remaining b now"
proof (rule ccontr)
  assume a: "0 < remaining_before_reserve b now" "0 \<le> tb_reserve b" "\<not> 0 < remaining b now"
  then have "remaining b now = 0" by (simp add: remaining_def)
  then have "fsub (remaining b now) (tb_reserve b) \<le> 0"
    using a(2) fl_mono [of "- tb_reserve b" 0] by (simp add: fsub_def)
  with a(1) show False by (simp add: remaining_before_reserve_def)
qed

text \<open>What the procedure promises: a call that satisfies the contract is confirmed with the payload it carries.\<close>

definition confirming :: "(pyobj \<Rightarrow> pystr option) \<Rightarrow> 'w client \<Rightarrow> bool" where
  "confirming dumps c \<longleftrightarrow> (\<forall>row w. call_ok dumps (u ''commit_turn'', row) \<longrightarrow>
     (\<exists>t. commit_answer dumps (fst (cl_rpc c (u ''commit_turn'') row w)) = Inr t
        \<and> ct_replay_payload t = deep_freeze (row_get row (u ''p_replay_payload'') PNone)))"

text \<open>A request that prepares is committed when the database confirms the payload it is sent.\<close>

lemma commit_stage_confirmed:
  assumes "po_client P = Some c" and "validate_lease_owner (PStr (pt_lease_owner T)) = Inr ()"
    and "prepare_commit (co_dumps C) (co_hash_json C) (co_sha256 C) a (PStr (pt_lease_owner T)) = Inr (build_commit_turn_rpc_payload a h lo)"
    and "0 < remaining (pi_budget inp) (fst (po_monotonic P w))" and "\<And>w. \<not> fst (po_cancelled P w)"
    and "dumps_no_proxy (co_dumps C)" and "confirming (co_dumps C) c" and "ca_replay_payload a = PDict d"
  shows "\<exists>tt. fst (commit_stage C P T inp a w) = Inr (Committed tt) \<and> ct_replay_payload tt = deep_freeze (ca_replay_payload a)"
proof -
  let ?row = "build_commit_turn_rpc_payload a h lo" and ?w = "snd (po_monotonic P w)"
  obtain answer w1 where a: "cl_rpc c (u ''commit_turn'') ?row ?w = (answer, w1)" by fastforce
  have "row_get ?row (u ''p_replay_payload'') PNone = ca_replay_payload a"
    using assms(8) by (simp add: row_get_def build_commit_turn_rpc_payload_def as_dict_def)
  then obtain tt where tt: "commit_answer (co_dumps C) answer = Inr tt" "ct_replay_payload tt = deep_freeze (ca_replay_payload a)"
    using assms(7) [unfolded confirming_def, rule_format, OF prepared_call_ok [OF assms(6,3)], of ?w] a by auto
  obtain data d where "answer = Some data" "unwrap_rpc_data data = Inr d" "parse_commit_turn_result (co_dumps C) d = Inr tt"
    using tt(1) by (auto simp: commit_answer_def split: option.splits sum.splits)
  then have "TurnCommitRepository_commit (co_dumps C) (co_hash_json C) (co_sha256 C) (po_client P) a (PStr (pt_lease_owner T)) ?w = (Inr tt, w1)"
    using assms(1,2,3) a by (simp add: TurnCommitRepository_commit_def commit_turn_def unwrapping_rpc_def del: validate_lease_owner.simps)
  then have "fst (write_stage P (pi_budget inp) repo_allowed
      (\<lambda>w. let (r, w') = TurnCommitRepository_commit (co_dumps C) (co_hash_json C) (co_sha256 C) (po_client P) a
                            (PStr (pt_lease_owner T)) w in (lift_repo r, w')) w) = Inr tt"
    by (intro write_stage_Inr assms(4,5)) (simp add: lift_repo_def)
  then show ?thesis using tt(2) by (intro exI [of _ tt]) (simp add: commit_stage_def Let_def split_beta settle_commit_def)
qed

text \<open>
  Ports that answer: the budget lasts, no read times out, nothing is cancelled, the stored state is readable and
  not newer than the clock, the context loads, the model gives a valid appraisal and a text, the documents
  fit and the database confirms.
\<close>

definition loop_answers :: "'w ports \<Rightarrow> ProcessTurn \<Rightarrow> ProcessTurnInput \<Rightarrow> rat \<Rightarrow> bool" where
  "loop_answers P T inp t \<longleftrightarrow>
     (\<forall>w. 0 < remaining_before_reserve (pi_budget inp) (fst (po_monotonic P w))) \<and> (\<forall>w. fst (po_clock P w) = Fin t) \<and> 0 < t
     \<and> (\<forall>x w. fst (po_await P x w) = InTime) \<and> (\<forall>w. \<not> fst (po_cancelled P w))
     \<and> 0 < pt_supabase_timeout T \<and> 0 \<le> tb_reserve (pi_budget inp) \<and> (\<forall>w. uuid_match (fst (po_uuid4 P w)))"

definition state_answers ::
    "'w ports \<Rightarrow> 'w client \<Rightarrow> ProcessTurnInput \<Rightarrow> rat \<Rightarrow> LoadedUserState \<Rightarrow> EmotionalStateV1 \<Rightarrow> RelationshipStateV1 \<Rightarrow> bool" where
  "state_answers P c inp t st es rs \<longleftrightarrow> po_client P = Some c
     \<and> (\<forall>w. fst (UserStateRepository_load (Some c) PNone (pi_user_id inp) (flt t) w) = Inr st)
     \<and> previous_states st (flt t) = Inr (es, rs) \<and> valid_state es \<and> valid_relationship rs
     \<and> 0 \<le> lu_revision st \<and> rs_timestamp rs \<le> t"

definition model_answers ::
    "codecs \<Rightarrow> 'w ports \<Rightarrow> ProcessTurnInput \<Rightarrow> LoadedUserState \<Rightarrow> LoadedContextData arg \<Rightarrow> AppraisalV1 \<Rightarrow> EmotionalStateV1
     \<Rightarrow> RelationshipStateV1 \<Rightarrow> pystr \<Rightarrow> bool" where
  "model_answers C P inp st loaded a es' rs' resp \<longleftrightarrow>
     (\<forall>w. fst (po_load_context P (pi_user_id inp) (pi_user_message inp) (lu_persona_config st) (lu_user_profile st) w) = Inr loaded)
     \<and> (\<forall>w. fst (po_appraise P (pi_user_message inp) w) = Inr (Inst a)) \<and> valid_appraisal a
     \<and> (\<exists>msgs. generation_messages C es' rs' loaded (pi_user_message inp) = Inr msgs
          \<and> (\<forall>w. fst (po_generate P msgs w) = Inr (PStr resp)))"

definition identified :: "ProcessTurn \<Rightarrow> ProcessTurnInput \<Rightarrow> bool" where
  "identified T inp \<longleftrightarrow> pi_user_id inp \<noteq> [] \<and> lower_uuid_text (pi_request_id inp) \<and> key_match 64 (pt_lease_owner T)"

lemma answering_ports_complete:
  assumes mode: "pi_mode inp = normal" and loop: "loop_answers P T inp t" and state: "state_answers P c inp t st es rs"
    and es': "es' = next_state (co_pow C) es a t (pt_transition_config T)"
    and rs': "rs' = next_relationship rs a t (pt_relationship_config T)"
    and model: "model_answers C P inp st loaded a es' rs' resp" and identity: "identified T inp"
    and emotion: "project_public_emotion (Some (Inst es')) (Some (Inst a)) = Inr em"
    and fits: "\<And>mid ms. request_fits C (commit_request T inp (lu_revision st) es' rs' em (PStr resp) mid ms)"
    and db: "dumps_no_proxy (co_dumps C)" "confirming (co_dumps C) c"
  shows "\<exists>t. fst (execute C P T inp w) = Inr \<lparr>pr_committed = t, pr_response = resp, pr_emotion_state = em\<rparr>"
proof -
  let ?req = "\<lambda>mid ms. commit_request T inp (lu_revision st) es' rs' em (PStr resp) mid ms"
  note l = loop [unfolded loop_answers_def] and s = state [unfolded state_answers_def] and m = model [unfolded model_answers_def]
  obtain msgs where msgs: "generation_messages C es' rs' loaded (pi_user_message inp) = Inr msgs"
    "\<And>w. fst (po_generate P msgs w) = Inr (PStr resp)" using m by blast
  have v: "valid_state es'" "valid_relationship rs'"
    using l s next_state_valid [of es t "co_pow C" a] next_relationship_valid [of rs t a] by (simp_all add: es' rs')
  have p: "valid_public em" using project_valid_public [OF v(1) _ emotion] m by blast
  have "fst (load_stage P T inp (flt t) w) = Inr st" for w
    unfolding load_stage_def by (rule read_stage_Inr) (use l s in \<open>simp_all add: Let_def split_beta lift_repo_def\<close>)
  moreover have "fst (context_stage P T inp st w) = Inr loaded" for w
    unfolding context_stage_def Let_def split_beta fst_conv
    by (subst read_stage_Inr [where x = loaded]) (use l m in simp_all)
  moreover have "next_states C T es rs (Inst a) (flt t) = Inr (es', rs')"
    using next_states_closed [of es rs t] l s by (simp add: es' rs')
  moreover have "fst (check_budget P (pi_budget inp) w) = Inr ()" for w
    using l by (simp add: check_budget_def io_bind_Inr not_le)
  ultimately have once: "\<exists>w1 mid ms. uuid_match mid \<and> run_once C P T inp w = commit_stage C P T inp (?req mid ms) w1"
    using l m s msgs emotion
    by (simp add: run_once_def io_bind_Inr Let_def) (rule exI, rule exI, rule conjI [rotated], rule exI, rule refl, blast)
  from once obtain w1 mid ms where mid: "uuid_match mid" and r: "run_once C P T inp w = commit_stage C P T inp (?req mid ms) w1"
    by (elim exE conjE)
  note i = identity [unfolded identified_def]
  have "validate_atomic_commit_input (co_dumps C) (?req mid ms) = Inr ()"
    using i s by (intro commit_request_validates v p mid fits) simp_all
  then obtain h where h: "prepare_commit (co_dumps C) (co_hash_json C) (co_sha256 C) (?req mid ms) (PStr (pt_lease_owner T))
      = Inr (build_commit_turn_rpc_payload (?req mid ms) h (PStr (pt_lease_owner T)))"
    using commit_request_prepares [OF _ fits] i by blast
  have d: "\<exists>d. ca_replay_payload (?req mid ms) = PDict d" by (simp add: commit_request_def)
  obtain tt where tt: "fst (commit_stage C P T inp (?req mid ms) w1) = Inr (Committed tt)"
    and e: "ct_replay_payload tt = deep_freeze (ca_replay_payload (?req mid ms))"
    using commit_stage_confirmed [OF _ _ h _ _ db] d i l s remaining_after_reserve [of "pi_budget inp"] by (elim exE) (simp; metis)
  obtain w' where "commit_stage C P T inp (?req mid ms) w1 = (Inr (Committed tt), w')"
    using tt by (cases "commit_stage C P T inp (?req mid ms) w1") simp
  then have "execute_normal C P T inp w = (Inr tt, w')" using r by (simp add: execute_normal_def execute_from.simps)
  then show ?thesis using parse_echoed_payload [OF p e] mode by (simp add: execute_def io_bind_def io_lift_def)
qed

section \<open>A sample installation\<close>

definition sample_codecs :: codecs where
  "sample_codecs = \<lparr>co_dumps = sample_dumps, co_hash_json = (\<lambda>_. Some (u ''{}'')), co_canon = count_canon,
     co_sha256 = (\<lambda>_. u ''00''), co_iso_utc = (\<lambda>s. Some s), co_pow = step_pow\<rparr>"

text \<open>A database that confirms every call with the payload it carries, and a stored profile.\<close>

definition confirm_row :: "row \<Rightarrow> pyobj" where
  "confirm_row row =
     (let arg = (\<lambda>k. row_get row (u k) PNone) in PDict
     [(PStr (u ''user_id''), arg ''p_authenticated_user_id''), (PStr (u ''request_id''), arg ''p_request_id''),
      (PStr (u ''committed_revision''), PInt 4), (PStr (u ''user_message_id''), arg ''p_request_id''),
      (PStr (u ''assistant_message_id''), mapping_get (arg ''p_replay_payload'') (u ''message_id'')),
      (PStr (u ''replay_payload''), arg ''p_replay_payload''), (PStr (u ''outbox_events''), PList []),
      (PStr (u ''created_at''), PStr (u ''now'')), (PStr (u ''completed_at''), PStr (u ''now''))])"

definition sample_client :: "unit client" where
  "sample_client = \<lparr>cl_select_profiles = (\<lambda>_ w. (Some (PList [PDict
       [(PStr (u ''revision''), PInt 3), (PStr (u ''emotional_state''), EmotionalStateV1_to_dict calm_state),
        (PStr (u ''relationship_state''), RelationshipStateV1_to_dict friend_state)]]), w)),
     cl_rpc = (\<lambda>_ row w. (Some (confirm_row row), w))\<rparr>"

definition sample_ports :: "unit ports" where
  "sample_ports = \<lparr>po_monotonic = (\<lambda>w. (0, w)), po_clock = (\<lambda>w. (Fin 2000, w)), po_await = (\<lambda>_ w. (InTime, w)),
     po_cancelled = (\<lambda>w. (False, w)), po_client = Some sample_client,
     po_load_context = (\<lambda>_ _ _ _ w. (Inr (Inst \<lparr>ld_history_rows = [], ld_retrieved_memories = [], ld_profile_snapshot = [],
        ld_persona_snapshot = []\<rparr>), w)),
     po_appraise = (\<lambda>_ w. (Inr (Inst warm_appraisal), w)), po_generate = (\<lambda>_ w. (Inr (PStr (u ''hi there'')), w)),
     po_uuid4 = (\<lambda>w. (u ''22222222-2222-2222-2222-222222222222'', w))\<rparr>"

definition sample_turn :: ProcessTurn where
  "sample_turn = \<lparr>pt_transition_config = default_config, pt_relationship_config = projr RelationshipTransitionConfig_defaults,
     pt_supabase_timeout = 5, pt_archival_extraction_enabled = True,
     pt_lease_owner = new_lease_owner (u ''0123456789abcdef0123456789abcdef'')\<rparr>"

definition sample_input :: ProcessTurnInput where
  "sample_input = \<lparr>pi_user_id = u ''ana'', pi_request_id = u ''11111111-1111-1111-1111-111111111111'', pi_user_message = u ''hi'',
     pi_budget = \<lparr>tb_deadline = 45, tb_reserve = 10\<rparr>, pi_correlation = replicate 64 48, pi_mode = normal\<rparr>"

lemma confirm_row_parses:
  assumes "call_ok dumps (u ''commit_turn'', row)"
  shows "\<exists>t. parse_commit_turn_result dumps (confirm_row row) = Inr t
     \<and> ct_replay_payload t = deep_freeze (row_get row (u ''p_replay_payload'') PNone)"
proof -
  let ?arg = "\<lambda>k. row_get row (u k) PNone"
  obtain us rq rp where k: "?arg ''p_authenticated_user_id'' = PStr us" "us \<noteq> []" "?arg ''p_request_id'' = PStr rq" "uuid_match rq"
    "?arg ''p_replay_payload'' = PDict rp" "replay_ok dumps rp (PStr rq)"
    using assms by (auto simp: call_ok_def Let_def scalar_iffs split: pyobj.splits)
  then obtain mid where m: "dict_get rp (u ''message_id'') = PStr mid" "uuid_match mid"
    by (auto simp: replay_ok_def is_valid_uuid_iff)
  show ?thesis
    using k m validate_replay_payload_iff [of dumps rp "PStr rq" "()"]
    by (simp add: confirm_row_def parse_commit_turn_result_def parse_success_def has_key_def missing_keys_def unknown_keys_def
        SUCCESS_FIELDS_def dict_get_Cons mapping_get_def validate_uuid_def CommittedTurn_init_def)
qed

lemma sample_confirming: "confirming dumps sample_client"
proof -
  have "commit_answer dumps (Some (confirm_row row)) = parse_commit_turn_result dumps (confirm_row row)" for row
    by (simp add: commit_answer_def unwrap_rpc_data_def confirm_row_def Let_def)
  then show ?thesis using confirm_row_parses by (simp add: confirming_def sample_client_def)
qed

lemma migrate_stored: "valid_state s \<Longrightarrow> migrate_legacy_snapshot (EmotionalStateV1_to_dict s) = Inr s"
proof -
  assume v: "valid_state s"
  obtain d where d: "EmotionalStateV1_to_dict s = PDict d" "has_key d (u ''schema_version'')"
    by (simp add: EmotionalStateV1_to_dict_def has_key_def)
  then show ?thesis using migrate_versioned [OF d(2)] es.from_to [OF v] by simp
qed

lemma strip_nonblank: "x \<in> set s \<Longrightarrow> \<not> is_space x \<Longrightarrow> strip s \<noteq> []"
proof -
  assume x: "x \<in> set s" "\<not> is_space x"
  then have "x \<in> set (dropWhile is_space s)" by (metis takeWhile_dropWhile_id Un_iff set_append set_takeWhileD)
  then have "dropWhile is_space (rev (dropWhile is_space s)) \<noteq> []" using x by auto
  then show ?thesis by (simp add: strip_def)
qed

lemma bare_generation:
  "\<exists>m. generation_messages sample_codecs es rs (Inst \<lparr>ld_history_rows = [], ld_retrieved_memories = [], ld_profile_snapshot = [],
        ld_persona_snapshot = []\<rparr>) (u ''hi'') = Inr m"
proof -
  let ?p = "build_trusted_policy es rs []"
  have p: "?p \<noteq> []" "strip ?p \<noteq> []"
    using strip_nonblank [of 46 ?p] rules_end(2,3) last_in_set [OF rules_end(2)]
    by (auto simp: build_trusted_policy_def Let_def strip_policy is_space_def)
  have "history_messages (\<lambda>s. Some s) 0 [] = Inr []" "memory_items 0 [] = Inr []" by simp_all
  then have b: "build_context_bundle count_canon (\<lambda>s. Some s) (PStr ?p) (Inst \<lparr>ld_history_rows = [], ld_retrieved_memories = [],
      ld_profile_snapshot = [], ld_persona_snapshot = []\<rparr>) = Inr \<lparr>cb_trusted_policy = ?p, cb_history = [], cb_profile_items = [],
      cb_memory_items = [], cb_persona_items = [], cb_truncation_report = empty_report\<rparr>"
    using p by (simp add: build_context_bundle_def profile_item_def persona_item_def ContextBundle_init_def str_or_empty_def strip_def)
  have "sort_history [] = Inr []" by (simp add: sort_history_def)
  then have "\<exists>r. build_envelope count_canon (Inst \<lparr>cb_trusted_policy = ?p, cb_history = [], cb_profile_items = [],
      cb_memory_items = [], cb_persona_items = [], cb_truncation_report = empty_report\<rparr>) (PStr (u ''hi'')) (PInt 16000) = Inr r"
    using p by (simp add: build_envelope_def Let_def str_or_empty_def validate_unique_refs_def bundle_refs_def context_items_def
        count_units select_history_def categorized_def final_messages_def aggregate_report_iff valid_report_def empty_report_def
        truncation_codes_def TRUNCATION_VALID_CODES_def)
  then show ?thesis
    using b by (auto simp: generation_messages_def sample_codecs_def PROVIDER_INPUT_MAX_ESTIMATED_UNITS_def)
qed

lemma sample_loop: "loop_answers sample_ports sample_turn sample_input 2000"
proof -
  have "fl 45 = 45" "fl 35 = 35" using fl_small_int [of 45] fl_small_int [of 35] by simp_all
  then show ?thesis
    by (simp add: loop_answers_def sample_ports_def sample_turn_def sample_input_def remaining_before_reserve_def remaining_def
        fsub_def sample_uuids)
qed

definition sample_state :: LoadedUserState where
  "sample_state = \<lparr>lu_user_id = u ''ana'', lu_revision = 3, lu_persona_config = PNone, lu_user_profile = PDict [],
     lu_emotional_state = EmotionalStateV1_to_dict calm_state, lu_relationship_state = RelationshipStateV1_to_dict friend_state\<rparr>"

lemma sample_loaded: "state_answers sample_ports sample_client sample_input 2000 sample_state calm_state friend_state"
proof -
  obtain d e where d: "EmotionalStateV1_to_dict calm_state = PDict d" and e: "RelationshipStateV1_to_dict friend_state = PDict e" "e \<noteq> []"
    by (simp add: EmotionalStateV1_to_dict_def RelationshipStateV1_to_dict_def)
  have l: "fst (UserStateRepository_load (Some sample_client) PNone (u ''ana'') (flt 2000) w) = Inr sample_state" for w
    by (simp add: UserStateRepository_load_def sample_client_def state_of_row_def d e dict_get_Cons Let_def sample_state_def)
       (simp add: dict_get_def)
  have "previous_states sample_state (flt 2000) = Inr (calm_state, friend_state)"
    using migrate_stored [OF valid_calm_state] migrate_v1 [OF valid_friend_state] d e
    by (simp add: previous_states_def sample_state_def)
  then show ?thesis
    using l valid_calm_state valid_friend_state
    by (simp add: state_answers_def sample_ports_def sample_input_def) (simp add: sample_state_def friend_state_def)
qed

lemma sample_identified: "identified sample_turn sample_input"
proof -
  have "lower_uuid_text (u ''11111111-1111-1111-1111-111111111111'')"
    by (simp add: lower_uuid_text_def uuid_shape_def u_def hex_digit_def numeral_eq_Suc)
  then show ?thesis
    by (simp add: identified_def sample_turn_def sample_input_def new_lease_owner_def LEASE_OWNER_PREFIX_def key_match_def key_char_def u_def)
qed

lemma sample_model: "\<exists>loaded. model_answers sample_codecs sample_ports sample_input sample_state loaded warm_appraisal es' rs' (u ''hi there'')"
  using bare_generation [of es' rs'] valid_warm_appraisal
  by (auto simp: model_answers_def sample_ports_def sample_input_def)

lemma sample_fits: "request_fits sample_codecs (commit_request sample_turn sample_input n es rs em (PStr r) mid ms)"
  using utf8_encode_ascii [of "u ''{}''"]
  by (simp add: request_fits_def sample_codecs_def commit_request_def EmotionalStateV1_to_dict_def RelationshipStateV1_to_dict_def
      sample_size sample_turn_def build_archival_outbox_event_def MAX_REPLAY_PAYLOAD_BYTES_def MAX_OUTBOX_PAYLOAD_BYTES_def)
     (simp add: u_def)

lemma sample_no_proxy: "dumps_no_proxy (co_dumps sample_codecs)"
  by (simp add: dumps_no_proxy_def sample_dumps_def sample_codecs_def)

text \<open>The sample with its calls recorded.\<close>

lemma keeping_fst [simp]: "fst (keeping m s) = fst (m (fst s))"
  by (simp add: keeping_def Let_def split_beta)

lemma recorded_loop: "loop_answers P T inp t \<Longrightarrow> loop_answers (recorded P) T inp t"
  by (simp add: loop_answers_def recorded_def)

lemma recorded_state:
  assumes "state_answers P c inp t st es rs"
  shows "state_answers (recorded P) (recorded_client c) inp t st es rs"
proof -
  have "fst (UserStateRepository_load (Some (recorded_client c)) PNone user ts s) = fst (UserStateRepository_load (Some c) PNone user ts (fst s))"
    for user ts s
    by (simp add: UserStateRepository_load_def recorded_client_def keeping_def Let_def split_beta split: option.splits)
  then show ?thesis using assms by (simp add: state_answers_def recorded_def)
qed

lemma recorded_model: "model_answers C P inp st loaded a es' rs' resp \<Longrightarrow> model_answers C (recorded P) inp st loaded a es' rs' resp"
  by (simp add: model_answers_def recorded_def)

lemma recorded_confirming: "confirming dumps c \<Longrightarrow> confirming dumps (recorded_client c)"
  by (simp add: confirming_def recorded_client_def recorded_rpc_def Let_def split_beta)

lemma sample_recorded_run:
  "\<exists>res s. execute sample_codecs (recorded sample_ports) sample_turn sample_input ((), []) = (Inr res, s) \<and> pr_response res = u ''hi there''"
proof -
  let ?es = "next_state step_pow calm_state warm_appraisal 2000 default_config"
    and ?rs = "next_relationship friend_state warm_appraisal 2000 (projr RelationshipTransitionConfig_defaults)"
  have v: "valid_state ?es" by (rule next_state_valid [OF valid_calm_state]) simp
  then obtain em where em: "project_public_emotion (Some (Inst ?es)) (Some (Inst warm_appraisal)) = Inr em"
    using project_closed_form [OF v valid_warm_appraisal] by blast
  obtain loaded where m: "model_answers sample_codecs sample_ports sample_input sample_state loaded warm_appraisal ?es ?rs (u ''hi there'')"
    using sample_model by blast
  have "pi_mode sample_input = normal" by (simp add: sample_input_def)
  from answering_ports_complete [OF this recorded_loop [OF sample_loop] recorded_state [OF sample_loaded] _ _ recorded_model [OF m]
      sample_identified em sample_fits sample_no_proxy recorded_confirming [OF sample_confirming], of "((), [])"]
  obtain t where "fst (execute sample_codecs (recorded sample_ports) sample_turn sample_input ((), []))
      = Inr \<lparr>pr_committed = t, pr_response = u ''hi there'', pr_emotion_state = em\<rparr>"
    by (auto simp: sample_codecs_def sample_turn_def)
  then show ?thesis
    by (cases "execute sample_codecs (recorded sample_ports) sample_turn sample_input ((), [])") auto
qed

section \<open>Properties\<close>

text \<open>C1: an execution in normal mode makes at most two procedure calls, in replay mode at most one.  In
  normal mode each is a commit whose parameters satisfy the whole contract; in replay mode each is a
  replay.  Every call carries the authenticated user and the request of the input, so a retry commits under
  the same idempotency key.\<close>

theorem turn_calls_bounded:
  assumes "dumps_no_proxy (co_dumps C)" and "execute C (recorded P) T inp (w, []) = (r, w', cs)"
  shows "length cs \<le> (if pi_mode inp = replay_attempt then 1 else 2)
   \<and> list_all (call_of inp) cs
   \<and> list_all (\<lambda>c. if pi_mode inp = replay_attempt then fst c = u ''replay_committed_turn''
                    else call_ok (co_dumps C) (fst c, fst (snd c))) cs"
proof -
  obtain t where t: "(if pi_mode inp = replay_attempt then replay C (recorded P) T inp (w, [])
      else execute_normal C (recorded P) T inp (w, [])) = (t, w', cs)"
    using execute_committed [OF assms(2)] by (elim exE conjE)
  show ?thesis
  proof (cases "pi_mode inp = replay_attempt")
    case True
    with t recorded.replay_calls [of C P T inp "(w, [])" t "(w', cs)"] show ?thesis by (auto simp: list_all_iff)
  next
    case False
    with t recorded.execute_from_calls [OF assms(1), of P T inp 1 "(w, [])" t "(w', cs)"] show ?thesis
      by (auto simp: execute_normal_def list_all_iff commit_call_def MAX_COMMIT_ATTEMPTS_def)
  qed
qed

theorem turn_calls_bounded_witness:
  "\<exists>r s cs. execute sample_codecs (recorded sample_ports) sample_turn sample_input ((), []) = (r, s, cs)
     \<and> length cs \<le> 2 \<and> list_all (call_of sample_input) cs"
proof -
  obtain res cs where r: "execute sample_codecs (recorded sample_ports) sample_turn sample_input ((), []) = (Inr res, (), cs)"
    using sample_recorded_run by auto
  from turn_calls_bounded [OF sample_no_proxy r] r show ?thesis by (auto simp: sample_input_def)
qed

text \<open>C2: a result is exactly what the database confirmed.  When an execution returns, a call was made, the answer of
  the last call parses to the committed turn of the result, the response and the emotion of the result are
  read from its replay payload and not from anything computed before the commit, and every earlier
  commit was refused with a revision mismatch.\<close>

theorem result_is_persisted:
  assumes "dumps_no_proxy (co_dumps C)" and "execute C (recorded P) T inp (w, []) = (Inr res, w', cs)"
  shows "cs \<noteq> [] \<and> commit_answer (co_dumps C) (snd (snd (last cs))) = Inr (pr_committed res)
   \<and> mapping_get (ct_replay_payload (pr_committed res)) (u ''response'') = PStr (pr_response res)
   \<and> (\<exists>d. as_mapping (mapping_get (ct_replay_payload (pr_committed res)) (u ''emotion_state'')) = Some d
        \<and> EmotionStateResponse_validate d = Some (pr_emotion_state res))
   \<and> list_all (mismatch_answer C) (butlast cs)"
proof -
  obtain t where t: "(if pi_mode inp = replay_attempt then replay C (recorded P) T inp (w, [])
      else execute_normal C (recorded P) T inp (w, [])) = (Inr t, w', cs)" and r: "parse_public_result t = Inr res"
    using execute_committed [OF assms(2)] by (elim exE conjE) auto
  have "cs \<noteq> [] \<and> commit_answer (co_dumps C) (snd (snd (last cs))) = Inr t \<and> list_all (mismatch_answer C) (butlast cs)"
  proof (cases "pi_mode inp = replay_attempt")
    case True
    with t have "replay C (recorded P) T inp (w, []) = (Inr t, w', cs)" by simp
    from recorded.replay_calls [OF this] show ?thesis by (cases cs) auto
  next
    case False
    with t recorded.execute_from_calls [OF assms(1), of P T inp 1 "(w, [])" "Inr t" "(w', cs)"] show ?thesis
      by (simp add: execute_normal_def)
  qed
  then show ?thesis using parse_public_result_fields [OF r] by blast
qed

theorem result_is_persisted_witness:
  "\<exists>res cs. execute sample_codecs (recorded sample_ports) sample_turn sample_input ((), []) = (Inr res, (), cs)
     \<and> cs \<noteq> [] \<and> commit_answer sample_dumps (snd (snd (last cs))) = Inr (pr_committed res)"
proof -
  obtain res cs where r: "execute sample_codecs (recorded sample_ports) sample_turn sample_input ((), []) = (Inr res, (), cs)"
    using sample_recorded_run by auto
  from result_is_persisted [OF sample_no_proxy r] r show ?thesis by (auto simp: sample_codecs_def)
qed

text \<open>One attempt prepares a request that the commit accepts.  From a valid state, a valid relationship, a valid
  appraisal, a request id in canonical lower case and documents within their limits, validation passes with
  or without the archival event, the parameters are built, and when the database confirms the payload
  that was sent, the public result is exactly the generated response and the projected emotion.\<close>

theorem prepared_turn_accepted:
  assumes "valid_state es" and "valid_relationship rs" and "valid_appraisal a"
    and "project_public_emotion (Some (Inst es)) (Some (Inst a)) = Inr em"
    and "0 \<le> n" and "uuid_match mid" and "pi_user_id inp \<noteq> []" and "lower_uuid_text (pi_request_id inp)" and "key_match 64 owner"
    and "request_fits C (commit_request T inp n es rs em (PStr resp) mid ms)"
  shows "(\<exists>row. prepare_commit (co_dumps C) (co_hash_json C) (co_sha256 C) (commit_request T inp n es rs em (PStr resp) mid ms) (PStr owner) = Inr row)
   \<and> (ct_replay_payload t = deep_freeze (ca_replay_payload (commit_request T inp n es rs em (PStr resp) mid ms)) \<longrightarrow>
        parse_public_result t = Inr \<lparr>pr_committed = t, pr_response = resp, pr_emotion_state = em\<rparr>)"
proof -
  have p: "valid_public em" by (rule project_valid_public [OF assms(1,3,4)])
  have "validate_atomic_commit_input (co_dumps C) (commit_request T inp n es rs em (PStr resp) mid ms) = Inr ()"
    using assms p by (intro commit_request_validates)
  then show ?thesis using commit_request_prepares [OF _ assms(10,9)] parse_echoed_payload [OF p] by blast
qed

theorem prepared_turn_accepted_witness:
  "\<exists>em row. project_public_emotion (Some (Inst calm_state)) (Some (Inst warm_appraisal)) = Inr em
     \<and> prepare_commit sample_dumps (\<lambda>_. Some (u ''{}'')) (\<lambda>_. u ''00'')
         (commit_request sample_turn sample_input 3 calm_state friend_state em (PStr (u ''hi'')) (u ''22222222-2222-2222-2222-222222222222'') 12)
         (PStr (u ''w'')) = Inr row"
proof -
  obtain em where em: "project_public_emotion (Some (Inst calm_state)) (Some (Inst warm_appraisal)) = Inr em"
    using project_closed_form [OF valid_calm_state valid_warm_appraisal] by blast
  have o: "key_match 64 (u ''w'')" by (simp add: key_match_def key_char_def u_def)
  note i = sample_identified [unfolded identified_def]
  from prepared_turn_accepted [OF valid_calm_state valid_friend_state valid_warm_appraisal em _ sample_uuids(2)
      conjunct1 [OF i] conjunct1 [OF conjunct2 [OF i]] o sample_fits, of 3]
  show ?thesis using em by (auto simp: sample_codecs_def)
qed


text \<open>Both domains move together or not at all, and they disagree about clocks that go back.  From valid
  states, at a positive time not before the relationship's time stamp, the turn computes exactly the two next
  states, both valid; at an earlier time the emotional transition still succeeds with no elapsed time, but the
  relationship refuses, so the turn fails and nothing is committed.\<close>

theorem turn_transitions_exact:
  assumes "valid_state es" and "valid_relationship rs" and "0 < t"
  shows "(rs_timestamp rs \<le> t \<longrightarrow> (\<exists>es' rs'. next_states C T es rs (Inst a) (flt t) = Inr (es', rs')
           \<and> es' = next_state (co_pow C) es a t (pt_transition_config T)
           \<and> rs' = next_relationship rs a t (pt_relationship_config T) \<and> valid_state es' \<and> valid_relationship rs'))
   \<and> (t < rs_timestamp rs \<longrightarrow> next_states C T es rs (Inst a) (flt t) = Inl (Raised (RelationExn RClockRegression))
        \<and> (\<exists>r. transition (co_pow C) (Inst es) (Inst a) (flt t) (Inst (pt_transition_config T)) = Inr r))"
  using next_states_closed [OF assms] next_state_valid [OF assms(1,3)] next_relationship_valid [OF assms(2,3)]
    transition_Inr_iff [OF assms(1)] assms(3)
  by (auto simp: not_less)

theorem turn_transitions_exact_witness:
  "next_states sample_codecs sample_turn calm_state friend_state (Inst warm_appraisal) (flt 999) = Inl (Raised (RelationExn RClockRegression))
   \<and> (\<exists>es' rs'. next_states sample_codecs sample_turn calm_state friend_state (Inst warm_appraisal) (flt 1000) = Inr (es', rs') \<and> valid_state es')"
  using turn_transitions_exact [OF valid_calm_state valid_friend_state, of 999 sample_codecs sample_turn warm_appraisal]
    turn_transitions_exact [OF valid_calm_state valid_friend_state, of 1000 sample_codecs sample_turn warm_appraisal]
  by (auto simp: friend_state_def)

text \<open>C26: a turn completes when its ports answer.  If the budget lasts, no read times out and nothing is
  cancelled, the stored state is readable and not newer than the clock, the context loads, the model gives a valid
  appraisal and a text, the documents fit, and the database confirms the payload it is sent, then the
  execution returns, and it returns the generated text with the emotion projected from the new state.\<close>

theorem turn_completes:
  assumes "pi_mode inp = normal" and "loop_answers P T inp t" and "state_answers P c inp t st es rs"
    and "model_answers C P inp st loaded a (next_state (co_pow C) es a t (pt_transition_config T))
           (next_relationship rs a t (pt_relationship_config T)) resp"
    and "identified T inp"
    and "project_public_emotion (Some (Inst (next_state (co_pow C) es a t (pt_transition_config T)))) (Some (Inst a)) = Inr em"
    and "\<And>mid ms. request_fits C (commit_request T inp (lu_revision st) (next_state (co_pow C) es a t (pt_transition_config T))
           (next_relationship rs a t (pt_relationship_config T)) em (PStr resp) mid ms)"
    and "dumps_no_proxy (co_dumps C)" and "confirming (co_dumps C) c"
  shows "\<exists>t. fst (execute C P T inp w) = Inr \<lparr>pr_committed = t, pr_response = resp, pr_emotion_state = em\<rparr>"
  by (rule answering_ports_complete [OF assms(1,2,3) refl refl assms(4,5,6,7,8,9)])

theorem turn_completes_witness:
  "\<exists>t em. fst (execute sample_codecs sample_ports sample_turn sample_input ())
     = Inr \<lparr>pr_committed = t, pr_response = u ''hi there'', pr_emotion_state = em\<rparr>"
proof -
  let ?es = "next_state (co_pow sample_codecs) calm_state warm_appraisal 2000 (pt_transition_config sample_turn)"
    and ?rs = "next_relationship friend_state warm_appraisal 2000 (pt_relationship_config sample_turn)"
  have v: "valid_state ?es" by (rule next_state_valid [OF valid_calm_state]) simp
  then obtain em where em: "project_public_emotion (Some (Inst ?es)) (Some (Inst warm_appraisal)) = Inr em"
    using project_closed_form [OF v valid_warm_appraisal] by blast
  obtain loaded where m: "model_answers sample_codecs sample_ports sample_input sample_state loaded warm_appraisal ?es ?rs (u ''hi there'')"
    using sample_model by blast
  have "pi_mode sample_input = normal" by (simp add: sample_input_def)
  from turn_completes [OF this sample_loop sample_loaded m sample_identified em sample_fits sample_no_proxy sample_confirming, of "()"]
  show ?thesis by blast
qed

end
