(* ===== verification/Local_Contracts.thy ===== *)
theory Local_Contracts
  imports Turn_Commit
begin

text \<open>
  \<open>backend/local_storage/contracts.py\<close> and \<open>errors.py\<close>: the payload contracts of the local SQLite store.  An
  exception carries its code; the constant message texts are omitted.  Parameters: \<open>canon\<close>, which is
  \<open>json.dumps\<close> with sorted keys, compact separators, \<open>ensure_ascii=False\<close> and \<open>allow_nan=False\<close> (\<open>None\<close> is its
  \<open>TypeError\<close> or \<open>ValueError\<close>), and SHA-256.
\<close>

section \<open>Exceptions\<close>

record local_conflict =
  lc_code :: pystr
  lc_expected_revision :: int
  lc_actual_revision :: "int option"
  lc_request_id :: "pystr option"

datatype storage_exn =
    LConflictError local_conflict
  | LValidationError pystr
  | LPersistenceError pystr
  | LStorageCorruptError pystr
  | LUnicodeEncodeError
  | LTypeError
  | LEmotionalDomainError domain_error
  | LRelationshipDomainError RelationshipDomainError
  | LSqliteError \<comment> \<open>an \<open>sqlite3.Error\<close> that no handler caught\<close>
  | LOverflowError
  | LAssertionError

definition linvalid :: "bool \<Rightarrow> string \<Rightarrow> storage_exn + unit" where
  "linvalid bad code = guard (\<not> bad) (LValidationError (u code))"

lemma linvalid_iff [simp]:
  "linvalid b c = Inr x \<longleftrightarrow> \<not> b"
  "linvalid b c = Inl e \<longleftrightarrow> b \<and> e = LValidationError (u c)"
  by (simp_all add: linvalid_def)

section \<open>Bounds\<close>

definition LOCAL_MAX_REPLAY_PAYLOAD_BYTES :: nat where "LOCAL_MAX_REPLAY_PAYLOAD_BYTES = 8192"
definition LOCAL_MAX_OUTBOX_PAYLOAD_BYTES :: nat where "LOCAL_MAX_OUTBOX_PAYLOAD_BYTES = 8192"
definition MAX_SNAPSHOT_BYTES :: nat where "MAX_SNAPSHOT_BYTES = 8192"
definition MAX_OUTBOX_EVENTS :: nat where "MAX_OUTBOX_EVENTS = 32"

definition LOCAL_FORBIDDEN_PAYLOAD_KEYS :: "pystr list" where
  "LOCAL_FORBIDDEN_PAYLOAD_KEYS = map u [''prompt'', ''system_prompt'', ''meta_cognition'', ''internal_instructions'',
     ''message'', ''user_message'', ''assistant_message'', ''content'']"

definition LOCAL_SNAPSHOT_FORBIDDEN_KEYS :: "pystr list" where
  "LOCAL_SNAPSHOT_FORBIDDEN_KEYS = LOCAL_FORBIDDEN_PAYLOAD_KEYS @ map u [''user_id'', ''bond_label'']"

definition LOCAL_REPLAY_PAYLOAD_ALLOWED_KEYS :: "pystr list" where
  "LOCAL_REPLAY_PAYLOAD_ALLOWED_KEYS =
     map u [''response'', ''emotion_state'', ''message_id'', ''request_id'', ''duration_ms'']"

definition LOCAL_OUTBOX_PAYLOAD_ALLOWED_KEYS :: "pystr list" where
  "LOCAL_OUTBOX_PAYLOAD_ALLOWED_KEYS =
     map u [''ref'', ''request_id'', ''turn_id'', ''message_id'', ''entity_id'', ''kind'', ''version'']"

lemma local_key_sets:
  "LOCAL_FORBIDDEN_PAYLOAD_KEYS = FORBIDDEN_PAYLOAD_KEYS"
  "LOCAL_SNAPSHOT_FORBIDDEN_KEYS = SNAPSHOT_FORBIDDEN_KEYS"
  "LOCAL_REPLAY_PAYLOAD_ALLOWED_KEYS = REPLAY_PAYLOAD_ALLOWED_KEYS"
  "LOCAL_OUTBOX_PAYLOAD_ALLOWED_KEYS = OUTBOX_PAYLOAD_ALLOWED_KEYS"
  by (simp_all add: LOCAL_FORBIDDEN_PAYLOAD_KEYS_def FORBIDDEN_PAYLOAD_KEYS_def LOCAL_SNAPSHOT_FORBIDDEN_KEYS_def
      SNAPSHOT_FORBIDDEN_KEYS_def LOCAL_REPLAY_PAYLOAD_ALLOWED_KEYS_def REPLAY_PAYLOAD_ALLOWED_KEYS_def
      LOCAL_OUTBOX_PAYLOAD_ALLOWED_KEYS_def OUTBOX_PAYLOAD_ALLOWED_KEYS_def)

section \<open>Canonical serialisation\<close>

definition canonical_json :: "(pyobj \<Rightarrow> pystr option) \<Rightarrow> pyobj \<Rightarrow> storage_exn + pystr" where
  "canonical_json canon v = (case canon v of None \<Rightarrow> Inl (LValidationError (u ''invalid_payload'')) | Some s \<Rightarrow> Inr s)"

definition require_canonical_bytes ::
    "(pyobj \<Rightarrow> pystr option) \<Rightarrow> pyobj \<Rightarrow> string \<Rightarrow> nat \<Rightarrow> storage_exn + unit" where
  "require_canonical_bytes canon v code max_bytes = (case canon v of
     None \<Rightarrow> Inl (LValidationError (u code))
   | Some serialized \<Rightarrow> (case utf8_encode serialized of
       None \<Rightarrow> Inl LUnicodeEncodeError
     | Some b \<Rightarrow> linvalid (length b > max_bytes) code))"

text \<open>\<open>_has_forbidden\<close> is the same recursion as in the web contract.\<close>

fun local_has_forbidden :: "pystr list \<Rightarrow> pyobj \<Rightarrow> bool" where
  "local_has_forbidden fb (PDict d) = list_ex (\<lambda>(k, v). k \<in> PStr ` set fb \<or> local_has_forbidden fb v) d"
| "local_has_forbidden fb (PProxy d) = list_ex (\<lambda>(k, v). k \<in> PStr ` set fb \<or> local_has_forbidden fb v) d"
| "local_has_forbidden fb (PList xs) = list_ex (local_has_forbidden fb) xs"
| "local_has_forbidden fb (PTuple xs) = list_ex (local_has_forbidden fb) xs"
| "local_has_forbidden fb _ = False"

section \<open>Replay payload\<close>

fun bounded_identifier :: "pyobj \<Rightarrow> bool" where
  "bounded_identifier (PStr s) = key_match 128 s"
| "bounded_identifier _ = False"

fun message_id_ok :: "pyobj \<Rightarrow> bool" where
  "message_id_ok (PInt n) = True"
| "message_id_ok v = bounded_identifier v"

definition local_validate_replay_payload :: "(pyobj \<Rightarrow> pystr option) \<Rightarrow> pyobj \<Rightarrow> storage_exn + unit" where
  "local_validate_replay_payload canon payload = (case as_mapping payload of
     None \<Rightarrow> Inl (LValidationError (u ''invalid_replay_payload''))
   | Some d \<Rightarrow>
       rbind (linvalid (local_has_forbidden LOCAL_FORBIDDEN_PAYLOAD_KEYS payload) ''invalid_replay_payload'') (\<lambda>_.
       rbind (linvalid (unknown_keys d LOCAL_REPLAY_PAYLOAD_ALLOWED_KEYS \<noteq> []) ''invalid_replay_payload'') (\<lambda>_.
       rbind (linvalid (\<not> is_str (dict_get d (u ''response''))) ''invalid_replay_payload'') (\<lambda>_.
       rbind (linvalid (\<not> message_id_ok (dict_get d (u ''message_id''))) ''invalid_replay_payload'') (\<lambda>_.
       rbind (linvalid (has_key d (u ''request_id'') \<and> \<not> bounded_identifier (dict_get d (u ''request_id'')))
                ''invalid_replay_payload'') (\<lambda>_.
       require_canonical_bytes canon payload ''invalid_replay_payload'' LOCAL_MAX_REPLAY_PAYLOAD_BYTES))))))"

section \<open>Outbox events\<close>

definition local_validate_idempotency_key :: "pyobj \<Rightarrow> storage_exn + pystr" where
  "local_validate_idempotency_key k = (case k of
     PStr s \<Rightarrow> rbind (linvalid (\<not> key_match 128 s) ''invalid_outbox_events'') (\<lambda>_. Inr s)
   | _ \<Rightarrow> Inl (LValidationError (u ''invalid_outbox_events'')))"

definition local_outbox_entry_ok :: "pyobj \<times> pyobj \<Rightarrow> bool" where
  "local_outbox_entry_ok e =
     (if fst e = PStr (u ''version'') then (case snd e of PInt n \<Rightarrow> 1 \<le> n \<and> n \<le> 1000 | _ \<Rightarrow> False)
      else bounded_identifier (snd e))"

type_synonym outbox_triple = "pystr \<times> pyobj \<times> pystr"

definition local_validate_outbox_event :: "(pyobj \<Rightarrow> pystr option) \<Rightarrow> pyobj \<Rightarrow> storage_exn + outbox_triple" where
  "local_validate_outbox_event canon event = (case as_sequence event of
     Some [event_type, payload, idempotency_key] \<Rightarrow>
       rbind (linvalid (\<not> event_type_ok event_type) ''invalid_outbox_events'') (\<lambda>_.
       (case as_mapping payload of
          None \<Rightarrow> Inl (LValidationError (u ''invalid_outbox_events''))
        | Some d \<Rightarrow>
            rbind (local_validate_idempotency_key idempotency_key) (\<lambda>key.
            rbind (linvalid (unknown_keys d LOCAL_OUTBOX_PAYLOAD_ALLOWED_KEYS \<noteq> []) ''invalid_outbox_events'') (\<lambda>_.
            rbind (linvalid (local_has_forbidden LOCAL_FORBIDDEN_PAYLOAD_KEYS payload) ''invalid_outbox_events'') (\<lambda>_.
            rbind (linvalid (\<not> list_all local_outbox_entry_ok d) ''invalid_outbox_events'') (\<lambda>_.
            rbind (require_canonical_bytes canon payload ''invalid_outbox_events'' LOCAL_MAX_OUTBOX_PAYLOAD_BYTES) (\<lambda>_.
            (case str_of event_type of
               None \<Rightarrow> Inl LTypeError
             | Some t \<Rightarrow> Inr (t, payload, key)))))))))
   | _ \<Rightarrow> Inl (LValidationError (u ''invalid_outbox_events'')))"

fun local_validate_each :: "(pyobj \<Rightarrow> pystr option) \<Rightarrow> pyobj list \<Rightarrow> storage_exn + outbox_triple list" where
  "local_validate_each canon [] = Inr []"
| "local_validate_each canon (e # es) =
     rbind (local_validate_outbox_event canon e) (\<lambda>t. rbind (local_validate_each canon es) (\<lambda>ts. Inr (t # ts)))"

definition local_validate_outbox_events ::
    "(pyobj \<Rightarrow> pystr option) \<Rightarrow> pyobj \<Rightarrow> storage_exn + outbox_triple list" where
  "local_validate_outbox_events canon events =
     (if events = PNone then Inr []
      else case as_sequence events of
        None \<Rightarrow> Inl (LValidationError (u ''invalid_outbox_events''))
      | Some es \<Rightarrow>
          rbind (linvalid (length es > MAX_OUTBOX_EVENTS) ''invalid_outbox_events'') (\<lambda>_.
          rbind (local_validate_each canon es) (\<lambda>validated.
          rbind (linvalid (\<not> distinct (map (\<lambda>(t, p, k). k) validated)) ''invalid_outbox_events'') (\<lambda>_.
          Inr validated))))"

section \<open>Domain snapshots\<close>

definition validate_emotional_snapshot :: "(pyobj \<Rightarrow> pystr option) \<Rightarrow> pyobj \<Rightarrow> storage_exn + unit" where
  "validate_emotional_snapshot canon payload = (case as_mapping payload of
     None \<Rightarrow> Inl (LValidationError (u ''invalid_emotional_state''))
   | Some d \<Rightarrow>
       rbind (linvalid (local_has_forbidden LOCAL_SNAPSHOT_FORBIDDEN_KEYS payload) ''invalid_emotional_state'') (\<lambda>_.
       rbind (require_canonical_bytes canon payload ''invalid_emotional_state'' MAX_SNAPSHOT_BYTES) (\<lambda>_.
       rbind (with_error (\<lambda>_. LValidationError (u ''invalid_emotional_state''))
                (EmotionalStateV1_from_dict (PDict d))) (\<lambda>_. Inr ()))))"

definition validate_relationship_snapshot :: "(pyobj \<Rightarrow> pystr option) \<Rightarrow> pyobj \<Rightarrow> storage_exn + unit" where
  "validate_relationship_snapshot canon payload = (case as_mapping payload of
     None \<Rightarrow> Inl (LValidationError (u ''invalid_relationship_state''))
   | Some d \<Rightarrow>
       rbind (linvalid (local_has_forbidden LOCAL_SNAPSHOT_FORBIDDEN_KEYS payload) ''invalid_relationship_state'') (\<lambda>_.
       rbind (require_canonical_bytes canon payload ''invalid_relationship_state'' MAX_SNAPSHOT_BYTES) (\<lambda>_.
       rbind (with_error (\<lambda>_. LValidationError (u ''invalid_relationship_state''))
                (RelationshipStateV1_from_dict (PDict d))) (\<lambda>_. Inr ()))))"

section \<open>Neutral snapshots\<close>

text \<open>Equality of JSON-like values: numbers by value, whatever their type; lists and dicts by their elements.\<close>

fun py_num :: "pyobj \<Rightarrow> pyfloat option" where
  "py_num (PBool b) = Some (Fin (of_bool b))"
| "py_num (PInt n) = Some (Fin (of_int n))"
| "py_num (PFloat f) = Some f"
| "py_num _ = None"

definition scalar_eq :: "pyobj \<Rightarrow> pyobj \<Rightarrow> bool" where
  "scalar_eq a b = (case (py_num a, py_num b) of
     (Some x, Some y) \<Rightarrow> x = y \<and> x \<noteq> NaN
   | (None, None) \<Rightarrow> a = b
   | _ \<Rightarrow> False)"

lemma size_zip_left [termination_simp]: "(x, y) \<in> set (zip xs ys) \<Longrightarrow> size x < Suc (size_list size xs)"
  using set_zip_leftD [of x y xs ys] size_list_estimation' [of x xs "size x" size] by simp

fun py_eq :: "pyobj \<Rightarrow> pyobj \<Rightarrow> bool" where
  "py_eq (PList xs) b = (case b of
     PList ys \<Rightarrow> length xs = length ys \<and> list_all (\<lambda>(x, y). py_eq x y) (zip xs ys) | _ \<Rightarrow> False)"
| "py_eq (PTuple xs) b = (case b of
     PTuple ys \<Rightarrow> length xs = length ys \<and> list_all (\<lambda>(x, y). py_eq x y) (zip xs ys) | _ \<Rightarrow> False)"
| "py_eq (PDict d) b = (case b of
     PDict e \<Rightarrow> length d = length e
       \<and> list_all (\<lambda>(k, v). case map_of e k of None \<Rightarrow> False | Some w \<Rightarrow> py_eq v w) d
   | _ \<Rightarrow> False)"
| "py_eq a b = scalar_eq a b"

definition neutral_emotional_snapshot :: "pyobj \<Rightarrow> storage_exn + pyobj" where
  "neutral_emotional_snapshot timestamp =
     rbind (with_error LEmotionalDomainError (EmotionalStateV1_neutral timestamp))
       (\<lambda>s. Inr (EmotionalStateV1_to_dict s))"

definition neutral_relationship_snapshot :: "pyobj \<Rightarrow> storage_exn + pyobj" where
  "neutral_relationship_snapshot timestamp =
     rbind (with_error LRelationshipDomainError (RelationshipStateV1_neutral timestamp))
       (\<lambda>s. Inr (RelationshipStateV1_to_dict s))"

text \<open>The checks both reset validators make after the snapshot was validated.\<close>

definition positive_number :: "pyobj \<Rightarrow> bool" where
  "positive_number v \<longleftrightarrow> \<not> is_bool v \<and> is_number v
     \<and> (case v of PFloat PosInf \<Rightarrow> True | PFloat NegInf \<Rightarrow> False | PFloat NaN \<Rightarrow> True | _ \<Rightarrow> num_val v > 0)"

definition require_neutral ::
    "(pyobj \<Rightarrow> storage_exn + pyobj) \<Rightarrow> (pyobj \<times> pyobj) list \<Rightarrow> storage_exn + unit" where
  "require_neutral neutral d =
     (let timestamp = dict_get d (u ''timestamp'') in
      rbind (linvalid (\<not> positive_number timestamp) ''invalid_reset_payload'') (\<lambda>_.
      (case py_float timestamp of
         None \<Rightarrow> Inl LTypeError
       | Some f \<Rightarrow>
           rbind (neutral (PFloat f)) (\<lambda>expected.
           linvalid (\<not> py_eq (PDict d) expected) ''invalid_reset_payload''))))"

definition validate_neutral_emotional_snapshot :: "(pyobj \<Rightarrow> pystr option) \<Rightarrow> pyobj \<Rightarrow> storage_exn + unit" where
  "validate_neutral_emotional_snapshot canon payload =
     rbind (validate_emotional_snapshot canon payload) (\<lambda>_. (case as_mapping payload of
        None \<Rightarrow> Inl LTypeError
      | Some d \<Rightarrow> require_neutral neutral_emotional_snapshot d))"

definition validate_neutral_relationship_snapshot :: "(pyobj \<Rightarrow> pystr option) \<Rightarrow> pyobj \<Rightarrow> storage_exn + unit" where
  "validate_neutral_relationship_snapshot canon payload =
     rbind (validate_relationship_snapshot canon payload) (\<lambda>_. (case as_mapping payload of
        None \<Rightarrow> Inl LTypeError
      | Some d \<Rightarrow> require_neutral neutral_relationship_snapshot d))"

section \<open>The canonical commit payload\<close>

record local_commit =
  lm_request_id :: pystr
  lm_expected_revision :: pyobj
  lm_user_message :: pystr
  lm_assistant_message :: pystr
  lm_emotional_state :: pyobj
  lm_relationship_state :: pyobj
  lm_public_response :: pystr
  lm_replay_payload :: pyobj
  lm_outbox_events :: "outbox_triple list"

definition local_build_canonical_commit_payload :: "local_commit \<Rightarrow> pyobj" where
  "local_build_canonical_commit_payload c = PDict
     [(PStr (u ''request_id''), PStr (lm_request_id c)),
      (PStr (u ''expected_revision''), lm_expected_revision c),
      (PStr (u ''user_message''), PStr (lm_user_message c)),
      (PStr (u ''assistant_message''), PStr (lm_assistant_message c)),
      (PStr (u ''emotional_state''), as_dict (lm_emotional_state c)),
      (PStr (u ''relationship_state''), as_dict (lm_relationship_state c)),
      (PStr (u ''public_response''), PStr (lm_public_response c)),
      (PStr (u ''replay_payload''), as_dict (lm_replay_payload c)),
      (PStr (u ''outbox_events''), PList (map (\<lambda>(t, p, k). PDict
         [(PStr (u ''event_type''), PStr t), (PStr (u ''payload''), as_dict p), (PStr (u ''idempotency_key''), PStr k)])
         (lm_outbox_events c)))]"

definition local_canonical_payload_hash ::
    "(pyobj \<Rightarrow> pystr option) \<Rightarrow> (nat list \<Rightarrow> pystr) \<Rightarrow> pyobj \<Rightarrow> storage_exn + pystr" where
  "local_canonical_payload_hash canon sha256 payload =
     rbind (canonical_json canon payload) (\<lambda>canonical.
     (case utf8_encode canonical of None \<Rightarrow> Inl LUnicodeEncodeError | Some b \<Rightarrow> Inr (sha256 b)))"

section \<open>What the validators accept\<close>

lemma local_has_forbidden_eq: "local_has_forbidden fb v = has_forbidden fb v"
  by (induction fb v rule: local_has_forbidden.induct) (auto intro!: list_ex_cong)

lemma require_canonical_bytes_iff [accept_iff]:
  "require_canonical_bytes canon v c n = Inr x \<longleftrightarrow> size_ok canon v n"
  by (auto simp: require_canonical_bytes_def size_ok_def split: option.splits)

lemma validate_emotional_snapshot_iff:
  "validate_emotional_snapshot canon (PDict d) = Inr x \<longleftrightarrow>
     \<not> has_forbidden SNAPSHOT_FORBIDDEN_KEYS (PDict d) \<and> size_ok canon (PDict d) 8192
     \<and> (\<exists>s. EmotionalStateV1_from_dict (PDict d) = Inr s)"
  by (auto simp: validate_emotional_snapshot_def accept_iff local_has_forbidden_eq local_key_sets MAX_SNAPSHOT_BYTES_def
      simp del: has_forbidden.simps)

lemma validate_relationship_snapshot_iff:
  "validate_relationship_snapshot canon (PDict d) = Inr x \<longleftrightarrow>
     \<not> has_forbidden SNAPSHOT_FORBIDDEN_KEYS (PDict d) \<and> size_ok canon (PDict d) 8192
     \<and> (\<exists>s. RelationshipStateV1_from_dict (PDict d) = Inr s)"
  by (auto simp: validate_relationship_snapshot_def accept_iff local_has_forbidden_eq local_key_sets MAX_SNAPSHOT_BYTES_def
      simp del: has_forbidden.simps)

text \<open>The float of an int is inside a range with the bounds -1, 0 and 1 exactly when the int is.\<close>

lemma fl_int_le_one: "fl (of_int n) \<le> 1 \<Longrightarrow> of_int n \<le> (1::rat)"
proof (rule ccontr)
  assume a: "fl (of_int n) \<le> 1" and "\<not> of_int n \<le> (1::rat)"
  then have "(2::rat) \<le> of_int n" by (metis int_one_le_iff_zero_less not_le of_int_1 of_int_le_iff of_int_numeral one_add_one zless_imp_add1_zle add.commute)
  then have "fl 2 \<le> fl (of_int n)" by (rule fl_mono)
  with a fl_small_int [of 2] show False by simp
qed

lemma fl_int_ge_zero: "0 \<le> fl (of_int n) \<Longrightarrow> 0 \<le> (of_int n :: rat)"
proof (rule ccontr)
  assume a: "0 \<le> fl (of_int n)" and "\<not> 0 \<le> (of_int n :: rat)"
  then have "of_int n \<le> (-1::rat)" by (metis not_le of_int_0_le_iff of_int_le_iff of_int_minus of_int_1 zle_diff1_eq diff_0)
  then have "fl (of_int n) \<le> fl (-1)" by (rule fl_mono)
  with a show False by simp
qed

lemma float_value_finite:
  assumes "float_value v = Some x"
  shows "finite_number v" and "num_val v = x \<or> (\<exists>n. v = PInt n \<and> num_val v = of_int n \<and> x = fl (of_int n))"
  using assms by (cases v; auto simp: finite_number_def float_of_int_def Let_def split: if_splits elim: float_value.elims)+

lemma float_value_bounds:
  assumes "float_value v = Some x"
  shows "x \<le> 1 \<Longrightarrow> num_val v \<le> 1" and "0 \<le> x \<Longrightarrow> 0 \<le> num_val v" and "-1 \<le> x \<Longrightarrow> -1 \<le> num_val v"
    and "0 < x \<Longrightarrow> 0 < num_val v"
proof -
  note c = float_value_finite(2) [OF assms]
  show "x \<le> 1 \<Longrightarrow> num_val v \<le> 1" using c fl_int_le_one by auto
  show "0 \<le> x \<Longrightarrow> 0 \<le> num_val v" using c fl_int_ge_zero by auto
  show "-1 \<le> x \<Longrightarrow> -1 \<le> num_val v"
  proof -
    assume "-1 \<le> x"
    have "fl (of_int (- n)) \<le> 1" if "x = fl (of_int n)" for n using that \<open>-1 \<le> x\<close> by simp
    with c fl_int_le_one show ?thesis by (metis \<open>-1 \<le> x\<close> minus_le_iff of_int_minus)
  qed
  show "0 < num_val v" if "0 < x"
  proof -
    have "0 \<le> num_val v" using c fl_int_ge_zero that by auto
    moreover have "num_val v \<noteq> 0" using c that by auto
    ultimately show ?thesis by simp
  qed
qed

lemma field_inI:
  assumes "map_of d (PStr (u name)) = Some v" and "float_value v = Some x" and "lo \<le> x" and "x \<le> 1" and "lo \<in> {-1, 0}"
  shows "field_in d lo 1 name"
  using assms float_value_finite(1) [OF assms(2)] float_value_bounds(1,2,3) [OF assms(2)]
  by (auto simp: field_in_def dict_get_def)

lemma loaded_emotional_ok:
  assumes "EmotionalStateV1_from_dict (PDict d) = Inr s"
    and "\<not> has_forbidden SNAPSHOT_FORBIDDEN_KEYS (PDict d)" and "size_ok dumps (PDict d) MAX_REPLAY_PAYLOAD_BYTES"
  shows "snapshot_ok dumps EmotionalKind d"
proof -
  obtain a where keys: "fst ` set d = PStr ` set STATE_FIELDS" and a: "state_args_of_dict d = Inr a"
    and den: "denotes_state a s" and v: "valid_state s"
    using assms(1) unfolding from_dict_state_iff by auto
  note m = a [unfolded state_args_of_dict_iff] and fv = den [unfolded denotes_state_def] and r = v [unfolded valid_state_def]
  have "list_all (field_in d (-1) 1) [''pleasure'', ''arousal'', ''dominance'']"
    using m fv r by (simp add: field_inI)
  moreover have "list_all (field_in d 0 1) [''libido'', ''aggression'', ''connection'', ''energy'', ''tension'']"
    using m fv r by (simp add: field_inI)
  moreover have "dict_get d (u ''coping_mode'') \<in> PStr ` set (map u [''HEALTHY'', ''DEFENSIVE'', ''DISSOCIATED'', ''MANIC''])"
    using m fv r by (auto simp: dict_get_def VALID_COPING_MODES_def)
  moreover have "finite_number (dict_get d (u ''timestamp''))" and "0 < num_val (dict_get d (u ''timestamp''))"
    using m fv r float_value_finite(1) float_value_bounds(4) by (auto simp: dict_get_def)
  moreover have "dict_get d (u ''schema_version'') = PInt 1"
    using m fv r by (simp add: dict_get_def EMOTIONAL_SCHEMA_VERSION_def)
  moreover have "fst ` set d = PStr ` set EMOTIONAL_SNAPSHOT_FIELDS"
    using keys by (auto simp: EMOTIONAL_SNAPSHOT_FIELDS_def STATE_FIELDS_def)
  ultimately show ?thesis using assms(2,3) by (simp only: snapshot_ok_def snapshot_fields_ok.simps simp_thms)
qed

lemma snapshot_ok_bounds:
  "snapshot_ok dumps kind d \<Longrightarrow> \<not> has_forbidden SNAPSHOT_FORBIDDEN_KEYS (PDict d) \<and> size_ok dumps (PDict d) 8192"
  by (simp only: snapshot_ok_def MAX_REPLAY_PAYLOAD_BYTES_def simp_thms)

lemma emotional_parity:
  assumes "size_ok canon (PDict d) 8192 \<longleftrightarrow> size_ok dumps (PDict d) 8192"
  shows "validate_emotional_snapshot canon (PDict d) = Inr () \<longleftrightarrow> validate_snapshot_payload dumps (PDict d) EmotionalKind = Inr ()"
  unfolding validate_emotional_snapshot_iff validate_snapshot_payload_iff
  using assms committed_emotional_loads loaded_emotional_ok snapshot_ok_bounds MAX_REPLAY_PAYLOAD_BYTES_def by metis

lemma relationship_inclusion:
  assumes "size_ok canon (PDict d) 8192 \<longleftrightarrow> size_ok dumps (PDict d) 8192"
    and "validate_snapshot_payload dumps (PDict d) RelationshipKind = Inr ()"
  shows "validate_relationship_snapshot canon (PDict d) = Inr ()"
proof -
  have ok: "snapshot_ok dumps RelationshipKind d" using assms(2) by (simp only: validate_snapshot_payload_iff)
  from snapshot_ok_bounds [OF this] assms(1) committed_relationship_loads [OF ok] show ?thesis by (simp only: validate_relationship_snapshot_iff simp_thms)
qed

text \<open>One outbox event: the two contracts test the same conditions in a different order.\<close>

lemma local_entry_ok_eq: "local_outbox_entry_ok e = outbox_entry_ok e"
  by (cases "snd e") (auto simp: local_outbox_entry_ok_def outbox_entry_ok_def)

lemma local_key_iff: "(\<exists>s. local_validate_idempotency_key k = Inr s) \<longleftrightarrow> validate_idempotency_key k = Inr ()"
  by (cases k) (auto simp: local_validate_idempotency_key_def)

lemma local_outbox_event_iff:
  "(\<exists>t. local_validate_outbox_event canon e = Inr t) \<longleftrightarrow>
   (\<exists>et p k d. as_sequence e = Some [et, p, k] \<and> event_type_ok et \<and> as_mapping p = Some d
      \<and> validate_idempotency_key k = Inr () \<and> unknown_keys d OUTBOX_PAYLOAD_ALLOWED_KEYS = []
      \<and> \<not> has_forbidden FORBIDDEN_PAYLOAD_KEYS p \<and> list_all outbox_entry_ok d \<and> size_ok canon p 8192)"
proof -
  have t: "event_type_ok et \<Longrightarrow> \<exists>s. str_of et = Some s" for et by (cases et) auto
  show ?thesis
    unfolding local_validate_outbox_event_def local_key_iff [symmetric]
    by (cases "as_sequence e")
      (auto simp: accept_iff local_key_sets local_has_forbidden_eq local_entry_ok_eq [abs_def] LOCAL_MAX_OUTBOX_PAYLOAD_BYTES_def
        simp del: has_forbidden.simps split: list.splits option.splits dest: t)
qed

lemma web_outbox_event_iff:
  "validate_outbox_event dumps e = Inr () \<longleftrightarrow>
   (\<exists>et p k d. as_sequence e = Some [et, p, k] \<and> event_type_ok et \<and> as_mapping p = Some d
      \<and> validate_idempotency_key k = Inr () \<and> unknown_keys d OUTBOX_PAYLOAD_ALLOWED_KEYS = []
      \<and> \<not> has_forbidden FORBIDDEN_PAYLOAD_KEYS p \<and> list_all outbox_entry_ok d \<and> size_ok dumps p 8192)"
  unfolding validate_outbox_event_def
  by (cases "as_sequence e")
    (auto simp: accept_iff validate_outbox_event_payload_def MAX_OUTBOX_PAYLOAD_BYTES_def
      simp del: has_forbidden.simps split: list.splits option.splits)

lemma outbox_event_parity:
  assumes "\<And>et p k. as_sequence e = Some [et, p, k] \<Longrightarrow> size_ok canon p 8192 \<longleftrightarrow> size_ok dumps p 8192"
  shows "(\<exists>t. local_validate_outbox_event canon e = Inr t) \<longleftrightarrow> validate_outbox_event dumps e = Inr ()"
  unfolding local_outbox_event_iff web_outbox_event_iff using assms by blast

section \<open>Neutral snapshots\<close>

lemma neutral_emotional_valid:
  assumes "0 < t"
  shows "\<exists>s. EmotionalStateV1_neutral (flt t) = Inr s \<and> valid_state s
     \<and> neutral_emotional_snapshot (flt t) = Inr (EmotionalStateV1_to_dict s) \<and> es_timestamp s = t"
proof -
  let ?s = "\<lparr>es_pleasure = 0, es_arousal = 0, es_dominance = 0, es_libido = 0, es_aggression = 0, es_connection = fl (5/10),
    es_energy = fl (8/10), es_tension = 0, es_coping_mode = u ''HEALTHY'', es_timestamp = t,
    es_schema_version = EMOTIONAL_SCHEMA_VERSION\<rparr>"
  have r: "0 \<le> fl (5/10)" "fl (5/10) \<le> 1" "0 \<le> fl (8/10)" "fl (8/10) \<le> 1"
    using fl_nonneg [of "5/10"] fl_nonneg [of "8/10"] fl_mono [of "5/10" 1] fl_mono [of "8/10" 1] by simp_all
  have v: "valid_state ?s"
    using assms r by (simp only: valid_state_def EMOTIONAL_SCHEMA_VERSION_def) (simp add: VALID_COPING_MODES_def)
  then have "EmotionalStateV1_neutral (flt t) = Inr ?s"
    unfolding EmotionalStateV1_neutral_def create_eq_validate validate_state_iff by (simp add: denotes_state_def)
  with v show ?thesis by (simp add: neutral_emotional_snapshot_def)
qed

lemma neutral_relationship_valid:
  assumes "0 < t"
  shows "\<exists>s. RelationshipStateV1_neutral (flt t) = Inr s \<and> valid_relationship s
     \<and> neutral_relationship_snapshot (flt t) = Inr (RelationshipStateV1_to_dict s) \<and> rs_timestamp s = t"
proof -
  let ?s = "\<lparr>rs_timestamp = t, rs_schema_version = RELATIONSHIP_SCHEMA_VERSION, rs_trust = fl (5/10), rs_affection = fl (3/10),
    rs_tension = 0, rs_triggers = []\<rparr>"
  have r: "0 \<le> fl (5/10)" "fl (5/10) \<le> 1" "0 \<le> fl (3/10)" "fl (3/10) \<le> 1"
    using fl_nonneg [of "5/10"] fl_nonneg [of "3/10"] fl_mono [of "5/10" 1] fl_mono [of "3/10" 1] by simp_all
  have v: "valid_relationship ?s" using assms r by (simp add: valid_relationship_def valid_triggers_def)
  then have "RelationshipStateV1_neutral (flt t) = Inr ?s"
    unfolding RelationshipStateV1_neutral_def rel_create_iff by (simp add: denotes_relationship_def validate_triggers_iff)
  with v show ?thesis by (simp add: neutral_relationship_snapshot_def)
qed

section \<open>Properties\<close>

text \<open>C25: parity of the local and the web payload contracts.  For a document that both serialisers write within
  8192 bytes or both do not, the local store accepts it as an emotional snapshot exactly when the web commit does, accepts it as
  a relationship snapshot whenever the web commit does, and accepts an outbox event exactly when the web commit does.\<close>

theorem local_contract_parity:
  assumes "size_ok canon (PDict d) 8192 \<longleftrightarrow> size_ok dumps (PDict d) 8192"
    and "\<And>et p k. as_sequence e = Some [et, p, k] \<Longrightarrow> size_ok canon p 8192 \<longleftrightarrow> size_ok dumps p 8192"
  shows "(validate_emotional_snapshot canon (PDict d) = Inr () \<longleftrightarrow> validate_snapshot_payload dumps (PDict d) EmotionalKind = Inr ())
    \<and> (validate_snapshot_payload dumps (PDict d) RelationshipKind = Inr () \<longrightarrow> validate_relationship_snapshot canon (PDict d) = Inr ())
    \<and> ((\<exists>t. local_validate_outbox_event canon e = Inr t) \<longleftrightarrow> validate_outbox_event dumps e = Inr ())"
  using emotional_parity [OF assms(1)] relationship_inclusion [OF assms(1)] outbox_event_parity [of e canon dumps] assms(2)
  by (intro conjI impI) blast+

definition sample_event :: pyobj where
  "sample_event = PTuple [PStr (u ''turn''), PDict [(PStr (u ''version''), PInt 1)], PStr (u ''k1'')]"

theorem local_contract_parity_witness:
  "validate_emotional_snapshot sample_dumps (EmotionalStateV1_to_dict calm_state) = Inr ()
   \<and> (\<exists>t. local_validate_outbox_event sample_dumps sample_event = Inr t)"
proof -
  obtain d where d: "EmotionalStateV1_to_dict calm_state = PDict d" by (simp add: EmotionalStateV1_to_dict_def)
  have "validate_snapshot_payload sample_dumps (EmotionalStateV1_to_dict calm_state) EmotionalKind = Inr ()"
    by (rule emotional_snapshot_ok [OF valid_calm_state])
      (simp add: d sample_size MAX_REPLAY_PAYLOAD_BYTES_def)
  moreover have "validate_outbox_event sample_dumps sample_event = Inr ()"
    by (simp add: web_outbox_event_iff sample_event_def event_type_ok.simps code_match_def code_char_def key_match_def key_char_def u_def
        unknown_keys_def OUTBOX_PAYLOAD_ALLOWED_KEYS_def FORBIDDEN_PAYLOAD_KEYS_def outbox_entry_ok_def sample_size)
  ultimately show ?thesis
    using local_contract_parity [of sample_dumps d sample_dumps sample_event] unfolding d by blast
qed

text \<open>The relationship contracts are not equivalent: the domain strips the triggers it is given, so that the local store
  accepts a snapshot that the web commit rejects.\<close>

lemma relationship_contracts_differ:
  "\<exists>d. validate_relationship_snapshot sample_dumps (PDict d) = Inr ()
     \<and> validate_snapshot_payload sample_dumps (PDict d) RelationshipKind \<noteq> Inr ()"
proof -
  let ?d = "[(PStr (u ''schema_version''), PInt 1), (PStr (u ''trust''), flt 0), (PStr (u ''affection''), flt 0),
    (PStr (u ''tension''), flt 0), (PStr (u ''triggers''), PList [PStr (u '' x'')]), (PStr (u ''timestamp''), flt 1)]"
  have s: "strip (u '' x'') = u ''x''" "strip (u ''x'') = u ''x''" by (simp_all add: strip_def u_def is_space_def)
  let ?s = "\<lparr>rs_timestamp = 1, rs_schema_version = 1, rs_trust = 0, rs_affection = 0, rs_tension = 0, rs_triggers = [u ''x'']\<rparr>"
  have "validate_triggers (PList [PStr (u '' x'')]) = Inr [u ''x'']"
    unfolding validate_triggers_iff using s by (intro exI [of _ "[u '' x'']"]) (simp add: valid_trigger_def)
  then have "RelationshipStateV1_from_dict (PDict ?d) = Inr ?s"
    unfolding rel_from_dict_iff
    by (auto simp: rel_args_of_dict_iff RELATIONSHIP_FIELDS_def denotes_relationship_def valid_relationship_def
        RELATIONSHIP_SCHEMA_VERSION_def valid_triggers_def valid_trigger_def s
        intro!: exI [of _ "\<lparr>ra_timestamp = flt 1, ra_schema_version = PInt 1, ra_trust = flt 0, ra_affection = flt 0,
          ra_tension = flt 0, ra_triggers = PList [PStr (u '' x'')]\<rparr>"])
  moreover have "\<not> has_forbidden SNAPSHOT_FORBIDDEN_KEYS (PDict ?d)"
    by (simp add: SNAPSHOT_FORBIDDEN_KEYS_def FORBIDDEN_PAYLOAD_KEYS_def)
  moreover have "\<not> snapshot_ok sample_dumps RelationshipKind ?d"
    by (simp add: snapshot_ok_def triggers_ok_def dict_get_Cons s)
  ultimately show ?thesis
    unfolding validate_relationship_snapshot_iff validate_snapshot_payload_iff by (intro exI [of _ ?d]) (simp add: sample_size)
qed

end
