(* ===== verification/Local_Database.thy ===== *)
theory Local_Database
  imports Local_Contracts "HOL-Library.List_Lexorder" "HOL-Library.Product_Lexorder"
begin

text \<open>
  The SQLite database behind \<open>backend/local_storage\<close>: the tables of \<open>migrations.py\<close> with their constraints, the
  statements the store executes on them, and a connection with explicit transactions.  Time stamp columns
  that no query reads (those of \<open>profiles\<close>, \<open>turn_requests\<close>, \<open>outbox_events\<close> and \<open>privacy_operations\<close>) are left
  out.  SQLite itself is modelled as far as the store relies on it: a statement runs on the working copy of the open transaction,
  or directly on the database when there is none; it may fail with an \<open>sqlite3.Error\<close>, which may also end the
  transaction; a \<open>ROLLBACK\<close> of an open transaction does not fail.
\<close>

section \<open>Tables\<close>

record profile_row =
  pf_persona_config :: "pystr option"
  pf_user_profile :: pystr
  pf_emotional_state :: pystr
  pf_relationship_state :: pystr
  pf_revision :: int

record chat_row =
  cr_id :: int
  cr_role :: pystr
  cr_content :: pystr
  cr_created_at :: pystr

datatype turn_status = TPending | TCompleted | TFailed

record turn_row =
  tn_request_id :: pystr
  tn_payload_hash :: pystr
  tn_status :: turn_status
  tn_expected_revision :: int
  tn_committed_revision :: "int option"
  tn_user_log :: "int option"
  tn_assistant_log :: "int option"
  tn_replay_payload :: "pystr option"
  tn_error_code :: "pystr option"

record outbox_row =
  ox_id :: pystr
  ox_event_type :: pystr
  ox_idempotency_key :: pystr
  ox_status :: pystr
  ox_turn_request_id :: pystr
  ox_payload :: pystr

record memory_row =
  mr_id :: int
  mr_content :: pystr
  mr_metadata :: pystr
  mr_created_at :: pystr

record privacy_row =
  pv_operation :: pystr
  pv_result :: pystr

text \<open>
  The check \<open>id = 1\<close> on the primary key of \<open>profiles\<close> leaves at most one row.  \<open>db_chat_seq\<close> and
  \<open>db_memory_seq\<close> are the counters of \<open>autoincrement\<close>: the largest row id ever used.
\<close>

record database =
  db_tables :: "pystr list"
  db_migrations :: "int list"
  db_profile :: "profile_row option"
  db_chat_logs :: "chat_row list"
  db_chat_seq :: int
  db_turns :: "turn_row list"
  db_outbox :: "outbox_row list"
  db_memories :: "memory_row list"
  db_memory_seq :: int
  db_privacy :: "privacy_row list"

definition fresh_database :: database where
  "fresh_database = \<lparr>db_tables = [], db_migrations = [], db_profile = None, db_chat_logs = [], db_chat_seq = 0, db_turns = [],
     db_outbox = [], db_memories = [], db_memory_seq = 0, db_privacy = []\<rparr>"

section \<open>Statements\<close>

text \<open>A statement gives a result and the changed database; \<open>None\<close> is a violated constraint.\<close>

type_synonym 'a statement = "database \<Rightarrow> ('a \<times> database) option"

definition query :: "(database \<Rightarrow> 'a) \<Rightarrow> 'a statement" where
  "query f d = Some (f d, d)"

definition find_turn :: "pystr \<Rightarrow> database \<Rightarrow> turn_row option" where
  "find_turn r d = List.find (\<lambda>t. tn_request_id t = r) (db_turns d)"

definition find_chat :: "int option \<Rightarrow> database \<Rightarrow> chat_row option" where
  "find_chat i d = List.find (\<lambda>c. Some (cr_id c) = i) (db_chat_logs d)"

definition history_generation_of :: "database \<Rightarrow> int" where
  "history_generation_of d = int (length (filter (\<lambda>p. pv_operation p = u ''delete_history'') (db_privacy d)))"

definition revision_of :: "database \<Rightarrow> int" where
  "revision_of d = (case db_profile d of None \<Rightarrow> 0 | Some p \<Rightarrow> pf_revision p)"

definition insert_chat :: "pystr \<Rightarrow> pystr \<Rightarrow> pystr \<Rightarrow> int statement" where
  "insert_chat role content created_at d =
     (if role \<in> set (map u [''user'', ''assistant'']) then
        (let i = db_chat_seq d + 1 in
         Some (i, d\<lparr>db_chat_logs := db_chat_logs d @ [\<lparr>cr_id = i, cr_role = role, cr_content = content, cr_created_at = created_at\<rparr>],
                    db_chat_seq := i\<rparr>))
      else None)"

text \<open>\<open>on delete cascade\<close>: the events of a deleted request, the requests of a deleted message.\<close>

definition delete_turns :: "(turn_row \<Rightarrow> bool) \<Rightarrow> database \<Rightarrow> database" where
  "delete_turns P d =
     (let turns = filter (\<lambda>t. \<not> P t) (db_turns d) in
      d\<lparr>db_turns := turns,
        db_outbox := filter (\<lambda>e. ox_turn_request_id e \<in> set (map tn_request_id turns)) (db_outbox d)\<rparr>)"

definition ref_in :: "int set \<Rightarrow> int option \<Rightarrow> bool" where
  "ref_in ids r \<longleftrightarrow> (case r of None \<Rightarrow> True | Some i \<Rightarrow> i \<in> ids)"

definition delete_chats :: "(chat_row \<Rightarrow> bool) \<Rightarrow> database \<Rightarrow> database" where
  "delete_chats P d =
     (let chats = filter (\<lambda>c. \<not> P c) (db_chat_logs d); ids = set (map cr_id chats) in
      delete_turns (\<lambda>t. \<not> ref_in ids (tn_user_log t) \<or> \<not> ref_in ids (tn_assistant_log t)) (d\<lparr>db_chat_logs := chats\<rparr>))"

definition insert_reservation :: "pystr \<Rightarrow> pystr \<Rightarrow> nat statement" where
  "insert_reservation r marker d = (case find_turn r d of
     Some _ \<Rightarrow> Some (0, d)
   | None \<Rightarrow> Some (1, d\<lparr>db_turns := db_turns d @ [\<lparr>tn_request_id = r, tn_payload_hash = marker, tn_status = TPending,
        tn_expected_revision = 0, tn_committed_revision = None, tn_user_log = None, tn_assistant_log = None,
        tn_replay_payload = None, tn_error_code = None\<rparr>]\<rparr>))"

text \<open>The references of a ledger row exist: the foreign keys are enforced.\<close>

definition turn_refs_ok :: "database \<Rightarrow> turn_row \<Rightarrow> bool" where
  "turn_refs_ok d t \<longleftrightarrow> ref_in (set (map cr_id (db_chat_logs d))) (tn_user_log t)
     \<and> ref_in (set (map cr_id (db_chat_logs d))) (tn_assistant_log t)"

text \<open>\<open>insert ... on conflict (request_id) do update\<close>: the error code of an existing row stays.\<close>

definition upsert_turn :: "turn_row \<Rightarrow> unit statement" where
  "upsert_turn t d =
     (if turn_refs_ok d t then
        (case find_turn (tn_request_id t) d of
           None \<Rightarrow> Some ((), d\<lparr>db_turns := db_turns d @ [t]\<rparr>)
         | Some old \<Rightarrow> Some ((), d\<lparr>db_turns := map (\<lambda>o'. if tn_request_id o' = tn_request_id t
                                              then t\<lparr>tn_error_code := tn_error_code o'\<rparr> else o') (db_turns d)\<rparr>))
      else None)"

definition insert_turn :: "turn_row \<Rightarrow> unit statement" where
  "insert_turn t d =
     (if turn_refs_ok d t \<and> find_turn (tn_request_id t) d = None then Some ((), d\<lparr>db_turns := db_turns d @ [t]\<rparr>) else None)"

definition upsert_profile :: "pystr \<Rightarrow> pystr \<Rightarrow> int \<Rightarrow> unit statement" where
  "upsert_profile emotional relationship rv d =
     (if rv < 0 then None
      else Some ((), d\<lparr>db_profile := Some (case db_profile d of
        None \<Rightarrow> \<lparr>pf_persona_config = None, pf_user_profile = u ''{}'', pf_emotional_state = emotional,
                 pf_relationship_state = relationship, pf_revision = rv\<rparr>
      | Some p \<Rightarrow> p\<lparr>pf_emotional_state := emotional, pf_relationship_state := relationship, pf_revision := rv\<rparr>)\<rparr>))"

datatype state_field = EmotionalField | RelationshipField

text \<open>\<open>update profiles set field = ?, revision = ? where id = 1\<close>, with its \<open>rowcount\<close>.\<close>

definition update_profile_field :: "state_field \<Rightarrow> pystr \<Rightarrow> int \<Rightarrow> nat statement" where
  "update_profile_field f v rv d = (case db_profile d of
     None \<Rightarrow> Some (0, d)
   | Some p \<Rightarrow>
       if rv < 0 then None
       else Some (1, d\<lparr>db_profile := Some ((case f of EmotionalField \<Rightarrow> p\<lparr>pf_emotional_state := v\<rparr>
                                                    | RelationshipField \<Rightarrow> p\<lparr>pf_relationship_state := v\<rparr>)\<lparr>pf_revision := rv\<rparr>)\<rparr>))"

definition insert_outbox :: "(pystr \<Rightarrow> bool) \<Rightarrow> pystr \<Rightarrow> pystr \<Rightarrow> pystr \<Rightarrow> pystr \<Rightarrow> unit statement" where
  "insert_outbox json_valid event_type key r payload d =
     (if \<not> json_valid payload then None
      else if \<exists>e \<in> set (db_outbox d). ox_idempotency_key e = key \<and> ox_event_type e = event_type then Some ((), d)
      else if find_turn r d = None then None
      else Some ((), d\<lparr>db_outbox := db_outbox d @ [\<lparr>ox_id = key @ u '':'' @ event_type, ox_event_type = event_type,
             ox_idempotency_key = key, ox_status = u ''pending'', ox_turn_request_id = r, ox_payload = payload\<rparr>]\<rparr>))"

definition insert_memory :: "(pystr \<Rightarrow> bool) \<Rightarrow> pystr \<Rightarrow> pystr \<Rightarrow> pystr \<Rightarrow> int statement" where
  "insert_memory json_valid content metadata created_at d =
     (if json_valid metadata then
        (let i = db_memory_seq d + 1 in
         Some (i, d\<lparr>db_memories := db_memories d @ [\<lparr>mr_id = i, mr_content = content, mr_metadata = metadata,
                                                    mr_created_at = created_at\<rparr>], db_memory_seq := i\<rparr>))
      else None)"

definition PRIVACY_OPERATIONS :: "pystr list" where
  "PRIVACY_OPERATIONS = map u [''delete_history'', ''delete_memories'', ''reset_emotional_state'', ''reset_relationship_state'']"

definition insert_privacy :: "(pystr \<Rightarrow> bool) \<Rightarrow> pystr \<Rightarrow> pystr \<Rightarrow> unit statement" where
  "insert_privacy json_valid operation result d =
     (if operation \<in> set PRIVACY_OPERATIONS \<and> json_valid result
      then Some ((), d\<lparr>db_privacy := db_privacy d @ [\<lparr>pv_operation = operation, pv_result = result\<rparr>]\<rparr>) else None)"

definition command :: "(database \<Rightarrow> database) \<Rightarrow> unit statement" where
  "command f d = Some ((), f d)"

section \<open>The connection\<close>

datatype fault = StmtRuns | StmtFails | StmtRollsBack

record lstore =
  ls_db :: database
  ls_txn :: "database option"
  ls_closed :: bool
  ls_faults :: "fault list"

type_synonym 'a action = "lstore \<Rightarrow> (storage_exn + 'a) \<times> lstore"

definition faulty :: "'a action \<Rightarrow> 'a action" where
  "faulty run s = (case ls_faults s of
     [] \<Rightarrow> run s
   | StmtRuns # fs \<Rightarrow> run (s\<lparr>ls_faults := fs\<rparr>)
   | StmtFails # fs \<Rightarrow> (Inl LSqliteError, s\<lparr>ls_faults := fs\<rparr>)
   | StmtRollsBack # fs \<Rightarrow> (Inl LSqliteError, s\<lparr>ls_faults := fs, ls_txn := None\<rparr>))"

definition statement_result :: "'a statement \<Rightarrow> 'a action" where
  "statement_result f s = (case ls_txn s of
     Some d \<Rightarrow> (case f d of None \<Rightarrow> (Inl LSqliteError, s) | Some (x, d') \<Rightarrow> (Inr x, s\<lparr>ls_txn := Some d'\<rparr>))
   | None \<Rightarrow> (case f (ls_db s) of None \<Rightarrow> (Inl LSqliteError, s) | Some (x, d') \<Rightarrow> (Inr x, s\<lparr>ls_db := d'\<rparr>)))"

definition execute_sql :: "'a statement \<Rightarrow> 'a action" where
  "execute_sql f = faulty (statement_result f)"

definition begin_immediate :: "unit action" where
  "begin_immediate = faulty (\<lambda>s. case ls_txn s of
     Some _ \<Rightarrow> (Inl LSqliteError, s) | None \<Rightarrow> (Inr (), s\<lparr>ls_txn := Some (ls_db s)\<rparr>))"

definition commit_sql :: "unit action" where
  "commit_sql = faulty (\<lambda>s. case ls_txn s of
     None \<Rightarrow> (Inl LSqliteError, s) | Some d \<Rightarrow> (Inr (), s\<lparr>ls_db := d, ls_txn := None\<rparr>))"

definition rollback_sql :: "unit action" where
  "rollback_sql s = (case ls_txn s of None \<Rightarrow> (Inl LSqliteError, s) | Some _ \<Rightarrow> (Inr (), s\<lparr>ls_txn := None\<rparr>))"

text \<open>Binding a parameter: a string is encoded as UTF-8, an int has 64 bits.\<close>

definition bind_text :: "pystr \<Rightarrow> storage_exn + unit" where
  "bind_text t = (case utf8_encode t of None \<Rightarrow> Inl LUnicodeEncodeError | Some _ \<Rightarrow> Inr ())"

definition bind_int :: "int \<Rightarrow> storage_exn + unit" where
  "bind_int n = guard (- (2 ^ 63) \<le> n \<and> n < 2 ^ 63) LOverflowError"

fun bind_texts :: "pystr list \<Rightarrow> storage_exn + unit" where
  "bind_texts [] = Inr ()"
| "bind_texts (t # ts) = rbind (bind_text t) (\<lambda>_. bind_texts ts)"

end
