(* ===== verification/Local_Storage.thy ===== *)
theory Local_Storage
  imports Local_Database
begin

text \<open>
  \<open>backend/local_storage/storage.py\<close>: the operations of \<open>LocalStorage\<close>, the single-user store of the desktop application.
  The store serialises its operations with one lock, so that an operation is a function on the store; one
  client thread, and therefore one connection, is modelled.  Parameters: the JSON functions, SHA-256, the SQL function
  \<open>json_valid\<close>, \<open>str\<close> of a value that is neither an int nor a string, and the readings of the clock.
\<close>

record local_codec =
  lk_canon :: "pyobj \<Rightarrow> pystr option"
  lk_dumps :: "pyobj \<Rightarrow> pystr option"
  lk_loads :: "pystr \<Rightarrow> pyobj option"
  lk_sha256 :: "nat list \<Rightarrow> pystr"
  lk_json_valid :: "pystr \<Rightarrow> bool"
  lk_str :: "pyobj \<Rightarrow> pystr"

section \<open>Validation of arguments\<close>

definition LOCAL_MAX_MESSAGE_LENGTH :: nat where "LOCAL_MAX_MESSAGE_LENGTH = 10000"
definition MAX_REQUEST_ID_LENGTH :: nat where "MAX_REQUEST_ID_LENGTH = 128"

definition local_validate_request_id :: "pyobj \<Rightarrow> storage_exn + pystr" where
  "local_validate_request_id v = (case v of
     PStr r \<Rightarrow>
       rbind (linvalid (r = []) ''invalid_request_id'') (\<lambda>_.
       rbind (linvalid (length r > MAX_REQUEST_ID_LENGTH) ''invalid_request_id'') (\<lambda>_.
       rbind (linvalid (\<not> list_all key_char r) ''invalid_request_id'') (\<lambda>_. Inr r)))
   | _ \<Rightarrow> Inl (LValidationError (u ''invalid_request_id'')))"

definition local_validate_message :: "pyobj \<Rightarrow> storage_exn + pystr" where
  "local_validate_message v = (case v of
     PStr m \<Rightarrow>
       rbind (linvalid (m = []) ''empty_message'') (\<lambda>_.
       rbind (linvalid (length m > LOCAL_MAX_MESSAGE_LENGTH) ''message_too_long'') (\<lambda>_. Inr m))
   | _ \<Rightarrow> Inl (LValidationError (u ''empty_message'')))"

definition validate_generation :: "pyobj \<Rightarrow> storage_exn + int" where
  "validate_generation v = (case v of
     PInt g \<Rightarrow> rbind (linvalid (g < 0) ''invalid_history_generation'') (\<lambda>_. Inr g)
   | _ \<Rightarrow> Inl (LValidationError (u ''invalid_history_generation'')))"

definition reservation_marker :: "int \<Rightarrow> pystr" where
  "reservation_marker g = u ''reserved:history:'' @ dec_int g"

definition local_json_dumps :: "local_codec \<Rightarrow> pyobj \<Rightarrow> storage_exn + pystr" where
  "local_json_dumps K v = (case lk_dumps K v of None \<Rightarrow> Inl (LValidationError (u ''invalid_payload'')) | Some t \<Rightarrow> Inr t)"

section \<open>The connection of an operation\<close>

definition storage_closed :: storage_exn where "storage_closed = LPersistenceError (u ''storage_closed'')"
definition local_database_error :: storage_exn where "local_database_error = LPersistenceError (u ''database_error'')"
definition local_invalid_state :: storage_exn where "local_invalid_state = LPersistenceError (u ''invalid_state'')"

definition connection :: "unit action" where
  "connection s = (if ls_closed s then (Inl storage_closed, s) else (Inr (), s))"

text \<open>\<open>except sqlite3.Error\<close> around a read, and around a write with its \<open>ROLLBACK\<close>.\<close>

definition sanitized_read :: "'a action \<Rightarrow> 'a action" where
  "sanitized_read m s = (case m s of
     (Inl e, s') \<Rightarrow> (Inl (if e = LSqliteError then local_database_error else e), s')
   | r \<Rightarrow> r)"

definition catching_sqlite :: "'a action \<Rightarrow> 'a action" where
  "catching_sqlite m s = (case m s of
     (Inl e, s') \<Rightarrow> if e = LSqliteError then (Inl local_database_error, s'\<lparr>ls_txn := None\<rparr>) else (Inl e, s')
   | r \<Rightarrow> r)"

text \<open>The handlers of \<open>commit_turn\<close>: every exception ends the transaction.\<close>

definition catching_all :: "'a action \<Rightarrow> 'a action" where
  "catching_all m s = (case m s of
     (Inl e, s') \<Rightarrow> (Inl (if e = LSqliteError then local_database_error else e), s'\<lparr>ls_txn := None\<rparr>)
   | r \<Rightarrow> r)"

section \<open>Results\<close>

record LocalUserState =
  lus_revision :: int
  lus_persona_config :: "pystr option"
  lus_user_profile :: pyobj
  lus_emotional_state :: pyobj
  lus_relationship_state :: pyobj

record LocalCommittedTurn =
  lt_request_id :: pystr
  lt_revision :: int
  lt_user_message_id :: int
  lt_assistant_message_id :: int
  lt_response :: pyobj
  lt_emotion_state :: pyobj
  lt_message_id :: pystr

record LocalReplayOutcome =
  lr_status :: pystr
  lr_committed :: "LocalCommittedTurn option"
  lr_history_generation :: "int option"

definition get_or :: "(pyobj \<times> pyobj) list \<Rightarrow> string \<Rightarrow> pyobj \<Rightarrow> pyobj" where
  "get_or d k v = (case map_of d (PStr (u k)) of None \<Rightarrow> v | Some x \<Rightarrow> x)"

definition py_str :: "local_codec \<Rightarrow> pyobj \<Rightarrow> pystr" where
  "py_str K v = (case v of PStr s \<Rightarrow> s | PInt n \<Rightarrow> dec_int n | _ \<Rightarrow> lk_str K v)"

definition committed_of :: "local_codec \<Rightarrow> pystr \<Rightarrow> int \<Rightarrow> int \<Rightarrow> int \<Rightarrow> (pyobj \<times> pyobj) list \<Rightarrow> LocalCommittedTurn" where
  "committed_of K r revision user_id assistant_id d =
     \<lparr>lt_request_id = r, lt_revision = revision, lt_user_message_id = user_id, lt_assistant_message_id = assistant_id,
      lt_response = get_or d ''response'' (PStr []), lt_emotion_state = get_or d ''emotion_state'' (PDict []),
      lt_message_id = py_str K (get_or d ''message_id'' (PStr []))\<rparr>"

definition or_zero :: "int option \<Rightarrow> int" where
  "or_zero i = (case i of None \<Rightarrow> 0 | Some n \<Rightarrow> n)"

text \<open>\<open>json.loads(text) if text else {}\<close>; the empty string and \<open>NULL\<close> are false.\<close>

definition loads_or_empty :: "local_codec \<Rightarrow> pystr option \<Rightarrow> storage_exn + pyobj" where
  "loads_or_empty K t = (case t of
     None \<Rightarrow> Inr (PDict [])
   | Some s \<Rightarrow> if s = [] then Inr (PDict [])
               else (case lk_loads K s of None \<Rightarrow> Inl local_invalid_state | Some v \<Rightarrow> Inr v))"

definition committed_from_row :: "local_codec \<Rightarrow> turn_row \<Rightarrow> storage_exn + LocalCommittedTurn" where
  "committed_from_row K t =
     rbind (loads_or_empty K (tn_replay_payload t)) (\<lambda>payload. (case payload of
        PDict d \<Rightarrow> Inr (committed_of K (tn_request_id t) (or_zero (tn_committed_revision t)) (or_zero (tn_user_log t))
                     (or_zero (tn_assistant_log t)) d)
      | _ \<Rightarrow> Inl local_invalid_state))"

definition outcome :: "string \<Rightarrow> LocalReplayOutcome" where
  "outcome s = \<lparr>lr_status = u s, lr_committed = None, lr_history_generation = None\<rparr>"

section \<open>Loading\<close>

definition schema_version :: "int action" where
  "schema_version = io_bind connection (\<lambda>_. execute_sql (query (\<lambda>d. fold max (db_migrations d) 0)))"

definition dict_or_empty :: "pyobj \<Rightarrow> pyobj" where
  "dict_or_empty v = (case v of PDict d \<Rightarrow> v | _ \<Rightarrow> PDict [])"

definition local_state_of_row :: "local_codec \<Rightarrow> profile_row \<Rightarrow> storage_exn + LocalUserState" where
  "local_state_of_row K p =
     rbind (guard (\<not> pf_revision p < 0) local_invalid_state) (\<lambda>_.
     rbind (loads_or_empty K (Some (pf_user_profile p))) (\<lambda>profile.
     rbind (loads_or_empty K (Some (pf_emotional_state p))) (\<lambda>emotional.
     rbind (loads_or_empty K (Some (pf_relationship_state p))) (\<lambda>relationship.
     Inr \<lparr>lus_revision = pf_revision p, lus_persona_config = pf_persona_config p,
          lus_user_profile = dict_or_empty profile, lus_emotional_state = dict_or_empty emotional,
          lus_relationship_state = dict_or_empty relationship\<rparr>))))"

definition local_default_state :: "pyobj \<Rightarrow> storage_exn + LocalUserState" where
  "local_default_state timestamp =
     rbind (neutral_emotional_snapshot timestamp) (\<lambda>es.
     rbind (neutral_relationship_snapshot timestamp) (\<lambda>rs.
     Inr \<lparr>lus_revision = 0, lus_persona_config = None, lus_user_profile = PDict [], lus_emotional_state = es,
          lus_relationship_state = rs\<rparr>))"

definition load_user_state :: "local_codec \<Rightarrow> pyobj \<Rightarrow> LocalUserState action" where
  "load_user_state K time_now =
     io_bind (sanitized_read (io_bind connection (\<lambda>_. execute_sql (query db_profile)))) (\<lambda>row.
     io_lift (case row of None \<Rightarrow> local_default_state time_now | Some p \<Rightarrow> local_state_of_row K p))"

definition validate_limit :: "pyobj \<Rightarrow> storage_exn + nat" where
  "validate_limit v = (case v of
     PInt n \<Rightarrow> rbind (linvalid (\<not> (1 \<le> n \<and> n \<le> 500)) ''invalid_limit'') (\<lambda>_. Inr (nat n))
   | _ \<Rightarrow> Inl (LValidationError (u ''invalid_limit'')))"

text \<open>\<open>order by created_at desc, id desc limit n\<close>.\<close>

definition newest :: "('r \<Rightarrow> pystr) \<Rightarrow> ('r \<Rightarrow> int) \<Rightarrow> nat \<Rightarrow> 'r list \<Rightarrow> 'r list" where
  "newest created_at rid n rows = take n (rev (sort_key (\<lambda>r. (created_at r, rid r)) rows))"

definition history_row_ok :: "chat_row \<Rightarrow> bool" where
  "history_row_ok c \<longleftrightarrow> cr_role c \<in> set (map u [''user'', ''assistant'']) \<and> length (cr_content c) \<le> LOCAL_MAX_MESSAGE_LENGTH"

definition load_recent_history :: "pyobj \<Rightarrow> chat_row list action" where
  "load_recent_history limit =
     io_bind (io_lift (validate_limit limit)) (\<lambda>n.
     io_bind (sanitized_read (io_bind connection (\<lambda>_.
       execute_sql (query (\<lambda>d. newest cr_created_at cr_id n (db_chat_logs d)))))) (\<lambda>rows.
     io_lift (rbind (guard (list_all history_row_ok rows) local_invalid_state) (\<lambda>_. Inr (rev rows)))))"

definition memory_of_row :: "local_codec \<Rightarrow> memory_row \<Rightarrow> storage_exn + (pystr \<times> pyobj)" where
  "memory_of_row K m =
     rbind (guard (\<not> length (mr_content m) > LOCAL_MAX_MESSAGE_LENGTH) local_invalid_state) (\<lambda>_.
     rbind (loads_or_empty K (Some (mr_metadata m))) (\<lambda>metadata. (case metadata of
        PDict d \<Rightarrow> Inr (mr_content m, metadata) | _ \<Rightarrow> Inl local_invalid_state)))"

fun memories_of_rows :: "local_codec \<Rightarrow> memory_row list \<Rightarrow> storage_exn + (pystr \<times> pyobj) list" where
  "memories_of_rows K [] = Inr []"
| "memories_of_rows K (m # ms) = rbind (memory_of_row K m) (\<lambda>x. rbind (memories_of_rows K ms) (\<lambda>xs. Inr (x # xs)))"

definition load_recent_memories :: "local_codec \<Rightarrow> pyobj \<Rightarrow> (pystr \<times> pyobj) list action" where
  "load_recent_memories K limit =
     io_bind (io_lift (validate_limit limit)) (\<lambda>n.
     io_bind (sanitized_read (io_bind connection (\<lambda>_.
       execute_sql (query (\<lambda>d. newest mr_created_at mr_id n (db_memories d)))))) (\<lambda>rows.
     io_lift (rbind (memories_of_rows K rows) (\<lambda>ms. Inr (rev ms)))))"

section \<open>The atomic turn commit\<close>

record local_args =
  la_request_id :: pyobj
  la_history_generation :: pyobj
  la_user_message :: pyobj
  la_assistant_message :: pyobj
  la_emotional_state :: pyobj
  la_relationship_state :: pyobj
  la_public_response :: pyobj
  la_replay_payload :: pyobj
  la_outbox_events :: pyobj
  la_expected_revision :: pyobj

record prepared_commit =
  pc_commit :: local_commit
  pc_generation :: int
  pc_hash :: pystr
  pc_expected :: "int option"
  pc_replay :: "(pyobj \<times> pyobj) list"

fun validate_expected_revision :: "pyobj \<Rightarrow> storage_exn + int option" where
  "validate_expected_revision PNone = Inr None"
| "validate_expected_revision (PInt n) = rbind (linvalid (n < 0) ''invalid_expected_revision'') (\<lambda>_. Inr (Some n))"
| "validate_expected_revision _ = Inl (LValidationError (u ''invalid_expected_revision''))"

definition validate_public_response :: "pyobj \<Rightarrow> storage_exn + pystr" where
  "validate_public_response v = (case v of
     PStr m \<Rightarrow>
       rbind (linvalid (m = []) ''invalid_public_response'') (\<lambda>_.
       rbind (linvalid (length m > LOCAL_MAX_MESSAGE_LENGTH) ''message_too_long'') (\<lambda>_. Inr m))
   | _ \<Rightarrow> Inl (LValidationError (u ''invalid_public_response'')))"

definition prepare_commit_turn :: "local_codec \<Rightarrow> local_args \<Rightarrow> storage_exn + prepared_commit" where
  "prepare_commit_turn K a =
     rbind (local_validate_request_id (la_request_id a)) (\<lambda>r.
     rbind (validate_generation (la_history_generation a)) (\<lambda>g.
     rbind (local_validate_message (la_user_message a)) (\<lambda>um.
     rbind (local_validate_message (la_assistant_message a)) (\<lambda>am.
     rbind (validate_public_response (la_public_response a)) (\<lambda>pr.
     rbind (local_validate_replay_payload (lk_canon K) (la_replay_payload a)) (\<lambda>_.
     (case as_mapping (la_replay_payload a) of
        None \<Rightarrow> Inl LTypeError
      | Some d \<Rightarrow>
          rbind (linvalid (dict_get d (u ''response'') \<noteq> PStr pr) ''invalid_public_response'') (\<lambda>_.
          rbind (linvalid (has_key d (u ''request_id'') \<and> dict_get d (u ''request_id'') \<noteq> PStr r) ''invalid_replay_payload'') (\<lambda>_.
          rbind (validate_emotional_snapshot (lk_canon K) (la_emotional_state a)) (\<lambda>_.
          rbind (validate_relationship_snapshot (lk_canon K) (la_relationship_state a)) (\<lambda>_.
          rbind (local_validate_outbox_events (lk_canon K) (la_outbox_events a)) (\<lambda>events.
          rbind (validate_expected_revision (la_expected_revision a)) (\<lambda>expected.
          let c = \<lparr>lm_request_id = r, lm_expected_revision = la_expected_revision a, lm_user_message = um,
                   lm_assistant_message = am, lm_emotional_state = la_emotional_state a,
                   lm_relationship_state = la_relationship_state a, lm_public_response = pr,
                   lm_replay_payload = la_replay_payload a, lm_outbox_events = events\<rparr> in
          rbind (local_canonical_payload_hash (lk_canon K) (lk_sha256 K) (local_build_canonical_commit_payload c)) (\<lambda>h.
          Inr \<lparr>pc_commit = c, pc_generation = g, pc_hash = h, pc_expected = expected, pc_replay = d\<rparr>))))))))))))))"

definition commit_conflict :: "prepared_commit \<Rightarrow> string \<Rightarrow> storage_exn" where
  "commit_conflict p code = LConflictError \<lparr>lc_code = u code, lc_expected_revision = or_zero (pc_expected p),
     lc_actual_revision = None, lc_request_id = Some (lm_request_id (pc_commit p))\<rparr>"

definition local_revision_mismatch :: "prepared_commit \<Rightarrow> int \<Rightarrow> int \<Rightarrow> storage_exn" where
  "local_revision_mismatch p expected actual = LConflictError \<lparr>lc_code = u ''revision_mismatch'', lc_expected_revision = expected,
     lc_actual_revision = Some actual, lc_request_id = Some (lm_request_id (pc_commit p))\<rparr>"

text \<open>The loop over the validated events.\<close>

fun insert_events :: "local_codec \<Rightarrow> pystr \<Rightarrow> outbox_triple list \<Rightarrow> unit action" where
  "insert_events K r [] = io_lift (Inr ())"
| "insert_events K r ((event_type, payload, key) # es) =
     io_bind (io_lift (local_json_dumps K payload)) (\<lambda>t.
     io_bind (io_lift (bind_text t)) (\<lambda>_.
     io_bind (execute_sql (insert_outbox (lk_json_valid K) event_type key r t)) (\<lambda>_.
     insert_events K r es)))"

text \<open>The writes of one turn, from the check of the revision to the \<open>COMMIT\<close>.\<close>

definition write_turn :: "local_codec \<Rightarrow> pystr \<Rightarrow> prepared_commit \<Rightarrow> LocalCommittedTurn action" where
  "write_turn K now p =
     (let c = pc_commit p; r = lm_request_id c in
      io_bind (execute_sql (query revision_of)) (\<lambda>current_revision.
      let expected = (case pc_expected p of None \<Rightarrow> current_revision | Some n \<Rightarrow> n) in
      io_bind (io_lift (guard (\<not> expected \<noteq> current_revision) (local_revision_mismatch p expected current_revision))) (\<lambda>_.
      io_bind (io_lift (bind_text (lm_user_message c))) (\<lambda>_.
      io_bind (execute_sql (insert_chat (u ''user'') (lm_user_message c) now)) (\<lambda>user_message_id.
      io_bind (io_lift (bind_text (lm_assistant_message c))) (\<lambda>_.
      io_bind (execute_sql (insert_chat (u ''assistant'') (lm_assistant_message c) now)) (\<lambda>assistant_message_id.
      let new_revision = current_revision + 1 in
      io_bind (io_lift (local_json_dumps K (lm_emotional_state c))) (\<lambda>es.
      io_bind (io_lift (local_json_dumps K (lm_relationship_state c))) (\<lambda>rs.
      io_bind (io_lift (rbind (bind_texts [es, rs]) (\<lambda>_. bind_int new_revision))) (\<lambda>_.
      io_bind (execute_sql (upsert_profile es rs new_revision)) (\<lambda>_.
      io_bind (io_lift (local_json_dumps K (lm_replay_payload c))) (\<lambda>rp.
      io_bind (io_lift (bind_texts [pc_hash p, rp])) (\<lambda>_.
      io_bind (execute_sql (upsert_turn \<lparr>tn_request_id = r, tn_payload_hash = pc_hash p, tn_status = TCompleted,
                 tn_expected_revision = expected, tn_committed_revision = Some new_revision, tn_user_log = Some user_message_id,
                 tn_assistant_log = Some assistant_message_id, tn_replay_payload = Some rp, tn_error_code = None\<rparr>)) (\<lambda>_.
      io_bind (insert_events K r (lm_outbox_events c)) (\<lambda>_.
      io_bind commit_sql (\<lambda>_.
      io_lift (Inr (committed_of K r new_revision user_message_id assistant_message_id (pc_replay p)))))))))))))))))))"

text \<open>What the stored row says about a completed request, before and inside the transaction.\<close>

definition replay_committed :: "local_codec \<Rightarrow> prepared_commit \<Rightarrow> turn_row \<Rightarrow> storage_exn + LocalCommittedTurn" where
  "replay_committed K p t =
     (if tn_payload_hash t \<noteq> pc_hash p then Inl (commit_conflict p ''request_payload_conflict'') else committed_from_row K t)"

definition commit_in_transaction :: "local_codec \<Rightarrow> pystr \<Rightarrow> prepared_commit \<Rightarrow> LocalCommittedTurn action" where
  "commit_in_transaction K now p =
     io_bind begin_immediate (\<lambda>_.
     io_bind (execute_sql (query (find_turn (lm_request_id (pc_commit p))))) (\<lambda>existing.
     io_bind (execute_sql (query history_generation_of)) (\<lambda>current_generation.
     (case existing of
        Some t \<Rightarrow>
          if tn_status t = TCompleted then io_bind rollback_sql (\<lambda>_. io_lift (replay_committed K p t))
          else if current_generation \<noteq> pc_generation p \<or> tn_status t \<noteq> TPending
                  \<or> tn_payload_hash t \<noteq> reservation_marker (pc_generation p)
          then io_bind rollback_sql (\<lambda>_. io_lift (Inl (commit_conflict p ''request_reservation_invalidated'')))
          else write_turn K now p
      | None \<Rightarrow> io_bind rollback_sql (\<lambda>_. io_lift (Inl (commit_conflict p ''request_reservation_invalidated'')))))))"

definition local_commit_turn :: "local_codec \<Rightarrow> pystr \<Rightarrow> local_args \<Rightarrow> LocalCommittedTurn action" where
  "local_commit_turn K now a =
     io_bind (io_lift (prepare_commit_turn K a)) (\<lambda>p.
     io_bind connection (\<lambda>_.
     io_bind (execute_sql (query (find_turn (lm_request_id (pc_commit p))))) (\<lambda>existing.
     (case existing of
        Some t \<Rightarrow>
          (case tn_status t of
             TCompleted \<Rightarrow> io_lift (replay_committed K p t)
           | TFailed \<Rightarrow> io_lift (Inl (commit_conflict p ''request_replay_unavailable''))
           | TPending \<Rightarrow> catching_all (commit_in_transaction K now p))
      | None \<Rightarrow> catching_all (commit_in_transaction K now p)))))"

section \<open>Replay and admission\<close>

definition ledger_row :: "pystr \<Rightarrow> turn_row option action" where
  "ledger_row r = sanitized_read (io_bind connection (\<lambda>_. execute_sql (query (find_turn r))))"

definition completed_outcome :: "local_codec \<Rightarrow> string \<Rightarrow> turn_row \<Rightarrow> storage_exn + LocalReplayOutcome" where
  "completed_outcome K status t =
     rbind (committed_from_row K t) (\<lambda>c. Inr (outcome status\<lparr>lr_committed := Some c\<rparr>))"

definition local_replay :: "local_codec \<Rightarrow> pyobj \<Rightarrow> LocalReplayOutcome action" where
  "local_replay K request =
     io_bind (io_lift (local_validate_request_id request)) (\<lambda>r.
     io_bind (ledger_row r) (\<lambda>row.
     io_lift (case row of
       None \<Rightarrow> Inr (outcome ''request_replay_unavailable'')
     | Some t \<Rightarrow> (case tn_status t of
         TCompleted \<Rightarrow> completed_outcome K ''completed'' t
       | TPending \<Rightarrow> Inr (outcome ''request_in_progress'')
       | TFailed \<Rightarrow> Inr (outcome ''request_replay_unavailable'')))))"

text \<open>A completed request replays only for the message it was committed with.\<close>

definition replay_or_conflict ::
    "local_codec \<Rightarrow> pystr \<Rightarrow> turn_row \<Rightarrow> chat_row option \<Rightarrow> storage_exn + LocalReplayOutcome" where
  "replay_or_conflict K message t stored =
     (if map_option cr_content stored \<noteq> Some message then Inr (outcome ''conflict'') else completed_outcome K ''replay'' t)"

definition check_request :: "local_codec \<Rightarrow> pyobj \<Rightarrow> pyobj \<Rightarrow> LocalReplayOutcome action" where
  "check_request K request message =
     io_bind (io_lift (local_validate_request_id request)) (\<lambda>r.
     io_bind (io_lift (local_validate_message message)) (\<lambda>m.
     io_bind (ledger_row r) (\<lambda>row. (case row of
       None \<Rightarrow> io_lift (Inr (outcome ''fresh''))
     | Some t \<Rightarrow>
         if tn_status t \<noteq> TCompleted then io_lift (Inr (outcome ''conflict''))
         else io_bind (sanitized_read (io_bind connection (\<lambda>_. execute_sql (query (find_chat (tn_user_log t)))))) (\<lambda>stored.
              io_lift (replay_or_conflict K m t stored))))))"

definition release_request :: "pyobj \<Rightarrow> pyobj \<Rightarrow> unit action" where
  "release_request request generation =
     io_bind (io_lift (local_validate_request_id request)) (\<lambda>r.
     io_bind (io_lift (validate_generation generation)) (\<lambda>g.
     io_bind connection (\<lambda>_.
     catching_sqlite (
       io_bind begin_immediate (\<lambda>_.
       io_bind (execute_sql (command (delete_turns (\<lambda>t. tn_request_id t = r \<and> tn_status t = TPending
                  \<and> tn_payload_hash t = reservation_marker g)))) (\<lambda>_.
       commit_sql))))))"

definition reserve_request :: "local_codec \<Rightarrow> pyobj \<Rightarrow> pyobj \<Rightarrow> LocalReplayOutcome action" where
  "reserve_request K request message =
     io_bind (io_lift (local_validate_request_id request)) (\<lambda>r.
     io_bind (io_lift (local_validate_message message)) (\<lambda>m.
     io_bind connection (\<lambda>_.
     catching_sqlite (
       io_bind begin_immediate (\<lambda>_.
       io_bind (execute_sql (query history_generation_of)) (\<lambda>g.
       io_bind (execute_sql (insert_reservation r (reservation_marker g))) (\<lambda>inserted.
       if inserted = 1 then
         io_bind commit_sql (\<lambda>_. io_lift (Inr (outcome ''reserved''\<lparr>lr_history_generation := Some g\<rparr>)))
       else
         io_bind (execute_sql (query (find_turn r))) (\<lambda>row. (case row of
           None \<Rightarrow> io_lift (Inl LAssertionError)
         | Some t \<Rightarrow> (case tn_status t of
             TPending \<Rightarrow> io_bind commit_sql (\<lambda>_. io_lift (Inr (outcome ''conflict'')))
           | TCompleted \<Rightarrow>
               io_bind rollback_sql (\<lambda>_.
               io_bind (execute_sql (query (find_chat (tn_user_log t)))) (\<lambda>stored.
               io_lift (replay_or_conflict K m t stored)))
           | TFailed \<Rightarrow> io_bind rollback_sql (\<lambda>_. io_lift (Inr (outcome ''conflict'')))))))))))))"

section \<open>Memories\<close>

definition store_memory :: "local_codec \<Rightarrow> pystr \<Rightarrow> pyobj \<Rightarrow> pyobj \<Rightarrow> int action" where
  "store_memory K now content metadata =
     io_bind (io_lift (local_validate_message content)) (\<lambda>m.
     io_bind (io_lift (linvalid (as_mapping metadata = None) ''invalid_metadata'')) (\<lambda>_.
     io_bind connection (\<lambda>_.
     io_bind begin_immediate (\<lambda>_.
     catching_sqlite (
       io_bind (io_lift (local_json_dumps K metadata)) (\<lambda>t.
       io_bind (io_lift (bind_texts [m, t])) (\<lambda>_.
       io_bind (execute_sql (insert_memory (lk_json_valid K) m t now)) (\<lambda>i.
       io_bind commit_sql (\<lambda>_. io_lift (Inr i))))))))))"

section \<open>Privacy operations\<close>

definition applied :: "(string \<times> int) list \<Rightarrow> pyobj" where
  "applied counts = PDict ((PStr (u ''status''), PStr (u ''applied'')) # map (\<lambda>(k, n). (PStr (u k), PInt n)) counts)"

definition record_privacy :: "local_codec \<Rightarrow> string \<Rightarrow> pyobj \<Rightarrow> pyobj action" where
  "record_privacy K operation result =
     io_bind (io_lift (local_json_dumps K result)) (\<lambda>t.
     io_bind (io_lift (bind_text t)) (\<lambda>_.
     io_bind (execute_sql (insert_privacy (lk_json_valid K) (u operation) t)) (\<lambda>_.
     io_bind commit_sql (\<lambda>_. io_lift (Inr result)))))"

definition delete_history :: "local_codec \<Rightarrow> pyobj action" where
  "delete_history K =
     io_bind connection (\<lambda>_.
     io_bind begin_immediate (\<lambda>_.
     catching_sqlite (
       io_bind (execute_sql (query (\<lambda>d. int (length (db_chat_logs d))))) (\<lambda>chat_count.
       io_bind (execute_sql (query (\<lambda>d. int (length (db_turns d))))) (\<lambda>turn_count.
       io_bind (execute_sql (query (\<lambda>d. int (length (db_outbox d))))) (\<lambda>outbox_count.
       io_bind (execute_sql (command (delete_turns (\<lambda>_. True)))) (\<lambda>_.
       io_bind (execute_sql (command (delete_chats (\<lambda>_. True)))) (\<lambda>_.
       io_bind (execute_sql (query (\<lambda>d. length (db_chat_logs d)))) (\<lambda>remaining.
       io_bind (io_lift (guard (\<not> remaining \<noteq> 0) local_database_error)) (\<lambda>_.
       record_privacy K ''delete_history'' (applied [(''deleted_messages'', chat_count),
         (''deleted_turn_requests'', turn_count), (''deleted_outbox_events'', outbox_count)])))))))))))"

text \<open>\<open>_privacy_delete\<close>, with the count and the delete of its caller.\<close>

definition privacy_delete ::
    "local_codec \<Rightarrow> string \<Rightarrow> (database \<Rightarrow> database) \<Rightarrow> string \<Rightarrow> (database \<Rightarrow> int) \<Rightarrow> pyobj action" where
  "privacy_delete K operation delete_sql result_key count_sql =
     io_bind connection (\<lambda>_.
     io_bind begin_immediate (\<lambda>_.
     catching_sqlite (
       io_bind (execute_sql (query count_sql)) (\<lambda>n.
       io_bind (execute_sql (command delete_sql)) (\<lambda>_.
       record_privacy K operation (applied [(result_key, n)]))))))"

definition delete_memories :: "local_codec \<Rightarrow> pyobj action" where
  "delete_memories K = privacy_delete K ''delete_memories'' (\<lambda>d. d\<lparr>db_memories := []\<rparr>) ''deleted_memories''
     (\<lambda>d. int (length (db_memories d)))"

text \<open>The row that a reset creates when there is no profile: the other field is neutral as well.\<close>

definition insert_neutral_profile :: "local_codec \<Rightarrow> pyobj \<Rightarrow> state_field \<Rightarrow> pyobj \<Rightarrow> int \<Rightarrow> unit action" where
  "insert_neutral_profile K time_now field canonical new_revision =
     (case field of
        EmotionalField \<Rightarrow>
          io_bind (io_lift (local_json_dumps K canonical)) (\<lambda>es.
          io_bind (io_lift (rbind (neutral_relationship_snapshot time_now) (local_json_dumps K))) (\<lambda>rs.
          io_bind (io_lift (bind_texts [es, rs])) (\<lambda>_.
          execute_sql (upsert_profile es rs new_revision))))
      | RelationshipField \<Rightarrow>
          io_bind (io_lift (rbind (neutral_emotional_snapshot time_now) (local_json_dumps K))) (\<lambda>es.
          io_bind (io_lift (local_json_dumps K canonical)) (\<lambda>rs.
          io_bind (io_lift (bind_texts [es, rs])) (\<lambda>_.
          execute_sql (upsert_profile es rs new_revision)))))"

definition reset_state_field :: "local_codec \<Rightarrow> pyobj \<Rightarrow> string \<Rightarrow> state_field \<Rightarrow> pyobj \<Rightarrow> pyobj action" where
  "reset_state_field K time_now operation field canonical =
     io_bind connection (\<lambda>_.
     io_bind begin_immediate (\<lambda>_.
     catching_sqlite (
       io_bind (execute_sql (query revision_of)) (\<lambda>current_revision.
       let new_revision = current_revision + 1 in
       io_bind (io_lift (local_json_dumps K canonical)) (\<lambda>t.
       io_bind (io_lift (rbind (bind_text t) (\<lambda>_. bind_int new_revision))) (\<lambda>_.
       io_bind (execute_sql (update_profile_field field t new_revision)) (\<lambda>rowcount.
       io_bind (if rowcount = 0 then insert_neutral_profile K time_now field canonical new_revision else io_lift (Inr ())) (\<lambda>_.
       record_privacy K operation (applied [(''revision'', new_revision)])))))))))"

text \<open>\<open>time_now\<close> is the first reading of the clock, \<open>time_later\<close> the one made for the field that is not reset.\<close>

definition reset_emotional_state :: "local_codec \<Rightarrow> pyobj \<Rightarrow> pyobj \<Rightarrow> pyobj \<Rightarrow> pyobj action" where
  "reset_emotional_state K time_now time_later neutral =
     io_bind (io_lift (neutral_emotional_snapshot time_now)) (\<lambda>canonical.
     io_bind (io_lift (if neutral = PNone then Inr () else validate_neutral_emotional_snapshot (lk_canon K) neutral)) (\<lambda>_.
     reset_state_field K time_later ''reset_emotional_state'' EmotionalField canonical))"

definition reset_relationship_state :: "local_codec \<Rightarrow> pyobj \<Rightarrow> pyobj \<Rightarrow> pyobj \<Rightarrow> pyobj action" where
  "reset_relationship_state K time_now time_later neutral =
     io_bind (io_lift (neutral_relationship_snapshot time_now)) (\<lambda>canonical.
     io_bind (io_lift (if neutral = PNone then Inr () else validate_neutral_relationship_snapshot (lk_canon K) neutral)) (\<lambda>_.
     reset_state_field K time_later ''reset_relationship_state'' RelationshipField canonical))"

section \<open>Retention\<close>

definition validate_keep_last :: "pyobj \<Rightarrow> storage_exn + int" where
  "validate_keep_last v = (case v of
     PInt n \<Rightarrow> rbind (linvalid (n < 0) ''invalid_keep_last'') (\<lambda>_. Inr n)
   | _ \<Rightarrow> Inl (LValidationError (u ''invalid_keep_last'')))"

definition last_ids :: "int \<Rightarrow> database \<Rightarrow> int set" where
  "last_ids n d = set (take (nat n) (rev (sort (map cr_id (db_chat_logs d)))))"

definition trim_history :: "pyobj \<Rightarrow> pyobj action" where
  "trim_history keep_last =
     io_bind (io_lift (validate_keep_last keep_last)) (\<lambda>n.
     io_bind connection (\<lambda>_.
     io_bind begin_immediate (\<lambda>_.
     catching_sqlite (
       io_bind (execute_sql (query (\<lambda>d. int (length (db_chat_logs d))))) (\<lambda>count.
       io_bind (io_lift (bind_int n)) (\<lambda>_.
       io_bind (execute_sql (command (\<lambda>d. delete_chats (\<lambda>c. cr_id c \<notin> last_ids n d) d))) (\<lambda>_.
       io_bind commit_sql (\<lambda>_. io_lift (Inr (applied [(''remaining'', min count n)]))))))))))"

section \<open>Backup, metrics, closing\<close>

text \<open>\<open>backup_ok\<close> says whether creating the directory and copying the pages succeeds; the copy is what the connection sees.\<close>

definition backup_to :: "bool \<Rightarrow> bool \<Rightarrow> database action" where
  "backup_to target_exists backup_ok =
     io_bind connection (\<lambda>_ s.
       (if target_exists then Inl (LValidationError (u ''backup_target_exists''))
        else if backup_ok then Inr (case ls_txn s of None \<Rightarrow> ls_db s | Some d \<Rightarrow> d)
        else Inl (LPersistenceError (u ''backup_failed'')), s))"

record storage_metrics_row =
  sm_chat_log_rows :: int
  sm_memory_rows :: int
  sm_turn_request_rows :: int
  sm_page_count :: int
  sm_page_size :: int
  sm_journal_mode :: pystr

definition storage_metrics :: "int \<Rightarrow> int \<Rightarrow> pystr \<Rightarrow> storage_metrics_row action" where
  "storage_metrics page_count page_size journal_mode =
     io_bind connection (\<lambda>_. sanitized_read (
       io_bind (execute_sql (query (\<lambda>d. int (length (db_chat_logs d))))) (\<lambda>chats.
       io_bind (execute_sql (query (\<lambda>d. int (length (db_memories d))))) (\<lambda>memories.
       io_bind (execute_sql (query (\<lambda>d. int (length (db_turns d))))) (\<lambda>turns.
       io_bind (execute_sql (query (\<lambda>_. page_count))) (\<lambda>pages.
       io_bind (execute_sql (query (\<lambda>_. page_size))) (\<lambda>psize.
       io_bind (execute_sql (query (\<lambda>_. journal_mode))) (\<lambda>mode.
       io_lift (Inr \<lparr>sm_chat_log_rows = chats, sm_memory_rows = memories, sm_turn_request_rows = turns,
         sm_page_count = pages, sm_page_size = psize, sm_journal_mode = mode\<rparr>)))))))))"

definition close_store :: "unit action" where
  "close_store s = (Inr (), if ls_closed s then s else s\<lparr>ls_closed := True, ls_txn := None\<rparr>)"

section \<open>Opening\<close>

text \<open>\<open>_MIGRATION_0001\<close>: the objects its statements create.\<close>

definition MIGRATION_0001 :: "pystr list" where
  "MIGRATION_0001 = map u [''profiles'', ''chat_logs'', ''chat_logs_created_idx'', ''turn_requests'', ''turn_requests_status_idx'',
     ''outbox_events'', ''outbox_events_status_idx'', ''memories'', ''memories_created_idx'', ''privacy_operations'']"

definition MIGRATIONS :: "(int \<times> pystr list) list" where
  "MIGRATIONS = [(1, MIGRATION_0001)]"

definition pending_versions :: "int list \<Rightarrow> int list" where
  "pending_versions versions = filter (\<lambda>v. v \<notin> set versions) (map fst MIGRATIONS)"

definition migration_sql :: "int \<Rightarrow> pystr list option" where
  "migration_sql version = map_of MIGRATIONS version"

definition create_object :: "pystr \<Rightarrow> unit statement" where
  "create_object name d = (if name \<in> set (db_tables d) then None else Some ((), d\<lparr>db_tables := db_tables d @ [name]\<rparr>))"

definition bootstrap :: "database \<Rightarrow> database" where
  "bootstrap d = (if u ''schema_migrations'' \<in> set (db_tables d) then d
     else d\<lparr>db_tables := db_tables d @ [u ''schema_migrations'']\<rparr>)"

definition insert_version :: "int \<Rightarrow> unit statement" where
  "insert_version v d = (if v \<in> set (db_migrations d) then None else Some ((), d\<lparr>db_migrations := db_migrations d @ [v]\<rparr>))"

fun create_objects :: "pystr list \<Rightarrow> unit action" where
  "create_objects [] = io_lift (Inr ())"
| "create_objects (n # ns) = io_bind (execute_sql (create_object n)) (\<lambda>_. create_objects ns)"

text \<open>\<open>except Exception: if conn.in_transaction: ROLLBACK; raise\<close>.\<close>

definition rolling_back :: "'a action \<Rightarrow> 'a action" where
  "rolling_back m s = (case m s of (Inl e, s') \<Rightarrow> (Inl e, s'\<lparr>ls_txn := None\<rparr>) | r \<Rightarrow> r)"

fun apply_migrations :: "int list \<Rightarrow> unit action" where
  "apply_migrations [] = io_lift (Inr ())"
| "apply_migrations (v # vs) =
     io_bind begin_immediate (\<lambda>_.
     io_bind (rolling_back (
       io_bind (create_objects (case migration_sql v of None \<Rightarrow> [] | Some ns \<Rightarrow> ns)) (\<lambda>_.
       io_bind (execute_sql (insert_version v)) (\<lambda>_.
       commit_sql)))) (\<lambda>_.
     apply_migrations vs))"

definition run_migrations :: "unit action" where
  "run_migrations =
     io_bind (execute_sql (command bootstrap)) (\<lambda>_.
     io_bind (execute_sql (query db_migrations)) (\<lambda>versions.
     if list_ex (\<lambda>v. v \<notin> set (map fst MIGRATIONS)) versions then io_lift (Inl (LPersistenceError (u ''schema_too_new'')))
     else apply_migrations (pending_versions versions)))"

definition interrupt :: "turn_row \<Rightarrow> turn_row" where
  "interrupt t = (if tn_status t = TPending then t\<lparr>tn_status := TFailed, tn_error_code := Some (u ''interrupted'')\<rparr> else t)"

definition fail_pending :: "database \<Rightarrow> database" where
  "fail_pending d = d\<lparr>db_turns := map interrupt (db_turns d)\<rparr>"

text \<open>Here the \<open>ROLLBACK\<close> of the handler is not guarded: without a transaction it raises as well.\<close>

definition recover_interrupted_turns :: "unit action" where
  "recover_interrupted_turns =
     io_bind begin_immediate (\<lambda>_ s.
       (case io_bind (execute_sql (command fail_pending)) (\<lambda>_. commit_sql) s of
          (Inl e, s') \<Rightarrow> (case rollback_sql s' of (Inl e', s'') \<Rightarrow> (Inl e', s'') | (Inr _, s'') \<Rightarrow> (Inl e, s''))
        | r \<Rightarrow> r))"

text \<open>The four \<open>PRAGMA\<close> statements of a new connection; a failing \<open>sqlite3.connect\<close> is \<open>connect_ok = False\<close>.\<close>

definition new_connection :: "bool \<Rightarrow> unit action" where
  "new_connection connect_ok =
     io_bind (io_lift (guard connect_ok (LPersistenceError (u ''storage_unavailable'')))) (\<lambda>_.
     io_bind (execute_sql (query (\<lambda>_. ()))) (\<lambda>_.
     io_bind (execute_sql (query (\<lambda>_. ()))) (\<lambda>_.
     io_bind (execute_sql (query (\<lambda>_. ()))) (\<lambda>_.
     execute_sql (query (\<lambda>_. ()))))))"

definition open_and_migrate :: "bool \<Rightarrow> bool \<Rightarrow> unit action" where
  "open_and_migrate parent_ok connect_ok s =
     (case io_bind (io_lift (guard parent_ok (LPersistenceError (u ''storage_unavailable'')))) (\<lambda>_.
           io_bind (new_connection connect_ok) (\<lambda>_.
           io_bind run_migrations (\<lambda>_.
           recover_interrupted_turns))) s of
        (Inl e, s') \<Rightarrow> (Inl (if e = LSqliteError then LStorageCorruptError (u ''corrupt_database'') else e), s')
      | r \<Rightarrow> r)"

text \<open>\<open>open_local_storage\<close> on a database file: a new store with its own connection.\<close>

definition open_local_storage :: "database \<Rightarrow> bool \<Rightarrow> bool \<Rightarrow> fault list \<Rightarrow> (storage_exn + unit) \<times> lstore" where
  "open_local_storage d parent_ok connect_ok faults =
     open_and_migrate parent_ok connect_ok \<lparr>ls_db = d, ls_txn = None, ls_closed = False, ls_faults = faults\<rparr>"

end
