(* ===== verification/Local_Transactions.thy ===== *)
theory Local_Transactions
  imports Local_Storage
begin

text \<open>
  What the operations of the local store promise: each is a transaction that refines a pure function on the database.
  Whatever statement fails, an operation that raises leaves the committed database as it was, and an operation that
  returns has applied its function; without faults it does exactly what the function says.
\<close>

section \<open>Transaction bodies as pure functions\<close>

type_synonym 'a body = "database \<Rightarrow> storage_exn + ('a \<times> database)"

definition bbind :: "'a body \<Rightarrow> ('a \<Rightarrow> 'b body) \<Rightarrow> 'b body" where
  "bbind f g d = rbind (f d) (\<lambda>(x, d'). g x d')"

definition blift :: "storage_exn + 'a \<Rightarrow> 'a body" where
  "blift r d = rbind r (\<lambda>x. Inr (x, d))"

definition bstmt :: "'a statement \<Rightarrow> 'a body" where
  "bstmt f d = (case f d of None \<Rightarrow> Inl LSqliteError | Some xd \<Rightarrow> Inr xd)"

text \<open>\<open>refines m f\<close>: inside a transaction, \<open>m\<close> does what \<open>f\<close> says to the working copy, unless a statement fails.\<close>

definition same_store :: "lstore \<Rightarrow> lstore \<Rightarrow> bool" where
  "same_store s s' \<longleftrightarrow> ls_db s' = ls_db s \<and> ls_closed s' = ls_closed s \<and> (ls_faults s = [] \<longrightarrow> ls_faults s' = [])"

definition faulted :: "lstore \<Rightarrow> storage_exn + 'a \<Rightarrow> bool" where
  "faulted s r \<longleftrightarrow> r = Inl LSqliteError \<and> ls_faults s \<noteq> []"

definition refines :: "'a action \<Rightarrow> 'a body \<Rightarrow> bool" where
  "refines m f \<longleftrightarrow> (\<forall>s d. ls_txn s = Some d \<longrightarrow>
     same_store s (snd (m s)) \<and>
     (faulted s (fst (m s)) \<or> (case f d of
        Inl e \<Rightarrow> fst (m s) = Inl e
      | Inr (x, d') \<Rightarrow> fst (m s) = Inr x \<and> ls_txn (snd (m s)) = Some d')))"

text \<open>
  \<open>commits_at d0 d m r\<close>: on the working copy \<open>d\<close> of the database \<open>d0\<close>, the action \<open>m\<close> ends its transaction with the
  outcome \<open>r\<close>; a \<open>ROLLBACK\<close> ends it as well when nothing was written.
\<close>

definition commits_at :: "database \<Rightarrow> database \<Rightarrow> 'a action \<Rightarrow> storage_exn + ('a \<times> database) \<Rightarrow> bool" where
  "commits_at d0 d m r \<longleftrightarrow> (\<forall>s. ls_txn s = Some d \<and> ls_db s = d0 \<longrightarrow>
     ls_closed (snd (m s)) = ls_closed s \<and> (ls_faults s = [] \<longrightarrow> ls_faults (snd (m s)) = []) \<and>
     (faulted s (fst (m s)) \<and> ls_db (snd (m s)) = d0 \<or> (case r of
        Inl e \<Rightarrow> fst (m s) = Inl e \<and> ls_db (snd (m s)) = d0
      | Inr (x, d') \<Rightarrow> fst (m s) = Inr x \<and> ls_db (snd (m s)) = d' \<and> ls_txn (snd (m s)) = None)))"

definition commits :: "'a action \<Rightarrow> 'a body \<Rightarrow> bool" where
  "commits m f \<longleftrightarrow> (\<forall>d0 d. commits_at d0 d m (f d))"

lemma refines_lift [intro]: "refines (io_lift r) (blift r)"
  by (cases r) (auto simp: refines_def io_lift_def blift_def same_store_def)

lemma refines_execute [intro]: "refines (execute_sql f) (bstmt f)"
  by (auto simp: refines_def execute_sql_def faulty_def statement_result_def bstmt_def same_store_def faulted_def
      split: list.splits fault.splits option.splits)

lemma refines_bind [intro]:
  assumes "refines m f" and "\<And>x. refines (k x) (g x)"
  shows "refines (io_bind m k) (bbind f g)"
  unfolding refines_def
proof (intro allI impI)
  fix s :: lstore and d
  assume t: "ls_txn s = Some d"
  obtain r s1 where m: "m s = (r, s1)" by fastforce
  note a = assms(1) [unfolded refines_def, rule_format, OF t, unfolded m fst_conv snd_conv]
  show "same_store s (snd (io_bind m k s)) \<and> (faulted s (fst (io_bind m k s)) \<or> (case bbind f g d of
        Inl e \<Rightarrow> fst (io_bind m k s) = Inl e
      | Inr (x, d') \<Rightarrow> fst (io_bind m k s) = Inr x \<and> ls_txn (snd (io_bind m k s)) = Some d'))"
  proof (cases r)
    case (Inl e)
    then show ?thesis using a m by (auto simp: io_bind_def bbind_def faulted_def split: sum.splits)
  next
    case (Inr x)
    then obtain d1 where d1: "f d = Inr (x, d1)" "ls_txn s1 = Some d1" and ss: "same_store s s1"
      using a by (auto simp: faulted_def split: sum.splits)
    note b = assms(2) [of x, unfolded refines_def, rule_format, OF d1(2)]
    have "faulted s1 r' \<Longrightarrow> faulted s r'" for r' :: "storage_exn + 'b" using ss by (auto simp: faulted_def same_store_def)
    moreover have e: "io_bind m k s = k x s1" "bbind f g d = g x d1" using m Inr d1 by (simp_all add: io_bind_def bbind_def)
    ultimately show ?thesis using b ss unfolding same_store_def e by metis
  qed
qed

lemma commits_at_bind:
  assumes "refines m f" and "\<And>x d'. f d = Inr (x, d') \<Longrightarrow> commits_at d0 d' (k x) (g x d')"
  shows "commits_at d0 d (io_bind m k) (bbind f g d)"
  unfolding commits_at_def
proof (intro allI impI, elim conjE)
  fix s :: lstore
  assume t: "ls_txn s = Some d" and db: "ls_db s = d0"
  obtain r s1 where m: "m s = (r, s1)" by fastforce
  note a = assms(1) [unfolded refines_def, rule_format, OF t, unfolded m fst_conv snd_conv]
  show "ls_closed (snd (io_bind m k s)) = ls_closed s \<and> (ls_faults s = [] \<longrightarrow> ls_faults (snd (io_bind m k s)) = []) \<and>
     (faulted s (fst (io_bind m k s)) \<and> ls_db (snd (io_bind m k s)) = d0 \<or> (case bbind f g d of
        Inl e \<Rightarrow> fst (io_bind m k s) = Inl e \<and> ls_db (snd (io_bind m k s)) = d0
      | Inr (x, d') \<Rightarrow> fst (io_bind m k s) = Inr x \<and> ls_db (snd (io_bind m k s)) = d' \<and> ls_txn (snd (io_bind m k s)) = None))"
  proof (cases r)
    case (Inl e)
    then show ?thesis using a m db by (auto simp: io_bind_def bbind_def faulted_def same_store_def split: sum.splits)
  next
    case (Inr x)
    then obtain d1 where d1: "f d = Inr (x, d1)" "ls_txn s1 = Some d1" and ss: "same_store s s1"
      using a by (auto simp: faulted_def split: sum.splits)
    then have "ls_txn s1 = Some d1 \<and> ls_db s1 = d0" using db by (simp add: same_store_def)
    note b = assms(2) [OF d1(1), unfolded commits_at_def, rule_format, OF this]
    have "faulted s1 r' \<Longrightarrow> faulted s r'" for r' :: "storage_exn + 'b" using ss by (auto simp: faulted_def same_store_def)
    moreover have e: "io_bind m k s = k x s1" "bbind f g d = g x d1" using m Inr d1 by (simp_all add: io_bind_def bbind_def)
    ultimately show ?thesis using b ss unfolding same_store_def e by metis
  qed
qed

lemma commits_bind [intro]:
  assumes "refines m f" and "\<And>x. commits (k x) (g x)"
  shows "commits (io_bind m k) (bbind f g)"
  using assms by (auto simp: commits_def intro: commits_at_bind)

lemma commits_commit: "commits (io_bind commit_sql (\<lambda>_. io_lift (Inr x))) (\<lambda>d. Inr (x, d))" "commits commit_sql (\<lambda>d. Inr ((), d))"
  by (auto simp: commits_def commits_at_def io_bind_def commit_sql_def faulty_def io_lift_def faulted_def
      split: list.splits fault.splits)

lemma commits_at_rollback: "commits_at d d (io_bind rollback_sql (\<lambda>_. io_lift r)) (blift r d)"
  by (cases r) (auto simp: commits_at_def io_bind_def rollback_sql_def io_lift_def blift_def)

lemma commits_at_rollback_query:
  "commits_at d d (io_bind rollback_sql (\<lambda>_. io_bind (execute_sql (query q)) (\<lambda>x. io_lift (r x)))) (blift (r (q d)) d)"
  by (cases "r (q d)") (auto simp: commits_at_def io_bind_def rollback_sql_def io_lift_def blift_def execute_sql_def faulty_def
      statement_result_def query_def faulted_def split: list.splits fault.splits)

lemma commits_atD: "commits m f \<Longrightarrow> commits_at d0 d m (f d)"
  by (simp add: commits_def)

lemma commits_eq: "commits m f \<Longrightarrow> f = g \<Longrightarrow> commits m g"
  by simp

lemma refines_eq: "refines m f \<Longrightarrow> f = g \<Longrightarrow> refines m g"
  by simp

section \<open>Operations as transactions\<close>

text \<open>
  \<open>transacts m f\<close>: on a store without an open transaction, \<open>m\<close> either raises and leaves the database alone, or has applied \<open>f\<close>;
  without faults its result is the one of \<open>f\<close>, where a violated constraint is reported as \<open>err\<close>.
\<close>

definition unchanged :: "lstore \<Rightarrow> lstore \<Rightarrow> bool" where
  "unchanged s s' \<longleftrightarrow> ls_db s' = ls_db s \<and> ls_closed s' = ls_closed s"

definition sanitize :: "storage_exn \<Rightarrow> storage_exn" where
  "sanitize e = (if e = LSqliteError then local_database_error else e)"

definition tx_outcome :: "lstore \<Rightarrow> (storage_exn + 'a) \<times> lstore \<Rightarrow> storage_exn + ('a \<times> database) \<Rightarrow> bool" where
  "tx_outcome s rs res \<longleftrightarrow>
     (\<exists>e. fst rs = Inl e \<and> unchanged s (snd rs) \<and>
        (ls_faults s \<noteq> [] \<and> e \<in> {LSqliteError, local_database_error} \<and> ls_txn (snd rs) = None
          \<or> (\<exists>e'. res = Inl e' \<and> e = sanitize e' \<and> (e' = LSqliteError \<longrightarrow> ls_txn (snd rs) = None))))
     \<or> (\<exists>x d'. fst rs = Inr x \<and> res = Inr (x, d') \<and> ls_db (snd rs) = d' \<and> ls_txn (snd rs) = None
          \<and> ls_closed (snd rs) = ls_closed s)"

definition transacts :: "'a action \<Rightarrow> 'a body \<Rightarrow> bool" where
  "transacts m f \<longleftrightarrow> (\<forall>s. ls_txn s = None \<and> \<not> ls_closed s \<longrightarrow> tx_outcome s (m s) (f (ls_db s)))"

lemma begin_cases:
  assumes "ls_txn s = None"
  shows "(fst (begin_immediate s) = Inr () \<and> ls_txn (snd (begin_immediate s)) = Some (ls_db s)
        \<or> fst (begin_immediate s) = Inl LSqliteError \<and> ls_faults s \<noteq> [] \<and> ls_txn (snd (begin_immediate s)) = None)
     \<and> same_store s (snd (begin_immediate s))"
  using assms by (auto simp: begin_immediate_def faulty_def same_store_def split: list.splits fault.splits)

lemma transacts_by_cases:
  fixes op m :: "'a action"
  assumes body: "\<And>d. commits_at d d m (f d)"
    and no_begin: "\<And>s s1. begin_immediate s = (Inl LSqliteError, s1) \<Longrightarrow>
      fst (op s) \<in> {Inl LSqliteError, Inl local_database_error} \<and> snd (op s) \<in> {s1, s1\<lparr>ls_txn := None\<rparr>}"
    and raised: "\<And>s s1 e s2. begin_immediate s = (Inr (), s1) \<Longrightarrow> m s1 = (Inl e, s2) \<Longrightarrow>
      fst (op s) = Inl (sanitize e) \<and> snd (op s) \<in> {s2, s2\<lparr>ls_txn := None\<rparr>} \<and> (e = LSqliteError \<longrightarrow> ls_txn (snd (op s)) = None)"
    and returned: "\<And>s s1 x s2. begin_immediate s = (Inr (), s1) \<Longrightarrow> m s1 = (Inr x, s2) \<Longrightarrow> op s = (Inr x, s2)"
  shows "transacts op f"
  unfolding transacts_def
proof (intro allI impI, elim conjE)
  fix s :: lstore
  assume n: "ls_txn s = None" and c: "\<not> ls_closed s"
  obtain r s1 where b: "begin_immediate s = (r, s1)" by fastforce
  note bc = begin_cases [OF n, unfolded b fst_conv snd_conv]
  show "tx_outcome s (op s) (f (ls_db s))"
  proof (cases r)
    case (Inl e)
    then have "begin_immediate s = (Inl LSqliteError, s1)" "ls_faults s \<noteq> []" "ls_txn s1 = None" "same_store s s1" using bc b by auto
    then show ?thesis unfolding tx_outcome_def using no_begin by (fastforce simp: unchanged_def same_store_def)
  next
    case (Inr x)
    then have b': "begin_immediate s = (Inr (), s1)" and t: "ls_txn s1 = Some (ls_db s)" and ss: "same_store s s1" using bc b by auto
    obtain r2 s2 where m: "m s1 = (r2, s2)" by fastforce
    have "ls_txn s1 = Some (ls_db s) \<and> ls_db s1 = ls_db s" using t ss by (simp add: same_store_def)
    note a = body [unfolded commits_at_def, rule_format, OF this, unfolded m fst_conv snd_conv]
    show ?thesis
    proof (cases r2)
      case (Inl e)
      have "unchanged s s2" using a ss Inl by (auto simp: unchanged_def same_store_def faulted_def split: sum.splits)
      then have u: "unchanged s (snd (op s))" using raised [OF b'] m Inl by (auto simp: unchanged_def)
      have "ls_faults s1 \<noteq> [] \<and> e = LSqliteError \<or> f (ls_db s) = Inl e" using a Inl by (auto simp: faulted_def split: sum.splits)
      then show ?thesis unfolding tx_outcome_def using raised [OF b'] m Inl u ss by (auto simp: same_store_def sanitize_def)
    next
      case (Inr y)
      then have "op s = (Inr y, s2)" using returned [OF b'] m by simp
      then show ?thesis unfolding tx_outcome_def using a ss Inr by (auto simp: same_store_def faulted_def split: sum.splits)
    qed
  qed
qed

lemma transacts_outer_at:
  assumes "\<And>d. commits_at d d m (f d)"
  shows "transacts (catching_sqlite (io_bind begin_immediate (\<lambda>_. m))) f"
  by (rule transacts_by_cases [OF assms]) (auto simp: catching_sqlite_def io_bind_def sanitize_def)

lemma transacts_all_at:
  assumes "\<And>d. commits_at d d m (f d)"
  shows "transacts (catching_all (io_bind begin_immediate (\<lambda>_. m))) f"
  by (rule transacts_by_cases [OF assms]) (auto simp: catching_all_def io_bind_def sanitize_def)

lemma transacts_outer: "commits m f \<Longrightarrow> transacts (catching_sqlite (io_bind begin_immediate (\<lambda>_. m))) f"
  by (rule transacts_outer_at) (rule commits_atD)

lemma transacts_inner:
  assumes "commits m f"
  shows "transacts (io_bind begin_immediate (\<lambda>_. catching_sqlite m)) f"
  by (rule transacts_by_cases [OF commits_atD [OF assms]]) (auto simp: catching_sqlite_def io_bind_def sanitize_def)

lemma transacts_connection [intro]: "transacts m f \<Longrightarrow> transacts (io_bind connection (\<lambda>_. m)) f"
  by (simp add: transacts_def io_bind_def connection_def)

lemma transacts_lift:
  assumes "r \<noteq> Inl LSqliteError" and "\<And>x. transacts (k x) (g x)"
  shows "transacts (io_bind (io_lift r) k) (\<lambda>d. rbind r (\<lambda>x. g x d))"
proof (cases r)
  case (Inl e)
  with assms(1) show ?thesis by (simp add: transacts_def tx_outcome_def io_bind_def io_lift_def unchanged_def sanitize_def)
next
  case (Inr x)
  with assms(2) [of x] show ?thesis by (simp add: transacts_def io_bind_def io_lift_def)
qed

lemma transacts_eq: "transacts m f \<Longrightarrow> f = g \<Longrightarrow> transacts m g"
  by simp

lemma rbind_return [simp]: "rbind m Inr = m"
  by (cases m) simp_all

lemmas body_defs = bbind_def blift_def bstmt_def query_def command_def

text \<open>Statements see only the tables they name.\<close>

lemma find_turn_frame [simp]:
  "find_turn r (d\<lparr>db_chat_logs := c\<rparr>) = find_turn r d" "find_turn r (d\<lparr>db_chat_seq := i\<rparr>) = find_turn r d"
  "find_turn r (d\<lparr>db_profile := p\<rparr>) = find_turn r d" "find_turn r (d\<lparr>db_outbox := x\<rparr>) = find_turn r d"
  "find_turn r (d\<lparr>db_privacy := v\<rparr>) = find_turn r d"
  by (simp_all add: find_turn_def)

lemma revision_of_frame [simp]:
  "revision_of (d\<lparr>db_chat_logs := c\<rparr>) = revision_of d" "revision_of (d\<lparr>db_turns := t\<rparr>) = revision_of d"
  "revision_of (d\<lparr>db_outbox := x\<rparr>) = revision_of d" "revision_of (d\<lparr>db_privacy := v\<rparr>) = revision_of d"
  by (simp_all add: revision_of_def)

section \<open>The functions of the operations\<close>

definition tx_release :: "pystr \<Rightarrow> int \<Rightarrow> unit body" where
  "tx_release r g d = Inr ((), delete_turns (\<lambda>t. tn_request_id t = r \<and> tn_status t = TPending
     \<and> tn_payload_hash t = reservation_marker g) d)"

definition tx_store_memory :: "local_codec \<Rightarrow> pystr \<Rightarrow> pystr \<Rightarrow> pyobj \<Rightarrow> int body" where
  "tx_store_memory K now m metadata d =
     rbind (local_json_dumps K metadata) (\<lambda>t.
     rbind (bind_texts [m, t]) (\<lambda>_.
     bstmt (insert_memory (lk_json_valid K) m t now) d))"

definition tx_record :: "local_codec \<Rightarrow> string \<Rightarrow> pyobj \<Rightarrow> pyobj body" where
  "tx_record K operation result d =
     rbind (local_json_dumps K result) (\<lambda>t.
     rbind (bind_text t) (\<lambda>_.
     rbind (bstmt (insert_privacy (lk_json_valid K) (u operation) t) d) (\<lambda>(_, d'). Inr (result, d'))))"

text \<open>Deleting the history leaves no message, no ledger row and no event.\<close>

definition tx_delete_history :: "local_codec \<Rightarrow> pyobj body" where
  "tx_delete_history K d = tx_record K ''delete_history'' (applied
     [(''deleted_messages'', int (length (db_chat_logs d))), (''deleted_turn_requests'', int (length (db_turns d))),
      (''deleted_outbox_events'', int (length (db_outbox d)))]) (d\<lparr>db_chat_logs := [], db_turns := [], db_outbox := []\<rparr>)"

definition tx_delete_memories :: "local_codec \<Rightarrow> pyobj body" where
  "tx_delete_memories K d = tx_record K ''delete_memories''
     (applied [(''deleted_memories'', int (length (db_memories d)))]) (d\<lparr>db_memories := []\<rparr>)"

definition tx_trim :: "int \<Rightarrow> pyobj body" where
  "tx_trim n d = rbind (bind_int n) (\<lambda>_.
     Inr (applied [(''remaining'', min (int (length (db_chat_logs d))) n)], delete_chats (\<lambda>c. cr_id c \<notin> last_ids n d) d))"

lemma commits_record: "commits (record_privacy K operation result) (tx_record K operation result)"
  unfolding record_privacy_def
  by (rule commits_eq, (rule commits_bind refines_lift refines_execute commits_commit)+, rule ext)
    (simp add: body_defs tx_record_def rbind_assoc split_beta)

lemma release_transacts:
  "transacts (catching_sqlite (io_bind begin_immediate (\<lambda>_. io_bind (execute_sql (command (delete_turns (\<lambda>t. tn_request_id t = r
     \<and> tn_status t = TPending \<and> tn_payload_hash t = reservation_marker g)))) (\<lambda>_. commit_sql)))) (tx_release r g)"
  by (rule transacts_outer, rule commits_eq, (rule commits_bind refines_execute commits_commit)+, rule ext)
    (simp add: body_defs tx_release_def)

lemma delete_history_transacts: "transacts (delete_history K) (tx_delete_history K)"
  unfolding delete_history_def
  by (rule transacts_connection, rule transacts_inner, rule commits_eq,
      (rule commits_bind refines_lift refines_execute commits_record)+, rule ext)
    (simp add: body_defs tx_delete_history_def delete_turns_def delete_chats_def Let_def)

lemma delete_memories_transacts: "transacts (delete_memories K) (tx_delete_memories K)"
  unfolding delete_memories_def privacy_delete_def
  by (rule transacts_connection, rule transacts_inner, rule commits_eq,
      (rule commits_bind refines_lift refines_execute commits_record)+, rule ext)
    (simp add: body_defs tx_delete_memories_def)

lemma validators_not_sqlite [simp]:
  "local_validate_request_id v \<noteq> Inl LSqliteError" "local_validate_message v \<noteq> Inl LSqliteError"
  "validate_generation v \<noteq> Inl LSqliteError" "validate_keep_last v \<noteq> Inl LSqliteError"
  "linvalid b c \<noteq> Inl LSqliteError" "neutral_emotional_snapshot v \<noteq> Inl LSqliteError"
  "neutral_relationship_snapshot v \<noteq> Inl LSqliteError"
  by (auto simp: local_validate_request_id_def local_validate_message_def validate_generation_def validate_keep_last_def
      neutral_emotional_snapshot_def neutral_relationship_snapshot_def rbind_Inl_iff split: pyobj.splits)

definition tx_release_op :: "pyobj \<Rightarrow> pyobj \<Rightarrow> unit body" where
  "tx_release_op request generation d =
     rbind (local_validate_request_id request) (\<lambda>r. rbind (validate_generation generation) (\<lambda>g. tx_release r g d))"

definition tx_store_memory_op :: "local_codec \<Rightarrow> pystr \<Rightarrow> pyobj \<Rightarrow> pyobj \<Rightarrow> int body" where
  "tx_store_memory_op K now content metadata d =
     rbind (local_validate_message content) (\<lambda>m.
     rbind (linvalid (as_mapping metadata = None) ''invalid_metadata'') (\<lambda>_. tx_store_memory K now m metadata d))"

definition tx_trim_op :: "pyobj \<Rightarrow> pyobj body" where
  "tx_trim_op keep_last d = rbind (validate_keep_last keep_last) (\<lambda>n. tx_trim n d)"

lemma release_request_transacts: "transacts (release_request request generation) (tx_release_op request generation)"
  unfolding release_request_def tx_release_op_def [abs_def]
  by (rule transacts_lift, simp)+ (rule transacts_connection, rule release_transacts)

lemma store_memory_transacts: "transacts (store_memory K now content metadata) (tx_store_memory_op K now content metadata)"
  unfolding store_memory_def tx_store_memory_op_def [abs_def]
  by (rule transacts_lift, simp)+ (rule transacts_connection, rule transacts_inner, rule commits_eq,
      (rule commits_bind refines_lift refines_execute commits_commit)+, rule ext,
      simp add: body_defs tx_store_memory_def rbind_assoc split_beta)

lemma trim_history_transacts: "transacts (trim_history keep_last) (tx_trim_op keep_last)"
  unfolding trim_history_def tx_trim_op_def [abs_def]
  by (rule transacts_lift, simp) (rule transacts_connection, rule transacts_inner, rule commits_eq,
      (rule commits_bind refines_lift refines_execute commits_commit)+, rule ext,
      simp add: body_defs tx_trim_def rbind_assoc split_beta)

text \<open>A reset bumps the revision and replaces one field, or creates the profile with two neutral snapshots.\<close>

definition tx_neutral_profile :: "local_codec \<Rightarrow> pyobj \<Rightarrow> state_field \<Rightarrow> pyobj \<Rightarrow> int \<Rightarrow> unit body" where
  "tx_neutral_profile K time_now field canonical new_revision d =
     rbind (case field of EmotionalField \<Rightarrow> local_json_dumps K canonical
              | RelationshipField \<Rightarrow> rbind (neutral_emotional_snapshot time_now) (local_json_dumps K)) (\<lambda>es.
     rbind (case field of EmotionalField \<Rightarrow> rbind (neutral_relationship_snapshot time_now) (local_json_dumps K)
              | RelationshipField \<Rightarrow> local_json_dumps K canonical) (\<lambda>rs.
     rbind (bind_texts [es, rs]) (\<lambda>_. bstmt (upsert_profile es rs new_revision) d)))"

definition tx_reset :: "local_codec \<Rightarrow> pyobj \<Rightarrow> string \<Rightarrow> state_field \<Rightarrow> pyobj \<Rightarrow> pyobj body" where
  "tx_reset K time_now operation field canonical d =
     (let new_revision = revision_of d + 1 in
      rbind (local_json_dumps K canonical) (\<lambda>t.
      rbind (rbind (bind_text t) (\<lambda>_. bind_int new_revision)) (\<lambda>_.
      rbind (bstmt (update_profile_field field t new_revision) d) (\<lambda>(rowcount, d1).
      rbind (if rowcount = 0 then tx_neutral_profile K time_now field canonical new_revision d1 else Inr ((), d1)) (\<lambda>(_, d2).
      tx_record K operation (applied [(''revision'', new_revision)]) d2)))))"

lemma refines_if: "refines m f \<Longrightarrow> refines n g \<Longrightarrow> refines (if b then m else n) (if b then f else g)"
  by simp

lemma neutral_profile_refines:
  "refines (insert_neutral_profile K time_now field canonical new_revision) (tx_neutral_profile K time_now field canonical new_revision)"
  unfolding insert_neutral_profile_def
  by (cases field; simp only: state_field.case; rule refines_eq, (rule refines_bind refines_lift refines_execute)+, rule ext,
      simp add: body_defs tx_neutral_profile_def rbind_assoc split_beta)

lemma reset_field_transacts: "transacts (reset_state_field K time_now operation field canonical) (tx_reset K time_now operation field canonical)"
  unfolding reset_state_field_def Let_def
  by (rule transacts_connection, rule transacts_inner, rule commits_eq,
      (rule commits_bind refines_if neutral_profile_refines refines_lift refines_execute commits_record)+, rule ext)
    (simp add: body_defs tx_reset_def Let_def rbind_assoc split_beta if_distrib [of "\<lambda>f. f _"] cong: if_cong)

definition tx_reset_emotional :: "local_codec \<Rightarrow> pyobj \<Rightarrow> pyobj \<Rightarrow> pyobj \<Rightarrow> pyobj body" where
  "tx_reset_emotional K time_now time_later neutral d =
     rbind (neutral_emotional_snapshot time_now) (\<lambda>canonical.
     rbind (if neutral = PNone then Inr () else validate_neutral_emotional_snapshot (lk_canon K) neutral) (\<lambda>_.
     tx_reset K time_later ''reset_emotional_state'' EmotionalField canonical d))"

definition tx_reset_relationship :: "local_codec \<Rightarrow> pyobj \<Rightarrow> pyobj \<Rightarrow> pyobj \<Rightarrow> pyobj body" where
  "tx_reset_relationship K time_now time_later neutral d =
     rbind (neutral_relationship_snapshot time_now) (\<lambda>canonical.
     rbind (if neutral = PNone then Inr () else validate_neutral_relationship_snapshot (lk_canon K) neutral) (\<lambda>_.
     tx_reset K time_later ''reset_relationship_state'' RelationshipField canonical d))"

lemma snapshot_validators_not_sqlite [simp]:
  "validate_emotional_snapshot c v \<noteq> Inl LSqliteError" "validate_relationship_snapshot c v \<noteq> Inl LSqliteError"
  by (auto simp: validate_emotional_snapshot_def validate_relationship_snapshot_def require_canonical_bytes_def rbind_Inl_iff
      split: option.splits)

lemma require_neutral_not_sqlite: "(\<And>t. neutral t \<noteq> Inl LSqliteError) \<Longrightarrow> require_neutral neutral d \<noteq> Inl LSqliteError"
  by (auto simp: require_neutral_def Let_def rbind_Inl_iff split: option.splits)

lemma neutral_validators_not_sqlite [simp]:
  "validate_neutral_emotional_snapshot c v \<noteq> Inl LSqliteError" "validate_neutral_relationship_snapshot c v \<noteq> Inl LSqliteError"
  by (auto simp: validate_neutral_emotional_snapshot_def validate_neutral_relationship_snapshot_def rbind_Inl_iff
      require_neutral_not_sqlite split: option.splits)

lemma reset_emotional_transacts:
  "transacts (reset_emotional_state K t1 t2 neutral) (tx_reset_emotional K t1 t2 neutral)"
  unfolding reset_emotional_state_def tx_reset_emotional_def [abs_def]
  by (rule transacts_lift, simp)+ (rule reset_field_transacts)

lemma reset_relationship_transacts:
  "transacts (reset_relationship_state K t1 t2 neutral) (tx_reset_relationship K t1 t2 neutral)"
  unfolding reset_relationship_state_def tx_reset_relationship_def [abs_def]
  by (rule transacts_lift, simp)+ (rule reset_field_transacts)

section \<open>Admission and commit\<close>

definition tx_reserve :: "local_codec \<Rightarrow> pystr \<Rightarrow> pystr \<Rightarrow> LocalReplayOutcome body" where
  "tx_reserve K r m d = (case find_turn r d of
     None \<Rightarrow> bbind (bstmt (insert_reservation r (reservation_marker (history_generation_of d))))
       (\<lambda>_ d'. Inr (outcome ''reserved''\<lparr>lr_history_generation := Some (history_generation_of d)\<rparr>, d')) d
   | Some t \<Rightarrow> blift (if tn_status t = TCompleted then replay_or_conflict K m t (find_chat (tn_user_log t) d)
                     else Inr (outcome ''conflict'')) d)"

definition tx_reserve_op :: "local_codec \<Rightarrow> pyobj \<Rightarrow> pyobj \<Rightarrow> LocalReplayOutcome body" where
  "tx_reserve_op K request message d =
     rbind (local_validate_request_id request) (\<lambda>r. rbind (local_validate_message message) (\<lambda>m. tx_reserve K r m d))"

fun tx_events :: "local_codec \<Rightarrow> pystr \<Rightarrow> outbox_triple list \<Rightarrow> unit body" where
  "tx_events K r [] d = Inr ((), d)"
| "tx_events K r ((event_type, payload, key) # es) d =
     rbind (local_json_dumps K payload) (\<lambda>t.
     rbind (bind_text t) (\<lambda>_.
     rbind (bstmt (insert_outbox (lk_json_valid K) event_type key r t) d) (\<lambda>(_, d'). tx_events K r es d')))"

text \<open>The database after the messages, the profile and the ledger row of a turn were written.\<close>

definition completed_row :: "prepared_commit \<Rightarrow> pystr \<Rightarrow> int \<Rightarrow> int \<Rightarrow> int \<Rightarrow> turn_row" where
  "completed_row p rp expected rv i = \<lparr>tn_request_id = lm_request_id (pc_commit p), tn_payload_hash = pc_hash p, tn_status = TCompleted,
     tn_expected_revision = expected, tn_committed_revision = Some rv, tn_user_log = Some i, tn_assistant_log = Some (i + 1),
     tn_replay_payload = Some rp, tn_error_code = None\<rparr>"

definition with_messages :: "pystr \<Rightarrow> local_commit \<Rightarrow> database \<Rightarrow> database" where
  "with_messages now c d =
     (let i = db_chat_seq d + 1 in
      d\<lparr>db_chat_logs := db_chat_logs d @
          [\<lparr>cr_id = i, cr_role = u ''user'', cr_content = lm_user_message c, cr_created_at = now\<rparr>,
           \<lparr>cr_id = i + 1, cr_role = u ''assistant'', cr_content = lm_assistant_message c, cr_created_at = now\<rparr>],
        db_chat_seq := i + 1\<rparr>)"

definition tx_write :: "local_codec \<Rightarrow> pystr \<Rightarrow> prepared_commit \<Rightarrow> LocalCommittedTurn body" where
  "tx_write K now p d =
     (let c = pc_commit p; r = lm_request_id c; rv = revision_of d; i = db_chat_seq d + 1;
          expected = (case pc_expected p of None \<Rightarrow> rv | Some n \<Rightarrow> n) in
      rbind (guard (expected = rv) (local_revision_mismatch p expected rv)) (\<lambda>_.
      rbind (bind_text (lm_user_message c)) (\<lambda>_.
      rbind (bind_text (lm_assistant_message c)) (\<lambda>_.
      rbind (local_json_dumps K (lm_emotional_state c)) (\<lambda>es.
      rbind (local_json_dumps K (lm_relationship_state c)) (\<lambda>rs.
      rbind (rbind (bind_texts [es, rs]) (\<lambda>_. bind_int (rv + 1))) (\<lambda>_.
      rbind (bstmt (upsert_profile es rs (rv + 1)) (with_messages now c d)) (\<lambda>(_, d1).
      rbind (local_json_dumps K (lm_replay_payload c)) (\<lambda>rp.
      rbind (bind_texts [pc_hash p, rp]) (\<lambda>_.
      rbind (bstmt (upsert_turn (completed_row p rp expected (rv + 1) i)) d1) (\<lambda>(_, d2).
      rbind (tx_events K r (lm_outbox_events c) d2) (\<lambda>(_, d3).
      Inr (committed_of K r (rv + 1) i (i + 1) (pc_replay p), d3)))))))))))))"

definition tx_commit :: "local_codec \<Rightarrow> pystr \<Rightarrow> prepared_commit \<Rightarrow> LocalCommittedTurn body" where
  "tx_commit K now p d = (case find_turn (lm_request_id (pc_commit p)) d of
     Some t \<Rightarrow>
       if tn_status t = TCompleted then blift (replay_committed K p t) d
       else if history_generation_of d \<noteq> pc_generation p \<or> tn_status t \<noteq> TPending
               \<or> tn_payload_hash t \<noteq> reservation_marker (pc_generation p)
       then Inl (commit_conflict p ''request_reservation_invalidated'')
       else tx_write K now p d
   | None \<Rightarrow> Inl (commit_conflict p ''request_reservation_invalidated''))"

lemma events_refines: "refines (insert_events K r es) (tx_events K r es)"
proof (induction es)
  case Nil
  show ?case by (rule refines_eq [OF _ ext], simp, rule refines_lift, simp add: blift_def)
next
  case (Cons e es)
  obtain t p k where e: "e = (t, p, k)" using prod_cases3 by blast
  show ?case unfolding e insert_events.simps
    by (rule refines_eq, (rule refines_bind refines_lift refines_execute Cons.IH)+, rule ext)
      (simp add: body_defs rbind_assoc split_beta)
qed

lemma insert_chat_chat [simp]:
  "insert_chat (u ''user'') m now d = Some (db_chat_seq d + 1, d\<lparr>db_chat_logs := db_chat_logs d @
     [\<lparr>cr_id = db_chat_seq d + 1, cr_role = u ''user'', cr_content = m, cr_created_at = now\<rparr>], db_chat_seq := db_chat_seq d + 1\<rparr>)"
  "insert_chat (u ''assistant'') m now d = Some (db_chat_seq d + 1, d\<lparr>db_chat_logs := db_chat_logs d @
     [\<lparr>cr_id = db_chat_seq d + 1, cr_role = u ''assistant'', cr_content = m, cr_created_at = now\<rparr>], db_chat_seq := db_chat_seq d + 1\<rparr>)"
  by (simp_all add: insert_chat_def Let_def)

lemma write_turn_commits: "commits (write_turn K now p) (tx_write K now p)"
  unfolding write_turn_def Let_def
  by (rule commits_eq, (rule commits_bind refines_lift refines_execute events_refines commits_commit)+, rule ext)
    (simp add: body_defs tx_write_def with_messages_def completed_row_def Let_def rbind_assoc split_beta cong: option.case_cong)

lemma commits_at_query:
  assumes "commits_at d0 d (k (q d)) r"
  shows "commits_at d0 d (io_bind (execute_sql (query q)) k) r"
  using commits_at_bind [OF refines_execute [of "query q"], of d d0 k "\<lambda>_ _. r"] assms by (simp add: body_defs)

lemma commits_at_fail: "commits_at d d (io_bind rollback_sql (\<lambda>_. io_lift (Inl e))) (Inl e)"
  using commits_at_rollback [of d "Inl e"] by (simp add: blift_def)

lemma commit_transacts: "transacts (catching_all (commit_in_transaction K now p)) (tx_commit K now p)"
  unfolding commit_in_transaction_def
proof (rule transacts_all_at, (rule commits_at_query)+)
  fix d
  show "commits_at d d (case find_turn (lm_request_id (pc_commit p)) d of
      Some t \<Rightarrow>
        if tn_status t = TCompleted then io_bind rollback_sql (\<lambda>_. io_lift (replay_committed K p t))
        else if history_generation_of d \<noteq> pc_generation p \<or> tn_status t \<noteq> TPending
                \<or> tn_payload_hash t \<noteq> reservation_marker (pc_generation p)
        then io_bind rollback_sql (\<lambda>_. io_lift (Inl (commit_conflict p ''request_reservation_invalidated'')))
        else write_turn K now p
    | None \<Rightarrow> io_bind rollback_sql (\<lambda>_. io_lift (Inl (commit_conflict p ''request_reservation_invalidated''))))
    (tx_commit K now p d)"
    unfolding tx_commit_def
    by (cases "find_turn (lm_request_id (pc_commit p)) d")
      (simp_all add: commits_at_fail commits_at_rollback commits_atD [OF write_turn_commits])
qed

lemma reserve_core_transacts:
  "transacts (catching_sqlite (
     io_bind begin_immediate (\<lambda>_.
     io_bind (execute_sql (query history_generation_of)) (\<lambda>g.
     io_bind (execute_sql (insert_reservation r (reservation_marker g))) (\<lambda>inserted.
     if inserted = 1 then
       io_bind commit_sql (\<lambda>_. io_lift (Inr (outcome ''reserved''\<lparr>lr_history_generation := Some g\<rparr>)))
     else
       io_bind (execute_sql (query (find_turn r))) (\<lambda>row. (case row of
         None \<Rightarrow> io_lift (Inl LAssertionError)
       | Some t \<Rightarrow> (case tn_status t of
           TPending \<Rightarrow> io_bind commit_sql (\<lambda>_. io_lift (Inr (outcome ''conflict'')))
         | TCompleted \<Rightarrow>
             io_bind rollback_sql (\<lambda>_.
             io_bind (execute_sql (query (find_chat (tn_user_log t)))) (\<lambda>stored.
             io_lift (replay_or_conflict K m t stored)))
         | TFailed \<Rightarrow> io_bind rollback_sql (\<lambda>_. io_lift (Inr (outcome ''conflict'')))))))))))
   (tx_reserve K r m)"
proof (rule transacts_outer_at, rule commits_at_query)
  fix d
  let ?stmt = "insert_reservation r (reservation_marker (history_generation_of d))"
  let ?k = "\<lambda>inserted. if inserted = 1 then
       io_bind commit_sql (\<lambda>_. io_lift (Inr (outcome ''reserved''\<lparr>lr_history_generation := Some (history_generation_of d)\<rparr>)))
     else
       io_bind (execute_sql (query (find_turn r))) (\<lambda>row. (case row of
         None \<Rightarrow> io_lift (Inl LAssertionError)
       | Some t \<Rightarrow> (case tn_status t of
           TPending \<Rightarrow> io_bind commit_sql (\<lambda>_. io_lift (Inr (outcome ''conflict'')))
         | TCompleted \<Rightarrow>
             io_bind rollback_sql (\<lambda>_.
             io_bind (execute_sql (query (find_chat (tn_user_log t)))) (\<lambda>stored.
             io_lift (replay_or_conflict K m t stored)))
         | TFailed \<Rightarrow> io_bind rollback_sql (\<lambda>_. io_lift (Inr (outcome ''conflict''))))))"
  show "commits_at d d (io_bind (execute_sql ?stmt) ?k) (tx_reserve K r m d)"
  proof (cases "find_turn r d")
    case None
    have "commits_at d d (io_bind (execute_sql ?stmt) ?k) (bbind (bstmt ?stmt) (\<lambda>_ d'.
        Inr (outcome ''reserved''\<lparr>lr_history_generation := Some (history_generation_of d)\<rparr>, d')) d)"
      by (rule commits_at_bind [OF refines_execute])
        (simp add: None bstmt_def insert_reservation_def commits_atD [OF commits_commit(1), simplified])
    then show ?thesis using None by (simp add: tx_reserve_def)
  next
    case (Some t)
    have "commits_at d d (io_bind (execute_sql ?stmt) ?k) (bbind (bstmt ?stmt) (\<lambda>_ d'. tx_reserve K r m d) d)"
    proof (rule commits_at_bind [OF refines_execute])
      fix n :: nat and d'
      assume "bstmt ?stmt d = Inr (n, d')"
      then have n: "n = 0" "d' = d" using Some by (auto simp: bstmt_def insert_reservation_def)
      have "commits_at d d (case tn_status t of
           TPending \<Rightarrow> io_bind commit_sql (\<lambda>_. io_lift (Inr (outcome ''conflict'')))
         | TCompleted \<Rightarrow>
             io_bind rollback_sql (\<lambda>_.
             io_bind (execute_sql (query (find_chat (tn_user_log t)))) (\<lambda>stored.
             io_lift (replay_or_conflict K m t stored)))
         | TFailed \<Rightarrow> io_bind rollback_sql (\<lambda>_. io_lift (Inr (outcome ''conflict'')))) (tx_reserve K r m d)"
        using Some commits_atD [OF commits_commit(1)] commits_at_rollback [of d "Inr (outcome ''conflict'')"]
          commits_at_rollback_query [of d "find_chat (tn_user_log t)"]
        by (cases "tn_status t") (simp_all add: tx_reserve_def blift_def)
      then show "commits_at d d' (?k n) (tx_reserve K r m d)"
        unfolding n using Some by (simp add: commits_at_query)
    qed
    then show ?thesis using Some by (simp add: bbind_def bstmt_def insert_reservation_def)
  qed
qed

lemma reserve_transacts: "transacts (reserve_request K request message) (tx_reserve_op K request message)"
  unfolding reserve_request_def tx_reserve_op_def [abs_def]
  by (rule transacts_lift, simp)+ (rule transacts_connection, rule reserve_core_transacts)

definition tx_commit_op :: "local_codec \<Rightarrow> pystr \<Rightarrow> local_args \<Rightarrow> LocalCommittedTurn body" where
  "tx_commit_op K now a d =
     rbind (prepare_commit_turn K a) (\<lambda>p. (case find_turn (lm_request_id (pc_commit p)) d of
       Some t \<Rightarrow>
         if tn_status t = TCompleted then blift (replay_committed K p t) d
         else if tn_status t = TFailed then Inl (commit_conflict p ''request_replay_unavailable'')
         else tx_commit K now p d
     | None \<Rightarrow> tx_commit K now p d))"

lemma outbox_validator_not_sqlite: "local_validate_each c es \<noteq> Inl LSqliteError"
  by (induction es)
    (auto simp: rbind_Inl_iff local_validate_outbox_event_def local_validate_idempotency_key_def require_canonical_bytes_def
      split: option.splits list.splits pyobj.splits)

lemma payload_validators_not_sqlite [simp]:
  "local_validate_replay_payload c v \<noteq> Inl LSqliteError" "local_validate_outbox_events c v \<noteq> Inl LSqliteError"
  "validate_public_response v \<noteq> Inl LSqliteError" "local_canonical_payload_hash c h v \<noteq> Inl LSqliteError"
  by (auto simp: local_validate_replay_payload_def local_validate_outbox_events_def validate_public_response_def
      local_canonical_payload_hash_def canonical_json_def require_canonical_bytes_def outbox_validator_not_sqlite rbind_Inl_iff
      split: option.splits pyobj.splits)

lemma expected_revision_not_sqlite [simp]: "validate_expected_revision v \<noteq> Inl LSqliteError"
  by (cases v) (auto simp: rbind_Inl_iff)

lemma rbind_not_sqlite: "m \<noteq> Inl LSqliteError \<Longrightarrow> (\<And>x. f x \<noteq> Inl LSqliteError) \<Longrightarrow> rbind m f \<noteq> Inl LSqliteError"
  by (auto simp: rbind_Inl_iff)

lemma case_option_not_sqlite:
  "a \<noteq> Inl LSqliteError \<Longrightarrow> (\<And>x. f x \<noteq> Inl LSqliteError) \<Longrightarrow> (case v of None \<Rightarrow> a | Some x \<Rightarrow> f x) \<noteq> Inl LSqliteError"
  by (simp split: option.split)

lemma prepare_not_sqlite: "prepare_commit_turn K a \<noteq> Inl LSqliteError"
  unfolding prepare_commit_turn_def Let_def
  by (intro rbind_not_sqlite case_option_not_sqlite) simp_all

lemma committed_from_row_not_sqlite: "committed_from_row K t \<noteq> Inl LSqliteError"
  by (auto simp: committed_from_row_def loads_or_empty_def local_invalid_state_def rbind_Inl_iff split: option.splits pyobj.splits)

lemma replay_committed_not_sqlite: "replay_committed K p t \<noteq> Inl LSqliteError"
  using committed_from_row_not_sqlite by (simp add: replay_committed_def commit_conflict_def)

lemma transacts_return: "r \<noteq> Inl LSqliteError \<Longrightarrow> transacts (io_lift r) (blift r)"
  by (cases r) (auto simp: transacts_def tx_outcome_def io_lift_def blift_def unchanged_def sanitize_def)

lemma transacts_query:
  assumes "\<And>x. transacts (k x) (g x)"
  shows "transacts (io_bind (execute_sql (query q)) k) (\<lambda>d. g (q d) d)"
  unfolding transacts_def
proof (intro allI impI, elim conjE)
  fix s :: lstore
  assume n: "ls_txn s = None" and c: "\<not> ls_closed s"
  let ?m = "io_bind (execute_sql (query q)) k"
  obtain r s1 where e: "execute_sql (query q) s = (r, s1)" by fastforce
  have r: "same_store s s1" "ls_txn s1 = None" "r = Inr (q (ls_db s)) \<or> r = Inl LSqliteError \<and> ls_faults s \<noteq> []"
    using e n by (auto simp: execute_sql_def faulty_def statement_result_def query_def same_store_def split: list.splits fault.splits)
  show "tx_outcome s (?m s) (g (q (ls_db s)) (ls_db s))"
  proof (cases r)
    case (Inl x)
    with r e show ?thesis unfolding tx_outcome_def by (auto simp: io_bind_def same_store_def unchanged_def)
  next
    case (Inr x)
    with r have x: "x = q (ls_db s)" "ls_db s1 = ls_db s" "ls_closed s1 = ls_closed s" "ls_faults s1 \<noteq> [] \<Longrightarrow> ls_faults s \<noteq> []"
      by (auto simp: same_store_def)
    have m: "?m s = k x s1" using e Inr by (simp add: io_bind_def)
    have "ls_txn s1 = None \<and> \<not> ls_closed s1" using r c x by simp
    from assms [of x, unfolded transacts_def tx_outcome_def, rule_format, OF this]
    show ?thesis unfolding tx_outcome_def m x(2,3) unchanged_def x(1) [symmetric] using x(4) by blast
  qed
qed

lemma local_commit_transacts: "transacts (local_commit_turn K now a) (tx_commit_op K now a)"
proof -
  have "transacts (case existing of
        Some t \<Rightarrow>
          (case tn_status t of
             TCompleted \<Rightarrow> io_lift (replay_committed K p t)
           | TFailed \<Rightarrow> io_lift (Inl (commit_conflict p ''request_replay_unavailable''))
           | TPending \<Rightarrow> catching_all (commit_in_transaction K now p))
      | None \<Rightarrow> catching_all (commit_in_transaction K now p))
     (\<lambda>d. case existing of
       Some t \<Rightarrow>
         if tn_status t = TCompleted then blift (replay_committed K p t) d
         else if tn_status t = TFailed then Inl (commit_conflict p ''request_replay_unavailable'')
         else tx_commit K now p d
     | None \<Rightarrow> tx_commit K now p d)" for existing p
  proof (cases existing)
    case None
    then show ?thesis using commit_transacts by simp
  next
    case (Some t)
    have f: "(\<lambda>d. Inl (commit_conflict p ''request_replay_unavailable'')) = blift (Inl (commit_conflict p ''request_replay_unavailable''))"
      by (simp add: fun_eq_iff blift_def)
    show ?thesis using Some commit_transacts transacts_return [OF replay_committed_not_sqlite]
        transacts_return [of "Inl (commit_conflict p ''request_replay_unavailable'')"]
      by (cases "tn_status t") (simp_all add: f, simp add: commit_conflict_def)
  qed
  from transacts_connection [OF transacts_query [OF this]]
  show ?thesis unfolding local_commit_turn_def tx_commit_op_def [abs_def]
    by (rule transacts_lift [OF prepare_not_sqlite])
qed

end
