(* ===== verification/Legacy_Import.thy ===== *)
theory Legacy_Import
  imports Local_Transactions
begin

text \<open>
  \<open>backend/local_storage/legacy_import.py\<close>: validation of an export of the web installation and its import into
  the local store as one transaction.  Parameters besides those of the store: \<open>str.lower\<close>, and the two forms of
  \<open>json.dumps\<close> this module uses, for the stored replay payload and for the content hash.
\<close>

section \<open>Validation of the fixture\<close>

definition LEGACY_SCHEMA_VERSION :: int where "LEGACY_SCHEMA_VERSION = 1"
definition MAX_LEGACY_MESSAGES :: nat where "MAX_LEGACY_MESSAGES = 100000"
definition MAX_LEGACY_CONTENT_CHARS :: nat where "MAX_LEGACY_CONTENT_CHARS = 20000"

definition FIXTURE_FORBIDDEN_KEYS :: "pystr list" where
  "FIXTURE_FORBIDDEN_KEYS = filter (\<lambda>k. k \<notin> set (map u [''user_message'', ''assistant_message'', ''content'', ''message'']))
     LOCAL_FORBIDDEN_PAYLOAD_KEYS"

fun legacy_key_forbidden :: "(pystr \<Rightarrow> pystr) \<Rightarrow> pyobj \<Rightarrow> bool" where
  "legacy_key_forbidden lower (PStr k) = list_ex (\<lambda>f. lower k = lower f) FIXTURE_FORBIDDEN_KEYS"
| "legacy_key_forbidden lower _ = False"

fun legacy_has_forbidden :: "(pystr \<Rightarrow> pystr) \<Rightarrow> pyobj \<Rightarrow> bool" where
  "legacy_has_forbidden lower (PDict d) = list_ex (\<lambda>(k, v). legacy_key_forbidden lower k \<or> legacy_has_forbidden lower v) d"
| "legacy_has_forbidden lower (PProxy d) = list_ex (\<lambda>(k, v). legacy_key_forbidden lower k \<or> legacy_has_forbidden lower v) d"
| "legacy_has_forbidden lower (PList xs) = list_ex (legacy_has_forbidden lower) xs"
| "legacy_has_forbidden lower (PTuple xs) = list_ex (legacy_has_forbidden lower) xs"
| "legacy_has_forbidden lower _ = False"

record legacy_turn =
  lg_request_id :: pystr
  lg_user_message :: pystr
  lg_assistant_message :: pystr
  lg_created_at :: "pystr option"
  lg_replay_payload :: pyobj

definition legacy_message :: "(pyobj \<times> pyobj) list \<Rightarrow> string \<Rightarrow> storage_exn + pystr" where
  "legacy_message t field = (case dict_get t (u field) of
     PStr m \<Rightarrow>
       rbind (linvalid (m = []) ''invalid_legacy_message'') (\<lambda>_.
       rbind (linvalid (length m > MAX_LEGACY_CONTENT_CHARS) ''legacy_message_too_long'') (\<lambda>_. Inr m))
   | _ \<Rightarrow> Inl (LValidationError (u ''invalid_legacy_message'')))"

definition legacy_turn_of :: "(pystr \<Rightarrow> pystr) \<Rightarrow> pyobj \<Rightarrow> storage_exn + legacy_turn" where
  "legacy_turn_of lower turn = (case as_mapping turn of
     None \<Rightarrow> Inl (LValidationError (u ''invalid_legacy_turn''))
   | Some t \<Rightarrow> (case dict_get t (u ''request_id'') of
       PStr r \<Rightarrow>
         rbind (linvalid (r = []) ''invalid_legacy_request_id'') (\<lambda>_.
         rbind (legacy_message t ''user_message'') (\<lambda>um.
         rbind (legacy_message t ''assistant_message'') (\<lambda>am.
         let created_at = dict_get t (u ''created_at'') in
         rbind (linvalid (created_at \<noteq> PNone \<and> \<not> is_str created_at) ''invalid_legacy_created_at'') (\<lambda>_.
         rbind (linvalid (legacy_has_forbidden lower (PDict t)) ''forbidden_key_in_legacy_fixture'') (\<lambda>_.
         Inr \<lparr>lg_request_id = r, lg_user_message = um, lg_assistant_message = am, lg_created_at = str_of created_at,
              lg_replay_payload = dict_get t (u ''replay_payload'')\<rparr>)))))
     | _ \<Rightarrow> Inl (LValidationError (u ''invalid_legacy_request_id''))))"

fun legacy_turns_of :: "(pystr \<Rightarrow> pystr) \<Rightarrow> pyobj list \<Rightarrow> storage_exn + legacy_turn list" where
  "legacy_turns_of lower [] = Inr []"
| "legacy_turns_of lower (x # xs) =
     rbind (legacy_turn_of lower x) (\<lambda>t. rbind (legacy_turns_of lower xs) (\<lambda>ts. Inr (t # ts)))"

definition validate_legacy_fixture :: "(pystr \<Rightarrow> pystr) \<Rightarrow> pyobj \<Rightarrow> storage_exn + legacy_turn list" where
  "validate_legacy_fixture lower fixture = (case as_mapping fixture of
     None \<Rightarrow> Inl (LValidationError (u ''invalid_legacy_fixture''))
   | Some f \<Rightarrow>
       rbind (linvalid (\<not> py_eq (dict_get f (u ''schema_version'')) (PInt LEGACY_SCHEMA_VERSION)) ''invalid_legacy_fixture_version'') (\<lambda>_.
       rbind (linvalid (dict_get f (u ''source'') \<noteq> PStr (u ''supabase'')) ''invalid_legacy_source'') (\<lambda>_.
       (case dict_get f (u ''turns'') of
          PList turns \<Rightarrow>
            rbind (linvalid (length turns > MAX_LEGACY_MESSAGES) ''legacy_fixture_too_large'') (\<lambda>_.
            rbind (linvalid (legacy_has_forbidden lower (PDict f)) ''forbidden_key_in_legacy_fixture'') (\<lambda>_.
            legacy_turns_of lower turns))
        | _ \<Rightarrow> Inl (LValidationError (u ''invalid_legacy_turns''))))))"

section \<open>The import\<close>

record legacy_codec =
  lgc_lower :: "pystr \<Rightarrow> pystr"
  lgc_dumps :: "pyobj \<Rightarrow> pystr option"
  lgc_hash_dumps :: "pyobj \<Rightarrow> pystr option"
  lgc_sha256 :: "nat list \<Rightarrow> pystr"

definition legacy_dumps :: "(pyobj \<Rightarrow> pystr option) \<Rightarrow> pyobj \<Rightarrow> storage_exn + pystr" where
  "legacy_dumps dumps v = (case dumps v of None \<Rightarrow> Inl LTypeError | Some t \<Rightarrow> Inr t)"

definition legacy_hash :: "legacy_codec \<Rightarrow> legacy_turn \<Rightarrow> storage_exn + pystr" where
  "legacy_hash L t =
     rbind (legacy_dumps (lgc_hash_dumps L) (PDict [(PStr (u ''request_id''), PStr (lg_request_id t)),
       (PStr (u ''user_message''), PStr (lg_user_message t)),
       (PStr (u ''assistant_message''), PStr (lg_assistant_message t))])) (\<lambda>canonical.
     (case utf8_encode canonical of None \<Rightarrow> Inl LUnicodeEncodeError | Some b \<Rightarrow> Inr (lgc_sha256 L b)))"

text \<open>\<open>payload.setdefault(key, value)\<close>.\<close>

definition set_default :: "string \<Rightarrow> pyobj \<Rightarrow> (pyobj \<times> pyobj) list \<Rightarrow> (pyobj \<times> pyobj) list" where
  "set_default k v d = (if has_key d (u k) then d else d @ [(PStr (u k), v)])"

definition import_replay_payload :: "legacy_turn \<Rightarrow> int \<Rightarrow> pyobj" where
  "import_replay_payload t assistant_id =
     (let payload = (case as_mapping (lg_replay_payload t) of None \<Rightarrow> [] | Some d \<Rightarrow> d) in
      PDict (set_default ''message_id'' (PInt assistant_id) (set_default ''response'' (PStr (lg_assistant_message t)) payload)))"

record ImportReport =
  ir_imported_turns :: nat
  ir_skipped_duplicates :: nat
  ir_total_turns_after :: nat

definition imported_row :: "pystr \<Rightarrow> pystr \<Rightarrow> int \<Rightarrow> int \<Rightarrow> pystr \<Rightarrow> turn_row" where
  "imported_row r h user_id assistant_id payload = \<lparr>tn_request_id = r, tn_payload_hash = h, tn_status = TCompleted,
     tn_expected_revision = 0, tn_committed_revision = Some 0, tn_user_log = Some user_id, tn_assistant_log = Some assistant_id,
     tn_replay_payload = Some payload, tn_error_code = None\<rparr>"

definition import_turn :: "legacy_codec \<Rightarrow> pystr \<Rightarrow> legacy_turn \<Rightarrow> unit action" where
  "import_turn L now t =
     (let created_at = (case lg_created_at t of None \<Rightarrow> now | Some c \<Rightarrow> if c = [] then now else c) in
      io_bind (io_lift (bind_texts [lg_user_message t, created_at])) (\<lambda>_.
      io_bind (execute_sql (insert_chat (u ''user'') (lg_user_message t) created_at)) (\<lambda>user_id.
      io_bind (io_lift (bind_texts [lg_assistant_message t, created_at])) (\<lambda>_.
      io_bind (execute_sql (insert_chat (u ''assistant'') (lg_assistant_message t) created_at)) (\<lambda>assistant_id.
      io_bind (io_lift (legacy_hash L t)) (\<lambda>h.
      io_bind (io_lift (legacy_dumps (lgc_dumps L) (import_replay_payload t assistant_id))) (\<lambda>payload.
      io_bind (io_lift (bind_texts [lg_request_id t, h, payload])) (\<lambda>_.
      execute_sql (insert_turn (imported_row (lg_request_id t) h user_id assistant_id payload))))))))))"

fun import_turns :: "legacy_codec \<Rightarrow> pystr \<Rightarrow> legacy_turn list \<Rightarrow> nat \<Rightarrow> nat \<Rightarrow> (nat \<times> nat) action" where
  "import_turns L now [] imported skipped = io_lift (Inr (imported, skipped))"
| "import_turns L now (t # ts) imported skipped =
     io_bind (io_lift (bind_text (lg_request_id t))) (\<lambda>_.
     io_bind (execute_sql (query (find_turn (lg_request_id t)))) (\<lambda>existing. (case existing of
       Some row \<Rightarrow>
         io_bind (io_lift (legacy_hash L t)) (\<lambda>h.
         io_bind (io_lift (linvalid (tn_payload_hash row \<noteq> h) ''legacy_request_id_conflict'')) (\<lambda>_.
         import_turns L now ts imported (skipped + 1)))
     | None \<Rightarrow>
         io_bind (import_turn L now t) (\<lambda>_.
         import_turns L now ts (imported + 1) skipped))))"

definition catching_import :: "'a action \<Rightarrow> 'a action" where
  "catching_import m s = (case m s of
     (Inl e, s') \<Rightarrow> (case e of
        LSqliteError \<Rightarrow> (Inl local_database_error, s'\<lparr>ls_txn := None\<rparr>)
      | LValidationError c \<Rightarrow> (Inl e, s'\<lparr>ls_txn := None\<rparr>)
      | _ \<Rightarrow> (Inl e, s'))
   | r \<Rightarrow> r)"

text \<open>The creation times are those of the fixture; \<open>now\<close> is used where it has none.\<close>

definition import_legacy_fixture :: "legacy_codec \<Rightarrow> pystr \<Rightarrow> pyobj \<Rightarrow> ImportReport action" where
  "import_legacy_fixture L now fixture =
     io_bind (io_lift (validate_legacy_fixture (lgc_lower L) fixture)) (\<lambda>turns.
     io_bind connection (\<lambda>_.
     catching_import (
       io_bind begin_immediate (\<lambda>_.
       io_bind (import_turns L now turns 0 0) (\<lambda>(imported, skipped).
       io_bind (execute_sql (query (\<lambda>d. length (db_turns d)))) (\<lambda>total.
       io_bind commit_sql (\<lambda>_.
       io_lift (Inr \<lparr>ir_imported_turns = imported, ir_skipped_duplicates = skipped, ir_total_turns_after = total\<rparr>))))))))"

section \<open>The import as a pure function\<close>

definition tx_import_turn :: "legacy_codec \<Rightarrow> pystr \<Rightarrow> legacy_turn \<Rightarrow> unit body" where
  "tx_import_turn L now t d =
     (let created_at = (case lg_created_at t of None \<Rightarrow> now | Some c \<Rightarrow> if c = [] then now else c); i = db_chat_seq d + 1 in
      rbind (bind_texts [lg_user_message t, created_at]) (\<lambda>_.
      rbind (bind_texts [lg_assistant_message t, created_at]) (\<lambda>_.
      rbind (legacy_hash L t) (\<lambda>h.
      rbind (legacy_dumps (lgc_dumps L) (import_replay_payload t (i + 1))) (\<lambda>payload.
      rbind (bind_texts [lg_request_id t, h, payload]) (\<lambda>_.
      bstmt (insert_turn (imported_row (lg_request_id t) h i (i + 1) payload))
        (d\<lparr>db_chat_logs := db_chat_logs d @
            [\<lparr>cr_id = i, cr_role = u ''user'', cr_content = lg_user_message t, cr_created_at = created_at\<rparr>,
             \<lparr>cr_id = i + 1, cr_role = u ''assistant'', cr_content = lg_assistant_message t, cr_created_at = created_at\<rparr>],
          db_chat_seq := i + 1\<rparr>)))))))"

fun tx_import_turns :: "legacy_codec \<Rightarrow> pystr \<Rightarrow> legacy_turn list \<Rightarrow> nat \<Rightarrow> nat \<Rightarrow> (nat \<times> nat) body" where
  "tx_import_turns L now [] imported skipped d = Inr ((imported, skipped), d)"
| "tx_import_turns L now (t # ts) imported skipped d =
     rbind (bind_text (lg_request_id t)) (\<lambda>_. (case find_turn (lg_request_id t) d of
       Some row \<Rightarrow>
         rbind (legacy_hash L t) (\<lambda>h.
         rbind (linvalid (tn_payload_hash row \<noteq> h) ''legacy_request_id_conflict'') (\<lambda>_.
         tx_import_turns L now ts imported (skipped + 1) d))
     | None \<Rightarrow> rbind (tx_import_turn L now t d) (\<lambda>(_, d'). tx_import_turns L now ts (imported + 1) skipped d')))"

definition tx_import :: "legacy_codec \<Rightarrow> pystr \<Rightarrow> pyobj \<Rightarrow> ImportReport body" where
  "tx_import L now fixture d =
     rbind (validate_legacy_fixture (lgc_lower L) fixture) (\<lambda>turns.
     rbind (tx_import_turns L now turns 0 0 d) (\<lambda>((imported, skipped), d').
     Inr (\<lparr>ir_imported_turns = imported, ir_skipped_duplicates = skipped, ir_total_turns_after = length (db_turns d')\<rparr>, d')))"

lemma import_turn_refines: "refines (import_turn L now t) (tx_import_turn L now t)"
  unfolding import_turn_def Let_def
  by (rule refines_eq, (rule refines_bind refines_lift refines_execute)+, rule ext)
    (simp add: body_defs tx_import_turn_def Let_def rbind_assoc split_beta)

lemma refines_case_option:
  "refines m f \<Longrightarrow> (\<And>x. refines (k x) (g x)) \<Longrightarrow>
   refines (case v of None \<Rightarrow> m | Some x \<Rightarrow> k x) (\<lambda>d. case v of None \<Rightarrow> f d | Some x \<Rightarrow> g x d)"
  by (cases v) simp_all

lemma import_turns_refines: "refines (import_turns L now ts i j) (tx_import_turns L now ts i j)"
proof (induction ts arbitrary: i j)
  case Nil
  show ?case by (rule refines_eq [OF _ ext], simp, rule refines_lift, simp add: blift_def)
next
  case (Cons t ts)
  show ?case unfolding import_turns.simps
    by (rule refines_eq, (rule refines_bind refines_lift refines_execute refines_case_option import_turn_refines Cons.IH)+, rule ext)
      (simp add: body_defs rbind_assoc split_beta cong: option.case_cong)
qed

lemma fixture_not_sqlite: "validate_legacy_fixture lower f \<noteq> Inl LSqliteError"
proof -
  have "legacy_turn_of lower x \<noteq> Inl LSqliteError" for x
    by (auto simp: legacy_turn_of_def legacy_message_def Let_def rbind_Inl_iff split: option.splits pyobj.splits)
  then have "legacy_turns_of lower xs \<noteq> Inl LSqliteError" for xs by (induction xs) (auto simp: rbind_Inl_iff)
  then show ?thesis by (auto simp: validate_legacy_fixture_def rbind_Inl_iff split: option.splits pyobj.splits)
qed

lemma transacts_import:
  assumes "commits m f"
  shows "transacts (catching_import (io_bind begin_immediate (\<lambda>_. m))) f"
  by (rule transacts_by_cases [OF commits_atD [OF assms]])
    (auto simp: catching_import_def io_bind_def sanitize_def split: storage_exn.splits)

lemma import_transacts: "transacts (import_legacy_fixture L now fixture) (tx_import L now fixture)"
proof -
  let ?body = "\<lambda>turns. io_bind (import_turns L now turns 0 0) (\<lambda>(imported, skipped).
       io_bind (execute_sql (query (\<lambda>d. length (db_turns d)))) (\<lambda>total.
       io_bind commit_sql (\<lambda>_.
       io_lift (Inr \<lparr>ir_imported_turns = imported, ir_skipped_duplicates = skipped, ir_total_turns_after = total\<rparr>))))"
  have "commits (?body turns) (\<lambda>d. rbind (tx_import_turns L now turns 0 0 d) (\<lambda>((imported, skipped), d').
     Inr (\<lparr>ir_imported_turns = imported, ir_skipped_duplicates = skipped, ir_total_turns_after = length (db_turns d')\<rparr>, d')))" for turns
    unfolding split_beta
    by (rule commits_eq, (rule commits_bind import_turns_refines refines_execute commits_commit)+, rule ext)
      (simp add: body_defs case_prod_unfold)
  note transacts_import [OF this]
  then show ?thesis
    unfolding import_legacy_fixture_def tx_import_def [abs_def]
    by (intro transacts_lift [OF fixture_not_sqlite] transacts_connection)
qed

end
