(* ===== verification/Local_Invariant.thy ===== *)
theory Local_Invariant
  imports Legacy_Import
begin

text \<open>
  The operations of the local store together: the invariant of the database, its preservation by every
  operation, by crashes and by reopening, and what follows for commits, replays and deletions.
\<close>

section \<open>All operations\<close>

datatype local_op =
    OpCommit pystr local_args
  | OpReserve pyobj pyobj
  | OpRelease pyobj pyobj
  | OpStoreMemory pystr pyobj pyobj
  | OpDeleteHistory
  | OpDeleteMemories
  | OpResetEmotional pyobj pyobj pyobj
  | OpResetRelationship pyobj pyobj pyobj
  | OpTrim pyobj
  | OpImport pystr pyobj

definition forget :: "'a action \<Rightarrow> unit action" where
  "forget m s = (case m s of (Inl e, s') \<Rightarrow> (Inl e, s') | (Inr _, s') \<Rightarrow> (Inr (), s'))"

definition bforget :: "'a body \<Rightarrow> unit body" where
  "bforget f d = rbind (f d) (\<lambda>(_, d'). Inr ((), d'))"

fun run_op :: "local_codec \<Rightarrow> legacy_codec \<Rightarrow> local_op \<Rightarrow> unit action" where
  "run_op K L (OpCommit now a) = forget (local_commit_turn K now a)"
| "run_op K L (OpReserve r m) = forget (reserve_request K r m)"
| "run_op K L (OpRelease r g) = forget (release_request r g)"
| "run_op K L (OpStoreMemory now c m) = forget (store_memory K now c m)"
| "run_op K L OpDeleteHistory = forget (delete_history K)"
| "run_op K L OpDeleteMemories = forget (delete_memories K)"
| "run_op K L (OpResetEmotional t1 t2 n) = forget (reset_emotional_state K t1 t2 n)"
| "run_op K L (OpResetRelationship t1 t2 n) = forget (reset_relationship_state K t1 t2 n)"
| "run_op K L (OpTrim k) = forget (trim_history k)"
| "run_op K L (OpImport now f) = forget (import_legacy_fixture L now f)"

fun tx_op :: "local_codec \<Rightarrow> legacy_codec \<Rightarrow> local_op \<Rightarrow> unit body" where
  "tx_op K L (OpCommit now a) = bforget (tx_commit_op K now a)"
| "tx_op K L (OpReserve r m) = bforget (tx_reserve_op K r m)"
| "tx_op K L (OpRelease r g) = bforget (tx_release_op r g)"
| "tx_op K L (OpStoreMemory now c m) = bforget (tx_store_memory_op K now c m)"
| "tx_op K L OpDeleteHistory = bforget (tx_delete_history K)"
| "tx_op K L OpDeleteMemories = bforget (tx_delete_memories K)"
| "tx_op K L (OpResetEmotional t1 t2 n) = bforget (tx_reset_emotional K t1 t2 n)"
| "tx_op K L (OpResetRelationship t1 t2 n) = bforget (tx_reset_relationship K t1 t2 n)"
| "tx_op K L (OpTrim k) = bforget (tx_trim_op k)"
| "tx_op K L (OpImport now f) = bforget (tx_import L now f)"

lemma transacts_forget:
  assumes "transacts m f"
  shows "transacts (forget m) (bforget f)"
proof -
  have "tx_outcome s rs res \<Longrightarrow> tx_outcome s (case rs of (Inl e, s') \<Rightarrow> (Inl e, s') | (Inr _, s') \<Rightarrow> (Inr (), s'))
      (rbind res (\<lambda>(_, d'). Inr ((), d')))" for s rs and res :: "storage_exn + ('a \<times> database)"
    unfolding tx_outcome_def by (cases rs; cases "fst rs"; cases res) auto
  with assms show ?thesis by (simp add: transacts_def forget_def bforget_def)
qed

lemma run_op_transacts: "transacts (run_op K L o') (tx_op K L o')"
  by (cases o') (simp_all add: transacts_forget local_commit_transacts reserve_transacts release_request_transacts
      store_memory_transacts delete_history_transacts delete_memories_transacts reset_emotional_transacts
      reset_relationship_transacts trim_history_transacts import_transacts)

section \<open>The invariant of the database\<close>

definition message_in :: "database \<Rightarrow> int \<Rightarrow> pystr \<Rightarrow> bool" where
  "message_in d i role \<longleftrightarrow> (\<exists>c \<in> set (db_chat_logs d). cr_id c = i \<and> cr_role c = role)"

text \<open>
  A completed turn refers to its two messages, consecutive and with their roles, and to a revision that
  was reached; a pending turn is a reservation of the current history generation; neither a pending nor a failed turn has messages.
\<close>

definition turn_ok :: "database \<Rightarrow> turn_row \<Rightarrow> bool" where
  "turn_ok d t \<longleftrightarrow> (case tn_status t of
     TCompleted \<Rightarrow> (\<exists>i v. tn_user_log t = Some i \<and> tn_assistant_log t = Some (i + 1) \<and> tn_committed_revision t = Some v
        \<and> 0 \<le> v \<and> v \<le> revision_of d \<and> tn_replay_payload t \<noteq> None
        \<and> message_in d i (u ''user'') \<and> message_in d (i + 1) (u ''assistant''))
   | TPending \<Rightarrow> tn_user_log t = None \<and> tn_assistant_log t = None \<and> tn_committed_revision t = None
        \<and> tn_payload_hash t = reservation_marker (history_generation_of d)
   | TFailed \<Rightarrow> tn_user_log t = None \<and> tn_assistant_log t = None \<and> tn_committed_revision t = None)"

definition positive_revisions :: "database \<Rightarrow> int list" where
  "positive_revisions d = filter (\<lambda>v. 0 < v) (map (\<lambda>t. or_zero (tn_committed_revision t)) (db_turns d))"

definition chats_ok :: "database \<Rightarrow> bool" where
  "chats_ok d \<longleftrightarrow> distinct (map cr_id (db_chat_logs d)) \<and> (\<forall>c \<in> set (db_chat_logs d). 0 < cr_id c \<and> cr_id c \<le> db_chat_seq d
     \<and> cr_role c \<in> {u ''user'', u ''assistant''}) \<and> 0 \<le> db_chat_seq d"

definition ledger_ok :: "database \<Rightarrow> bool" where
  "ledger_ok d \<longleftrightarrow> distinct (map tn_request_id (db_turns d)) \<and> (\<forall>t \<in> set (db_turns d). turn_ok d t)
     \<and> distinct (positive_revisions d)"

definition outbox_ok :: "database \<Rightarrow> bool" where
  "outbox_ok d \<longleftrightarrow> distinct (map (\<lambda>e. (ox_idempotency_key e, ox_event_type e)) (db_outbox d))
     \<and> (\<forall>e \<in> set (db_outbox d). \<exists>t \<in> set (db_turns d). tn_request_id t = ox_turn_request_id e \<and> tn_status t = TCompleted)"

definition memories_ok :: "database \<Rightarrow> bool" where
  "memories_ok d \<longleftrightarrow> distinct (map mr_id (db_memories d)) \<and> (\<forall>m \<in> set (db_memories d). mr_id m \<le> db_memory_seq d)"

definition db_ok :: "database \<Rightarrow> bool" where
  "db_ok d \<longleftrightarrow> 0 \<le> revision_of d \<and> chats_ok d \<and> ledger_ok d \<and> outbox_ok d \<and> memories_ok d"

lemma find_turn_Some: "find_turn r d = Some t \<Longrightarrow> t \<in> set (db_turns d) \<and> tn_request_id t = r"
  by (auto simp: find_turn_def find_Some_iff)

lemma find_turn_None: "find_turn r d = None \<longleftrightarrow> r \<notin> tn_request_id ` set (db_turns d)"
  by (auto simp: find_turn_def find_None_iff)

lemma find_turn_iff:
  assumes "ledger_ok d"
  shows "find_turn r d = Some t \<longleftrightarrow> t \<in> set (db_turns d) \<and> tn_request_id t = r"
proof
  assume a: "t \<in> set (db_turns d) \<and> tn_request_id t = r"
  then obtain t' where t': "find_turn r d = Some t'" using find_turn_None [of r d] by (cases "find_turn r d") auto
  have "inj_on tn_request_id (set (db_turns d))" using assms by (simp add: ledger_ok_def distinct_map)
  then show "find_turn r d = Some t" using a t' find_turn_Some [OF t'] by (auto dest: inj_onD)
qed (rule find_turn_Some)

text \<open>Operations that only add to tables the ledger does not depend on.\<close>

lemma turn_ok_mono:
  assumes "turn_ok d t" and "\<And>i r. message_in d i r \<Longrightarrow> message_in d' i r" and "revision_of d \<le> revision_of d'"
    and "tn_status t = TPending \<Longrightarrow> history_generation_of d' = history_generation_of d"
  shows "turn_ok d' t"
  using assms by (cases "tn_status t") (auto simp: turn_ok_def intro: order_trans)

lemma turn_ok_frame:
  "turn_ok (d\<lparr>db_memories := m\<rparr>) = turn_ok d" "turn_ok (d\<lparr>db_memory_seq := i\<rparr>) = turn_ok d"
  "turn_ok (d\<lparr>db_outbox := x\<rparr>) = turn_ok d" "turn_ok (d\<lparr>db_turns := ts\<rparr>) = turn_ok d"
  by (simp_all add: fun_eq_iff turn_ok_def message_in_def history_generation_of_def revision_of_def cong: turn_status.case_cong)

lemma revision_of_frame' [simp]:
  "revision_of (d\<lparr>db_memories := m\<rparr>) = revision_of d" "revision_of (d\<lparr>db_memory_seq := i\<rparr>) = revision_of d"
  "revision_of (d\<lparr>db_chat_seq := i\<rparr>) = revision_of d"
  by (simp_all add: revision_of_def)

lemma delete_turns_ok:
  assumes "db_ok d"
  shows "db_ok (delete_turns P d)"
proof -
  have "turn_ok (delete_turns P d) t \<longleftrightarrow> turn_ok d t" for t
    by (simp add: delete_turns_def Let_def turn_ok_frame)
  moreover have "distinct (positive_revisions (delete_turns P d))"
  proof -
    have "positive_revisions d' = map (\<lambda>t. or_zero (tn_committed_revision t))
        (filter (\<lambda>t. 0 < or_zero (tn_committed_revision t)) (db_turns d'))" for d'
      by (simp add: positive_revisions_def filter_map o_def)
    moreover have "distinct (map f (filter Q xs)) \<Longrightarrow> distinct (map f (filter Q (filter R xs)))" for f :: "turn_row \<Rightarrow> int" and Q R xs
      by (induction xs) auto
    ultimately show ?thesis using assms by (simp add: db_ok_def ledger_ok_def delete_turns_def Let_def)
  qed
  moreover have "outbox_ok (delete_turns P d)"
  proof -
    let ?kept = "filter (\<lambda>t. \<not> P t) (db_turns d)"
    have inj: "inj_on tn_request_id (set (db_turns d))" using assms by (simp add: db_ok_def ledger_ok_def distinct_map)
    have "\<exists>t \<in> set ?kept. tn_request_id t = ox_turn_request_id e \<and> tn_status t = TCompleted"
      if e: "e \<in> set (db_outbox d)" and k: "ox_turn_request_id e \<in> tn_request_id ` set ?kept" for e
    proof -
      obtain t where t: "t \<in> set (db_turns d)" "tn_request_id t = ox_turn_request_id e" "tn_status t = TCompleted"
        using assms e by (auto simp: db_ok_def outbox_ok_def)
      obtain t' where t': "t' \<in> set ?kept" "tn_request_id t' = ox_turn_request_id e" using k by auto
      then have "t' = t" using inj_onD [OF inj, of t' t] t by simp
      then show ?thesis using t t' by blast
    qed
    then show ?thesis
      using assms by (simp add: db_ok_def outbox_ok_def delete_turns_def Let_def distinct_map_filter)
  qed
  ultimately show ?thesis
    using assms by (simp add: db_ok_def ledger_ok_def chats_ok_def memories_ok_def delete_turns_def Let_def revision_of_def
        distinct_map_filter)
qed

lemma remove_chats_ok:
  assumes ok: "db_ok d"
    and refs: "\<And>t i. t \<in> set (db_turns d) \<Longrightarrow> tn_user_log t = Some i \<or> tn_assistant_log t = Some i \<Longrightarrow>
      i \<in> cr_id ` set (filter Q (db_chat_logs d))"
  shows "db_ok (d\<lparr>db_chat_logs := filter Q (db_chat_logs d)\<rparr>)"
proof -
  let ?d = "d\<lparr>db_chat_logs := filter Q (db_chat_logs d)\<rparr>"
  have inj: "inj_on cr_id (set (db_chat_logs d))" using ok by (simp add: db_ok_def chats_ok_def distinct_map)
  have m: "message_in ?d i r" if "message_in d i r" "i \<in> cr_id ` set (filter Q (db_chat_logs d))" for i r
    using that inj by (auto simp: message_in_def dest: inj_onD)
  have "turn_ok ?d t" if t: "t \<in> set (db_turns d)" for t
  proof -
    have "turn_ok d t" using ok t by (simp add: db_ok_def ledger_ok_def)
    then show ?thesis
    proof (cases "tn_status t")
      case TCompleted
      with \<open>turn_ok d t\<close> obtain i v where "tn_user_log t = Some i" "tn_assistant_log t = Some (i + 1)" "tn_committed_revision t = Some v"
        "0 \<le> v" "v \<le> revision_of d" "tn_replay_payload t \<noteq> None" "message_in d i (u ''user'')" "message_in d (i + 1) (u ''assistant'')"
        by (auto simp: turn_ok_def)
      then show ?thesis using m refs [OF t] TCompleted by (auto simp: turn_ok_def)
    qed (simp_all add: turn_ok_def history_generation_of_def)
  qed
  then show ?thesis
    using ok by (auto simp: db_ok_def ledger_ok_def chats_ok_def outbox_ok_def memories_ok_def positive_revisions_def distinct_map_filter)
qed

lemma delete_chats_ok:
  assumes "db_ok d"
  shows "db_ok (delete_chats P d)"
proof -
  let ?Q = "\<lambda>c. \<not> P c"
  let ?ids = "set (map cr_id (filter ?Q (db_chat_logs d)))"
  let ?d = "delete_turns (\<lambda>t. \<not> ref_in ?ids (tn_user_log t) \<or> \<not> ref_in ?ids (tn_assistant_log t)) d"
  have "delete_chats P d = ?d\<lparr>db_chat_logs := filter ?Q (db_chat_logs ?d)\<rparr>"
    by (simp add: delete_chats_def delete_turns_def Let_def)
  moreover have "db_ok (?d\<lparr>db_chat_logs := filter ?Q (db_chat_logs ?d)\<rparr>)"
    by (rule remove_chats_ok [OF delete_turns_ok [OF assms]]) (auto simp: delete_turns_def Let_def ref_in_def split: option.splits)
  ultimately show ?thesis by simp
qed

lemma clear_history_ok: "db_ok d \<Longrightarrow> db_ok (d\<lparr>db_chat_logs := [], db_turns := [], db_outbox := []\<rparr>)"
  by (simp add: db_ok_def chats_ok_def ledger_ok_def outbox_ok_def memories_ok_def positive_revisions_def)

text \<open>An entry in the privacy log starts a new generation only when there is no pending turn left.\<close>

lemma record_ok:
  assumes "db_ok d" and "tx_record K operation result d = Inr (x, d')"
    and "u operation = u ''delete_history'' \<Longrightarrow> \<forall>t \<in> set (db_turns d). tn_status t \<noteq> TPending"
  shows "db_ok d'"
proof -
  obtain t where d': "d' = d\<lparr>db_privacy := db_privacy d @ [\<lparr>pv_operation = u operation, pv_result = t\<rparr>]\<rparr>"
    using assms(2) by (auto simp: tx_record_def bstmt_def insert_privacy_def split: if_splits option.splits)
  have "turn_ok d' t" if t: "t \<in> set (db_turns d)" for t
    by (rule turn_ok_mono [of d]) (use assms t in \<open>auto simp: d' db_ok_def ledger_ok_def message_in_def history_generation_of_def\<close>)
  then show ?thesis
    using assms(1) by (simp add: d' db_ok_def ledger_ok_def chats_ok_def outbox_ok_def memories_ok_def positive_revisions_def)
qed

lemma memory_ok:
  assumes "db_ok d" and "bstmt (insert_memory jv m t now) d = Inr (x, d')"
  shows "db_ok d'"
proof -
  have d': "d' = d\<lparr>db_memories := db_memories d @ [\<lparr>mr_id = db_memory_seq d + 1, mr_content = m, mr_metadata = t,
      mr_created_at = now\<rparr>], db_memory_seq := db_memory_seq d + 1\<rparr>"
    using assms(2) by (auto simp: bstmt_def insert_memory_def Let_def split: if_splits)
  have "memories_ok d'" using assms(1) by (force simp: d' db_ok_def memories_ok_def)
  with assms(1) show ?thesis
    by (simp add: d' db_ok_def ledger_ok_def chats_ok_def outbox_ok_def positive_revisions_def turn_ok_frame)
qed

definition add_messages :: "pystr \<Rightarrow> pystr \<Rightarrow> pystr \<Rightarrow> database \<Rightarrow> database" where
  "add_messages um am now d =
     d\<lparr>db_chat_logs := db_chat_logs d @
         [\<lparr>cr_id = db_chat_seq d + 1, cr_role = u ''user'', cr_content = um, cr_created_at = now\<rparr>,
          \<lparr>cr_id = db_chat_seq d + 1 + 1, cr_role = u ''assistant'', cr_content = am, cr_created_at = now\<rparr>],
       db_chat_seq := db_chat_seq d + 1 + 1\<rparr>"

lemma add_messages_ok:
  assumes "db_ok d"
  shows "db_ok (add_messages um am now d)" and "message_in (add_messages um am now d) (db_chat_seq d + 1) (u ''user'')"
    and "message_in (add_messages um am now d) (db_chat_seq d + 1 + 1) (u ''assistant'')"
proof -
  let ?d = "add_messages um am now d"
  have c: "chats_ok ?d" using assms by (force simp: add_messages_def db_ok_def chats_ok_def)
  have "turn_ok ?d t" if "t \<in> set (db_turns d)" for t
    by (rule turn_ok_mono [of d])
      (use assms that in \<open>auto simp: add_messages_def db_ok_def ledger_ok_def message_in_def history_generation_of_def\<close>)
  then show "db_ok ?d"
    using assms c by (simp add: add_messages_def db_ok_def ledger_ok_def outbox_ok_def memories_ok_def positive_revisions_def)
qed (auto simp: add_messages_def message_in_def)

lemma profile_ok:
  assumes "db_ok d" and "revision_of d \<le> pf_revision p"
  shows "db_ok (d\<lparr>db_profile := Some p\<rparr>)"
proof -
  have "turn_ok (d\<lparr>db_profile := Some p\<rparr>) t" if "t \<in> set (db_turns d)" for t
    by (rule turn_ok_mono [of d])
      (use assms that in \<open>auto simp: db_ok_def ledger_ok_def message_in_def history_generation_of_def revision_of_def [of "db_profile_update _ _"]\<close>)
  then show ?thesis
    using assms by (simp add: db_ok_def ledger_ok_def chats_ok_def outbox_ok_def memories_ok_def positive_revisions_def
        revision_of_def [of "db_profile_update _ _"])
qed

lemma upsert_profile_ok:
  assumes "db_ok d" and "bstmt (upsert_profile es rs (revision_of d + 1)) d = Inr (x, d')"
  shows "db_ok d'" and "revision_of d' = revision_of d + 1" and "\<exists>p. d' = d\<lparr>db_profile := Some p\<rparr>"
proof -
  obtain p where p: "d' = d\<lparr>db_profile := Some p\<rparr>" "pf_revision p = revision_of d + 1"
    using assms(2) by (auto simp: bstmt_def upsert_profile_def split: if_splits option.splits)
  then show "db_ok d'" using profile_ok [OF assms(1), of p] by simp
  show "revision_of d' = revision_of d + 1" using p by (simp add: revision_of_def)
  show "\<exists>p. d' = d\<lparr>db_profile := Some p\<rparr>" using p by blast
qed

lemma update_field_ok:
  assumes "db_ok d" and "bstmt (update_profile_field f t (revision_of d + 1)) d = Inr (n, d')"
  shows "n = 0 \<and> d' = d \<or> db_ok d' \<and> n = 1"
proof (cases "db_profile d")
  case None
  then show ?thesis using assms(2) by (auto simp: bstmt_def update_profile_field_def)
next
  case (Some p)
  then obtain q where "d' = d\<lparr>db_profile := Some q\<rparr>" "pf_revision q = revision_of d + 1" "n = 1"
    using assms(2) by (auto simp: bstmt_def update_profile_field_def split: if_splits)
  then show ?thesis using profile_ok [OF assms(1), of q] by simp
qed

lemma neutral_profile_ok:
  assumes "db_ok d" and "tx_neutral_profile K tm f c (revision_of d + 1) d = Inr (x, d')"
  shows "db_ok d'"
proof -
  obtain es rs where "bstmt (upsert_profile es rs (revision_of d + 1)) d = Inr (x, d')"
    using assms(2) by (auto simp: tx_neutral_profile_def)
  then show ?thesis using upsert_profile_ok(1) [OF assms(1)] by blast
qed

lemma reset_ok:
  assumes "db_ok d" and "tx_reset K tm operation f c d = Inr (x, d')" and "u operation \<noteq> u ''delete_history''"
  shows "db_ok d'"
proof -
  obtain t n d1 y d2 where s: "bstmt (update_profile_field f t (revision_of d + 1)) d = Inr (n, d1)"
    "(if n = 0 then tx_neutral_profile K tm f c (revision_of d + 1) d1 else Inr ((), d1)) = Inr (y, d2)"
    "tx_record K operation (applied [(''revision'', revision_of d + 1)]) d2 = Inr (x, d')"
    using assms(2) by (auto simp: tx_reset_def Let_def)
  have "db_ok d2" using update_field_ok [OF assms(1) s(1)] s(2) neutral_profile_ok [OF assms(1)] by auto
  then show ?thesis using record_ok [OF _ s(3)] assms(3) by blast
qed

lemma reserve_ok:
  assumes "db_ok d" and "tx_reserve K r m d = Inr (x, d')"
  shows "db_ok d'"
proof (cases "find_turn r d")
  case None
  let ?t = "\<lparr>tn_request_id = r, tn_payload_hash = reservation_marker (history_generation_of d), tn_status = TPending,
        tn_expected_revision = 0, tn_committed_revision = None, tn_user_log = None, tn_assistant_log = None,
        tn_replay_payload = None, tn_error_code = None\<rparr>"
  have d': "d' = d\<lparr>db_turns := db_turns d @ [?t]\<rparr>"
    using assms(2) None by (simp add: tx_reserve_def bbind_def bstmt_def insert_reservation_def)
  have "turn_ok d ?t" by (simp add: turn_ok_def)
  moreover have "r \<notin> tn_request_id ` set (db_turns d)" using None by (simp add: find_turn_None)
  ultimately show ?thesis
    using assms(1) by (auto simp: d' db_ok_def ledger_ok_def chats_ok_def outbox_ok_def memories_ok_def positive_revisions_def
        turn_ok_frame or_zero_def)
next
  case (Some t)
  then show ?thesis using assms by (auto simp: tx_reserve_def blift_def)
qed

lemma distinct_replace_revision:
  fixes f :: "'a \<Rightarrow> int"
  assumes "distinct (map k xs)" and "distinct (filter (\<lambda>v. 0 < v) (map f xs))"
    and "v \<notin> set (filter (\<lambda>v. 0 < v) (map f xs))" and "\<And>x. f (c x) = v"
  shows "distinct (filter (\<lambda>v. 0 < v) (map f (map (\<lambda>x. if k x = r then c x else x) xs)))"
proof -
  have same: "map (\<lambda>x. if k x = r then c x else x) ys = ys" if "r \<notin> k ` set ys" for ys
    using that by (induction ys) auto
  show ?thesis
  proof (cases "r \<in> k ` set xs")
    case True
    then obtain ys x zs where xs: "xs = ys @ x # zs" "k x = r" by (auto simp: in_set_conv_decomp)
    then have "r \<notin> k ` set ys" "r \<notin> k ` set zs" using assms(1) by auto
    then have "map (\<lambda>x. if k x = r then c x else x) xs = ys @ c x # zs" using same [of ys] same [of zs] xs by simp
    then show ?thesis using assms(2-4) xs(1) by (auto split: if_splits)
  next
    case False
    show ?thesis unfolding same [OF False] by (rule assms(2))
  qed
qed

lemma complete_turn_ok:
  assumes ok: "db_ok d" and f: "find_turn r d = Some t" and c: "tn_request_id c = r" "tn_status c = TCompleted" "turn_ok d c"
    and v: "tn_committed_revision c = Some v" "v \<notin> set (positive_revisions d)"
  shows "db_ok (d\<lparr>db_turns := map (\<lambda>o'. if tn_request_id o' = r then c\<lparr>tn_error_code := tn_error_code o'\<rparr> else o') (db_turns d)\<rparr>)"
proof -
  let ?g = "\<lambda>o'. if tn_request_id o' = r then c\<lparr>tn_error_code := tn_error_code o'\<rparr> else o'"
  have ids: "tn_request_id (?g o') = tn_request_id o'" for o' using c by simp
  have "turn_ok d (c\<lparr>tn_error_code := x\<rparr>)" for x using c(2,3) by (simp add: turn_ok_def)
  then have "\<forall>t \<in> set (map ?g (db_turns d)). turn_ok d t" using ok by (auto simp: db_ok_def ledger_ok_def)
  moreover have "distinct (map tn_request_id (map ?g (db_turns d)))"
  proof -
    have "map tn_request_id (map ?g (db_turns d)) = map tn_request_id (db_turns d)" unfolding list.map_comp o_def ids ..
    then show ?thesis using ok by (simp only: db_ok_def ledger_ok_def simp_thms)
  qed
  moreover have "distinct (filter (\<lambda>v. 0 < v) (map (\<lambda>t. or_zero (tn_committed_revision t)) (map ?g (db_turns d))))"
    by (rule distinct_replace_revision [where v = v]) (use ok v in \<open>simp_all add: db_ok_def ledger_ok_def positive_revisions_def or_zero_def\<close>)
  ultimately have l: "ledger_ok (d\<lparr>db_turns := map ?g (db_turns d)\<rparr>)"
    by (simp add: ledger_ok_def positive_revisions_def turn_ok_frame)
  have "\<exists>t \<in> set (map ?g (db_turns d)). tn_request_id t = i \<and> tn_status t = TCompleted"
    if "t \<in> set (db_turns d)" "tn_request_id t = i" "tn_status t = TCompleted" for t i
    using that c by (intro bexI [of _ "?g t"]) auto
  moreover have "\<exists>t \<in> set (db_turns d). tn_request_id t = ox_turn_request_id e \<and> tn_status t = TCompleted"
    if "e \<in> set (db_outbox d)" for e using ok that by (simp add: db_ok_def outbox_ok_def)
  ultimately have "outbox_ok (d\<lparr>db_turns := map ?g (db_turns d)\<rparr>)"
    using ok by (simp add: db_ok_def outbox_ok_def del: set_map) blast
  with l show ?thesis using ok by (simp add: db_ok_def chats_ok_def memories_ok_def)
qed

lemma events_ok:
  assumes "tx_events K r es d = Inr (x, d')" and "db_ok d"
    and "\<exists>t \<in> set (db_turns d). tn_request_id t = r \<and> tn_status t = TCompleted"
  shows "db_ok d' \<and> (\<exists>ob. d' = d\<lparr>db_outbox := db_outbox d @ ob\<rparr>)"
  using assms
proof (induction K r es d arbitrary: x d' rule: tx_events.induct)
  case (1 K r d)
  then show ?case by (auto intro: exI [of _ "[]"])
next
  case (2 K r event_type payload key es d)
  from 2(2) obtain t y d1 where t: "local_json_dumps K payload = Inr t" "bind_text t = Inr y"
    and i: "bstmt (insert_outbox (lk_json_valid K) event_type key r t) d = Inr ((), d1)" and rest: "tx_events K r es d1 = Inr (x, d')"
    by auto
  obtain ob where d1: "d1 = d\<lparr>db_outbox := db_outbox d @ ob\<rparr>"
    and ob: "ob = [] \<or> (\<exists>e. ob = [e] \<and> ox_turn_request_id e = r
        \<and> (ox_idempotency_key e, ox_event_type e) \<notin> (\<lambda>e. (ox_idempotency_key e, ox_event_type e)) ` set (db_outbox d))"
  proof (cases "d1 = d")
    case True
    then show thesis using that [of "[]"] by simp
  next
    case False
    let ?e = "\<lparr>ox_id = key @ u '':'' @ event_type, ox_event_type = event_type, ox_idempotency_key = key, ox_status = u ''pending'',
      ox_turn_request_id = r, ox_payload = t\<rparr>"
    from False i have "d1 = d\<lparr>db_outbox := db_outbox d @ [?e]\<rparr>"
      and "\<not> (\<exists>e \<in> set (db_outbox d). ox_idempotency_key e = key \<and> ox_event_type e = event_type)"
      by (auto simp: bstmt_def insert_outbox_def split: if_splits option.splits)
    then show thesis by (intro that [of "[?e]"]) auto
  qed
  define key_of where "key_of = (\<lambda>e :: outbox_row. (ox_idempotency_key e, ox_event_type e))"
  have "ob = [] \<or> (\<exists>e. ob = [e] \<and> key_of e \<notin> key_of ` set (db_outbox d))" using ob unfolding key_of_def by blast
  moreover have "distinct (map key_of (db_outbox d))" using 2(3) by (simp add: db_ok_def outbox_ok_def key_of_def)
  ultimately have "distinct (map key_of (db_outbox d @ ob))" by auto
  moreover have "\<exists>t \<in> set (db_turns d). tn_request_id t = ox_turn_request_id e \<and> tn_status t = TCompleted"
    if "e \<in> set (db_outbox d @ ob)" for e
    using that ob 2(3,4) unfolding db_ok_def outbox_ok_def by (cases "e \<in> set (db_outbox d)") auto
  ultimately have "outbox_ok d1" by (simp add: d1 outbox_ok_def key_of_def)
  then have "db_ok d1"
    using 2(3) unfolding d1 by (simp add: db_ok_def chats_ok_def ledger_ok_def memories_ok_def positive_revisions_def turn_ok_frame)
  moreover have "\<exists>t \<in> set (db_turns d1). tn_request_id t = r \<and> tn_status t = TCompleted" using 2(4) by (simp add: d1)
  ultimately obtain ob' where "db_ok d'" "d' = d1\<lparr>db_outbox := db_outbox d1 @ ob'\<rparr>" using 2(1) [OF rest] by blast
  then show ?case by (auto simp: d1)
qed

section \<open>The effect of a commit\<close>

definition committed_turns :: "turn_row \<Rightarrow> turn_row list \<Rightarrow> turn_row list" where
  "committed_turns c ts = map (\<lambda>o'. if tn_request_id o' = tn_request_id c then c\<lparr>tn_error_code := tn_error_code o'\<rparr> else o') ts"

text \<open>What a successful write leaves: both messages, the profile at the next revision, the completed ledger row, the events.\<close>

lemma tx_write_effect:
  assumes w: "tx_write K now p d = Inr (ct, d')" and f: "find_turn (lm_request_id (pc_commit p)) d = Some t"
  obtains es rs rp pf ob where
    "pc_expected p = None \<or> pc_expected p = Some (revision_of d)"
    "lk_dumps K (lm_emotional_state (pc_commit p)) = Some es" "lk_dumps K (lm_relationship_state (pc_commit p)) = Some rs"
    "lk_dumps K (lm_replay_payload (pc_commit p)) = Some rp"
    "pf_revision pf = revision_of d + 1" "pf_emotional_state pf = es" "pf_relationship_state pf = rs"
    "tx_events K (lm_request_id (pc_commit p)) (lm_outbox_events (pc_commit p))
       ((add_messages (lm_user_message (pc_commit p)) (lm_assistant_message (pc_commit p)) now d)
         \<lparr>db_profile := Some pf, db_turns := committed_turns (completed_row p rp (revision_of d) (revision_of d + 1) (db_chat_seq d + 1)) (db_turns d)\<rparr>)
       = Inr ((), d')"
    "ct = committed_of K (lm_request_id (pc_commit p)) (revision_of d + 1) (db_chat_seq d + 1) (db_chat_seq d + 1 + 1) (pc_replay p)"
proof -
  let ?c = "pc_commit p" let ?r = "lm_request_id ?c" let ?rv = "revision_of d"
  let ?e = "case pc_expected p of None \<Rightarrow> ?rv | Some n \<Rightarrow> n"
  let ?m = "add_messages (lm_user_message ?c) (lm_assistant_message ?c) now d"
  have wm: "with_messages now ?c d = ?m" by (simp add: with_messages_def add_messages_def Let_def)
  obtain es rs rp d1 d2 where s: "?e = ?rv" "local_json_dumps K (lm_emotional_state ?c) = Inr es"
    "local_json_dumps K (lm_relationship_state ?c) = Inr rs" "bstmt (upsert_profile es rs (?rv + 1)) ?m = Inr ((), d1)"
    "local_json_dumps K (lm_replay_payload ?c) = Inr rp"
    "bstmt (upsert_turn (completed_row p rp ?e (?rv + 1) (db_chat_seq d + 1))) d1 = Inr ((), d2)"
    "tx_events K ?r (lm_outbox_events ?c) d2 = Inr ((), d')"
    "ct = committed_of K ?r (?rv + 1) (db_chat_seq d + 1) (db_chat_seq d + 1 + 1) (pc_replay p)"
    using w by (auto simp: tx_write_def Let_def wm)
  obtain pf where pf: "d1 = ?m\<lparr>db_profile := Some pf\<rparr>" "pf_revision pf = ?rv + 1" "pf_emotional_state pf = es" "pf_relationship_state pf = rs"
    using s(4) by (auto simp: bstmt_def upsert_profile_def split: if_splits option.splits)
  have "find_turn ?r d1 = Some t" using f by (simp add: pf add_messages_def)
  then have "d2 = d1\<lparr>db_turns := committed_turns (completed_row p rp ?rv (?rv + 1) (db_chat_seq d + 1)) (db_turns d1)\<rparr>"
    using s(6) unfolding s(1) by (auto simp: bstmt_def upsert_turn_def committed_turns_def completed_row_def split: if_splits)
  then have "d2 = ?m\<lparr>db_profile := Some pf, db_turns := committed_turns (completed_row p rp ?rv (?rv + 1) (db_chat_seq d + 1)) (db_turns d)\<rparr>"
    by (simp add: pf add_messages_def)
  with s(1-3,5,7,8) pf(2-4) show thesis
    by (intro that [of es rs rp pf]) (auto simp: local_json_dumps_def split: option.splits)
qed

lemma old_revisions_below:
  assumes "db_ok d" and "v \<in> set (positive_revisions d)"
  shows "v \<le> revision_of d"
proof -
  obtain t where t: "t \<in> set (db_turns d)" "v = or_zero (tn_committed_revision t)" "0 < v"
    using assms(2) by (auto simp: positive_revisions_def)
  have "turn_ok d t" using assms(1) t by (simp add: db_ok_def ledger_ok_def)
  then show ?thesis using t by (cases "tn_status t") (auto simp: turn_ok_def or_zero_def)
qed

lemma write_ok:
  assumes ok: "db_ok d" and w: "tx_write K now p d = Inr (ct, d')" and f: "find_turn (lm_request_id (pc_commit p)) d = Some t"
  shows "db_ok d'"
proof -
  let ?c = "pc_commit p" let ?r = "lm_request_id ?c" let ?rv = "revision_of d"
  let ?m = "add_messages (lm_user_message ?c) (lm_assistant_message ?c) now d"
  from w f obtain es rs rp pf ob where pf: "pf_revision pf = ?rv + 1"
    and ev: "tx_events K ?r (lm_outbox_events ?c) (?m\<lparr>db_profile := Some pf,
       db_turns := committed_turns (completed_row p rp ?rv (?rv + 1) (db_chat_seq d + 1)) (db_turns d)\<rparr>) = Inr ((), d')"
    by (rule tx_write_effect)
  let ?row = "completed_row p rp ?rv (?rv + 1) (db_chat_seq d + 1)" let ?d1 = "?m\<lparr>db_profile := Some pf\<rparr>"
  have rm: "revision_of ?m = ?rv" by (simp add: add_messages_def)
  have ok1: "db_ok ?d1" using profile_ok [OF add_messages_ok(1) [OF ok]] pf rm by simp
  have r1: "revision_of ?d1 = ?rv + 1" using pf by (simp add: revision_of_def)
  have "message_in ?d1 i ro" if "message_in ?m i ro" for i ro using that by (simp add: message_in_def)
  then have "turn_ok ?d1 ?row" using ok add_messages_ok(2,3) [OF ok] r1
    by (simp add: turn_ok_def completed_row_def db_ok_def)
  note row_ok = this
  have f1: "find_turn ?r ?d1 = Some t" using f by (simp add: add_messages_def)
  have new: "?rv + 1 \<notin> set (positive_revisions ?d1)"
    using old_revisions_below [OF ok, of "?rv + 1"] by (auto simp: positive_revisions_def add_messages_def)
  have fields: "tn_request_id ?row = ?r" "tn_status ?row = TCompleted" "tn_committed_revision ?row = Some (?rv + 1)"
    by (simp_all add: completed_row_def)
  have "db_ok (?d1\<lparr>db_turns := committed_turns ?row (db_turns ?d1)\<rparr>)"
    using complete_turn_ok [OF ok1 f1 fields(1,2) row_ok fields(3) new] unfolding committed_turns_def fields(1) .
  moreover have e: "?d1\<lparr>db_turns := committed_turns ?row (db_turns ?d1)\<rparr> = ?m\<lparr>db_profile := Some pf, db_turns := committed_turns ?row (db_turns d)\<rparr>"
    by (simp add: add_messages_def)
  ultimately have ok2: "db_ok (?m\<lparr>db_profile := Some pf, db_turns := committed_turns ?row (db_turns d)\<rparr>)" by (simp only: e)
  have "\<exists>t' \<in> set (committed_turns ?row (db_turns d)). tn_request_id t' = ?r \<and> tn_status t' = TCompleted"
    using find_turn_Some [OF f] by (intro bexI [of _ "?row\<lparr>tn_error_code := tn_error_code t\<rparr>"])
      (auto simp: committed_turns_def completed_row_def image_iff intro!: bexI [of _ t])
  then have "db_ok d' \<and> (\<exists>ob. d' = ?m\<lparr>db_profile := Some pf, db_turns := committed_turns ?row (db_turns d)\<rparr>\<lparr>db_outbox :=
      db_outbox (?m\<lparr>db_profile := Some pf, db_turns := committed_turns ?row (db_turns d)\<rparr>) @ ob\<rparr>)"
    by (intro events_ok [OF ev ok2]) simp
  then show ?thesis ..
qed

lemma commit_ok: "db_ok d \<Longrightarrow> tx_commit K now p d = Inr (ct, d') \<Longrightarrow> db_ok d'"
  by (auto simp: tx_commit_def blift_def split: option.splits if_splits dest: write_ok)

lemma import_turn_ok:
  assumes ok: "db_ok d" and i: "tx_import_turn L now t d = Inr (x, d')"
  shows "db_ok d'" and "\<exists>row. find_turn (lg_request_id t) d' = Some row \<and> legacy_hash L t = Inr (tn_payload_hash row)"
    and "\<exists>row c. db_turns d' = db_turns d @ [row] \<and> tn_request_id row = lg_request_id t"
proof -
  obtain created h payload where s: "legacy_hash L t = Inr h"
    "bstmt (insert_turn (imported_row (lg_request_id t) h (db_chat_seq d + 1) (db_chat_seq d + 1 + 1) payload))
       (add_messages (lg_user_message t) (lg_assistant_message t) created d) = Inr (x, d')"
    using i unfolding tx_import_turn_def Let_def add_messages_def by auto
  let ?m = "add_messages (lg_user_message t) (lg_assistant_message t) created d"
  let ?row = "imported_row (lg_request_id t) h (db_chat_seq d + 1) (db_chat_seq d + 1 + 1) payload"
  have d': "d' = ?m\<lparr>db_turns := db_turns d @ [?row]\<rparr>" and new: "find_turn (lg_request_id t) d = None"
    using s(2) by (auto simp: bstmt_def insert_turn_def imported_row_def add_messages_def split: if_splits)
  have okm: "db_ok ?m" by (rule add_messages_ok(1) [OF ok])
  have "turn_ok ?m ?row"
    using okm add_messages_ok(2,3) [OF ok] by (simp add: turn_ok_def imported_row_def db_ok_def)
  moreover have "lg_request_id t \<notin> tn_request_id ` set (db_turns d)" using new by (simp add: find_turn_None)
  moreover have m: "db_turns ?m = db_turns d" by (simp add: add_messages_def)
  ultimately have "ledger_ok d'"
    using okm by (auto simp: d' db_ok_def ledger_ok_def positive_revisions_def turn_ok_frame imported_row_def or_zero_def)
  then show "db_ok d'" using okm m by (auto simp: d' db_ok_def chats_ok_def outbox_ok_def memories_ok_def)
  have "find_turn (lg_request_id t) d' = Some ?row"
    using find_turn_iff [OF \<open>ledger_ok d'\<close>] by (simp add: d' imported_row_def)
  then show "\<exists>row. find_turn (lg_request_id t) d' = Some row \<and> legacy_hash L t = Inr (tn_payload_hash row)"
    using s(1) by (simp add: imported_row_def)
  show "\<exists>row c. db_turns d' = db_turns d @ [row] \<and> tn_request_id row = lg_request_id t" by (simp add: d' imported_row_def)
qed

lemma import_turns_ok:
  "db_ok d \<Longrightarrow> tx_import_turns L now ts i j d = Inr (x, d') \<Longrightarrow> db_ok d'"
  by (induction ts arbitrary: i j d) (auto split: option.splits dest: import_turn_ok(1))

section \<open>Every operation preserves the invariant\<close>

lemma bforget_Inr: "bforget f d = Inr ((), d') \<longleftrightarrow> (\<exists>x. f d = Inr (x, d'))"
  by (auto simp: bforget_def)

lemma tx_op_ok:
  assumes ok: "db_ok d" and r: "tx_op K L o' d = Inr ((), d')"
  shows "db_ok d'"
proof (cases o')
  case (OpCommit now a)
  then obtain p x where p: "(case find_turn (lm_request_id (pc_commit p)) d of
       Some t \<Rightarrow>
         if tn_status t = TCompleted then blift (replay_committed K p t) d
         else if tn_status t = TFailed then Inl (commit_conflict p ''request_replay_unavailable'')
         else tx_commit K now p d
     | None \<Rightarrow> tx_commit K now p d) = Inr (x, d')"
    using r by (auto simp: bforget_Inr tx_commit_op_def)
  then have "d' = d \<or> tx_commit K now p d = Inr (x, d')" by (auto simp: blift_def split: option.splits if_splits)
  then show ?thesis using ok commit_ok by blast
next
  case (OpReserve rq m)
  then show ?thesis using r ok by (auto simp: bforget_Inr tx_reserve_op_def dest: reserve_ok)
next
  case (OpRelease rq g)
  then show ?thesis using r ok by (auto simp: bforget_Inr tx_release_op_def tx_release_def delete_turns_ok)
next
  case (OpStoreMemory now c m)
  then show ?thesis using r ok by (auto simp: bforget_Inr tx_store_memory_op_def tx_store_memory_def dest: memory_ok)
next
  case OpDeleteHistory
  then obtain x y where "tx_record K ''delete_history'' y (d\<lparr>db_chat_logs := [], db_turns := [], db_outbox := []\<rparr>) = Inr (x, d')"
    using r by (auto simp: bforget_Inr tx_delete_history_def)
  then show ?thesis by (rule record_ok [OF clear_history_ok [OF ok]]) simp
next
  case OpDeleteMemories
  then obtain x y where rec: "tx_record K ''delete_memories'' y (d\<lparr>db_memories := []\<rparr>) = Inr (x, d')"
    using r by (auto simp: bforget_Inr tx_delete_memories_def)
  have "db_ok (d\<lparr>db_memories := []\<rparr>)"
    using ok by (simp add: db_ok_def chats_ok_def ledger_ok_def outbox_ok_def memories_ok_def positive_revisions_def turn_ok_frame)
  from record_ok [OF this rec] show ?thesis by simp
next
  case (OpResetEmotional t1 t2 n)
  then obtain x c where "tx_reset K t2 ''reset_emotional_state'' EmotionalField c d = Inr (x, d')"
    using r by (auto simp: bforget_Inr tx_reset_emotional_def)
  then show ?thesis by (rule reset_ok [OF ok]) simp
next
  case (OpResetRelationship t1 t2 n)
  then obtain x c where "tx_reset K t2 ''reset_relationship_state'' RelationshipField c d = Inr (x, d')"
    using r by (auto simp: bforget_Inr tx_reset_relationship_def)
  then show ?thesis by (rule reset_ok [OF ok]) simp
next
  case (OpTrim k)
  then show ?thesis using r ok by (auto simp: bforget_Inr tx_trim_op_def tx_trim_def delete_chats_ok)
next
  case (OpImport now f)
  then show ?thesis using r ok by (auto simp: bforget_Inr tx_import_def dest: import_turns_ok)
qed

section \<open>Inside a transaction that was left open, and on a closed store\<close>

definition busy :: "'a action \<Rightarrow> bool" where
  "busy m \<longleftrightarrow> (\<forall>s. ls_txn s \<noteq> None \<longrightarrow> ls_db (snd (m s)) = ls_db s)"

lemma busy_begin: "busy (io_bind begin_immediate k)"
  by (auto simp: busy_def io_bind_def begin_immediate_def faulty_def split: list.splits fault.splits option.splits)

lemma busy_lift: "busy (io_lift r)" and busy_lift_bind: "(\<And>x. busy (k x)) \<Longrightarrow> busy (io_bind (io_lift r) k)"
  by (cases r; simp add: busy_def io_bind_def io_lift_def)+

lemma busy_connection: "busy m \<Longrightarrow> busy (io_bind connection (\<lambda>_. m))"
  by (simp add: busy_def io_bind_def connection_def)

lemma busy_query:
  assumes "\<And>x. busy (k x)"
  shows "busy (io_bind (execute_sql (query q)) k)"
  using assms by (auto simp: busy_def io_bind_def execute_sql_def faulty_def statement_result_def query_def
      split: list.splits fault.splits option.splits)

lemma catching_db: "ls_db (snd (catching_sqlite m s)) = ls_db (snd (m s))" "ls_db (snd (catching_all m s)) = ls_db (snd (m s))"
  "ls_db (snd (catching_import m s)) = ls_db (snd (m s))"
  by (simp_all add: catching_sqlite_def catching_all_def catching_import_def split: prod.split sum.split storage_exn.split)

lemma busy_catching: "busy m \<Longrightarrow> busy (catching_sqlite m)" "busy m \<Longrightarrow> busy (catching_all m)" "busy m \<Longrightarrow> busy (catching_import m)"
  by (simp_all add: busy_def catching_db)

lemma busy_case_option: "busy a \<Longrightarrow> (\<And>x. busy (f x)) \<Longrightarrow> busy (case v of None \<Rightarrow> a | Some x \<Rightarrow> f x)"
  by (simp split: option.split)

lemma busy_case_status: "busy a \<Longrightarrow> busy b \<Longrightarrow> busy c \<Longrightarrow> busy (case v of TPending \<Rightarrow> a | TCompleted \<Rightarrow> b | TFailed \<Rightarrow> c)"
  by (simp split: turn_status.split)

lemmas busy_rules = busy_begin busy_lift busy_lift_bind busy_connection busy_query busy_catching busy_case_option busy_case_status

lemma busy_forget: "busy m \<Longrightarrow> busy (forget m)"
  by (simp add: busy_def forget_def split: prod.split sum.split) (metis snd_conv)

lemma run_op_busy: "busy (run_op K L o')"
proof (cases o')
  case (OpCommit now a)
  have "busy (commit_in_transaction K now p)" for p unfolding commit_in_transaction_def by (rule busy_begin)
  then show ?thesis unfolding OpCommit run_op.simps local_commit_turn_def by (intro busy_forget busy_rules)
next
  case (OpResetEmotional t1 t2 n)
  show ?thesis unfolding OpResetEmotional run_op.simps reset_emotional_state_def reset_state_field_def by (intro busy_forget busy_rules)
next
  case (OpResetRelationship t1 t2 n)
  show ?thesis unfolding OpResetRelationship run_op.simps reset_relationship_state_def reset_state_field_def
    by (intro busy_forget busy_rules)
qed (simp_all only: run_op.simps reserve_request_def release_request_def store_memory_def delete_history_def delete_memories_def
    privacy_delete_def trim_history_def import_legacy_fixture_def; intro busy_forget busy_rules)+

definition inert :: "'a action \<Rightarrow> bool" where
  "inert m \<longleftrightarrow> (\<forall>s. ls_closed s \<longrightarrow> (\<exists>e. fst (m s) = Inl e) \<and> snd (m s) = s)"

lemma inert_connection: "inert (io_bind connection k)"
  by (simp add: inert_def io_bind_def connection_def)

lemma inert_lift_bind: "(\<And>x. inert (k x)) \<Longrightarrow> inert (io_bind (io_lift r) k)"
  by (cases r) (simp_all add: inert_def io_bind_def io_lift_def)

lemma inert_read: "inert m \<Longrightarrow> inert (io_bind (sanitized_read m) k)"
  unfolding inert_def io_bind_def sanitized_read_def by (fastforce split: prod.splits sum.splits)

lemma inert_forget: "inert m \<Longrightarrow> inert (forget m)"
  unfolding inert_def forget_def by (fastforce split: prod.splits)

lemma run_op_inert: "inert (run_op K L o')"
proof (cases o')
  case (OpResetEmotional t1 t2 n)
  show ?thesis unfolding OpResetEmotional run_op.simps reset_emotional_state_def reset_state_field_def
    by (intro inert_forget inert_lift_bind inert_connection)
next
  case (OpResetRelationship t1 t2 n)
  show ?thesis unfolding OpResetRelationship run_op.simps reset_relationship_state_def reset_state_field_def
    by (intro inert_forget inert_lift_bind inert_connection)
qed (simp_all only: run_op.simps local_commit_turn_def reserve_request_def release_request_def store_memory_def delete_history_def
    delete_memories_def privacy_delete_def trim_history_def import_legacy_fixture_def;
    intro inert_forget inert_lift_bind inert_connection)+

text \<open>On an open store without a transaction the operation is the one of its function; otherwise the database stays.\<close>

lemma run_op_db:
  "ls_db (snd (run_op K L o' s)) = ls_db s
   \<or> (\<exists>d'. tx_op K L o' (ls_db s) = Inr ((), d') \<and> ls_db (snd (run_op K L o' s)) = d' \<and> fst (run_op K L o' s) = Inr ())"
proof (cases "ls_txn s = None \<and> \<not> ls_closed s")
  case True
  with run_op_transacts [of K L o'] have "tx_outcome s (run_op K L o' s) (tx_op K L o' (ls_db s))" by (simp add: transacts_def)
  then show ?thesis by (auto simp: tx_outcome_def unchanged_def)
next
  case False
  then show ?thesis using run_op_busy [of K L o'] run_op_inert [of K L o'] by (auto simp: busy_def inert_def)
qed

section \<open>Opening\<close>

text \<open>\<open>keeps I m\<close>: the property \<open>I\<close> of the database and of the working copy survives \<open>m\<close>, whatever fails.\<close>

definition holds_in :: "(database \<Rightarrow> bool) \<Rightarrow> lstore \<Rightarrow> bool" where
  "holds_in I s \<longleftrightarrow> I (ls_db s) \<and> (\<forall>d. ls_txn s = Some d \<longrightarrow> I d)"

definition keeps :: "(database \<Rightarrow> bool) \<Rightarrow> 'a action \<Rightarrow> bool" where
  "keeps I m \<longleftrightarrow> (\<forall>s. holds_in I s \<longrightarrow> holds_in I (snd (m s)))"

lemma keeps_bind: "keeps I m \<Longrightarrow> (\<And>x. keeps I (k x)) \<Longrightarrow> keeps I (io_bind m k)"
  by (simp add: keeps_def io_bind_def split: prod.split sum.split) (metis snd_conv)

lemma keeps_lift: "keeps I (io_lift r)"
  by (simp add: keeps_def)

lemma keeps_execute: "(\<And>d x d'. I d \<Longrightarrow> f d = Some (x, d') \<Longrightarrow> I d') \<Longrightarrow> keeps I (execute_sql f)"
  by (auto simp: keeps_def holds_in_def execute_sql_def faulty_def statement_result_def
      split: list.splits fault.splits option.splits)

lemma keeps_begin: "keeps I begin_immediate" and keeps_commit: "keeps I commit_sql"
  by (auto simp: keeps_def holds_in_def begin_immediate_def commit_sql_def faulty_def split: list.splits fault.splits option.splits)

lemma keeps_rolling_back:
  assumes "keeps I m"
  shows "keeps I (rolling_back m)"
proof -
  have "holds_in I (snd (m s)) \<Longrightarrow> holds_in I (snd (rolling_back m s))" for s
    by (cases "m s"; cases "fst (m s)") (auto simp: rolling_back_def holds_in_def)
  with assms show ?thesis by (simp add: keeps_def)
qed

text \<open>The rows of the tables of the application, without the bookkeeping of the schema.\<close>

definition rows_of :: "database \<Rightarrow> database" where
  "rows_of d = d\<lparr>db_tables := [], db_migrations := []\<rparr>"

lemma keeps_rows_execute:
  "(\<And>d x d'. f d = Some (x, d') \<Longrightarrow> rows_of d' = rows_of d) \<Longrightarrow> keeps (\<lambda>d. rows_of d = R) (execute_sql f)"
  by (rule keeps_execute) simp

lemma rows_statements:
  "query q d = Some (x, d') \<Longrightarrow> rows_of d' = rows_of d" "create_object n d = Some (y, d') \<Longrightarrow> rows_of d' = rows_of d"
  "insert_version v d = Some (y, d') \<Longrightarrow> rows_of d' = rows_of d" "command bootstrap d = Some (y, d') \<Longrightarrow> rows_of d' = rows_of d"
  by (auto simp: query_def create_object_def insert_version_def command_def bootstrap_def rows_of_def split: if_splits)

lemma keeps_create_objects: "keeps (\<lambda>d. rows_of d = R) (create_objects ns)"
  by (induction ns) (auto intro!: keeps_bind keeps_lift keeps_rows_execute intro: rows_statements)

lemma keeps_migrations: "keeps (\<lambda>d. rows_of d = R) (apply_migrations vs)"
  by (induction vs)
    (auto intro!: keeps_bind keeps_lift keeps_begin keeps_commit keeps_rolling_back keeps_create_objects keeps_rows_execute
      intro: rows_statements)

lemma keeps_run_migrations: "keeps (\<lambda>d. rows_of d = R) run_migrations"
  unfolding run_migrations_def
  by (auto intro!: keeps_bind keeps_lift keeps_migrations keeps_rows_execute intro: rows_statements)

lemma keeps_new_connection: "keeps (\<lambda>d. rows_of d = R) (new_connection ok)"
  unfolding new_connection_def by (auto intro!: keeps_bind keeps_lift keeps_rows_execute intro: rows_statements)

text \<open>No transaction is open before the recovery, and a successful recovery has failed every pending turn.\<close>

definition closes :: "'a action \<Rightarrow> bool" where
  "closes m \<longleftrightarrow> (\<forall>s x s'. ls_txn s = None \<longrightarrow> m s = (Inr x, s') \<longrightarrow> ls_txn s' = None)"

lemma closesD: "closes m \<Longrightarrow> ls_txn s = None \<Longrightarrow> m s = (Inr x, s') \<Longrightarrow> ls_txn s' = None"
  unfolding closes_def by blast

lemma closes_bind:
  assumes "closes m" and "\<And>x. closes (k x)"
  shows "closes (io_bind m k)"
  unfolding closes_def
proof (intro allI impI)
  fix s y s'
  assume n: "ls_txn s = None" and b: "io_bind m k s = (Inr y, s')"
  from b obtain x s1 where m: "m s = (Inr x, s1)" and k: "k x s1 = (Inr y, s')" by (rule io_bind_InrE)
  show "ls_txn s' = None" by (rule closesD [OF assms(2) closesD [OF assms(1) n m] k])
qed

lemma closes_lift: "closes (io_lift r)" and closes_execute: "closes (execute_sql f)"
  by (auto simp: closes_def io_lift_def execute_sql_def faulty_def statement_result_def
      split: list.splits fault.splits option.splits)

lemma rolling_back_Inr: "rolling_back m s = (Inr x, s') \<Longrightarrow> m s = (Inr x, s')"
  by (cases "m s"; cases "fst (m s)") (auto simp: rolling_back_def)

lemma commit_sql_Inr: "commit_sql s = (Inr x, s') \<Longrightarrow> ls_txn s' = None"
  by (auto simp: commit_sql_def faulty_def split: list.splits fault.splits option.splits)

lemma closes_apply_migrations: "closes (apply_migrations vs)"
proof (induction vs)
  case (Cons v vs)
  show ?case
    unfolding apply_migrations.simps closes_def
  proof (intro allI impI)
    fix s x s'
    assume "io_bind begin_immediate (\<lambda>_. io_bind (rolling_back (
       io_bind (create_objects (case migration_sql v of None \<Rightarrow> [] | Some ns \<Rightarrow> ns)) (\<lambda>_.
       io_bind (execute_sql (insert_version v)) (\<lambda>_. commit_sql)))) (\<lambda>_. apply_migrations vs)) s = (Inr x, s')"
    then obtain y s1 where "io_bind (rolling_back (
       io_bind (create_objects (case migration_sql v of None \<Rightarrow> [] | Some ns \<Rightarrow> ns)) (\<lambda>_.
       io_bind (execute_sql (insert_version v)) (\<lambda>_. commit_sql)))) (\<lambda>_. apply_migrations vs) s1 = (Inr x, s')"
      by (rule io_bind_InrE)
    then obtain y' s2 where "rolling_back (io_bind (create_objects (case migration_sql v of None \<Rightarrow> [] | Some ns \<Rightarrow> ns)) (\<lambda>_.
       io_bind (execute_sql (insert_version v)) (\<lambda>_. commit_sql))) s1 = (Inr y', s2)" and r: "apply_migrations vs s2 = (Inr x, s')"
      by (rule io_bind_InrE)
    from rolling_back_Inr [OF this(1)] obtain z s3 where "io_bind (execute_sql (insert_version v)) (\<lambda>_. commit_sql) s3 = (Inr y', s2)"
      by (rule io_bind_InrE)
    then obtain z' s4 where "commit_sql s4 = (Inr y', s2)" by (rule io_bind_InrE)
    then have "ls_txn s2 = None" by (rule commit_sql_Inr)
    from closesD [OF Cons this r] show "ls_txn s' = None" .
  qed
qed (simp add: closes_lift)

lemma closes_before_recovery: "closes run_migrations" "closes (new_connection ok)"
  unfolding run_migrations_def new_connection_def
  by (auto intro!: closes_bind closes_lift closes_execute closes_apply_migrations)

lemma recover_transacts: "ls_txn s = None \<Longrightarrow>
   fst (recover_interrupted_turns s) = Inl LSqliteError \<and> ls_db (snd (recover_interrupted_turns s)) = ls_db s
     \<and> ls_txn (snd (recover_interrupted_turns s)) = None \<and> ls_faults s \<noteq> []
   \<or> fst (recover_interrupted_turns s) = Inr () \<and> ls_db (snd (recover_interrupted_turns s)) = fail_pending (ls_db s)
     \<and> ls_txn (snd (recover_interrupted_turns s)) = None"
  by (auto simp: recover_interrupted_turns_def io_bind_def begin_immediate_def commit_sql_def execute_sql_def statement_result_def
      command_def rollback_sql_def faulty_def split: list.splits fault.splits)

lemma rows_of_fail_pending: "rows_of (fail_pending d) = fail_pending (rows_of d)"
  by (simp add: rows_of_def fail_pending_def)

lemma open_outcome:
  assumes "open_local_storage d parent_ok connect_ok faults = (r, s)"
  shows "case r of
      Inl e \<Rightarrow> rows_of (ls_db s) = rows_of d
    | Inr _ \<Rightarrow> rows_of (ls_db s) = fail_pending (rows_of d) \<and> ls_txn s = None"
proof -
  let ?s0 = "\<lparr>ls_db = d, ls_txn = None, ls_closed = False, ls_faults = faults\<rparr>"
  let ?pre = "io_bind (io_lift (guard parent_ok (LPersistenceError (u ''storage_unavailable'')))) (\<lambda>_.
     io_bind (new_connection connect_ok) (\<lambda>_. run_migrations))"
  have split: "io_bind (io_lift (guard parent_ok (LPersistenceError (u ''storage_unavailable'')))) (\<lambda>_.
           io_bind (new_connection connect_ok) (\<lambda>_. io_bind run_migrations (\<lambda>_. recover_interrupted_turns)))
      = io_bind ?pre (\<lambda>_. recover_interrupted_turns)"
    by (simp add: fun_eq_iff io_bind_def split: prod.split sum.split)
  have "keeps (\<lambda>d'. rows_of d' = rows_of d) ?pre"
    by (intro keeps_bind keeps_lift keeps_new_connection keeps_run_migrations)
  moreover have "holds_in (\<lambda>d'. rows_of d' = rows_of d) ?s0" by (simp add: holds_in_def)
  ultimately have k: "rows_of (ls_db (snd (?pre ?s0))) = rows_of d" unfolding keeps_def holds_in_def by blast
  have c: "closes ?pre" by (intro closes_bind closes_lift closes_before_recovery)
  obtain q s1 where p: "?pre ?s0 = (q, s1)" by fastforce
  show ?thesis
  proof (cases q)
    case (Inl e)
    then show ?thesis using assms p k unfolding open_local_storage_def open_and_migrate_def split by (auto simp: io_bind_def)
  next
    case (Inr x)
    then have "ls_txn s1 = None" using closesD [OF c, of ?s0] p by simp
    from recover_transacts [OF this] show ?thesis
      using assms p k Inr unfolding open_local_storage_def open_and_migrate_def split
      by (cases "recover_interrupted_turns s1") (auto simp: io_bind_def rows_of_fail_pending)
  qed
qed

lemma turn_ok_rows: "turn_ok (rows_of d) = turn_ok d"
  by (simp add: fun_eq_iff rows_of_def turn_ok_def message_in_def history_generation_of_def revision_of_def cong: turn_status.case_cong)

lemma db_ok_rows: "db_ok (rows_of d) \<longleftrightarrow> db_ok d"
  by (simp add: db_ok_def ledger_ok_def turn_ok_rows) (simp add: rows_of_def revision_of_def chats_ok_def outbox_ok_def memories_ok_def positive_revisions_def)

lemma fail_pending_ok:
  assumes "db_ok d"
  shows "db_ok (fail_pending d)"
proof -
  have id: "tn_request_id (interrupt t) = tn_request_id t" "tn_committed_revision (interrupt t) = tn_committed_revision t" for t
    by (simp_all add: interrupt_def)
  have "turn_ok (fail_pending d) (interrupt t)" if "t \<in> set (db_turns d)" for t
    using assms that by (cases "tn_status t")
      (auto simp: db_ok_def ledger_ok_def fail_pending_def turn_ok_frame turn_ok_def interrupt_def)
  then have "ledger_ok (fail_pending d)"
    using assms by (simp add: db_ok_def ledger_ok_def fail_pending_def positive_revisions_def id o_def)
  moreover have "outbox_ok (fail_pending d)"
    using assms by (fastforce simp: db_ok_def outbox_ok_def fail_pending_def interrupt_def)
  ultimately show ?thesis
    using assms by (simp add: db_ok_def chats_ok_def memories_ok_def fail_pending_def revision_of_def)
qed

section \<open>Histories of the store\<close>

text \<open>
  A step: an operation, a change of what will fail, the closing of the store, or a restart of the application: the process
  ends at any moment, and the database file is opened again.
\<close>

inductive local_step :: "local_codec \<Rightarrow> legacy_codec \<Rightarrow> lstore \<Rightarrow> lstore \<Rightarrow> bool" for K L where
  step_op: "local_step K L s (snd (run_op K L o' s))"
| step_faults: "local_step K L s (s\<lparr>ls_faults := fs\<rparr>)"
| step_close: "local_step K L s (snd (close_store s))"
| step_restart: "local_step K L s (snd (open_local_storage (ls_db s) parent_ok connect_ok fs))"

inductive_cases local_stepE: "local_step K L s t"

definition fresh_store :: "lstore \<Rightarrow> bool" where
  "fresh_store s \<longleftrightarrow> (\<exists>parent_ok connect_ok fs. s = snd (open_local_storage fresh_database parent_ok connect_ok fs))"

lemma open_ok: "db_ok d \<Longrightarrow> db_ok (ls_db (snd (open_local_storage d parent_ok connect_ok fs)))"
proof -
  assume ok: "db_ok d"
  obtain r s where o: "open_local_storage d parent_ok connect_ok fs = (r, s)" by fastforce
  from open_outcome [OF o] have "rows_of (ls_db s) \<in> {rows_of d, fail_pending (rows_of d)}" by (cases r) auto
  then have "db_ok (rows_of (ls_db s))" using ok db_ok_rows [of d] fail_pending_ok [of "rows_of d"] unfolding insert_iff empty_iff by metis
  then show ?thesis using o by (simp add: db_ok_rows)
qed

lemma fresh_ok: "db_ok fresh_database"
  by (simp add: db_ok_def fresh_database_def chats_ok_def ledger_ok_def outbox_ok_def memories_ok_def positive_revisions_def revision_of_def)

interpretation local_inv: inductive_invariant fresh_store "local_step K L" "\<lambda>s. db_ok (ls_db s)" for K L
proof unfold_locales
  show "fresh_store s \<Longrightarrow> db_ok (ls_db s)" for s by (auto simp: fresh_store_def intro: open_ok fresh_ok)
next
  show "db_ok (ls_db s) \<Longrightarrow> local_step K L s t \<Longrightarrow> db_ok (ls_db t)" for s t
  proof (erule local_stepE)
    fix o'
    assume ok: "db_ok (ls_db s)" and t: "t = snd (run_op K L o' s)"
    show "db_ok (ls_db t)" using run_op_db [of K L o' s] tx_op_ok [OF ok] ok unfolding t by auto
  qed (auto simp: close_store_def open_ok)
qed

end
