(* ===== verification/Local_Properties.thy ===== *)
theory Local_Properties
  imports Local_Invariant
begin

text \<open>
  The properties of the local store that span its operations: refinement of the pure functions, the invariant of every
  reachable database, the exact effect of a commit, replay, the fence of a deleted history, and repeated imports.
\<close>

definition idle :: "database \<Rightarrow> fault list \<Rightarrow> lstore" where
  "idle d fs = \<lparr>ls_db = d, ls_txn = None, ls_closed = False, ls_faults = fs\<rparr>"

lemma idle_simps [simp]: "ls_db (idle d fs) = d" "ls_txn (idle d fs) = None" "\<not> ls_closed (idle d fs)" "ls_faults (idle d fs) = fs"
  by (simp_all add: idle_def)

lemma transacts_idle: "transacts m f \<Longrightarrow> tx_outcome (idle d fs) (m (idle d fs)) (f d)"
  unfolding transacts_def by (drule spec [of _ "idle d fs"]) simp

section \<open>The privacy log only grows\<close>

lemma record_privacy_log:
  "tx_record K op result d = Inr (x, d') \<Longrightarrow> \<exists>t. d' = d\<lparr>db_privacy := db_privacy d @ [\<lparr>pv_operation = u op, pv_result = t\<rparr>]\<rparr>"
  by (auto simp: tx_record_def bstmt_def insert_privacy_def split: if_splits)

lemma events_privacy: "tx_events K r es d = Inr (x, d') \<Longrightarrow> db_privacy d' = db_privacy d"
  by (induction es arbitrary: d) (auto simp: bstmt_def insert_outbox_def split: if_splits option.splits)

lemma write_privacy:
  assumes "tx_write K now p d = Inr (ct, d')" and "find_turn (lm_request_id (pc_commit p)) d = Some t"
  shows "db_privacy d' = db_privacy d"
  using assms
proof (rule tx_write_effect)
  fix es rs rp pf ob
  assume "tx_events K (lm_request_id (pc_commit p)) (lm_outbox_events (pc_commit p))
       ((add_messages (lm_user_message (pc_commit p)) (lm_assistant_message (pc_commit p)) now d)
         \<lparr>db_profile := Some pf, db_turns := committed_turns (completed_row p rp (revision_of d) (revision_of d + 1) (db_chat_seq d + 1)) (db_turns d)\<rparr>)
       = Inr ((), d')"
  from events_privacy [OF this] show ?thesis by (simp add: add_messages_def)
qed

lemma commit_op_cases:
  assumes "tx_commit_op K now a d = Inr (ct, d')"
  obtains (Replay) p t where "prepare_commit_turn K a = Inr p" "find_turn (lm_request_id (pc_commit p)) d = Some t"
      "tn_status t = TCompleted" "tn_payload_hash t = pc_hash p" "committed_from_row K t = Inr ct" "d' = d"
  | (Fresh) p t where "prepare_commit_turn K a = Inr p" "find_turn (lm_request_id (pc_commit p)) d = Some t"
      "tn_status t = TPending" "pc_generation p = history_generation_of d"
      "tn_payload_hash t = reservation_marker (history_generation_of d)" "tx_write K now p d = Inr (ct, d')"
proof -
  obtain p where p: "prepare_commit_turn K a = Inr p" and r: "(case find_turn (lm_request_id (pc_commit p)) d of
       Some t \<Rightarrow>
         if tn_status t = TCompleted then blift (replay_committed K p t) d
         else if tn_status t = TFailed then Inl (commit_conflict p ''request_replay_unavailable'')
         else tx_commit K now p d
     | None \<Rightarrow> tx_commit K now p d) = Inr (ct, d')"
    using assms by (auto simp: tx_commit_op_def)
  obtain t where t: "find_turn (lm_request_id (pc_commit p)) d = Some t"
    using r by (cases "find_turn (lm_request_id (pc_commit p)) d") (auto simp: tx_commit_def)
  show thesis
  proof (cases "tn_status t = TCompleted")
    case True
    then show ?thesis using Replay [OF p t True] r t by (auto simp: blift_def replay_committed_def split: if_splits)
  next
    case False
    then show ?thesis using Fresh [OF p t] r t by (auto simp: tx_commit_def split: if_splits)
  qed
qed

lemma update_field_privacy: "bstmt (update_profile_field f t rv) d = Inr (n, d') \<Longrightarrow> db_privacy d' = db_privacy d"
  by (auto simp: bstmt_def update_profile_field_def split: option.splits if_splits)

lemma neutral_profile_privacy: "tx_neutral_profile K tm f c rv d = Inr (n, d') \<Longrightarrow> db_privacy d' = db_privacy d"
  by (auto simp: tx_neutral_profile_def bstmt_def upsert_profile_def split: if_splits)

lemma reset_privacy:
  assumes "tx_reset K tm op f c d = Inr (x, d')"
  shows "\<exists>xs. db_privacy d' = db_privacy d @ xs"
proof -
  obtain t n d1 y d2 where s: "bstmt (update_profile_field f t (revision_of d + 1)) d = Inr (n, d1)"
    "(if n = 0 then tx_neutral_profile K tm f c (revision_of d + 1) d1 else Inr ((), d1)) = Inr (y, d2)"
    "tx_record K op (applied [(''revision'', revision_of d + 1)]) d2 = Inr (x, d')"
    using assms by (auto simp: tx_reset_def Let_def)
  have "db_privacy d2 = db_privacy d"
    using update_field_privacy [OF s(1)] s(2) neutral_profile_privacy [of K tm f c "revision_of d + 1" d1 y d2] by (auto split: if_splits)
  then show ?thesis using record_privacy_log [OF s(3)] by auto
qed

lemma import_privacy: "tx_import_turns L now ts i j d = Inr (x, d') \<Longrightarrow> db_privacy d' = db_privacy d"
proof (induction ts arbitrary: i j d)
  case (Cons t ts)
  have "tx_import_turn L now t d = Inr (y, d1) \<Longrightarrow> db_privacy d1 = db_privacy d" for y d1
    by (auto simp: tx_import_turn_def Let_def bstmt_def insert_turn_def split: if_splits)
  with Cons show ?case by (fastforce split: option.splits)
qed simp

lemma tx_op_privacy:
  assumes r: "tx_op K L o' d = Inr ((), d')"
  shows "\<exists>xs. db_privacy d' = db_privacy d @ xs"
proof (cases o')
  case (OpCommit now a)
  then obtain ct where "tx_commit_op K now a d = Inr (ct, d')" using r by (auto simp: bforget_Inr)
  then show ?thesis by (cases rule: commit_op_cases) (simp_all add: write_privacy)
next
  case (OpReserve rq m)
  then show ?thesis using r
    by (auto simp: bforget_Inr tx_reserve_op_def tx_reserve_def bbind_def bstmt_def blift_def insert_reservation_def split: option.splits)
next
  case (OpRelease rq g)
  then show ?thesis using r by (auto simp: bforget_Inr tx_release_op_def tx_release_def delete_turns_def Let_def)
next
  case (OpStoreMemory now c m)
  then show ?thesis using r
    by (auto simp: bforget_Inr tx_store_memory_op_def tx_store_memory_def bstmt_def insert_memory_def Let_def split: if_splits)
next
  case OpDeleteHistory
  then show ?thesis using r by (auto simp: bforget_Inr tx_delete_history_def dest!: record_privacy_log)
next
  case OpDeleteMemories
  then show ?thesis using r by (auto simp: bforget_Inr tx_delete_memories_def dest!: record_privacy_log)
next
  case (OpResetEmotional t1 t2 n)
  then show ?thesis using r by (auto simp: bforget_Inr tx_reset_emotional_def dest!: reset_privacy)
next
  case (OpResetRelationship t1 t2 n)
  then show ?thesis using r by (auto simp: bforget_Inr tx_reset_relationship_def dest!: reset_privacy)
next
  case (OpTrim k)
  then show ?thesis using r by (auto simp: bforget_Inr tx_trim_op_def tx_trim_def delete_chats_def delete_turns_def Let_def)
next
  case (OpImport now f)
  then show ?thesis using r by (auto simp: bforget_Inr tx_import_def dest: import_privacy)
qed

lemma generation_mono_op: "history_generation_of (ls_db s) \<le> history_generation_of (ls_db (snd (run_op K L o' s)))"
  using run_op_db [of K L o' s] tx_op_privacy [of K L o' "ls_db s"] by (fastforce simp: history_generation_of_def)

lemma generation_rows: "history_generation_of (rows_of d) = history_generation_of d"
  "history_generation_of (fail_pending d) = history_generation_of d"
  by (simp_all add: history_generation_of_def rows_of_def fail_pending_def)

lemma generation_mono_step: "local_step K L s t \<Longrightarrow> history_generation_of (ls_db s) \<le> history_generation_of (ls_db t)"
proof (erule local_stepE)
  fix parent_ok connect_ok fs
  assume t: "t = snd (open_local_storage (ls_db s) parent_ok connect_ok fs)"
  obtain r s' where o: "open_local_storage (ls_db s) parent_ok connect_ok fs = (r, s')" by fastforce
  from open_outcome [OF o] have "history_generation_of (rows_of (ls_db s')) = history_generation_of (ls_db s)"
    by (cases r) (simp_all add: generation_rows)
  then show ?thesis using t o by (simp add: generation_rows)
qed (simp_all add: generation_mono_op close_store_def)

interpretation generation_fence: inductive_invariant "\<lambda>s. g < history_generation_of (ls_db s)" "local_step K L"
  "\<lambda>s. g < history_generation_of (ls_db s)" for g K L
  by unfold_locales (auto dest: generation_mono_step)

section \<open>Commit, repetition and replay\<close>

lemma prepare_commit_facts:
  assumes "prepare_commit_turn K a = Inr p"
  shows "la_request_id a = PStr (lm_request_id (pc_commit p))" and "la_history_generation a = PInt (pc_generation p)"
    and "la_replay_payload a = lm_replay_payload (pc_commit p)" and "as_mapping (la_replay_payload a) = Some (pc_replay p)"
    and "local_validate_request_id (la_request_id a) = Inr (lm_request_id (pc_commit p))"
    and "la_user_message a = PStr (lm_user_message (pc_commit p))"
    and "local_validate_message (la_user_message a) = Inr (lm_user_message (pc_commit p))"
  using assms
  by (auto simp: prepare_commit_turn_def Let_def local_validate_request_id_def validate_generation_def local_validate_message_def
      split: pyobj.splits option.splits)

lemma events_append: "tx_events K r es d = Inr (x, d') \<Longrightarrow> \<exists>ob. d' = d\<lparr>db_outbox := db_outbox d @ ob\<rparr>"
proof (induction es arbitrary: d)
  case Nil
  then show ?case by (intro exI [of _ "[]"]) simp
next
  case (Cons e es)
  obtain t p k where e: "e = (t, p, k)" using prod_cases3 by blast
  from Cons.prems obtain y d1 where "bstmt (insert_outbox (lk_json_valid K) t k r y) d = Inr ((), d1)" and r: "tx_events K r es d1 = Inr (x, d')"
    by (auto simp: e)
  then obtain ob where "d1 = d\<lparr>db_outbox := db_outbox d @ ob\<rparr>"
    by (auto simp: bstmt_def insert_outbox_def split: if_splits option.splits intro: that [of "[]"])
  moreover obtain ob' where "d' = d1\<lparr>db_outbox := db_outbox d1 @ ob'\<rparr>" using Cons.IH [OF r] by blast
  ultimately show ?case by (intro exI [of _ "ob @ ob'"]) simp
qed

text \<open>The database after a commit of the prepared turn \<open>p\<close> with the replay text \<open>rp\<close>, the profile \<open>pf\<close> and the events \<open>ob\<close>.\<close>

definition committed_db :: "pystr \<Rightarrow> prepared_commit \<Rightarrow> pystr \<Rightarrow> profile_row \<Rightarrow> outbox_row list \<Rightarrow> database \<Rightarrow> database" where
  "committed_db now p rp pf ob d =
     (add_messages (lm_user_message (pc_commit p)) (lm_assistant_message (pc_commit p)) now d)
       \<lparr>db_profile := Some pf,
        db_turns := committed_turns (completed_row p rp (revision_of d) (revision_of d + 1) (db_chat_seq d + 1)) (db_turns d),
        db_outbox := db_outbox d @ ob\<rparr>"

lemma tx_write_committed:
  assumes "tx_write K now p d = Inr (ct, d')" and "find_turn (lm_request_id (pc_commit p)) d = Some t"
  obtains es rs rp pf ob where
    "pc_expected p \<in> {None, Some (revision_of d)}"
    "lk_dumps K (lm_emotional_state (pc_commit p)) = Some es" "lk_dumps K (lm_relationship_state (pc_commit p)) = Some rs"
    "lk_dumps K (lm_replay_payload (pc_commit p)) = Some rp"
    "pf_revision pf = revision_of d + 1" "pf_emotional_state pf = es" "pf_relationship_state pf = rs"
    "d' = committed_db now p rp pf ob d"
    "ct = committed_of K (lm_request_id (pc_commit p)) (revision_of d + 1) (db_chat_seq d + 1) (db_chat_seq d + 1 + 1) (pc_replay p)"
  using assms
proof (rule tx_write_effect)
  fix es rs rp pf ob
  assume a: "pc_expected p = None \<or> pc_expected p = Some (revision_of d)"
    "lk_dumps K (lm_emotional_state (pc_commit p)) = Some es" "lk_dumps K (lm_relationship_state (pc_commit p)) = Some rs"
    "lk_dumps K (lm_replay_payload (pc_commit p)) = Some rp"
    "pf_revision pf = revision_of d + 1" "pf_emotional_state pf = es" "pf_relationship_state pf = rs"
    "ct = committed_of K (lm_request_id (pc_commit p)) (revision_of d + 1) (db_chat_seq d + 1) (db_chat_seq d + 1 + 1) (pc_replay p)"
    and e: "tx_events K (lm_request_id (pc_commit p)) (lm_outbox_events (pc_commit p))
       ((add_messages (lm_user_message (pc_commit p)) (lm_assistant_message (pc_commit p)) now d)
         \<lparr>db_profile := Some pf, db_turns := committed_turns (completed_row p rp (revision_of d) (revision_of d + 1) (db_chat_seq d + 1)) (db_turns d)\<rparr>)
       = Inr ((), d')"
  obtain ob' where "d' = committed_db now p rp pf ob' d"
    using events_append [OF e] by (auto simp: committed_db_def add_messages_def)
  with a show thesis by (intro that [of es rs rp pf ob']) auto
qed

lemma find_committed:
  "List.find (\<lambda>t. tn_request_id t = tn_request_id c) ts = Some t \<Longrightarrow>
   List.find (\<lambda>t. tn_request_id t = tn_request_id c) (committed_turns c ts) = Some (c\<lparr>tn_error_code := tn_error_code t\<rparr>)"
  by (induction ts) (auto simp: committed_turns_def split: if_splits)

lemma find_new_message:
  assumes "chats_ok d"
  shows "map_option cr_content (find_chat (Some (db_chat_seq d + 1)) (add_messages um am now d)) = Some um"
proof -
  have "List.find (\<lambda>c. Some (cr_id c) = Some (db_chat_seq d + 1)) (xs @ ys) = List.find (\<lambda>c. Some (cr_id c) = Some (db_chat_seq d + 1)) ys"
    if "\<forall>c \<in> set xs. cr_id c \<le> db_chat_seq d" for xs ys :: "chat_row list" using that by (induction xs) auto
  moreover have "\<forall>c \<in> set (db_chat_logs d). cr_id c \<le> db_chat_seq d" using assms by (simp add: chats_ok_def)
  ultimately show ?thesis by (simp add: find_chat_def add_messages_def)
qed

section \<open>Properties\<close>




text \<open>Reads of an idle store without faults.\<close>

lemma query_idle: "execute_sql (query q) (idle d []) = (Inr (q d), idle d [])"
  by (simp add: execute_sql_def faulty_def statement_result_def query_def idle_def)

lemma connection_idle: "connection (idle d fs) = (Inr (), idle d fs)"
  by (simp add: connection_def)

text \<open>
  What the replay needs of the JSON functions on one replay payload: the stored text is read back as a dict with the
  same public fields.
\<close>

definition reads_back :: "local_codec \<Rightarrow> pyobj \<Rightarrow> (pyobj \<times> pyobj) list \<Rightarrow> bool" where
  "reads_back K payload d \<longleftrightarrow> (\<exists>t d'. lk_dumps K payload = Some t \<and> t \<noteq> [] \<and> lk_loads K t = Some (PDict d')
     \<and> (\<forall>k \<in> set [''response'', ''emotion_state'', ''message_id'']. map_of d' (PStr (u k)) = map_of d (PStr (u k))))"

lemma committed_row_reads_back:
  assumes "lk_dumps K payload = Some rp" and "reads_back K payload d"
    and "tn_replay_payload t = Some rp" "tn_committed_revision t = Some rv" "tn_user_log t = Some i" "tn_assistant_log t = Some j"
  shows "committed_from_row K t = Inr (committed_of K (tn_request_id t) rv i j d)"
proof -
  obtain d' where d': "rp \<noteq> []" "lk_loads K rp = Some (PDict d')"
    "\<forall>k \<in> set [''response'', ''emotion_state'', ''message_id'']. map_of d' (PStr (u k)) = map_of d (PStr (u k))"
    using assms(1,2) by (auto simp: reads_back_def)
  have "committed_of K (tn_request_id t) rv i j d' = committed_of K (tn_request_id t) rv i j d"
    using d'(3) by (simp add: committed_of_def get_or_def)
  then show ?thesis using assms(3-6) d'(1,2) by (simp add: committed_from_row_def loads_or_empty_def or_zero_def)
qed

lemma committed_db_row:
  assumes "find_turn (lm_request_id (pc_commit p)) d = Some t" and "chats_ok d"
  shows "find_turn (lm_request_id (pc_commit p)) (committed_db now p rp pf ob d)
      = Some (completed_row p rp (revision_of d) (revision_of d + 1) (db_chat_seq d + 1)\<lparr>tn_error_code := tn_error_code t\<rparr>)"
    and "map_option cr_content (find_chat (Some (db_chat_seq d + 1)) (committed_db now p rp pf ob d)) = Some (lm_user_message (pc_commit p))"
proof -
  let ?c = "completed_row p rp (revision_of d) (revision_of d + 1) (db_chat_seq d + 1)"
  have "tn_request_id ?c = lm_request_id (pc_commit p)" by (simp add: completed_row_def)
  then show "find_turn (lm_request_id (pc_commit p)) (committed_db now p rp pf ob d) = Some (?c\<lparr>tn_error_code := tn_error_code t\<rparr>)"
    using assms(1) find_committed [of ?c "db_turns d" t] by (simp add: find_turn_def committed_db_def)
  show "map_option cr_content (find_chat (Some (db_chat_seq d + 1)) (committed_db now p rp pf ob d)) = Some (lm_user_message (pc_commit p))"
    using find_new_message [OF assms(2)] by (simp add: committed_db_def find_chat_def)
qed


lemma stale_commit_fenced:
  assumes "la_history_generation a = PInt g" and "g < history_generation_of (ls_db t)"
  shows "ls_db (snd (local_commit_turn K now a t)) = ls_db t"
proof -
  have "\<not> (\<exists>ct d'. tx_commit_op K now a (ls_db t) = Inr (ct, d') \<and> d' \<noteq> ls_db t)"
  proof (intro notI, elim exE conjE)
    fix ct d'
    assume "tx_commit_op K now a (ls_db t) = Inr (ct, d')" and "d' \<noteq> ls_db t"
    then show False using assms by (cases rule: commit_op_cases) (auto dest: prepare_commit_facts(2))
  qed
  moreover have "snd (run_op K L (OpCommit now a) t) = snd (local_commit_turn K now a t)" for L
    by (simp add: forget_def split: prod.split sum.split)
  ultimately show ?thesis using run_op_db [of K undefined "OpCommit now a" t] by (auto simp: bforget_Inr)
qed

text \<open>C23: deleting the history is final.  After \<open>delete_history\<close> returned there is no message, no ledger row and no outbox event; and a turn
  that was admitted before the deletion can never be committed afterwards: whatever operations, crashes and restarts follow, a commit that
  carries a history generation of before the deletion leaves the database as it is.\<close>

theorem history_deletion_final:
  assumes "delete_history K (idle d fs) = (Inr x, s)" and "g \<le> history_generation_of d"
    and "(local_step K L)\<^sup>*\<^sup>* s t" and "la_history_generation a = PInt g"
  shows "db_chat_logs (ls_db s) = [] \<and> db_turns (ls_db s) = [] \<and> db_outbox (ls_db s) = []
    \<and> ls_db (snd (local_commit_turn K now a t)) = ls_db t"
proof -
  have "tx_delete_history K d = Inr (x, ls_db s)"
    using transacts_idle [OF delete_history_transacts [of K], of d fs] assms(1) by (auto simp: tx_outcome_def)
  then obtain y where s: "ls_db s = d\<lparr>db_chat_logs := [], db_turns := [], db_outbox := [],
      db_privacy := db_privacy d @ [\<lparr>pv_operation = u ''delete_history'', pv_result = y\<rparr>]\<rparr>"
    by (auto simp: tx_delete_history_def dest!: record_privacy_log)
  then have "g < history_generation_of (ls_db s)" using assms(2) by (simp add: history_generation_of_def)
  then have "g < history_generation_of (ls_db t)" using generation_fence.rtranclp_inv [OF assms(3)] by blast
  from stale_commit_fenced [OF assms(4) this] s show ?thesis by simp
qed

text \<open>After the import of a turn its id is found with its content hash, and later imports do not change that.\<close>

lemma import_turn_find:
  assumes "tx_import_turn L now t d = Inr (x, d')"
  shows "\<exists>row. legacy_hash L t = Inr (tn_payload_hash row) \<and> find_turn (lg_request_id t) d' = Some row
     \<and> (\<forall>r row'. find_turn r d = Some row' \<longrightarrow> find_turn r d' = Some row')"
proof -
  obtain h i j payload created where h: "legacy_hash L t = Inr h"
    and b: "bstmt (insert_turn (imported_row (lg_request_id t) h i j payload))
      (add_messages (lg_user_message t) (lg_assistant_message t) created d) = Inr (x, d')"
    using assms unfolding tx_import_turn_def Let_def add_messages_def by auto
  have d1: "db_turns (add_messages (lg_user_message t) (lg_assistant_message t) created d) = db_turns d" by (simp add: add_messages_def)
  let ?row = "imported_row (lg_request_id t) h i j payload"
  have d': "db_turns d' = db_turns d @ [?row]" and n: "find_turn (lg_request_id t) d = None"
    using b d1 by (auto simp: bstmt_def insert_turn_def imported_row_def find_turn_def split: if_splits)
  have a: "List.find P (xs @ ys) = (case List.find P xs of None \<Rightarrow> List.find P ys | Some z \<Rightarrow> Some z)" for P and xs ys :: "turn_row list"
    by (induction xs) auto
  show ?thesis using h d' n by (intro exI [of _ ?row]) (simp add: find_turn_def a imported_row_def)
qed

lemma import_turns_find:
  "tx_import_turns L now ts i j d = Inr (x, d') \<Longrightarrow>
     (\<forall>r row. find_turn r d = Some row \<longrightarrow> find_turn r d' = Some row)
   \<and> (\<forall>t \<in> set ts. bind_text (lg_request_id t) = Inr () \<and>
       (\<exists>row. legacy_hash L t = Inr (tn_payload_hash row) \<and> find_turn (lg_request_id t) d' = Some row))
   \<and> fst x + snd x = i + j + length ts"
proof (induction ts arbitrary: i j d)
  case (Cons t ts)
  show ?case
  proof (cases "find_turn (lg_request_id t) d")
    case None
    then obtain d1 where b: "bind_text (lg_request_id t) = Inr ()" and "tx_import_turn L now t d = Inr ((), d1)"
      and r: "tx_import_turns L now ts (i + 1) j d1 = Inr (x, d')"
      using Cons.prems by auto
    from import_turn_find [OF this(2)] Cons.IH [OF r] b show ?thesis by auto
  next
    case (Some row)
    then obtain h where "bind_text (lg_request_id t) = Inr ()" "legacy_hash L t = Inr h" "tn_payload_hash row = h"
      and r: "tx_import_turns L now ts i (j + 1) d = Inr (x, d')"
      using Cons.prems by auto
    with Cons.IH [OF r] Some show ?thesis by auto
  qed
qed auto

lemma import_again:
  assumes "\<forall>t \<in> set ts. bind_text (lg_request_id t) = Inr () \<and>
       (\<exists>row. legacy_hash L t = Inr (tn_payload_hash row) \<and> find_turn (lg_request_id t) d = Some row)"
  shows "tx_import_turns L now ts i j d = Inr ((i, j + length ts), d)"
  using assms by (induction ts arbitrary: j) auto

text \<open>C24: importing is idempotent.  After a successful import, importing the same fixture again succeeds, imports nothing, counts every turn of the
  first report as a duplicate, reports the same total and leaves the database unchanged.\<close>

theorem import_idempotent:
  assumes "import_legacy_fixture L now fixture (idle d fs) = (Inr rep, s)"
  shows "fst (import_legacy_fixture L later fixture (idle (ls_db s) [])) = Inr \<lparr>ir_imported_turns = 0,
      ir_skipped_duplicates = ir_imported_turns rep + ir_skipped_duplicates rep, ir_total_turns_after = ir_total_turns_after rep\<rparr>
    \<and> ls_db (snd (import_legacy_fixture L later fixture (idle (ls_db s) []))) = ls_db s"
proof -
  have "tx_import L now fixture d = Inr (rep, ls_db s)"
    using transacts_idle [OF import_transacts [of L now fixture], of d fs] assms by (auto simp: tx_outcome_def)
  then obtain turns i j where v: "validate_legacy_fixture (lgc_lower L) fixture = Inr turns"
    and t: "tx_import_turns L now turns 0 0 d = Inr ((i, j), ls_db s)"
    and rep: "rep = \<lparr>ir_imported_turns = i, ir_skipped_duplicates = j, ir_total_turns_after = length (db_turns (ls_db s))\<rparr>"
    by (auto simp: tx_import_def)
  note f = import_turns_find [OF t]
  have "tx_import_turns L later turns 0 0 (ls_db s) = Inr ((0, length turns), ls_db s)"
    using import_again [of turns L "ls_db s" later 0 0] f by auto
  then have "tx_import L later fixture (ls_db s) = Inr (\<lparr>ir_imported_turns = 0, ir_skipped_duplicates = i + j,
      ir_total_turns_after = length (db_turns (ls_db s))\<rparr>, ls_db s)"
    using v f by (simp add: tx_import_def)
  then show ?thesis
    using transacts_idle [OF import_transacts [of L later fixture], of "ls_db s" "[]"] rep by (auto simp: tx_outcome_def)
qed

section \<open>Operations that leave their transaction open\<close>

text \<open>
  The handlers of \<open>store_memory\<close> and \<open>trim_history\<close> catch database errors only.  A value that cannot be written as JSON
  or that does not fit 64 bits raises another exception after \<open>BEGIN IMMEDIATE\<close>: the transaction stays open, and the next
  \<open>delete_history\<close> of the connection fails with the raw database error.
\<close>

lemma delete_history_in_transaction: "\<not> ls_closed s \<Longrightarrow> ls_faults s = [] \<Longrightarrow> ls_txn s = Some d \<Longrightarrow> delete_history K s = (Inl LSqliteError, s)"
  by (simp add: delete_history_def io_bind_def connection_def begin_immediate_def faulty_def)

lemma store_memory_leaves_transaction:
  assumes "local_validate_message content = Inr m" and "as_mapping metadata \<noteq> None" and "lk_dumps K metadata = None"
  shows "\<exists>s. store_memory K now content metadata (idle d []) = (Inl (LValidationError (u ''invalid_payload'')), s) \<and> ls_txn s = Some d
    \<and> delete_history K s = (Inl LSqliteError, s)"
  using assms by (simp add: store_memory_def linvalid_def guard_def io_bind_def io_lift_def connection_def begin_immediate_def faulty_def
      catching_sqlite_def local_json_dumps_def delete_history_in_transaction)

lemma trim_history_leaves_transaction:
  assumes "(2::int) ^ 63 \<le> n"
  shows "\<exists>s. trim_history (PInt n) (idle d []) = (Inl LOverflowError, s) \<and> ls_txn s = Some d \<and> delete_history K s = (Inl LSqliteError, s)"
  using assms by (simp add: trim_history_def validate_keep_last_def linvalid_def guard_def io_bind_def io_lift_def connection_def begin_immediate_def faulty_def
      catching_sqlite_def execute_sql_def statement_result_def query_def bind_int_def delete_history_in_transaction)

text \<open>Trimming the messages of a turn also deletes its ledger row and its outbox events: a retry of the request is no longer a replay.\<close>

lemma trim_history_forgets_turns:
  assumes "trim_history (PInt 0) (idle d fs) = (Inr x, s)" and "db_ok d"
  shows "\<forall>t \<in> set (db_turns (ls_db s)). tn_status t \<noteq> TCompleted"
proof -
  have "tx_trim_op (PInt 0) d = Inr (x, ls_db s)"
    using transacts_idle [OF trim_history_transacts [of "PInt 0"], of d fs] assms(1) by (auto simp: tx_outcome_def)
  then have s: "ls_db s = delete_chats (\<lambda>c. cr_id c \<notin> last_ids 0 d) d"
    by (auto simp: tx_trim_op_def tx_trim_def validate_keep_last_def linvalid_def guard_def)
  show ?thesis using assms(2)
    by (auto simp: s delete_chats_def delete_turns_def Let_def last_ids_def ref_in_def db_ok_def ledger_ok_def turn_ok_def
        split: option.splits)
qed

section \<open>A concrete store\<close>

definition sample_replay :: "(pyobj \<times> pyobj) list" where
  "sample_replay = [(PStr (u ''response''), PStr (u ''hi'')), (PStr (u ''message_id''), PInt 1)]"

definition sample_local_codec :: local_codec where
  "sample_local_codec = \<lparr>lk_canon = sample_dumps, lk_dumps = sample_dumps, lk_loads = (\<lambda>_. Some (PDict sample_replay)),
     lk_sha256 = (\<lambda>_. u ''00''), lk_json_valid = (\<lambda>_. True), lk_str = (\<lambda>_. [])\<rparr>"

definition sample_legacy_codec :: legacy_codec where
  "sample_legacy_codec = \<lparr>lgc_lower = sample_lower, lgc_dumps = sample_dumps, lgc_hash_dumps = sample_dumps, lgc_sha256 = (\<lambda>_. u ''00'')\<rparr>"

definition sample_local_args :: local_args where
  "sample_local_args = \<lparr>la_request_id = PStr (u ''r1''), la_history_generation = PInt 0, la_user_message = PStr (u ''hello''),
     la_assistant_message = PStr (u ''hi''), la_emotional_state = EmotionalStateV1_to_dict calm_state,
     la_relationship_state = RelationshipStateV1_to_dict friend_state, la_public_response = PStr (u ''hi''),
     la_replay_payload = PDict sample_replay, la_outbox_events = PNone, la_expected_revision = PNone\<rparr>"

definition reserved_database :: database where
  "reserved_database = fresh_database\<lparr>db_turns := [\<lparr>tn_request_id = u ''r1'', tn_payload_hash = reservation_marker 0, tn_status = TPending,
     tn_expected_revision = 0, tn_committed_revision = None, tn_user_log = None, tn_assistant_log = None,
     tn_replay_payload = None, tn_error_code = None\<rparr>]\<rparr>"

lemma reserved_ok: "db_ok reserved_database"
  by (simp add: reserved_database_def db_ok_def fresh_database_def chats_ok_def ledger_ok_def outbox_ok_def memories_ok_def
      positive_revisions_def revision_of_def turn_ok_def history_generation_of_def or_zero_def)

lemma sample_prepare: "\<exists>p. prepare_commit_turn sample_local_codec sample_local_args = Inr p \<and> pc_commit p = \<lparr>lm_request_id = u ''r1'',
     lm_expected_revision = PNone, lm_user_message = u ''hello'', lm_assistant_message = u ''hi'',
     lm_emotional_state = EmotionalStateV1_to_dict calm_state, lm_relationship_state = RelationshipStateV1_to_dict friend_state,
     lm_public_response = u ''hi'', lm_replay_payload = PDict sample_replay, lm_outbox_events = []\<rparr>
   \<and> pc_generation p = 0 \<and> pc_expected p = None \<and> pc_hash p = u ''00'' \<and> pc_replay p = sample_replay"
proof -
  have e: "validate_emotional_snapshot sample_dumps (EmotionalStateV1_to_dict calm_state) = Inr ()"
  proof -
    obtain d where d: "EmotionalStateV1_to_dict calm_state = PDict d" by (simp add: EmotionalStateV1_to_dict_def)
    show ?thesis unfolding d
      by (rule emotional_parity [THEN iffD2, OF refl])
        (use emotional_snapshot_ok [OF valid_calm_state, of sample_dumps] in \<open>simp add: d sample_size MAX_REPLAY_PAYLOAD_BYTES_def\<close>)
  qed
  have r: "validate_relationship_snapshot sample_dumps (RelationshipStateV1_to_dict friend_state) = Inr ()"
  proof -
    obtain d where d: "RelationshipStateV1_to_dict friend_state = PDict d" by (simp add: RelationshipStateV1_to_dict_def)
    show ?thesis unfolding d
      by (rule relationship_inclusion [OF refl])
        (use relationship_snapshot_ok [OF valid_friend_state, of sample_dumps] in \<open>simp add: d sample_size MAX_REPLAY_PAYLOAD_BYTES_def\<close>)
  qed
  have p: "local_validate_replay_payload sample_dumps (PDict sample_replay) = Inr ()"
    by (simp add: local_validate_replay_payload_def accept_iff sample_replay_def sample_size local_key_sets local_has_forbidden_eq
        unknown_keys_def has_key_def dict_get_Cons LOCAL_MAX_REPLAY_PAYLOAD_BYTES_def FORBIDDEN_PAYLOAD_KEYS_def REPLAY_PAYLOAD_ALLOWED_KEYS_def)
  show ?thesis
    using e r p utf8_encode_ascii [of "u ''{}''"]
    by (simp add: prepare_commit_turn_def sample_local_codec_def sample_local_args_def local_validate_request_id_def
        validate_generation_def local_validate_message_def validate_public_response_def local_validate_outbox_events_def
        local_canonical_payload_hash_def canonical_json_def local_build_canonical_commit_payload_def sample_dumps_def
        MAX_REQUEST_ID_LENGTH_def LOCAL_MAX_MESSAGE_LENGTH_def linvalid_def key_char_def sample_replay_def dict_get_Cons has_key_def u_def)
qed

lemma faultless_success:
  assumes "transacts m f" and "f d = Inr (x, d')"
  shows "fst (m (idle d [])) = Inr x" and "ls_db (snd (m (idle d []))) = d'"
  using transacts_idle [OF assms(1), of d "[]"] assms(2) by (auto simp: tx_outcome_def)

lemma bind_text_ascii: "list_all (\<lambda>c. c < 128) t \<Longrightarrow> bind_text t = Inr ()"
  using utf8_encode_ascii [of t] by (simp add: bind_text_def)

lemma sample_commit: "\<exists>ct d'. tx_commit_op sample_local_codec (u ''t'') sample_local_args reserved_database = Inr (ct, d') \<and> d' \<noteq> reserved_database"
proof -
  obtain p where p: "prepare_commit_turn sample_local_codec sample_local_args = Inr p" and c: "pc_commit p = \<lparr>lm_request_id = u ''r1'',
     lm_expected_revision = PNone, lm_user_message = u ''hello'', lm_assistant_message = u ''hi'',
     lm_emotional_state = EmotionalStateV1_to_dict calm_state, lm_relationship_state = RelationshipStateV1_to_dict friend_state,
     lm_public_response = u ''hi'', lm_replay_payload = PDict sample_replay, lm_outbox_events = []\<rparr>"
    "pc_generation p = 0" "pc_expected p = None" "pc_hash p = u ''00''" "pc_replay p = sample_replay"
    using sample_prepare by blast
  have b: "bind_text (u ''hello'') = Inr ()" "bind_text (u ''hi'') = Inr ()" "bind_text (u ''{}'') = Inr ()" "bind_text (u ''00'') = Inr ()"
    by (simp_all add: bind_text_ascii u_def)
  have dumps: "local_json_dumps sample_local_codec (PDict d) = Inr (u ''{}'')" for d
    by (simp add: local_json_dumps_def sample_local_codec_def sample_dumps_def)
  have e: "local_json_dumps sample_local_codec (EmotionalStateV1_to_dict calm_state) = Inr (u ''{}'')"
    "local_json_dumps sample_local_codec (RelationshipStateV1_to_dict friend_state) = Inr (u ''{}'')"
    by (simp_all add: EmotionalStateV1_to_dict_def RelationshipStateV1_to_dict_def dumps)
  have f: "find_turn (u ''r1'') reserved_database = Some (hd (db_turns reserved_database))"
    "tn_status (hd (db_turns reserved_database)) = TPending" "tn_payload_hash (hd (db_turns reserved_database)) = reservation_marker 0"
    "history_generation_of reserved_database = 0" "revision_of reserved_database = 0" "db_profile reserved_database = None"
    "db_chat_logs reserved_database = []" "db_chat_seq reserved_database = 0"
    by (simp_all add: reserved_database_def find_turn_def history_generation_of_def revision_of_def fresh_database_def)
  have i: "bind_int 1 = Inr ()" by (simp add: bind_int_def)
  obtain ct d' where w: "tx_write sample_local_codec (u ''t'') p reserved_database = Inr (ct, d')"
    by (simp add: tx_write_def Let_def c b e dumps f i bstmt_def upsert_profile_def upsert_turn_def turn_refs_ok_def ref_in_def
        completed_row_def with_messages_def)
  then have "d' \<noteq> reserved_database"
  proof (rule tx_write_committed)
    show "find_turn (lm_request_id (pc_commit p)) reserved_database = Some (hd (db_turns reserved_database))" using c f by simp
  next
    fix rp pf ob
    assume "d' = committed_db (u ''t'') p rp pf ob reserved_database"
    then have "db_chat_logs d' \<noteq> []" by (simp add: committed_db_def add_messages_def)
    then show "d' \<noteq> reserved_database" using f by auto
  qed
  with w show ?thesis using p c f by (simp add: tx_commit_op_def tx_commit_def)
qed



theorem history_deletion_final_witness:
  "\<exists>s. db_turns (ls_db s) = [] \<and> ls_db (snd (local_commit_turn sample_local_codec (u ''t'') sample_local_args s)) = ls_db s"
proof -
  have "bind_text (u ''{}'') = Inr ()" by (simp add: bind_text_ascii u_def)
  then obtain x d' where "tx_delete_history sample_local_codec reserved_database = Inr (x, d')"
    by (simp add: tx_delete_history_def tx_record_def applied_def local_json_dumps_def sample_local_codec_def sample_dumps_def bstmt_def
        insert_privacy_def PRIVACY_OPERATIONS_def)
  from faultless_success(1) [OF delete_history_transacts this]
  obtain s where s: "delete_history sample_local_codec (idle reserved_database []) = (Inr x, s)"
    by (cases "delete_history sample_local_codec (idle reserved_database [])") simp
  have "(0::int) \<le> history_generation_of reserved_database" by (simp add: history_generation_of_def)
  from history_deletion_final [OF s this rtranclp.rtrancl_refl [of "local_step sample_local_codec sample_legacy_codec" s],
      of sample_local_args "u ''t''"]
  show ?thesis by (intro exI [of _ s]) (simp add: sample_local_args_def)
qed

definition sample_fixture :: pyobj where
  "sample_fixture = PDict [(PStr (u ''schema_version''), PInt 1), (PStr (u ''source''), PStr (u ''supabase'')),
     (PStr (u ''turns''), PList [PDict [(PStr (u ''request_id''), PStr (u ''r1'')), (PStr (u ''user_message''), PStr (u ''hello'')),
        (PStr (u ''assistant_message''), PStr (u ''hi''))]])]"

lemma sample_import: "\<exists>rep d'. tx_import sample_legacy_codec (u ''t'') sample_fixture fresh_database = Inr (rep, d')"
proof -
  have low: "sample_lower (u a) = sample_lower (u b) \<longleftrightarrow> map (ascii_lower \<circ> of_char) a = map (ascii_lower \<circ> of_char) b"
    if "list_all (\<lambda>c. of_char c < (128::nat)) a" "list_all (\<lambda>c. of_char c < (128::nat)) b" for a b
  proof -
    have "sample_lower (u s) = map (ascii_lower \<circ> of_char) s" if "list_all (\<lambda>c. of_char c < (128::nat)) s" for s
      using that by (induction s) (auto simp: sample_lower_def sample_lower_char_def u_def)
    then show ?thesis using that by simp
  qed
  have v: "validate_legacy_fixture sample_lower sample_fixture = Inr [\<lparr>lg_request_id = u ''r1'', lg_user_message = u ''hello'',
      lg_assistant_message = u ''hi'', lg_created_at = None, lg_replay_payload = PNone\<rparr>]"
    by (simp add: validate_legacy_fixture_def sample_fixture_def dict_get_Cons dict_get_def scalar_eq_def LEGACY_SCHEMA_VERSION_def
        MAX_LEGACY_MESSAGES_def MAX_LEGACY_CONTENT_CHARS_def legacy_turn_of_def legacy_message_def FIXTURE_FORBIDDEN_KEYS_def
        LOCAL_FORBIDDEN_PAYLOAD_KEYS_def low ascii_lower_def linvalid_def)
  have b: "bind_text (u ''hello'') = Inr ()" "bind_text (u ''hi'') = Inr ()" "bind_text (u ''{}'') = Inr ()" "bind_text (u ''00'') = Inr ()"
    "bind_text (u ''t'') = Inr ()" "bind_text (u ''r1'') = Inr ()"
    by (simp_all add: bind_text_ascii u_def)
  have h: "legacy_hash sample_legacy_codec t = Inr (u ''00'')" for t
    using utf8_encode_ascii [of "u ''{}''"]
    by (simp add: legacy_hash_def legacy_dumps_def sample_legacy_codec_def sample_dumps_def u_def)
  have "lgc_lower sample_legacy_codec = sample_lower" by (simp add: sample_legacy_codec_def)
  then show ?thesis
    by (simp add: tx_import_def v tx_import_turn_def Let_def b h legacy_dumps_def sample_legacy_codec_def [THEN arg_cong, of lgc_dumps] sample_dumps_def
        import_replay_payload_def bstmt_def insert_turn_def turn_refs_ok_def ref_in_def imported_row_def find_turn_def fresh_database_def)
qed

theorem import_idempotent_witness:
  "\<exists>rep s. import_legacy_fixture sample_legacy_codec (u ''t'') sample_fixture (idle fresh_database []) = (Inr rep, s)
     \<and> ls_db (snd (import_legacy_fixture sample_legacy_codec (u ''t2'') sample_fixture (idle (ls_db s) []))) = ls_db s"
proof -
  obtain rep d' where "tx_import sample_legacy_codec (u ''t'') sample_fixture fresh_database = Inr (rep, d')" using sample_import by blast
  from faultless_success(1) [OF import_transacts this]
  obtain s where s: "import_legacy_fixture sample_legacy_codec (u ''t'') sample_fixture (idle fresh_database []) = (Inr rep, s)"
    by (cases "import_legacy_fixture sample_legacy_codec (u ''t'') sample_fixture (idle fresh_database [])") simp
  with import_idempotent [OF s, of "u ''t2''"] show ?thesis by blast
qed

end
