(* ===== verification/Io_Wp.thy ===== *)
theory Io_Wp
  imports Prelude
begin

text \<open>
  Weakest preconditions of stateful operations: \<open>wp m Q s\<close> says that the outcome of \<open>m\<close> in the state \<open>s\<close>, a result or an exception with
  the state it leaves, satisfies \<open>Q\<close>.  The rules compute it along the code.
\<close>

definition wp :: "('w \<Rightarrow> ('e + 'a) \<times> 'w) \<Rightarrow> ('e + 'a \<Rightarrow> 'w \<Rightarrow> bool) \<Rightarrow> 'w \<Rightarrow> bool" where
  "wp m Q s = (case m s of (r, s') \<Rightarrow> Q r s')"

named_theorems wp_rules

lemma wp_bind [wp_rules]:
  "wp (io_bind m f) Q s \<longleftrightarrow> wp m (\<lambda>r s'. case r of Inl e \<Rightarrow> Q (Inl e) s' | Inr x \<Rightarrow> wp (f x) Q s') s"
  by (auto simp: wp_def io_bind_def split: prod.splits sum.splits)

lemma wp_lift [wp_rules]: "wp (io_lift r) Q s \<longleftrightarrow> Q r s"
  by (simp add: wp_def io_lift_def)

lemma wp_get [wp_rules]: "wp (io_get g) Q s \<longleftrightarrow> Q (Inr (fst (g s))) (snd (g s))"
  by (simp add: wp_def io_get_def Let_def split: prod.splits)

lemma wp_guard [wp_rules]: "wp (io_lift (guard b e)) Q s \<longleftrightarrow> (if b then Q (Inr ()) s else Q (Inl e) s)"
  by (simp add: wp_def io_lift_def guard_def)

lemma wp_if [wp_rules]: "wp (if b then m else m') Q s \<longleftrightarrow> (if b then wp m Q s else wp m' Q s)"
  by simp

lemma wp_mono: "wp m Q s \<Longrightarrow> (\<And>r s'. Q r s' \<Longrightarrow> Q' r s') \<Longrightarrow> wp m Q' s"
  by (simp add: wp_def split: prod.splits)

lemma wp_result: "m s = (r, s') \<Longrightarrow> wp m Q s \<longleftrightarrow> Q r s'"
  by (simp add: wp_def)

lemma wp_conj: "wp m Q s \<Longrightarrow> wp m Q' s \<Longrightarrow> wp m (\<lambda>r s'. Q r s' \<and> Q' r s') s"
  by (simp add: wp_def split: prod.splits)

end
