(* ===== verification/Groq_Manager.thy ===== *)
theory Groq_Manager
  imports Provider_Envelope Turn_Execution Io_Wp
begin

text \<open>
  The pool of provider keys (\<open>groq_manager.py\<close>): classification of the exceptions of the provider SDK, selection of the next
  key, cooldowns and deactivation, and the bounded attempts of a synchronous and of an asynchronous completion.

  The manager is shared by the tasks and threads of the process.  An operation acts on the manager and on the outside world;
  whenever it leaves the manager's lock (it creates a client, awaits a completion, closes a client, sleeps), other calls may
  have changed the manager, so these ports return a new manager.  The SDK, the clocks and the random source are the ports.
\<close>

section \<open>Failures\<close>

datatype ProviderFailure =
    rate_limited | auth_failed | connection_failed | server_error | invalid_response | invalid_request | timeout | cancelled

definition provider_failure_value :: "ProviderFailure \<Rightarrow> pystr" where
  "provider_failure_value f = (case f of
     rate_limited \<Rightarrow> u ''rate_limited''
   | auth_failed \<Rightarrow> u ''auth_failed''
   | connection_failed \<Rightarrow> u ''connection_failed''
   | server_error \<Rightarrow> u ''server_error''
   | invalid_response \<Rightarrow> u ''invalid_response''
   | invalid_request \<Rightarrow> u ''invalid_request''
   | timeout \<Rightarrow> u ''timeout''
   | cancelled \<Rightarrow> u ''cancelled'')"

text \<open>
  What a call of the SDK raises, by its class: the status errors 429 and 401 have classes of their own, and a timeout is a special
  connection error, so the handlers are read in the order of the code.  A status error carries its code and whether it is of the
  general class itself.
\<close>

datatype sdk_exn =
    RateLimitError | AuthenticationError | APITimeoutError | APIConnectionError
  | APIStatusError (status_code: int) (general_class: bool)
  | AsyncCancelled | AsyncTimeout | SdkTurnError TurnErrorCode | SdkOther

definition classify_provider_error :: "sdk_exn \<Rightarrow> ProviderFailure" where
  "classify_provider_error e = (case e of
     RateLimitError \<Rightarrow> rate_limited
   | AuthenticationError \<Rightarrow> auth_failed
   | APITimeoutError \<Rightarrow> timeout
   | APIConnectionError \<Rightarrow> connection_failed
   | APIStatusError code _ \<Rightarrow> if code = 401 then auth_failed else if code \<ge> 500 then server_error else invalid_request
   | AsyncCancelled \<Rightarrow> cancelled
   | AsyncTimeout \<Rightarrow> timeout
   | SdkTurnError c \<Rightarrow> if c = turn_timeout then timeout else invalid_response
   | SdkOther \<Rightarrow> invalid_response)"

definition provider_failure_to_turn_code :: "ProviderFailure \<Rightarrow> TurnErrorCode" where
  "provider_failure_to_turn_code f = (case f of
     rate_limited \<Rightarrow> upstream_rate_limited
   | auth_failed \<Rightarrow> provider_invalid_request
   | invalid_request \<Rightarrow> provider_invalid_request
   | connection_failed \<Rightarrow> provider_unavailable
   | server_error \<Rightarrow> provider_unavailable
   | timeout \<Rightarrow> turn_timeout
   | invalid_response \<Rightarrow> provider_invalid_response
   | cancelled \<Rightarrow> internal_error)"

text \<open>What the manager raises.  \<open>GroqOverflow\<close> is the float overflow of the backoff.\<close>

datatype groq_exn =
    GroqConfigurationError
  | GroqPoolExhaustedError (exhausted_message: string) (failure_code: "ProviderFailure option")
  | GroqRequestError
  | GroqEnvelope envelope_exn
  | GroqTurnError TurnErrorCode
  | GroqCancelled
  | GroqOverflow

section \<open>The manager\<close>

record manager =
  gm_keys :: "pystr list"
  gm_params :: GroqCallParams
  gm_deactivated :: "pystr set"
  gm_cooldowns :: "pystr \<rightharpoonup> rat"
  gm_index :: nat

definition COOLDOWN_DURATION :: rat where "COOLDOWN_DURATION = 10"

definition GroqClientManager_init :: "pystr option list \<Rightarrow> GroqCallParams \<Rightarrow> groq_exn + manager" where
  "GroqClientManager_init raw_keys params =
     (let keys = filter (\<lambda>k. k \<noteq> [] \<and> strip k \<noteq> []) (List.map_filter id raw_keys) in
      rbind (guard (keys \<noteq> []) GroqConfigurationError) (\<lambda>_.
      Inr \<lparr>gm_keys = keys, gm_params = params, gm_deactivated = {}, gm_cooldowns = Map.empty, gm_index = 0\<rparr>))"

definition is_configured :: "manager \<Rightarrow> bool" where
  "is_configured m \<longleftrightarrow> gm_keys m \<noteq> []"

text \<open>The parameters of one call: \<open>messages\<close>, \<open>model\<close> and the keyword arguments handed to the SDK.\<close>

record completion_call =
  cc_messages :: pyobj
  cc_model :: pystr
  cc_kwargs :: "(pystr \<times> pyobj) list"

datatype 'r call_end = Completed 'r | Failed sdk_exn

record ('r, 'w) groq_ports =
  gq_time :: "'w \<Rightarrow> rat \<times> 'w"
  gq_monotonic :: "'w \<Rightarrow> rat \<times> 'w"
  gq_random :: "'w \<Rightarrow> rat \<times> 'w"
  gq_client :: "pystr \<Rightarrow> manager \<times> 'w \<Rightarrow> bool \<times> manager \<times> 'w"
  gq_create :: "pystr \<Rightarrow> completion_call \<Rightarrow> rat option \<Rightarrow> manager \<times> 'w \<Rightarrow> 'r call_end \<times> manager \<times> 'w"
  gq_close :: "manager \<times> 'w \<Rightarrow> bool \<times> manager \<times> 'w"
  gq_sleep :: "rat \<Rightarrow> manager \<times> 'w \<Rightarrow> bool \<times> manager \<times> 'w"

section \<open>Keys\<close>

definition drop_expired :: "rat \<Rightarrow> manager \<Rightarrow> manager" where
  "drop_expired now m = m\<lparr>gm_cooldowns := (\<lambda>k. case gm_cooldowns m k of
     None \<Rightarrow> None | Some t \<Rightarrow> if now \<ge> t then None else Some t)\<rparr>"

definition eligible :: "manager \<Rightarrow> pystr set \<Rightarrow> pystr \<Rightarrow> bool" where
  "eligible m tried k \<longleftrightarrow> k \<notin> gm_deactivated m \<and> gm_cooldowns m k = None \<and> k \<notin> tried"

definition scan_order :: "manager \<Rightarrow> nat list" where
  "scan_order m = map (\<lambda>i. (gm_index m + i) mod length (gm_keys m)) [0..<length (gm_keys m)]"

definition pool_unavailable :: "manager \<Rightarrow> pystr set \<Rightarrow> groq_exn" where
  "pool_unavailable m tried =
     (let all_deactivated = list_all (\<lambda>k. k \<in> gm_deactivated m) (gm_keys m);
          all_in_cooldown = (\<not> all_deactivated \<and>
            list_all (\<lambda>k. k \<notin> gm_deactivated m \<longrightarrow> gm_cooldowns m k \<noteq> None) (gm_keys m));
          all_tried = (\<not> all_deactivated \<and> \<not> all_in_cooldown \<and>
            list_all (\<lambda>k. k \<notin> gm_deactivated m \<and> gm_cooldowns m k = None \<longrightarrow> k \<in> tried) (gm_keys m))
      in if all_deactivated then GroqPoolExhaustedError ''All keys deactivated.'' (Some auth_failed)
         else if all_in_cooldown then GroqPoolExhaustedError ''All keys in cooldown.'' (Some rate_limited)
         else if all_tried then GroqPoolExhaustedError ''All keys tried, none succeeded.'' (Some connection_failed)
         else GroqPoolExhaustedError ''No eligible Groq keys available.'' (Some connection_failed))"

definition acquire_next_key :: "('r, 'w) groq_ports \<Rightarrow> pystr set \<Rightarrow> manager \<times> 'w \<Rightarrow> (groq_exn + pystr) \<times> manager \<times> 'w" where
  "acquire_next_key P tried s =
     (let (now, w) = gq_time P (snd s);
          m = drop_expired now (fst s)
      in (case List.find (\<lambda>idx. eligible m tried (gm_keys m ! idx)) (scan_order m) of
            Some idx \<Rightarrow> (Inr (gm_keys m ! idx), m\<lparr>gm_index := (idx + 1) mod length (gm_keys m)\<rparr>, w)
          | None \<Rightarrow> (Inl (pool_unavailable m tried), m, w)))"

definition mark_key_rate_limited :: "('r, 'w) groq_ports \<Rightarrow> pystr \<Rightarrow> manager \<times> 'w \<Rightarrow> manager \<times> 'w" where
  "mark_key_rate_limited P k s =
     (let (now, w) = gq_time P (snd s)
      in ((fst s)\<lparr>gm_cooldowns := (gm_cooldowns (fst s))(k \<mapsto> fadd now COOLDOWN_DURATION)\<rparr>, w))"

definition deactivate_key :: "pystr \<Rightarrow> manager \<times> 'w \<Rightarrow> manager \<times> 'w" where
  "deactivate_key k s = ((fst s)\<lparr>gm_deactivated := insert k (gm_deactivated (fst s))\<rparr>, snd s)"

section \<open>Attempts\<close>

definition check_envelope :: "(pyobj \<Rightarrow> pystr option) \<Rightarrow> pyobj \<Rightarrow> groq_exn + unit" where
  "check_envelope canon messages =
     (case validate_provider_input canon messages (int PROVIDER_INPUT_MAX_ESTIMATED_UNITS) of
        Inl e \<Rightarrow> Inl (if is_envelope_error e then GroqRequestError else GroqEnvelope e)
      | Inr _ \<Rightarrow> Inr ())"

definition attempt_count :: "manager \<Rightarrow> nat" where
  "attempt_count m =
     (let n = min (gp_max_attempts (gm_params m)) (int (length (filter (\<lambda>k. k \<notin> gm_deactivated m) (gm_keys m))))
      in nat (if n < 1 then 1 else n))"

definition world_port :: "('w \<Rightarrow> 'a \<times> 'w) \<Rightarrow> manager \<times> 'w \<Rightarrow> 'a \<times> manager \<times> 'w" where
  "world_port g s = (let (x, w) = g (snd s) in (x, fst s, w))"

definition with_backoff :: "('r, 'w) groq_ports \<Rightarrow> nat \<Rightarrow> GroqCallParams \<Rightarrow> manager \<times> 'w \<Rightarrow> (groq_exn + rat) \<times> manager \<times> 'w" where
  "with_backoff P attempt params =
     io_bind (io_get (world_port (gq_random P))) (\<lambda>r.
     io_lift (with_error (\<lambda>_. GroqOverflow) (compute_backoff_from_params (int attempt) params r)))"

text \<open>One synchronous attempt: the completion, or that the next key is tried.\<close>

definition sync_failure :: "('r, 'w) groq_ports \<Rightarrow> pystr \<Rightarrow> sdk_exn \<Rightarrow> manager \<times> 'w \<Rightarrow> (groq_exn + unit) \<times> manager \<times> 'w" where
  "sync_failure P k e s = (case e of
     RateLimitError \<Rightarrow> (Inr (), mark_key_rate_limited P k s)
   | AuthenticationError \<Rightarrow> (Inr (), deactivate_key k s)
   | APIStatusError code _ \<Rightarrow>
       if code = 401 then (Inr (), deactivate_key k s)
       else if code \<ge> 500 then (Inr (), s)
       else (Inl GroqRequestError, s)
   | AsyncCancelled \<Rightarrow> (Inl GroqCancelled, s)
   | _ \<Rightarrow> (Inr (), s))"

definition sync_attempt :: "('r, 'w) groq_ports \<Rightarrow> completion_call \<Rightarrow> pystr
    \<Rightarrow> manager \<times> 'w \<Rightarrow> (groq_exn + 'r option) \<times> manager \<times> 'w" where
  "sync_attempt P call api_key =
     io_bind (io_get (gq_client P api_key)) (\<lambda>created.
     io_bind (io_lift (guard created GroqRequestError)) (\<lambda>_.
     io_bind (io_get (gq_create P api_key call None)) (\<lambda>ended. (case ended of
        Completed r \<Rightarrow> io_lift (Inr (Some r))
      | Failed e \<Rightarrow> io_bind (sync_failure P api_key e) (\<lambda>_. io_lift (Inr None))))))"

definition sync_backoff :: "('r, 'w) groq_ports \<Rightarrow> GroqCallParams \<Rightarrow> nat \<Rightarrow> manager \<times> 'w \<Rightarrow> (groq_exn + unit) \<times> manager \<times> 'w" where
  "sync_backoff P params attempt =
     io_bind (with_backoff P attempt params) (\<lambda>b. io_bind (io_get (gq_sleep P b)) (\<lambda>_. io_lift (Inr ())))"

fun sync_attempts :: "('r, 'w) groq_ports \<Rightarrow> completion_call \<Rightarrow> GroqCallParams \<Rightarrow> pystr set \<Rightarrow> nat list
    \<Rightarrow> manager \<times> 'w \<Rightarrow> (groq_exn + 'r) \<times> manager \<times> 'w" where
  "sync_attempts P call params tried [] =
     io_lift (Inl (GroqPoolExhaustedError ''Provider unavailable after all attempts.'' (Some connection_failed)))"
| "sync_attempts P call params tried (attempt # later) =
     io_bind (acquire_next_key P tried) (\<lambda>api_key.
     io_bind (sync_attempt P call api_key) (\<lambda>outcome. (case outcome of
        Some r \<Rightarrow> io_lift (Inr r)
      | None \<Rightarrow>
          io_bind (if later \<noteq> [] then sync_backoff P params attempt else io_lift (Inr ())) (\<lambda>_.
          sync_attempts P call params (insert api_key tried) later))))"

definition chat_completion :: "(pyobj \<Rightarrow> pystr option) \<Rightarrow> ('r, 'w) groq_ports \<Rightarrow> completion_call
    \<Rightarrow> manager \<times> 'w \<Rightarrow> (groq_exn + 'r) \<times> manager \<times> 'w" where
  "chat_completion canon P call =
     io_bind (io_lift (check_envelope canon (cc_messages call))) (\<lambda>_ s.
     sync_attempts P call (gm_params (fst s)) {} [0..<attempt_count (fst s)] s)"

text \<open>The handlers of an asynchronous attempt: what is raised, or the failure remembered before the next key is tried.\<close>

definition async_failure :: "('r, 'w) groq_ports \<Rightarrow> pystr \<Rightarrow> sdk_exn \<Rightarrow> manager \<times> 'w
    \<Rightarrow> (groq_exn + ProviderFailure) \<times> manager \<times> 'w" where
  "async_failure P k e s = (case e of
     AsyncCancelled \<Rightarrow> (Inl GroqCancelled, s)
   | AsyncTimeout \<Rightarrow> (Inr timeout, s)
   | APITimeoutError \<Rightarrow> (Inr timeout, s)
   | RateLimitError \<Rightarrow> (Inr rate_limited, mark_key_rate_limited P k s)
   | AuthenticationError \<Rightarrow> (Inr auth_failed, deactivate_key k s)
   | APIConnectionError \<Rightarrow> (Inr connection_failed, s)
   | APIStatusError code _ \<Rightarrow>
       if code = 401 then (Inr auth_failed, deactivate_key k s)
       else if code \<ge> 500 then (Inr server_error, s)
       else (Inr invalid_request, s)
   | SdkTurnError c \<Rightarrow> (Inl (GroqTurnError c), s)
   | SdkOther \<Rightarrow> (Inr connection_failed, s))"

text \<open>\<open>finally\<close>: the client is closed whatever happened; a cancellation while closing replaces the outcome.\<close>

definition closing :: "('r, 'w) groq_ports \<Rightarrow> (manager \<times> 'w \<Rightarrow> (groq_exn + 'a) \<times> manager \<times> 'w)
    \<Rightarrow> manager \<times> 'w \<Rightarrow> (groq_exn + 'a) \<times> manager \<times> 'w" where
  "closing P body s =
     (let (r, s') = body s; (interrupted, s'') = gq_close P s' in (if interrupted then Inl GroqCancelled else r, s''))"

text \<open>One attempt with a key: a client is created, the completion is awaited within the timeout, the client is closed.\<close>

definition async_attempt :: "('r, 'w) groq_ports \<Rightarrow> completion_call \<Rightarrow> rat \<Rightarrow> pystr
    \<Rightarrow> manager \<times> 'w \<Rightarrow> (groq_exn + (ProviderFailure + 'r)) \<times> manager \<times> 'w" where
  "async_attempt P call eff api_key =
     io_bind (io_get (gq_client P api_key)) (\<lambda>created.
     io_bind (io_lift (guard created GroqRequestError)) (\<lambda>_.
     closing P (io_bind (io_get (gq_create P api_key call (Some eff))) (\<lambda>ended. (case ended of
        Completed r \<Rightarrow> io_lift (Inr (Inr r))
      | Failed e \<Rightarrow> io_bind (async_failure P api_key e) (\<lambda>f. io_lift (Inr (Inl f))))))))"

definition effective_timeout :: "('r, 'w) groq_ports \<Rightarrow> GroqCallParams \<Rightarrow> TurnBudget
    \<Rightarrow> manager \<times> 'w \<Rightarrow> (groq_exn + rat) \<times> manager \<times> 'w" where
  "effective_timeout P params budget =
     io_bind (io_get (world_port (gq_monotonic P))) (\<lambda>now. io_lift (Inr (compute_effective_attempt_timeout params budget now)))"

definition exhausted :: "ProviderFailure option \<Rightarrow> groq_exn" where
  "exhausted lf =
     (if lf = Some rate_limited then GroqPoolExhaustedError ''All keys rate limited.'' lf
      else if lf = Some timeout then GroqPoolExhaustedError ''All attempts timed out.'' lf
      else GroqPoolExhaustedError ''Provider unavailable after all attempts.''
             (case lf of None \<Rightarrow> Some connection_failed | Some f \<Rightarrow> Some f))"

definition async_backoff :: "('r, 'w) groq_ports \<Rightarrow> GroqCallParams \<Rightarrow> TurnBudget \<Rightarrow> nat
    \<Rightarrow> manager \<times> 'w \<Rightarrow> (groq_exn + unit) \<times> manager \<times> 'w" where
  "async_backoff P params budget attempt =
     io_bind (effective_timeout P params budget) (\<lambda>remaining_eff.
     io_bind (with_backoff P attempt params) (\<lambda>backoff.
     if backoff < remaining_eff
     then io_bind (io_get (gq_sleep P backoff)) (\<lambda>interrupted. io_lift (guard (\<not> interrupted) GroqCancelled))
     else io_lift (Inr ())))"

fun async_attempts :: "('r, 'w) groq_ports \<Rightarrow> completion_call \<Rightarrow> GroqCallParams \<Rightarrow> TurnBudget \<Rightarrow> pystr set
    \<Rightarrow> ProviderFailure option \<Rightarrow> nat list \<Rightarrow> manager \<times> 'w \<Rightarrow> (groq_exn + 'r) \<times> manager \<times> 'w" where
  "async_attempts P call params budget tried lf [] = io_lift (Inl (exhausted lf))"
| "async_attempts P call params budget tried lf (attempt # later) =
     io_bind (effective_timeout P params budget) (\<lambda>eff.
     io_bind (io_lift (guard (\<not> eff \<le> 0) (GroqTurnError turn_timeout))) (\<lambda>_.
     io_bind (acquire_next_key P tried) (\<lambda>api_key.
     io_bind (async_attempt P call eff api_key) (\<lambda>outcome. (case outcome of
        Inr r \<Rightarrow> io_lift (Inr r)
      | Inl f \<Rightarrow>
          io_bind (if later \<noteq> [] then async_backoff P params budget attempt else io_lift (Inr ())) (\<lambda>_.
          async_attempts P call params budget (insert api_key tried) (Some f) later))))))"

definition INTERNAL_KWARGS :: "pystr list" where
  "INTERNAL_KWARGS = map u [''max_attempts'', ''attempt_timeout'', ''stage'', ''base_backoff'', ''max_backoff'', ''max_jitter'']"

definition sanitised :: "completion_call \<Rightarrow> completion_call" where
  "sanitised call = call\<lparr>cc_kwargs := filter (\<lambda>(k, v). k \<notin> set INTERNAL_KWARGS) (cc_kwargs call)\<rparr>"

definition chat_completion_async :: "(pyobj \<Rightarrow> pystr option) \<Rightarrow> ('r, 'w) groq_ports \<Rightarrow> completion_call \<Rightarrow> TurnBudget
    \<Rightarrow> manager \<times> 'w \<Rightarrow> (groq_exn + 'r) \<times> manager \<times> 'w" where
  "chat_completion_async canon P call budget =
     io_bind (io_lift (check_envelope canon (cc_messages call))) (\<lambda>_ s.
     async_attempts P (sanitised call) (gm_params (fst s)) budget {} None [0..<attempt_count (fst s)] s)"

section \<open>Keys in rotation\<close>

text \<open>What other calls do to the shared manager between two critical sections of this one.\<close>

inductive manager_step :: "manager \<Rightarrow> manager \<Rightarrow> bool" where
  other_acquires: "i < length (gm_keys m) \<Longrightarrow> manager_step m ((drop_expired now m)\<lparr>gm_index := i\<rparr>)"
| other_finds_none: "manager_step m (drop_expired now m)"
| other_rate_limited: "manager_step m (m\<lparr>gm_cooldowns := (gm_cooldowns m)(k \<mapsto> t)\<rparr>)"
| other_deactivates: "manager_step m (m\<lparr>gm_deactivated := insert k (gm_deactivated m)\<rparr>)"

definition manager_ok :: "manager \<Rightarrow> bool" where
  "manager_ok m \<longleftrightarrow> gm_keys m \<noteq> [] \<and> gm_index m < length (gm_keys m)"

lemma drop_expired_simps [simp]: "gm_keys (drop_expired now m) = gm_keys m" "gm_params (drop_expired now m) = gm_params m"
  "gm_deactivated (drop_expired now m) = gm_deactivated m" "gm_index (drop_expired now m) = gm_index m"
  by (simp_all add: drop_expired_def)

lemma manager_steps_keys: "manager_step\<^sup>*\<^sup>* m m' \<Longrightarrow> gm_keys m' = gm_keys m \<and> (manager_ok m \<longrightarrow> manager_ok m')"
  by (induction rule: rtranclp_induct) (auto simp: manager_ok_def elim!: manager_step.cases)

lemma scan_order_rotate: "map (nth (gm_keys m)) (scan_order m) = rotate (gm_index m) (gm_keys m)"
  by (rule nth_equalityI) (simp_all add: scan_order_def nth_rotate)

lemma find_filter_hd: "List.find P xs = (case filter P xs of [] \<Rightarrow> None | x # _ \<Rightarrow> Some x)"
  by (induction xs) auto

lemma scan_first: "map_option (nth (gm_keys m)) (List.find (\<lambda>idx. Q (gm_keys m ! idx)) (scan_order m))
    = (case filter Q (rotate (gm_index m) (gm_keys m)) of [] \<Rightarrow> None | k # _ \<Rightarrow> Some k)"
  unfolding scan_order_rotate [symmetric] filter_map find_filter_hd
  by (auto simp: comp_def split: list.splits)

lemma scan_order_bound: "List.find Q (scan_order m) = Some idx \<Longrightarrow> idx < length (gm_keys m)"
  by (auto simp: find_Some_iff scan_order_def intro!: mod_less_divisor)

lemma acquire_cases:
  obtains (found) k i where "fst (acquire_next_key P tried s) = Inr k" "k \<in> set (gm_keys (fst s))"
      "eligible (drop_expired (fst (gq_time P (snd s))) (fst s)) tried k" "i < length (gm_keys (fst s))"
      "snd (acquire_next_key P tried s) = ((drop_expired (fst (gq_time P (snd s))) (fst s))\<lparr>gm_index := i\<rparr>, snd (gq_time P (snd s)))"
  | (none) "fst (acquire_next_key P tried s) = Inl (pool_unavailable (drop_expired (fst (gq_time P (snd s))) (fst s)) tried)"
      "\<forall>k \<in> set (gm_keys (fst s)). \<not> eligible (drop_expired (fst (gq_time P (snd s))) (fst s)) tried k"
      "snd (acquire_next_key P tried s) = (drop_expired (fst (gq_time P (snd s))) (fst s), snd (gq_time P (snd s)))"
proof -
  let ?m = "drop_expired (fst (gq_time P (snd s))) (fst s)"
  show thesis
  proof (cases "List.find (\<lambda>idx. eligible ?m tried (gm_keys ?m ! idx)) (scan_order ?m)")
    case None
    then have "filter (eligible ?m tried) (rotate (gm_index ?m) (gm_keys ?m)) = []"
      using scan_first [of ?m "eligible ?m tried"] by (auto split: list.splits)
    then have "\<forall>k \<in> set (gm_keys (fst s)). \<not> eligible ?m tried k" by (auto simp: filter_empty_conv)
    with None show thesis by (intro none) (auto simp: acquire_next_key_def Let_def split_beta)
  next
    case (Some idx)
    note b = scan_order_bound [OF Some]
    have "eligible ?m tried (gm_keys ?m ! idx)" using Some by (auto simp: find_Some_iff)
    moreover have "(idx + 1) mod length (gm_keys (fst s)) < length (gm_keys (fst s))" using b by (intro mod_less_divisor) auto
    ultimately show thesis using Some b
      by (intro found [of "gm_keys ?m ! idx" "(idx + 1) mod length (gm_keys ?m)"])
        (auto simp: acquire_next_key_def Let_def split_beta)
  qed
qed

lemma acquire_keeps: "manager_ok (fst s) \<Longrightarrow> manager_ok (fst (snd (acquire_next_key P tried s)))
    \<and> gm_keys (fst (snd (acquire_next_key P tried s))) = gm_keys (fst s)"
  by (rule acquire_cases [of P tried s]) (auto simp: manager_ok_def)

section \<open>The record of the attempts\<close>

text \<open>Ports that record every completion asked from the SDK: the key, the timeout and how it ended.\<close>

type_synonym 'r attempt_log = "(pystr \<times> rat option \<times> 'r call_end) list"

definition keep_log :: "('w \<Rightarrow> 'a \<times> 'w) \<Rightarrow> 'w \<times> 'l \<Rightarrow> 'a \<times> 'w \<times> 'l" where
  "keep_log g s = (let (x, w) = g (fst s) in (x, w, snd s))"

definition keep_log_shared :: "(manager \<times> 'w \<Rightarrow> 'a \<times> manager \<times> 'w) \<Rightarrow> manager \<times> 'w \<times> 'l \<Rightarrow> 'a \<times> manager \<times> 'w \<times> 'l" where
  "keep_log_shared g s = (let (x, m, w) = g (fst s, fst (snd s)) in (x, m, w, snd (snd s)))"

definition logged :: "('r, 'w) groq_ports \<Rightarrow> ('r, 'w \<times> 'r attempt_log) groq_ports" where
  "logged P = \<lparr>gq_time = keep_log (gq_time P), gq_monotonic = keep_log (gq_monotonic P), gq_random = keep_log (gq_random P),
     gq_client = (\<lambda>k. keep_log_shared (gq_client P k)),
     gq_create = (\<lambda>k call t s. let (r, m, w, l) = keep_log_shared (gq_create P k call t) s in (r, m, w, l @ [(k, t, r)])),
     gq_close = keep_log_shared (gq_close P), gq_sleep = (\<lambda>b. keep_log_shared (gq_sleep P b))\<rparr>"

text \<open>The other calls change the manager only by its own operations.\<close>

definition shares :: "(manager \<times> 'w \<Rightarrow> 'a \<times> manager \<times> 'w) \<Rightarrow> bool" where
  "shares g \<longleftrightarrow> (\<forall>s. manager_step\<^sup>*\<^sup>* (fst s) (fst (snd (g s))))"

definition shared_manager :: "('r, 'w) groq_ports \<Rightarrow> bool" where
  "shared_manager P \<longleftrightarrow> (\<forall>k. shares (gq_client P k)) \<and> (\<forall>k call t. shares (gq_create P k call t))
     \<and> shares (gq_close P) \<and> (\<forall>b. shares (gq_sleep P b))"

text \<open>The keys and the well-formedness of the manager survive everything; the log only grows where a completion is asked.\<close>

definition stays :: "pystr list \<Rightarrow> 'l \<Rightarrow> manager \<times> 'w \<times> 'l \<Rightarrow> bool" where
  "stays ks l s \<longleftrightarrow> manager_ok (fst s) \<and> gm_keys (fst s) = ks \<and> snd (snd s) = l"

lemma stays_world: "stays ks l s \<Longrightarrow> stays ks l (snd (world_port (keep_log g) s))"
  by (simp add: stays_def world_port_def keep_log_def Let_def split_beta)

lemma stays_shared: "shares g \<Longrightarrow> stays ks l s \<Longrightarrow> stays ks l (snd (keep_log_shared g s))"
proof -
  assume "shares g" and s: "stays ks l s"
  then have "manager_step\<^sup>*\<^sup>* (fst s) (fst (snd (g (fst s, fst (snd s)))))" unfolding shares_def by (metis fst_conv)
  from manager_steps_keys [OF this] s show ?thesis by (simp add: stays_def keep_log_shared_def Let_def split_beta)
qed

lemma stays_acquire: "stays ks l s \<Longrightarrow> stays ks l (snd (acquire_next_key (logged P) tried s))"
  using acquire_keeps [of s "logged P" tried] acquire_cases [of "logged P" tried s "snd (snd (snd (acquire_next_key (logged P) tried s))) = snd (snd s)"]
  by (auto simp: stays_def logged_def keep_log_def Let_def split_beta)

lemma stays_mark: "stays ks l s \<Longrightarrow> stays ks l (mark_key_rate_limited (logged P) k s)"
  by (auto simp: stays_def mark_key_rate_limited_def logged_def keep_log_def Let_def split_beta manager_ok_def)

lemma stays_deactivate: "stays ks l s \<Longrightarrow> stays ks l (deactivate_key k s)"
  by (auto simp: stays_def deactivate_key_def manager_ok_def)

section \<open>What an attempt may do\<close>

definition pool_errors :: "groq_exn set" where
  "pool_errors = {GroqPoolExhaustedError ''All keys deactivated.'' (Some auth_failed),
     GroqPoolExhaustedError ''All keys in cooldown.'' (Some rate_limited),
     GroqPoolExhaustedError ''All keys tried, none succeeded.'' (Some connection_failed)}"

lemma pool_unavailable_reason:
  "\<forall>k \<in> set (gm_keys m). \<not> eligible m tried k \<Longrightarrow> pool_unavailable m tried \<in> pool_errors"
  by (auto simp: pool_unavailable_def Let_def pool_errors_def eligible_def list_all_iff)

lemma acquire_wp:
  assumes "stays ks l s"
    and "\<And>k s'. stays ks l s' \<Longrightarrow> k \<in> set ks \<Longrightarrow> k \<notin> tried \<Longrightarrow> Q (Inr k) s'"
    and "\<And>e s'. stays ks l s' \<Longrightarrow> e \<in> pool_errors \<Longrightarrow> Q (Inl e) s'"
  shows "wp (acquire_next_key (logged P) tried) Q s"
proof -
  note st = stays_acquire [OF assms(1), of P tried]
  have ks: "gm_keys (fst s) = ks" using assms(1) by (simp add: stays_def)
  show ?thesis
  proof (cases rule: acquire_cases [of "logged P" tried s])
    case (found k i)
    then show ?thesis using assms(2) [OF st, of k] ks by (simp add: wp_def split_beta eligible_def)
  next
    case none
    then show ?thesis using assms(3) [OF st] pool_unavailable_reason [of "drop_expired _ (fst s)" tried] by (simp add: wp_def split_beta)
  qed
qed

definition remembered :: "sdk_exn \<Rightarrow> ProviderFailure" where
  "remembered e = (if e = SdkOther then connection_failed else classify_provider_error e)"

lemma async_failure_wp:
  assumes "stays ks l s"
    and "\<And>s'. stays ks l s' \<Longrightarrow> e \<noteq> AsyncCancelled \<Longrightarrow> (\<And>c. e \<noteq> SdkTurnError c) \<Longrightarrow> Q (Inr (remembered e)) s'"
    and "e = AsyncCancelled \<Longrightarrow> Q (Inl GroqCancelled) s" and "\<And>c. e = SdkTurnError c \<Longrightarrow> Q (Inl (GroqTurnError c)) s"
  shows "wp (async_failure (logged P) k e) Q s"
  using assms(2) [OF assms(1)] assms(2) [OF stays_mark [OF assms(1)]] assms(2) [OF stays_deactivate [OF assms(1)]] assms(3,4)
  by (cases e) (auto simp: wp_def async_failure_def remembered_def classify_provider_error_def)

lemma wp_effective [wp_rules]:
  "wp (effective_timeout P params b) Q s \<longleftrightarrow>
     Q (Inr (compute_effective_attempt_timeout params b (fst (world_port (gq_monotonic P) s)))) (snd (world_port (gq_monotonic P) s))"
  by (simp add: effective_timeout_def wp_rules)

lemma wp_closing [wp_rules]:
  "wp (closing P body) Q s \<longleftrightarrow> wp body (\<lambda>r s'. Q (if fst (gq_close P s') then Inl GroqCancelled else r) (snd (gq_close P s'))) s"
  by (simp add: wp_def closing_def Let_def split_beta)

lemma logged_simps [simp]:
  "gq_time (logged P) = keep_log (gq_time P)" "gq_monotonic (logged P) = keep_log (gq_monotonic P)" "gq_random (logged P) = keep_log (gq_random P)"
  "gq_client (logged P) k = keep_log_shared (gq_client P k)" "gq_close (logged P) = keep_log_shared (gq_close P)"
  "gq_sleep (logged P) b = keep_log_shared (gq_sleep P b)"
  by (simp_all add: logged_def)

lemma with_backoff_wp:
  assumes "stays ks l s" and "\<And>b s'. stays ks l s' \<Longrightarrow> Q (Inr b) s'" and "\<And>s'. stays ks l s' \<Longrightarrow> Q (Inl GroqOverflow) s'"
  shows "wp (with_backoff (logged P) attempt params) Q s"
  using assms(2,3) [OF stays_world [OF assms(1), of "gq_random P"]]
  by (auto simp: with_backoff_def wp_rules with_error_def split: sum.splits)

lemma async_backoff_wp:
  assumes "shared_manager P" and "stays ks l s" and "\<And>s'. stays ks l s' \<Longrightarrow> Q (Inr ()) s'"
    and "\<And>e s'. stays ks l s' \<Longrightarrow> e \<in> {GroqOverflow, GroqCancelled} \<Longrightarrow> Q (Inl e) s'"
  shows "wp (async_backoff (logged P) params budget attempt) Q s"
proof -
  have "stays ks l (snd (keep_log_shared (gq_sleep P b) s'))" if "stays ks l s'" for b s'
    using stays_shared [OF _ that] assms(1) unfolding shared_manager_def by blast
  then show ?thesis unfolding async_backoff_def
    by (auto simp: wp_rules guard_def intro!: with_backoff_wp stays_world assms(2-4))
qed

section \<open>The outcome of a call\<close>

definition entry_failed :: "pystr \<times> rat option \<times> 'r call_end \<Rightarrow> bool" where
  "entry_failed e \<longleftrightarrow> (case snd (snd e) of Failed _ \<Rightarrow> True | Completed _ \<Rightarrow> False)"

definition entry_failure :: "pystr \<times> rat option \<times> 'r call_end \<Rightarrow> ProviderFailure option" where
  "entry_failure e = (case snd (snd e) of Failed x \<Rightarrow> Some (remembered x) | Completed _ \<Rightarrow> None)"

definition final_failure :: "ProviderFailure option \<Rightarrow> 'r attempt_log \<Rightarrow> ProviderFailure option" where
  "final_failure lf l = (if l = [] then lf else entry_failure (last l))"

fun call_outcome :: "ProviderFailure option \<Rightarrow> nat \<Rightarrow> 'r attempt_log \<Rightarrow> groq_exn + 'r \<Rightarrow> bool" where
  "call_outcome lf n l (Inr x) \<longleftrightarrow> (\<exists>fs k t. l = fs @ [(k, t, Completed x)] \<and> list_all entry_failed fs)"
| "call_outcome lf n l (Inl GroqCancelled) \<longleftrightarrow> True"
| "call_outcome lf n l (Inl (GroqTurnError c)) \<longleftrightarrow> list_all entry_failed l \<and> (c = turn_timeout \<or> l \<noteq> [] \<and> snd (snd (last l)) = Failed (SdkTurnError c))"
| "call_outcome lf n l (Inl e) \<longleftrightarrow> list_all entry_failed l \<and>
     (e \<in> {GroqRequestError, GroqOverflow} \<union> pool_errors \<or> length l = n \<and> e = exhausted (final_failure lf l))"

definition call_record :: "GroqCallParams \<Rightarrow> pystr list \<Rightarrow> pystr set \<Rightarrow> ProviderFailure option \<Rightarrow> nat \<Rightarrow> 'r attempt_log
    \<Rightarrow> groq_exn + 'r \<Rightarrow> manager \<times> 'w \<times> 'r attempt_log \<Rightarrow> bool" where
  "call_record params ks tried lf n l0 r s \<longleftrightarrow> (\<exists>l. stays ks (l0 @ l) s \<and> distinct (map fst l) \<and> fst ` set l \<subseteq> set ks - tried \<and> length l \<le> n
     \<and> (\<forall>(k, t, e) \<in> set l. \<exists>x. t = Some x \<and> 0 < x \<and> x \<le> gp_provider_attempt_timeout params)
     \<and> call_outcome lf n l r)"

lemma call_record_stop:
  "stays ks l0 s \<Longrightarrow> call_outcome lf n [] r \<Longrightarrow> call_record params ks tried lf n l0 r s"
  unfolding call_record_def by (rule exI [of _ "[]"]) simp

lemma call_record_one:
  assumes "stays ks (l0 @ [(k, Some x, e)]) s" and "k \<in> set ks" "k \<notin> tried" "0 < x" "x \<le> gp_provider_attempt_timeout params"
    and "call_outcome lf (Suc n) [(k, Some x, e)] r"
  shows "call_record params ks tried lf (Suc n) l0 r s"
  unfolding call_record_def using assms by (intro exI [of _ "[(k, Some x, e)]"]) simp

lemma outcome_Cons:
  assumes "call_outcome (Some (remembered e)) n l r"
  shows "call_outcome lf (Suc n) ((k, t, Failed e) # l) r"
proof (cases r)
  case (Inr x)
  then obtain fs k' t' where "l = fs @ [(k', t', Completed x)]" "list_all entry_failed fs" using assms by auto
  then show ?thesis using Inr by (auto simp: entry_failed_def intro!: exI [of _ "(k, t, Failed e) # fs"])
next
  case (Inl x)
  then show ?thesis using assms
    by (cases x) (auto simp: entry_failed_def final_failure_def entry_failure_def split: if_splits)
qed

lemma call_record_Cons:
  assumes "call_record params ks (insert k tried) (Some (remembered e)) n (l0 @ [(k, Some x, Failed e)]) r s"
    and "k \<in> set ks" "k \<notin> tried" "0 < x" "x \<le> gp_provider_attempt_timeout params"
  shows "call_record params ks tried lf (Suc n) l0 r s"
proof -
  obtain l where "stays ks ((l0 @ [(k, Some x, Failed e)]) @ l) s" "distinct (map fst l)" "fst ` set l \<subseteq> set ks - insert k tried" "length l \<le> n"
    "\<forall>(k, t, e) \<in> set l. \<exists>x. t = Some x \<and> 0 < x \<and> x \<le> gp_provider_attempt_timeout params"
    "call_outcome (Some (remembered e)) n l r"
    using assms(1) unfolding call_record_def by blast
  then show ?thesis unfolding call_record_def using assms(2-) outcome_Cons [of e n l r lf k "Some x"]
    by (intro exI [of _ "(k, Some x, Failed e) # l"]) auto
qed

lemma create_logged:
  assumes "shared_manager P" and "stays ks l s"
  shows "stays ks (l @ [(k, t, fst (gq_create (logged P) k call t s))]) (snd (gq_create (logged P) k call t s))"
proof -
  have "shares (gq_create P k call t)" using assms(1) by (simp add: shared_manager_def)
  from stays_shared [OF this assms(2)] show ?thesis by (simp add: logged_def Let_def split_beta stays_def)
qed

lemma async_attempt_wp:
  assumes P: "shared_manager P" and s: "stays ks l s"
    and "\<And>s'. stays ks l s' \<Longrightarrow> Q (Inl GroqRequestError) s'"
    and "\<And>r s'. stays ks (l @ [(k, Some eff, r)]) s' \<Longrightarrow> Q (Inl GroqCancelled) s'"
    and "\<And>x s'. stays ks (l @ [(k, Some eff, Completed x)]) s' \<Longrightarrow> Q (Inr (Inr x)) s'"
    and "\<And>e s'. stays ks (l @ [(k, Some eff, Failed e)]) s' \<Longrightarrow> Q (Inr (Inl (remembered e))) s'"
    and "\<And>c s'. stays ks (l @ [(k, Some eff, Failed (SdkTurnError c))]) s' \<Longrightarrow> Q (Inl (GroqTurnError c)) s'"
  shows "wp (async_attempt (logged P) call eff k) Q s"
proof -
  have sh: "stays ks l' (snd (keep_log_shared (gq_client P k) s'))" "stays ks l' (snd (keep_log_shared (gq_close P) s'))"
    if "stays ks l' s'" for l' s'
    using stays_shared [OF _ that] P unfolding shared_manager_def by blast+
  define s1 where "s1 = snd (keep_log_shared (gq_client P k) s)"
  define r where "r = fst (gq_create (logged P) k call (Some eff) s1)"
  define s2 where "s2 = snd (gq_create (logged P) k call (Some eff) s1)"
  have s1: "stays ks l s1" unfolding s1_def by (rule sh(1) [OF s])
  have s2: "stays ks (l @ [(k, Some eff, r)]) s2" unfolding r_def s2_def by (rule create_logged [OF P s1])
  have "wp (case r of Completed x \<Rightarrow> io_lift (Inr (Inr x)) | Failed e \<Rightarrow> io_bind (async_failure (logged P) k e) (\<lambda>f. io_lift (Inr (Inl f))))
     (\<lambda>r s'. Q (if fst (gq_close (logged P) s') then Inl GroqCancelled else r) (snd (gq_close (logged P) s'))) s2"
  proof (cases r)
    case (Completed x)
    then show ?thesis using assms(4) [OF sh(2) [OF s2]] assms(5) [OF sh(2)] s2 by (simp add: wp_rules)
  next
    case (Failed e)
    note fin = assms(4,6,7) [OF sh(2)]
    show ?thesis unfolding Failed call_end.case wp_rules
      by (rule async_failure_wp [OF s2]) (use s2 Failed in \<open>auto simp: wp_rules intro!: fin(2) fin(3) fin(1)\<close>)
  qed
  then show ?thesis using assms(3) [OF s1]
    by (simp add: async_attempt_def wp_rules s1_def [symmetric] r_def [symmetric] s2_def [symmetric] guard_def)
qed

lemma async_attempts_record:
  assumes "shared_manager P"
  shows "stays ks l0 s \<Longrightarrow> wp (async_attempts (logged P) call params budget tried lf as) (call_record params ks tried lf (length as) l0) s"
proof (induction as arbitrary: tried lf l0 s)
  case Nil
  then show ?case by (auto simp: wp_rules final_failure_def exhausted_def split: option.splits intro!: call_record_stop)
next
  case (Cons a as)
  define x where "x = compute_effective_attempt_timeout params budget (fst (world_port (gq_monotonic (logged P)) s))"
  have x: "x \<le> gp_provider_attempt_timeout params" by (simp add: x_def compute_effective_attempt_timeout_def)
  let ?R = "call_record params ks tried lf (Suc (length as)) l0"
  note stop = call_record_stop [of ks l0 _ lf "Suc (length as)"]
  have attempt: "wp (async_attempt (logged P) call x k) (\<lambda>r s'. case r of Inl e \<Rightarrow> ?R (Inl e) s'
      | Inr outcome \<Rightarrow> wp (case outcome of Inr r \<Rightarrow> io_lift (Inr r) | Inl f \<Rightarrow>
          io_bind (if as \<noteq> [] then async_backoff (logged P) params budget a else io_lift (Inr ())) (\<lambda>_.
          async_attempts (logged P) call params budget (insert k tried) (Some f) as)) ?R s') s1"
    if s1: "stays ks l0 s1" and k: "k \<in> set ks" "k \<notin> tried" and pos: "\<not> x \<le> 0" for k s1
  proof -
    have p: "0 < x" using pos by simp
    note one = call_record_one [OF _ k p x, of l0 _ _ lf "length as"]
    have more: "wp (async_attempts (logged P) call params budget (insert k tried) (Some (remembered e)) as) ?R s'"
      if "stays ks (l0 @ [(k, Some x, Failed e)]) s'" for e s'
      by (rule wp_mono [OF Cons.IH [OF that]], rule call_record_Cons [OF _ k p x])
    have rest: "wp (io_bind (if as \<noteq> [] then async_backoff (logged P) params budget a else io_lift (Inr ())) (\<lambda>_.
        async_attempts (logged P) call params budget (insert k tried) (Some (remembered e)) as)) ?R s'"
      if s': "stays ks (l0 @ [(k, Some x, Failed e)]) s'" for e s'
    proof (cases "as = []")
      case True
      then show ?thesis using more [OF s'] by (simp add: wp_bind wp_lift)
    next
      case False
      have f: "?R (Inl e') s''" if "stays ks (l0 @ [(k, Some x, Failed e)]) s''" "e' \<in> {GroqOverflow, GroqCancelled}" for e' s''
        using that by (auto simp: entry_failed_def intro!: one)
      show ?thesis unfolding wp_bind wp_if if_P [OF False]
        by (rule async_backoff_wp [OF assms s']) (simp_all only: sum.case more f)
    qed
    show ?thesis
      by (rule async_attempt_wp [OF assms s1]; unfold sum.case)
        (simp_all only: rest wp_lift, auto simp: entry_failed_def intro: one stop)
  qed
  have s1: "stays ks l0 (snd (world_port (gq_monotonic (logged P)) s))" using stays_world [OF Cons.prems] by simp
  have pool: "?R (Inl e) s'" if "stays ks l0 s'" "e \<in> pool_errors" for e s'
    using that by (auto simp: pool_errors_def intro!: stop)
  show ?case unfolding async_attempts.simps wp_bind wp_effective sum.case x_def [symmetric] wp_guard length_Cons
  proof (split if_split, intro conjI impI)
    assume pos: "\<not> x \<le> 0"
    show "wp (acquire_next_key (logged P) tried) (\<lambda>r s'. case r of Inl e \<Rightarrow> ?R (Inl e) s'
        | Inr k \<Rightarrow> wp (async_attempt (logged P) call x k) (\<lambda>r s'. case r of Inl e \<Rightarrow> ?R (Inl e) s'
      | Inr outcome \<Rightarrow> wp (case outcome of Inl f \<Rightarrow>
          io_bind (if as \<noteq> [] then async_backoff (logged P) params budget a else io_lift (Inr ())) (\<lambda>_.
          async_attempts (logged P) call params budget (insert k tried) (Some f) as) | Inr r \<Rightarrow> io_lift (Inr r)) ?R s') s')
        (snd (world_port (gq_monotonic (logged P)) s))"
      by (rule acquire_wp [OF s1]; unfold sum.case) (rule attempt [OF _ _ _ pos] pool; assumption)+
  qed (rule stop [OF s1], simp)
qed

section \<open>The keys of a synchronous call\<close>

definition sync_record :: "pystr list \<Rightarrow> pystr set \<Rightarrow> nat \<Rightarrow> 'r attempt_log \<Rightarrow> groq_exn + 'r \<Rightarrow> manager \<times> 'w \<times> 'r attempt_log \<Rightarrow> bool" where
  "sync_record ks tried n l0 r s \<longleftrightarrow> (\<exists>l. stays ks (l0 @ l) s \<and> distinct (map fst l) \<and> fst ` set l \<subseteq> set ks - tried \<and> length l \<le> n
     \<and> (\<forall>x. r = Inr x \<longrightarrow> (\<exists>fs k. l = fs @ [(k, None, Completed x)] \<and> list_all entry_failed fs)))"

lemma sync_record_Cons:
  assumes "sync_record ks (insert k tried) n (l0 @ [(k, None, Failed e)]) r s" and "k \<in> set ks" "k \<notin> tried"
  shows "sync_record ks tried (Suc n) l0 r s"
proof -
  obtain l where l: "stays ks ((l0 @ [(k, None, Failed e)]) @ l) s" "distinct (map fst l)" "fst ` set l \<subseteq> set ks - insert k tried" "length l \<le> n"
    "\<forall>x. r = Inr x \<longrightarrow> (\<exists>fs k. l = fs @ [(k, None, Completed x)] \<and> list_all entry_failed fs)"
    using assms(1) unfolding sync_record_def by blast
  have "\<exists>fs k'. (k, None, Failed e) # l = fs @ [(k', None, Completed x)] \<and> list_all entry_failed fs" if "r = Inr x" for x
  proof -
    from l(5) that obtain fs k' where "l = fs @ [(k', None, Completed x)]" "list_all entry_failed fs" by blast
    then show ?thesis by (intro exI [of _ "(k, None, Failed e) # fs"] exI [of _ k']) (simp add: entry_failed_def)
  qed
  then show ?thesis unfolding sync_record_def using assms(2-) l
    by (intro exI [of _ "(k, None, Failed e) # l"]) auto
qed

lemma sync_record_stop:
  "stays ks l0 s \<Longrightarrow> sync_record ks tried n l0 (Inl e) s"
  "stays ks (l0 @ [(k, None, r)]) s \<Longrightarrow> k \<in> set ks \<Longrightarrow> k \<notin> tried \<Longrightarrow> sync_record ks tried (Suc n) l0 (Inl e) s"
  "stays ks (l0 @ [(k, None, Completed x)]) s \<Longrightarrow> k \<in> set ks \<Longrightarrow> k \<notin> tried \<Longrightarrow> sync_record ks tried (Suc n) l0 (Inr x) s"
  unfolding sync_record_def
  by (rule exI [of _ "[]"], simp) (rule exI [of _ "[(k, None, _)]"], simp)+

lemma sync_failure_wp:
  assumes "stays ks l s" and "\<And>s'. stays ks l s' \<Longrightarrow> Q (Inr ()) s'" and "\<And>e s'. stays ks l s' \<Longrightarrow> Q (Inl e) s'"
  shows "wp (sync_failure (logged P) k e) Q s"
  using assms(2,3) [OF assms(1)] assms(2) [OF stays_mark [OF assms(1)]] assms(2) [OF stays_deactivate [OF assms(1)]]
  by (cases e) (auto simp: wp_def sync_failure_def)

lemma sync_attempt_wp:
  assumes P: "shared_manager P" and s: "stays ks l s"
    and "\<And>s'. stays ks l s' \<Longrightarrow> Q (Inl GroqRequestError) s'"
    and "\<And>x s'. stays ks (l @ [(k, None, Completed x)]) s' \<Longrightarrow> Q (Inr (Some x)) s'"
    and "\<And>e s'. stays ks (l @ [(k, None, Failed e)]) s' \<Longrightarrow> Q (Inr None) s'"
    and "\<And>e x s'. stays ks (l @ [(k, None, Failed e)]) s' \<Longrightarrow> Q (Inl x) s'"
  shows "wp (sync_attempt (logged P) call k) Q s"
proof -
  have "shares (gq_client P k)" using P by (simp add: shared_manager_def)
  note s1 = stays_shared [OF this s]
  note st = create_logged [OF P s1, of k None call]
  have "wp (case fst (gq_create (logged P) k call None (snd (keep_log_shared (gq_client P k) s))) of
        Completed r \<Rightarrow> io_lift (Inr (Some r)) | Failed e \<Rightarrow> io_bind (sync_failure (logged P) k e) (\<lambda>_. io_lift (Inr None))) Q
      (snd (gq_create (logged P) k call None (snd (keep_log_shared (gq_client P k) s))))"
  proof (cases "fst (gq_create (logged P) k call None (snd (keep_log_shared (gq_client P k) s)))")
    case (Completed x)
    then show ?thesis using assms(4) st by (simp add: wp_lift)
  next
    case (Failed e)
    then show ?thesis unfolding Failed call_end.case wp_bind
      by (intro sync_failure_wp [OF st [unfolded Failed]]) (simp_all add: wp_lift assms(5,6))
  qed
  then show ?thesis using assms(3) [OF s1] by (simp add: sync_attempt_def wp_rules guard_def)
qed

lemma sync_backoff_wp:
  assumes "shared_manager P" and "stays ks l s" and "\<And>s'. stays ks l s' \<Longrightarrow> Q (Inr ()) s'" and "\<And>s'. stays ks l s' \<Longrightarrow> Q (Inl GroqOverflow) s'"
  shows "wp (sync_backoff (logged P) params attempt) Q s"
proof -
  have "stays ks l (snd (keep_log_shared (gq_sleep P b) s'))" if "stays ks l s'" for b s'
    using stays_shared [OF _ that] assms(1) unfolding shared_manager_def by blast
  then show ?thesis unfolding sync_backoff_def
    by (auto simp: wp_rules intro!: with_backoff_wp assms(2-4))
qed

lemma sync_attempts_record:
  assumes P: "shared_manager P"
  shows "stays ks l0 s \<Longrightarrow> wp (sync_attempts (logged P) call params tried as) (sync_record ks tried (length as) l0) s"
proof (induction as arbitrary: tried l0 s)
  case Nil
  then show ?case by (simp add: wp_lift sync_record_stop)
next
  case (Cons a as)
  let ?R = "sync_record ks tried (Suc (length as)) l0"
  have attempt: "wp (sync_attempt (logged P) call k) (\<lambda>r s'. case r of Inl e \<Rightarrow> ?R (Inl e) s'
      | Inr outcome \<Rightarrow> wp (case outcome of None \<Rightarrow>
          io_bind (if as \<noteq> [] then sync_backoff (logged P) params a else io_lift (Inr ())) (\<lambda>_.
          sync_attempts (logged P) call params (insert k tried) as) | Some r \<Rightarrow> io_lift (Inr r)) ?R s') s1"
    if s1: "stays ks l0 s1" and k: "k \<in> set ks" "k \<notin> tried" for k s1
  proof -
    have more: "wp (sync_attempts (logged P) call params (insert k tried) as) ?R s''" if "stays ks (l0 @ [(k, None, Failed e)]) s''" for e s''
      by (rule wp_mono [OF Cons.IH [OF that]], rule sync_record_Cons [OF _ k])
    have stop: "?R (Inl e') s''" if "stays ks (l0 @ [(k, None, Failed e)]) s''" for e e' s''
      by (rule sync_record_stop(2) [OF that k])
    have rest: "wp (io_bind (if as \<noteq> [] then sync_backoff (logged P) params a else io_lift (Inr ())) (\<lambda>_.
        sync_attempts (logged P) call params (insert k tried) as)) ?R s'"
      if s': "stays ks (l0 @ [(k, None, Failed e)]) s'" for e s'
    proof (cases "as = []")
      case True
      then show ?thesis using more [OF s'] by (simp add: wp_bind wp_lift)
    next
      case False
      show ?thesis unfolding wp_bind wp_if if_P [OF False]
        by (rule sync_backoff_wp [OF P s']) (simp_all only: sum.case more stop)
    qed
    show ?thesis
      by (rule sync_attempt_wp [OF P s1]; unfold sum.case option.case)
        (fast intro: rest stop sync_record_stop(1) wp_lift [THEN iffD2] sync_record_stop(3) [OF _ k])+
  qed
  show ?case unfolding sync_attempts.simps wp_bind length_Cons
    by (rule acquire_wp [OF Cons.prems]; unfold sum.case) (rule attempt sync_record_stop(1); assumption)+
qed

section \<open>Properties\<close>

text \<open>The choice of the next key.  With the cooldowns that have expired removed, the manager hands out the first eligible key of the
  configured keys read from its index (eligible: neither deactivated, nor in cooldown, nor already tried by this call); when there
  is none it raises that all keys are deactivated, that all others are in cooldown, or that the remaining ones were tried,
  with the matching failure code and in this order of precedence; the branch the code marks as unreachable is unreachable.\<close>

theorem acquire_first_eligible:
  assumes "acquire_next_key P tried s = (r, m', w')" and "m = drop_expired (fst (gq_time P (snd s))) (fst s)"
  shows "(case filter (\<lambda>k. k \<notin> gm_deactivated m \<and> gm_cooldowns m k = None \<and> k \<notin> tried) (rotate (gm_index m) (gm_keys m)) of
       k # _ \<Rightarrow> r = Inr k
     | [] \<Rightarrow> r = Inl (if set (gm_keys m) \<subseteq> gm_deactivated m then GroqPoolExhaustedError ''All keys deactivated.'' (Some auth_failed)
           else if set (gm_keys m) \<subseteq> gm_deactivated m \<union> dom (gm_cooldowns m) then GroqPoolExhaustedError ''All keys in cooldown.'' (Some rate_limited)
           else GroqPoolExhaustedError ''All keys tried, none succeeded.'' (Some connection_failed)))
   \<and> gm_keys m' = gm_keys (fst s) \<and> gm_deactivated m' = gm_deactivated (fst s) \<and> gm_cooldowns m' = gm_cooldowns m"
proof -
  have el: "eligible m tried = (\<lambda>k. k \<notin> gm_deactivated m \<and> gm_cooldowns m k = None \<and> k \<notin> tried)" by (simp add: fun_eq_iff eligible_def)
  note first = scan_first [of m "eligible m tried"]
  show ?thesis
  proof (cases "List.find (\<lambda>idx. eligible m tried (gm_keys m ! idx)) (scan_order m)")
    case None
    then have e: "filter (eligible m tried) (rotate (gm_index m) (gm_keys m)) = []" using first by (auto split: list.splits)
    have "r = Inl (pool_unavailable m tried)" "m' = m"
      using assms None by (auto simp: acquire_next_key_def Let_def split_beta)
    moreover have "\<forall>k \<in> set (gm_keys m). k \<notin> gm_deactivated m \<and> gm_cooldowns m k = None \<longrightarrow> k \<in> tried"
      using e by (auto simp: filter_empty_conv eligible_def)
    ultimately show ?thesis
      unfolding e [unfolded el] by (auto simp: assms(2) pool_unavailable_def Let_def list_all_iff subset_iff)
  next
    case (Some idx)
    then obtain ks where f: "filter (eligible m tried) (rotate (gm_index m) (gm_keys m)) = (gm_keys m ! idx) # ks"
      using first by (auto split: list.splits)
    have "r = Inr (gm_keys m ! idx)" "m' = m\<lparr>gm_index := (idx + 1) mod length (gm_keys m)\<rparr>"
      using assms Some by (auto simp: acquire_next_key_def Let_def split_beta)
    then show ?thesis unfolding f [unfolded el] by (simp add: assms(2))
  qed
qed

text \<open>C9: the attempts of an asynchronous completion.  Whatever other calls do to the shared manager in between, a call asks at most
  \<open>max(1, min(max_attempts, active keys))\<close> completions, each with another configured key and a positive timeout within the configured one.  It
  returns a completion only if that was the last attempt and every earlier one failed; otherwise, unless the task was cancelled or the SDK raised a turn error, every attempt failed,
  and when all attempts were used the failure code is that of the last failure.\<close>

theorem async_completion_attempts:
  assumes "shared_manager P" and "manager_ok m"
    and "chat_completion_async canon (logged P) call budget (m, w, []) = (r, m', w', l)"
  shows "distinct (map fst l) \<and> fst ` set l \<subseteq> set (gm_keys m)
    \<and> int (length l) \<le> max 1 (min (gp_max_attempts (gm_params m)) (int (length (filter (\<lambda>k. k \<notin> gm_deactivated m) (gm_keys m)))))
    \<and> (\<forall>(k, t, e) \<in> set l. \<exists>x. t = Some x \<and> 0 < x \<and> x \<le> gp_provider_attempt_timeout (gm_params m))
    \<and> (case r of Inr x \<Rightarrow> (\<exists>fs k t. l = fs @ [(k, t, Completed x)] \<and> list_all entry_failed fs)
       | Inl (GroqPoolExhaustedError msg f) \<Rightarrow> list_all entry_failed l
           \<and> (GroqPoolExhaustedError msg f \<in> pool_errors \<or> length l = attempt_count m \<and> l \<noteq> [] \<and> f = entry_failure (last l))
       | Inl GroqCancelled \<Rightarrow> True
       | Inl _ \<Rightarrow> list_all entry_failed l)"
proof (cases "check_envelope canon (cc_messages call)")
  case (Inl e)
  then have "r = Inl e" "l = []" using assms(3) by (auto simp: chat_completion_async_def io_bind_def io_lift_def)
  moreover have "e = GroqRequestError \<or> (\<exists>x. e = GroqEnvelope x)" using Inl by (auto simp: check_envelope_def split: sum.splits if_splits)
  ultimately show ?thesis by auto
next
  case (Inr _)
  have n: "attempt_count m = nat (max 1 (min (gp_max_attempts (gm_params m)) (int (length (filter (\<lambda>k. k \<notin> gm_deactivated m) (gm_keys m))))))"
    by (auto simp: attempt_count_def Let_def max_def min_def)
  have "stays (gm_keys m) [] (m, w, [])" using assms(2) by (simp add: stays_def)
  from async_attempts_record [OF assms(1) this, of "sanitised call" "gm_params m" budget "{}" None "[0..<attempt_count m]"]
  have "call_record (gm_params m) (gm_keys m) {} None (attempt_count m) [] r (m', w', l)"
    using assms(3) Inr by (simp add: wp_def chat_completion_async_def io_bind_def io_lift_def)
  then have l: "distinct (map fst l)" "fst ` set l \<subseteq> set (gm_keys m)" "length l \<le> attempt_count m"
    "\<forall>(k, t, e) \<in> set l. \<exists>x. t = Some x \<and> 0 < x \<and> x \<le> gp_provider_attempt_timeout (gm_params m)"
    and out: "call_outcome None (attempt_count m) l r"
    by (auto simp: call_record_def stays_def)
  have "0 < attempt_count m" by (simp add: n)
  have "case r of Inr x \<Rightarrow> (\<exists>fs k t. l = fs @ [(k, t, Completed x)] \<and> list_all entry_failed fs)
       | Inl (GroqPoolExhaustedError msg f) \<Rightarrow> list_all entry_failed l
           \<and> (GroqPoolExhaustedError msg f \<in> pool_errors \<or> length l = attempt_count m \<and> l \<noteq> [] \<and> f = entry_failure (last l))
       | Inl GroqCancelled \<Rightarrow> True
       | Inl _ \<Rightarrow> list_all entry_failed l"
  proof (cases r)
    case (Inl e)
    show ?thesis
    proof (cases "l = []")
      case True
      then show ?thesis using out Inl \<open>0 < attempt_count m\<close> by (cases e) auto
    next
      case False
      then have "entry_failed (last l) \<Longrightarrow> entry_failure (last l) \<noteq> None"
        by (auto simp: entry_failure_def entry_failed_def split: call_end.splits)
      then show ?thesis using out Inl False
        by (cases e) (auto simp: final_failure_def exhausted_def list_all_iff split: if_splits option.splits)
    qed
  qed (use out in auto)
  then show ?thesis using l n by auto
qed

section \<open>A working key is found\<close>

text \<open>Ports of a call that runs alone: clients are created, nothing is cancelled, time remains, and one key works.\<close>

definition undisturbed :: "(manager \<times> 'w \<Rightarrow> bool \<times> manager \<times> 'w) \<Rightarrow> bool \<Rightarrow> bool" where
  "undisturbed g b \<longleftrightarrow> (\<forall>s. fst (g s) = b \<and> fst (snd (g s)) = fst s)"

definition serves :: "GroqCallParams \<Rightarrow> TurnBudget \<Rightarrow> pystr \<Rightarrow> ('r, 'w) groq_ports \<Rightarrow> bool" where
  "serves params budget good P \<longleftrightarrow> (\<forall>k. undisturbed (gq_client P k) True) \<and> undisturbed (gq_close P) False \<and> (\<forall>b. undisturbed (gq_sleep P b) False)
     \<and> (\<forall>w. 0 < compute_effective_attempt_timeout params budget (fst (gq_monotonic P w)))
     \<and> (\<forall>k call t s. fst (snd (gq_create P k call t s)) = fst s
          \<and> fst (gq_create P k call t s) \<noteq> Failed AsyncCancelled \<and> (\<forall>c. fst (gq_create P k call t s) \<noteq> Failed (SdkTurnError c))
          \<and> (k = good \<longrightarrow> (\<exists>x. fst (gq_create P k call t s) = Completed x)))"

lemma servesD:
  assumes "serves params budget good P"
  shows "fst (gq_client P k s)" "fst (snd (gq_client P k s)) = fst s" "\<not> fst (gq_close P s)" "fst (snd (gq_close P s)) = fst s"
    "\<not> fst (gq_sleep P b s)" "fst (snd (gq_sleep P b s)) = fst s" "fst (snd (gq_create P k call t s)) = fst s"
  using assms unfolding serves_def undisturbed_def by blast+

definition good_free :: "pystr list \<Rightarrow> pystr \<Rightarrow> manager \<times> 'w \<Rightarrow> bool" where
  "good_free ks good s \<longleftrightarrow> gm_keys (fst s) = ks \<and> good \<in> set ks \<and> good \<notin> gm_deactivated (fst s) \<and> gm_cooldowns (fst s) good = None"

lemma acquire_good:
  assumes "good_free ks good s" and "good \<notin> tried"
    and "\<And>k s'. good_free ks good s' \<Longrightarrow> k \<in> set ks \<Longrightarrow> k \<notin> tried \<Longrightarrow> Q (Inr k) s'"
  shows "wp (acquire_next_key P tried) Q s"
proof (cases rule: acquire_cases [of P tried s])
  case (found k i)
  then have "good_free ks good (snd (acquire_next_key P tried s))" using assms(1) by (auto simp: good_free_def drop_expired_def)
  then show ?thesis using assms(3) [of "snd (acquire_next_key P tried s)" k] found assms(1)
    by (simp add: wp_def split_beta good_free_def eligible_def)
next
  case none
  then show ?thesis using assms(1,2) by (auto simp: good_free_def eligible_def drop_expired_def)
qed

lemma attempt_good:
  assumes P: "serves params budget good P" and s: "good_free ks good s"
    and "\<And>x s'. Q (Inr (Inr x)) s'" and "\<And>f s'. k \<noteq> good \<Longrightarrow> good_free ks good s' \<Longrightarrow> Q (Inr (Inl f)) s'"
  shows "wp (async_attempt P call eff k) Q s"
proof -
  define s1 where "s1 = snd (gq_client P k s)"
  define s2 where "s2 = snd (gq_create P k call (Some eff) s1)"
  have c: "fst (gq_client P k s)" "fst s1 = fst s" "fst s2 = fst s1" "\<And>s. \<not> fst (gq_close P s) \<and> fst (snd (gq_close P s)) = fst s"
    using servesD [OF P] by (simp_all add: s1_def s2_def)
  have keep: "good_free ks good (snd (gq_close P s'))" if "fst s' = fst s''" "good_free ks good s''" for s' s''
    using that c(4) [of s'] by (simp add: good_free_def)
  have "wp (case fst (gq_create P k call (Some eff) s1) of Completed r \<Rightarrow> io_lift (Inr (Inr r))
      | Failed e \<Rightarrow> io_bind (async_failure P k e) (\<lambda>f. io_lift (Inr (Inl f))))
     (\<lambda>r s'. Q (if fst (gq_close P s') then Inl GroqCancelled else r) (snd (gq_close P s'))) s2"
  proof (cases "fst (gq_create P k call (Some eff) s1)")
    case (Completed x)
    then show ?thesis using assms(3) c by (simp add: wp_lift)
  next
    case (Failed e)
    then have g: "k \<noteq> good" "e \<noteq> AsyncCancelled" "\<And>c. e \<noteq> SdkTurnError c"
      using P unfolding serves_def by (metis call_end.distinct(1), metis, metis)
    have "good_free ks good s2" "good_free ks good (mark_key_rate_limited P k s2)" "good_free ks good (deactivate_key k s2)"
      using s c g(1) by (auto simp: good_free_def mark_key_rate_limited_def deactivate_key_def Let_def split_beta)
    from this [THEN keep [OF refl]] show ?thesis using g c assms(4)
      by (cases e) (auto simp: Failed wp_def io_bind_def io_lift_def async_failure_def)
  qed
  then show ?thesis using c by (simp add: async_attempt_def wp_rules s1_def [symmetric] s2_def [symmetric] guard_def)
qed

lemma backoff_good:
  assumes "serves params budget good P" and "good_free ks good s" and "a < 1024" and "\<And>s'. good_free ks good s' \<Longrightarrow> Q (Inr ()) s'"
  shows "wp (async_backoff P params budget a) Q s"
proof -
  define s1 where "s1 = snd (world_port (gq_monotonic P) s)"
  define s2 where "s2 = snd (world_port (gq_random P) s1)"
  obtain d where d: "compute_backoff_from_params (int a) params (fst (world_port (gq_random P) s1)) = Inr d"
    using float_of_int_pow2 [OF assms(3)] by (auto simp: compute_backoff_from_params_def compute_backoff_def Let_def)
  have g: "good_free ks good s2" "good_free ks good (snd (gq_sleep P d s2))" "\<not> fst (gq_sleep P d s2)"
    using assms(2) servesD [OF assms(1)] by (simp_all add: good_free_def s1_def s2_def world_port_def Let_def split_beta)
  show ?thesis using assms(4) [OF g(1)] assms(4) [OF g(2)] d g(3)
    by (simp add: async_backoff_def with_backoff_def wp_rules with_error_def guard_def s1_def [symmetric] s2_def [symmetric])
qed

lemma async_attempts_good:
  assumes P: "serves params budget good P"
  shows "good_free ks good s \<Longrightarrow> good \<notin> tried \<Longrightarrow> card (set ks - tried) \<le> length as \<Longrightarrow> \<forall>a \<in> set as. a < 1024
    \<Longrightarrow> wp (async_attempts P call params budget tried lf as) (\<lambda>r _. \<exists>x. r = Inr x) s"
proof (induction as arbitrary: tried lf s)
  case Nil
  then have "set ks - tried = {}" by simp
  with Nil show ?case by (auto simp: good_free_def)
next
  case (Cons a as)
  have next_key: "wp (async_attempts P call params budget (insert k tried) (Some f) as) (\<lambda>r _. \<exists>x. r = Inr x) s'"
    if "k \<noteq> good" "k \<in> set ks" "k \<notin> tried" "good_free ks good s'" for k f s'
  proof (rule Cons.IH [OF that(4)])
    have "set ks - tried = insert k (set ks - insert k tried)" using that by auto
    then show "card (set ks - insert k tried) \<le> length as" using Cons.prems(3)
      by (metis Diff_iff List.finite_set card_insert_disjoint finite_Diff insertI1 length_Cons Suc_le_mono)
  qed (use Cons.prems that in auto)
  have p: "\<not> compute_effective_attempt_timeout params budget (fst (world_port (gq_monotonic P) s)) \<le> 0"
    using P by (simp add: serves_def world_port_def Let_def split_beta not_le)
  have s1: "good_free ks good (snd (world_port (gq_monotonic P) s))"
    using Cons.prems(1) by (simp add: good_free_def world_port_def Let_def split_beta)
  have rest: "wp (io_bind (if as \<noteq> [] then async_backoff P params budget a else io_lift (Inr ())) (\<lambda>_.
      async_attempts P call params budget (insert k tried) (Some f) as)) (\<lambda>r _. \<exists>x. r = Inr x) s'"
    if "k \<noteq> good" "k \<in> set ks" "k \<notin> tried" "good_free ks good s'" for k f s'
  proof (cases "as = []")
    case True
    then show ?thesis using next_key [OF that] by (simp add: wp_bind wp_lift)
  next
    case False
    show ?thesis unfolding wp_bind wp_if if_P [OF False]
      by (rule backoff_good [OF P that(4)]) (use Cons.prems(4) in \<open>simp_all add: next_key that(1-3)\<close>)
  qed
  show ?case unfolding async_attempts.simps wp_bind wp_effective sum.case wp_guard if_P [OF p]
    by (rule acquire_good [OF s1 Cons.prems(2)], unfold sum.case, rule attempt_good [OF P], assumption; unfold sum.case)
      (fast intro: rest wp_lift [THEN iffD2])+
qed


section \<open>A concrete pool\<close>

definition sample_ports :: "pystr \<Rightarrow> (nat, unit) groq_ports" where
  "sample_ports good = \<lparr>gq_time = (\<lambda>w. (0, w)), gq_monotonic = (\<lambda>w. (0, w)), gq_random = (\<lambda>w. (0, w)),
     gq_client = (\<lambda>k s. (True, s)), gq_create = (\<lambda>k call t s. (if k = good then Completed 7 else Failed RateLimitError, s)),
     gq_close = (\<lambda>s. (False, s)), gq_sleep = (\<lambda>b s. (False, s))\<rparr>"

definition sample_params :: GroqCallParams where
  "sample_params = \<lparr>gp_max_attempts = 2, gp_connect_timeout = 5, gp_provider_attempt_timeout = 12, gp_base_backoff = 1, gp_max_backoff = 2, gp_max_jitter = 0\<rparr>"

definition sample_manager :: manager where
  "sample_manager = \<lparr>gm_keys = [u ''a'', u ''b''], gm_params = sample_params, gm_deactivated = {}, gm_cooldowns = Map.empty, gm_index = 0\<rparr>"

definition sample_budget :: TurnBudget where "sample_budget = \<lparr>tb_deadline = 45, tb_reserve = 10\<rparr>"

definition sample_request :: completion_call where
  "sample_request = \<lparr>cc_messages = PList [PDict [(PStr (u ''role''), PStr (u ''user'')), (PStr (u ''content''), PStr (u ''hi''))]], cc_model = u ''m'', cc_kwargs = []\<rparr>"

lemma sample_valid: "validate_provider_input (\<lambda>_. Some []) (cc_messages sample_request) (int PROVIDER_INPUT_MAX_ESTIMATED_UNITS) = Inr ()"
  by (simp add: validate_provider_input_iff sample_request_def validate_message_def unknown_keys_def VALID_MESSAGE_KEYS_def VALID_ROLES_def
        dict_get_def estimate_provider_input_units_def PROVIDER_INPUT_MAX_ESTIMATED_UNITS_def with_error_def utf8_encode_def)

lemma sample_shared: "shared_manager (sample_ports good)"
  by (auto simp: shared_manager_def shares_def sample_ports_def)

lemma sample_time: "0 < compute_effective_attempt_timeout sample_params sample_budget 0"
  by code_simp

lemma sample_serves: "serves sample_params sample_budget good (sample_ports good)"
  using sample_time by (auto simp: serves_def undisturbed_def sample_ports_def)

theorem acquire_first_eligible_witness:
  "fst (acquire_next_key (sample_ports (u ''a'')) {u ''a''} (sample_manager, ())) = Inr (u ''b'')"
proof -
  obtain r m' w' where a: "acquire_next_key (sample_ports (u ''a'')) {u ''a''} (sample_manager, ()) = (r, m', w')" by (metis surj_pair)
  have "u ''a'' \<noteq> u ''b''" by (simp add: u_def)
  then show ?thesis using acquire_first_eligible [OF a refl] a
    by (simp add: sample_manager_def sample_ports_def drop_expired_def)
qed

theorem async_completion_attempts_witness:
  "\<exists>r m' w' l. chat_completion_async (\<lambda>_. Some []) (logged (sample_ports (u ''b''))) sample_request sample_budget (sample_manager, (), []) = (r, m', w', l)
     \<and> distinct (map fst l) \<and> length l \<le> 2"
proof -
  obtain r m' w' l where a: "chat_completion_async (\<lambda>_. Some []) (logged (sample_ports (u ''b''))) sample_request sample_budget (sample_manager, (), []) = (r, m', w', l)"
    by (metis surj_pair)
  have "manager_ok sample_manager" by (simp add: manager_ok_def sample_manager_def)
  from async_completion_attempts [OF sample_shared this a] a show ?thesis
    by (auto simp: sample_manager_def sample_params_def)
qed


end
