(* ===== verification/Groq_Language_Model.thy ===== *)
theory Groq_Language_Model
  imports Groq_Manager Appraisal_Parser
begin

text \<open>
  The language model boundary (\<open>language_model.py\<close>), its Groq adapter (\<open>groq_language_model.py\<close>) and the model table
  (\<open>provider_models.py\<close>): canonical failures, translation of what the key pool raises, and the three calls of the core.

  \<open>json.loads\<close> and the attribute access on the response object of the SDK are parameters.
\<close>

section \<open>The canonical failures\<close>

datatype ModelFailure =
    mf_rate_limited | mf_auth_failed | mf_connection_failed | mf_server_error | mf_invalid_request | mf_invalid_response | mf_timeout

definition model_failure_value :: "ModelFailure \<Rightarrow> pystr" where
  "model_failure_value f = (case f of
     mf_rate_limited \<Rightarrow> u ''rate_limited''
   | mf_auth_failed \<Rightarrow> u ''auth_failed''
   | mf_connection_failed \<Rightarrow> u ''connection_failed''
   | mf_server_error \<Rightarrow> u ''server_error''
   | mf_invalid_request \<Rightarrow> u ''invalid_request''
   | mf_invalid_response \<Rightarrow> u ''invalid_response''
   | mf_timeout \<Rightarrow> u ''timeout'')"

datatype lm_class =
    LanguageModelError | LanguageModelRateLimitedError | LanguageModelAuthFailedError | LanguageModelConnectionFailedError
  | LanguageModelServerError | LanguageModelInvalidRequestError | LanguageModelInvalidResponseError | LanguageModelTimeoutError
  | LanguageModelConfigurationError

definition MESSAGE :: "lm_class \<Rightarrow> string" where
  "MESSAGE c = (case c of
     LanguageModelError \<Rightarrow> ''Language model request failed.''
   | LanguageModelRateLimitedError \<Rightarrow> ''Language model is rate limited.''
   | LanguageModelAuthFailedError \<Rightarrow> ''Language model authentication failed.''
   | LanguageModelConnectionFailedError \<Rightarrow> ''Language model connection failed.''
   | LanguageModelServerError \<Rightarrow> ''Language model server error.''
   | LanguageModelInvalidRequestError \<Rightarrow> ''Language model rejected the request.''
   | LanguageModelInvalidResponseError \<Rightarrow> ''Language model returned an invalid response.''
   | LanguageModelTimeoutError \<Rightarrow> ''Language model request timed out.''
   | LanguageModelConfigurationError \<Rightarrow> ''Language model is not configured.'')"

record language_error =
  le_class :: lm_class
  le_failure :: ModelFailure
  le_message :: string

text \<open>The constructors: the base class takes a failure, each subclass passes its own.\<close>

definition LanguageModelError_init :: "lm_class \<Rightarrow> ModelFailure \<Rightarrow> language_error" where
  "LanguageModelError_init c f = \<lparr>le_class = c, le_failure = f, le_message = MESSAGE c\<rparr>"

definition class_failure :: "lm_class \<Rightarrow> ModelFailure" where
  "class_failure c = (case c of
     LanguageModelError \<Rightarrow> mf_server_error
   | LanguageModelRateLimitedError \<Rightarrow> mf_rate_limited
   | LanguageModelAuthFailedError \<Rightarrow> mf_auth_failed
   | LanguageModelConnectionFailedError \<Rightarrow> mf_connection_failed
   | LanguageModelServerError \<Rightarrow> mf_server_error
   | LanguageModelInvalidRequestError \<Rightarrow> mf_invalid_request
   | LanguageModelInvalidResponseError \<Rightarrow> mf_invalid_response
   | LanguageModelTimeoutError \<Rightarrow> mf_timeout
   | LanguageModelConfigurationError \<Rightarrow> mf_invalid_request)"

definition subclass_error :: "lm_class \<Rightarrow> language_error" where
  "subclass_error c = LanguageModelError_init c (class_failure c)"

definition FAILURE_TO_ERROR :: "(ModelFailure \<times> lm_class) list" where
  "FAILURE_TO_ERROR = [(mf_rate_limited, LanguageModelRateLimitedError), (mf_auth_failed, LanguageModelAuthFailedError),
     (mf_connection_failed, LanguageModelConnectionFailedError), (mf_server_error, LanguageModelServerError),
     (mf_invalid_request, LanguageModelInvalidRequestError), (mf_invalid_response, LanguageModelInvalidResponseError),
     (mf_timeout, LanguageModelTimeoutError)]"

text \<open>
  The members of both enumerations are strings, so a member of the manager's enumeration finds the member of the boundary's with the same value;
  \<open>None\<close> is the \<open>KeyError\<close> of the lookup.
\<close>

definition canonical_error_for :: "pystr \<Rightarrow> language_error option" where
  "canonical_error_for v =
     map_option subclass_error (map_of (map (\<lambda>(f, c). (model_failure_value f, c)) FAILURE_TO_ERROR) v)"

definition language_failure_to_turn_code :: "ModelFailure \<Rightarrow> TurnErrorCode" where
  "language_failure_to_turn_code f = (case f of
     mf_rate_limited \<Rightarrow> upstream_rate_limited
   | mf_auth_failed \<Rightarrow> provider_invalid_request
   | mf_invalid_request \<Rightarrow> provider_invalid_request
   | mf_connection_failed \<Rightarrow> provider_unavailable
   | mf_server_error \<Rightarrow> provider_unavailable
   | mf_timeout \<Rightarrow> turn_timeout
   | mf_invalid_response \<Rightarrow> provider_invalid_response)"

section \<open>Models\<close>

definition MAIN_MODEL_ID :: pystr where "MAIN_MODEL_ID = u ''openai/gpt-oss-120b''"
definition FAST_MODEL_ID :: pystr where "FAST_MODEL_ID = u ''openai/gpt-oss-20b''"
definition MAIN_MAX_OUTPUT_TOKENS :: int where "MAIN_MAX_OUTPUT_TOKENS = 200"
definition APPRAISAL_MAX_OUTPUT_TOKENS :: int where "APPRAISAL_MAX_OUTPUT_TOKENS = 256"
definition ARCHIVAL_MAX_OUTPUT_TOKENS :: int where "ARCHIVAL_MAX_OUTPUT_TOKENS = 512"

record ProviderConfig =
  pc_main_model_id :: pystr
  pc_fast_model_id :: pystr
  pc_main_max_output_tokens :: int
  pc_appraisal_max_output_tokens :: int
  pc_archival_max_output_tokens :: int

definition ProviderConfig_default :: ProviderConfig where
  "ProviderConfig_default = \<lparr>pc_main_model_id = MAIN_MODEL_ID, pc_fast_model_id = FAST_MODEL_ID,
     pc_main_max_output_tokens = MAIN_MAX_OUTPUT_TOKENS, pc_appraisal_max_output_tokens = APPRAISAL_MAX_OUTPUT_TOKENS,
     pc_archival_max_output_tokens = ARCHIVAL_MAX_OUTPUT_TOKENS\<rparr>"

record ModelSelection =
  sel_provider :: pystr
  sel_main_model_id :: pystr
  sel_fast_model_id :: pystr

definition describe :: "ProviderConfig \<Rightarrow> ModelSelection" where
  "describe c = \<lparr>sel_provider = u ''groq'', sel_main_model_id = pc_main_model_id c, sel_fast_model_id = pc_fast_model_id c\<rparr>"

section \<open>The adapter\<close>

datatype adapter_exn =
    LMRaised language_error | LMCancelled | LMEnvelope envelope_exn | LMKeyError | LMValueError | LMDomain domain_error

datatype json_end = JsonValue pyobj | JsonDecodeError | JsonOtherError

record ('r, 'w) adapter =
  ga_config :: ProviderConfig
  ga_ports :: "('r, 'w) groq_ports"
  ga_canon :: "pyobj \<Rightarrow> pystr option"
  ga_loads :: "pystr \<Rightarrow> json_end"
  ga_content :: "'r \<Rightarrow> pyobj option"

text \<open>\<open>_APPRAISAL_POLICY\<close>.\<close>

definition APPRAISAL_POLICY :: pystr where
  "APPRAISAL_POLICY =
     u ''Analyze the emotional impact of this message on the listener (Katherine).'' @ [10]
     @ u ''Return JSON ONLY:'' @ [10]
     @ u ''{\"valence\": -1.0 to 1.0, \"arousal_shift\": -1.0 to 1.0, ''
     @ u ''\"dominance_shift\": -1.0 to 1.0, ''
     @ u ''\"triggered_emotions\": {\"joy\": 0-1, \"sadness\": 0-1, \"anger\": 0-1, ''
     @ u ''\"fear\": 0-1, \"disgust\": 0-1, \"surprise\": 0-1, \"tenderness\": 0-1, ''
     @ u ''\"guilt\": 0-1, \"pride\": 0-1, \"jealousy\": 0-1, \"gratitude\": 0-1}}''"

text \<open>What may reach the handler of a provider call: an exception of the manager, or one of the SDK.\<close>

datatype provider_exn = FromManager groq_exn | FromSdk sdk_exn

definition lm_base_error :: adapter_exn where
  "lm_base_error = LMRaised (LanguageModelError_init LanguageModelError mf_server_error)"

definition raise_canonical :: "ProviderFailure \<Rightarrow> adapter_exn" where
  "raise_canonical f = (case canonical_error_for (provider_failure_value f) of None \<Rightarrow> LMKeyError | Some e \<Rightarrow> LMRaised e)"

fun sdk_class_named :: "sdk_exn \<Rightarrow> bool" where
  "sdk_class_named RateLimitError = True"
| "sdk_class_named AuthenticationError = True"
| "sdk_class_named APITimeoutError = True"
| "sdk_class_named APIConnectionError = True"
| "sdk_class_named (APIStatusError code general) = general"
| "sdk_class_named _ = False"

definition translate_provider_error :: "provider_exn \<Rightarrow> adapter_exn" where
  "translate_provider_error exc = (case exc of
     FromManager GroqConfigurationError \<Rightarrow> LMRaised (subclass_error LanguageModelConfigurationError)
   | FromManager (GroqPoolExhaustedError _ failure) \<Rightarrow> (case failure of None \<Rightarrow> lm_base_error | Some f \<Rightarrow> raise_canonical f)
   | FromManager GroqRequestError \<Rightarrow> lm_base_error
   | FromManager _ \<Rightarrow> lm_base_error
   | FromSdk e \<Rightarrow> if sdk_class_named e then raise_canonical (classify_provider_error e) else lm_base_error)"

definition extract_content :: "('r, 'w) adapter \<Rightarrow> 'r \<Rightarrow> pyobj" where
  "extract_content A response = (case ga_content A response of None \<Rightarrow> PNone | Some v \<Rightarrow> v)"

definition usable_content :: "pyobj \<Rightarrow> adapter_exn + pystr" where
  "usable_content v = (case v of
     PStr t \<Rightarrow> rbind (guard (t \<noteq> [] \<and> strip t \<noteq> []) (LMRaised (subclass_error LanguageModelInvalidResponseError))) (\<lambda>_. Inr t)
   | _ \<Rightarrow> Inl (LMRaised (subclass_error LanguageModelInvalidResponseError)))"

text \<open>A provider call with its handlers: a cancellation passes, everything else is translated.\<close>

definition provider_call :: "('r, 'w) adapter \<Rightarrow> completion_call \<Rightarrow> TurnBudget \<Rightarrow> manager \<times> 'w \<Rightarrow> (adapter_exn + 'r) \<times> manager \<times> 'w" where
  "provider_call A call budget s =
     (case chat_completion_async (ga_canon A) (ga_ports A) call budget s of
        (Inl GroqCancelled, s') \<Rightarrow> (Inl LMCancelled, s')
      | (Inl e, s') \<Rightarrow> (Inl (translate_provider_error (FromManager e)), s')
      | (Inr r, s') \<Rightarrow> (Inr r, s'))"

definition validated :: "('r, 'w) adapter \<Rightarrow> pyobj \<Rightarrow> adapter_exn + unit" where
  "validated A messages = with_error LMEnvelope
     (validate_provider_input (ga_canon A) messages (int PROVIDER_INPUT_MAX_ESTIMATED_UNITS))"

definition json_mode :: "pystr \<times> pyobj" where
  "json_mode = (u ''response_format'', PDict [(PStr (u ''type''), PStr (u ''json_object''))])"

definition appraisal_messages :: "pystr \<Rightarrow> pyobj" where
  "appraisal_messages msg = PList
     [PDict [(PStr (u ''role''), PStr (u ''system'')), (PStr (u ''content''), PStr APPRAISAL_POLICY)],
      PDict [(PStr (u ''role''), PStr (u ''user'')), (PStr (u ''content''), PStr msg)]]"

definition read_appraisal :: "('r, 'w) adapter \<Rightarrow> 'r \<Rightarrow> adapter_exn + AppraisalV1" where
  "read_appraisal A response =
     rbind (usable_content (extract_content A response)) (\<lambda>raw. (case ga_loads A raw of
        JsonDecodeError \<Rightarrow> Inl (LMRaised (subclass_error LanguageModelInvalidResponseError))
      | JsonOtherError \<Rightarrow> Inl LMValueError
      | JsonValue payload \<Rightarrow>
          rbind (with_error LMDomain (parse_llm_appraisal payload)) (\<lambda>parse_result.
          rbind (guard (\<not> pr_is_fallback parse_result) (LMRaised (subclass_error LanguageModelInvalidResponseError))) (\<lambda>_.
          Inr (pr_appraisal parse_result)))))"

definition appraise :: "('r, 'w) adapter \<Rightarrow> pystr \<Rightarrow> TurnBudget \<Rightarrow> manager \<times> 'w \<Rightarrow> (adapter_exn + AppraisalV1) \<times> manager \<times> 'w" where
  "appraise A msg budget =
     io_bind (io_lift (validated A (appraisal_messages msg))) (\<lambda>_.
     io_bind (provider_call A \<lparr>cc_messages = appraisal_messages msg, cc_model = pc_fast_model_id (ga_config A),
         cc_kwargs = [(u ''temperature'', PInt 0), (u ''max_tokens'', PInt (pc_appraisal_max_output_tokens (ga_config A))), json_mode]\<rparr> budget) (\<lambda>response.
     io_lift (read_appraisal A response)))"

definition generate :: "('r, 'w) adapter \<Rightarrow> pyobj \<Rightarrow> TurnBudget \<Rightarrow> manager \<times> 'w \<Rightarrow> (adapter_exn + pystr) \<times> manager \<times> 'w" where
  "generate A messages budget =
     io_bind (io_lift (validated A messages)) (\<lambda>_.
     io_bind (provider_call A \<lparr>cc_messages = messages, cc_model = pc_main_model_id (ga_config A),
         cc_kwargs = [(u ''temperature'', flt (fl (4 / 5))), (u ''max_tokens'', PInt (pc_main_max_output_tokens (ga_config A)))]\<rparr> budget) (\<lambda>response.
     io_lift (usable_content (extract_content A response))))"

definition extract_archival :: "('r, 'w) adapter \<Rightarrow> pyobj \<Rightarrow> TurnBudget \<Rightarrow> manager \<times> 'w \<Rightarrow> (adapter_exn + pystr) \<times> manager \<times> 'w" where
  "extract_archival A messages budget =
     io_bind (io_lift (validated A messages)) (\<lambda>_.
     io_bind (provider_call A \<lparr>cc_messages = messages, cc_model = pc_fast_model_id (ga_config A),
         cc_kwargs = [(u ''temperature'', flt 0), (u ''max_tokens'', PInt (pc_archival_max_output_tokens (ga_config A))), json_mode]\<rparr> budget) (\<lambda>response.
     io_lift (usable_content (extract_content A response))))"

section \<open>Building the adapter\<close>

definition GroqCallParams_default :: GroqCallParams where
  "GroqCallParams_default = \<lparr>gp_max_attempts = 2, gp_connect_timeout = 3, gp_provider_attempt_timeout = 15,
     gp_base_backoff = 1 / 4, gp_max_backoff = 3 / 4, gp_max_jitter = fl (1 / 10)\<rparr>"

text \<open>\<open>env_keys\<close> are the keys of the environment (\<open>groq_keys.py\<close>), read when no list is given.\<close>

definition build_groq_language_model :: "pystr option list \<Rightarrow> pystr list option \<Rightarrow> GroqCallParams option \<Rightarrow> GroqCallParams option
    \<Rightarrow> adapter_exn + manager" where
  "build_groq_language_model env_keys keys call_params groq_params =
     (let effective_params = (if call_params \<noteq> None then call_params else groq_params)
      in with_error (\<lambda>e. if e = GroqConfigurationError then LMRaised (subclass_error LanguageModelConfigurationError)
             else translate_provider_error (FromManager e))
           (GroqClientManager_init (case keys of None \<Rightarrow> env_keys | Some ks \<Rightarrow> map Some ks)
             (case effective_params of None \<Rightarrow> GroqCallParams_default | Some p \<Rightarrow> p)))"

definition captured_keys :: "pyobj list option \<Rightarrow> pystr list" where
  "captured_keys keys = List.map_filter (\<lambda>k. case k of PStr t \<Rightarrow> if strip t \<noteq> [] then Some t else None | _ \<Rightarrow> None)
     (case keys of None \<Rightarrow> [] | Some ks \<Rightarrow> ks)"

definition language_model_factory :: "pystr option list \<Rightarrow> pyobj list option \<Rightarrow> GroqCallParams option \<Rightarrow> adapter_exn + manager" where
  "language_model_factory env_keys keys call_params =
     build_groq_language_model env_keys (Some (captured_keys keys)) call_params None"

definition provider_configured_probe :: "pyobj list option \<Rightarrow> bool" where
  "provider_configured_probe keys \<longleftrightarrow> captured_keys keys \<noteq> []"

section \<open>Failure codes of the manager\<close>

text \<open>The manager never raises the failure code of a cancellation, nor an exhaustion without a code.\<close>

definition coded :: "groq_exn + 'r \<Rightarrow> 's \<Rightarrow> bool" where
  "coded r _ \<longleftrightarrow> (\<forall>msg f. r = Inl (GroqPoolExhaustedError msg f) \<longrightarrow> f \<noteq> None \<and> f \<noteq> Some cancelled)"

lemma coded_acquire: "wp (acquire_next_key P tried) (\<lambda>r s. case r of Inl e \<Rightarrow> coded (Inl e) s | Inr x \<Rightarrow> Q x s) s"
  if "\<And>x s. Q x s"
  using that by (auto simp: wp_def coded_def acquire_next_key_def pool_unavailable_def Let_def split: prod.splits option.splits sum.splits)

lemma coded_attempt: "wp (async_attempt P call eff k) (\<lambda>r s. case r of Inl e \<Rightarrow> coded (Inl e) s | Inr (Inl f) \<Rightarrow> Q f s | Inr (Inr x) \<Rightarrow> True) s"
  if "\<And>f s. f \<noteq> cancelled \<Longrightarrow> Q f s"
proof -
  have "wp (case c of Completed r \<Rightarrow> io_lift (Inr (Inr r)) | Failed e \<Rightarrow> io_bind (async_failure P k e) (\<lambda>f. io_lift (Inr (Inl f))))
     (\<lambda>r s'. case if fst (gq_close P s') then Inl GroqCancelled else r of Inl e \<Rightarrow> coded (Inl e) (snd (gq_close P s'))
         | Inr (Inl f) \<Rightarrow> Q f (snd (gq_close P s')) | Inr (Inr x) \<Rightarrow> True) s'" for c s'
  proof (cases c)
    case (Failed e)
    then show ?thesis using that by (cases e) (auto simp: wp_def io_bind_def io_lift_def async_failure_def coded_def)
  qed (auto simp: wp_lift coded_def)
  then show ?thesis unfolding async_attempt_def wp_bind wp_get sum.case wp_guard wp_closing
    by (split if_split, intro conjI impI) (assumption, simp add: coded_def)
qed

lemma coded_backoff: "wp (async_backoff P params budget a) (\<lambda>r s. case r of Inl e \<Rightarrow> coded (Inl e) s | Inr x \<Rightarrow> Q s) s" if "\<And>s. Q s"
  using that by (auto simp: async_backoff_def with_backoff_def wp_rules with_error_def guard_def coded_def split: sum.splits)

lemma coded_attempts: "lf \<noteq> Some cancelled \<Longrightarrow> wp (async_attempts P call params budget tried lf as) coded s"
proof (induction as arbitrary: tried lf s)
  case Nil
  then show ?case by (auto simp: wp_lift coded_def exhausted_def split: if_splits option.splits)
next
  case (Cons a as)
  have rest: "wp (io_bind (if as \<noteq> [] then async_backoff P params budget a else io_lift (Inr ())) (\<lambda>_.
      async_attempts P call params budget (insert k tried) (Some f) as)) coded s'" if "f \<noteq> cancelled" for k f s'
  proof (cases "as = []")
    case True
    then show ?thesis using Cons.IH [of "Some f" "insert k tried" s'] that by (simp add: wp_bind wp_lift)
  next
    case False
    show ?thesis unfolding wp_bind wp_if if_P [OF False] by (rule coded_backoff, rule Cons.IH) (simp add: that)
  qed
  have "wp (async_attempt P call eff k) (\<lambda>r s'. case r of Inl e \<Rightarrow> coded (Inl e) s' | Inr outcome \<Rightarrow>
      wp (case outcome of Inl f \<Rightarrow> io_bind (if as \<noteq> [] then async_backoff P params budget a else io_lift (Inr ())) (\<lambda>_.
          async_attempts P call params budget (insert k tried) (Some f) as) | Inr r \<Rightarrow> io_lift (Inr r)) coded s') s'" for eff k s'
    by (rule wp_mono [OF coded_attempt [where Q = "\<lambda>f. wp (io_bind (if as \<noteq> [] then async_backoff P params budget a else io_lift (Inr ())) (\<lambda>_.
          async_attempts P call params budget (insert k tried) (Some f) as)) coded", OF rest]])
      (auto simp: wp_lift coded_def split: sum.splits)
  then show ?case unfolding async_attempts.simps wp_bind wp_effective sum.case wp_guard
    by (split if_split, intro conjI impI) (rule coded_acquire, assumption, simp add: coded_def)
qed

lemma chat_completion_coded: "coded (fst (chat_completion_async canon P call budget s)) s'"
proof (cases "check_envelope canon (cc_messages call)")
  case (Inl e)
  then show ?thesis by (auto simp: chat_completion_async_def io_bind_def io_lift_def coded_def check_envelope_def split: sum.splits if_splits)
next
  case (Inr _)
  then show ?thesis using coded_attempts [of None P "sanitised call" "gm_params (fst s)" budget "{}" "[0..<attempt_count (fst s)]" s]
    by (auto simp: chat_completion_async_def io_bind_def io_lift_def coded_def wp_def split: prod.splits)
qed

section \<open>Properties\<close>

definition canonical_error :: "language_error \<Rightarrow> bool" where
  "canonical_error e \<longleftrightarrow> le_message e = MESSAGE (le_class e) \<and> le_failure e = class_failure (le_class e)"

lemma canonical_simps [simp]: "canonical_error (subclass_error c)" "canonical_error (LanguageModelError_init LanguageModelError mf_server_error)"
  by (simp_all add: canonical_error_def subclass_error_def LanguageModelError_init_def class_failure_def)

lemma raise_canonical_cases:
  "f \<noteq> cancelled \<Longrightarrow> \<exists>e. raise_canonical f = LMRaised e \<and> canonical_error e
     \<and> language_failure_to_turn_code (le_failure e) = provider_failure_to_turn_code f"
  by (cases f) (simp_all add: raise_canonical_def canonical_error_for_def FAILURE_TO_ERROR_def provider_failure_value_def model_failure_value_def u_def
      subclass_error_def LanguageModelError_init_def class_failure_def language_failure_to_turn_code_def provider_failure_to_turn_code_def canonical_error_def)

definition boundary_outcome :: "adapter_exn + 'a \<Rightarrow> bool" where
  "boundary_outcome r \<longleftrightarrow> (case r of Inr _ \<Rightarrow> True | Inl LMCancelled \<Rightarrow> True | Inl (LMRaised e) \<Rightarrow> canonical_error e | Inl _ \<Rightarrow> False)"

lemma provider_call_outcome: "boundary_outcome (fst (provider_call A call budget s))"
proof -
  obtain r s' where c: "chat_completion_async (ga_canon A) (ga_ports A) call budget s = (r, s')" by (metis surj_pair)
  have "coded r s'" using chat_completion_coded [of "ga_canon A" "ga_ports A" call budget s s'] c by simp
  then have f: "f \<noteq> None \<and> f \<noteq> Some cancelled" if "r = Inl (GroqPoolExhaustedError msg f)" for msg f
    using that by (simp add: coded_def)
  show ?thesis
  proof (cases r)
    case (Inl e)
    then show ?thesis
    proof (cases e)
      case (GroqPoolExhaustedError msg failure)
      then obtain g where "failure = Some g" "g \<noteq> cancelled" using f Inl by auto
      then show ?thesis using raise_canonical_cases [of g] Inl GroqPoolExhaustedError c
        by (auto simp: provider_call_def boundary_outcome_def translate_provider_error_def)
    qed (auto simp: provider_call_def c boundary_outcome_def translate_provider_error_def lm_base_error_def)
  qed (simp add: provider_call_def c boundary_outcome_def)
qed

lemma usable_content_cases: "usable_content v = Inl e \<Longrightarrow> e = LMRaised (subclass_error LanguageModelInvalidResponseError)"
  "usable_content v = Inr t \<Longrightarrow> v = PStr t \<and> strip t \<noteq> []"
  by (auto simp: usable_content_def guard_def split: pyobj.splits if_splits)

lemma read_appraisal_cases:
  "case read_appraisal A response of Inr a \<Rightarrow> valid_appraisal a
   | Inl e \<Rightarrow> e = LMRaised (subclass_error LanguageModelInvalidResponseError) \<or> e = LMValueError \<and> (\<exists>t. ga_loads A t = JsonOtherError)"
proof (cases "usable_content (extract_content A response)")
  case (Inl e)
  with usable_content_cases(1) [OF Inl] show ?thesis by (simp add: read_appraisal_def)
next
  case (Inr raw)
  show ?thesis
  proof (cases "ga_loads A raw")
    case (JsonValue payload)
    obtain r where r: "parse_llm_appraisal payload = Inr r" using parse_llm_appraisal_Inr by blast
    have "valid_appraisal (pr_appraisal r)" if "\<not> pr_is_fallback r"
      using r that do_parse_success [of payload r]
      by (auto simp: parse_llm_appraisal_def split: sum.splits parse_exc.splits)
    then show ?thesis using Inr JsonValue r by (auto simp: read_appraisal_def with_error_def guard_def)
  qed (auto simp: read_appraisal_def Inr)
qed

lemma boundary_split:
  assumes that: "\<And>r. case f r of Inr x \<Rightarrow> Q x | Inl e \<Rightarrow> e = LMRaised (subclass_error LanguageModelInvalidResponseError) \<or> e = LMValueError \<and> V"
  shows "case fst (io_bind (io_lift (validated A messages)) (\<lambda>_. io_bind (provider_call A call budget) (\<lambda>r. io_lift (f r))) s) of
      Inr x \<Rightarrow> Q x | Inl LMCancelled \<Rightarrow> True | Inl (LMRaised e) \<Rightarrow> canonical_error e
    | Inl (LMEnvelope x) \<Rightarrow> validate_provider_input (ga_canon A) messages (int PROVIDER_INPUT_MAX_ESTIMATED_UNITS) = Inl x
    | Inl LMValueError \<Rightarrow> V | Inl _ \<Rightarrow> False"
proof (cases "validated A messages")
  case (Inl e)
  then show ?thesis by (auto simp: io_bind_def io_lift_def validated_def with_error_def split: sum.splits)
next
  case (Inr ok)
  note v = this
  obtain r s' where c: "provider_call A call budget s = (r, s')" by (metis surj_pair)
  show ?thesis
  proof (cases r)
    case (Inl e)
    then show ?thesis using provider_call_outcome [of A call budget s] c Inr
      by (auto simp: io_bind_def io_lift_def boundary_outcome_def split: adapter_exn.splits)
  next
    case (Inr x)
    then show ?thesis using that [of x] c v
      by (auto simp: io_bind_def io_lift_def split: sum.splits)
  qed
qed

text \<open>C11: what crosses the language model boundary.  Whatever the provider, its SDK and the other calls on the key pool do,
  \<open>appraise\<close> returns a valid appraisal and \<open>generate\<close> and \<open>extract_archival\<close> a text that is not blank; everything they raise is the native
  cancellation, a canonical error with the constant message and the failure of its class, or the rejection of the
  envelope before any call, with one exception: an error of \<open>json.loads\<close> that is not a decode error passes through \<open>appraise\<close>.\<close>

theorem boundary_types:
  "(case fst (appraise A msg budget s) of
      Inr a \<Rightarrow> valid_appraisal a
    | Inl LMCancelled \<Rightarrow> True
    | Inl (LMRaised e) \<Rightarrow> canonical_error e
    | Inl (LMEnvelope x) \<Rightarrow> validate_provider_input (ga_canon A) (appraisal_messages msg) (int PROVIDER_INPUT_MAX_ESTIMATED_UNITS) = Inl x
    | Inl LMValueError \<Rightarrow> (\<exists>t. ga_loads A t = JsonOtherError)
    | Inl _ \<Rightarrow> False)
   \<and> (case fst (generate A messages budget s) of
      Inr t \<Rightarrow> strip t \<noteq> []
    | Inl LMCancelled \<Rightarrow> True
    | Inl (LMRaised e) \<Rightarrow> canonical_error e
    | Inl (LMEnvelope x) \<Rightarrow> validate_provider_input (ga_canon A) messages (int PROVIDER_INPUT_MAX_ESTIMATED_UNITS) = Inl x
    | Inl _ \<Rightarrow> False)
   \<and> (case fst (extract_archival A messages budget s) of
      Inr t \<Rightarrow> strip t \<noteq> []
    | Inl LMCancelled \<Rightarrow> True
    | Inl (LMRaised e) \<Rightarrow> canonical_error e
    | Inl (LMEnvelope x) \<Rightarrow> validate_provider_input (ga_canon A) messages (int PROVIDER_INPUT_MAX_ESTIMATED_UNITS) = Inl x
    | Inl _ \<Rightarrow> False)"
proof -
  have u: "case usable_content (extract_content A r) of Inr t \<Rightarrow> strip t \<noteq> []
      | Inl e \<Rightarrow> e = LMRaised (subclass_error LanguageModelInvalidResponseError) \<or> e = LMValueError \<and> False" for r
    using usable_content_cases [of "extract_content A r"] by (auto split: sum.splits)
  show ?thesis unfolding appraise_def generate_def extract_archival_def
    by (intro conjI) (rule boundary_split [OF read_appraisal_cases] boundary_split [OF u])+
qed

text \<open>The boundary keeps the public error codes of the manager.  When the key pool is exhausted with a failure code, the call raises a canonical
  error whose turn error code is the one the manager's own table gives to that failure.\<close>

theorem exhaustion_turn_code:
  assumes "chat_completion_async (ga_canon A) (ga_ports A) call budget s = (Inl (GroqPoolExhaustedError msg (Some f)), s')"
  shows "\<exists>e. provider_call A call budget s = (Inl (LMRaised e), s') \<and> canonical_error e
    \<and> language_failure_to_turn_code (le_failure e) = provider_failure_to_turn_code f"
proof -
  have "f \<noteq> cancelled" using chat_completion_coded [of "ga_canon A" "ga_ports A" call budget s s'] assms by (simp add: coded_def)
  from raise_canonical_cases [OF this] show ?thesis
    by (auto simp: provider_call_def assms translate_provider_error_def)
qed

definition sample_adapter :: "(nat, unit) adapter" where
  "sample_adapter = \<lparr>ga_config = ProviderConfig_default, ga_ports = sample_ports (u ''b''), ga_canon = (\<lambda>_. Some []),
     ga_loads = (\<lambda>_. JsonDecodeError), ga_content = (\<lambda>_. None)\<rparr>"

theorem exhaustion_turn_code_witness:
  "\<exists>e s'. provider_call sample_adapter sample_request sample_budget (sample_manager\<lparr>gm_deactivated := {u ''a'', u ''b''}\<rparr>, ()) = (Inl (LMRaised e), s')
     \<and> language_failure_to_turn_code (le_failure e) = provider_invalid_request"
proof -
  let ?m = "sample_manager\<lparr>gm_deactivated := {u ''a'', u ''b''}\<rparr>"
  have n: "[0..<attempt_count ?m] = [0]" by (simp add: attempt_count_def sample_manager_def sample_params_def Let_def)
  have "async_attempts (sample_ports (u ''b'')) (sanitised sample_request) sample_params sample_budget {} None [0] (?m, ())
      = (Inl (GroqPoolExhaustedError ''All keys deactivated.'' (Some auth_failed)), ?m, ())"
    using sample_time
    by (simp add: io_bind_def io_lift_def effective_timeout_def io_get_def world_port_def guard_def acquire_next_key_def scan_order_def eligible_def
        pool_unavailable_def drop_expired_def sample_manager_def sample_ports_def fun_eq_iff Let_def split_beta)
  moreover have "gm_params ?m = sample_params" by (simp add: sample_manager_def)
  ultimately have "chat_completion_async (ga_canon sample_adapter) (ga_ports sample_adapter) sample_request sample_budget (?m, ())
      = (Inl (GroqPoolExhaustedError ''All keys deactivated.'' (Some auth_failed)), ?m, ())"
    using sample_valid n by (simp add: chat_completion_async_def check_envelope_def io_bind_def io_lift_def sample_adapter_def)
  from exhaustion_turn_code [OF this] show ?thesis by (auto simp: provider_failure_to_turn_code_def)
qed

text \<open>A spent budget is a turn timeout for the manager, but the adapter reports the provider as unavailable.\<close>

lemma spent_budget_not_a_timeout:
  "translate_provider_error (FromManager (GroqTurnError turn_timeout)) = LMRaised (LanguageModelError_init LanguageModelError mf_server_error)
   \<and> language_failure_to_turn_code (le_failure (LanguageModelError_init LanguageModelError mf_server_error)) = provider_unavailable
   \<and> classify_provider_error (SdkTurnError turn_timeout) = timeout \<and> provider_failure_to_turn_code timeout = turn_timeout"
  by (simp add: translate_provider_error_def lm_base_error_def LanguageModelError_init_def language_failure_to_turn_code_def
      classify_provider_error_def provider_failure_to_turn_code_def)

text \<open>The readiness probe agrees with the construction.  The factory built from captured keys succeeds exactly when its probe says
  that the provider is configured, with exactly the captured keys and whatever the environment holds; otherwise it raises the configuration error.\<close>

theorem probe_agrees_with_factory:
  "(case language_model_factory env_keys keys params of
      Inr m \<Rightarrow> provider_configured_probe keys \<and> gm_keys m = captured_keys keys \<and> manager_ok m
    | Inl e \<Rightarrow> \<not> provider_configured_probe keys \<and> e = LMRaised (subclass_error LanguageModelConfigurationError))"
proof -
  have "\<forall>k \<in> set (captured_keys keys). k \<noteq> [] \<and> strip k \<noteq> []"
    by (auto simp: captured_keys_def map_filter_def strip_def split: pyobj.splits if_splits option.splits)
  then have "filter (\<lambda>k. k \<noteq> [] \<and> strip k \<noteq> []) (captured_keys keys) = captured_keys keys" by (simp add: filter_id_conv)
  moreover have "List.map_filter id (map Some xs) = xs" for xs :: "pystr list" by (induction xs) (simp_all add: map_filter_def)
  ultimately show ?thesis
    by (simp add: language_model_factory_def build_groq_language_model_def GroqClientManager_init_def Let_def guard_def with_error_def
        provider_configured_probe_def manager_ok_def)
qed

end
