(* ===== verification/Companion_Runtime.thy ===== *)
theory Companion_Runtime
  imports Process_Turn Groq_Language_Model Local_Invariant
begin

text \<open>
  The companion runtime of the desktop application (\<open>companion_runtime.py\<close>): its error codes, the turn flow over the local store
  and the language model, and the other operations the bridge calls.

  The store is the one opened by path; an injected store is not modelled.  A turn works on that store and on the outside world: clocks, identifiers and the language model, which are ports.  The language model
  is awaited, so other calls of the bridge may use the store meanwhile; its ports therefore act on the store too.  That the runtime
  is closed while a turn runs is not modelled.  Parameters: the codecs of the store and of the turn, and \<open>float(str)\<close>.
\<close>

section \<open>Error codes\<close>

datatype LocalErrorCode =
    TIMEOUT | RATE_LIMITED | SERVICE_UNAVAILABLE | VALIDATION | REQUEST_REPLAY | REQUEST_CONFLICT | CONFIGURATION | STORAGE | UNKNOWN

definition local_code_value :: "LocalErrorCode \<Rightarrow> pystr" where
  "local_code_value c = (case c of
     TIMEOUT \<Rightarrow> u ''timeout''
   | RATE_LIMITED \<Rightarrow> u ''rate_limited''
   | SERVICE_UNAVAILABLE \<Rightarrow> u ''service_unavailable''
   | VALIDATION \<Rightarrow> u ''validation''
   | REQUEST_REPLAY \<Rightarrow> u ''request_replay''
   | REQUEST_CONFLICT \<Rightarrow> u ''request_conflict''
   | CONFIGURATION \<Rightarrow> u ''configuration''
   | STORAGE \<Rightarrow> u ''storage''
   | UNKNOWN \<Rightarrow> u ''unknown'')"

text \<open>The messages are Portuguese; characters outside ASCII are given by their code points.\<close>

definition message_for :: "LocalErrorCode \<Rightarrow> pystr" where
  "message_for c = (case c of
     TIMEOUT \<Rightarrow> u ''A requisi'' @ [231, 227] @ u ''o excedeu o tempo limite.''
   | RATE_LIMITED \<Rightarrow> u ''Muitas requisi'' @ [231, 245] @ u ''es. Aguarde um momento e tente novamente.''
   | SERVICE_UNAVAILABLE \<Rightarrow> u ''Servi'' @ [231] @ u ''o temporariamente indispon'' @ [237] @ u ''vel. Tente novamente mais tarde.''
   | VALIDATION \<Rightarrow> u ''Dados inv'' @ [225] @ u ''lidos enviados.''
   | REQUEST_REPLAY \<Rightarrow> u ''Este envio j'' @ [225] @ u '' foi recebido, mas a resposta n'' @ [227] @ u ''o pode ser recuperada.''
   | REQUEST_CONFLICT \<Rightarrow> u ''Este envio n'' @ [227] @ u ''o p'' @ [244] @ u ''de ser reconciliado. Envie a mensagem novamente.''
   | CONFIGURATION \<Rightarrow> u ''O provedor remoto n'' @ [227] @ u ''o est'' @ [225] @ u '' configurado neste ambiente.''
   | STORAGE \<Rightarrow> u ''O armazenamento local n'' @ [227] @ u ''o est'' @ [225] @ u '' dispon'' @ [237] @ u ''vel.''
   | UNKNOWN \<Rightarrow> u ''Erro ao falar com a Katherine. Tente novamente.'')"

record local_error =
  sf_code :: LocalErrorCode
  sf_message :: pystr

definition LocalStorageError_init :: "LocalErrorCode \<Rightarrow> pystr option \<Rightarrow> local_error" where
  "LocalStorageError_init c m = \<lparr>sf_code = c, sf_message = (case m of None \<Rightarrow> message_for c | Some t \<Rightarrow> if t = [] then message_for c else t)\<rparr>"

text \<open>The exceptions that reach the boundary of the runtime, by the class the mapping tests.\<close>

datatype rt_exn =
    RtLocal local_error
  | RtModel adapter_exn
  | RtTurn TurnErrorCode
  | RtStore storage_exn
  | RtCtx ctx_exn
  | RtEmotional domain_error
  | RtRelation RelationshipDomainError
  | RtPresentation presentation_error
  | RtTimeoutError | RtConnectionError | RtValueError | RtOverflowError

definition model_error_code :: "language_error \<Rightarrow> LocalErrorCode" where
  "model_error_code e = (case le_failure e of
     mf_rate_limited \<Rightarrow> RATE_LIMITED
   | mf_timeout \<Rightarrow> TIMEOUT
   | mf_connection_failed \<Rightarrow> SERVICE_UNAVAILABLE
   | mf_server_error \<Rightarrow> SERVICE_UNAVAILABLE
   | mf_auth_failed \<Rightarrow> CONFIGURATION
   | _ \<Rightarrow> SERVICE_UNAVAILABLE)"

definition runtime_error_code :: "rt_exn \<Rightarrow> LocalErrorCode" where
  "runtime_error_code exc = (case exc of
     RtLocal e \<Rightarrow> sf_code e
   | RtModel (LMRaised e) \<Rightarrow> if le_class e = LanguageModelConfigurationError then CONFIGURATION else model_error_code e
   | RtTurn c \<Rightarrow> if c = turn_timeout then TIMEOUT else if c = upstream_rate_limited then RATE_LIMITED else SERVICE_UNAVAILABLE
   | RtStore (LConflictError _) \<Rightarrow> REQUEST_CONFLICT
   | RtStore (LStorageCorruptError _) \<Rightarrow> STORAGE
   | RtStore (LPersistenceError _) \<Rightarrow> STORAGE
   | RtStore (LValidationError _) \<Rightarrow> VALIDATION
   | RtTimeoutError \<Rightarrow> TIMEOUT
   | RtConnectionError \<Rightarrow> SERVICE_UNAVAILABLE
   | RtCtx (TrustedContextError _) \<Rightarrow> SERVICE_UNAVAILABLE
   | _ \<Rightarrow> UNKNOWN)"

definition sanitized_error :: "rt_exn \<Rightarrow> local_error" where
  "sanitized_error exc = (case exc of
     RtLocal e \<Rightarrow> e
   | RtModel (LMRaised e) \<Rightarrow> LocalStorageError_init (runtime_error_code exc) (Some (u (MESSAGE (le_class e))))
   | _ \<Rightarrow> LocalStorageError_init (runtime_error_code exc) None)"

section \<open>The result of a turn\<close>

record TurnResult =
  te_success :: bool
  te_response :: pyobj
  te_emotion_state :: pyobj
  te_message_id :: "pystr option"
  te_revision :: "int option"
  te_duration_ms :: "int option"
  te_replayed :: bool
  te_error_code :: "pystr option"
  te_error_message :: "pystr option"

definition opt_str :: "pystr option \<Rightarrow> pyobj" where "opt_str v = (case v of None \<Rightarrow> PNone | Some s \<Rightarrow> PStr s)"
definition opt_int :: "int option \<Rightarrow> pyobj" where "opt_int v = (case v of None \<Rightarrow> PNone | Some n \<Rightarrow> PInt n)"

definition TurnResult_to_payload :: "TurnResult \<Rightarrow> pyobj" where
  "TurnResult_to_payload r = PDict ((PStr (u ''success''), PBool (te_success r)) #
     (if te_success r then
        [(PStr (u ''response''), te_response r), (PStr (u ''emotion_state''), te_emotion_state r),
         (PStr (u ''message_id''), opt_str (te_message_id r)), (PStr (u ''revision''), opt_int (te_revision r)),
         (PStr (u ''duration_ms''), opt_int (te_duration_ms r)), (PStr (u ''replayed''), PBool (te_replayed r))]
      else [(PStr (u ''error_code''), opt_str (te_error_code r)), (PStr (u ''error_message''), opt_str (te_error_message r))]))"

definition failed_result :: "local_error \<Rightarrow> TurnResult" where
  "failed_result e = \<lparr>te_success = False, te_response = PNone, te_emotion_state = PNone, te_message_id = None, te_revision = None,
     te_duration_ms = None, te_replayed = False, te_error_code = Some (local_code_value (sf_code e)), te_error_message = Some (sf_message e)\<rparr>"

text \<open>\<open>dict(value)\<close>: a copy of a mapping; of an iterable, its elements are read as pairs.\<close>

fun pair_of :: "pyobj \<Rightarrow> (pyobj \<times> pyobj) option" where
  "pair_of (PList [k, v]) = (if unhashable k then None else Some (k, v))"
| "pair_of (PTuple [k, v]) = (if unhashable k then None else Some (k, v))"
| "pair_of (PStr [a, b]) = Some (PStr [a], PStr [b])"
| "pair_of (PDict [(k, _), (l, _)]) = Some (k, l)"
| "pair_of (PProxy [(k, _), (l, _)]) = Some (k, l)"
| "pair_of _ = None"

fun pairs_of :: "pyobj list \<Rightarrow> (pyobj \<times> pyobj) list \<Rightarrow> (pyobj \<times> pyobj) list option" where
  "pairs_of [] acc = Some acc"
| "pairs_of (x # xs) acc = (case pair_of x of None \<Rightarrow> None | Some (k, v) \<Rightarrow> pairs_of xs (AList.update k v acc))"

definition py_dict :: "pyobj \<Rightarrow> rt_exn + pyobj" where
  "py_dict v = (case as_mapping v of
     Some d \<Rightarrow> Inr (PDict d)
   | None \<Rightarrow> (case v of
       PStr [] \<Rightarrow> Inr (PDict [])
     | PList xs \<Rightarrow> (case pairs_of xs [] of None \<Rightarrow> Inl RtValueError | Some d \<Rightarrow> Inr (PDict d))
     | PTuple xs \<Rightarrow> (case pairs_of xs [] of None \<Rightarrow> Inl RtValueError | Some d \<Rightarrow> Inr (PDict d))
     | _ \<Rightarrow> Inl RtValueError))"

definition turn_result_of :: "LocalCommittedTurn \<Rightarrow> int option \<Rightarrow> bool \<Rightarrow> rt_exn + TurnResult" where
  "turn_result_of committed duration replayed =
     rbind (py_dict (lt_emotion_state committed)) (\<lambda>emotion.
     Inr \<lparr>te_success = True, te_response = lt_response committed, te_emotion_state = emotion, te_message_id = Some (lt_message_id committed),
          te_revision = Some (lt_revision committed), te_duration_ms = duration, te_replayed = replayed,
          te_error_code = None, te_error_message = None\<rparr>)"

section \<open>State and ports\<close>

record rt_codec =
  rk_local :: local_codec
  rk_turn :: codecs
  rk_float_of_str :: "pystr \<Rightarrow> pyfloat option"

text \<open>
  The state: the store (its database is the file when the store is not open), whether it is open, whether the language
  model was built, and the world.
\<close>

record 'w rt_state =
  rs_store :: lstore
  rs_open :: bool
  rs_model_built :: bool
  rs_world :: 'w

type_synonym ('a, 'w) rt_action = "'w rt_state \<Rightarrow> (rt_exn + 'a) \<times> 'w rt_state"

record 'w rt_ports =
  rp_open :: "'w \<Rightarrow> (bool \<times> bool \<times> fault list) \<times> 'w"
  rp_monotonic :: "'w \<Rightarrow> rat \<times> 'w"
  rp_now :: "'w \<Rightarrow> pyfloat \<times> 'w"
  rp_unix_time :: "'w \<Rightarrow> pyfloat \<times> 'w"
  rp_now_iso :: "'w \<Rightarrow> pystr \<times> 'w"
  rp_uuid4 :: "'w \<Rightarrow> pystr \<times> 'w"
  rp_factory :: "('w \<Rightarrow> (adapter_exn + unit) \<times> 'w) option"
  rp_appraise :: "pystr \<Rightarrow> TurnBudget \<Rightarrow> 'w rt_state \<Rightarrow> (adapter_exn + AppraisalV1) \<times> 'w rt_state"
  rp_generate :: "pyobj list \<Rightarrow> TurnBudget \<Rightarrow> 'w rt_state \<Rightarrow> (adapter_exn + pyobj) \<times> 'w rt_state"

record CompanionRuntime =
  cr_history_limit :: int
  cr_turn_deadline :: rat
  cr_transition_config :: TransitionConfig
  cr_relationship_config :: RelationshipTransitionConfig

text \<open>The arguments the constructor checks; \<open>None\<close> is its \<open>ValueError\<close>.\<close>

definition CompanionRuntime_init :: "bool \<Rightarrow> bool \<Rightarrow> int \<Rightarrow> rat \<Rightarrow> TransitionConfig \<Rightarrow> RelationshipTransitionConfig \<Rightarrow> CompanionRuntime option" where
  "CompanionRuntime_init has_model has_factory limit deadline tc rc =
     (if has_model \<and> has_factory then None
      else if limit < 1 \<or> limit > 500 then None
      else Some \<lparr>cr_history_limit = limit, cr_turn_deadline = deadline, cr_transition_config = tc, cr_relationship_config = rc\<rparr>)"

text \<open>Operations of the store, and readings of the world, within the state of a turn.\<close>

definition on_store :: "'a action \<Rightarrow> ('a, 'w) rt_action" where
  "on_store m s = (let (r, st) = m (rs_store s) in (with_error RtStore r, s\<lparr>rs_store := st\<rparr>))"

definition on_world :: "('w \<Rightarrow> 'a \<times> 'w) \<Rightarrow> ('a, 'w) rt_action" where
  "on_world g s = (let (x, w) = g (rs_world s) in (Inr x, s\<lparr>rs_world := w\<rparr>))"

definition on_model :: "('w rt_state \<Rightarrow> (adapter_exn + 'a) \<times> 'w rt_state) \<Rightarrow> ('a, 'w) rt_action" where
  "on_model m s = (let (r, s') = m s in (with_error RtModel r, s'))"

definition ensure_storage :: "'w rt_ports \<Rightarrow> (unit, 'w) rt_action" where
  "ensure_storage P s =
     (if rs_open s then (Inr (), s)
      else let ((parent_ok, connect_ok, faults), w) = rp_open P (rs_world s);
               (r, st) = open_local_storage (ls_db (rs_store s)) parent_ok connect_ok faults
           in (with_error RtStore r, s\<lparr>rs_store := st, rs_world := w, rs_open := (case r of Inl _ \<Rightarrow> False | Inr _ \<Rightarrow> True)\<rparr>))"

definition provider_port :: "'w rt_ports \<Rightarrow> (unit, 'w) rt_action" where
  "provider_port P s =
     (if rs_model_built s then (Inr (), s)
      else case rp_factory P of
        None \<Rightarrow> (Inl (RtModel (LMRaised (subclass_error LanguageModelConfigurationError))), s)
      | Some build \<Rightarrow> (case build (rs_world s) of
          (Inl e, w) \<Rightarrow> (Inl (RtModel e), s\<lparr>rs_world := w\<rparr>)
        | (Inr _, w) \<Rightarrow> (Inr (), s\<lparr>rs_world := w, rs_model_built := True\<rparr>)))"

section \<open>Local memories\<close>

text \<open>\<open>float(value)\<close> of a metadata entry: the exceptions the loader tolerates, or the overflow it does not.\<close>

datatype memory_end = Projected memory_obj | Dropped | Overflowed

definition local_confidence :: "rt_codec \<Rightarrow> pyobj \<Rightarrow> memory_end + pyfloat" where
  "local_confidence R v = (case v of
     PFloat f \<Rightarrow> Inr f
   | PBool b \<Rightarrow> Inr (Fin (of_bool b))
   | PInt n \<Rightarrow> (case float_of_int n of None \<Rightarrow> Inl Overflowed | Some q \<Rightarrow> Inr (Fin q))
   | PStr t \<Rightarrow> (case rk_float_of_str R t of None \<Rightarrow> Inl Dropped | Some f \<Rightarrow> Inr f)
   | _ \<Rightarrow> Inl Dropped)"

definition local_context_item :: "pystr \<Rightarrow> pyfloat \<Rightarrow> pystr \<Rightarrow> ContextItem arg option" where
  "local_context_item content confidence source_ref =
     (case ContextItem_init (PStr (u ''memory'')) (PStr content) (PStr (u ''legacy_memory'')) (PFloat confidence) (PStr (u ''unknown''))
             (PStr source_ref) (PStr []) of
        Inl _ \<Rightarrow> None
      | Inr item \<Rightarrow> Some (Inst item))"

definition LocalContextMemory :: "rt_codec \<Rightarrow> pystr \<Rightarrow> (pyobj \<times> pyobj) list \<Rightarrow> memory_end" where
  "LocalContextMemory R content d =
     (let str = py_str (rk_local R) in
      (case local_confidence R (get_or d ''confidence'' (flt (fl (3 / 10)))) of
         Inl e \<Rightarrow> e
       | Inr confidence \<Rightarrow> Projected
           \<lparr>mo_to_context_item = Some (local_context_item content confidence), mo_metadata_version = Some (PInt 1),
            mo_approved = Some (PBool True), mo_source_id = Some (PStr (str (get_or d ''source_id'' (PStr [])))),
            mo_provenance = Some (PStr (str (get_or d ''provenance'' (PStr (u ''legacy_profile''))))),
            mo_epistemic_status = Some (PStr (str (get_or d ''epistemic_status'' (PStr (u ''unknown''))))),
            mo_confidence = Some (PFloat confidence)\<rparr>))"

fun project_memories :: "rt_codec \<Rightarrow> (pystr \<times> pyobj) list \<Rightarrow> rt_exn + memory_obj list" where
  "project_memories R [] = Inr []"
| "project_memories R ((content, metadata) # rows) =
     (case LocalContextMemory R content (case metadata of PDict d \<Rightarrow> d | _ \<Rightarrow> []) of
        Overflowed \<Rightarrow> Inl RtOverflowError
      | Dropped \<Rightarrow> project_memories R rows
      | Projected m \<Rightarrow> rbind (project_memories R rows) (\<lambda>ms. Inr (m # ms)))"

definition load_local_memories :: "rt_codec \<Rightarrow> (memory_obj list, 'w) rt_action" where
  "load_local_memories R =
     io_bind (on_store (load_recent_memories (rk_local R) (PInt 5))) (\<lambda>rows. io_lift (project_memories R rows))"

section \<open>Loading\<close>

definition load_state :: "rt_codec \<Rightarrow> 'w rt_ports \<Rightarrow> (LocalUserState, 'w) rt_action" where
  "load_state R P =
     io_bind (ensure_storage P) (\<lambda>_.
     io_bind (on_world (rp_unix_time P)) (\<lambda>t. on_store (load_user_state (rk_local R) (PFloat t))))"

definition history_row :: "chat_row \<Rightarrow> pyobj" where
  "history_row c = PDict [(PStr (u ''id''), PInt (cr_id c)), (PStr (u ''role''), PStr (cr_role c)), (PStr (u ''content''), PStr (cr_content c)),
     (PStr (u ''created_at''), PStr (cr_created_at c))]"

definition load_context :: "rt_codec \<Rightarrow> 'w rt_ports \<Rightarrow> CompanionRuntime \<Rightarrow> LocalUserState \<Rightarrow> (LoadedContextData, 'w) rt_action" where
  "load_context R P T state =
     io_bind (ensure_storage P) (\<lambda>_.
     io_bind (on_store (load_recent_history (PInt (cr_history_limit T)))) (\<lambda>history_rows.
     io_bind (load_local_memories R) (\<lambda>memories.
     io_lift (with_error RtCtx (LoadedContextData_init (co_iso_utc (rk_turn R)) (PTuple (map history_row history_rows)) (Some memories)
       (lus_user_profile state) (PStr (case lus_persona_config state of None \<Rightarrow> [] | Some p \<Rightarrow> p)))))))"

section \<open>One turn\<close>

definition local_states :: "LocalUserState \<Rightarrow> rt_exn + (EmotionalStateV1 \<times> RelationshipStateV1)" where
  "local_states state =
     rbind (with_error RtEmotional (migrate_legacy_snapshot (lus_emotional_state state))) (\<lambda>es.
     rbind (with_error RtRelation (migrate_legacy_relationship_snapshot (lus_relationship_state state))) (\<lambda>rs. Inr (es, rs)))"

definition local_transitions :: "rt_codec \<Rightarrow> CompanionRuntime \<Rightarrow> EmotionalStateV1 \<Rightarrow> RelationshipStateV1 \<Rightarrow> AppraisalV1 \<Rightarrow> pyobj
    \<Rightarrow> rt_exn + (EmotionalStateV1 \<times> RelationshipStateV1)" where
  "local_transitions R T es rs appraisal current_time =
     rbind (with_error RtEmotional (transition (co_pow (rk_turn R)) (Inst es) (Inst appraisal) current_time (Inst (cr_transition_config T)))) (\<lambda>tr.
     rbind (with_error RtRelation (transition_relationship (Inst rs) (Inst appraisal) current_time (Inst (cr_relationship_config T)))) (\<lambda>rs'.
     Inr (tr_state tr, rs')))"

definition local_messages :: "rt_codec \<Rightarrow> EmotionalStateV1 \<Rightarrow> RelationshipStateV1 \<Rightarrow> LoadedContextData \<Rightarrow> pystr \<Rightarrow> rt_exn + pyobj list" where
  "local_messages R es rs loaded msg = with_error RtCtx (
     rbind (build_context_bundle (co_canon (rk_turn R)) (co_iso_utc (rk_turn R)) (PStr (build_trusted_policy es rs [])) (Inst loaded)) (\<lambda>bundle.
     rbind (build_envelope (co_canon (rk_turn R)) (Inst bundle) (PStr msg) (PInt (int PROVIDER_INPUT_MAX_ESTIMATED_UNITS))) (\<lambda>r.
     Inr (br_messages r))))"

definition local_commit_args :: "pystr \<Rightarrow> int \<Rightarrow> pystr \<Rightarrow> int \<Rightarrow> EmotionalStateV1 \<Rightarrow> RelationshipStateV1 \<Rightarrow> EmotionStateResponse \<Rightarrow> pyobj
    \<Rightarrow> pystr \<Rightarrow> int \<Rightarrow> local_args" where
  "local_commit_args request generation msg revision es rs emotion response message_id duration_ms =
     \<lparr>la_request_id = PStr request, la_history_generation = PInt generation, la_user_message = PStr msg, la_assistant_message = response,
      la_emotional_state = EmotionalStateV1_to_dict es, la_relationship_state = RelationshipStateV1_to_dict rs, la_public_response = response,
      la_replay_payload = PDict [(PStr (u ''response''), response), (PStr (u ''emotion_state''), EmotionStateResponse_dump emotion),
        (PStr (u ''message_id''), PStr message_id), (PStr (u ''duration_ms''), PInt duration_ms)],
      la_outbox_events = PNone, la_expected_revision = PInt revision\<rparr>"

definition RESERVE :: rat where "RESERVE = 10"

definition execute_reserved_turn :: "rt_codec \<Rightarrow> 'w rt_ports \<Rightarrow> CompanionRuntime \<Rightarrow> pystr \<Rightarrow> int \<Rightarrow> pystr \<Rightarrow> (TurnResult, 'w) rt_action" where
  "execute_reserved_turn R P T request generation msg =
     io_bind (on_world (rp_monotonic P)) (\<lambda>start.
     let budget = \<lparr>tb_deadline = fadd start (cr_turn_deadline T), tb_reserve = RESERVE\<rparr> in
     io_bind (on_world (rp_monotonic P)) (\<lambda>t0.
     io_bind (load_state R P) (\<lambda>state.
     io_bind (io_lift (local_states state)) (\<lambda>(es, rs).
     io_bind (load_context R P T state) (\<lambda>loaded.
     io_bind (provider_port P) (\<lambda>_.
     io_bind (on_model (rp_appraise P msg budget)) (\<lambda>appraisal.
     io_bind (on_world (rp_now P)) (\<lambda>now.
     io_bind (io_lift (local_transitions R T es rs appraisal (PFloat now))) (\<lambda>(es', rs').
     io_bind (io_lift (local_messages R es' rs' loaded msg)) (\<lambda>messages.
     io_bind (on_model (rp_generate P messages budget)) (\<lambda>response.
     io_bind (io_lift (with_error RtPresentation (project_public_emotion (Some (Inst es')) (Some (Inst appraisal))))) (\<lambda>emotion.
     io_bind (on_world (rp_monotonic P)) (\<lambda>t1.
     io_bind (on_world (rp_uuid4 P)) (\<lambda>message_id.
     let duration_ms = elapsed_ms t0 t1 in
     io_bind (on_world (rp_now_iso P)) (\<lambda>iso_now.
     io_bind (on_store (local_commit_turn (rk_local R) iso_now
       (local_commit_args request generation msg (lus_revision state) es' rs' emotion response message_id duration_ms))) (\<lambda>committed.
     io_lift (turn_result_of committed (Some duration_ms) False)))))))))))))))))"

text \<open>The early validation has one error for every defect of the request id and one for every defect of the message.\<close>

definition early_validation :: "pyobj \<Rightarrow> pyobj \<Rightarrow> rt_exn + (pystr \<times> pystr)" where
  "early_validation request msg = (case local_validate_request_id request of
     Inl _ \<Rightarrow> Inl (RtStore (LValidationError (u ''invalid_request_id'')))
   | Inr r \<Rightarrow> (case local_validate_message msg of
       Inl _ \<Rightarrow> Inl (RtStore (LValidationError (u ''empty_message'')))
     | Inr m \<Rightarrow> Inr (r, m)))"

text \<open>The handler after admission: the reservation is released, whatever the release does, and the exception goes on.\<close>

definition releasing :: "rt_codec \<Rightarrow> pystr \<Rightarrow> int \<Rightarrow> ('a, 'w) rt_action \<Rightarrow> ('a, 'w) rt_action" where
  "releasing R request generation body s = (case body s of
     (Inl e, s') \<Rightarrow> (Inl e, snd (on_store (release_request (PStr request) (PInt generation)) s'))
   | r \<Rightarrow> r)"

definition request_conflict :: "pystr \<Rightarrow> rt_exn" where
  "request_conflict r = RtStore (LConflictError \<lparr>lc_code = u ''request_payload_conflict'', lc_expected_revision = 0, lc_actual_revision = None,
     lc_request_id = Some r\<rparr>)"

definition commit_turn_inner :: "rt_codec \<Rightarrow> 'w rt_ports \<Rightarrow> CompanionRuntime \<Rightarrow> pyobj \<Rightarrow> pyobj \<Rightarrow> (TurnResult, 'w) rt_action" where
  "commit_turn_inner R P T request msg =
     io_bind (io_lift (early_validation request msg)) (\<lambda>(r, m).
     io_bind (ensure_storage P) (\<lambda>_.
     io_bind (on_store (reserve_request (rk_local R) request msg)) (\<lambda>pre.
     (case (if lr_status pre = u ''replay'' then lr_committed pre else None) of
        Some committed \<Rightarrow> io_lift (turn_result_of committed None True)
      | None \<Rightarrow>
          if lr_status pre = u ''conflict'' then io_lift (Inl (request_conflict r))
          else if lr_status pre \<noteq> u ''reserved'' then io_lift (Inl (RtStore (LValidationError (u ''invalid_request_id''))))
          else (case lr_history_generation pre of
            None \<Rightarrow> io_lift (Inl (RtStore (LValidationError (u ''invalid_history_generation''))))
          | Some g \<Rightarrow> releasing R r g (execute_reserved_turn R P T r g m))))))"

text \<open>The boundary: every exception becomes a sanitized result.\<close>

definition commit_turn_async :: "rt_codec \<Rightarrow> 'w rt_ports \<Rightarrow> CompanionRuntime \<Rightarrow> pyobj \<Rightarrow> pyobj \<Rightarrow> 'w rt_state \<Rightarrow> TurnResult \<times> 'w rt_state" where
  "commit_turn_async R P T request msg s =
     (let (r, s') = commit_turn_inner R P T request msg s
      in ((case r of Inr t \<Rightarrow> t | Inl e \<Rightarrow> failed_result (sanitized_error e)), s'))"

definition send_turn :: "rt_codec \<Rightarrow> 'w rt_ports \<Rightarrow> CompanionRuntime \<Rightarrow> pyobj \<Rightarrow> pyobj \<Rightarrow> 'w rt_state \<Rightarrow> pyobj \<times> 'w rt_state" where
  "send_turn R P T request msg s = (let (t, s') = commit_turn_async R P T request msg s in (TurnResult_to_payload t, s'))"

section \<open>The other operations of the bridge\<close>

definition rt_close :: "'w rt_state \<Rightarrow> 'w rt_state" where
  "rt_close s = (if rs_open s then s\<lparr>rs_store := snd (close_store (rs_store s)), rs_open := False\<rparr> else s)"

definition is_closed :: "'w rt_state \<Rightarrow> bool" where
  "is_closed s \<longleftrightarrow> rs_open s \<and> ls_closed (rs_store s)"

definition health :: "'w rt_ports \<Rightarrow> 'w rt_state \<Rightarrow> pyobj \<times> 'w rt_state" where
  "health P s = (let (r, s') = ensure_storage P s; ok = (r = Inr ())
     in (PDict [(PStr (u ''ok''), PBool ok), (PStr (u ''storage''), PBool ok)], s'))"

text \<open>\<open>probe\<close> is the injected probe, \<open>None\<close> when there is none; it answers or raises.\<close>

definition provider_configured :: "(bool option) option \<Rightarrow> bool \<Rightarrow> bool" where
  "provider_configured probe model_built = (case probe of Some (Some b) \<Rightarrow> b | Some None \<Rightarrow> False | None \<Rightarrow> model_built)"

definition runtime_state :: "rt_codec \<Rightarrow> 'w rt_ports \<Rightarrow> (bool option) option \<Rightarrow> 'w rt_state \<Rightarrow> pyobj \<times> 'w rt_state" where
  "runtime_state R P probe s =
     (let configured = provider_configured probe (rs_model_built s);
          (r, s') = load_state R P s
      in ((case r of
             Inr state \<Rightarrow> PDict [(PStr (u ''ok''), PBool True), (PStr (u ''storage''), PBool True),
               (PStr (u ''provider_configured''), PBool configured), (PStr (u ''revision''), PInt (lus_revision state))]
           | Inl _ \<Rightarrow> PDict [(PStr (u ''ok''), PBool False), (PStr (u ''storage''), PBool False),
               (PStr (u ''provider_configured''), PBool configured), (PStr (u ''error_code''), PStr (local_code_value STORAGE)),
               (PStr (u ''error_message''), PStr (message_for STORAGE))]), s'))"

definition get_state :: "rt_codec \<Rightarrow> 'w rt_ports \<Rightarrow> (pyobj, 'w) rt_action" where
  "get_state R P =
     io_bind (load_state R P) (\<lambda>state.
     io_bind (io_lift (local_states state)) (\<lambda>(es, rs).
     io_lift (Inr (PDict [(PStr (u ''revision''), PInt (lus_revision state)), (PStr (u ''emotional_state''), EmotionalStateV1_to_dict es),
       (PStr (u ''relationship_state''), RelationshipStateV1_to_dict rs)]))))"

definition load_history :: "'w rt_ports \<Rightarrow> pyobj \<Rightarrow> (pyobj, 'w) rt_action" where
  "load_history P limit =
     io_bind (ensure_storage P) (\<lambda>_.
     io_bind (on_store (load_recent_history limit)) (\<lambda>rows. io_lift (Inr (PList (map history_row rows)))))"

definition get_storage_metrics :: "'w rt_ports \<Rightarrow> 'm action \<Rightarrow> ('m, 'w) rt_action" where
  "get_storage_metrics P metrics = io_bind (ensure_storage P) (\<lambda>_. on_store metrics)"

text \<open>The privacy operations, named by the operation of the store they call.\<close>

datatype privacy_name = DeleteHistory | DeleteMemories | ResetEmotional | ResetRelationship

definition store_privacy :: "rt_codec \<Rightarrow> pyfloat \<Rightarrow> pyfloat \<Rightarrow> privacy_name \<Rightarrow> pyobj action" where
  "store_privacy R t t' n = (case n of
     DeleteHistory \<Rightarrow> delete_history (rk_local R)
   | DeleteMemories \<Rightarrow> delete_memories (rk_local R)
   | ResetEmotional \<Rightarrow> reset_emotional_state (rk_local R) (PFloat t) (PFloat t') PNone
   | ResetRelationship \<Rightarrow> reset_relationship_state (rk_local R) (PFloat t) (PFloat t') PNone)"

definition error_payload :: "local_error \<Rightarrow> pyobj" where
  "error_payload e = PDict [(PStr (u ''success''), PBool False), (PStr (u ''error_code''), PStr (local_code_value (sf_code e))),
     (PStr (u ''error_message''), PStr (sf_message e))]"

definition privacy_op :: "rt_codec \<Rightarrow> 'w rt_ports \<Rightarrow> privacy_name \<Rightarrow> 'w rt_state \<Rightarrow> pyobj \<times> 'w rt_state" where
  "privacy_op R P n s =
     (let (r, s') = io_bind (ensure_storage P) (\<lambda>_.
            io_bind (on_world (rp_unix_time P)) (\<lambda>t.
            io_bind (on_world (rp_unix_time P)) (\<lambda>t'.
            io_bind (on_store (store_privacy R t t' n)) (\<lambda>result.
            io_lift (case result of
               PDict d \<Rightarrow> rbind (guard (dict_get d (u ''status'') = PStr (u ''applied'')) (RtLocal (LocalStorageError_init STORAGE None)))
                            (\<lambda>_. Inr (PDict [(PStr (u ''success''), PBool True), (PStr (u ''result''), result)]))
             | _ \<Rightarrow> Inl (RtLocal (LocalStorageError_init STORAGE None))))))) s
      in ((case r of Inr p \<Rightarrow> p | Inl e \<Rightarrow> error_payload (sanitized_error e)), s'))"

definition public_emotion_from_snapshot :: "pyobj \<Rightarrow> rt_exn + pyobj" where
  "public_emotion_from_snapshot snap =
     rbind (with_error RtEmotional (migrate_legacy_snapshot snap)) (\<lambda>state.
     rbind (with_error RtEmotional AppraisalV1_neutral) (\<lambda>appraisal.
     rbind (with_error RtPresentation (project_public_emotion (Some (Inst state)) (Some (Inst appraisal)))) (\<lambda>r.
     Inr (EmotionStateResponse_dump r))))"

end
