(* ===== verification/Companion_Properties.thy ===== *)
theory Companion_Properties
  imports Companion_Runtime Local_Properties Turn_Result
begin

text \<open>
  Properties of turns of the desktop application, over the store and the language model together: what a turn leaves in the
  database, replay of a finished turn, and what reaches the user interface.
\<close>

section \<open>Statements that do not fail\<close>

definition calm :: "'a action \<Rightarrow> bool" where
  "calm m \<longleftrightarrow> (\<forall>s. ls_faults s = [] \<longrightarrow> ls_faults (snd (m s)) = [])"

named_theorems calm_rules

lemma calmD: "calm m \<Longrightarrow> ls_faults s = [] \<Longrightarrow> ls_faults (snd (m s)) = []"
  by (simp add: calm_def)

lemma calm_bind [calm_rules]: "calm m \<Longrightarrow> (\<And>x. calm (f x)) \<Longrightarrow> calm (io_bind m f)"
  unfolding calm_def io_bind_def by (auto split: prod.split sum.split)

lemma calm_lift [calm_rules]: "calm (io_lift r)"
  by (simp add: calm_def io_lift_def)

lemma calm_execute [calm_rules]: "calm (execute_sql f)"
  by (auto simp: calm_def execute_sql_def faulty_def statement_result_def split: option.splits)

lemma calm_statements [calm_rules]: "calm begin_immediate" "calm commit_sql" "calm rollback_sql" "calm connection"
  by (auto simp: calm_def begin_immediate_def commit_sql_def rollback_sql_def connection_def faulty_def split: option.splits)

lemma calm_handlers [calm_rules]: "calm m \<Longrightarrow> calm (catching_sqlite m)" "calm m \<Longrightarrow> calm (catching_all m)" "calm m \<Longrightarrow> calm (sanitized_read m)"
  unfolding calm_def catching_sqlite_def catching_all_def sanitized_read_def by (auto split: prod.split sum.split)

lemma calm_choices [calm_rules]:
  "calm m \<Longrightarrow> calm m' \<Longrightarrow> calm (if b then m else m')"
  "calm m \<Longrightarrow> (\<And>x. calm (f x)) \<Longrightarrow> calm (case v of None \<Rightarrow> m | Some x \<Rightarrow> f x)"
  "calm m1 \<Longrightarrow> calm m2 \<Longrightarrow> calm m3 \<Longrightarrow> calm (case t of TPending \<Rightarrow> m1 | TCompleted \<Rightarrow> m2 | TFailed \<Rightarrow> m3)"
  by (auto split: option.split turn_status.split)

lemma calm_events [calm_rules]: "calm (insert_events K r es)"
  by (induction K r es rule: insert_events.induct) (auto intro!: calm_rules)

lemma calm_operations:
  "calm (reserve_request K request msg)" "calm (release_request request g)" "calm (local_commit_turn K now a)"
  "calm (load_user_state K t)" "calm (load_recent_history limit)" "calm (load_recent_memories K limit)"
  unfolding reserve_request_def release_request_def local_commit_turn_def commit_in_transaction_def write_turn_def Let_def
    load_user_state_def load_recent_history_def load_recent_memories_def
  by (intro calm_rules)+

section \<open>Reads and failed commits\<close>

text \<open>A store between two operations: no transaction is open.\<close>

definition resting :: "database \<Rightarrow> lstore \<Rightarrow> bool" where
  "resting d s \<longleftrightarrow> ls_db s = d \<and> ls_txn s = None \<and> \<not> ls_closed s"

definition reads :: "'a action \<Rightarrow> bool" where
  "reads m \<longleftrightarrow> (\<forall>d s. resting d s \<longrightarrow> resting d (snd (m s)))"

lemma reads_bind: "reads m \<Longrightarrow> (\<And>x. reads (f x)) \<Longrightarrow> reads (io_bind m f)"
  unfolding reads_def io_bind_def by (auto split: prod.split sum.split) (metis snd_conv)+

lemma reads_basic: "reads (io_lift r)" "reads connection" "reads (execute_sql (query f))"
  by (auto simp: reads_def resting_def io_lift_def connection_def execute_sql_def faulty_def statement_result_def query_def
      split: option.splits list.splits fault.splits)

lemma reads_sanitized: "reads m \<Longrightarrow> reads (sanitized_read m)"
  unfolding reads_def sanitized_read_def by (auto split: prod.split sum.split) (metis snd_conv)+

lemma reads_operations: "reads (load_user_state K t)" "reads (load_recent_history limit)" "reads (load_recent_memories K limit)"
  unfolding load_user_state_def load_recent_history_def load_recent_memories_def
  by (intro reads_bind reads_basic reads_sanitized)+

lemma transacts_resting: "transacts m f \<Longrightarrow> resting d s \<Longrightarrow> tx_outcome s (m s) (f d)"
  by (auto simp: transacts_def resting_def)

lemma commit_failure_rests:
  assumes "resting d s" and "local_commit_turn K now a s = (Inl e, s')"
  shows "resting d s'"
proof -
  have "wp (local_commit_turn K now a) (\<lambda>r s'. isl r \<longrightarrow> ls_txn s' = None) s"
  proof -
    have all: "wp (catching_all m) (\<lambda>r s'. isl r \<longrightarrow> ls_txn s' = None) s1" for m :: "LocalCommittedTurn action" and s1
      by (auto simp: wp_def catching_all_def split: prod.splits sum.splits)
    have w: "wp (execute_sql (query f)) Q' s" if "\<And>r s'. ls_txn s' = None \<Longrightarrow> Q' r s'" for f :: "database \<Rightarrow> turn_row option" and Q'
      using reads_basic(3) [of f] assms(1) that unfolding reads_def resting_def wp_def by (auto split: prod.splits)
    show ?thesis
    proof (cases "prepare_commit_turn K a")
      case (Inr p)
      have "wp (case existing of Some t \<Rightarrow> (case tn_status t of TCompleted \<Rightarrow> io_lift (replay_committed K p t)
           | TFailed \<Rightarrow> io_lift (Inl (commit_conflict p ''request_replay_unavailable'')) | TPending \<Rightarrow> catching_all (commit_in_transaction K now p))
         | None \<Rightarrow> catching_all (commit_in_transaction K now p)) (\<lambda>r s'. isl r \<longrightarrow> ls_txn s' = None) s1"
        if "ls_txn s1 = None" for existing s1
        using that by (auto simp: wp_lift all split: option.split turn_status.split)
      then show ?thesis unfolding local_commit_turn_def wp_bind wp_lift Inr sum.case using assms(1)
        by (auto simp: wp_result [of connection s "Inr ()" s] connection_def resting_def split: sum.split intro!: w)
    qed (use assms(1) in \<open>simp add: local_commit_turn_def wp_bind wp_lift resting_def\<close>)
  qed
  then have "ls_txn s' = None" using assms(2) by (simp add: wp_def)
  then show ?thesis using transacts_resting [OF local_commit_transacts [of K now a] assms(1)] assms
    by (auto simp: tx_outcome_def unchanged_def resting_def)
qed

section \<open>Steps that keep the database\<close>

text \<open>The store of the turn rests at \<open>d\<close>; when \<open>F\<close> no statement will fail.\<close>

definition rests_at :: "bool \<Rightarrow> database \<Rightarrow> 'w rt_state \<Rightarrow> bool" where
  "rests_at F d s \<longleftrightarrow> resting d (rs_store s) \<and> rs_open s \<and> (F \<longrightarrow> ls_faults (rs_store s) = [])"

definition keeps_db :: "('a, 'w) rt_action \<Rightarrow> bool" where
  "keeps_db m \<longleftrightarrow> (\<forall>F d s. rests_at F d s \<longrightarrow> rests_at F d (snd (m s)))"

text \<open>The language model leaves the store alone: no other call of the bridge runs during the turn.\<close>

definition undisturbed_store :: "'w rt_ports \<Rightarrow> bool" where
  "undisturbed_store P \<longleftrightarrow> (\<forall>msg b s. rs_store (snd (rp_appraise P msg b s)) = rs_store s \<and> rs_open (snd (rp_appraise P msg b s)) = rs_open s)
     \<and> (\<forall>ms b s. rs_store (snd (rp_generate P ms b s)) = rs_store s \<and> rs_open (snd (rp_generate P ms b s)) = rs_open s)"

lemma keeps_db_bind: "keeps_db m \<Longrightarrow> (\<And>x. keeps_db (f x)) \<Longrightarrow> keeps_db (io_bind m f)"
  unfolding keeps_db_def io_bind_def by (fastforce split: prod.split sum.split)

lemma keeps_db_basic: "keeps_db (io_lift r)" "keeps_db (on_world g)" "keeps_db (provider_port P)" "keeps_db (ensure_storage P)"
  by (auto simp: keeps_db_def rests_at_def io_lift_def on_world_def provider_port_def ensure_storage_def Let_def split: prod.splits option.splits sum.splits)

lemma keeps_db_store: "reads m \<Longrightarrow> calm m \<Longrightarrow> keeps_db (on_store m)"
  unfolding keeps_db_def rests_at_def on_store_def reads_def calm_def by (auto simp: Let_def split_beta)

lemma keeps_db_model: "undisturbed_store P \<Longrightarrow> keeps_db (on_model (rp_appraise P msg b))" "undisturbed_store P \<Longrightarrow> keeps_db (on_model (rp_generate P ms b))"
  unfolding keeps_db_def rests_at_def on_model_def undisturbed_store_def by (auto simp: Let_def split_beta)

lemma keeps_db_loads: "keeps_db (load_state R P)" "keeps_db (load_context R P T state)"
  unfolding load_state_def load_context_def load_local_memories_def
  by (intro keeps_db_bind keeps_db_basic keeps_db_store reads_operations calm_operations)+

lemma wp_keeps:
  assumes "keeps_db m" and "rests_at F d s" and "\<And>x s'. rests_at F d s' \<Longrightarrow> wp (f x) Q s'" and "\<And>e s'. rests_at F d s' \<Longrightarrow> Q (Inl e) s'"
  shows "wp (io_bind m f) Q s"
proof -
  obtain r s' where m: "m s = (r, s')" by fastforce
  then have "rests_at F d s'" using assms(1,2) unfolding keeps_db_def by (metis snd_conv)
  then show ?thesis using assms(3,4) m by (auto simp: wp_bind wp_result [of m] split: sum.splits)
qed

lemma wp_case_prod: "(\<And>a b. x = (a, b) \<Longrightarrow> wp (f a b) Q s) \<Longrightarrow> wp (case x of (a, b) \<Rightarrow> f a b) Q s"
  by (cases x) simp

section \<open>A turn after its admission\<close>

definition turn_committed :: "rt_codec \<Rightarrow> pystr \<Rightarrow> int \<Rightarrow> pystr \<Rightarrow> database \<Rightarrow> TurnResult \<Rightarrow> 'w rt_state \<Rightarrow> bool" where
  "turn_committed R request g msg d t s \<longleftrightarrow> (\<exists>now rv es rs emotion response mid ms ct.
     tx_commit_op (rk_local R) now (local_commit_args request g msg rv es rs emotion response mid ms) d = Inr (ct, ls_db (rs_store s))
     \<and> resting (ls_db (rs_store s)) (rs_store s) \<and> rs_open s
     \<and> turn_result_of ct (Some ms) False = Inr t)"

lemma wp_committed:
  assumes "rests_at F d s"
    and "\<And>e s'. rests_at F d s' \<Longrightarrow> Q (Inl e) s'"
    and "\<And>ct s'. tx_commit_op (rk_local R) now a d = Inr (ct, ls_db (rs_store s')) \<Longrightarrow> resting (ls_db (rs_store s')) (rs_store s') \<Longrightarrow> rs_open s' \<Longrightarrow> wp (f ct) Q s'"
  shows "wp (io_bind (on_store (local_commit_turn (rk_local R) now a)) f) Q s"
proof -
  obtain r st where m: "local_commit_turn (rk_local R) now a (rs_store s) = (r, st)" by fastforce
  have rest: "resting d (rs_store s)" using assms(1) by (simp add: rests_at_def)
  show ?thesis
  proof (cases r)
    case (Inl e)
    have "resting d st" using commit_failure_rests [OF rest] m Inl by blast
    moreover have "ls_faults (rs_store s) = [] \<Longrightarrow> ls_faults st = []" using calmD [OF calm_operations(3)] m by (metis snd_conv)
    ultimately have "rests_at F d (s\<lparr>rs_store := st\<rparr>)" using assms(1) by (auto simp: rests_at_def)
    then show ?thesis unfolding wp_bind using assms(2) m Inl by (simp add: wp_def on_store_def with_error_def)
  next
    case (Inr ct)
    then have "tx_commit_op (rk_local R) now a d = Inr (ct, ls_db st)" "resting (ls_db st) st"
      using transacts_resting [OF local_commit_transacts [of "rk_local R" now a] rest] m rest by (auto simp: tx_outcome_def resting_def)
    then show ?thesis using assms(1) assms(3) [of ct "s\<lparr>rs_store := st\<rparr>"] m Inr
      unfolding wp_bind by (simp add: wp_result [of "on_store _"] on_store_def with_error_def rests_at_def)
  qed
qed

lemma commit_of_reservation:
  assumes "tx_commit_op K now (local_commit_args request g msg rv es rs emotion response mid ms) d = Inr (ct, d')"
    and "find_turn request d = Some t" and "tn_status t = TPending"
  obtains p rp pf ob where "prepare_commit_turn K (local_commit_args request g msg rv es rs emotion response mid ms) = Inr p"
    "lm_request_id (pc_commit p) = request" "lm_user_message (pc_commit p) = msg" "response = PStr (lm_assistant_message (pc_commit p))"
    "g = history_generation_of d" "tn_payload_hash t = reservation_marker g" "rv = revision_of d"
    "d' = committed_db now p rp pf ob d" "pf_revision pf = revision_of d + 1"
    "lt_emotion_state ct = EmotionStateResponse_dump emotion" "lt_response ct = response" "lt_message_id ct = mid" "lt_revision ct = revision_of d + 1"
    "lk_dumps K (lm_replay_payload (pc_commit p)) = Some rp"
  using assms(1)
proof (cases rule: commit_op_cases)
  case (Replay p t')
  then show thesis using assms(2,3) prepare_commit_facts(1) [OF Replay(1)] by (simp add: local_commit_args_def)
next
  case (Fresh p t')
  note f = prepare_commit_facts [OF Fresh(1)]
  have t: "find_turn (lm_request_id (pc_commit p)) d = Some t" "t' = t" "lm_request_id (pc_commit p) = request" "lm_user_message (pc_commit p) = msg"
    "pc_generation p = g" using assms(2) f Fresh by (auto simp: local_commit_args_def)
  have am: "response = PStr (lm_assistant_message (pc_commit p))" using Fresh(1)
    by (auto simp: prepare_commit_turn_def Let_def local_commit_args_def local_validate_message_def split: pyobj.splits option.splits if_splits)
  have v: "pc_expected p = Some rv" using Fresh(1)
    by (auto simp: prepare_commit_turn_def Let_def local_commit_args_def split: pyobj.splits option.splits if_splits)
  have rp: "pc_replay p = [(PStr (u ''response''), response), (PStr (u ''emotion_state''), EmotionStateResponse_dump emotion),
      (PStr (u ''message_id''), PStr mid), (PStr (u ''duration_ms''), PInt ms)]" using f(4) by (simp add: local_commit_args_def)
  show thesis
  proof (rule tx_write_committed [OF Fresh(6) t(1)])
    fix e s' rp' pf ob
    assume "pc_expected p \<in> {None, Some (revision_of d)}" "lk_dumps K (lm_replay_payload (pc_commit p)) = Some rp'" "pf_revision pf = revision_of d + 1" "d' = committed_db now p rp' pf ob d"
      "ct = committed_of K (lm_request_id (pc_commit p)) (revision_of d + 1) (db_chat_seq d + 1) (db_chat_seq d + 1 + 1) (pc_replay p)"
    then show thesis using that [OF Fresh(1) t(3,4) am, of rp' pf ob] Fresh(4,5) t v
      by (simp add: rp committed_of_def get_or_def py_str_def u_def)
  qed
qed

lemma execute_reserved:
  assumes q: "undisturbed_store P" and s: "rests_at F d s" and t: "find_turn request d = Some row" "tn_status row = TPending"
  shows "wp (execute_reserved_turn R P T request g msg)
    (\<lambda>r s'. case r of Inl e \<Rightarrow> rests_at F d s' | Inr t \<Rightarrow> turn_committed R request g msg d t s') s"
  unfolding execute_reserved_turn_def Let_def
  apply (intro wp_committed [where F = F and d = d] wp_keeps [where F = F and d = d] keeps_db_basic keeps_db_loads keeps_db_model [OF q] wp_case_prod s; (simp only: sum.case)?)
proof -
  show "wp (io_lift (turn_result_of ct (Some ms) False)) (\<lambda>r s'. case r of Inl e \<Rightarrow> rests_at F d s' | Inr t \<Rightarrow> turn_committed R request g msg d t s') s'"
    if c: "tx_commit_op (rk_local R) now (local_commit_args request g msg rv es rs emotion response mid ms) d = Inr (ct, ls_db (rs_store s'))"
      and "resting (ls_db (rs_store s')) (rs_store s')" "rs_open s'" for now rv es rs emotion response mid ms ct s'
  proof -
    have "\<exists>t. turn_result_of ct (Some ms) False = Inr t"
      by (rule commit_of_reservation [OF c t]) (simp add: turn_result_of_def py_dict_def EmotionStateResponse_dump_def)
    then obtain t where "turn_result_of ct (Some ms) False = Inr t" by blast
    then show ?thesis unfolding wp_lift turn_committed_def using that by (simp only: sum.case) blast
  qed
qed

section \<open>Admission and release\<close>

definition pending_row :: "pystr \<Rightarrow> database \<Rightarrow> turn_row" where
  "pending_row r d = \<lparr>tn_request_id = r, tn_payload_hash = reservation_marker (history_generation_of d), tn_status = TPending,
     tn_expected_revision = 0, tn_committed_revision = None, tn_user_log = None, tn_assistant_log = None, tn_replay_payload = None,
     tn_error_code = None\<rparr>"

definition reserved :: "pystr \<Rightarrow> database \<Rightarrow> database" where
  "reserved r d = d\<lparr>db_turns := db_turns d @ [pending_row r d]\<rparr>"

lemma find_append_None: "List.find Q xs = None \<Longrightarrow> List.find Q (xs @ ys) = List.find Q ys"
  by (induction xs) (auto split: if_splits)

lemma reserved_facts:
  "find_turn r d = None \<Longrightarrow> find_turn r (reserved r d) = Some (pending_row r d)" "tn_status (pending_row r d) = TPending"
  "revision_of (reserved r d) = revision_of d" "history_generation_of (reserved r d) = history_generation_of d" "chats_ok (reserved r d) = chats_ok d"
  by (auto simp: find_turn_def find_append_None reserved_def pending_row_def revision_of_def history_generation_of_def chats_ok_def)

lemma tx_reserve_cases:
  assumes "tx_reserve K r m d = Inr (pre, d')"
  obtains (Fresh) "find_turn r d = None" "pre = outcome ''reserved''\<lparr>lr_history_generation := Some (history_generation_of d)\<rparr>" "d' = reserved r d"
  | (Known) "d' = d" "lr_status pre = u ''replay'' \<or> lr_committed pre = None \<and> lr_status pre = u ''conflict''"
proof (cases "find_turn r d")
  case None
  then show ?thesis using assms Fresh by (simp add: tx_reserve_def bbind_def bstmt_def insert_reservation_def reserved_def pending_row_def)
next
  case (Some t)
  then show ?thesis using assms Known
    by (auto simp: tx_reserve_def blift_def replay_or_conflict_def completed_outcome_def outcome_def split: if_splits)
qed

lemma delete_reserved:
  assumes "outbox_ok d" and "P (pending_row r d)" and "\<And>t. t \<in> set (db_turns d) \<Longrightarrow> \<not> P t"
  shows "delete_turns P (reserved r d) = d"
proof -
  have t: "filter (\<lambda>t. \<not> P t) (db_turns d) = db_turns d" using assms(3) by (intro filter_True) auto
  have o: "filter (\<lambda>e. ox_turn_request_id e \<in> set (map tn_request_id (db_turns d))) (db_outbox d) = db_outbox d"
    using assms(1) by (intro filter_True) (force simp: outbox_ok_def)
  have "filter (\<lambda>t. \<not> P t) (db_turns d @ [pending_row r d]) = db_turns d" using t assms(2) by simp
  then show ?thesis unfolding delete_turns_def Let_def reserved_def using o by simp
qed

lemma release_reserved:
  assumes "db_ok d" and "find_turn r d = None" and "local_validate_request_id (PStr r) = Inr r"
  shows "tx_release_op (PStr r) (PInt (history_generation_of d)) (reserved r d) = Inr ((), d)"
proof -
  have "r \<notin> tn_request_id ` set (db_turns d)" using assms(2) by (simp add: find_turn_None)
  then have "delete_turns (\<lambda>t. tn_request_id t = r \<and> tn_status t = TPending \<and> tn_payload_hash t = reservation_marker (history_generation_of d))
      (reserved r d) = d"
    using assms(1) by (intro delete_reserved) (auto simp: db_ok_def pending_row_def)
  moreover have "validate_generation (PInt (history_generation_of d)) = Inr (history_generation_of d)"
    by (simp add: validate_generation_def linvalid_def history_generation_of_def)
  ultimately show ?thesis using assms(3) by (simp add: tx_release_op_def tx_release_def)
qed

lemma releasing_restores:
  assumes "wp body (\<lambda>x s'. case x of Inl e \<Rightarrow> rests_at F (reserved r d) s' | Inr t \<Rightarrow> Q t s') s"
    and "db_ok d" and "find_turn r d = None" and "local_validate_request_id (PStr r) = Inr r"
  shows "wp (releasing R r (history_generation_of d) body) (\<lambda>x s'. case x of
      Inl e \<Rightarrow> ls_db (rs_store s') = d \<or> \<not> F \<and> ls_db (rs_store s') = reserved r d | Inr t \<Rightarrow> Q t s') s"
proof -
  obtain x s1 where b: "body s = (x, s1)" by fastforce
  show ?thesis
  proof (cases x)
    case (Inl e)
    then have s1: "rests_at F (reserved r d) s1" using assms(1) b by (simp add: wp_def)
    then have "tx_outcome (rs_store s1) (release_request (PStr r) (PInt (history_generation_of d)) (rs_store s1)) (Inr ((), d))"
      using transacts_resting [OF release_request_transacts [of "PStr r" "PInt (history_generation_of d)"]] release_reserved [OF assms(2-4)]
      by (metis rests_at_def)
    then show ?thesis using s1 b Inl
      by (auto simp: releasing_def wp_def on_store_def tx_outcome_def unchanged_def rests_at_def resting_def split_beta Let_def)
  next
    case (Inr t)
    then show ?thesis using assms(1) b by (simp add: releasing_def wp_def)
  qed
qed

section \<open>Properties\<close>

text \<open>What a fresh turn wrote: the reservation of \<open>r\<close> is consumed and the turn \<open>p\<close> is committed at the next revision.\<close>

definition replay_fields :: "TurnResult \<Rightarrow> (pyobj \<times> pyobj) list" where
  "replay_fields t = [(PStr (u ''response''), te_response t), (PStr (u ''emotion_state''), te_emotion_state t),
     (PStr (u ''message_id''), opt_str (te_message_id t)), (PStr (u ''duration_ms''), opt_int (te_duration_ms t))]"

definition fresh_turn :: "rt_codec \<Rightarrow> pyobj \<Rightarrow> pyobj \<Rightarrow> database \<Rightarrow> TurnResult \<Rightarrow> 'w rt_state \<Rightarrow> bool" where
  "fresh_turn R request msg d t s \<longleftrightarrow> (\<exists>r m p now rp pf ob. request = PStr r \<and> msg = PStr m \<and> find_turn r d = None
     \<and> lm_request_id (pc_commit p) = r \<and> lm_user_message (pc_commit p) = m \<and> te_response t = PStr (lm_assistant_message (pc_commit p))
     \<and> ls_db (rs_store s) = committed_db now p rp pf ob (reserved r d) \<and> pf_revision pf = revision_of d + 1
     \<and> te_revision t = Some (revision_of d + 1) \<and> lk_dumps (rk_local R) (PDict (replay_fields t)) = Some rp
     \<and> local_validate_request_id request = Inr r \<and> local_validate_message msg = Inr m)"

lemma committed_is_fresh:
  assumes "turn_committed R r (history_generation_of d) m (reserved r d) t s" and "find_turn r d = None"
  shows "fresh_turn R (PStr r) (PStr m) d t s \<and> \<not> te_replayed t"
proof -
  obtain now rv es rs emotion response mid ms ct where
    c: "tx_commit_op (rk_local R) now (local_commit_args r (history_generation_of d) m rv es rs emotion response mid ms) (reserved r d)
        = Inr (ct, ls_db (rs_store s))" and t: "turn_result_of ct (Some ms) False = Inr t"
    using assms(1) by (auto simp: turn_committed_def)
  show ?thesis
  proof (rule commit_of_reservation [OF c reserved_facts(1) [OF assms(2)] reserved_facts(2)])
    fix p rp pf ob
    assume p: "prepare_commit_turn (rk_local R) (local_commit_args r (history_generation_of d) m rv es rs emotion response mid ms) = Inr p"
      and a: "lm_request_id (pc_commit p) = r" "lm_user_message (pc_commit p) = m" "response = PStr (lm_assistant_message (pc_commit p))"
        "ls_db (rs_store s) = committed_db now p rp pf ob (reserved r d)" "pf_revision pf = revision_of (reserved r d) + 1"
        "lt_emotion_state ct = EmotionStateResponse_dump emotion" "lt_response ct = response" "lt_message_id ct = mid"
        "lt_revision ct = revision_of (reserved r d) + 1" "lk_dumps (rk_local R) (lm_replay_payload (pc_commit p)) = Some rp"
    have e: "te_response t = response \<and> te_emotion_state t = EmotionStateResponse_dump emotion \<and> te_message_id t = Some mid
        \<and> te_revision t = Some (revision_of d + 1) \<and> te_duration_ms t = Some ms \<and> \<not> te_replayed t"
      using t a(6-9) by (auto simp: turn_result_of_def py_dict_def EmotionStateResponse_dump_def reserved_facts)
    have "lm_replay_payload (pc_commit p) = PDict (replay_fields t)"
      "local_validate_request_id (PStr r) = Inr r" "local_validate_message (PStr m) = Inr m"
      using prepare_commit_facts(3,5,7) [OF p] a(1,2) e by (simp_all add: local_commit_args_def replay_fields_def opt_str_def opt_int_def)
    then have "fresh_turn R (PStr r) (PStr m) d t s" unfolding fresh_turn_def
      by (intro exI [of _ r] exI [of _ m] exI [of _ p] exI [of _ now] exI [of _ rp] exI [of _ pf] exI [of _ ob])
        (use a e assms(2) in \<open>simp add: reserved_facts opt_str_def opt_int_def\<close>)
    then show ?thesis using e by simp
  qed
qed

lemma turn_result_replayed: "turn_result_of c v b = Inr t \<Longrightarrow> te_success t \<and> te_replayed t = b"
  by (auto simp: turn_result_of_def)

lemma commit_turn_inner_outcome:
  assumes q: "undisturbed_store P" and o: "rs_open s" and d: "rs_store s = idle d fs" and ok: "db_ok d"
  shows "wp (commit_turn_inner R P T request msg) (\<lambda>x s'. case x of
      Inl e \<Rightarrow> ls_db (rs_store s') = d \<or> fs \<noteq> [] \<and> (\<exists>r. request = PStr r \<and> ls_db (rs_store s') = reserved r d)
    | Inr t \<Rightarrow> te_success t \<and> (if te_replayed t then ls_db (rs_store s') = d else fresh_turn R request msg d t s')) s"
  (is "wp _ ?Q s")
proof (cases "early_validation request msg")
  case (Inl e)
  then show ?thesis using d by (simp add: commit_turn_inner_def wp_bind wp_lift)
next
  case (Inr rm)
  then obtain r m where rm: "request = PStr r" "msg = PStr m" "rm = (r, m)" "local_validate_request_id (PStr r) = Inr r" "local_validate_message (PStr m) = Inr m"
    by (auto simp: early_validation_def local_validate_request_id_def local_validate_message_def split: pyobj.splits sum.splits)
  obtain x st where x: "reserve_request (rk_local R) (PStr r) (PStr m) (idle d fs) = (x, st)" by fastforce
  have c: "fs = [] \<Longrightarrow> ls_faults st = []" using calmD [OF calm_operations(1), of "idle d fs" "rk_local R" "PStr r" "PStr m"] x by simp
  have t: "tx_outcome (idle d fs) (x, st) (tx_reserve (rk_local R) r m d)"
    using transacts_idle [OF reserve_transacts [of "rk_local R" "PStr r" "PStr m"], of d fs] rm(4,5) x by (simp add: tx_reserve_op_def)
  have e: "ensure_storage P s = (Inr (), s)" using o by (simp add: ensure_storage_def)
  let ?s = "s\<lparr>rs_store := st\<rparr>"
  have step: "wp (commit_turn_inner R P T request msg) ?Q s \<longleftrightarrow> wp (io_bind (on_store (reserve_request (rk_local R) (PStr r) (PStr m)))
     (\<lambda>pre. (case (if lr_status pre = u ''replay'' then lr_committed pre else None) of
        Some committed \<Rightarrow> io_lift (turn_result_of committed None True)
      | None \<Rightarrow>
          if lr_status pre = u ''conflict'' then io_lift (Inl (request_conflict r))
          else if lr_status pre \<noteq> u ''reserved'' then io_lift (Inl (RtStore (LValidationError (u ''invalid_request_id''))))
          else (case lr_history_generation pre of
            None \<Rightarrow> io_lift (Inl (RtStore (LValidationError (u ''invalid_history_generation''))))
          | Some g \<Rightarrow> releasing R r g (execute_reserved_turn R P T r g m))))) ?Q s"
    unfolding commit_turn_inner_def Inr using e rm(1-3) by (simp add: wp_bind wp_lift wp_result [of "ensure_storage P"])
  have on: "on_store (reserve_request (rk_local R) (PStr r) (PStr m)) s = (with_error RtStore x, ?s)" using d x by (simp add: on_store_def)
  show ?thesis
  proof (cases x)
    case (Inl e)
    then have "ls_db st = d" using t by (auto simp: tx_outcome_def unchanged_def)
    then show ?thesis unfolding step wp_bind wp_result [of "on_store _", OF on] using Inl by (simp add: with_error_def)
  next
    case (Inr pre)
    then have tr: "tx_reserve (rk_local R) r m d = Inr (pre, ls_db st)" and st: "ls_txn st = None" "\<not> ls_closed st"
      using t by (auto simp: tx_outcome_def)
    from tr show ?thesis
    proof (cases rule: tx_reserve_cases)
      case Fresh
      have s1: "rests_at (fs = []) (reserved r d) ?s" using Fresh(3) st c o by (simp add: rests_at_def resting_def)
      have "wp (releasing R r (history_generation_of d) (execute_reserved_turn R P T r (history_generation_of d) m))
         (\<lambda>x s'. case x of Inl e \<Rightarrow> ls_db (rs_store s') = d \<or> \<not> fs = [] \<and> ls_db (rs_store s') = reserved r d
           | Inr t \<Rightarrow> te_success t \<and> turn_committed R r (history_generation_of d) m (reserved r d) t s') ?s"
        by (intro releasing_restores ok Fresh(1) rm(4))
          (rule wp_mono [OF execute_reserved [OF q s1 reserved_facts(1) [OF Fresh(1)] reserved_facts(2)]],
            auto simp: turn_committed_def dest: turn_result_replayed split: sum.splits)
      then have "wp (releasing R r (history_generation_of d) (execute_reserved_turn R P T r (history_generation_of d) m)) ?Q ?s"
        by (rule wp_mono) (auto simp: rm(1,2) dest: committed_is_fresh [OF _ Fresh(1)] split: sum.splits)
      then show ?thesis unfolding step wp_bind wp_result [of "on_store _", OF on] using Inr Fresh(2) by (simp add: with_error_def outcome_def u_def)
    next
      case Known
      then show ?thesis unfolding step wp_bind wp_result [of "on_store _", OF on] using Inr
        by (auto simp: with_error_def wp_lift outcome_def u_def dest: turn_result_replayed split: option.split sum.split)
    qed
  qed
qed


lemma reserve_finished:
  assumes f: "fresh_turn R request msg d t s" and ok: "db_ok d" and rb: "reads_back (rk_local R) (PDict (replay_fields t)) (replay_fields t)"
    and mid: "te_message_id t = Some mid"
  shows "\<exists>ct. tx_reserve_op (rk_local R) request msg (ls_db (rs_store s)) = Inr (outcome ''replay''\<lparr>lr_committed := Some ct\<rparr>, ls_db (rs_store s))
     \<and> lt_response ct = te_response t \<and> lt_emotion_state ct = te_emotion_state t \<and> lt_message_id ct = mid \<and> Some (lt_revision ct) = te_revision t"
proof -
  obtain r m p now rp pf ob where p: "find_turn r d = None" "lm_request_id (pc_commit p) = r" "lm_user_message (pc_commit p) = m"
     "ls_db (rs_store s) = committed_db now p rp pf ob (reserved r d)" "te_revision t = Some (revision_of d + 1)"
     "lk_dumps (rk_local R) (PDict (replay_fields t)) = Some rp" "local_validate_request_id request = Inr r" "local_validate_message msg = Inr m"
    using f by (auto simp: fresh_turn_def)
  let ?d = "reserved r d"
  define row where "row = completed_row p rp (revision_of ?d) (revision_of ?d + 1) (db_chat_seq ?d + 1)\<lparr>tn_error_code := tn_error_code (pending_row r d)\<rparr>"
  have find: "find_turn (lm_request_id (pc_commit p)) ?d = Some (pending_row r d)" using reserved_facts(1) [OF p(1)] p(2) by simp
  have fr: "find_turn r (ls_db (rs_store s)) = Some row"
    and ch: "map_option cr_content (find_chat (tn_user_log row) (ls_db (rs_store s))) = Some m"
    using committed_db_row [OF find] ok p(2-4) reserved_facts(5) by (simp_all add: row_def db_ok_def completed_row_def)
  let ?ct = "committed_of (rk_local R) r (revision_of ?d + 1) (db_chat_seq ?d + 1) (db_chat_seq ?d + 1 + 1) (replay_fields t)"
  have "committed_from_row (rk_local R) row = Inr ?ct"
    using committed_row_reads_back [OF p(6) rb, of row] p(2) by (simp add: row_def completed_row_def)
  then have "tx_reserve_op (rk_local R) request msg (ls_db (rs_store s)) = Inr (outcome ''replay''\<lparr>lr_committed := Some ?ct\<rparr>, ls_db (rs_store s))"
    using fr ch by (simp add: tx_reserve_op_def p(7,8) tx_reserve_def blift_def replay_or_conflict_def completed_outcome_def row_def completed_row_def)
  moreover have "lt_response ?ct = te_response t \<and> lt_emotion_state ?ct = te_emotion_state t \<and> lt_message_id ?ct = mid \<and> Some (lt_revision ?ct) = te_revision t"
    using p(5) mid by (simp add: committed_of_def get_or_def replay_fields_def opt_str_def reserved_facts py_str_def u_def)
  ultimately show ?thesis by blast
qed

text \<open>C7: sending a finished turn again (after a lost answer, or by a second click) gives the stored answer: the same text, emotion, message id and
  revision, marked as replayed.  It writes nothing and asks neither clock nor provider: the ports may be any.\<close>

theorem finished_turn_replays:
  assumes "fresh_turn R request msg d t s" and "db_ok d" and "te_message_id t = Some mid" and "te_emotion_state t = PDict e"
    and "reads_back (rk_local R) (PDict (replay_fields t)) (replay_fields t)"
    and "rs_open s'" and "rs_store s' = idle (ls_db (rs_store s)) []"
  shows "case commit_turn_async R P T request msg s' of (t', s'') \<Rightarrow>
    te_success t' \<and> te_replayed t' \<and> te_response t' = te_response t \<and> te_emotion_state t' = te_emotion_state t \<and> te_message_id t' = te_message_id t
    \<and> te_revision t' = te_revision t \<and> ls_db (rs_store s'') = ls_db (rs_store s') \<and> rs_world s'' = rs_world s'"
proof -
  obtain ct where ct: "tx_reserve_op (rk_local R) request msg (ls_db (rs_store s)) = Inr (outcome ''replay''\<lparr>lr_committed := Some ct\<rparr>, ls_db (rs_store s))"
      "lt_response ct = te_response t" "lt_emotion_state ct = te_emotion_state t" "lt_message_id ct = mid" "Some (lt_revision ct) = te_revision t"
    using reserve_finished [OF assms(1,2,5,3)] by blast
  obtain r m where rm: "local_validate_request_id request = Inr r" "local_validate_message msg = Inr m" using assms(1) by (auto simp: fresh_turn_def)
  obtain x st where x: "reserve_request (rk_local R) request msg (rs_store s') = (x, st)" by fastforce
  have "x = Inr (outcome ''replay''\<lparr>lr_committed := Some ct\<rparr>)" "ls_db st = ls_db (rs_store s)"
    using faultless_success [OF reserve_transacts ct(1)] x assms(7) by simp_all
  then show ?thesis using ct(2-5) assms(3,4,6,7) x
    by (simp add: commit_turn_async_def commit_turn_inner_def early_validation_def rm io_bind_def io_lift_def ensure_storage_def on_store_def
        with_error_def outcome_def turn_result_of_def py_dict_def)
qed

text \<open>Every exception of a turn carries one of the classes the boundary knows; only the privacy operations raise a sanitized error themselves.\<close>

definition foreign :: "('a, 'w) rt_action \<Rightarrow> bool" where
  "foreign m \<longleftrightarrow> (\<forall>s e. fst (m s) \<noteq> Inl (RtLocal e))"

named_theorems foreign_rules

lemma foreign_bind [foreign_rules]: "foreign m \<Longrightarrow> (\<And>x. foreign (f x)) \<Longrightarrow> foreign (io_bind m f)"
  unfolding foreign_def io_bind_def by (auto split: prod.split sum.split) (metis fst_conv)+

lemma foreign_basic [foreign_rules]:
  "foreign (on_store m)" "foreign (on_world g)" "foreign (on_model n)" "foreign (provider_port P)" "foreign (ensure_storage P)"
  "foreign (io_lift (with_error RtCtx a))" "foreign (io_lift (with_error RtPresentation b))"
  by (auto simp: foreign_def on_store_def on_world_def on_model_def provider_port_def ensure_storage_def io_lift_def with_error_def Let_def
      split: prod.splits sum.splits option.splits if_splits)

lemma foreign_lift [foreign_rules]:
  "foreign (io_lift (Inr x))" "foreign (io_lift (Inl (RtStore y)))" "foreign (io_lift (turn_result_of c v w))" "foreign (io_lift (local_states state))"
  "foreign (io_lift (local_transitions R T es rs ap ct))" "foreign (io_lift (local_messages R es rs loaded msg))"
  "foreign (io_lift (early_validation request msg'))" "foreign (io_lift (project_memories R rows))" "foreign (io_lift (Inl (request_conflict r)))"
proof -
  have "project_memories R rows \<noteq> Inl (RtLocal e)" for e
    by (induction R rows rule: project_memories.induct) (auto simp: rbind_Inl_iff split: memory_end.splits)
  then show "foreign (io_lift (project_memories R rows))" by (simp add: foreign_def io_lift_def)
qed (auto simp: foreign_def io_lift_def turn_result_of_def py_dict_def local_states_def local_transitions_def local_messages_def early_validation_def
    request_conflict_def with_error_def split: sum.splits option.splits pyobj.splits list.splits)

lemma foreign_choices [foreign_rules]:
  "foreign m \<Longrightarrow> foreign m' \<Longrightarrow> foreign (if b then m else m')"
  "foreign m \<Longrightarrow> (\<And>x. foreign (f x)) \<Longrightarrow> foreign (case v of None \<Rightarrow> m | Some x \<Rightarrow> f x)"
  "(\<And>x y. foreign (h x y)) \<Longrightarrow> foreign (case q of (x, y) \<Rightarrow> h x y)"
  "foreign m \<Longrightarrow> foreign (releasing R r g m)"
  by (auto simp: foreign_def releasing_def split: option.split prod.split sum.split) (metis fst_conv)

lemma foreign_turn: "foreign (commit_turn_inner R P T request msg)"
  unfolding commit_turn_inner_def execute_reserved_turn_def load_state_def load_context_def load_local_memories_def Let_def
  by (intro foreign_rules)

definition succeeds :: "(TurnResult, 'w) rt_action \<Rightarrow> bool" where
  "succeeds m \<longleftrightarrow> (\<forall>s t. fst (m s) = Inr t \<longrightarrow> te_success t)"

lemma succeeds_rules:
  "(\<And>x. succeeds (f x)) \<Longrightarrow> succeeds (io_bind m f)" "succeeds (io_lift (Inl e))" "succeeds (io_lift (turn_result_of c v b))"
  "succeeds n \<Longrightarrow> succeeds n' \<Longrightarrow> succeeds (if B then n else n')"
  "succeeds n \<Longrightarrow> (\<And>x. succeeds (g x)) \<Longrightarrow> succeeds (case y of None \<Rightarrow> n | Some x \<Rightarrow> g x)"
  "(\<And>x y. succeeds (h x y)) \<Longrightarrow> succeeds (case q of (x, y) \<Rightarrow> h x y)" "succeeds n \<Longrightarrow> succeeds (releasing R r i n)"
  by (auto simp: succeeds_def io_bind_def io_lift_def releasing_def dest: turn_result_replayed split: prod.splits sum.splits option.splits)
    (metis fst_conv)

lemma turn_succeeds: "succeeds (commit_turn_inner R P T request msg)"
  unfolding commit_turn_inner_def execute_reserved_turn_def Let_def by (intro succeeds_rules)

text \<open>C8: what the page gets from a turn is always of one of two shapes: a success with the six public fields, or a failure with a code
  of the fixed vocabulary and a fixed message of the runtime or of the class of the model error.  No text of an exception passes.\<close>

theorem send_turn_sanitized:
  "(\<exists>r e i v ms b. fst (send_turn R P T request msg s) = PDict [(PStr (u ''success''), PBool True), (PStr (u ''response''), r),
       (PStr (u ''emotion_state''), e), (PStr (u ''message_id''), opt_str i), (PStr (u ''revision''), opt_int v),
       (PStr (u ''duration_ms''), opt_int ms), (PStr (u ''replayed''), PBool b)])
   \<or> (\<exists>c m. fst (send_turn R P T request msg s) = PDict [(PStr (u ''success''), PBool False), (PStr (u ''error_code''), PStr (local_code_value c)),
       (PStr (u ''error_message''), PStr m)] \<and> m \<in> range message_for \<union> range (\<lambda>cl. u (MESSAGE cl)))"
proof -
  obtain x s' where x: "commit_turn_inner R P T request msg s = (x, s')" by fastforce
  show ?thesis
  proof (cases x)
    case (Inl e)
    then have e: "e \<noteq> RtLocal f" for f using foreign_turn [of R P T request msg] x unfolding foreign_def by (metis fst_conv)
    have "sf_message (sanitized_error e) \<in> range message_for \<union> range (\<lambda>cl. u (MESSAGE cl))"
      using e by (auto simp: sanitized_error_def LocalStorageError_init_def split: rt_exn.splits adapter_exn.splits)
    then show ?thesis using x Inl
      by (intro disjI2 exI [of _ "sf_code (sanitized_error e)"] exI [of _ "sf_message (sanitized_error e)"])
        (simp add: send_turn_def commit_turn_async_def failed_result_def TurnResult_to_payload_def opt_str_def)
  next
    case (Inr t)
    then have "te_success t" using turn_succeeds [of R P T request msg] x unfolding succeeds_def by (metis fst_conv)
    then show ?thesis using x Inr by (auto simp: send_turn_def commit_turn_async_def TurnResult_to_payload_def)
  qed
qed

section \<open>Sharp edges\<close>

text \<open>A closed runtime does not say so, and its next call opens the store again.\<close>

lemma closed_runtime_not_closed: "\<not> is_closed (rt_close s)"
  by (simp add: is_closed_def rt_close_def)

lemma closed_runtime_reopens:
  assumes "rs_open s" and "rp_open P (rs_world s) = ((True, True, []), w)" and "open_local_storage (ls_db (rs_store (rt_close s))) True True [] = (Inr (), st)"
  shows "fst (health P (rt_close s)) = PDict [(PStr (u ''ok''), PBool True), (PStr (u ''storage''), PBool True)] \<and> rs_open (snd (health P (rt_close s)))"
  using assms by (simp add: health_def ensure_storage_def rt_close_def with_error_def)

text \<open>A memory stored without metadata: the defaults of the projection are refused by the context, so every turn fails while it is among the
  five most recent ones.\<close>

lemma memory_without_metadata_blocks:
  assumes "(content, PDict []) \<in> set rows" and "project_memories R rows = Inr mems"
  shows "\<exists>e. LoadedContextData_init iso_utc (PTuple hist) (Some mems) profile persona = Inl e"
proof -
  have "\<exists>m \<in> set mems. mo_source_id m = Some (PStr [])" using assms
    by (induction R rows arbitrary: mems rule: project_memories.induct)
      (auto simp: LocalContextMemory_def local_confidence_def get_or_def py_str_def Let_def split: memory_end.splits sum.splits)
  moreover have "check_memory m \<noteq> Inr ()" if "mo_source_id m = Some (PStr [])" for m
    using that by (simp add: check_memory_def reject_def guard_def str_or_empty_def)
  ultimately have "check_all check_memory mems \<noteq> Inr ()" unfolding check_all_iff by blast
  then show ?thesis
    by (cases "LoadedContextData_init iso_utc (PTuple hist) (Some mems) profile persona") (auto simp: LoadedContextData_init_def split: pyobj.splits)
qed

text \<open>A message of blanks: the store and the envelope take it, the context of the next turn refuses it.\<close>

lemma blank_message_blocks:
  assumes "cr_content c = [32]" and "c \<in> set rows"
  shows "local_validate_message (PStr [32]) = Inr [32]"
    and "\<exists>e. LoadedContextData_init iso_utc (PTuple (map history_row rows)) mems profile persona = Inl e"
proof -
  show "local_validate_message (PStr [32]) = Inr [32]" by (simp add: local_validate_message_def linvalid_def LOCAL_MAX_MESSAGE_LENGTH_def)
  have "strip [32] = []" by (simp add: strip_def is_space_def)
  then have "check_history_row iso_utc (history_row c) \<noteq> Inr ()" using assms(1)
    by (auto simp: check_history_row_def history_row_def reject_def guard_def dict_get_Cons str_or_empty_def u_def)
  then have "check_all (check_history_row iso_utc) (map history_row rows) \<noteq> Inr ()" using assms(2) by (auto simp: check_all_iff)
  then show "\<exists>e. LoadedContextData_init iso_utc (PTuple (map history_row rows)) mems profile persona = Inl e"
    by (cases "LoadedContextData_init iso_utc (PTuple (map history_row rows)) mems profile persona")
      (auto simp: LoadedContextData_init_def split: pyobj.splits option.splits)
qed

section \<open>A sample runtime\<close>

definition sample_rt_codec :: rt_codec where
  "sample_rt_codec = \<lparr>rk_local = sample_local_codec\<lparr>lk_loads := (\<lambda>_. Some (PDict
       [(PStr (u ''response''), PStr (u ''hi'')), (PStr (u ''emotion_state''), PDict []), (PStr (u ''message_id''), PStr (u ''m1''))]))\<rparr>,
     rk_turn = sample_codecs, rk_float_of_str = (\<lambda>_. None)\<rparr>"

definition sample_rt_ports :: "nat rt_ports" where
  "sample_rt_ports = \<lparr>rp_open = (\<lambda>w. ((True, True, []), w)), rp_monotonic = (\<lambda>w. (of_nat w, Suc w)), rp_now = (\<lambda>w. (Fin (of_nat w), Suc w)),
     rp_unix_time = (\<lambda>w. (Fin (of_nat w), Suc w)), rp_now_iso = (\<lambda>w. (u ''2026-01-01T00:00:00Z'', w)), rp_uuid4 = (\<lambda>w. (u ''m1'', w)),
     rp_factory = Some (\<lambda>w. (Inr (), w)), rp_appraise = (\<lambda>m b s. (Inr warm_appraisal, s)), rp_generate = (\<lambda>ms b s. (Inr (PStr (u ''hi'')), s))\<rparr>"

definition sample_rt_state :: "database \<Rightarrow> nat rt_state" where
  "sample_rt_state d = \<lparr>rs_store = idle d [], rs_open = True, rs_model_built = True, rs_world = 1000\<rparr>"


definition sample_result :: TurnResult where
  "sample_result = \<lparr>te_success = True, te_response = PStr (u ''hi''), te_emotion_state = PDict [], te_message_id = Some (u ''m1''), te_revision = Some 1,
     te_duration_ms = Some 5, te_replayed = False, te_error_code = None, te_error_message = None\<rparr>"

definition sample_turn_commit :: prepared_commit where
  "sample_turn_commit = \<lparr>pc_commit = \<lparr>lm_request_id = u ''r1'', lm_expected_revision = PNone, lm_user_message = u ''hello'', lm_assistant_message = u ''hi'',
     lm_emotional_state = EmotionalStateV1_to_dict calm_state, lm_relationship_state = RelationshipStateV1_to_dict friend_state,
     lm_public_response = u ''hi'', lm_replay_payload = PDict (replay_fields sample_result), lm_outbox_events = []\<rparr>,
     pc_generation = 0, pc_hash = u ''00'', pc_expected = None, pc_replay = replay_fields sample_result\<rparr>"

definition sample_profile_row :: profile_row where
  "sample_profile_row = \<lparr>pf_persona_config = None, pf_user_profile = u ''{}'', pf_emotional_state = u ''{}'', pf_relationship_state = u ''{}'', pf_revision = 1\<rparr>"

definition finished_database :: database where
  "finished_database = committed_db (u ''t'') sample_turn_commit (u ''{}'') sample_profile_row [] (reserved (u ''r1'') fresh_database)"

lemma sample_fresh: "fresh_turn sample_rt_codec (PStr (u ''r1'')) (PStr (u ''hello'')) fresh_database sample_result (sample_rt_state finished_database)"
  unfolding fresh_turn_def finished_database_def
  by (intro exI [of _ "u ''r1''"] exI [of _ "u ''hello''"] exI [of _ sample_turn_commit] exI [of _ "u ''t''"] exI [of _ "u ''{}''"] exI [of _ sample_profile_row]
      exI [of _ "[]"])
    (simp add: sample_turn_commit_def sample_result_def sample_profile_row_def sample_rt_state_def fresh_database_def find_turn_def revision_of_def sample_rt_codec_def
      sample_local_codec_def sample_dumps_def local_validate_request_id_def local_validate_message_def linvalid_def MAX_REQUEST_ID_LENGTH_def
      LOCAL_MAX_MESSAGE_LENGTH_def key_char_def u_def)

theorem finished_turn_replays_witness:
  "\<forall>T. case commit_turn_async sample_rt_codec sample_rt_ports T (PStr (u ''r1'')) (PStr (u ''hello'')) (sample_rt_state finished_database) of (t', s'') \<Rightarrow>
     te_success t' \<and> te_replayed t' \<and> te_response t' = PStr (u ''hi'') \<and> te_emotion_state t' = PDict [] \<and> te_message_id t' = Some (u ''m1'')
     \<and> te_revision t' = Some 1 \<and> ls_db (rs_store s'') = finished_database \<and> rs_world s'' = 1000"
proof
  fix T
  have "reads_back (rk_local sample_rt_codec) (PDict (replay_fields sample_result)) (replay_fields sample_result)"
    by (simp add: reads_back_def sample_rt_codec_def sample_local_codec_def sample_dumps_def replay_fields_def sample_result_def opt_str_def u_def)
  note r = finished_turn_replays [OF sample_fresh fresh_ok _ _ this, of "u ''m1''" "[]" "sample_rt_state finished_database" sample_rt_ports T]
  show "case commit_turn_async sample_rt_codec sample_rt_ports T (PStr (u ''r1'')) (PStr (u ''hello'')) (sample_rt_state finished_database) of (t', s'') \<Rightarrow>
     te_success t' \<and> te_replayed t' \<and> te_response t' = PStr (u ''hi'') \<and> te_emotion_state t' = PDict [] \<and> te_message_id t' = Some (u ''m1'')
     \<and> te_revision t' = Some 1 \<and> ls_db (rs_store s'') = finished_database \<and> rs_world s'' = 1000"
    using r by (simp add: sample_result_def sample_rt_state_def)
qed

end
