(* ===== verification/Service_Calls.thy ===== *)
theory Service_Calls
  imports Process_Turn
begin

text \<open>
  What the operational services share: the readings of the outside world and the awaited database write (\<open>run_blocking_write\<close> of
  \<open>turn_execution.py\<close>).  The write of a turn is the same function on the ports of a turn.
\<close>

record 'w service_ports =
  sv_monotonic :: "'w \<Rightarrow> rat \<times> 'w"
  sv_clock :: "'w \<Rightarrow> pyfloat \<times> 'w"
  sv_cancelled :: "'w \<Rightarrow> bool \<times> 'w"
  sv_client :: "'w client option"

text \<open>The worker runs \<open>f\<close> in a thread to its end, also when the task is cancelled meanwhile; \<open>spent\<close> is the check of the budget.\<close>

definition awaited_write ::
    "'w service_ports \<Rightarrow> (rat \<Rightarrow> bool) \<Rightarrow> ('x \<Rightarrow> bool) \<Rightarrow> ('w \<Rightarrow> ('x turn_exn + 'a) \<times> 'w) \<Rightarrow> 'w \<Rightarrow> ('x turn_exn + 'a) \<times> 'w" where
  "awaited_write P spent allow f w =
     (let (now, w1) = sv_monotonic P w in
      if spent now then (Inl DeadlineExceeded, w1)
      else let (r, w2) = f w1; (cancelled, w3) = sv_cancelled P w2 in
           (classify_write allow cancelled (worker_end_of r), w3))"

definition blocking_write ::
    "'w service_ports \<Rightarrow> TurnBudget \<Rightarrow> ('x \<Rightarrow> bool) \<Rightarrow> ('w \<Rightarrow> ('x turn_exn + 'a) \<times> 'w) \<Rightarrow> 'w \<Rightarrow> ('x turn_exn + 'a) \<times> 'w" where
  "blocking_write P b = awaited_write P (\<lambda>now. remaining b now \<le> 0)"

definition turn_service :: "'w ports \<Rightarrow> 'w service_ports" where
  "turn_service P = \<lparr>sv_monotonic = po_monotonic P, sv_clock = po_clock P, sv_cancelled = po_cancelled P, sv_client = po_client P\<rparr>"

lemma blocking_write_of_turn: "write_stage P b allow f w = blocking_write (turn_service P) b allow f w"
  by (simp add: write_stage_def blocking_write_def awaited_write_def turn_service_def Let_def split_beta)

lemma blocking_write_Inr:
  assumes "blocking_write P b allow f w = (Inr x, w')"
  obtains w1 w2 where "fst (f w1) = Inr x" "w1 = snd (sv_monotonic P w)" "w2 = snd (f w1)" "w' = snd (sv_cancelled P w2)"
  using assms by (auto simp: blocking_write_def awaited_write_def classify_write_def worker_end_of_def Let_def split_beta split: if_splits sum.splits turn_exn.splits
      worker_end.splits)

end
