(* ===== verification/Privacy_Operations.thy ===== *)
theory Privacy_Operations
  imports Service_Calls Local_Contracts
begin

text \<open>
  The privacy operations of the web application: the contract of the four database procedures (\<open>privacy_operations.py\<close>) and the service
  that runs them (\<open>privacy_service.py\<close>).  The names of results that another theory also uses carry the prefix \<open>priv_\<close>.
\<close>

section \<open>Vocabulary\<close>

definition OPERATION_DELETE_HISTORY :: pystr where "OPERATION_DELETE_HISTORY = u ''delete_history''"
definition OPERATION_DELETE_MEMORIES :: pystr where "OPERATION_DELETE_MEMORIES = u ''delete_memories''"
definition OPERATION_RESET_EMOTIONAL_STATE :: pystr where "OPERATION_RESET_EMOTIONAL_STATE = u ''reset_emotional_state''"
definition OPERATION_RESET_RELATIONSHIP_STATE :: pystr where "OPERATION_RESET_RELATIONSHIP_STATE = u ''reset_relationship_state''"

lemmas operation_names = OPERATION_DELETE_HISTORY_def OPERATION_DELETE_MEMORIES_def OPERATION_RESET_EMOTIONAL_STATE_def
  OPERATION_RESET_RELATIONSHIP_STATE_def

definition priv_PRIVACY_OPERATIONS :: "pystr list" where
  "priv_PRIVACY_OPERATIONS = [OPERATION_DELETE_HISTORY, OPERATION_DELETE_MEMORIES, OPERATION_RESET_EMOTIONAL_STATE, OPERATION_RESET_RELATIONSHIP_STATE]"

definition RESET_SNAPSHOT_FIELD :: "(pystr \<times> snapshot_kind) list" where
  "RESET_SNAPSHOT_FIELD = [(OPERATION_RESET_EMOTIONAL_STATE, EmotionalKind), (OPERATION_RESET_RELATIONSHIP_STATE, RelationshipKind)]"

definition RPC_NAME :: "pystr \<Rightarrow> pystr" where
  "RPC_NAME operation = operation"

definition priv_SUCCESS_FIELDS :: "pystr list" where
  "priv_SUCCESS_FIELDS = map u [''status'', ''operation'', ''operation_id'', ''user_id'', ''revision'', ''counts'']"

definition COUNT_FIELDS :: "pystr list" where
  "COUNT_FIELDS = map u [''chat_logs'', ''turn_requests'', ''outbox_events'', ''archival_extractions'', ''memories'', ''profiles'']"

record PrivacyOperationResult =
  pr_operation :: pystr
  pr_operation_id :: pystr
  pr_user_id :: pystr
  pr_revision :: int
  pr_counts :: "(pystr \<times> int) list"

definition counts_dict :: "(pystr \<times> int) list \<Rightarrow> pyobj" where
  "counts_dict cs = PDict (map (\<lambda>(k, n). (PStr k, PInt n)) cs)"

definition PrivacyOperationResult_to_db_row :: "PrivacyOperationResult \<Rightarrow> pyobj" where
  "PrivacyOperationResult_to_db_row r = PDict [(PStr (u ''status''), PStr (u ''applied'')), (PStr (u ''operation''), PStr (pr_operation r)),
     (PStr (u ''operation_id''), PStr (pr_operation_id r)), (PStr (u ''user_id''), PStr (pr_user_id r)), (PStr (u ''revision''), PInt (pr_revision r)),
     (PStr (u ''counts''), counts_dict (pr_counts r))]"

section \<open>Input\<close>

definition validate_operation_id :: "pyobj \<Rightarrow> commit_exn + unit" where
  "validate_operation_id v = invalid (\<not> is_valid_uuid v) ''invalid_operation_id''"

text \<open>\<open>str.isspace\<close> is false for the empty string.\<close>

definition validate_user_id :: "pyobj \<Rightarrow> commit_exn + unit" where
  "validate_user_id v = (case v of
     PStr s \<Rightarrow> invalid (s = [] \<or> list_all is_space s \<or> length s > 128) ''invalid_user_id''
   | _ \<Rightarrow> Inl (ValidationError (u ''invalid_user_id'')))"

text \<open>The domain's neutral snapshot of each kind; \<open>None\<close> when the constructor raises.\<close>

definition neutral_snapshot_of :: "snapshot_kind \<Rightarrow> pyobj \<Rightarrow> pyobj option" where
  "neutral_snapshot_of kind timestamp = (case kind of
     EmotionalKind \<Rightarrow> (case EmotionalStateV1_neutral timestamp of Inl _ \<Rightarrow> None | Inr s \<Rightarrow> Some (EmotionalStateV1_to_dict s))
   | RelationshipKind \<Rightarrow> (case RelationshipStateV1_neutral timestamp of Inl _ \<Rightarrow> None | Inr s \<Rightarrow> Some (RelationshipStateV1_to_dict s)))"

definition validate_reset_neutral :: "(pyobj \<times> pyobj) list \<Rightarrow> snapshot_kind \<Rightarrow> commit_exn + unit" where
  "validate_reset_neutral d kind =
     (let timestamp = dict_get d (u ''timestamp'') in
      rbind (invalid (is_bool timestamp \<or> \<not> is_number timestamp) ''invalid_operation_payload'') (\<lambda>_.
      (case Option.bind (py_float timestamp) (\<lambda>f. neutral_snapshot_of kind (PFloat f)) of
         None \<Rightarrow> Inl (ValidationError (u ''invalid_operation_payload''))
       | Some expected \<Rightarrow> invalid (\<not> py_eq (PDict d) expected) ''invalid_operation_payload'')))"

definition validate_privacy_operation_input ::
    "(pyobj \<Rightarrow> pystr option) \<Rightarrow> pyobj \<Rightarrow> pyobj \<Rightarrow> pyobj \<Rightarrow> pyobj \<Rightarrow> commit_exn + pystr" where
  "validate_privacy_operation_input dumps operation user_id operation_id payload = (case operation of
     PStr name \<Rightarrow>
       rbind (invalid (name \<notin> set priv_PRIVACY_OPERATIONS) ''invalid_operation'') (\<lambda>_.
       rbind (validate_user_id user_id) (\<lambda>_.
       rbind (validate_operation_id operation_id) (\<lambda>_.
       (case as_mapping payload of
          None \<Rightarrow> Inl (ValidationError (u ''invalid_operation_payload''))
        | Some d \<Rightarrow> (case map_of RESET_SNAPSHOT_FIELD name of
            None \<Rightarrow> Inr name
          | Some kind \<Rightarrow>
              rbind (validate_snapshot_payload dumps payload kind) (\<lambda>_.
              rbind (validate_reset_neutral d kind) (\<lambda>_. Inr name)))))))
   | _ \<Rightarrow> Inl (ValidationError (u ''invalid_operation'')))"

definition build_privacy_operation_rpc_payload :: "pyobj \<Rightarrow> pyobj \<Rightarrow> pyobj \<Rightarrow> row" where
  "build_privacy_operation_rpc_payload user_id operation_id payload =
     [(u ''p_authenticated_user_id'', user_id), (u ''p_operation_id'', operation_id),
      (u ''p_operation_payload'', (case as_mapping payload of None \<Rightarrow> PDict [] | Some d \<Rightarrow> PDict d))]"

section \<open>Result\<close>

text \<open>\<open>_parse_error_envelope\<close> always raises: this is the exception.\<close>

definition priv_parse_error_envelope :: "pyobj \<Rightarrow> commit_exn" where
  "priv_parse_error_envelope error_info = (case as_mapping error_info of
     None \<Rightarrow> ValidationError (u ''invalid_error_format'')
   | Some d \<Rightarrow> (case dict_get d (u ''code'') of
       PStr code \<Rightarrow>
         (let message = (case str_of (dict_get d (u ''message'')) of None \<Rightarrow> u ''internal error'' | Some m \<Rightarrow> m) in
          if code = [] then ValidationError (u ''invalid_error_format'')
          else if code = u ''operation_conflict'' then
            ConflictError \<lparr>cf_code = code, cf_message = message, cf_expected_revision = 0, cf_actual_revision = None, cf_request_id = None\<rparr>
          else if code = u ''validation_failed'' then ValidationError code
          else database_error)
     | _ \<Rightarrow> ValidationError (u ''invalid_error_format'')))"

fun parse_counts :: "(pyobj \<times> pyobj) list \<Rightarrow> commit_exn + (pystr \<times> int) list" where
  "parse_counts [] = Inr []"
| "parse_counts ((k, v) # cs) =
     rbind (invalid (\<not> nonneg_int v) ''invalid_rpc_result'') (\<lambda>_.
     rbind (parse_counts cs) (\<lambda>rest.
     (case (str_of k, int_of v) of (Some key, Some n) \<Rightarrow> Inr ((key, n) # rest) | _ \<Rightarrow> Inl CommitTypeError)))"

definition parse_privacy_operation_result :: "pyobj \<Rightarrow> pyobj \<Rightarrow> pyobj \<Rightarrow> pyobj \<Rightarrow> commit_exn + PrivacyOperationResult" where
  "parse_privacy_operation_result result expected_operation expected_operation_id expected_user_id = (case as_mapping result of
     None \<Rightarrow> Inl (ValidationError (u ''invalid_rpc_result''))
   | Some d \<Rightarrow>
       if has_key d (u ''error'') then Inl (priv_parse_error_envelope (dict_get d (u ''error'')))
       else
       rbind (invalid (missing_keys d priv_SUCCESS_FIELDS \<noteq> []) ''invalid_rpc_result'') (\<lambda>_.
       rbind (invalid (unknown_keys d priv_SUCCESS_FIELDS \<noteq> []) ''invalid_rpc_result'') (\<lambda>_.
       let operation = dict_get d (u ''operation''); operation_id = dict_get d (u ''operation_id''); user_id = dict_get d (u ''user_id'');
           revision = dict_get d (u ''revision''); counts_raw = dict_get d (u ''counts'') in
       rbind (invalid (\<not> is_str operation \<or> operation \<noteq> expected_operation) ''invalid_rpc_result'') (\<lambda>_.
       rbind (invalid (\<not> is_str operation_id \<or> operation_id \<noteq> expected_operation_id) ''invalid_rpc_result'') (\<lambda>_.
       rbind (invalid (dict_get d (u ''status'') \<noteq> PStr (u ''applied'')) ''invalid_rpc_result'') (\<lambda>_.
       rbind (invalid (\<not> nonempty_str user_id) ''invalid_rpc_result'') (\<lambda>_.
       rbind (invalid (user_id \<noteq> expected_user_id) ''invalid_rpc_result'') (\<lambda>_.
       rbind (invalid (\<not> nonneg_int revision) ''invalid_rpc_result'') (\<lambda>_.
       (case as_mapping counts_raw of
          None \<Rightarrow> Inl (ValidationError (u ''invalid_rpc_result''))
        | Some c \<Rightarrow>
            rbind (invalid (fst ` set c \<noteq> PStr ` set COUNT_FIELDS) ''invalid_rpc_result'') (\<lambda>_.
            rbind (parse_counts c) (\<lambda>counts.
            (case (str_of operation, str_of operation_id, str_of user_id, int_of revision) of
               (Some o', Some i, Some us, Some rv) \<Rightarrow>
                 Inr \<lparr>pr_operation = o', pr_operation_id = i, pr_user_id = us, pr_revision = rv, pr_counts = counts\<rparr>
             | _ \<Rightarrow> Inl CommitTypeError)))))))))))))"

section \<open>One operation\<close>

text \<open>Every exception of the call becomes the sanitized database error, except a cancellation, which is no \<open>Exception\<close>.\<close>

definition run_privacy_operation ::
    "(pyobj \<Rightarrow> pystr option) \<Rightarrow> (pystr \<Rightarrow> row \<Rightarrow> 'w \<Rightarrow> (commit_exn turn_exn + pyobj) \<times> 'w) \<Rightarrow> pyobj \<Rightarrow> pyobj \<Rightarrow> pyobj \<Rightarrow> pyobj \<Rightarrow> 'w
     \<Rightarrow> (commit_exn turn_exn + PrivacyOperationResult) \<times> 'w" where
  "run_privacy_operation dumps rpc operation user_id operation_id payload w =
     (let effective_payload = (if payload = PNone then PDict [] else payload) in
      (case validate_privacy_operation_input dumps operation user_id operation_id effective_payload of
         Inl e \<Rightarrow> (Inl (Raised e), w)
       | Inr name \<Rightarrow> (case rpc (RPC_NAME name) (build_privacy_operation_rpc_payload user_id operation_id effective_payload) w of
           (Inl CancelledError, w') \<Rightarrow> (Inl CancelledError, w')
         | (Inl e, w') \<Rightarrow> (Inl (Raised database_error), w')
         | (Inr result, w') \<Rightarrow> (with_error Raised (parse_privacy_operation_result result operation operation_id user_id), w'))))"

section \<open>The service\<close>

text \<open>\<open>getattr(response, "data", None)\<close> is the data the client gives back.\<close>

definition SupabasePrivacyRepository_call :: "'w client option \<Rightarrow> pystr \<Rightarrow> row \<Rightarrow> 'w \<Rightarrow> (commit_exn turn_exn + pyobj) \<times> 'w" where
  "SupabasePrivacyRepository_call client rpc_name params w = (case client of
     None \<Rightarrow> (Inl (Raised database_error), w)
   | Some c \<Rightarrow> (case cl_rpc c rpc_name params w of
       (None, w') \<Rightarrow> (Inl (Raised database_error), w')
     | (Some data, w') \<Rightarrow>
         ((case (case data of PList xs \<Rightarrow> (case xs of [x] \<Rightarrow> Some x | _ \<Rightarrow> None) | _ \<Rightarrow> Some data) of
             Some (PDict d) \<Rightarrow> Inr (PDict d)
           | _ \<Rightarrow> Inl (Raised database_error)), w')))"

record PrivacyOperationResponse =
  ps_operation :: pystr
  ps_status :: pystr
  ps_counts :: "(pystr \<times> int) list"

definition PrivacyOperationResponse_from_result :: "PrivacyOperationResult \<Rightarrow> PrivacyOperationResponse" where
  "PrivacyOperationResponse_from_result r = \<lparr>ps_operation = pr_operation r, ps_status = u ''applied'', ps_counts = pr_counts r\<rparr>"

definition service_run ::
    "(pyobj \<Rightarrow> pystr option) \<Rightarrow> TurnExecutionConfig \<Rightarrow> 'w service_ports \<Rightarrow> pystr \<Rightarrow> pyobj \<Rightarrow> pyobj \<Rightarrow> pyobj \<Rightarrow> 'w
     \<Rightarrow> (commit_exn turn_exn + PrivacyOperationResponse) \<times> 'w" where
  "service_run dumps config P operation user_id operation_id payload w =
     (let (now, w1) = sv_monotonic P w; budget = create_budget config now;
          rpc_client = (\<lambda>name params. blocking_write P budget (\<lambda>_. False) (SupabasePrivacyRepository_call (sv_client P) name params));
          (r, w2) = run_privacy_operation dumps rpc_client (PStr operation) user_id operation_id payload w1
      in ((case r of Inl e \<Rightarrow> Inl e | Inr result \<Rightarrow> Inr (PrivacyOperationResponse_from_result result)), w2))"

text \<open>An exception of the domain while the snapshot is built passes unchanged.\<close>

datatype service_exn = ServiceExn "commit_exn turn_exn" | ServiceEmotional domain_error | ServiceRelation RelationshipDomainError

datatype privacy_action = service_delete_history | service_delete_memories | service_reset_emotional_state | service_reset_relationship_state

definition PrivacyService ::
    "(pyobj \<Rightarrow> pystr option) \<Rightarrow> TurnExecutionConfig \<Rightarrow> 'w service_ports \<Rightarrow> privacy_action \<Rightarrow> pyobj \<Rightarrow> pyobj \<Rightarrow> 'w
     \<Rightarrow> (service_exn + PrivacyOperationResponse) \<times> 'w" where
  "PrivacyService dumps config P action user_id operation_id w =
     (let run = (\<lambda>operation payload w. let (r, w') = service_run dumps config P operation user_id operation_id payload w
                                        in (with_error ServiceExn r, w'))
      in (case action of
        service_delete_history \<Rightarrow> run OPERATION_DELETE_HISTORY PNone w
      | service_delete_memories \<Rightarrow> run OPERATION_DELETE_MEMORIES PNone w
      | service_reset_emotional_state \<Rightarrow> (let (t, w') = sv_clock P w in
          (case EmotionalStateV1_neutral (PFloat t) of
             Inl e \<Rightarrow> (Inl (ServiceEmotional e), w')
           | Inr s \<Rightarrow> run OPERATION_RESET_EMOTIONAL_STATE (EmotionalStateV1_to_dict s) w'))
      | service_reset_relationship_state \<Rightarrow> (let (t, w') = sv_clock P w in
          (case RelationshipStateV1_neutral (PFloat t) of
             Inl e \<Rightarrow> (Inl (ServiceRelation e), w')
           | Inr s \<Rightarrow> run OPERATION_RESET_RELATIONSHIP_STATE (RelationshipStateV1_to_dict s) w'))))"

section \<open>What is accepted\<close>

lemma parse_counts_Inr: "parse_counts c = Inr counts \<longleftrightarrow>
    map (\<lambda>(k, n). (PStr k, PInt n)) counts = c \<and> (\<forall>(k, n) \<in> set counts. 0 \<le> n)"
proof (induction c arbitrary: counts rule: parse_counts.induct)
  case (2 k v cs)
  show ?case
  proof
    assume r: "parse_counts ((k, v) # cs) = Inr counts"
    obtain n where v: "v = PInt n" "0 \<le> n" using r by (cases v) auto
    obtain key where k: "k = PStr key" using r v by (cases k) auto
    show "map (\<lambda>(k, n). (PStr k, PInt n)) counts = (k, v) # cs \<and> (\<forall>(k, n) \<in> set counts. 0 \<le> n)"
      using r v k 2 by (auto split: option.splits)
  next
    assume "map (\<lambda>(k, n). (PStr k, PInt n)) counts = (k, v) # cs \<and> (\<forall>(k, n) \<in> set counts. 0 \<le> n)"
    then obtain key n rest where "counts = (key, n) # rest" "k = PStr key" "v = PInt n" "0 \<le> n"
      "map (\<lambda>(k, n). (PStr k, PInt n)) rest = cs" "\<forall>(k, n) \<in> set rest. 0 \<le> n" by (cases counts) auto
    then show "parse_counts ((k, v) # cs) = Inr counts" using 2 by simp
  qed
qed auto

lemma parse_result_facts:
  assumes "parse_privacy_operation_result result operation operation_id user_id = Inr r"
  shows "operation = PStr (pr_operation r)" "operation_id = PStr (pr_operation_id r)" "user_id = PStr (pr_user_id r)" "pr_user_id r \<noteq> []"
    "0 \<le> pr_revision r" "fst ` set (pr_counts r) = set COUNT_FIELDS" "\<forall>(k, n) \<in> set (pr_counts r). 0 \<le> n"
proof -
  obtain d where d: "as_mapping result = Some d" "\<not> has_key d (u ''error'')"
    using assms by (auto simp: parse_privacy_operation_result_def split: option.splits if_splits)
  obtain c where c: "as_mapping (dict_get d (u ''counts'')) = Some c" "fst ` set c = PStr ` set COUNT_FIELDS" "parse_counts c = Inr (pr_counts r)"
    and o: "operation = PStr (pr_operation r)" "operation_id = PStr (pr_operation_id r)" "user_id = PStr (pr_user_id r)"
      "nonempty_str user_id" "nonneg_int (dict_get d (u ''revision''))" "int_of (dict_get d (u ''revision'')) = Some (pr_revision r)"
    using assms d by (clarsimp simp: parse_privacy_operation_result_def Let_def is_str_iff nonempty_str_iff nonneg_int_iff split: option.splits)
  show "operation = PStr (pr_operation r)" "operation_id = PStr (pr_operation_id r)" "user_id = PStr (pr_user_id r)" by (rule o)+
  show "pr_user_id r \<noteq> []" using o(3,4) by simp
  show "0 \<le> pr_revision r" using o(5,6) by (cases "dict_get d (u ''revision'')") auto
  show "\<forall>(k, n) \<in> set (pr_counts r). 0 \<le> n" using c(3) by (simp add: parse_counts_Inr)
  have "map fst c = map (PStr \<circ> fst) (pr_counts r)" using c(3) by (auto simp: parse_counts_Inr)
  then have "PStr ` fst ` set (pr_counts r) = PStr ` set COUNT_FIELDS" using c(2) by (metis image_comp list.set_map)
  then show "fst ` set (pr_counts r) = set COUNT_FIELDS" by (metis inj_image_eq_iff injI pyobj.inject(4))
qed

lemma input_facts:
  assumes "validate_privacy_operation_input dumps operation user_id operation_id payload = Inr name"
  shows "operation = PStr name" "name \<in> set priv_PRIVACY_OPERATIONS" "\<exists>s. operation_id = PStr s \<and> uuid_match s"
    "\<exists>s. user_id = PStr s \<and> s \<noteq> [] \<and> length s \<le> 128" "as_mapping payload \<noteq> None"
    "\<And>kind. map_of RESET_SNAPSHOT_FIELD name = Some kind \<Longrightarrow> \<exists>d t e. as_mapping payload = Some d \<and> py_float (dict_get d (u ''timestamp'')) = Some t
       \<and> neutral_snapshot_of kind (PFloat t) = Some e \<and> py_eq (PDict d) e"
proof -
  obtain d where d: "operation = PStr name" "name \<in> set priv_PRIVACY_OPERATIONS" "validate_user_id user_id = Inr ()" "validate_operation_id operation_id = Inr ()"
    "as_mapping payload = Some d" "\<And>kind. map_of RESET_SNAPSHOT_FIELD name = Some kind \<Longrightarrow> validate_reset_neutral d kind = Inr ()"
    using assms by (auto simp: validate_privacy_operation_input_def split: pyobj.splits option.splits)
  show "operation = PStr name" "name \<in> set priv_PRIVACY_OPERATIONS" "as_mapping payload \<noteq> None" using d by simp_all
  show "\<exists>s. operation_id = PStr s \<and> uuid_match s" using d(4) by (cases operation_id) (auto simp: validate_operation_id_def)
  show "\<exists>s. user_id = PStr s \<and> s \<noteq> [] \<and> length s \<le> 128" using d(3) by (cases user_id) (auto simp: validate_user_id_def)
  show "\<exists>d t e. as_mapping payload = Some d \<and> py_float (dict_get d (u ''timestamp'')) = Some t
       \<and> neutral_snapshot_of kind (PFloat t) = Some e \<and> py_eq (PDict d) e" if "map_of RESET_SNAPSHOT_FIELD name = Some kind" for kind
    using d(6) [OF that] d(5) by (auto simp: validate_reset_neutral_def Let_def bind_eq_Some_conv simp del: py_eq.simps split: option.splits)
qed

lemma neutral_dict:
  assumes "0 < t"
  shows "\<exists>d. neutral_snapshot_of kind (flt t) = Some (PDict d) \<and> py_eq (PDict d) (PDict d) \<and> dict_get d (u ''timestamp'') = flt t
    \<and> (size_ok dumps (PDict d) MAX_REPLAY_PAYLOAD_BYTES \<longrightarrow> validate_snapshot_payload dumps (PDict d) kind = Inr ())"
proof (cases kind)
  case EmotionalKind
  obtain s where s: "EmotionalStateV1_neutral (flt t) = Inr s" "valid_state s" "es_timestamp s = t" using neutral_emotional_valid [OF assms] by blast
  obtain d where d: "EmotionalStateV1_to_dict s = PDict d" by (simp add: EmotionalStateV1_to_dict_def)
  have "py_eq (PDict d) (PDict d) \<and> dict_get d (u ''timestamp'') = flt t" using d s(3)
    by (auto simp: EmotionalStateV1_to_dict_def scalar_eq_def dict_get_Cons)
  then show ?thesis using EmotionalKind s d emotional_snapshot_ok [OF s(2), of dumps] by (auto simp: neutral_snapshot_of_def)
next
  case RelationshipKind
  obtain s where s: "RelationshipStateV1_neutral (flt t) = Inr s" "valid_relationship s" "rs_timestamp s = t" using neutral_relationship_valid [OF assms] by blast
  obtain d where d: "RelationshipStateV1_to_dict s = PDict d" by (simp add: RelationshipStateV1_to_dict_def)
  have "rs_triggers s = []" using s(1) unfolding RelationshipStateV1_neutral_def rel_create_iff by (auto simp: denotes_relationship_def validate_triggers_iff)
  then have "py_eq (PDict d) (PDict d) \<and> dict_get d (u ''timestamp'') = flt t" using d s(3)
    by (auto simp: RelationshipStateV1_to_dict_def scalar_eq_def dict_get_Cons)
  then show ?thesis using RelationshipKind s d relationship_snapshot_ok [OF s(2), of dumps] by (auto simp: neutral_snapshot_of_def)
qed

section \<open>Properties\<close>

text \<open>C17: a privacy operation belongs to its caller.  A result is only returned after one call of the procedure of the operation, with the identity
  and operation id that were given, both well formed; it names the same operation, operation id and user, and its counts are
  the six documented ones, not negative.  For a reset the document sent to the database is the neutral snapshot of the domain at its own time.\<close>

theorem privacy_result_belongs:
  assumes "run_privacy_operation dumps rpc operation user_id operation_id payload w = (Inr r, w')"
  shows "operation = PStr (pr_operation r) \<and> operation_id = PStr (pr_operation_id r) \<and> user_id = PStr (pr_user_id r)
    \<and> pr_operation r \<in> set priv_PRIVACY_OPERATIONS \<and> uuid_match (pr_operation_id r) \<and> length (pr_user_id r) \<le> 128
    \<and> 0 \<le> pr_revision r \<and> fst ` set (pr_counts r) = set COUNT_FIELDS \<and> (\<forall>(k, n) \<in> set (pr_counts r). 0 \<le> n)
    \<and> (\<exists>d res. rpc (pr_operation r) [(u ''p_authenticated_user_id'', user_id), (u ''p_operation_id'', operation_id), (u ''p_operation_payload'', PDict d)] w
           = (Inr res, w')
         \<and> (\<forall>kind. map_of RESET_SNAPSHOT_FIELD (pr_operation r) = Some kind \<longrightarrow>
              (\<exists>t e. py_float (dict_get d (u ''timestamp'')) = Some t \<and> neutral_snapshot_of kind (PFloat t) = Some e \<and> py_eq (PDict d) e)))"
proof -
  let ?p = "if payload = PNone then PDict [] else payload"
  obtain name result where v: "validate_privacy_operation_input dumps operation user_id operation_id ?p = Inr name"
    and c: "rpc (RPC_NAME name) (build_privacy_operation_rpc_payload user_id operation_id ?p) w = (Inr result, w')"
    and pr: "parse_privacy_operation_result result operation operation_id user_id = Inr r"
    using assms by (auto simp: run_privacy_operation_def Let_def with_error_def split: sum.splits prod.splits turn_exn.splits)
  note i = input_facts [OF v] and f = parse_result_facts [OF pr]
  obtain d where d: "as_mapping ?p = Some d" using i(5) by blast
  have n: "name = pr_operation r" using i(1) f(1) by simp
  have "rpc (pr_operation r) [(u ''p_authenticated_user_id'', user_id), (u ''p_operation_id'', operation_id), (u ''p_operation_payload'', PDict d)] w = (Inr result, w')"
    using c n d by (simp add: build_privacy_operation_rpc_payload_def RPC_NAME_def)
  moreover have "\<forall>kind. map_of RESET_SNAPSHOT_FIELD (pr_operation r) = Some kind \<longrightarrow>
      (\<exists>t e. py_float (dict_get d (u ''timestamp'')) = Some t \<and> neutral_snapshot_of kind (PFloat t) = Some e \<and> py_eq (PDict d) e)"
    using i(6) d n by fastforce
  moreover have "uuid_match (pr_operation_id r)" "length (pr_user_id r) \<le> 128" "pr_operation r \<in> set priv_PRIVACY_OPERATIONS"
    using i(2-4) f(2,3) n by auto
  ultimately show ?thesis using f by blast
qed

text \<open>A reset of the service never fails its own validation.  With a well-formed identity and operation id, a clock that shows a positive finite time and a
  snapshot within the size bound, the neutral snapshot the service builds passes the structural and the neutrality check, so the
  procedure is called.\<close>

theorem service_reset_valid:
  assumes "0 < t" and "validate_user_id user_id = Inr ()" and "validate_operation_id operation_id = Inr ()"
    and "(operation, kind) \<in> set RESET_SNAPSHOT_FIELD" and "neutral_snapshot_of kind (flt t) = Some payload"
    and "size_ok dumps payload MAX_REPLAY_PAYLOAD_BYTES"
  shows "validate_privacy_operation_input dumps (PStr operation) user_id operation_id payload = Inr operation"
proof -
  obtain d where d: "payload = PDict d" "py_eq (PDict d) (PDict d)" "dict_get d (u ''timestamp'') = flt t" "validate_snapshot_payload dumps (PDict d) kind = Inr ()"
    using neutral_dict [OF assms(1), of kind dumps] assms(5,6) by auto
  have "validate_reset_neutral d kind = Inr ()" using d assms(5) by (simp add: validate_reset_neutral_def Let_def)
  moreover have "map_of RESET_SNAPSHOT_FIELD operation = Some kind" "operation \<in> set priv_PRIVACY_OPERATIONS"
    using assms(4) by (auto simp: RESET_SNAPSHOT_FIELD_def operation_names priv_PRIVACY_OPERATIONS_def)
  ultimately show ?thesis using d assms(2,3) by (simp add: validate_privacy_operation_input_def)
qed

section \<open>A sample operation\<close>

definition sample_operation_id :: pyobj where "sample_operation_id = PStr (u ''11111111-1111-1111-1111-111111111111'')"

definition sample_privacy_result :: PrivacyOperationResult where
  "sample_privacy_result = \<lparr>pr_operation = OPERATION_DELETE_HISTORY, pr_operation_id = u ''11111111-1111-1111-1111-111111111111'', pr_user_id = u ''ana'',
     pr_revision = 3, pr_counts = map (\<lambda>k. (k, 1)) COUNT_FIELDS\<rparr>"

definition sample_privacy_rpc :: "pystr \<Rightarrow> row \<Rightarrow> nat \<Rightarrow> (commit_exn turn_exn + pyobj) \<times> nat" where
  "sample_privacy_rpc name params w = (Inr (PrivacyOperationResult_to_db_row sample_privacy_result), Suc w)"

lemma sample_identity: "validate_user_id (PStr (u ''ana'')) = Inr ()" "validate_operation_id sample_operation_id = Inr ()"
  using sample_uuids(1) by (simp_all add: validate_user_id_def validate_operation_id_def sample_operation_id_def is_space_def u_def)

lemma sample_privacy_run: "run_privacy_operation sample_dumps sample_privacy_rpc (PStr OPERATION_DELETE_HISTORY) (PStr (u ''ana'')) sample_operation_id PNone 0
    = (Inr sample_privacy_result, 1)"
proof -
  have "validate_privacy_operation_input sample_dumps (PStr OPERATION_DELETE_HISTORY) (PStr (u ''ana'')) sample_operation_id (PDict []) = Inr OPERATION_DELETE_HISTORY"
    using sample_identity by (simp add: validate_privacy_operation_input_def priv_PRIVACY_OPERATIONS_def RESET_SNAPSHOT_FIELD_def operation_names)
  moreover have "parse_privacy_operation_result (PrivacyOperationResult_to_db_row sample_privacy_result) (PStr OPERATION_DELETE_HISTORY) sample_operation_id
      (PStr (u ''ana'')) = Inr sample_privacy_result"
    by (simp add: parse_privacy_operation_result_def PrivacyOperationResult_to_db_row_def sample_privacy_result_def counts_dict_def sample_operation_id_def
        COUNT_FIELDS_def has_key_def missing_keys_def unknown_keys_def priv_SUCCESS_FIELDS_def dict_get_Cons operation_names)
  ultimately show ?thesis by (simp add: run_privacy_operation_def sample_privacy_rpc_def)
qed

theorem privacy_result_belongs_witness:
  "run_privacy_operation sample_dumps sample_privacy_rpc (PStr OPERATION_DELETE_HISTORY) (PStr (u ''ana'')) sample_operation_id PNone 0
     = (Inr sample_privacy_result, 1) \<and> fst ` set (pr_counts sample_privacy_result) = set COUNT_FIELDS"
  using privacy_result_belongs [OF sample_privacy_run] sample_privacy_run by blast

theorem service_reset_valid_witness:
  "\<exists>payload. neutral_snapshot_of EmotionalKind (flt 1000) = Some payload
     \<and> validate_privacy_operation_input sample_dumps (PStr OPERATION_RESET_EMOTIONAL_STATE) (PStr (u ''ana'')) sample_operation_id payload
         = Inr OPERATION_RESET_EMOTIONAL_STATE"
proof -
  obtain d where d: "neutral_snapshot_of EmotionalKind (flt 1000) = Some (PDict d)" using neutral_dict [of 1000 EmotionalKind sample_dumps] by auto
  have "(OPERATION_RESET_EMOTIONAL_STATE, EmotionalKind) \<in> set RESET_SNAPSHOT_FIELD" by (simp add: RESET_SNAPSHOT_FIELD_def)
  moreover have "size_ok sample_dumps (PDict d) MAX_REPLAY_PAYLOAD_BYTES" by (simp add: sample_size MAX_REPLAY_PAYLOAD_BYTES_def)
  ultimately show ?thesis
    using service_reset_valid [OF _ sample_identity, of 1000 OPERATION_RESET_EMOTIONAL_STATE EmotionalKind "PDict d" sample_dumps] d by simp
qed

end
