(* ===== verification/Account_Deletion.thy ===== *)
theory Account_Deletion
  imports Service_Calls Admission
begin

text \<open>
  The ledger of account deletions (\<open>account_deletion.py\<close>: references, strict parsers of the results of the database procedures, the
  repository) and the worker that empties it (\<open>account_deletion_worker.py\<close>).  Parameters: HMAC-SHA256, SHA-256, \<open>json.dumps\<close> with sorted
  keys, the database client and the authentication service.
\<close>

section \<open>Vocabulary\<close>

definition ACCOUNT_DELETION_HMAC_DOMAIN :: "nat list" where "ACCOUNT_DELETION_HMAC_DOMAIN = u ''account-deletion''"

definition STATUS_PENDING :: pystr where "STATUS_PENDING = u ''pending''"
definition STATUS_PROCESSING :: pystr where "STATUS_PROCESSING = u ''processing''"
definition STATUS_COMPLETED :: pystr where "STATUS_COMPLETED = u ''completed''"
definition STATUS_FAILED :: pystr where "STATUS_FAILED = u ''failed''"

definition ACCOUNT_DELETION_STATUSES :: "pystr list" where
  "ACCOUNT_DELETION_STATUSES = [STATUS_PENDING, STATUS_PROCESSING, STATUS_COMPLETED, STATUS_FAILED]"

definition ERROR_VALIDATION_FAILED :: pystr where "ERROR_VALIDATION_FAILED = u ''validation_failed''"
definition ERROR_OPERATION_CONFLICT :: pystr where "ERROR_OPERATION_CONFLICT = u ''operation_conflict''"
definition ERROR_STATE_CONFLICT :: pystr where "ERROR_STATE_CONFLICT = u ''state_conflict''"
definition ERROR_ATTEMPTS_EXHAUSTED :: pystr where "ERROR_ATTEMPTS_EXHAUSTED = u ''attempts_exhausted''"

lemmas deletion_names = STATUS_PENDING_def STATUS_PROCESSING_def STATUS_COMPLETED_def STATUS_FAILED_def ERROR_VALIDATION_FAILED_def
  ERROR_OPERATION_CONFLICT_def ERROR_STATE_CONFLICT_def ERROR_ATTEMPTS_EXHAUSTED_def

text \<open>\<open>re.match\<close> of a pattern that ends in a dollar: the text, or the text and a final newline.\<close>

definition dollar :: "(pystr \<Rightarrow> bool) \<Rightarrow> pystr \<Rightarrow> bool" where
  "dollar m s \<longleftrightarrow> m s \<or> s \<noteq> [] \<and> last s = 10 \<and> m (butlast s)"

definition hex64_match :: "pystr \<Rightarrow> bool" where
  "hex64_match = dollar (\<lambda>s. length s = 64 \<and> list_all hex_digit s)"

definition worker_id_match :: "pystr \<Rightarrow> bool" where
  "worker_id_match = dollar (key_match 64)"

definition error_code_match :: "pystr \<Rightarrow> bool" where
  "error_code_match = dollar code_match"

section \<open>References\<close>

datatype reference_exn = ReferenceSecret adm_exn | ReferenceInvalidUser | ReferenceUnicode

definition compute_account_deletion_user_ref :: "(nat list \<Rightarrow> nat list \<Rightarrow> pystr) \<Rightarrow> pyobj \<Rightarrow> pyobj \<Rightarrow> reference_exn + pystr" where
  "compute_account_deletion_user_ref hmac secret user_id =
     rbind (with_error ReferenceSecret (validate_secret_bytes secret)) (\<lambda>validated_secret.
     (case user_id of
        PStr s \<Rightarrow>
          rbind (guard (s \<noteq> [] \<and> strip s \<noteq> []) ReferenceInvalidUser) (\<lambda>_.
          (case utf8_encode s of
             None \<Rightarrow> Inl ReferenceUnicode
           | Some b \<Rightarrow> Inr (hmac validated_secret (ACCOUNT_DELETION_HMAC_DOMAIN @ 0 # b))))
      | _ \<Rightarrow> Inl ReferenceInvalidUser))"

text \<open>\<open>canon\<close> is \<open>json.dumps\<close> with sorted keys and compact separators; \<open>None\<close> when it raises.\<close>

definition compute_intent_fingerprint :: "(pyobj \<Rightarrow> pystr option) \<Rightarrow> (nat list \<Rightarrow> pystr) \<Rightarrow> pyobj \<Rightarrow> commit_exn + pystr" where
  "compute_intent_fingerprint canon sha256 payload =
     (if as_mapping payload = None then Inl (ValidationError (u ''invalid_intent_payload''))
      else (case canon payload of
        None \<Rightarrow> Inl CommitTypeError
      | Some t \<Rightarrow> (case utf8_encode t of None \<Rightarrow> Inl CommitUnicodeError | Some b \<Rightarrow> Inr (sha256 b))))"

section \<open>Strict envelopes\<close>

definition malformed :: "bool \<Rightarrow> commit_exn + unit" where
  "malformed bad = guard (\<not> bad) database_error"

definition require_mapping :: "pyobj \<Rightarrow> commit_exn + (pyobj \<times> pyobj) list" where
  "require_mapping v = (case as_mapping v of None \<Rightarrow> Inl database_error | Some d \<Rightarrow> Inr d)"

definition require_fields :: "(pyobj \<times> pyobj) list \<Rightarrow> string list \<Rightarrow> string list \<Rightarrow> commit_exn + unit" where
  "require_fields envelope required optional =
     malformed (\<not> (PStr ` u ` set required \<subseteq> fst ` set envelope \<and> fst ` set envelope \<subseteq> PStr ` u ` set (required @ optional)))"

definition require_text :: "(pyobj \<times> pyobj) list \<Rightarrow> string \<Rightarrow> commit_exn + pystr" where
  "require_text envelope key = (case dict_get envelope (u key) of PStr s \<Rightarrow> Inr s | _ \<Rightarrow> Inl database_error)"

definition require_uuid_text :: "(pyobj \<times> pyobj) list \<Rightarrow> string \<Rightarrow> commit_exn + pystr" where
  "require_uuid_text envelope key = rbind (require_text envelope key) (\<lambda>s. rbind (malformed (\<not> uuid_match s)) (\<lambda>_. Inr s))"

definition require_hex64 :: "(pyobj \<times> pyobj) list \<Rightarrow> string \<Rightarrow> commit_exn + pystr" where
  "require_hex64 envelope key = rbind (require_text envelope key) (\<lambda>s. rbind (malformed (\<not> hex64_match s)) (\<lambda>_. Inr s))"

definition optional_text :: "(pyobj \<times> pyobj) list \<Rightarrow> string \<Rightarrow> commit_exn + pystr option" where
  "optional_text envelope key = (case dict_get envelope (u key) of PNone \<Rightarrow> Inr None | PStr s \<Rightarrow> Inr (Some s) | _ \<Rightarrow> Inl database_error)"

definition ledger_require_int :: "(pyobj \<times> pyobj) list \<Rightarrow> string \<Rightarrow> commit_exn + int" where
  "ledger_require_int envelope key = (case dict_get envelope (u key) of PInt n \<Rightarrow> Inr n | _ \<Rightarrow> Inl database_error)"

record AccountDeletionError =
  ae_code :: pystr
  ae_message :: pystr

definition ledger_parse_error_envelope :: "(pyobj \<times> pyobj) list \<Rightarrow> commit_exn + AccountDeletionError" where
  "ledger_parse_error_envelope envelope =
     rbind (malformed (fst ` set envelope \<noteq> {PStr (u ''error'')})) (\<lambda>_.
     rbind (require_mapping (dict_get envelope (u ''error''))) (\<lambda>err.
     rbind (malformed (fst ` set err \<noteq> {PStr (u ''code''), PStr (u ''message'')})) (\<lambda>_.
     rbind (require_text err ''code'') (\<lambda>code.
     rbind (require_text err ''message'') (\<lambda>message.
     Inr \<lparr>ae_code = code, ae_message = message\<rparr>)))))"

definition ledger_conflict :: "AccountDeletionError \<Rightarrow> commit_exn" where
  "ledger_conflict e = ConflictError \<lparr>cf_code = ERROR_OPERATION_CONFLICT, cf_message = ae_message e, cf_expected_revision = 0, cf_actual_revision = None,
     cf_request_id = None\<rparr>"

text \<open>
  The start of every parser: an envelope with an error raises, a conflict for the one code the procedure reports as such
  (\<open>None\<close>: it has none) and a validation error otherwise.
\<close>

definition open_envelope :: "pystr option \<Rightarrow> pyobj \<Rightarrow> commit_exn + (pyobj \<times> pyobj) list" where
  "open_envelope conflict_code response =
     rbind (require_mapping response) (\<lambda>envelope.
     if has_key envelope (u ''error'') then
       rbind (ledger_parse_error_envelope envelope) (\<lambda>e.
       Inl (if Some (ae_code e) = conflict_code then ledger_conflict e else ValidationError ERROR_VALIDATION_FAILED))
     else Inr envelope)"

section \<open>Results\<close>

record RequestResult =
  rq_status :: pystr
  rq_job_id :: pystr
  rq_job_status :: pystr
  rq_db_purged_at :: "pystr option"
  rq_completed_at :: "pystr option"

record TombstoneStatus =
  ts_exists :: bool
  ts_status :: "pystr option"

record AcquiredJob =
  aj_job_id :: pystr
  aj_user_id :: pystr
  aj_user_ref_hmac_sha256 :: pystr
  aj_operation_id :: pystr
  aj_status :: pystr
  aj_lease_owner :: pystr
  aj_lease_expires_at :: pystr
  aj_attempts :: int
  aj_db_purged_at :: "pystr option"
  aj_intent_fingerprint_sha256 :: pystr

record PurgeResult =
  pu_status :: pystr
  pu_job_id :: pystr
  pu_db_purged_at :: pystr
  pu_counts :: "(pystr \<times> int) list"

record FailureResult =
  fa_status :: pystr
  fa_job_id :: pystr
  fa_error_code :: pystr
  fa_next_attempt_at :: "pystr option"

record RetryResult =
  rt_status :: pystr
  rt_job_id :: pystr
  rt_next_attempt_at :: "pystr option"

record FinalizeResult =
  fi_status :: pystr
  fi_job_id :: pystr
  fi_completed_at :: pystr
  fi_db_purged_at :: pystr

definition parse_request_result :: "pyobj \<Rightarrow> commit_exn + RequestResult" where
  "parse_request_result response =
     rbind (open_envelope (Some ERROR_OPERATION_CONFLICT) response) (\<lambda>envelope.
     rbind (require_fields envelope [''status'', ''job_id'', ''job_status''] [''db_purged_at'', ''completed_at'']) (\<lambda>_.
     rbind (require_text envelope ''status'') (\<lambda>status.
     rbind (malformed (status \<notin> {u ''created'', u ''replay''})) (\<lambda>_.
     rbind (require_text envelope ''job_status'') (\<lambda>job_status.
     rbind (malformed (job_status \<notin> set ACCOUNT_DELETION_STATUSES)) (\<lambda>_.
     rbind (require_uuid_text envelope ''job_id'') (\<lambda>job_id.
     rbind (optional_text envelope ''db_purged_at'') (\<lambda>purged.
     rbind (optional_text envelope ''completed_at'') (\<lambda>completed.
     Inr \<lparr>rq_status = status, rq_job_id = job_id, rq_job_status = job_status, rq_db_purged_at = purged, rq_completed_at = completed\<rparr>)))))))))"

definition parse_tombstone_result :: "pyobj \<Rightarrow> commit_exn + TombstoneStatus" where
  "parse_tombstone_result response =
     rbind (open_envelope None response) (\<lambda>envelope.
     rbind (require_fields envelope [''exists''] [''status'']) (\<lambda>_.
     (case dict_get envelope (u ''exists'') of
        PBool b \<Rightarrow> (case dict_get envelope (u ''status'') of
          PNone \<Rightarrow> Inr \<lparr>ts_exists = b, ts_status = None\<rparr>
        | PStr s \<Rightarrow> rbind (malformed (s \<notin> set ACCOUNT_DELETION_STATUSES)) (\<lambda>_. Inr \<lparr>ts_exists = b, ts_status = Some s\<rparr>)
        | _ \<Rightarrow> Inl database_error)
      | _ \<Rightarrow> Inl database_error)))"

definition parse_acquired_job :: "pyobj \<Rightarrow> pystr option \<Rightarrow> commit_exn + AcquiredJob option" where
  "parse_acquired_job response expected_user_id =
     rbind (open_envelope None response) (\<lambda>envelope.
     if dict_get envelope (u ''found'') = PBool False then
       rbind (malformed (fst ` set envelope \<noteq> {PStr (u ''found'')})) (\<lambda>_. Inr None)
     else
       rbind (require_fields envelope [''found'', ''job_id'', ''user_id'', ''user_ref_hmac_sha256'', ''operation_id'', ''status'', ''lease_owner'',
                ''lease_expires_at'', ''attempts'', ''intent_fingerprint_sha256''] [''db_purged_at'']) (\<lambda>_.
       rbind (malformed (dict_get envelope (u ''found'') \<noteq> PBool True)) (\<lambda>_.
       rbind (require_text envelope ''user_id'') (\<lambda>user_id.
       rbind (malformed (case expected_user_id of None \<Rightarrow> False | Some e \<Rightarrow> user_id \<noteq> e)) (\<lambda>_.
       rbind (require_text envelope ''status'') (\<lambda>status.
       rbind (malformed (status \<noteq> STATUS_PROCESSING)) (\<lambda>_.
       rbind (require_uuid_text envelope ''job_id'') (\<lambda>job_id.
       rbind (require_hex64 envelope ''user_ref_hmac_sha256'') (\<lambda>user_ref.
       rbind (require_uuid_text envelope ''operation_id'') (\<lambda>operation_id.
       rbind (require_text envelope ''lease_owner'') (\<lambda>lease_owner.
       rbind (require_text envelope ''lease_expires_at'') (\<lambda>lease_expires_at.
       rbind (ledger_require_int envelope ''attempts'') (\<lambda>attempts.
       rbind (optional_text envelope ''db_purged_at'') (\<lambda>purged.
       rbind (require_hex64 envelope ''intent_fingerprint_sha256'') (\<lambda>fingerprint.
       Inr (Some \<lparr>aj_job_id = job_id, aj_user_id = user_id, aj_user_ref_hmac_sha256 = user_ref, aj_operation_id = operation_id, aj_status = status,
         aj_lease_owner = lease_owner, aj_lease_expires_at = lease_expires_at, aj_attempts = attempts, aj_db_purged_at = purged,
         aj_intent_fingerprint_sha256 = fingerprint\<rparr>))))))))))))))))"

definition PURGE_COUNTS :: "string list" where
  "PURGE_COUNTS = [''outbox_events'', ''turn_requests'', ''archival_extractions'', ''memories'', ''chat_logs'', ''admission_reservations'',
     ''privacy_operations'', ''profiles'']"

fun require_ints :: "(pyobj \<times> pyobj) list \<Rightarrow> string list \<Rightarrow> commit_exn + (pystr \<times> int) list" where
  "require_ints counts [] = Inr []"
| "require_ints counts (k # ks) = rbind (ledger_require_int counts k) (\<lambda>n. rbind (require_ints counts ks) (\<lambda>rest. Inr ((u k, n) # rest)))"

definition parse_purge_result :: "pyobj \<Rightarrow> commit_exn + PurgeResult" where
  "parse_purge_result response =
     rbind (open_envelope (Some ERROR_OPERATION_CONFLICT) response) (\<lambda>envelope.
     rbind (require_fields envelope [''status'', ''job_id'', ''db_purged_at'', ''counts''] []) (\<lambda>_.
     rbind (require_text envelope ''status'') (\<lambda>status.
     rbind (malformed (status \<notin> {u ''purged'', u ''already_purged''})) (\<lambda>_.
     rbind (require_mapping (dict_get envelope (u ''counts''))) (\<lambda>counts.
     rbind (malformed (fst ` set counts \<noteq> PStr ` u ` set PURGE_COUNTS)) (\<lambda>_.
     rbind (require_ints counts PURGE_COUNTS) (\<lambda>parsed_counts.
     rbind (require_uuid_text envelope ''job_id'') (\<lambda>job_id.
     rbind (require_text envelope ''db_purged_at'') (\<lambda>purged.
     Inr \<lparr>pu_status = status, pu_job_id = job_id, pu_db_purged_at = purged, pu_counts = parsed_counts\<rparr>)))))))))"

definition parse_failure_result :: "pyobj \<Rightarrow> commit_exn + FailureResult" where
  "parse_failure_result response =
     rbind (open_envelope None response) (\<lambda>envelope.
     rbind (require_fields envelope [''status'', ''job_id'', ''error_code''] [''next_attempt_at'']) (\<lambda>_.
     rbind (require_text envelope ''status'') (\<lambda>status.
     rbind (malformed (status \<noteq> u ''failed'')) (\<lambda>_.
     rbind (require_text envelope ''error_code'') (\<lambda>error_code.
     rbind (malformed (\<not> error_code_match error_code)) (\<lambda>_.
     rbind (require_uuid_text envelope ''job_id'') (\<lambda>job_id.
     rbind (optional_text envelope ''next_attempt_at'') (\<lambda>next.
     Inr \<lparr>fa_status = u ''failed'', fa_job_id = job_id, fa_error_code = error_code, fa_next_attempt_at = next\<rparr>))))))))"

definition parse_retry_result :: "pyobj \<Rightarrow> commit_exn + RetryResult" where
  "parse_retry_result response =
     rbind (open_envelope None response) (\<lambda>envelope.
     let status = dict_get envelope (u ''status'') in
     if status = PStr (u ''retry_scheduled'') then
       rbind (require_fields envelope [''status'', ''job_id'', ''next_attempt_at''] []) (\<lambda>_.
       rbind (require_uuid_text envelope ''job_id'') (\<lambda>job_id.
       rbind (require_text envelope ''next_attempt_at'') (\<lambda>next.
       Inr \<lparr>rt_status = u ''retry_scheduled'', rt_job_id = job_id, rt_next_attempt_at = Some next\<rparr>)))
     else if status = PStr (u ''failed'') \<and> dict_get envelope (u ''error_code'') = PStr ERROR_ATTEMPTS_EXHAUSTED then
       rbind (require_fields envelope [''status'', ''job_id'', ''error_code''] [''next_attempt_at'']) (\<lambda>_.
       rbind (require_uuid_text envelope ''job_id'') (\<lambda>job_id.
       Inr \<lparr>rt_status = u ''failed'', rt_job_id = job_id, rt_next_attempt_at = None\<rparr>))
     else Inl database_error)"

definition parse_finalize_result :: "pyobj \<Rightarrow> commit_exn + FinalizeResult" where
  "parse_finalize_result response =
     rbind (open_envelope (Some ERROR_STATE_CONFLICT) response) (\<lambda>envelope.
     rbind (require_fields envelope [''status'', ''job_id'', ''completed_at'', ''db_purged_at''] []) (\<lambda>_.
     rbind (require_text envelope ''status'') (\<lambda>status.
     rbind (malformed (status \<noteq> u ''completed'')) (\<lambda>_.
     rbind (require_uuid_text envelope ''job_id'') (\<lambda>job_id.
     rbind (require_text envelope ''completed_at'') (\<lambda>completed.
     rbind (require_text envelope ''db_purged_at'') (\<lambda>purged.
     Inr \<lparr>fi_status = u ''completed'', fi_job_id = job_id, fi_completed_at = completed, fi_db_purged_at = purged\<rparr>)))))))"

definition parse_int_result :: "pyobj \<Rightarrow> commit_exn + int" where
  "parse_int_result response = (case response of PInt n \<Rightarrow> if n < 0 then Inl database_error else Inr n | _ \<Rightarrow> Inl database_error)"

section \<open>The repository\<close>

definition rpc_call :: "'w client option \<Rightarrow> string \<Rightarrow> row \<Rightarrow> 'w \<Rightarrow> (commit_exn + pyobj) \<times> 'w" where
  "rpc_call client rpc_name params w = (case client of
     None \<Rightarrow> (Inl database_error, w)
   | Some c \<Rightarrow> (case cl_rpc c (u rpc_name) params w of (None, w') \<Rightarrow> (Inl database_error, w') | (Some data, w') \<Rightarrow> (Inr data, w')))"

definition parsed :: "(pyobj \<Rightarrow> commit_exn + 'a) \<Rightarrow> (commit_exn + pyobj) \<times> 'w \<Rightarrow> (commit_exn + 'a) \<times> 'w" where
  "parsed parse rw = (rbind (fst rw) parse, snd rw)"

definition repository_request :: "'w client option \<Rightarrow> pystr \<Rightarrow> pystr \<Rightarrow> pystr \<Rightarrow> pystr \<Rightarrow> 'w \<Rightarrow> (commit_exn + RequestResult) \<times> 'w" where
  "repository_request client user_id user_ref operation_id fingerprint w = parsed parse_request_result
     (rpc_call client ''account_deletion_request'' [(u ''p_authenticated_user_id'', PStr user_id), (u ''p_user_ref_hmac_sha256'', PStr user_ref),
        (u ''p_operation_id'', PStr operation_id), (u ''p_intent_fingerprint_sha256'', PStr fingerprint)] w)"

definition repository_has_tombstone :: "'w client option \<Rightarrow> pystr \<Rightarrow> 'w \<Rightarrow> (commit_exn + TombstoneStatus) \<times> 'w" where
  "repository_has_tombstone client user_ref w = parsed parse_tombstone_result
     (rpc_call client ''account_deletion_has_tombstone'' [(u ''p_user_ref_hmac_sha256'', PStr user_ref)] w)"

definition repository_acquire_lease :: "'w client option \<Rightarrow> pystr \<Rightarrow> int \<Rightarrow> int \<Rightarrow> pystr option \<Rightarrow> 'w \<Rightarrow> (commit_exn + AcquiredJob option) \<times> 'w" where
  "repository_acquire_lease client worker_id lease_seconds max_batch expected_user_id w = parsed (\<lambda>data. parse_acquired_job data expected_user_id)
     (rpc_call client ''account_deletion_acquire_lease'' [(u ''p_worker_id'', PStr worker_id), (u ''p_lease_seconds'', PInt lease_seconds),
        (u ''p_max_batch'', PInt max_batch)] w)"

definition repository_purge :: "'w client option \<Rightarrow> pystr \<Rightarrow> pystr \<Rightarrow> pystr \<Rightarrow> 'w \<Rightarrow> (commit_exn + PurgeResult) \<times> 'w" where
  "repository_purge client job_id worker_id fingerprint w = parsed parse_purge_result
     (rpc_call client ''account_deletion_purge'' [(u ''p_job_id'', PStr job_id), (u ''p_worker_id'', PStr worker_id),
        (u ''p_intent_fingerprint_sha256'', PStr fingerprint)] w)"

definition repository_record_failure :: "'w client option \<Rightarrow> pystr \<Rightarrow> pystr \<Rightarrow> pystr option \<Rightarrow> 'w \<Rightarrow> (commit_exn + FailureResult) \<times> 'w" where
  "repository_record_failure client job_id worker_id error_code w = parsed parse_failure_result
     (rpc_call client ''account_deletion_record_failure'' [(u ''p_job_id'', PStr job_id), (u ''p_worker_id'', PStr worker_id),
        (u ''p_error_code'', (case error_code of None \<Rightarrow> PNone | Some c \<Rightarrow> PStr c))] w)"

definition repository_record_retry :: "'w client option \<Rightarrow> pystr \<Rightarrow> pystr \<Rightarrow> 'w \<Rightarrow> (commit_exn + RetryResult) \<times> 'w" where
  "repository_record_retry client job_id worker_id w = parsed parse_retry_result
     (rpc_call client ''account_deletion_record_retry'' [(u ''p_job_id'', PStr job_id), (u ''p_worker_id'', PStr worker_id)] w)"

definition repository_finalize :: "'w client option \<Rightarrow> pystr \<Rightarrow> pystr \<Rightarrow> 'w \<Rightarrow> (commit_exn + FinalizeResult) \<times> 'w" where
  "repository_finalize client job_id worker_id w = parsed parse_finalize_result
     (rpc_call client ''account_deletion_finalize'' [(u ''p_job_id'', PStr job_id), (u ''p_worker_id'', PStr worker_id)] w)"

definition repository_purge_completed :: "'w client option \<Rightarrow> pystr \<Rightarrow> int \<Rightarrow> 'w \<Rightarrow> (commit_exn + int) \<times> 'w" where
  "repository_purge_completed client cutoff batch_size w = parsed parse_int_result
     (rpc_call client ''account_deletion_purge_completed'' [(u ''p_cutoff'', PStr cutoff), (u ''p_batch_size'', PInt batch_size)] w)"

section \<open>Deleting in the authentication service\<close>

definition OUTCOME_DELETED :: pystr where "OUTCOME_DELETED = u ''deleted''"
definition OUTCOME_ALREADY_ABSENT :: pystr where "OUTCOME_ALREADY_ABSENT = u ''already_absent''"
definition OUTCOME_AUTH_ERROR :: pystr where "OUTCOME_AUTH_ERROR = u ''auth_error''"
definition ERROR_AUTH_UNAVAILABLE :: pystr where "ERROR_AUTH_UNAVAILABLE = u ''auth_unavailable''"
definition ERROR_AUTH_FORBIDDEN :: pystr where "ERROR_AUTH_FORBIDDEN = u ''auth_forbidden''"
definition ERROR_AUTH_FAILED :: pystr where "ERROR_AUTH_FAILED = u ''auth_failed''"

lemmas auth_names = OUTCOME_DELETED_def OUTCOME_ALREADY_ABSENT_def OUTCOME_AUTH_ERROR_def ERROR_AUTH_UNAVAILABLE_def ERROR_AUTH_FORBIDDEN_def
  ERROR_AUTH_FAILED_def

definition RETRYABLE_AUTH_STATUSES :: "int list" where "RETRYABLE_AUTH_STATUSES = [502, 503, 504, 520, 521, 522, 523, 524, 530]"
definition RETRYABLE_AUTH_CODES :: "pystr list" where "RETRYABLE_AUTH_CODES = map u [''over_request_rate_limit'', ''request_timeout'']"
definition AUTH_USER_NOT_FOUND :: pystr where "AUTH_USER_NOT_FOUND = u ''user_not_found''"

record AuthDeleteResult =
  ad_outcome :: pystr
  ad_error_code :: "pystr option"

text \<open>The exceptions of the SDK by the first \<open>except\<close> clause that matches; the status is kept only when it is an integer.\<close>

datatype auth_exn = AuthApiError "pystr option" "int option" | AuthRetryableError | AuthUnknownError | AuthValueError | AuthOtherError

definition auth_error :: "pystr \<Rightarrow> AuthDeleteResult" where
  "auth_error code = \<lparr>ad_outcome = OUTCOME_AUTH_ERROR, ad_error_code = Some code\<rparr>"

definition classify_auth :: "auth_exn + unit \<Rightarrow> AuthDeleteResult" where
  "classify_auth r = (case r of
     Inr _ \<Rightarrow> \<lparr>ad_outcome = OUTCOME_DELETED, ad_error_code = None\<rparr>
   | Inl (AuthApiError code status) \<Rightarrow>
       if code = Some AUTH_USER_NOT_FOUND then \<lparr>ad_outcome = OUTCOME_ALREADY_ABSENT, ad_error_code = None\<rparr>
       else if status \<in> {Some 401, Some 403} then auth_error ERROR_AUTH_FORBIDDEN
       else if code \<in> Some ` set RETRYABLE_AUTH_CODES \<or> status \<in> Some ` set RETRYABLE_AUTH_STATUSES then auth_error ERROR_AUTH_UNAVAILABLE
       else auth_error ERROR_AUTH_FAILED
   | Inl AuthValueError \<Rightarrow> auth_error ERROR_AUTH_FAILED
   | Inl _ \<Rightarrow> auth_error ERROR_AUTH_UNAVAILABLE)"

definition hard_delete :: "(pystr \<Rightarrow> 'w \<Rightarrow> (auth_exn + unit) \<times> 'w) \<Rightarrow> pystr \<Rightarrow> 'w \<Rightarrow> AuthDeleteResult \<times> 'w" where
  "hard_delete delete_user user_id w = (let (r, w') = delete_user user_id w in (classify_auth r, w'))"

section \<open>The worker\<close>

record AccountDeletionWorkerConfig =
  wc_worker_id :: pystr
  wc_lease_seconds :: int
  wc_max_batch :: int

text \<open>\<open>None\<close> is the \<open>ValueError\<close>.\<close>

definition AccountDeletionWorkerConfig_init :: "pyobj \<Rightarrow> int \<Rightarrow> int \<Rightarrow> AccountDeletionWorkerConfig option" where
  "AccountDeletionWorkerConfig_init worker_id lease_seconds max_batch = (case worker_id of
     PStr s \<Rightarrow>
       if \<not> worker_id_match s then None
       else if lease_seconds < 1 \<or> lease_seconds > 3600 then None
       else if max_batch < 1 \<or> max_batch > 1000 then None
       else Some \<lparr>wc_worker_id = s, wc_lease_seconds = lease_seconds, wc_max_batch = max_batch\<rparr>
   | _ \<Rightarrow> None)"

record WorkerRunResult =
  wr_no_work :: bool
  wr_completed :: nat
  wr_retry_scheduled :: nat
  wr_failed :: nat
  wr_lease_lost :: nat

definition empty_run :: WorkerRunResult where
  "empty_run = \<lparr>wr_no_work = False, wr_completed = 0, wr_retry_scheduled = 0, wr_failed = 0, wr_lease_lost = 0\<rparr>"

text \<open>The repository protocol and the authentication protocol the worker is given.\<close>

record 'w deletion_ports =
  dp_acquire :: "pystr \<Rightarrow> int \<Rightarrow> int \<Rightarrow> 'w \<Rightarrow> (commit_exn + AcquiredJob option) \<times> 'w"
  dp_purge :: "pystr \<Rightarrow> pystr \<Rightarrow> pystr \<Rightarrow> 'w \<Rightarrow> (commit_exn + PurgeResult) \<times> 'w"
  dp_record_failure :: "pystr \<Rightarrow> pystr \<Rightarrow> pystr option \<Rightarrow> 'w \<Rightarrow> (commit_exn + FailureResult) \<times> 'w"
  dp_record_retry :: "pystr \<Rightarrow> pystr \<Rightarrow> 'w \<Rightarrow> (commit_exn + RetryResult) \<times> 'w"
  dp_finalize :: "pystr \<Rightarrow> pystr \<Rightarrow> 'w \<Rightarrow> (commit_exn + FinalizeResult) \<times> 'w"
  dp_hard_delete :: "pystr \<Rightarrow> 'w \<Rightarrow> AuthDeleteResult \<times> 'w"

definition supabase_ports :: "'w client option \<Rightarrow> (pystr \<Rightarrow> 'w \<Rightarrow> (auth_exn + unit) \<times> 'w) \<Rightarrow> 'w deletion_ports" where
  "supabase_ports client delete_user = \<lparr>dp_acquire = (\<lambda>worker lease batch. repository_acquire_lease client worker lease batch None),
     dp_purge = repository_purge client, dp_record_failure = repository_record_failure client, dp_record_retry = repository_record_retry client,
     dp_finalize = repository_finalize client, dp_hard_delete = hard_delete delete_user\<rparr>"

text \<open>The exceptions the handlers name.\<close>

fun ledger_error :: "commit_exn \<Rightarrow> bool" where
  "ledger_error (PersistenceError c) = True"
| "ledger_error (ConflictError c) = True"
| "ledger_error (ValidationError c) = True"
| "ledger_error _ = False"

fun finalize_error :: "commit_exn \<Rightarrow> bool" where
  "finalize_error (PersistenceError c) = True"
| "finalize_error (ConflictError c) = True"
| "finalize_error _ = False"

definition record_retry :: "'w deletion_ports \<Rightarrow> AccountDeletionWorkerConfig \<Rightarrow> AcquiredJob \<Rightarrow> WorkerRunResult \<Rightarrow> 'w \<Rightarrow> (commit_exn + WorkerRunResult) \<times> 'w" where
  "record_retry P c job result w = (case dp_record_retry P (aj_job_id job) (wc_worker_id c) w of
     (Inl e, w') \<Rightarrow> ((if ledger_error e then Inr (result\<lparr>wr_lease_lost := wr_lease_lost result + 1\<rparr>) else Inl e), w')
   | (Inr retry, w') \<Rightarrow> (Inr (if rt_status retry = u ''failed'' then result\<lparr>wr_failed := wr_failed result + 1\<rparr>
                              else result\<lparr>wr_retry_scheduled := wr_retry_scheduled result + 1\<rparr>), w'))"

definition record_failure :: "'w deletion_ports \<Rightarrow> AccountDeletionWorkerConfig \<Rightarrow> AcquiredJob \<Rightarrow> WorkerRunResult \<Rightarrow> pystr option \<Rightarrow> 'w
    \<Rightarrow> (commit_exn + WorkerRunResult) \<times> 'w" where
  "record_failure P c job result error_code w = (case dp_record_failure P (aj_job_id job) (wc_worker_id c) error_code w of
     (Inl e, w') \<Rightarrow> ((if ledger_error e then Inr (result\<lparr>wr_lease_lost := wr_lease_lost result + 1\<rparr>) else Inl e), w')
   | (Inr failure, w') \<Rightarrow> (Inr (result\<lparr>wr_failed := wr_failed result + 1\<rparr>), w'))"

definition finalize_job :: "'w deletion_ports \<Rightarrow> AccountDeletionWorkerConfig \<Rightarrow> AcquiredJob \<Rightarrow> WorkerRunResult \<Rightarrow> 'w \<Rightarrow> (commit_exn + WorkerRunResult) \<times> 'w" where
  "finalize_job P c job result w = (case dp_finalize P (aj_job_id job) (wc_worker_id c) w of
     (Inl e, w') \<Rightarrow> ((if finalize_error e then Inr (result\<lparr>wr_lease_lost := wr_lease_lost result + 1\<rparr>) else Inl e), w')
   | (Inr _, w') \<Rightarrow> (Inr (result\<lparr>wr_completed := wr_completed result + 1\<rparr>), w'))"

definition delete_in_auth :: "'w deletion_ports \<Rightarrow> AccountDeletionWorkerConfig \<Rightarrow> AcquiredJob \<Rightarrow> WorkerRunResult \<Rightarrow> 'w \<Rightarrow> (commit_exn + WorkerRunResult) \<times> 'w" where
  "delete_in_auth P c job result w =
     (let (auth, w') = dp_hard_delete P (aj_user_id job) w in
      if ad_outcome auth = OUTCOME_AUTH_ERROR then
        if ad_error_code auth = Some ERROR_AUTH_UNAVAILABLE then record_retry P c job result w'
        else record_failure P c job result (ad_error_code auth) w'
      else if ad_outcome auth = OUTCOME_ALREADY_ABSENT \<or> ad_outcome auth = OUTCOME_DELETED then finalize_job P c job result w'
      else record_failure P c job result (Some ERROR_AUTH_FAILED) w')"

definition process_job :: "'w deletion_ports \<Rightarrow> AccountDeletionWorkerConfig \<Rightarrow> AcquiredJob \<Rightarrow> WorkerRunResult \<Rightarrow> 'w \<Rightarrow> (commit_exn + WorkerRunResult) \<times> 'w" where
  "process_job P c job result w =
     (if aj_db_purged_at job \<noteq> None then delete_in_auth P c job result w
      else case dp_purge P (aj_job_id job) (wc_worker_id c) (aj_intent_fingerprint_sha256 job) w of
        (Inl e, w') \<Rightarrow> ((if ledger_error e then Inr (result\<lparr>wr_failed := wr_failed result + 1\<rparr>) else Inl e), w')
      | (Inr _, w') \<Rightarrow> delete_in_auth P c job result w')"

text \<open>The loop; the flag is \<open>claimed_any\<close>.\<close>

fun run_jobs :: "'w deletion_ports \<Rightarrow> AccountDeletionWorkerConfig \<Rightarrow> nat \<Rightarrow> bool \<Rightarrow> WorkerRunResult \<Rightarrow> 'w \<Rightarrow> (commit_exn + bool \<times> WorkerRunResult) \<times> 'w" where
  "run_jobs P c 0 claimed_any result w = (Inr (claimed_any, result), w)"
| "run_jobs P c (Suc n) claimed_any result w =
     (case dp_acquire P (wc_worker_id c) (wc_lease_seconds c) (wc_max_batch c) w of
        (Inl e, w') \<Rightarrow> (Inl e, w')
      | (Inr None, w') \<Rightarrow> (Inr (claimed_any, result), w')
      | (Inr (Some job), w') \<Rightarrow> (case process_job P c job result w' of
          (Inl e, w'') \<Rightarrow> (Inl e, w'')
        | (Inr result', w'') \<Rightarrow> run_jobs P c n True result' w''))"

definition worker_run_once :: "'w deletion_ports \<Rightarrow> AccountDeletionWorkerConfig \<Rightarrow> 'w \<Rightarrow> (commit_exn + WorkerRunResult) \<times> 'w" where
  "worker_run_once P c w = (case run_jobs P c (nat (wc_max_batch c)) False empty_run w of
     (Inl e, w') \<Rightarrow> (Inl e, w')
   | (Inr (claimed_any, result), w') \<Rightarrow> (Inr (if claimed_any then result else result\<lparr>wr_no_work := True\<rparr>), w'))"

section \<open>The calls of a round\<close>

text \<open>Ports that record every call with its answer.\<close>

datatype deletion_call =
    CAcquire "commit_exn + AcquiredJob option"
  | CPurge pystr "commit_exn + PurgeResult"
  | CAuth pystr AuthDeleteResult
  | CFailure pystr "pystr option" "commit_exn + FailureResult"
  | CRetry pystr "commit_exn + RetryResult"
  | CFinalize pystr "commit_exn + FinalizeResult"

definition note_call :: "('a \<Rightarrow> deletion_call) \<Rightarrow> ('w \<Rightarrow> 'a \<times> 'w) \<Rightarrow> 'w \<times> deletion_call list \<Rightarrow> 'a \<times> 'w \<times> deletion_call list" where
  "note_call f m s = (let (r, w) = m (fst s) in (r, w, snd s @ [f r]))"

definition recorded :: "'w deletion_ports \<Rightarrow> ('w \<times> deletion_call list) deletion_ports" where
  "recorded P = \<lparr>dp_acquire = (\<lambda>i l b. note_call CAcquire (dp_acquire P i l b)),
     dp_purge = (\<lambda>j i f. note_call (CPurge j) (dp_purge P j i f)),
     dp_record_failure = (\<lambda>j i c. note_call (CFailure j c) (dp_record_failure P j i c)),
     dp_record_retry = (\<lambda>j i. note_call (CRetry j) (dp_record_retry P j i)),
     dp_finalize = (\<lambda>j i. note_call (CFinalize j) (dp_finalize P j i)),
     dp_hard_delete = (\<lambda>x. note_call (CAuth x) (dp_hard_delete P x))\<rparr>"

text \<open>The specification: what may follow the deletion in the authentication service, and the whole trace of one job.\<close>

definition after_auth :: "AcquiredJob \<Rightarrow> AuthDeleteResult \<Rightarrow> deletion_call \<Rightarrow> bool" where
  "after_auth job a call = (case call of
     CRetry j r \<Rightarrow> j = aj_job_id job \<and> ad_outcome a = OUTCOME_AUTH_ERROR \<and> ad_error_code a = Some ERROR_AUTH_UNAVAILABLE
   | CFailure j code r \<Rightarrow> j = aj_job_id job \<and>
       (if ad_outcome a = OUTCOME_AUTH_ERROR then ad_error_code a \<noteq> Some ERROR_AUTH_UNAVAILABLE \<and> code = ad_error_code a
        else ad_outcome a \<notin> {OUTCOME_ALREADY_ABSENT, OUTCOME_DELETED} \<and> code = Some ERROR_AUTH_FAILED)
   | CFinalize j r \<Rightarrow> j = aj_job_id job \<and> ad_outcome a \<in> {OUTCOME_ALREADY_ABSENT, OUTCOME_DELETED}
   | _ \<Rightarrow> False)"

definition auth_trace :: "AcquiredJob \<Rightarrow> deletion_call list \<Rightarrow> bool" where
  "auth_trace job t = (case t of [CAuth x a, call] \<Rightarrow> x = aj_user_id job \<and> after_auth job a call | _ \<Rightarrow> False)"

definition job_trace :: "AcquiredJob \<Rightarrow> deletion_call list \<Rightarrow> bool" where
  "job_trace job t =
     (if aj_db_purged_at job \<noteq> None then auth_trace job t
      else (case t of
        CPurge j (Inl e) # rest \<Rightarrow> j = aj_job_id job \<and> rest = []
      | CPurge j (Inr r) # rest \<Rightarrow> j = aj_job_id job \<and> auth_trace job rest
      | _ \<Rightarrow> False))"

text \<open>How the last call of a job counts, and when its exception leaves the round.\<close>

definition tally :: "deletion_call list \<Rightarrow> WorkerRunResult \<Rightarrow> WorkerRunResult" where
  "tally t res = (case last t of
     CFinalize j (Inr _) \<Rightarrow> res\<lparr>wr_completed := wr_completed res + 1\<rparr>
   | CRetry j (Inr retry) \<Rightarrow> if rt_status retry = u ''failed'' then res\<lparr>wr_failed := wr_failed res + 1\<rparr>
                             else res\<lparr>wr_retry_scheduled := wr_retry_scheduled res + 1\<rparr>
   | CFailure j code (Inr _) \<Rightarrow> res\<lparr>wr_failed := wr_failed res + 1\<rparr>
   | CPurge j _ \<Rightarrow> res\<lparr>wr_failed := wr_failed res + 1\<rparr>
   | _ \<Rightarrow> res\<lparr>wr_lease_lost := wr_lease_lost res + 1\<rparr>)"

definition escapes :: "deletion_call list \<Rightarrow> commit_exn option" where
  "escapes t = (case last t of
     CFinalize j (Inl e) \<Rightarrow> if finalize_error e then None else Some e
   | CRetry j (Inl e) \<Rightarrow> if ledger_error e then None else Some e
   | CFailure j code (Inl e) \<Rightarrow> if ledger_error e then None else Some e
   | CPurge j (Inl e) \<Rightarrow> if ledger_error e then None else Some e
   | _ \<Rightarrow> None)"

lemmas trace_defs = recorded_def note_call_def after_auth_def auth_trace_def job_trace_def tally_def escapes_def

definition job_outcome :: "deletion_call list \<Rightarrow> WorkerRunResult \<Rightarrow> commit_exn + WorkerRunResult" where
  "job_outcome t res = (case escapes t of Some e \<Rightarrow> Inl e | None \<Rightarrow> Inr (tally t res))"

lemma delete_in_auth_trace:
  "\<exists>t w'. delete_in_auth (recorded P) c job res (w, l) = (job_outcome t res, w', l @ t) \<and> auth_trace job t"
proof -
  obtain a w1 where a: "dp_hard_delete P (aj_user_id job) w = (a, w1)" by fastforce
  obtain rt w2 where rt: "dp_record_retry P (aj_job_id job) (wc_worker_id c) w1 = (rt, w2)" by fastforce
  obtain fa w3 where fa: "dp_record_failure P (aj_job_id job) (wc_worker_id c) (ad_error_code a) w1 = (fa, w3)" by fastforce
  obtain fb w4 where fb: "dp_record_failure P (aj_job_id job) (wc_worker_id c) (Some ERROR_AUTH_FAILED) w1 = (fb, w4)" by fastforce
  obtain fi w5 where fi: "dp_finalize P (aj_job_id job) (wc_worker_id c) w1 = (fi, w5)" by fastforce
  note steps = a rt fa fb fi
  consider "ad_outcome a = OUTCOME_AUTH_ERROR" "ad_error_code a = Some ERROR_AUTH_UNAVAILABLE"
    | "ad_outcome a = OUTCOME_AUTH_ERROR" "ad_error_code a \<noteq> Some ERROR_AUTH_UNAVAILABLE"
    | "ad_outcome a \<noteq> OUTCOME_AUTH_ERROR" "ad_outcome a \<in> {OUTCOME_ALREADY_ABSENT, OUTCOME_DELETED}"
    | "ad_outcome a \<noteq> OUTCOME_AUTH_ERROR" "ad_outcome a \<notin> {OUTCOME_ALREADY_ABSENT, OUTCOME_DELETED}" by blast
  then show ?thesis
  proof cases
    case 1
    then show ?thesis using a rt
      by (intro exI [of _ "[CAuth (aj_user_id job) a, CRetry (aj_job_id job) rt]"] exI [of _ w2])
        (cases rt; simp add: delete_in_auth_def record_retry_def trace_defs job_outcome_def)
  next
    case 2
    then show ?thesis using a fa
      by (intro exI [of _ "[CAuth (aj_user_id job) a, CFailure (aj_job_id job) (ad_error_code a) fa]"] exI [of _ w3])
        (cases fa; simp add: delete_in_auth_def record_failure_def trace_defs job_outcome_def)
  next
    case 3
    then show ?thesis using a fi
      by (intro exI [of _ "[CAuth (aj_user_id job) a, CFinalize (aj_job_id job) fi]"] exI [of _ w5])
        (cases fi; auto simp: delete_in_auth_def finalize_job_def trace_defs job_outcome_def)
  next
    case 4
    then show ?thesis using a fb
      by (intro exI [of _ "[CAuth (aj_user_id job) a, CFailure (aj_job_id job) (Some ERROR_AUTH_FAILED) fb]"] exI [of _ w4])
        (cases fb; simp add: delete_in_auth_def record_failure_def trace_defs job_outcome_def)
  qed
qed

lemma last_outcome:
  assumes "t \<noteq> []"
  shows "job_outcome (x # t) res = job_outcome t res"
proof -
  have "last (x # t) = last t" using assms by simp
  then show ?thesis by (simp only: job_outcome_def escapes_def tally_def)
qed

lemma auth_trace_nonempty: "auth_trace job t \<Longrightarrow> t \<noteq> []"
  by (auto simp: auth_trace_def)

lemma process_job_trace:
  "\<exists>t w'. process_job (recorded P) c job res (w, l) = (job_outcome t res, w', l @ t) \<and> job_trace job t"
proof (cases "aj_db_purged_at job")
  case (Some x)
  then show ?thesis using delete_in_auth_trace [of P c job res w l] by (simp add: process_job_def job_trace_def)
next
  case None
  obtain r w1 where r: "dp_purge P (aj_job_id job) (wc_worker_id c) (aj_intent_fingerprint_sha256 job) w = (r, w1)" by fastforce
  show ?thesis
  proof (cases r)
    case (Inl e)
    then show ?thesis using r None
      by (intro exI [of _ "[CPurge (aj_job_id job) r]"] exI [of _ w1]) (simp add: process_job_def trace_defs job_outcome_def)
  next
    case (Inr p)
    obtain t w2 where t: "delete_in_auth (recorded P) c job res (w1, l @ [CPurge (aj_job_id job) r]) = (job_outcome t res, w2, (l @ [CPurge (aj_job_id job) r]) @ t)"
      "auth_trace job t" using delete_in_auth_trace [of P c job res w1 "l @ [CPurge (aj_job_id job) r]"] by blast
    have "process_job (recorded P) c job res (w, l) = delete_in_auth (recorded P) c job res (w1, l @ [CPurge (aj_job_id job) r])"
      using r Inr None by (simp add: process_job_def recorded_def note_call_def)
    then show ?thesis using t Inr None last_outcome [OF auth_trace_nonempty [OF t(2)]]
      by (intro exI [of _ "CPurge (aj_job_id job) r # t"] exI [of _ w2]) (simp add: job_trace_def)
  qed
qed

text \<open>A round: the jobs that were claimed with their traces, and the call that ended it.\<close>

definition claims :: "(AcquiredJob \<times> deletion_call list) list \<Rightarrow> deletion_call list" where
  "claims js = concat (map (\<lambda>(job, t). CAcquire (Inr (Some job)) # t) js)"

definition round_end :: "nat \<Rightarrow> WorkerRunResult \<Rightarrow> (AcquiredJob \<times> deletion_call list) list \<Rightarrow> deletion_call list \<Rightarrow> commit_exn + WorkerRunResult \<Rightarrow> bool" where
  "round_end n res js rest r = (case r of
     Inr res' \<Rightarrow> res' = fold tally (map snd js) res \<and> list_all (\<lambda>(job, t). escapes t = None) js
       \<and> (if length js = n then rest = [] else rest = [CAcquire (Inr None)])
   | Inl e \<Rightarrow> (if rest = [] then js \<noteq> [] \<and> escapes (snd (last js)) = Some e else rest = [CAcquire (Inl e)]))"

definition round_result :: "commit_exn + bool \<times> WorkerRunResult \<Rightarrow> commit_exn + WorkerRunResult" where
  "round_result r = (case r of Inl e \<Rightarrow> Inl e | Inr (b, x) \<Rightarrow> Inr x)"

lemma round_result_simps [simp]: "round_result (Inl e) = Inl e" "round_result (Inr (b, x)) = Inr x"
  by (simp_all add: round_result_def)

lemma run_jobs_trace:
  "\<exists>js rest w' r. run_jobs (recorded P) c n b res (w, l) = (r, w', l @ claims js @ rest) \<and> length js \<le> n
     \<and> list_all (\<lambda>(job, t). job_trace job t) js \<and> round_end n res js rest (round_result r) \<and> (\<forall>b' x. r = Inr (b', x) \<longrightarrow> b' = (b \<or> js \<noteq> []))"
proof (induction n arbitrary: b res w l)
  case 0
  show ?case by (intro exI [of _ "[]"]) (simp add: claims_def round_end_def with_error_def)
next
  case (Suc n)
  obtain r w1 where r: "dp_acquire P (wc_worker_id c) (wc_lease_seconds c) (wc_max_batch c) w = (r, w1)" by fastforce
  let ?l = "l @ [CAcquire r]"
  have acq: "dp_acquire (recorded P) (wc_worker_id c) (wc_lease_seconds c) (wc_max_batch c) (w, l) = (r, w1, ?l)"
    using r by (simp add: recorded_def note_call_def)
  consider e where "r = Inl e" | "r = Inr None" | job where "r = Inr (Some job)" by (metis sum.exhaust not_None_eq)
  then show ?case
  proof cases
    case 1
    then show ?thesis using acq by (intro exI [of _ "[]"] exI [of _ "[CAcquire r]"]) (simp add: claims_def round_end_def with_error_def)
  next
    case 2
    then show ?thesis using acq by (intro exI [of _ "[]"] exI [of _ "[CAcquire r]"]) (simp add: claims_def round_end_def with_error_def)
  next
    case 3
    obtain t w2 where t: "process_job (recorded P) c job res (w1, ?l) = (job_outcome t res, w2, ?l @ t)" "job_trace job t"
      using process_job_trace [of P c job res w1 ?l] by blast
    show ?thesis
    proof (cases "escapes t")
      case (Some e)
      then show ?thesis using 3 acq t
        by (intro exI [of _ "[(job, t)]"] exI [of _ "[]"]) (simp add: claims_def round_end_def job_outcome_def with_error_def)
    next
      case None
      obtain js rest w' r' where ih: "run_jobs (recorded P) c n True (tally t res) (w2, ?l @ t) = (r', w', (?l @ t) @ claims js @ rest)" "length js \<le> n"
        "list_all (\<lambda>(job, t). job_trace job t) js" "round_end n (tally t res) js rest (round_result r')"
        "\<forall>b' x. r' = Inr (b', x) \<longrightarrow> b' = (True \<or> js \<noteq> [])" using Suc.IH [of True "tally t res" w2 "?l @ t"] by blast
      have "run_jobs (recorded P) c (Suc n) b res (w, l) = (r', w', l @ claims ((job, t) # js) @ rest)"
        using 3 acq t None ih(1) by (simp add: job_outcome_def claims_def)
      moreover have "round_end (Suc n) res ((job, t) # js) rest (round_result r')"
        using ih(4) None by (auto simp: round_end_def split: sum.splits)
      ultimately show ?thesis using ih(2,3,5) t(2) by (intro exI [of _ "(job, t) # js"] exI [of _ rest] exI [of _ w'] exI [of _ r']) auto
    qed
  qed
qed

lemma fold_tally_no_work: "fold tally ts (res\<lparr>wr_no_work := b\<rparr>) = (fold tally ts res)\<lparr>wr_no_work := b\<rparr>"
proof (induction ts arbitrary: res)
  case (Cons t ts)
  have "tally t (res\<lparr>wr_no_work := b\<rparr>) = (tally t res)\<lparr>wr_no_work := b\<rparr>"
    by (simp add: tally_def split: deletion_call.split sum.split)
  then show ?case using Cons.IH by simp
qed simp

definition run_end :: "bool \<Rightarrow> commit_exn + WorkerRunResult \<Rightarrow> commit_exn + WorkerRunResult" where
  "run_end b r = (case r of Inl e \<Rightarrow> Inl e | Inr res \<Rightarrow> Inr (if b then res\<lparr>wr_no_work := True\<rparr> else res))"

lemma empty_run_no_work: "empty_run\<lparr>wr_no_work := False\<rparr> = empty_run"
  by (simp add: empty_run_def)

lemma fold_tally_run_end: "fold tally ts (empty_run\<lparr>wr_no_work := b\<rparr>) = (if b then (fold tally ts empty_run)\<lparr>wr_no_work := True\<rparr> else fold tally ts empty_run)"
proof (cases b)
  case True
  then show ?thesis by (simp only: fold_tally_no_work if_True)
next
  case False
  then show ?thesis by (simp only: empty_run_no_work if_False)
qed

lemma round_end_no_work:
  assumes "round_end n empty_run js rest r"
  shows "round_end n (empty_run\<lparr>wr_no_work := b\<rparr>) js rest (run_end b r)"
  using assms unfolding round_end_def run_end_def fold_tally_run_end by (cases r; cases b) simp_all

text \<open>An error envelope of the finalizing procedure other than a conflict of states leaves the round: the handler does not name the validation error.\<close>

lemma finalize_error_leaves_round:
  assumes "cl_rpc cl (u ''account_deletion_finalize'') [(u ''p_job_id'', PStr (aj_job_id job)), (u ''p_worker_id'', PStr (wc_worker_id c))] w
      = (Some (PDict [(PStr (u ''error''), PDict [(PStr (u ''code''), PStr (u ''validation_failed'')), (PStr (u ''message''), PStr (u ''no such job''))])]), w')"
  shows "finalize_job (supabase_ports (Some cl) delete_user) c job result w = (Inl (ValidationError ERROR_VALIDATION_FAILED), w')"
  using assms by (simp add: finalize_job_def supabase_ports_def repository_finalize_def parsed_def rpc_call_def parse_finalize_result_def open_envelope_def
      require_mapping_def has_key_def ledger_parse_error_envelope_def malformed_def dict_get_Cons require_text_def ERROR_STATE_CONFLICT_def
      ERROR_VALIDATION_FAILED_def insert_commute)

section \<open>Properties\<close>


end
