(* ===== verification/Py_Datetime.thy ===== *)
theory Py_Datetime
  imports Py_Text
begin

text \<open>The part of the \<open>datetime\<close> module the services use: instants in UTC from a time stamp, and their text.\<close>

text \<open>An aware UTC \<open>datetime\<close> is the number of microseconds since the epoch; the years 1 to 9999 exist.\<close>

definition datetime_ok :: "int \<Rightarrow> bool" where
  "datetime_ok m \<longleftrightarrow> - 62135596800000000 \<le> m \<and> m < 253402300800000000"

text \<open>\<open>datetime.fromtimestamp\<close> splits the float towards zero and rounds the fraction to microseconds, ties to even; \<open>None\<close> when it raises.\<close>

definition fromtimestamp :: "pyfloat \<Rightarrow> int option" where
  "fromtimestamp t = (case t of
     Fin x \<Rightarrow> (let whole = (if 0 \<le> x then \<lfloor>x\<rfloor> else \<lceil>x\<rceil>); m = whole * 1000000 + rne (fmul (x - of_int whole) 1000000)
               in if datetime_ok m then Some m else None)
   | _ \<Rightarrow> None)"

text \<open>The calendar of \<open>datetime\<close>: year, month and day of an ordinal, where 1 is the first of January of year 1.\<close>

definition days_in_month :: "int list" where "days_in_month = [0, 31, 28, 31, 30, 31, 30, 31, 31, 30, 31, 30, 31]"
definition days_before_month :: "int list" where "days_before_month = [0, 0, 31, 59, 90, 120, 151, 181, 212, 243, 273, 304, 334]"

definition ord2ymd :: "int \<Rightarrow> int \<times> int \<times> int" where
  "ord2ymd ordinal =
     (let n = ordinal - 1; n400 = n div 146097; n = n mod 146097; n100 = n div 36524; n = n mod 36524;
          n4 = n div 1461; n = n mod 1461; n1 = n div 365; n = n mod 365;
          year = n400 * 400 + 1 + n100 * 100 + n4 * 4 + n1
      in if n1 = 4 \<or> n100 = 4 then (year - 1, 12, 31)
         else let leap = (n1 = 3 \<and> (n4 \<noteq> 24 \<or> n100 = 3)); month = (n + 50) div 32;
                  preceding = days_before_month ! nat month + (if month > 2 \<and> leap then 1 else 0)
              in if preceding > n then
                   let month = month - 1; preceding = preceding - (days_in_month ! nat month + (if month = 2 \<and> leap then 1 else 0)) in (year, month, n - preceding + 1)
                 else (year, month, n - preceding + 1))"

definition zero_pad :: "nat \<Rightarrow> int \<Rightarrow> pystr" where
  "zero_pad k n = (let s = dec_nat (nat n) in replicate (k - length s) 48 @ s)"

definition isoformat :: "int \<Rightarrow> pystr" where
  "isoformat m =
     (let (year, month, day) = ord2ymd (m div 86400000000 + 719163); micros = m mod 1000000; seconds = m mod 86400000000 div 1000000 in
      zero_pad 4 year @ u ''-'' @ zero_pad 2 month @ u ''-'' @ zero_pad 2 day @ u ''T''
      @ zero_pad 2 (seconds div 3600) @ u '':'' @ zero_pad 2 (seconds div 60 mod 60) @ u '':'' @ zero_pad 2 (seconds mod 60)
      @ (if micros = 0 then [] else u ''.'' @ zero_pad 6 micros) @ u ''+00:00'')"

end
