(* ===== verification/Retention.thy ===== *)
theory Retention
  imports Service_Calls Py_Datetime
begin

text \<open>
  The retention of operational data: the versioned policy with the instants before which rows are purged (\<open>retention_policy.py\<close>) and the runner
  that purges each category in bounded batches (\<open>retention.py\<close>).  The loop over the batches is a partial function of the option monad: \<open>None\<close>
  would be a loop that never ends.
\<close>

section \<open>The policy\<close>

definition RETENTION_POLICY_SCHEMA_VERSION :: int where "RETENTION_POLICY_SCHEMA_VERSION = 1"
definition RETENTION_MAX_BATCH_SIZE :: int where "RETENTION_MAX_BATCH_SIZE = 1000"
definition OUTBOX_FINAL_STATUSES :: "pystr list" where "OUTBOX_FINAL_STATUSES = map u [''completed'', ''dead_letter'']"
definition OUTBOX_ACTIVE_STATUSES :: "pystr list" where "OUTBOX_ACTIVE_STATUSES = map u [''pending'', ''processing'', ''failed'']"

datatype RetentionCategory = ADMISSION_RESERVATIONS | PRIVACY_OPERATIONS | OUTBOX_EVENTS

fun category_value :: "RetentionCategory \<Rightarrow> pystr" where
  "category_value ADMISSION_RESERVATIONS = u ''admission_reservations''"
| "category_value PRIVACY_OPERATIONS = u ''privacy_operations''"
| "category_value OUTBOX_EVENTS = u ''outbox_events''"

text \<open>A \<open>timedelta\<close> is a number of microseconds.\<close>

definition DEFAULT_ADMISSION_HORIZON :: int where "DEFAULT_ADMISSION_HORIZON = 24 * 3600 * 1000000"
definition DEFAULT_PRIVACY_OPERATIONS_HORIZON :: int where "DEFAULT_PRIVACY_OPERATIONS_HORIZON = 30 * 86400 * 1000000"

record RetentionPolicy =
  rp_schema_version :: int
  rp_admission_horizon :: int
  rp_privacy_horizon :: int

definition default_retention_policy :: RetentionPolicy where
  "default_retention_policy = \<lparr>rp_schema_version = RETENTION_POLICY_SCHEMA_VERSION, rp_admission_horizon = DEFAULT_ADMISSION_HORIZON,
     rp_privacy_horizon = DEFAULT_PRIVACY_OPERATIONS_HORIZON\<rparr>"

datatype retention_exn = RetentionValueError | RetentionDateError | RetentionOverflowError | RetentionFailed "commit_exn turn_exn"

definition compute_cutoff :: "pyfloat \<Rightarrow> int \<Rightarrow> retention_exn + int" where
  "compute_cutoff now_epoch horizon = (case fromtimestamp now_epoch of
     None \<Rightarrow> Inl RetentionDateError
   | Some m \<Rightarrow> if datetime_ok (m - horizon) then Inr (m - horizon) else Inl RetentionDateError)"

definition retention_cutoffs :: "pyfloat \<Rightarrow> RetentionPolicy option \<Rightarrow> retention_exn + (RetentionCategory \<times> pystr) list" where
  "retention_cutoffs now_epoch policy =
     (let effective = (case policy of None \<Rightarrow> default_retention_policy | Some p \<Rightarrow> p) in
      rbind (compute_cutoff now_epoch (rp_admission_horizon effective)) (\<lambda>a.
      rbind (compute_cutoff now_epoch (rp_privacy_horizon effective)) (\<lambda>p.
      (case fromtimestamp now_epoch of
         None \<Rightarrow> Inl RetentionDateError
       | Some m \<Rightarrow> Inr [(ADMISSION_RESERVATIONS, isoformat a), (PRIVACY_OPERATIONS, isoformat p), (OUTBOX_EVENTS, isoformat m)]))))"

section \<open>The configuration\<close>

definition DEFAULT_RETENTION_BATCH_SIZE :: int where "DEFAULT_RETENTION_BATCH_SIZE = 500"
definition DEFAULT_RETENTION_MAX_ROWS_PER_CATEGORY :: int where "DEFAULT_RETENTION_MAX_ROWS_PER_CATEGORY = 10000"
definition DEFAULT_RETENTION_ROUND_TIMEOUT_SECONDS :: rat where "DEFAULT_RETENTION_ROUND_TIMEOUT_SECONDS = 300"

record RetentionConfig =
  rc_batch_size :: int
  rc_max_rows_per_category :: int
  rc_round_timeout_seconds :: pyobj

fun positive_timeout :: "pyobj \<Rightarrow> bool" where
  "positive_timeout (PInt n) = (0 < n)"
| "positive_timeout (PFloat (Fin x)) = (0 < x)"
| "positive_timeout (PFloat PosInf) = True"
| "positive_timeout _ = False"

definition RetentionConfig_init :: "pyobj \<Rightarrow> pyobj \<Rightarrow> pyobj \<Rightarrow> retention_exn + RetentionConfig" where
  "RetentionConfig_init batch_size max_rows_per_category round_timeout_seconds = (case batch_size of
     PInt batch \<Rightarrow>
       rbind (guard (1 \<le> batch \<and> batch \<le> RETENTION_MAX_BATCH_SIZE) RetentionValueError) (\<lambda>_.
       (case max_rows_per_category of
          PInt rows \<Rightarrow>
            rbind (guard (\<not> rows < batch) RetentionValueError) (\<lambda>_.
            rbind (guard (positive_timeout round_timeout_seconds) RetentionValueError) (\<lambda>_.
            Inr \<lparr>rc_batch_size = batch, rc_max_rows_per_category = rows, rc_round_timeout_seconds = round_timeout_seconds\<rparr>))
        | _ \<Rightarrow> Inl RetentionValueError))
   | _ \<Rightarrow> Inl RetentionValueError)"

definition RetentionConfig_default :: "retention_exn + RetentionConfig" where
  "RetentionConfig_default = RetentionConfig_init (PInt DEFAULT_RETENTION_BATCH_SIZE) (PInt DEFAULT_RETENTION_MAX_ROWS_PER_CATEGORY)
     (flt DEFAULT_RETENTION_ROUND_TIMEOUT_SECONDS)"

record CategoryResult =
  cr_category :: pystr
  cr_purged :: int
  cr_batches :: nat

record RetentionRunResult =
  rr_schema_version :: int
  rr_results :: "(pystr \<times> CategoryResult) list"
  rr_total_purged :: int

definition RetentionRunResult_build :: "int \<Rightarrow> CategoryResult list \<Rightarrow> RetentionRunResult" where
  "RetentionRunResult_build version results = \<lparr>rr_schema_version = version,
     rr_results = foldl (\<lambda>d r. AList.update (cr_category r) r d) [] results, rr_total_purged = sum_list (map cr_purged results)\<rparr>"

section \<open>The repository\<close>

record 'w retention_repository =
  re_admission :: "pystr \<Rightarrow> int \<Rightarrow> 'w \<Rightarrow> (commit_exn turn_exn + int) \<times> 'w"
  re_privacy :: "pystr \<Rightarrow> int \<Rightarrow> 'w \<Rightarrow> (commit_exn turn_exn + int) \<times> 'w"
  re_outbox :: "pystr \<Rightarrow> int \<Rightarrow> 'w \<Rightarrow> (commit_exn turn_exn + int) \<times> 'w"

definition purge_fn :: "'w retention_repository \<Rightarrow> RetentionCategory \<Rightarrow> pystr \<Rightarrow> int \<Rightarrow> 'w \<Rightarrow> (commit_exn turn_exn + int) \<times> 'w" where
  "purge_fn R category = (case category of ADMISSION_RESERVATIONS \<Rightarrow> re_admission R | PRIVACY_OPERATIONS \<Rightarrow> re_privacy R | OUTBOX_EVENTS \<Rightarrow> re_outbox R)"

definition retention_RPC_NAMES :: "RetentionCategory \<Rightarrow> pystr" where
  "retention_RPC_NAMES category = (case category of ADMISSION_RESERVATIONS \<Rightarrow> u ''purge_admission_reservations''
     | PRIVACY_OPERATIONS \<Rightarrow> u ''purge_privacy_operations'' | OUTBOX_EVENTS \<Rightarrow> u ''purge_outbox_events'')"

text \<open>The strict reading of the answer: a bare count, the count under the name of the procedure, or the only integer of the row.\<close>

definition purged_count :: "pystr \<Rightarrow> pyobj \<Rightarrow> int option" where
  "purged_count rpc_name answer = (case (case answer of PList xs \<Rightarrow> (case xs of [x] \<Rightarrow> Some x | _ \<Rightarrow> None) | _ \<Rightarrow> Some answer) of
     Some (PInt n) \<Rightarrow> if n < 0 then None else Some n
   | Some (PDict d) \<Rightarrow>
       (case (if dict_get d rpc_name = PNone then (case filter is_int (map snd d) of [v] \<Rightarrow> Some v | _ \<Rightarrow> None) else Some (dict_get d rpc_name)) of
          Some (PInt n) \<Rightarrow> if n < 0 then None else Some n
        | _ \<Rightarrow> None)
   | _ \<Rightarrow> None)"

definition SupabaseRetentionRepository_call :: "'w client option \<Rightarrow> pystr \<Rightarrow> row \<Rightarrow> 'w \<Rightarrow> (commit_exn turn_exn + int) \<times> 'w" where
  "SupabaseRetentionRepository_call client rpc_name params w = (case client of
     None \<Rightarrow> (Inl (Raised database_error), w)
   | Some c \<Rightarrow> (let (data, w') = cl_rpc c rpc_name params w in
       ((case Option.bind data (purged_count rpc_name) of None \<Rightarrow> Inl (Raised database_error) | Some n \<Rightarrow> Inr n), w')))"

definition SupabaseRetentionRepository :: "'w client option \<Rightarrow> 'w retention_repository" where
  "SupabaseRetentionRepository client =
     (let purge = (\<lambda>category cutoff batch_size. SupabaseRetentionRepository_call client (retention_RPC_NAMES category)
                     [(u ''p_cutoff'', PStr cutoff), (u ''p_batch_size'', PInt batch_size)])
      in \<lparr>re_admission = purge ADMISSION_RESERVATIONS, re_privacy = purge PRIVACY_OPERATIONS, re_outbox = purge OUTBOX_EVENTS\<rparr>)"

section \<open>The runner\<close>

text \<open>The deadline is \<open>None\<close> when the timeout is infinite.\<close>

definition round_deadline :: "rat \<Rightarrow> pyobj \<Rightarrow> retention_exn + rat option" where
  "round_deadline now timeout = (case py_float timeout of
     Some (Fin x) \<Rightarrow> Inr (Some (fadd now x))
   | Some _ \<Rightarrow> Inr None
   | None \<Rightarrow> Inl RetentionOverflowError)"

definition deadline_spent :: "rat option \<Rightarrow> rat \<Rightarrow> bool" where
  "deadline_spent deadline now = (case deadline of None \<Rightarrow> False | Some d \<Rightarrow> remaining \<lparr>tb_deadline = d, tb_reserve = 0\<rparr> now \<le> 0)"

fun is_persistence_error :: "commit_exn \<Rightarrow> bool" where
  "is_persistence_error (PersistenceError c) = True"
| "is_persistence_error _ = False"

text \<open>One turn of the loop: the two readings of the clock only serve the event that is logged.\<close>

definition purge_batch :: "'w service_ports \<Rightarrow> rat option \<Rightarrow> ('w \<Rightarrow> (commit_exn turn_exn + int) \<times> 'w) \<Rightarrow> 'w \<Rightarrow> (commit_exn turn_exn + int) \<times> 'w" where
  "purge_batch P deadline purge w =
     (let (started_at, w1) = sv_monotonic P w in
      (case awaited_write P (deadline_spent deadline) is_persistence_error purge w1 of
         (Inl e, w2) \<Rightarrow> (Inl e, w2)
       | (Inr purged, w2) \<Rightarrow> (let (ended_at, w3) = sv_monotonic P w2 in (Inr purged, w3))))"

partial_function (option) purge_loop ::
    "'w service_ports \<Rightarrow> rat option \<Rightarrow> ('w \<Rightarrow> (commit_exn turn_exn + int) \<times> 'w) \<Rightarrow> RetentionConfig \<Rightarrow> int \<Rightarrow> nat \<Rightarrow> 'w
     \<Rightarrow> ((commit_exn turn_exn + int \<times> nat) \<times> 'w) option" where
  "purge_loop P deadline purge c total_rows batches w =
     (if total_rows < rc_max_rows_per_category c then
        (case purge_batch P deadline purge w of
           (Inl e, w') \<Rightarrow> Some (Inl e, w')
         | (Inr purged, w') \<Rightarrow>
             if purged < rc_batch_size c then Some (Inr (total_rows + purged, batches + 1), w')
             else purge_loop P deadline purge c (total_rows + purged) (batches + 1) w')
      else Some (Inr (total_rows, batches), w))"

definition purge_category ::
    "'w service_ports \<Rightarrow> RetentionConfig \<Rightarrow> RetentionCategory \<Rightarrow> ('w \<Rightarrow> (commit_exn turn_exn + int) \<times> 'w) \<Rightarrow> 'w
     \<Rightarrow> ((retention_exn + CategoryResult) \<times> 'w) option" where
  "purge_category P c category purge w =
     (let (now, w1) = sv_monotonic P w in
      (case round_deadline now (rc_round_timeout_seconds c) of
         Inl e \<Rightarrow> Some (Inl e, w1)
       | Inr deadline \<Rightarrow> map_option (\<lambda>(r, w'). ((case r of
             Inl e \<Rightarrow> Inl (RetentionFailed e)
           | Inr (total_rows, batches) \<Rightarrow> Inr \<lparr>cr_category = category_value category, cr_purged = total_rows, cr_batches = batches\<rparr>), w'))
           (purge_loop P deadline purge c 0 0 w1)))"

fun purge_categories ::
    "'w service_ports \<Rightarrow> RetentionConfig \<Rightarrow> 'w retention_repository \<Rightarrow> (RetentionCategory \<times> pystr) list \<Rightarrow> 'w
     \<Rightarrow> ((retention_exn + CategoryResult list) \<times> 'w) option" where
  "purge_categories P c R [] w = Some (Inr [], w)"
| "purge_categories P c R ((category, cutoff) # rest) w =
     (case purge_category P c category (purge_fn R category cutoff (rc_batch_size c)) w of
        None \<Rightarrow> None
      | Some (Inl e, w') \<Rightarrow> Some (Inl e, w')
      | Some (Inr result, w') \<Rightarrow> (case purge_categories P c R rest w' of
          None \<Rightarrow> None
        | Some (Inl e, w'') \<Rightarrow> Some (Inl e, w'')
        | Some (Inr results, w'') \<Rightarrow> Some (Inr (result # results), w'')))"

definition retention_run_once ::
    "'w service_ports \<Rightarrow> 'w retention_repository \<Rightarrow> RetentionPolicy \<Rightarrow> RetentionConfig \<Rightarrow> 'w \<Rightarrow> ((retention_exn + RetentionRunResult) \<times> 'w) option" where
  "retention_run_once P R policy c w =
     (let (now, w1) = sv_clock P w in
      (case retention_cutoffs now (Some policy) of
         Inl e \<Rightarrow> Some (Inl e, w1)
       | Inr cutoffs \<Rightarrow> map_option (\<lambda>(r, w'). ((case r of Inl e \<Rightarrow> Inl e
             | Inr results \<Rightarrow> Inr (RetentionRunResult_build (rp_schema_version policy) results)), w'))
           (purge_categories P c R cutoffs w1)))"

section \<open>The calls of a round\<close>

text \<open>Ports on a world that also keeps a list, and a repository that notes each answer there.\<close>

type_synonym purge_call = "RetentionCategory \<times> (commit_exn turn_exn + int)"

definition beside :: "('w \<Rightarrow> 'a \<times> 'w) \<Rightarrow> 'w \<times> 'l \<Rightarrow> 'a \<times> 'w \<times> 'l" where
  "beside m s = (let (x, w) = m (fst s) in (x, w, snd s))"

definition service_beside :: "'w service_ports \<Rightarrow> ('w \<times> 'l) service_ports" where
  "service_beside P = \<lparr>sv_monotonic = beside (sv_monotonic P), sv_clock = beside (sv_clock P), sv_cancelled = beside (sv_cancelled P), sv_client = None\<rparr>"

definition noting :: "RetentionCategory \<Rightarrow> ('w \<Rightarrow> (commit_exn turn_exn + int) \<times> 'w) \<Rightarrow> 'w \<times> purge_call list
    \<Rightarrow> (commit_exn turn_exn + int) \<times> 'w \<times> purge_call list" where
  "noting category m s = (let (x, w) = m (fst s) in (x, w, snd s @ [(category, x)]))"

definition noted_repository :: "'w retention_repository \<Rightarrow> ('w \<times> purge_call list) retention_repository" where
  "noted_repository R = \<lparr>re_admission = (\<lambda>cutoff n. noting ADMISSION_RESERVATIONS (re_admission R cutoff n)),
     re_privacy = (\<lambda>cutoff n. noting PRIVACY_OPERATIONS (re_privacy R cutoff n)), re_outbox = (\<lambda>cutoff n. noting OUTBOX_EVENTS (re_outbox R cutoff n))\<rparr>"

lemma purge_fn_noted: "purge_fn (noted_repository R) category cutoff n = noting category (purge_fn R category cutoff n)"
  by (cases category) (simp_all add: purge_fn_def noted_repository_def)

lemma purge_batch_noted:
  obtains (refused) e w' where "purge_batch (service_beside P) deadline (noting k f) (w, l) = (Inl e, w', l)"
  | (failed) e x w' where "purge_batch (service_beside P) deadline (noting k f) (w, l) = (Inl e, w', l @ [(k, x)])"
  | (answered) n w' where "purge_batch (service_beside P) deadline (noting k f) (w, l) = (Inr n, w', l @ [(k, Inr n)])"
proof -
  obtain t w1 where m: "sv_monotonic P w = (t, w1)" by fastforce
  obtain t' w2 where m': "sv_monotonic P w1 = (t', w2)" by fastforce
  obtain x w3 where f: "f w2 = (x, w3)" by fastforce
  obtain b w4 where b: "sv_cancelled P w3 = (b, w4)" by fastforce
  obtain t'' w5 where m'': "sv_monotonic P w4 = (t'', w5)" by fastforce
  note d = purge_batch_def awaited_write_def service_beside_def beside_def noting_def m m' f b m''
  show thesis
  proof (cases "deadline_spent deadline t'")
    case True
    then show thesis by (intro refused) (simp add: d)
  next
    case False
    show thesis
    proof (cases "classify_write is_persistence_error b (worker_end_of x)")
      case (Inl e)
      then show thesis using False by (intro failed) (simp add: d)
    next
      case (Inr n)
      then have "x = Inr n" by (cases x) (auto simp: classify_write_def worker_end_of_def split: if_splits turn_exn.splits)
      then show thesis using False Inr by (intro answered) (simp add: d)
    qed
  qed
qed

text \<open>
  The specification of one category that starts with \<open>start\<close> rows counted: every answer but the last is a full batch, the loop only goes on below
  the bound, and a result counts all answers.
\<close>

definition purge_trace :: "RetentionConfig \<Rightarrow> int \<Rightarrow> (commit_exn turn_exn + int) list \<Rightarrow> (commit_exn turn_exn + int \<times> nat) \<Rightarrow> nat \<Rightarrow> bool" where
  "purge_trace c start xs r batches \<longleftrightarrow>
     (xs \<noteq> [] \<longrightarrow> start + (int (length xs) - 1) * rc_batch_size c < rc_max_rows_per_category c)
   \<and> (\<forall>x \<in> set (butlast xs). \<exists>n. x = Inr n \<and> rc_batch_size c \<le> n)
   \<and> (\<forall>rows k. r = Inr (rows, k) \<longrightarrow> (\<exists>ns. xs = map Inr ns \<and> rows = start + sum_list ns \<and> k = batches + length ns
        \<and> (rc_max_rows_per_category c \<le> rows \<or> ns \<noteq> [] \<and> last ns < rc_batch_size c)))"

lemma purge_trace_step:
  assumes "purge_trace c (start + n) xs r (batches + 1)" "rc_batch_size c \<le> n" "start < rc_max_rows_per_category c"
  shows "purge_trace c start (Inr n # xs) r batches"
proof -
  have t: "xs \<noteq> [] \<Longrightarrow> start + n + (int (length xs) - 1) * rc_batch_size c < rc_max_rows_per_category c"
    "\<forall>x \<in> set (butlast xs). \<exists>n. x = Inr n \<and> rc_batch_size c \<le> n"
    "\<And>rows k. r = Inr (rows, k) \<Longrightarrow> \<exists>ns. xs = map Inr ns \<and> rows = start + n + sum_list ns \<and> k = batches + 1 + length ns
        \<and> (rc_max_rows_per_category c \<le> rows \<or> ns \<noteq> [] \<and> last ns < rc_batch_size c)"
    using assms(1) unfolding purge_trace_def by simp_all
  have "(int (length (Inr n # xs)) - 1) * rc_batch_size c = rc_batch_size c + (int (length xs) - 1) * rc_batch_size c" by (simp add: algebra_simps)
  then have 1: "start + (int (length (Inr n # xs)) - 1) * rc_batch_size c < rc_max_rows_per_category c"
    using t(1) assms(2,3) by (cases "xs = []") simp_all
  have 2: "\<forall>x \<in> set (butlast (Inr n # xs)). \<exists>n. x = Inr n \<and> rc_batch_size c \<le> n" using t(2) assms(2) by simp
  have 3: "\<exists>ns. Inr n # xs = map Inr ns \<and> rows = start + sum_list ns \<and> k = batches + length ns
      \<and> (rc_max_rows_per_category c \<le> rows \<or> ns \<noteq> [] \<and> last ns < rc_batch_size c)" if r: "r = Inr (rows, k)" for rows k
  proof -
    obtain ns where "xs = map Inr ns" "rows = start + n + sum_list ns" "k = batches + 1 + length ns"
      "rc_max_rows_per_category c \<le> rows \<or> ns \<noteq> [] \<and> last ns < rc_batch_size c" using t(3) [OF r] by blast
    then show ?thesis by (intro exI [of _ "n # ns"]) (cases ns, simp_all)
  qed
  show ?thesis unfolding purge_trace_def by (intro conjI impI allI 1 2 3)
qed

lemma purge_loop_ends:
  assumes "1 \<le> rc_batch_size c"
  shows "\<exists>r w' xs. purge_loop (service_beside P) deadline (noting k f) c start batches (w, l) = Some (r, w', l @ map (Pair k) xs) \<and> purge_trace c start xs r batches"
proof (induction "nat (rc_max_rows_per_category c - start)" arbitrary: start batches w l rule: less_induct)
  case less
  show ?case
  proof (cases "start < rc_max_rows_per_category c")
    case False
    then show ?thesis
      by (intro exI [of _ "Inr (start, batches)"] exI [of _ w] exI [of _ "[]"]) (simp add: purge_loop.simps purge_trace_def)
  next
    case True
    show ?thesis
    proof (rule purge_batch_noted [of P deadline k f w l])
      fix e w' assume "purge_batch (service_beside P) deadline (noting k f) (w, l) = (Inl e, w', l)"
      then show ?thesis using True by (intro exI [of _ "Inl e"] exI [of _ w'] exI [of _ "[]"]) (simp add: purge_loop.simps purge_trace_def)
    next
      fix e x w' assume "purge_batch (service_beside P) deadline (noting k f) (w, l) = (Inl e, w', l @ [(k, x)])"
      then show ?thesis using True by (intro exI [of _ "Inl e"] exI [of _ w'] exI [of _ "[x]"]) (simp add: purge_loop.simps purge_trace_def)
    next
      fix n w' assume b: "purge_batch (service_beside P) deadline (noting k f) (w, l) = (Inr n, w', l @ [(k, Inr n)])"
      show ?thesis
      proof (cases "n < rc_batch_size c")
        case less: True
        then show ?thesis using True b
          by (intro exI [of _ "Inr (start + n, batches + 1)"] exI [of _ w'] exI [of _ "[Inr n]"])
             (auto simp: purge_loop.simps purge_trace_def intro!: exI [of _ "[n]"])
      next
        case full: False
        have "nat (rc_max_rows_per_category c - (start + n)) < nat (rc_max_rows_per_category c - start)" using True full assms by simp
        from less [OF this, of "batches + 1" w' "l @ [(k, Inr n)]"] obtain r w'' xs where
          ih: "purge_loop (service_beside P) deadline (noting k f) c (start + n) (batches + 1) (w', l @ [(k, Inr n)]) = Some (r, w'', (l @ [(k, Inr n)]) @ map (Pair k) xs)"
            "purge_trace c (start + n) xs r (batches + 1)" by blast
        have "purge_loop (service_beside P) deadline (noting k f) c start batches (w, l) = Some (r, w'', l @ map (Pair k) (Inr n # xs))"
          using True full b ih(1) by (subst purge_loop.simps) simp
        then show ?thesis using purge_trace_step [OF ih(2)] full True by (intro exI [of _ r] exI [of _ w''] exI [of _ "Inr n # xs"]) simp
      qed
    qed
  qed
qed

text \<open>The specification of a round over the categories in their order: the first failure ends it.\<close>

definition category_trace :: "RetentionConfig \<Rightarrow> RetentionCategory \<Rightarrow> (commit_exn turn_exn + int) list \<Rightarrow> retention_exn + CategoryResult \<Rightarrow> bool" where
  "category_trace c k xs r \<longleftrightarrow> int (length xs) * rc_batch_size c < rc_max_rows_per_category c + rc_batch_size c
     \<and> (\<forall>x \<in> set (butlast xs). \<exists>n. x = Inr n \<and> rc_batch_size c \<le> n)
     \<and> (\<forall>res. r = Inr res \<longrightarrow> (\<exists>ns. ns \<noteq> [] \<and> xs = map Inr ns
          \<and> res = \<lparr>cr_category = category_value k, cr_purged = sum_list ns, cr_batches = length ns\<rparr>
          \<and> (rc_max_rows_per_category c \<le> sum_list ns \<or> last ns < rc_batch_size c)))"

fun round_trace :: "RetentionConfig \<Rightarrow> RetentionCategory list \<Rightarrow> purge_call list \<Rightarrow> retention_exn + CategoryResult list \<Rightarrow> bool" where
  "round_trace c [] calls r \<longleftrightarrow> calls = [] \<and> r = Inr []"
| "round_trace c (k # ks) calls r \<longleftrightarrow> (\<exists>xs x rest. calls = map (Pair k) xs @ rest \<and> category_trace c k xs x
     \<and> (case x of Inl e \<Rightarrow> rest = [] \<and> r = Inl e
        | Inr res \<Rightarrow> (\<exists>r'. round_trace c ks rest r' \<and> r = (case r' of Inl e \<Rightarrow> Inl e | Inr rs \<Rightarrow> Inr (res # rs)))))"

lemma purge_category_ends:
  assumes "1 \<le> rc_batch_size c" "rc_batch_size c \<le> rc_max_rows_per_category c"
  shows "\<exists>r w' xs. purge_category (service_beside P) c k (noting k f) (w, l) = Some (r, w', l @ map (Pair k) xs) \<and> category_trace c k xs r"
proof -
  obtain now w1 where now: "sv_monotonic P w = (now, w1)" by fastforce
  show ?thesis
  proof (cases "round_deadline now (rc_round_timeout_seconds c)")
    case (Inl e)
    then show ?thesis using now assms
      by (intro exI [of _ "Inl e"] exI [of _ w1] exI [of _ "[]"]) (simp add: purge_category_def service_beside_def beside_def category_trace_def)
  next
    case (Inr deadline)
    obtain r w' xs where loop: "purge_loop (service_beside P) deadline (noting k f) c 0 0 (w1, l) = Some (r, w', l @ map (Pair k) xs)"
      and t: "purge_trace c 0 xs r 0" using purge_loop_ends [OF assms(1), of P deadline k f 0 0 w1 l] by blast
    let ?r = "case r of Inl e \<Rightarrow> Inl (RetentionFailed e)
      | Inr (rows, batches) \<Rightarrow> Inr \<lparr>cr_category = category_value k, cr_purged = rows, cr_batches = batches\<rparr>"
    have "purge_category (service_beside P) c k (noting k f) (w, l) = Some (?r, w', l @ map (Pair k) xs)"
      using now Inr loop by (simp add: purge_category_def service_beside_def beside_def)
    moreover have "int (length xs) * rc_batch_size c < rc_max_rows_per_category c + rc_batch_size c"
      using t assms by (cases xs) (auto simp: purge_trace_def algebra_simps)
    moreover have "\<exists>ns. ns \<noteq> [] \<and> xs = map Inr ns \<and> res = \<lparr>cr_category = category_value k, cr_purged = sum_list ns, cr_batches = length ns\<rparr>
          \<and> (rc_max_rows_per_category c \<le> sum_list ns \<or> last ns < rc_batch_size c)" if "?r = Inr res" for res
    proof -
      obtain rows b where r: "r = Inr (rows, b)" "res = \<lparr>cr_category = category_value k, cr_purged = rows, cr_batches = b\<rparr>" using \<open>?r = Inr res\<close>
        by (cases r) auto
      then show ?thesis using t assms unfolding purge_trace_def by fastforce
    qed
    moreover have "\<forall>x \<in> set (butlast xs). \<exists>n. x = Inr n \<and> rc_batch_size c \<le> n" using t by (simp add: purge_trace_def)
    ultimately show ?thesis unfolding category_trace_def by blast
  qed
qed

lemma purge_categories_end:
  assumes "1 \<le> rc_batch_size c" "rc_batch_size c \<le> rc_max_rows_per_category c"
  shows "\<exists>r w' calls. purge_categories (service_beside P) c (noted_repository R) cutoffs (w, l) = Some (r, w', l @ calls)
    \<and> round_trace c (map fst cutoffs) calls r"
proof (induction cutoffs arbitrary: w l)
  case Nil
  show ?case by (intro exI [of _ "Inr []"] exI [of _ w] exI [of _ "[]"]) simp
next
  case (Cons kc cutoffs)
  obtain k cutoff where kc: "kc = (k, cutoff)" by fastforce
  obtain r w' xs where p: "purge_category (service_beside P) c k (noting k (purge_fn R k cutoff (rc_batch_size c))) (w, l) = Some (r, w', l @ map (Pair k) xs)"
    "category_trace c k xs r" using purge_category_ends [OF assms, of P k "purge_fn R k cutoff (rc_batch_size c)" w l] by blast
  show ?case
  proof (cases r)
    case (Inl e)
    then show ?thesis using kc p
      by (intro exI [of _ "Inl e"] exI [of _ w'] exI [of _ "map (Pair k) xs"]) (auto simp: purge_fn_noted intro!: exI [of _ xs] exI [of _ "Inl e"])
  next
    case (Inr res)
    obtain r' w'' calls where ih: "purge_categories (service_beside P) c (noted_repository R) cutoffs (w', l @ map (Pair k) xs) = Some (r', w'', (l @ map (Pair k) xs) @ calls)"
      "round_trace c (map fst cutoffs) calls r'" using Cons.IH by blast
    let ?r = "case r' of Inl e \<Rightarrow> Inl e | Inr rs \<Rightarrow> Inr (res # rs)"
    have "purge_categories (service_beside P) c (noted_repository R) (kc # cutoffs) (w, l) = Some (?r, w'', l @ map (Pair k) xs @ calls)"
      using kc p(1) Inr ih(1) by (cases r') (simp_all add: purge_fn_noted)
    moreover have "round_trace c (map fst (kc # cutoffs)) (map (Pair k) xs @ calls) ?r"
      using kc p(2) Inr ih(2) by (auto intro!: exI [of _ xs] exI [of _ "Inr res"])
    ultimately show ?thesis by blast
  qed
qed

lemma RetentionConfig_bounds:
  assumes "RetentionConfig_init b m t = Inr c"
  shows "1 \<le> rc_batch_size c" "rc_batch_size c \<le> rc_max_rows_per_category c" "rc_batch_size c \<le> RETENTION_MAX_BATCH_SIZE"
  using assms by (auto simp: RetentionConfig_init_def split: pyobj.splits)

lemma cutoff_categories:
  assumes "retention_cutoffs now policy = Inr cutoffs"
  shows "map fst cutoffs = [ADMISSION_RESERVATIONS, PRIVACY_OPERATIONS, OUTBOX_EVENTS]"
  using assms by (auto simp: retention_cutoffs_def Let_def split: option.splits)

section \<open>Properties\<close>

text \<open>C18: a retention round ends.  With a validated configuration \<open>run_once\<close> returns or raises, whatever the clocks show, whether the task is cancelled and whatever
  the repository answers: every category needs at most the bound of rows divided by the batch size, rounded up, purge calls, all of
  them full batches except the last; the categories follow one another and the first failure ends the round without further calls; a result
  counts exactly the rows and batches the repository answered, in total too.\<close>

theorem retention_round_ends:
  assumes "RetentionConfig_init batch_size max_rows timeout = Inr c"
  shows "\<exists>r w' calls. retention_run_once (service_beside P) (noted_repository R) policy c (w, []) = Some (r, w', calls)
    \<and> (r = Inl RetentionDateError \<and> calls = []
       \<or> (\<exists>results. round_trace c [ADMISSION_RESERVATIONS, PRIVACY_OPERATIONS, OUTBOX_EVENTS] calls results
            \<and> r = rbind results (\<lambda>rs. Inr (RetentionRunResult_build (rp_schema_version policy) rs))))"
proof -
  obtain now w1 where now: "sv_clock P w = (now, w1)" by fastforce
  show ?thesis
  proof (cases "retention_cutoffs now (Some policy)")
    case (Inl e)
    then have "e = RetentionDateError" by (auto simp: retention_cutoffs_def compute_cutoff_def Let_def split: option.splits if_splits)
    then show ?thesis using now Inl
      by (intro exI [of _ "Inl e"] exI [of _ w1] exI [of _ "[]"]) (simp add: retention_run_once_def service_beside_def beside_def)
  next
    case (Inr cutoffs)
    obtain r w' calls where p: "purge_categories (service_beside P) c (noted_repository R) cutoffs (w1, []) = Some (r, w', calls)"
      and t: "round_trace c (map fst cutoffs) calls r"
      using purge_categories_end [OF RetentionConfig_bounds(1,2) [OF assms], of P R cutoffs w1 "[]"] by auto
    have "retention_run_once (service_beside P) (noted_repository R) policy c (w, [])
        = Some (rbind r (\<lambda>rs. Inr (RetentionRunResult_build (rp_schema_version policy) rs)), w', calls)"
      using now Inr p by (cases r) (simp_all add: retention_run_once_def service_beside_def beside_def)
    then show ?thesis using t unfolding cutoff_categories [OF Inr] by blast
  qed
qed

section \<open>A sample round\<close>

definition sample_service :: "nat service_ports" where
  "sample_service = \<lparr>sv_monotonic = (\<lambda>w. (of_nat w, Suc w)), sv_clock = (\<lambda>w. (Fin 1754700000, w)), sv_cancelled = (\<lambda>w. (False, w)), sv_client = None\<rparr>"

definition full_batches :: "nat retention_repository" where
  "full_batches = \<lparr>re_admission = (\<lambda>cutoff n w. (Inr n, w)), re_privacy = (\<lambda>cutoff n w. (Inr n, w)), re_outbox = (\<lambda>cutoff n w. (Inr 0, w))\<rparr>"

definition sample_retention_config :: RetentionConfig where
  "sample_retention_config = \<lparr>rc_batch_size = 3, rc_max_rows_per_category = 4, rc_round_timeout_seconds = PFloat PosInf\<rparr>"

lemma sample_retention_init: "RetentionConfig_init (PInt 3) (PInt 4) (PFloat PosInf) = Inr sample_retention_config"
  by (simp add: RetentionConfig_init_def RETENTION_MAX_BATCH_SIZE_def sample_retention_config_def)

theorem retention_round_ends_witness:
  "\<exists>r w' calls. retention_run_once (service_beside sample_service) (noted_repository full_batches) default_retention_policy sample_retention_config (0, [])
       = Some (r, w', calls)
     \<and> (r = Inl RetentionDateError \<and> calls = []
       \<or> (\<exists>results. round_trace sample_retention_config [ADMISSION_RESERVATIONS, PRIVACY_OPERATIONS, OUTBOX_EVENTS] calls results
            \<and> r = rbind results (\<lambda>rs. Inr (RetentionRunResult_build (rp_schema_version default_retention_policy) rs))))"
  by (rule retention_round_ends [OF sample_retention_init])

text \<open>When the bound is no multiple of the batch size, a category may purge more rows than the bound, with every answer within its batch.\<close>

lemma sample_purge: "purge_batch sample_service None (re_admission full_batches cutoff n) w = (Inr n, w + 3)"
  by (simp add: purge_batch_def awaited_write_def deadline_spent_def sample_service_def full_batches_def classify_write_def worker_end_of_def)

lemma retention_exceeds_bound:
  "purge_category sample_service sample_retention_config ADMISSION_RESERVATIONS (re_admission full_batches cutoff 3) 0
     = Some (Inr \<lparr>cr_category = u ''admission_reservations'', cr_purged = 6, cr_batches = 2\<rparr>, 7)"
proof -
  have "round_deadline 0 (PFloat PosInf) = Inr None" by (simp add: round_deadline_def)
  moreover have "purge_loop sample_service None (re_admission full_batches cutoff 3) sample_retention_config 0 0 1 = Some (Inr (6, 2), 7)"
    by (subst purge_loop.simps, simp add: sample_purge sample_retention_config_def, subst purge_loop.simps, simp add: sample_purge sample_retention_config_def,
        subst purge_loop.simps, simp)
  ultimately show ?thesis by (simp add: purge_category_def sample_service_def [symmetric] sample_retention_config_def)
    (simp add: sample_service_def)
qed

end
