(* ===== verification/Long_Term_Memory.thy ===== *)
theory Long_Term_Memory
  imports Trusted_Context Archival_Memory Local_Contracts Turn_Execution Py_Datetime "HOL-Library.List_Lexorder"
begin

text \<open>
  \<open>backend/memory.py\<close>: the manager of a user's profile, history and memories over the database client and the embedding model, both
  parameters.  An answer of the client is an exception with the text of its code, the value \<open>None\<close>, or a response whose \<open>error\<close> is set or not
  and whose \<open>data\<close> may be missing.
\<close>

section \<open>The client\<close>

datatype db_answer = DbRaises "pystr option" | DbNone | DbResponse bool "pyobj option"

record 'w memory_client =
  mc_select_profile :: "pystr \<Rightarrow> 'w \<Rightarrow> db_answer \<times> 'w"
  mc_insert_profile :: "row \<Rightarrow> 'w \<Rightarrow> db_answer \<times> 'w"
  mc_update_profile :: "row \<Rightarrow> pystr \<Rightarrow> 'w \<Rightarrow> db_answer \<times> 'w"
  mc_select_history :: "pystr \<Rightarrow> int \<Rightarrow> 'w \<Rightarrow> db_answer \<times> 'w"
  mc_insert_turn :: "row list \<Rightarrow> 'w \<Rightarrow> db_answer \<times> 'w"
  mc_select_message :: "int \<Rightarrow> pystr \<Rightarrow> 'w \<Rightarrow> db_answer \<times> 'w"
  mc_insert_extraction :: "row \<Rightarrow> 'w \<Rightarrow> db_answer \<times> 'w"
  mc_match_memories :: "row \<Rightarrow> 'w \<Rightarrow> db_answer \<times> 'w"

text \<open>\<open>mm_encode\<close> is the embedding model with \<open>tolist\<close>: \<open>None\<close> without a model, and a call gives \<open>None\<close> when it raises.
  \<open>mm_now\<close> is \<open>datetime.now(UTC)\<close> in microseconds.\<close>

record 'w MemoryManager =
  mm_supabase :: "'w memory_client option"
  mm_embeddings_enabled :: bool
  mm_encode :: "(pystr \<Rightarrow> 'w \<Rightarrow> pyobj option \<times> 'w) option"
  mm_clock :: "'w \<Rightarrow> pyfloat \<times> 'w"
  mm_now :: "'w \<Rightarrow> int \<times> 'w"

text \<open>\<open>connect\<close> is the factory of the client, \<open>load_model\<close> the constructor of the model; both may fail.\<close>

definition MemoryManager_init ::
    "('w \<Rightarrow> pyfloat \<times> 'w) \<Rightarrow> ('w \<Rightarrow> int \<times> 'w) \<Rightarrow> 'w memory_client option \<Rightarrow> (pystr \<Rightarrow> 'w \<Rightarrow> pyobj option \<times> 'w) option \<Rightarrow> bool \<Rightarrow> 'w MemoryManager" where
  "MemoryManager_init clock now connect load_model embeddings_enabled = \<lparr>mm_supabase = connect, mm_embeddings_enabled = embeddings_enabled,
     mm_encode = (if embeddings_enabled then load_model else None), mm_clock = clock, mm_now = now\<rparr>"

datatype memory_exn = StatePersistenceError | StateLoadError | ContextLoadError | TurnPersistenceError | MemoryKeyError | MemoryRuntimeError
  | ArchivalDuplicateError | MemoryContextError ctx_exn

definition MAX_MESSAGE_LENGTH :: nat where "MAX_MESSAGE_LENGTH = 10000"
definition SUPPORTED_MEMORY_METADATA_SCHEMA_VERSION :: int where "SUPPORTED_MEMORY_METADATA_SCHEMA_VERSION = 1"

fun py_truthy :: "pyobj \<Rightarrow> bool" where
  "py_truthy PNone = False"
| "py_truthy (PBool b) = b"
| "py_truthy (PInt n) = (n \<noteq> 0)"
| "py_truthy (PFloat f) = (f \<noteq> Fin 0)"
| "py_truthy (PStr s) = (s \<noteq> [])"
| "py_truthy (PBytes b) = (b \<noteq> [])"
| "py_truthy (PList xs) = (xs \<noteq> [])"
| "py_truthy (PTuple xs) = (xs \<noteq> [])"
| "py_truthy (PDict d) = (d \<noteq> [])"
| "py_truthy (PProxy d) = (d \<noteq> [])"
| "py_truthy (PObj c) = True"

definition py_or :: "pyobj \<Rightarrow> pyobj \<Rightarrow> pyobj" where
  "py_or v d = (if py_truthy v then v else d)"

text \<open>The data of a response that is present, without error and not \<open>None\<close>.\<close>

definition answer_data :: "db_answer \<Rightarrow> pyobj option" where
  "answer_data a = (case a of DbResponse False (Some data) \<Rightarrow> if data = PNone then None else Some data | _ \<Rightarrow> None)"

text \<open>\<open>len(data) == 0\<close>; \<open>None\<close> when \<open>data\<close> has no length.\<close>

fun py_empty :: "pyobj \<Rightarrow> bool option" where
  "py_empty (PStr s) = Some (s = [])"
| "py_empty (PBytes b) = Some (b = [])"
| "py_empty (PList xs) = Some (xs = [])"
| "py_empty (PTuple xs) = Some (xs = [])"
| "py_empty (PDict d) = Some (d = [])"
| "py_empty (PProxy d) = Some (d = [])"
| "py_empty _ = None"

section \<open>The state of a user\<close>

record user_state =
  us_persona_config :: pyobj
  us_user_profile :: pyobj
  us_relationship_state :: pyobj
  us_emotional_state :: pyobj

definition get_default_state :: "pyobj \<Rightarrow> user_state option" where
  "get_default_state timestamp = (case (EmotionalStateV1_neutral timestamp, RelationshipStateV1_neutral timestamp) of
     (Inr e, Inr r) \<Rightarrow> Some \<lparr>us_persona_config = PStr (u ''Katherine...''), us_user_profile = PDict [],
       us_relationship_state = RelationshipStateV1_to_dict r, us_emotional_state = EmotionalStateV1_to_dict e\<rparr>
   | _ \<Rightarrow> None)"

definition mem_profile_row :: "pystr \<Rightarrow> user_state \<Rightarrow> row" where
  "mem_profile_row user_id s = [(u ''user_id'', PStr user_id), (u ''persona_config'', us_persona_config s), (u ''user_profile'', us_user_profile s),
     (u ''relationship_state'', us_relationship_state s), (u ''emotional_state'', us_emotional_state s)]"

definition stored_state :: "(pyobj \<times> pyobj) list \<Rightarrow> user_state" where
  "stored_state d = \<lparr>us_persona_config = dict_get d (u ''persona_config''), us_user_profile = py_or (dict_get d (u ''user_profile'')) (PDict []),
     us_relationship_state = py_or (dict_get d (u ''relationship_state'')) (PDict []),
     us_emotional_state = py_or (dict_get d (u ''emotional_state'')) (PDict [])\<rparr>"

text \<open>The branch of a user without a profile: the insertion must answer with a row.\<close>

definition create_profile :: "'w memory_client \<Rightarrow> pystr \<Rightarrow> pyobj \<Rightarrow> 'w \<Rightarrow> (memory_exn + user_state) \<times> 'w" where
  "create_profile C user_id timestamp w = (case get_default_state timestamp of
     None \<Rightarrow> (Inl StateLoadError, w)
   | Some s \<Rightarrow> (let (a, w') = mc_insert_profile C (mem_profile_row user_id s) w in
       ((if Option.bind (answer_data a) py_empty = Some False then Inr s else Inl StateLoadError), w')))"

text \<open>Whatever goes wrong ends in the \<open>StateLoadError\<close>.\<close>

definition mem_load_user_state :: "'w MemoryManager \<Rightarrow> pystr \<Rightarrow> pyobj option \<Rightarrow> 'w \<Rightarrow> (memory_exn + user_state) \<times> 'w" where
  "mem_load_user_state M user_id default_timestamp w = (case mm_supabase M of
     None \<Rightarrow> (Inl StateLoadError, w)
   | Some C \<Rightarrow> (let (a, w1) = mc_select_profile C user_id w in
       (case answer_data a of
          None \<Rightarrow> (Inl StateLoadError, w1)
        | Some data \<Rightarrow> (case py_empty data of
            None \<Rightarrow> (Inl StateLoadError, w1)
          | Some True \<Rightarrow>
              (let (t, w2) = (case default_timestamp of Some t \<Rightarrow> (t, w1) | None \<Rightarrow> (let (c, w2) = mm_clock M w1 in (PFloat c, w2)))
               in create_profile C user_id t w2)
          | Some False \<Rightarrow> ((case as_sequence data of
              Some (PDict d # rows) \<Rightarrow> Inr (stored_state d)
            | _ \<Rightarrow> Inl StateLoadError), w1)))))"

definition sync_state ::
    "'w MemoryManager \<Rightarrow> pystr \<Rightarrow> EmotionalStateV1 arg \<Rightarrow> RelationshipStateV1 arg \<Rightarrow> pyobj \<Rightarrow> 'w \<Rightarrow> (memory_exn + unit) \<times> 'w" where
  "sync_state M user_id emotional_state relationship user_profile w = (case (emotional_state, relationship, mm_supabase M) of
     (Inst e, Inst r, Some C) \<Rightarrow>
       (let (now, w1) = mm_now M w;
            update_data = [(u ''emotional_state'', EmotionalStateV1_to_dict e), (u ''relationship_state'', RelationshipStateV1_to_dict r),
              (u ''updated_at'', PStr (isoformat now))] @ (if py_truthy user_profile then [(u ''user_profile'', user_profile)] else []);
            (a, w2) = mc_update_profile C update_data user_id w1
        in ((case a of DbResponse False (Some data) \<Rightarrow> if py_truthy data then Inr () else Inl StatePersistenceError | _ \<Rightarrow> Inl StatePersistenceError), w2))
   | _ \<Rightarrow> (Inl StatePersistenceError, w))"

section \<open>The history\<close>

definition history_item :: "pyobj \<Rightarrow> pyobj option" where
  "history_item item = (case item of
     PDict d \<Rightarrow>
       if \<not> has_key d (u ''role'') \<or> \<not> has_key d (u ''content'') then None
       else if \<not> has_key d (u ''id'') then None
       else (let role = dict_get d (u ''role''); content = dict_get d (u ''content''); msg_id = dict_get d (u ''id''); created_at = dict_get d (u ''created_at'') in
         if role \<notin> {PStr (u ''user''), PStr (u ''assistant'')} then None
         else (case (content, msg_id, created_at) of
           (PStr c, PInt n, PStr t) \<Rightarrow>
             if length c > MAX_MESSAGE_LENGTH \<or> n \<le> 0 then None
             else Some (PDict [(PStr (u ''role''), role), (PStr (u ''content''), content), (PStr (u ''id''), msg_id), (PStr (u ''created_at''), created_at)])
         | _ \<Rightarrow> None))
   | _ \<Rightarrow> None)"

definition mem_load_recent_history :: "'w MemoryManager \<Rightarrow> pystr \<Rightarrow> int \<Rightarrow> 'w \<Rightarrow> (memory_exn + pyobj list) \<times> 'w" where
  "mem_load_recent_history M user_id limit w = (case mm_supabase M of
     None \<Rightarrow> (Inl ContextLoadError, w)
   | Some C \<Rightarrow> (let (a, w1) = mc_select_history C user_id limit w in
       ((case answer_data a of
           Some (PList items) \<Rightarrow> (case those (map history_item items) of None \<Rightarrow> Inl ContextLoadError | Some normalized \<Rightarrow> Inr (rev normalized))
         | _ \<Rightarrow> Inl ContextLoadError), w1)))"

section \<open>Retrieved memories\<close>

record RetrievedMemory =
  rm_content :: pystr
  rm_tags :: "pystr list"
  rm_source_id :: pystr
  rm_confidence :: pyobj
  rm_provenance :: pystr
  rm_epistemic_status :: pystr
  rm_approved :: bool
  rm_metadata_version :: int
  rm_retrieval_similarity :: pyobj

text \<open>The checks of a number in the order of the code: \<open>math.isnan\<close> of an integer too large for a float raises, which is no result either.\<close>

definition number_within :: "rat \<Rightarrow> rat \<Rightarrow> pyobj \<Rightarrow> bool" where
  "number_within lo hi v \<longleftrightarrow> \<not> is_bool v \<and> is_number v \<and> (case py_float v of None \<Rightarrow> False | Some f \<Rightarrow> isfinite f) \<and> lo \<le> num_val v \<and> num_val v \<le> hi"

fun tag_text :: "pyobj \<Rightarrow> pystr list" where
  "tag_text (PStr s) = (if strip s = [] then [] else [strip s])"
| "tag_text _ = []"

definition normalized_tags :: "pyobj list \<Rightarrow> pystr list" where
  "normalized_tags tags = sort (remdups (concat (map tag_text tags)))"

text \<open>\<open>None\<close> is any exception of the constructor.\<close>

definition RetrievedMemory_init ::
    "pyobj \<Rightarrow> pyobj list option \<Rightarrow> pyobj \<Rightarrow> pyobj \<Rightarrow> pyobj \<Rightarrow> pyobj \<Rightarrow> pyobj \<Rightarrow> pyobj \<Rightarrow> pyobj \<Rightarrow> RetrievedMemory option" where
  "RetrievedMemory_init content tags source_id confidence provenance epistemic_status approved metadata_version retrieval_similarity =
     (case (content, tags, source_id, provenance, epistemic_status, approved, metadata_version) of
        (PStr c, Some ts, PStr src, PStr pv, PStr es, PBool b, PInt v) \<Rightarrow>
          if strip c = [] then None
          else if \<not> number_within 0 1 confidence then None
          else if pv \<notin> set PROVENANCES \<or> es \<notin> set EPISTEMIC_STATUSES then None
          else if v < 0 then None
          else if retrieval_similarity \<noteq> PNone \<and> \<not> number_within (- 1) 1 retrieval_similarity then None
          else Some \<lparr>rm_content = c, rm_tags = normalized_tags ts, rm_source_id = src, rm_confidence = confidence, rm_provenance = pv,
                     rm_epistemic_status = es, rm_approved = b, rm_metadata_version = v, rm_retrieval_similarity = retrieval_similarity\<rparr>
      | _ \<Rightarrow> None)"

fun join_text :: "pystr \<Rightarrow> pystr list \<Rightarrow> pystr" where
  "join_text sep [] = []"
| "join_text sep [t] = t"
| "join_text sep (t # ts) = t @ sep @ join_text sep ts"

definition to_prompt_text :: "RetrievedMemory \<Rightarrow> pystr" where
  "to_prompt_text m = (if rm_tags m = [] then rm_content m else rm_content m @ [10] @ u ''Tags: '' @ join_text (u '', '') (rm_tags m))"

definition to_context_item :: "RetrievedMemory \<Rightarrow> pystr \<Rightarrow> ctx_exn + ContextItem" where
  "to_context_item m source_ref = ContextItem_init (PStr (u ''memory'')) (PStr (rm_content m)) (PStr (rm_provenance m)) (rm_confidence m)
     (PStr (rm_epistemic_status m)) (PStr source_ref) (PStr (rm_source_id m))"

text \<open>\<open>uuid.UUID(text)\<close>: prefixes, braces and hyphens are dropped, and what is left is a hexadecimal number of 32 characters; \<open>int16\<close> is \<open>int(text, 16)\<close>.\<close>

fun remove_sub :: "pystr \<Rightarrow> pystr \<Rightarrow> pystr" where
  "remove_sub sub [] = []"
| "remove_sub sub (c # cs) = (if sub \<noteq> [] \<and> take (length sub) (c # cs) = sub then remove_sub sub (drop (length sub - 1) cs) else c # remove_sub sub cs)"

definition strip_braces :: "pystr \<Rightarrow> pystr" where
  "strip_braces s = rev (dropWhile (\<lambda>c. c \<in> {123, 125}) (rev (dropWhile (\<lambda>c. c \<in> {123, 125}) s)))"

definition uuid_accepts :: "(pystr \<Rightarrow> int option) \<Rightarrow> pystr \<Rightarrow> bool" where
  "uuid_accepts int16 s = (let h = remove_sub [45] (strip_braces (remove_sub (u ''uuid:'') (remove_sub (u ''urn:'') s)))
     in length h = 32 \<and> int16 h \<noteq> None)"

text \<open>The similarity of a document: a value that is not usable is dropped; \<open>None\<close> is the overflow of \<open>math.isnan\<close>.\<close>

definition usable_similarity :: "pyobj \<Rightarrow> pyobj option" where
  "usable_similarity v =
     (if v = PNone \<or> is_bool v \<or> \<not> is_number v then Some PNone
      else case py_float v of
        None \<Rightarrow> None
      | Some f \<Rightarrow> Some (if \<not> isfinite f \<or> \<not> (- 1 \<le> num_val v \<and> num_val v \<le> 1) then PNone else v))"

definition raw_tag_values :: "pyobj \<Rightarrow> pyobj list" where
  "raw_tag_values raw = (case raw of PStr s \<Rightarrow> [raw] | PList ts \<Rightarrow> ts | PTuple ts \<Rightarrow> ts | _ \<Rightarrow> [])"

text \<open>One document; \<open>None\<close> is \<open>continue\<close>.\<close>

definition parse_document :: "(pystr \<Rightarrow> int option) \<Rightarrow> pyobj \<Rightarrow> RetrievedMemory option" where
  "parse_document int16 doc = (case doc of
     PDict d \<Rightarrow> (case (dict_get d (u ''content''), dict_get d (u ''metadata'')) of
       (PStr content, PDict metadata) \<Rightarrow>
         if strip content = [] then None
         else if dict_get metadata (u ''schema_version'') \<noteq> PInt SUPPORTED_MEMORY_METADATA_SCHEMA_VERSION then None
         else if dict_get metadata (u ''approved'') \<noteq> PBool True then None
         else (case (dict_get metadata (u ''provenance''), dict_get metadata (u ''epistemic_status'')) of
           (PStr provenance, PStr epistemic) \<Rightarrow>
             if provenance \<notin> set PROVENANCES \<or> epistemic \<notin> set EPISTEMIC_STATUSES then None
             else let confidence = dict_get metadata (u ''confidence'') in
             if \<not> number_within 0 1 confidence then None
             else (case dict_get d (u ''id'') of
               PStr doc_id \<Rightarrow>
                 if doc_id = [] \<or> \<not> uuid_accepts int16 doc_id then None
                 else Option.bind (usable_similarity (dict_get d (u ''similarity''))) (\<lambda>similarity.
                   RetrievedMemory_init (PStr content) (Some (raw_tag_values (dict_get metadata (u ''tags'')))) (PStr doc_id) confidence
                     (PStr provenance) (PStr epistemic) (PBool True) (PInt SUPPORTED_MEMORY_METADATA_SCHEMA_VERSION) similarity)
             | _ \<Rightarrow> None)
         | _ \<Rightarrow> None)
     | _ \<Rightarrow> None)
   | _ \<Rightarrow> None)"

text \<open>\<open>float\<close> 0.5 and the number of memories are the constants of the query.\<close>

definition match_params :: "pyobj \<Rightarrow> pystr \<Rightarrow> row" where
  "match_params embedding user_id = [(u ''query_embedding'', embedding), (u ''match_threshold'', flt (1 / 2)), (u ''match_count'', PInt 3),
     (u ''filter_user_id'', PStr user_id)]"

text \<open>A failure is an error when vector retrieval is enabled, an empty result otherwise.\<close>

definition retrieval_failure :: "'w MemoryManager \<Rightarrow> memory_exn + RetrievedMemory list" where
  "retrieval_failure M = (if mm_embeddings_enabled M then Inl ContextLoadError else Inr [])"

definition retrieve_relevant_entries ::
    "(pystr \<Rightarrow> int option) \<Rightarrow> 'w MemoryManager \<Rightarrow> pystr \<Rightarrow> pystr \<Rightarrow> 'w \<Rightarrow> (memory_exn + RetrievedMemory list) \<times> 'w" where
  "retrieve_relevant_entries int16 M user_id query w = (case (mm_supabase M, mm_encode M) of
     (Some C, Some encode) \<Rightarrow> (case encode query w of
       (None, w1) \<Rightarrow> (retrieval_failure M, w1)
     | (Some embedding, w1) \<Rightarrow> (let (a, w2) = mc_match_memories C (match_params embedding user_id) w1 in
         ((case a of
             DbResponse e (Some (PList docs)) \<Rightarrow> Inr (List.map_filter (parse_document int16) docs)
           | _ \<Rightarrow> retrieval_failure M), w2)))
   | _ \<Rightarrow> (retrieval_failure M, w))"

section \<open>The context of a turn\<close>

definition memory_object :: "RetrievedMemory \<Rightarrow> memory_obj" where
  "memory_object m = \<lparr>mo_to_context_item = Some (\<lambda>source_ref. case to_context_item m source_ref of Inl _ \<Rightarrow> None | Inr i \<Rightarrow> Some (Inst i)),
     mo_metadata_version = Some (PInt (rm_metadata_version m)), mo_approved = Some (PBool (rm_approved m)), mo_source_id = Some (PStr (rm_source_id m)),
     mo_provenance = Some (PStr (rm_provenance m)), mo_epistemic_status = Some (PStr (rm_epistemic_status m)), mo_confidence = Some (rm_confidence m)\<rparr>"

definition load_context_data ::
    "(pystr \<Rightarrow> pystr option) \<Rightarrow> (pystr \<Rightarrow> int option) \<Rightarrow> 'w MemoryManager \<Rightarrow> pystr \<Rightarrow> pystr \<Rightarrow> pyobj \<Rightarrow> pyobj \<Rightarrow> 'w
     \<Rightarrow> (memory_exn + LoadedContextData) \<times> 'w" where
  "load_context_data iso_utc int16 M user_id current_message profile_snapshot persona_snapshot =
     io_bind (mem_load_recent_history M user_id 10) (\<lambda>history.
     io_bind (retrieve_relevant_entries int16 M user_id current_message) (\<lambda>memories.
     let valid_memories = filter (\<lambda>m. rm_approved m \<and> rm_metadata_version m = SUPPORTED_MEMORY_METADATA_SCHEMA_VERSION) memories in
     io_lift (with_error MemoryContextError
       (LoadedContextData_init iso_utc (PTuple history) (Some (map memory_object valid_memories)) profile_snapshot (py_or persona_snapshot (PStr []))))))"

text \<open>The older form of the context, a text.  \<open>canon\<close> is \<open>json.dumps\<close> with sorted keys, \<open>pstr\<close> is \<open>str\<close> of what is no string.\<close>

definition serialize_user_profile :: "(pyobj \<Rightarrow> pystr option) \<Rightarrow> pyobj \<Rightarrow> memory_exn + pystr" where
  "serialize_user_profile canon raw_profile = (case raw_profile of
     PDict d \<Rightarrow> (case canon raw_profile of None \<Rightarrow> Inl ContextLoadError | Some t \<Rightarrow> Inr t)
   | _ \<Rightarrow> Inl ContextLoadError)"

record context_components =
  cc_persona :: pystr
  cc_user_profile_str :: pystr
  cc_memory_str :: pystr
  cc_memory_entries :: "pystr list"
  cc_history_list :: "(pystr \<times> pystr) list"
  cc_assembled :: pystr

definition role_and_content :: "pyobj \<Rightarrow> pystr \<times> pystr" where
  "role_and_content item = (str_or_empty (mapping_get item (u ''role'')), str_or_empty (mapping_get item (u ''content'')))"

definition assembled_context :: "pystr \<Rightarrow> pystr \<Rightarrow> pystr \<Rightarrow> pystr \<Rightarrow> pystr" where
  "assembled_context persona profile memory short_term =
     (let nl = 10 # u ''        '' in
      nl @ u ''=== CORE MEMORY (QUEM VOC'' @ [202, 32, 201] @ u '') ==='' @ nl @ persona @ [10] @ nl @
      u ''=== CORE MEMORY (QUEM '' @ [201] @ u '' O USU'' @ [193] @ u ''RIO) ==='' @ nl @ profile @ [10] @ nl @
      u ''=== MEM'' @ [211] @ u ''RIA ARQUIVADA (LEMBRAN'' @ [199] @ u ''AS RELEVANTES) ==='' @ nl @ memory @ [10] @ nl @
      u ''=== CONVERSA ATUAL (CURTO PRAZO) ==='' @ nl @ short_term @ nl)"

definition get_context_components ::
    "(pyobj \<Rightarrow> pystr) \<Rightarrow> (pyobj \<Rightarrow> pystr option) \<Rightarrow> (pystr \<Rightarrow> int option) \<Rightarrow> 'w MemoryManager \<Rightarrow> pystr \<Rightarrow> pystr \<Rightarrow> user_state \<Rightarrow> 'w
     \<Rightarrow> (memory_exn + context_components) \<times> 'w" where
  "get_context_components pstr canon int16 M user_id current_message user_state =
     io_bind (mem_load_recent_history M user_id 10) (\<lambda>history.
     io_bind (retrieve_relevant_entries int16 M user_id current_message) (\<lambda>memory_entries.
     io_bind (io_lift (serialize_user_profile canon (us_user_profile user_state))) (\<lambda>profile.
     let turns = map role_and_content history; short_term = join_text [10] (map (\<lambda>(r, c). r @ u '': '' @ c) turns);
         persona = (case us_persona_config user_state of PStr s \<Rightarrow> s | v \<Rightarrow> pstr v); entries = map to_prompt_text memory_entries;
         memory = (if entries = [] then u ''Nenhuma mem'' @ [243] @ u ''ria espec'' @ [237] @ u ''fica encontrada.'' else join_text [10, 10] entries)
     in io_lift (Inr \<lparr>cc_persona = persona, cc_user_profile_str = profile, cc_memory_str = memory, cc_memory_entries = entries, cc_history_list = turns,
          cc_assembled = assembled_context persona profile memory short_term\<rparr>))))"

definition get_context ::
    "(pyobj \<Rightarrow> pystr) \<Rightarrow> (pyobj \<Rightarrow> pystr option) \<Rightarrow> (pystr \<Rightarrow> int option) \<Rightarrow> 'w MemoryManager \<Rightarrow> pystr \<Rightarrow> pystr \<Rightarrow> user_state \<Rightarrow> 'w
     \<Rightarrow> (memory_exn + pystr) \<times> 'w" where
  "get_context pstr canon int16 M user_id current_message user_state =
     io_bind (get_context_components pstr canon int16 M user_id current_message user_state) (\<lambda>c. io_lift (Inr (cc_assembled c)))"

section \<open>Saving a turn\<close>

definition turn_rows :: "pystr \<Rightarrow> pystr \<Rightarrow> pystr \<Rightarrow> row list" where
  "turn_rows user_id user_msg bot_msg =
     [[(u ''user_id'', PStr user_id), (u ''role'', PStr (u ''user'')), (u ''content'', PStr user_msg)],
      [(u ''user_id'', PStr user_id), (u ''role'', PStr (u ''assistant'')), (u ''content'', PStr bot_msg)]]"

text \<open>The loop over the records with \<open>user_rec\<close> and \<open>assistant_rec\<close>, each an id and a content.\<close>

fun assign_records ::
    "pystr \<Rightarrow> pyobj list \<Rightarrow> (int \<times> pyobj) option \<Rightarrow> (int \<times> pyobj) option \<Rightarrow> ((int \<times> pyobj) option \<times> (int \<times> pyobj) option) option" where
  "assign_records user_id [] user_rec assistant_rec = Some (user_rec, assistant_rec)"
| "assign_records user_id (rec # recs) user_rec assistant_rec = (case rec of
     PDict d \<Rightarrow>
       if \<not> (has_key d (u ''id'') \<and> has_key d (u ''role'') \<and> has_key d (u ''user_id'') \<and> has_key d (u ''content'')) then None
       else (case dict_get d (u ''id'') of
         PInt rec_id \<Rightarrow>
           if rec_id \<le> 0 then None
           else if dict_get d (u ''user_id'') \<noteq> PStr user_id then None
           else if dict_get d (u ''role'') = PStr (u ''user'') then
             (if user_rec \<noteq> None then None else assign_records user_id recs (Some (rec_id, dict_get d (u ''content''))) assistant_rec)
           else if dict_get d (u ''role'') = PStr (u ''assistant'') then
             (if assistant_rec \<noteq> None then None else assign_records user_id recs user_rec (Some (rec_id, dict_get d (u ''content''))))
           else None
       | _ \<Rightarrow> None)
   | _ \<Rightarrow> None)"

definition persisted_turn :: "pystr \<Rightarrow> pystr \<Rightarrow> pystr \<Rightarrow> pyobj \<Rightarrow> PersistedTurnRef option" where
  "persisted_turn user_id user_msg bot_msg data = (case data of
     PList records \<Rightarrow>
       if length records \<noteq> 2 then None
       else (case assign_records user_id records None None of
         Some (Some (i, c), Some (j, c')) \<Rightarrow>
           if i = j then None
           else if c \<noteq> PStr user_msg \<or> c' \<noteq> PStr bot_msg then None
           else Some \<lparr>ptr_user_id = user_id, source_chat_log_id = i, assistant_chat_log_id = j\<rparr>
       | _ \<Rightarrow> None)
   | _ \<Rightarrow> None)"

definition save_turn :: "'w MemoryManager \<Rightarrow> pystr \<Rightarrow> pystr \<Rightarrow> pystr \<Rightarrow> 'w \<Rightarrow> (memory_exn + PersistedTurnRef) \<times> 'w" where
  "save_turn M user_id user_msg bot_msg w = (case mm_supabase M of
     None \<Rightarrow> (Inl TurnPersistenceError, w)
   | Some C \<Rightarrow>
       if length user_msg > MAX_MESSAGE_LENGTH \<or> length bot_msg > MAX_MESSAGE_LENGTH then (Inl TurnPersistenceError, w)
       else (let (a, w') = mc_insert_turn C (turn_rows user_id user_msg bot_msg) w in
         ((case Option.bind (answer_data a) (persisted_turn user_id user_msg bot_msg) of None \<Rightarrow> Inl TurnPersistenceError | Some r \<Rightarrow> Inr r), w')))"

section \<open>Archival extraction\<close>

definition persisted_message :: "pystr \<Rightarrow> int \<Rightarrow> pyobj \<Rightarrow> pystr option" where
  "persisted_message user_id source data = (case data of
     PList [PDict d] \<Rightarrow>
       if \<not> (has_key d (u ''id'') \<and> has_key d (u ''user_id'') \<and> has_key d (u ''role'') \<and> has_key d (u ''content'')) then None
       else if \<not> py_eq (dict_get d (u ''id'')) (PInt source) then None
       else if dict_get d (u ''user_id'') \<noteq> PStr user_id then None
       else if dict_get d (u ''role'') \<noteq> PStr (u ''user'') then None
       else str_of (dict_get d (u ''content''))
   | _ \<Rightarrow> None)"

definition load_persisted_user_message :: "'w MemoryManager \<Rightarrow> pystr \<Rightarrow> int \<Rightarrow> 'w \<Rightarrow> (memory_exn + pystr) \<times> 'w" where
  "load_persisted_user_message M user_id source w = (case mm_supabase M of
     None \<Rightarrow> (Inl MemoryRuntimeError, w)
   | Some C \<Rightarrow> (let (a, w') = mc_select_message C source user_id w in
       ((case a of
           DbRaises c \<Rightarrow> Inl MemoryRuntimeError
         | DbResponse e (Some data) \<Rightarrow> (case persisted_message user_id source data of None \<Rightarrow> Inl MemoryKeyError | Some t \<Rightarrow> Inr t)
         | _ \<Rightarrow> Inl MemoryKeyError), w')))"

definition extraction_row :: "pystr \<Rightarrow> int \<Rightarrow> pystr \<Rightarrow> ArchivalExtractionEnvelope \<Rightarrow> row" where
  "extraction_row user_id source idempotency_key envelope =
     [(u ''user_id'', PStr user_id), (u ''source_chat_log_id'', PInt source), (u ''extractor_version'', PInt (env_extractor_version envelope)),
      (u ''schema_version'', PInt (env_schema_version envelope)), (u ''idempotency_key'', PStr idempotency_key),
      (u ''facts'', PList (map (\<lambda>f. PDict [(PStr (u ''content''), PStr (af_content f)), (PStr (u ''importance''), flt (af_importance f)),
         (PStr (u ''tags''), PList (map PStr (af_tags f)))]) (env_facts envelope)))]"

definition store_archival_extraction ::
    "'w MemoryManager \<Rightarrow> pystr \<Rightarrow> int \<Rightarrow> pystr \<Rightarrow> ArchivalExtractionEnvelope \<Rightarrow> 'w \<Rightarrow> (memory_exn + unit) \<times> 'w" where
  "store_archival_extraction M user_id source idempotency_key envelope w = (case mm_supabase M of
     None \<Rightarrow> (Inl MemoryRuntimeError, w)
   | Some C \<Rightarrow> (let (a, w') = mc_insert_extraction C (extraction_row user_id source idempotency_key envelope) w in
       ((case a of
           DbRaises code \<Rightarrow> Inl (if code = Some (u ''23505'') then ArchivalDuplicateError else MemoryRuntimeError)
         | _ \<Rightarrow> if answer_data a = None then Inl MemoryRuntimeError else Inr ()), w')))"

section \<open>What is retrieved\<close>

lemma number_within_float: "number_within lo hi v \<Longrightarrow> \<exists>f. py_float v = Some f \<and> isfinite f"
  by (auto simp: number_within_def split: option.splits)

lemma init_facts:
  assumes "RetrievedMemory_init content tags source_id confidence provenance epistemic_status approved version similarity = Some m"
  shows "content = PStr (rm_content m)" "strip (rm_content m) \<noteq> []" "source_id = PStr (rm_source_id m)" "confidence = rm_confidence m"
    "number_within 0 1 (rm_confidence m)" "rm_provenance m \<in> set PROVENANCES" "rm_epistemic_status m \<in> set EPISTEMIC_STATUSES"
    "approved = PBool (rm_approved m)" "version = PInt (rm_metadata_version m)"
  using assms by (auto simp: RetrievedMemory_init_def split: pyobj.splits option.splits if_splits)

lemma strip_uuid:
  assumes "lower_uuid_text s"
  shows "strip s \<noteq> []"
proof -
  obtain c t where s: "s = c # t" "hex_digit c" using assms by (cases s) (auto simp: lower_uuid_text_def uuid_shape_def numeral_eq_Suc)
  then have "\<not> is_space c" by (auto simp: hex_digit_def is_space_def)
  then show ?thesis using s(1) by (simp add: strip_def dropWhile_eq_Nil_conv)
qed

lemma retrieved_memory_checks:
  assumes "strip (rm_content m) \<noteq> []" "number_within 0 1 (rm_confidence m)" "rm_provenance m \<in> set PROVENANCES" "rm_epistemic_status m \<in> set EPISTEMIC_STATUSES"
    "check_memory (memory_object m) = Inr ()"
  shows "converts (memory_object m)"
proof -
  have c: "rm_content m \<noteq> []" using assms(1) by (auto simp: strip_def)
  obtain f where f: "py_float (rm_confidence m) = Some f" "isfinite f" using number_within_float [OF assms(2)] by blast
  have n: "\<not> is_bool (rm_confidence m)" "is_number (rm_confidence m)" "rm_confidence m \<noteq> PNone" "0 \<le> num_val (rm_confidence m)" "num_val (rm_confidence m) \<le> 1"
    using assms(2) by (auto simp: number_within_def)
  have id: "lower_uuid_text (rm_source_id m)" "rm_source_id m \<noteq> []"
    using assms(5) by (auto simp: check_memory_def memory_object_def ctx_validate_canonical_uuid_def Trusted_Context.reject_def str_or_empty_def)
  show ?thesis unfolding converts_def using assms(1,3,4) c f n id strip_uuid [OF id(1)]
    by (auto simp: memory_object_def to_context_item_def ContextItem_init_def Trusted_Context.reject_def in_frozenset_def str_or_empty_def
        confidence_range_def approved_memory_def ctx_validate_canonical_uuid_def Let_def)
qed

lemma parse_document_facts:
  assumes "parse_document int16 doc = Some m"
  shows "rm_approved m" "rm_metadata_version m = 1" "uuid_accepts int16 (rm_source_id m)" "strip (rm_content m) \<noteq> []"
    "number_within 0 1 (rm_confidence m)" "rm_provenance m \<in> set PROVENANCES" "rm_epistemic_status m \<in> set EPISTEMIC_STATUSES"
proof -
  obtain content tags doc_id confidence provenance epistemic similarity where
    i: "RetrievedMemory_init content tags (PStr doc_id) confidence provenance epistemic (PBool True) (PInt SUPPORTED_MEMORY_METADATA_SCHEMA_VERSION) similarity = Some m"
    "uuid_accepts int16 doc_id"
    using assms by (auto simp: parse_document_def Let_def bind_eq_Some_conv split: pyobj.splits if_splits)
  note f = init_facts [OF i(1)]
  show "rm_approved m" "rm_metadata_version m = 1" "uuid_accepts int16 (rm_source_id m)" "strip (rm_content m) \<noteq> []" "number_within 0 1 (rm_confidence m)"
    "rm_provenance m \<in> set PROVENANCES" "rm_epistemic_status m \<in> set EPISTEMIC_STATUSES"
    using f i(2) by (auto simp: SUPPORTED_MEMORY_METADATA_SCHEMA_VERSION_def)
qed

lemma retrieved_are_parsed:
  assumes "fst (retrieve_relevant_entries int16 M user_id query w) = Inr ms"
  shows "\<forall>m \<in> set ms. \<exists>doc. parse_document int16 doc = Some m"
  using assms by (auto simp: retrieve_relevant_entries_def retrieval_failure_def Let_def split_beta List.map_filter_def
      split: option.splits prod.splits db_answer.splits pyobj.splits if_splits) blast

lemma load_context_cases:
  assumes "fst (load_context_data iso_utc int16 M user_id msg profile persona w) = Inr ld"
  obtains rows ms where "LoadedContextData_init iso_utc (PTuple rows) (Some (map memory_object ms)) profile (py_or persona (PStr [])) = Inr ld"
    "\<forall>m \<in> set ms. \<exists>doc. parse_document int16 doc = Some m"
proof -
  obtain rows w1 where h: "mem_load_recent_history M user_id 10 w = (Inr rows, w1)"
    using assms by (cases "mem_load_recent_history M user_id 10 w") (auto simp: load_context_data_def io_bind_def split: sum.splits)
  obtain ms w2 where r: "retrieve_relevant_entries int16 M user_id msg w1 = (Inr ms, w2)"
    using assms h by (cases "retrieve_relevant_entries int16 M user_id msg w1") (auto simp: load_context_data_def io_bind_def split: sum.splits)
  show thesis
    using that [of rows "filter (\<lambda>m. rm_approved m \<and> rm_metadata_version m = SUPPORTED_MEMORY_METADATA_SCHEMA_VERSION) ms"] assms h r
      retrieved_are_parsed [of int16 M user_id msg w1 ms]
    by (auto simp: load_context_data_def io_bind_def io_lift_def Let_def)
qed

lemma loaded_memories:
  assumes "LoadedContextData_init iso_utc rows (Some mems) profile persona = Inr ld"
  shows "ld_retrieved_memories ld = mems" "\<forall>m \<in> set mems. check_memory m = Inr ()"
  using assms by (auto simp: LoadedContextData_init_def check_all_iff split: pyobj.splits)

section \<open>A saved turn\<close>

lemma has_key_get: "dict_get d k \<noteq> PNone \<Longrightarrow> has_key d k"
  by (auto simp: dict_get_def has_key_def split: option.splits dest: map_of_SomeD)

text \<open>A returned row: of the user, with this role and content and a positive id.\<close>

definition row_saved :: "pystr \<Rightarrow> string \<Rightarrow> pystr \<Rightarrow> int \<Rightarrow> pyobj \<Rightarrow> bool" where
  "row_saved user_id role content i v \<longleftrightarrow> 0 < i \<and> (\<exists>d. v = PDict d \<and> dict_get d (u ''id'') = PInt i \<and> dict_get d (u ''user_id'') = PStr user_id
     \<and> dict_get d (u ''role'') = PStr (u role) \<and> dict_get d (u ''content'') = PStr content)"

lemma assign_Some:
  assumes "assign_records user_id (v # vs) ur ar = Some z"
  obtains (user) d i where "v = PDict d" "ur = None" "0 < i" "dict_get d (u ''id'') = PInt i" "dict_get d (u ''user_id'') = PStr user_id"
      "dict_get d (u ''role'') = PStr (u ''user'')" "assign_records user_id vs (Some (i, dict_get d (u ''content''))) ar = Some z"
  | (assistant) d i where "v = PDict d" "ar = None" "0 < i" "dict_get d (u ''id'') = PInt i" "dict_get d (u ''user_id'') = PStr user_id"
      "dict_get d (u ''role'') = PStr (u ''assistant'')" "assign_records user_id vs ur (Some (i, dict_get d (u ''content''))) = Some z"
  using assms by (cases ur; cases ar) (auto simp: not_le split: pyobj.splits if_splits)

lemma assign_user:
  assumes "row_saved user_id ''user'' c i v"
  shows "assign_records user_id (v # vs) None ar = assign_records user_id vs (Some (i, PStr c)) ar"
  using assms by (auto simp: row_saved_def has_key_get)

lemma assign_assistant:
  assumes "row_saved user_id ''assistant'' c i v"
  shows "assign_records user_id (v # vs) ur None = assign_records user_id vs ur (Some (i, PStr c))"
  using assms by (auto simp: row_saved_def has_key_get)

lemma assign_two:
  "assign_records user_id [v1, v2] None None = Some (Some (i, PStr c), Some (j, PStr c')) \<longleftrightarrow>
     row_saved user_id ''user'' c i v1 \<and> row_saved user_id ''assistant'' c' j v2 \<or> row_saved user_id ''assistant'' c' j v1 \<and> row_saved user_id ''user'' c i v2"
proof
  assume "assign_records user_id [v1, v2] None None = Some (Some (i, PStr c), Some (j, PStr c'))"
  then show "row_saved user_id ''user'' c i v1 \<and> row_saved user_id ''assistant'' c' j v2 \<or> row_saved user_id ''assistant'' c' j v1 \<and> row_saved user_id ''user'' c i v2"
  proof (cases rule: assign_Some)
    case (user d k)
    from user(7) show ?thesis by (cases rule: assign_Some) (use user in \<open>auto simp: row_saved_def\<close>)
  next
    case (assistant d k)
    from assistant(7) show ?thesis by (cases rule: assign_Some) (use assistant in \<open>auto simp: row_saved_def\<close>)
  qed
next
  assume "row_saved user_id ''user'' c i v1 \<and> row_saved user_id ''assistant'' c' j v2 \<or> row_saved user_id ''assistant'' c' j v1 \<and> row_saved user_id ''user'' c i v2"
  then show "assign_records user_id [v1, v2] None None = Some (Some (i, PStr c), Some (j, PStr c'))"
    by (elim disjE conjE) (simp_all only: assign_user assign_assistant assign_records.simps(1))
qed

lemma persisted_turn_iff:
  "persisted_turn user_id user_msg bot_msg data = Some r \<longleftrightarrow> (\<exists>v1 v2. data = PList [v1, v2] \<and> ptr_user_id r = user_id \<and> source_chat_log_id r \<noteq> assistant_chat_log_id r
     \<and> (row_saved user_id ''user'' user_msg (source_chat_log_id r) v1 \<and> row_saved user_id ''assistant'' bot_msg (assistant_chat_log_id r) v2
      \<or> row_saved user_id ''assistant'' bot_msg (assistant_chat_log_id r) v1 \<and> row_saved user_id ''user'' user_msg (source_chat_log_id r) v2))"
  (is "?l \<longleftrightarrow> ?r")
proof
  assume ?l
  then obtain records i j where d: "data = PList records" "length records = 2" "i \<noteq> j"
    "assign_records user_id records None None = Some (Some (i, PStr user_msg), Some (j, PStr bot_msg))"
    "r = \<lparr>ptr_user_id = user_id, source_chat_log_id = i, assistant_chat_log_id = j\<rparr>"
    by (auto simp: persisted_turn_def split: pyobj.splits if_splits option.splits)
  obtain v1 v2 where "records = [v1, v2]" using d(2) by (auto simp: numeral_2_eq_2 length_Suc_conv)
  then show ?r using d assign_two by auto
next
  assume ?r
  then obtain v1 v2 where r: "data = PList [v1, v2]" "ptr_user_id r = user_id" "source_chat_log_id r \<noteq> assistant_chat_log_id r"
    "assign_records user_id [v1, v2] None None = Some (Some (source_chat_log_id r, PStr user_msg), Some (assistant_chat_log_id r, PStr bot_msg))"
    using assign_two by blast
  then show ?l by (simp add: persisted_turn_def del: assign_records.simps)
qed

section \<open>Properties\<close>

text \<open>C14: the context that is loaded can always be used.  Every memory of the loaded data is an approved one of the supported version that stands under
  a canonical UUID with a confidence between 0 and 1, and building the bundle of the turn from the data cannot fail: each row becomes a
  message, the references are distinct and the history can be sorted.\<close>

theorem loaded_context_usable:
  assumes "fst (load_context_data iso_utc int16 M user_id msg profile persona w) = Inr ld"
    and "\<And>v t. canon v = Some t \<Longrightarrow> strip t \<noteq> []" and "strip policy \<noteq> []"
  shows "(\<exists>ms. ld_retrieved_memories ld = map memory_object ms \<and> (\<forall>m \<in> set ms. rm_approved m \<and> rm_metadata_version m = 1
            \<and> lower_uuid_text (rm_source_id m) \<and> number_within 0 1 (rm_confidence m)))
    \<and> (\<exists>b. build_context_bundle canon iso_utc (PStr policy) (Inst ld) = Inr b \<and> length (cb_history b) = length (ld_history_rows ld)
         \<and> validate_unique_refs b = Inr () \<and> (\<exists>s. sort_history (cb_history b) = Inr s))"
proof -
  obtain rows ms where ld: "LoadedContextData_init iso_utc (PTuple rows) (Some (map memory_object ms)) profile (py_or persona (PStr [])) = Inr ld"
    and ms: "\<forall>m \<in> set ms. \<exists>doc. parse_document int16 doc = Some m" using load_context_cases [OF assms(1)] by blast
  note l = loaded_memories [OF ld]
  have "\<forall>m \<in> set ms. rm_approved m \<and> rm_metadata_version m = 1 \<and> lower_uuid_text (rm_source_id m) \<and> number_within 0 1 (rm_confidence m)"
    using ms l(2) parse_document_facts
    by (fastforce simp: check_memory_def memory_object_def ctx_validate_canonical_uuid_def Trusted_Context.reject_def str_or_empty_def)
  moreover have "\<forall>m \<in> set (ld_retrieved_memories ld). converts m"
    using ms l parse_document_facts retrieved_memory_checks by fastforce
  moreover obtain b where "build_context_bundle canon iso_utc (PStr policy) (Inst ld) = Inr b" "length (cb_history b) = length (ld_history_rows ld)"
    "validate_unique_refs b = Inr ()" "\<exists>s. sort_history (cb_history b) = Inr s"
    using validated_data_becomes_bundle [OF ld calculation(2) _ assms(3), of canon] assms(2) by blast
  ultimately show ?thesis using l(1) by blast
qed

definition sample_document :: pyobj where
  "sample_document = PDict [(PStr (u ''id''), PStr (u ''11111111-1111-1111-1111-111111111111'')), (PStr (u ''content''), PStr (u ''Likes tea'')),
     (PStr (u ''metadata''), PDict [(PStr (u ''schema_version''), PInt 1), (PStr (u ''approved''), PBool True), (PStr (u ''provenance''), PStr (u ''user_confirmed'')),
        (PStr (u ''epistemic_status''), PStr (u ''approved'')), (PStr (u ''confidence''), flt 1), (PStr (u ''tags''), PList [PStr (u ''tea'')])])]"

definition sample_memory_client :: "unit memory_client" where
  "sample_memory_client = \<lparr>mc_select_profile = (\<lambda>_. Pair DbNone), mc_insert_profile = (\<lambda>_. Pair DbNone), mc_update_profile = (\<lambda>_ _. Pair DbNone),
     mc_select_history = (\<lambda>_ _. Pair (DbResponse False (Some (PList [PDict [(PStr (u ''id''), PInt 7), (PStr (u ''role''), PStr (u ''user'')),
       (PStr (u ''content''), PStr (u ''hello'')), (PStr (u ''created_at''), PStr (u ''2026-01-01T00:00:00''))]])))), mc_insert_turn = (\<lambda>_. Pair DbNone),
     mc_select_message = (\<lambda>_ _. Pair DbNone), mc_insert_extraction = (\<lambda>_. Pair DbNone),
     mc_match_memories = (\<lambda>_. Pair (DbResponse False (Some (PList [sample_document]))))\<rparr>"

definition sample_manager :: "unit MemoryManager" where
  "sample_manager = MemoryManager_init (Pair (Fin 1)) (Pair 0) (Some sample_memory_client) (Some (\<lambda>_. Pair (Some (PList [])))) True"

lemma sample_uuid_text: "lower_uuid_text (u ''11111111-1111-1111-1111-111111111111'')"
  by (simp add: lower_uuid_text_def uuid_shape_def u_def hex_digit_def numeral_eq_Suc)

lemma sample_uuid_accepted: "uuid_accepts (\<lambda>_. Some 0) (u ''11111111-1111-1111-1111-111111111111'')"
  by (simp add: uuid_accepts_def strip_braces_def u_def)

lemma sample_text: "strip (u ''Likes tea'') \<noteq> []" "strip (u ''hello'') \<noteq> []" "strip (u ''2026-01-01T00:00:00'') \<noteq> []"
  by (simp_all add: strip_def u_def is_space_def)

definition sample_memory :: RetrievedMemory where
  "sample_memory = \<lparr>rm_content = u ''Likes tea'', rm_tags = normalized_tags [PStr (u ''tea'')], rm_source_id = u ''11111111-1111-1111-1111-111111111111'',
     rm_confidence = flt 1, rm_provenance = u ''user_confirmed'', rm_epistemic_status = u ''approved'', rm_approved = True, rm_metadata_version = 1,
     rm_retrieval_similarity = PNone\<rparr>"

lemma sample_parses: "parse_document (\<lambda>_. Some 0) sample_document = Some sample_memory"
  by (simp add: parse_document_def sample_document_def dict_get_Cons SUPPORTED_MEMORY_METADATA_SCHEMA_VERSION_def PROVENANCES_def EPISTEMIC_STATUSES_def
      number_within_def RetrievedMemory_init_def usable_similarity_def sample_uuid_accepted sample_text Let_def raw_tag_values_def sample_memory_def dict_get_def [of "[]"])

lemma sample_checked: "check_memory (memory_object sample_memory) = Inr ()"
  by (simp add: check_memory_def memory_object_def sample_memory_def Trusted_Context.reject_def ctx_validate_canonical_uuid_def str_or_empty_def
      sample_uuid_text opt_in_frozenset_def in_frozenset_def PROVENANCES_def EPISTEMIC_STATUSES_def confidence_range_def)

lemma sample_loads: "\<exists>ld. fst (load_context_data Some (\<lambda>_. Some 0) sample_manager (u ''ana'') (u ''tea?'') (PDict []) PNone ()) = Inr ld"
  by (simp add: load_context_data_def io_bind_def io_lift_def mem_load_recent_history_def retrieve_relevant_entries_def sample_manager_def MemoryManager_init_def
      sample_memory_client_def answer_data_def history_item_def has_key_def dict_get_Cons MAX_MESSAGE_LENGTH_def List.map_filter_def sample_parses
      LoadedContextData_init_def check_history_row_def Trusted_Context.reject_def str_or_empty_def sample_text parse_timestamp_def sample_checked py_or_def Let_def
      SUPPORTED_MEMORY_METADATA_SCHEMA_VERSION_def)

theorem loaded_context_usable_witness:
  "\<exists>ld b. fst (load_context_data Some (\<lambda>_. Some 0) sample_manager (u ''ana'') (u ''tea?'') (PDict []) PNone ()) = Inr ld
     \<and> build_context_bundle count_canon Some (PStr (u ''policy'')) (Inst ld) = Inr b"
proof -
  obtain ld where ld: "fst (load_context_data Some (\<lambda>_. Some 0) sample_manager (u ''ana'') (u ''tea?'') (PDict []) PNone ()) = Inr ld"
    using sample_loads by blast
  have "strip (u ''policy'') \<noteq> []" by (simp add: strip_def u_def is_space_def)
  then show ?thesis using loaded_context_usable [OF ld, of count_canon "u ''policy''"] count_canon_nonblank ld by blast
qed

text \<open>C15: a saved turn is exactly confirmed.  \<open>save_turn\<close> returns a reference if and only if both messages are within their bound and the one insertion of
  the two rows was answered, without error, by exactly one row of the user for each role, with the contents that were sent and two different
  positive ids, which are the ids of the reference.\<close>

theorem save_turn_exact:
  "save_turn M user_id user_msg bot_msg w = (Inr r, w') \<longleftrightarrow> (\<exists>C v1 v2. mm_supabase M = Some C
     \<and> length user_msg \<le> MAX_MESSAGE_LENGTH \<and> length bot_msg \<le> MAX_MESSAGE_LENGTH
     \<and> mc_insert_turn C (turn_rows user_id user_msg bot_msg) w = (DbResponse False (Some (PList [v1, v2])), w')
     \<and> ptr_user_id r = user_id \<and> source_chat_log_id r \<noteq> assistant_chat_log_id r
     \<and> (row_saved user_id ''user'' user_msg (source_chat_log_id r) v1 \<and> row_saved user_id ''assistant'' bot_msg (assistant_chat_log_id r) v2
      \<or> row_saved user_id ''assistant'' bot_msg (assistant_chat_log_id r) v1 \<and> row_saved user_id ''user'' user_msg (source_chat_log_id r) v2))"
proof -
  have a: "Option.bind (answer_data a) (persisted_turn user_id user_msg bot_msg) = Some r \<longleftrightarrow>
      (\<exists>data. a = DbResponse False (Some data) \<and> persisted_turn user_id user_msg bot_msg data = Some r)" for a
    by (auto simp: answer_data_def persisted_turn_def bind_eq_Some_conv split: db_answer.splits bool.splits option.splits)
  show ?thesis
  proof (cases "mm_supabase M")
    case (Some C)
    obtain a w1 where i: "mc_insert_turn C (turn_rows user_id user_msg bot_msg) w = (a, w1)" by fastforce
    show ?thesis using Some i a [of a] persisted_turn_iff
      by (cases "Option.bind (answer_data a) (persisted_turn user_id user_msg bot_msg)") (auto simp: save_turn_def not_less)
  qed (simp add: save_turn_def)
qed

end
