(* ===== verification/Engine_Prompts.thy ===== *)
theory Engine_Prompts
  imports Trusted_Policy Long_Term_Memory "HOL-Library.Sublist"
begin

text \<open>
  The texts and messages the conversation engine (\<open>backend/engine.py\<close>) builds itself: the older system prompt, the header and the safety suffix, the
  prompt of the archival extraction, and the messages of a generation with pruned context.
\<close>

section \<open>Texts\<close>

text \<open>The state block is the one of the trusted policy; the rules differ from those of \<open>trusted_policy.py\<close> in one word.\<close>

definition engine_rules :: pystr where
  "engine_rules =
     u ''=== TRANSPAR'' @ [202] @ u ''NCIA DE IDENTIDADE ==='' @ [10] @ u ''- Quando perguntada diretamente, responda honestamente que '' @
     [233] @ u '' uma assistente de IA ou sistema digital.'' @ [10] @ u ''- N'' @ [227] @ u ''o afirme ser humana nem possuir consci'' @ [234] @
     u ''ncia, corpo f'' @ [237] @ u ''sico ou experi'' @ [234] @ u ''ncia humana literal.'' @ [10] @
     u ''- Mantenha um tom expressivo e feminino sem mentir sobre sua natureza.'' @ [10, 10] @ u ''=== PRONOMES FEMININOS ==='' @ [10] @
     u ''- Use pronomes e flex'' @ [245] @ u ''es femininas para se referir a si mesma.'' @ [10] @ u ''- Isso n'' @ [227] @
     u ''o deve ser usado para sugerir humanidade biol'' @ [243] @ u ''gica.'' @ [10, 10] @ u ''=== N'' @ [195] @ u ''O MANIPULA'' @
     [199, 195] @ u ''O E N'' @ [195] @ u ''O SEXUALIZA'' @ [199, 195] @ u ''O ==='' @ [10] @ u ''- N'' @ [227] @ u ''o use coer'' @
     [231, 227] @ u ''o emocional, manipula'' @ [231, 227] @ u ''o de v'' @ [237] @ u ''nculo, culpa, medo de abandono ou depend'' @ [234] @
     u ''ncia.'' @ [10] @ u ''- N'' @ [227] @ u ''o use sexualiza'' @ [231, 227] @ u ''o nem sexualize automaticamente as conversas.'' @ [10] @
     u ''- N'' @ [227] @ u ''o aja de forma submissa, obediente ou servil por padr'' @ [227] @ u ''o.'' @ [10] @ u ''- N'' @ [227] @
     u ''o recompense ordens coercivas.'' @ [10] @ u ''- N'' @ [227] @ u ''o use amea'' @ [231] @
     u ''as de afastamento ou sofrimento para controlar o usu'' @ [225] @ u ''rio.'' @ [10, 10] @ u ''=== LIMITES SEM ESCALADA ==='' @ [10] @
     u ''- Diante de insultos ou agressividade, estabele'' @ [231] @ u ''a limites de forma firme, breve e segura.'' @ [10] @ u ''- N'' @
     [227] @ u ''o use sarcasmo hostil, retalia'' @ [231, 227] @ u ''o, humilha'' @ [231, 227] @ u ''o ou puni'' @ [231, 227] @
     u ''o emocional.'' @ [10] @ u ''- N'' @ [227] @ u ''o escale insultos e n'' @ [227] @ u ''o responda de forma passivo-agressiva.'' @
     [10, 10] @ u ''Regras adicionais de estilo:'' @ [10] @ u ''- Profundidade emocional genu'' @ [237] @ u ''na.'' @ [10] @
     u ''- Use linguagem sensorial.'' @ [10] @ u ''- Show, don'' @ [39] @ u ''t tell.'' @ [10] @ u ''- Micro-comportamentos naturais.'' @ [10] @
     u ''- Imperfei'' @ [231, 245] @ u ''es naturais.'' @ [10] @ u ''- Use met'' @ [225] @ u ''foras humanas, n'' @ [227] @ u ''o de m'' @
     [225] @ u ''quina.'' @ [10] @ u ''- Respostas concisas (max 2-3 frases).'' @ [10] @ u ''- Leve em conta o relacionamento.''"

definition mood_of :: "EmotionalStateV1 \<Rightarrow> pystr" where
  "mood_of s = classify_pad_mood (es_pleasure s) (es_arousal s) (es_dominance s)"

definition adaptation_text :: "pystr \<Rightarrow> pystr" where
  "adaptation_text adaptation_strategy = (if adaptation_strategy \<noteq> [] then adaptation_strategy else u ''Seja voc'' @ [234] @ u '' mesma.'')"

text \<open>The acting instruction is followed by a blank and the empty coping instruction.\<close>

definition build_prompt_header :: "EmotionalStateV1 \<Rightarrow> RelationshipStateV1 \<Rightarrow> pystr \<Rightarrow> pystr" where
  "build_prompt_header s r adaptation_strategy =
     strip (policy_state s r (mood_of s) (get_acting_instruction s @ u '' '') (adaptation_text adaptation_strategy) @ [10])"

definition build_prompt_suffix :: pystr where
  "build_prompt_suffix = strip (10 # engine_rules)"

definition engine_trusted_policy :: "EmotionalStateV1 \<Rightarrow> RelationshipStateV1 \<Rightarrow> pystr \<Rightarrow> pystr" where
  "engine_trusted_policy s r adaptation_strategy =
     strip (policy_state s r (mood_of s) (get_acting_instruction s) (adaptation_text adaptation_strategy) @ [10, 10] @ engine_rules @ [10])"

definition build_mandatory_system_prompt :: "EmotionalStateV1 \<Rightarrow> RelationshipStateV1 \<Rightarrow> pystr \<Rightarrow> pystr" where
  "build_mandatory_system_prompt s r adaptation_strategy = build_prompt_header s r adaptation_strategy @ [10, 10] @ build_prompt_suffix"

text \<open>Every line that is not empty starts with eight blanks.\<close>

definition indent :: "pystr \<Rightarrow> pystr" where
  "indent line = (if line = [] then [] else u ''        '' @ line)"

definition build_system_prompt :: "EmotionalStateV1 \<Rightarrow> pystr \<Rightarrow> RelationshipStateV1 \<Rightarrow> pystr \<Rightarrow> pystr" where
  "build_system_prompt s context r adaptation_strategy =
     (let mood_label = mood_of s; acting_instruction = get_acting_instruction s; adaptation = adaptation_text adaptation_strategy in
     [10] @ u ''        '' @ context @ [10] @ u ''        === SEU ESTADO INTERNO ==='' @ [10] @ u ''        HUMOR: '' @ mood_label @ [10] @
     u ''        Prazer: '' @ fmt2 (es_pleasure s) @ u '' | Arousal: '' @ fmt2 (es_arousal s) @ u '' | Domin'' @ [226] @ u ''ncia: '' @
     fmt2 (es_dominance s) @ [10] @ u ''        Libido: '' @ fmt2 (es_libido s) @ u '' | Agress'' @ [227] @ u ''o: '' @ fmt2 (es_aggression s) @
     u '' | Conex'' @ [227] @ u ''o: '' @ fmt2 (es_connection s) @ [10] @ u ''        V'' @ [205] @ u ''NCULO: '' @ compute_bond_label r @
     [10] @ u ''        Confian'' @ [231] @ u ''a: '' @ fmt2 (rs_trust r) @ u '' | Afeto: '' @ fmt2 (rs_affection r) @ u '' | Tens'' @ [227] @
     u ''o: '' @ fmt2 (rs_tension r) @ [10] @ u ''        === INSTRU'' @ [199, 195] @ u ''O DE ATUA'' @ [199, 195] @ u ''O ==='' @ [10] @
     u ''        '' @ acting_instruction @ u '' '' @ [10] @ u ''        '' @ adaptation @
     [10, 10] @ join_on 10 (map indent (split_on 10 engine_rules)) @ [10] @ u ''        '')"

definition build_archival_prompt :: "pystr \<Rightarrow> pystr" where
  "build_archival_prompt user_message =
     [10] @ u ''Extract facts from this user message for archival memory.'' @ [10] @
     u ''Facts should be significant, long-term personal details.'' @ [10] @ u ''Return JSON ONLY matching: {'' @ [34] @ u ''facts'' @ [34] @
     u '':[...], '' @ [34] @ u ''schema_version'' @ [34] @ u '':1, '' @ [34] @ u ''extractor_version'' @ [34] @ u '':1}'' @ [10] @
     u ''Maximum of 5 facts. If no relevant facts, return empty facts list.'' @ [10] @ u ''User message: '' @ [34] @ user_message @ [34, 10]"

section \<open>Messages with pruned context\<close>

definition persona_component :: "pystr \<Rightarrow> (pystr \<times> pystr) list" where
  "persona_component persona = (if persona = [] then []
     else [(u ''persona'', u ''=== CORE MEMORY (QUEM VOC'' @ [202, 32, 201] @ u '') ==='' @ [10] @ persona)])"

definition history_component :: "pystr \<times> pystr \<Rightarrow> pystr \<times> pystr" where
  "history_component rc = (u ''history'', u ''=== MENSAGEM RECENTE ==='' @ [10] @ fst rc @ u '': '' @ snd rc)"

definition no_memory_text :: pystr where
  "no_memory_text = u ''Nenhuma mem'' @ [243] @ u ''ria''"

definition memory_components :: "pystr list \<Rightarrow> (pystr \<times> pystr) list" where
  "memory_components entries = map (\<lambda>e. (u ''memory'', u ''=== MEM'' @ [211] @ u ''RIA ARQUIVADA (LEMBRAN'' @ [199] @ u ''AS RELEVANTES) ==='' @ [10] @ e))
     (filter (\<lambda>e. e \<noteq> [] \<and> \<not> sublist no_memory_text e) entries)"

definition profile_component :: "pystr \<Rightarrow> (pystr \<times> pystr) list" where
  "profile_component profile = (if profile = [] \<or> profile \<in> {u ''{}'', u ''None''} then []
     else [(u ''profile'', u ''=== CORE MEMORY (QUEM '' @ [201] @ u '' O USU'' @ [193] @ u ''RIO) ==='' @ [10] @ profile)])"

definition optional_components :: "context_components \<Rightarrow> (pystr \<times> pystr) list" where
  "optional_components c = persona_component (strip (cc_persona c)) @ map history_component (cc_history_list c)
     @ memory_components (cc_memory_entries c) @ profile_component (strip (cc_user_profile_str c))"

definition labelled :: "string \<Rightarrow> (pystr \<times> pystr) list \<Rightarrow> nat list" where
  "labelled label comps = filter (\<lambda>i. fst (comps ! i) = u label) [0..<length comps]"

text \<open>The persona, the history from the newest message, the memories in the order of relevance, the profile.\<close>

definition selection_priority :: "(pystr \<times> pystr) list \<Rightarrow> nat list" where
  "selection_priority comps = labelled ''persona'' comps @ rev (labelled ''history'' comps) @ labelled ''memory'' comps @ labelled ''profile'' comps"

definition build_generation_messages ::
    "(pyobj \<Rightarrow> pystr option) \<Rightarrow> EmotionalStateV1 \<Rightarrow> context_components \<Rightarrow> RelationshipStateV1 \<Rightarrow> pystr \<Rightarrow> pystr \<Rightarrow> envelope_exn + pyobj list" where
  "build_generation_messages canon s c r user_message adaptation_strategy =
     (let header = build_prompt_header s r adaptation_strategy; suffix = build_prompt_suffix; comps = optional_components c;
          priority = selection_priority comps; limit = int PROVIDER_INPUT_MAX_ESTIMATED_UNITS in
      (case validate_provider_input canon (PList [message ''system'' (header @ [10, 10] @ suffix), message ''user'' user_message]) limit of
         Inl e \<Rightarrow> Inl (if is_envelope_error e then envelope_error ''budget_exceeded'' else e)
       | Inr _ \<Rightarrow>
           rbind (fit_optional_context canon (PList [message ''system'' header, message ''user'' user_message]) comps limit False suffix
                    (if length priority = length comps then Some (map int priority) else None)) (\<lambda>r. Inr (cf_messages r))))"

section \<open>Every component is selected once\<close>

lemma component_labels: "fst ` set (optional_components c) \<subseteq> set (map u [''persona'', ''history'', ''memory'', ''profile''])"
  by (auto simp: optional_components_def persona_component_def history_component_def memory_components_def profile_component_def split: if_splits)

lemma priority_permutes: "distinct (selection_priority (optional_components c)) \<and> set (selection_priority (optional_components c)) = {..<length (optional_components c)}"
proof -
  let ?cs = "optional_components c"
  have "i < length ?cs \<Longrightarrow> fst (?cs ! i) \<in> set (map u [''persona'', ''history'', ''memory'', ''profile''])" for i
    using component_labels [of c] by (meson image_subset_iff nth_mem)
  then have "set (selection_priority ?cs) = {..<length ?cs}" by (auto simp: selection_priority_def labelled_def)
  moreover have "distinct (selection_priority ?cs)" by (auto simp: selection_priority_def labelled_def)
  ultimately show ?thesis by blast
qed

lemma suffix_nonempty: "build_prompt_suffix \<noteq> []"
proof -
  obtain t where e: "engine_rules = u ''=== TRANSPAR'' @ t" using engine_rules_def by blast
  have "\<not> is_space 61" by (simp add: is_space_def)
  then show ?thesis by (auto simp: build_prompt_suffix_def strip_def e u_def dropWhile_eq_Nil_conv is_space_def)
qed

section \<open>Properties\<close>

text \<open>The messages of a generation.  They are the system message and the unchanged message of the user, and pass the validation of the provider's
  input.  The system message is the header, then whole optional components, each at most once and in their visual order, then the safety
  suffix: nothing that comes from the user stands after it.\<close>

theorem generation_messages_shape:
  assumes "build_generation_messages canon s c r user_message adaptation = Inr ms"
  shows "validate_provider_input canon (PList ms) (int PROVIDER_INPUT_MAX_ESTIMATED_UNITS) = Inr ()
    \<and> (\<exists>sel \<subseteq> {..<length (optional_components c)}. ms =
         [message ''system'' (build_prompt_header s r adaptation @ concat (map (\<lambda>t. 10 # t) (selected_contents (optional_components c) sel))
            @ [10, 10] @ build_prompt_suffix), message ''user'' user_message])"
proof -
  let ?cs = "optional_components c" and ?h = "build_prompt_header s r adaptation" and ?l = "int PROVIDER_INPUT_MAX_ESTIMATED_UNITS"
  let ?m = "[message ''system'' ?h, message ''user'' user_message]" and ?p = "suffix_payload_of build_prompt_suffix"
  obtain pr fit where fit: "fit_optional_context canon (PList ?m) ?cs ?l False build_prompt_suffix pr = Inr fit" and ms: "ms = cf_messages fit"
    using assms unfolding build_generation_messages_def Let_def by (auto split: sum.splits)
  have sys: "find_index is_system ?m = Some 0" "msg_content (message ''system'' t) = t" for t
    by (simp_all add: is_system_def msg_get_def message_def msg_content_def dict_get_Cons)
  have v: "validate_provider_input canon (PList ?m) ?l = Inr ()" and impl: "fit_optional_context_impl canon ?m ?cs ?l False build_prompt_suffix pr = Inr fit"
    using fit by (auto simp: fit_optional_context_def)
  have p: "?p = [10, 10] @ build_prompt_suffix" using suffix_nonempty by (simp add: suffix_payload_of_def)
  have "\<exists>current sel. finish_fit canon ?l build_prompt_suffix current = Inr ms \<and> find_index is_system current = Some 0 \<and> length current = 2
      \<and> current ! 1 = message ''user'' user_message \<and> sel \<subseteq> {..<length ?cs} \<and> msg_content (current ! 0) = built_content ?h (selected_contents ?cs sel) []"
  proof (cases "?cs = []")
    case True
    then show ?thesis using impl ms sys
      by (intro exI [of _ ?m] exI [of _ "{}"]) (auto simp: fit_optional_context_impl_def finish_fit_def Let_def built_content_def selected_contents_def)
  next
    case False
    obtain y current where y: "find_index is_system ?m = Some y" "fit_inv canon ?l False ?cs y ?m ?p (cf_selected_indices fit, current)"
      "finish_fit canon ?l build_prompt_suffix current = Inr (cf_messages fit)" using fit_impl_cases [OF impl False v] by blast
    define sel where "sel = cf_selected_indices fit"
    have i: "fit_inv canon ?l False ?cs 0 ?m ?p (sel, current)" "finish_fit canon ?l build_prompt_suffix current = Inr ms"
      using y unfolding sys(1) option.inject sel_def ms by simp_all
    note cur = fit_inv_current [OF i(1) sys(1) v]
    have "sel \<subseteq> {..<length ?cs}" using i(1) by (auto simp: fit_inv_def)
    then show ?thesis using i(2) cur(1,2) cur(3) [of 1] cur(5) sys(2) by (intro exI [of _ current] exI [of _ sel]) simp
  qed
  then obtain current sel where c: "finish_fit canon ?l build_prompt_suffix current = Inr ms" "find_index is_system current = Some 0" "length current = 2"
    "current ! 1 = message ''user'' user_message" "sel \<subseteq> {..<length ?cs}" "msg_content (current ! 0) = built_content ?h (selected_contents ?cs sel) []" by blast
  obtain a b where ab: "current = [a, b]" using c(3) by (auto simp: numeral_2_eq_2 length_Suc_conv)
  have "ms = [message ''system'' (msg_content a @ ?p), b] \<and> validate_provider_input canon (PList ms) ?l = Inr ()"
    using c(1,2) ab suffix_nonempty by (auto simp: finish_fit_def append_to_system_def)
  then show ?thesis using c(4,5,6) ab p by (auto simp: built_content_def)
qed

end
