(* ===== verification/Conversation_Engine.thy ===== *)
theory Conversation_Engine
  imports Engine_Prompts Service_Calls Groq_Language_Model
begin

text \<open>
  \<open>backend/engine.py\<close> and \<open>backend/chat_engine.py\<close>: the conversation engine over the memory manager, the language model and the event loop.  The older
  turn (\<open>ConversationEngine.process_turn\<close>) saves the messages and then the state; the active one (\<open>ChatConversationEngine.process_turn\<close>) runs the
  use case of \<open>Process_Turn\<close> on ports made of the same parts.  Log lines, and the readings of the clock that only serve them, are omitted.
\<close>

section \<open>Exceptions, language model and engine\<close>

datatype engine_exn = EnMemory memory_exn | EnModel language_error | EnEnvelope envelope_exn | EnProcess process_exn | EnOther pystr

record 'w LanguageModel =
  lm_appraise :: "pystr \<Rightarrow> TurnBudget \<Rightarrow> 'w \<Rightarrow> (engine_exn turn_exn + AppraisalV1) \<times> 'w"
  lm_generate :: "pyobj list \<Rightarrow> TurnBudget \<Rightarrow> 'w \<Rightarrow> (engine_exn turn_exn + pystr) \<times> 'w"
  lm_extract_archival :: "pyobj list \<Rightarrow> TurnBudget \<Rightarrow> 'w \<Rightarrow> (engine_exn turn_exn + pystr) \<times> 'w"

text \<open>The codecs: those of a turn, \<open>json.loads\<close>, \<open>int(text, 16)\<close>, \<open>str.lower\<close>.\<close>

record engine_codec =
  ec_turn :: codecs
  ec_loads :: "pystr \<Rightarrow> pyobj option"
  ec_int16 :: "pystr \<Rightarrow> int option"
  ec_lower :: "pystr \<Rightarrow> pystr"

text \<open>
  The engine.  A factory may raise; the probe gives \<open>None\<close> when it raises.  \<open>en_lock\<close> is the bounded acquisition of the user's lock,
  \<open>en_unlock\<close> its release.
\<close>

record 'w engine =
  en_codec :: engine_codec
  en_config :: TurnExecutionConfig
  en_turn :: ProcessTurn
  en_archival_extraction_enabled :: bool
  en_factory :: "('w \<Rightarrow> (engine_exn turn_exn + 'w LanguageModel) \<times> 'w) option"
  en_probe :: "bool option option"
  en_memory :: "'w MemoryManager"
  en_service :: "'w service_ports"
  en_await :: "rat \<Rightarrow> 'w \<Rightarrow> await_end \<times> 'w"
  en_lock :: "pystr \<Rightarrow> rat \<Rightarrow> 'w \<Rightarrow> await_end \<times> 'w"
  en_unlock :: "pystr \<Rightarrow> 'w \<Rightarrow> 'w"
  en_uuid4 :: "'w \<Rightarrow> pystr \<times> 'w"

text \<open>What changes: the model that was built lazily, and the world.\<close>

record 'w engine_state =
  eg_model :: "'w LanguageModel option"
  eg_world :: 'w

type_synonym ('a, 'w) en_action = "'w engine_state \<Rightarrow> (engine_exn turn_exn + 'a) \<times> 'w engine_state"

definition outside :: "('w \<Rightarrow> 'a \<times> 'w) \<Rightarrow> 'w engine_state \<Rightarrow> 'a \<times> 'w engine_state" where
  "outside f s = (let (x, w) = f (eg_world s) in (x, s\<lparr>eg_world := w\<rparr>))"

text \<open>\<open>None\<close> is the \<open>ValueError\<close> of the constructor.\<close>

definition engine_start :: "'w LanguageModel option \<Rightarrow> 'f option \<Rightarrow> 'w \<Rightarrow> 'w engine_state option" where
  "engine_start model factory w =
     (if model \<noteq> None \<and> factory \<noteq> None then None else Some \<lparr>eg_model = model, eg_world = w\<rparr>)"

section \<open>The language model\<close>

definition engine_model :: "'w engine \<Rightarrow> ('w LanguageModel, 'w) en_action" where
  "engine_model E s = (case eg_model s of
     Some m \<Rightarrow> (Inr m, s)
   | None \<Rightarrow> (case en_factory E of
       None \<Rightarrow> (Inl (Raised (EnModel (subclass_error LanguageModelConfigurationError))), s)
     | Some f \<Rightarrow> (case f (eg_world s) of
         (Inl e, w) \<Rightarrow> (Inl e, s\<lparr>eg_world := w\<rparr>)
       | (Inr m, w) \<Rightarrow> (Inr m, \<lparr>eg_model = Some m, eg_world = w\<rparr>))))"

definition provider_status :: "'w engine \<Rightarrow> 'w engine_state \<Rightarrow> bool" where
  "provider_status E s = (eg_model s \<noteq> None \<or> en_probe E = Some (Some True))"

text \<open>The local validation of an envelope: only its own error is translated.\<close>

definition engine_validated :: "'w engine \<Rightarrow> pyobj \<Rightarrow> engine_exn turn_exn + unit" where
  "engine_validated E messages = (case validate_provider_input (co_canon (ec_turn (en_codec E))) messages (int PROVIDER_INPUT_MAX_ESTIMATED_UNITS) of
     Inr _ \<Rightarrow> Inr ()
   | Inl e \<Rightarrow> Inl (if is_envelope_error e then TurnExecutionError provider_invalid_request else Raised (EnEnvelope e)))"

fun generation_failure :: "engine_exn turn_exn \<Rightarrow> engine_exn turn_exn" where
  "generation_failure (Raised (EnModel e)) = TurnExecutionError (language_failure_to_turn_code (le_failure e))"
| "generation_failure e = e"

fun appraisal_failure :: "engine_exn turn_exn \<Rightarrow> engine_exn turn_exn" where
  "appraisal_failure (Raised (EnModel e)) = TurnExecutionError
     (if le_class e = LanguageModelInvalidResponseError then provider_invalid_response else language_failure_to_turn_code (le_failure e))"
| "appraisal_failure e = e"

definition on_model_of :: "'w engine \<Rightarrow> ('w LanguageModel \<Rightarrow> 'w \<Rightarrow> (engine_exn turn_exn + 'a) \<times> 'w) \<Rightarrow> ('a, 'w) en_action" where
  "on_model_of E call = io_bind (engine_model E) (\<lambda>m. outside (call m))"

definition engine_appraise :: "'w engine \<Rightarrow> pystr \<Rightarrow> TurnBudget \<Rightarrow> (AppraisalV1, 'w) en_action" where
  "engine_appraise E msg budget s =
     (let (r, s') = io_bind (io_lift (engine_validated E (appraisal_messages msg))) (\<lambda>_. on_model_of E (\<lambda>m. lm_appraise m msg budget)) s
      in (with_error appraisal_failure r, s'))"

definition generate_with_messages :: "'w engine \<Rightarrow> pyobj list \<Rightarrow> TurnBudget \<Rightarrow> (pystr, 'w) en_action" where
  "generate_with_messages E messages budget s =
     (let (r, s') = io_bind (io_lift (engine_validated E (PList messages))) (\<lambda>_. on_model_of E (\<lambda>m. lm_generate m messages budget)) s
      in (with_error generation_failure r, s'))"

definition engine_generate :: "'w engine \<Rightarrow> pystr \<Rightarrow> pystr \<Rightarrow> TurnBudget \<Rightarrow> (pystr, 'w) en_action" where
  "engine_generate E system_prompt user_message = generate_with_messages E [message ''system'' system_prompt, message ''user'' user_message]"

definition engine_extract_archival :: "'w engine \<Rightarrow> pyobj list \<Rightarrow> TurnBudget \<Rightarrow> (pystr, 'w) en_action" where
  "engine_extract_archival E messages budget = on_model_of E (\<lambda>m. lm_extract_archival m messages budget)"

section \<open>Reads\<close>

text \<open>\<open>run_blocking_read\<close> on the ports of the engine.\<close>

definition blocking_read ::
    "'w engine \<Rightarrow> TurnBudget \<Rightarrow> rat \<Rightarrow> ('x \<Rightarrow> bool) \<Rightarrow> ('w \<Rightarrow> ('x turn_exn + 'a) \<times> 'w) \<Rightarrow> 'w \<Rightarrow> ('x turn_exn + 'a) \<times> 'w" where
  "blocking_read E b tmo allow f w =
     (let (now, w1) = sv_monotonic (en_service E) w; t = min (remaining_before_reserve b now) tmo in
      if t \<le> 0 then (run_blocking_read b now tmo allow (\<lambda>_. ReadTimesOut), w1)
      else case en_await E t w1 of
        (InTime, w2) \<Rightarrow> (let (r, w3) = f w2 in (run_blocking_read b now tmo allow (\<lambda>_. end_of r), w3))
      | (TimedOut, w2) \<Rightarrow> (run_blocking_read b now tmo allow (\<lambda>_. ReadTimesOut), w2)
      | (Cancelled, w2) \<Rightarrow> (run_blocking_read b now tmo allow (\<lambda>_. ReadCancelled), w2))"

definition from_memory :: "('w \<Rightarrow> (memory_exn + 'a) \<times> 'w) \<Rightarrow> 'w \<Rightarrow> (engine_exn turn_exn + 'a) \<times> 'w" where
  "from_memory f w = (let (r, w') = f w in (with_error (\<lambda>e. Raised (EnMemory e)) r, w'))"

fun context_invalid :: "engine_exn \<Rightarrow> bool" where
  "context_invalid (EnMemory (MemoryContextError (TrustedContextError c))) = True"
| "context_invalid _ = False"

fun context_rejected :: "engine_exn turn_exn \<Rightarrow> engine_exn turn_exn" where
  "context_rejected (Raised x) = (if context_invalid x then TurnExecutionError provider_invalid_request else Raised x)"
| "context_rejected e = e"

section \<open>The older turn\<close>

definition engine_time_left :: "'w engine \<Rightarrow> TurnBudget \<Rightarrow> rat \<Rightarrow> (unit, 'w) en_action" where
  "engine_time_left E b least = io_bind (io_get (outside (sv_monotonic (en_service E)))) (\<lambda>now.
     io_lift (guard (\<not> remaining_before_reserve b now \<le> least) DeadlineExceeded))"

definition engine_states :: "user_state \<Rightarrow> pyobj \<Rightarrow> engine_exn turn_exn + (EmotionalStateV1 \<times> RelationshipStateV1)" where
  "engine_states us current_time =
     rbind (with_error (\<lambda>e. Raised (EnProcess (EmotionalExn e))) (migrate_legacy_snapshot (us_emotional_state us))) (\<lambda>es.
     rbind (with_error (\<lambda>e. Raised (EnProcess (RelationExn e)))
        (if py_truthy (us_relationship_state us) then migrate_legacy_relationship_snapshot (us_relationship_state us)
         else RelationshipStateV1_neutral current_time)) (\<lambda>rs.
     Inr (es, rs)))"

datatype StageOutcome = stage_success | stage_failed | stage_timeout | stage_cancelled

definition classify_commit_error :: "engine_exn turn_exn \<Rightarrow> StageOutcome \<times> TurnErrorCode" where
  "classify_commit_error e = (case e of
     TurnExecutionError c \<Rightarrow> if c = turn_timeout then (stage_timeout, turn_timeout) else (stage_failed, c)
   | Raised (EnMemory TurnPersistenceError) \<Rightarrow> (stage_failed, persistence_unavailable)
   | Raised (EnMemory StatePersistenceError) \<Rightarrow> (stage_failed, persistence_unavailable)
   | _ \<Rightarrow> (stage_failed, internal_error))"

text \<open>The commit task runs behind a shield: no cancellation reaches its writes.\<close>

definition shielded :: "'w service_ports \<Rightarrow> 'w service_ports" where
  "shielded P = P\<lparr>sv_cancelled := Pair False\<rparr>"

definition commit_section ::
    "'w engine \<Rightarrow> TurnBudget \<Rightarrow> pystr \<Rightarrow> pystr \<Rightarrow> pystr \<Rightarrow> EmotionalStateV1 \<Rightarrow> RelationshipStateV1 \<Rightarrow> 'w \<Rightarrow> (engine_exn turn_exn + PersistedTurnRef) \<times> 'w" where
  "commit_section E budget user_id user_message response new_state relationship =
     io_bind (blocking_write (shielded (en_service E)) budget (\<lambda>_. False) (from_memory (save_turn (en_memory E) user_id user_message response))) (\<lambda>turn_ref.
     io_bind (blocking_write (shielded (en_service E)) budget (\<lambda>_. False)
        (from_memory (sync_state (en_memory E) user_id (Inst new_state) (Inst relationship) PNone))) (\<lambda>_.
     io_lift (Inr turn_ref)))"

text \<open>A cancellation that arrived meanwhile is raised when the task is drained; another error is classified.\<close>

definition drained :: "bool \<Rightarrow> engine_exn turn_exn + 'a \<Rightarrow> engine_exn turn_exn + 'a" where
  "drained called_off r = (if called_off then Inl CancelledError else case r of
     Inr x \<Rightarrow> Inr x
   | Inl (TurnExecutionError c) \<Rightarrow> Inl (TurnExecutionError c)
   | Inl e \<Rightarrow> Inl (TurnExecutionError (snd (classify_commit_error e))))"

definition commit_protected ::
    "'w engine \<Rightarrow> TurnBudget \<Rightarrow> pystr \<Rightarrow> pystr \<Rightarrow> pystr \<Rightarrow> EmotionalStateV1 \<Rightarrow> RelationshipStateV1 \<Rightarrow> 'w \<Rightarrow> (engine_exn turn_exn + PersistedTurnRef) \<times> 'w" where
  "commit_protected E budget user_id user_message response new_state relationship w =
     (let (r, w1) = commit_section E budget user_id user_message response new_state relationship w; (called_off, w2) = sv_cancelled (en_service E) w1
      in (drained called_off r, w2))"

text \<open>The stages of the turn; their events are log lines.\<close>

definition engine_load_state :: "'w engine \<Rightarrow> TurnBudget \<Rightarrow> pystr \<Rightarrow> pyobj \<Rightarrow> (user_state, 'w) en_action" where
  "engine_load_state E budget user_id current_time =
     io_bind (engine_time_left E budget 0) (\<lambda>_.
     outside (blocking_read E budget (supabase_timeout (en_config E)) (\<lambda>_. False)
       (from_memory (mem_load_user_state (en_memory E) user_id (Some current_time)))))"

definition engine_load_context :: "'w engine \<Rightarrow> TurnBudget \<Rightarrow> pystr \<Rightarrow> pystr \<Rightarrow> user_state \<Rightarrow> (LoadedContextData, 'w) en_action" where
  "engine_load_context E budget user_id user_message us =
     io_bind (engine_time_left E budget 0) (\<lambda>_ s.
       let K = en_codec E;
           (r, s') = outside (blocking_read E budget (supabase_timeout (en_config E)) context_invalid
             (from_memory (load_context_data (co_iso_utc (ec_turn K)) (ec_int16 K) (en_memory E) user_id user_message
                (us_user_profile us) (us_persona_config us)))) s
       in (with_error context_rejected r, s'))"

definition engine_generation ::
    "'w engine \<Rightarrow> TurnBudget \<Rightarrow> EmotionalStateV1 \<Rightarrow> RelationshipStateV1 \<Rightarrow> LoadedContextData \<Rightarrow> pystr \<Rightarrow> (pystr, 'w) en_action" where
  "engine_generation E budget new_state relationship loaded user_message =
     io_bind (engine_time_left E budget (1 / 2)) (\<lambda>_.
     io_bind (io_lift (with_error (map_turn_exn EnProcess)
       (generation_messages (ec_turn (en_codec E)) new_state relationship (Inst loaded) user_message))) (\<lambda>messages.
     generate_with_messages E messages budget))"

text \<open>The result: the reply, the public emotion, and the turn of the background task when one is added.\<close>

definition run_under_lock ::
    "'w engine \<Rightarrow> bool \<Rightarrow> TurnBudget \<Rightarrow> pystr \<Rightarrow> pystr \<Rightarrow> (pystr \<times> EmotionStateResponse \<times> PersistedTurnRef option, 'w) en_action" where
  "run_under_lock E background budget user_id user_message =
     io_bind (io_get (outside (sv_clock (en_service E)))) (\<lambda>now. let current_time = PFloat now in
     io_bind (engine_load_state E budget user_id current_time) (\<lambda>us.
     io_bind (io_lift (engine_states us current_time)) (\<lambda>(es, rs).
     io_bind (engine_load_context E budget user_id user_message us) (\<lambda>loaded.
     io_bind (engine_time_left E budget 0) (\<lambda>_.
     io_bind (engine_appraise E user_message budget) (\<lambda>appraisal.
     io_bind (io_lift (with_error (map_turn_exn EnProcess)
       (next_states (ec_turn (en_codec E)) (en_turn E) es rs (Inst appraisal) current_time))) (\<lambda>(es', rs').
     io_bind (engine_generation E budget es' rs' loaded user_message) (\<lambda>response.
     io_bind (io_get (outside (sv_monotonic (en_service E)))) (\<lambda>t.
     io_bind (io_lift (guard (tb_reserve budget \<le> remaining budget t) DeadlineExceeded)) (\<lambda>_.
     io_bind (outside (commit_protected E budget user_id user_message response es' rs')) (\<lambda>turn_ref.
     io_bind (io_lift (with_error (\<lambda>e. Raised (EnProcess (PresentationExn e)))
       (project_public_emotion (Some (Inst es')) (Some (Inst appraisal))))) (\<lambda>emotion.
     io_lift (Inr (response, emotion, if background \<and> en_archival_extraction_enabled E then Some turn_ref else None))))))))))))))"

text \<open>The lock is taken within the time before the reserve and released in every case.\<close>

definition run_turn_locked ::
    "('w \<Rightarrow> rat \<times> 'w) \<Rightarrow> (pystr \<Rightarrow> rat \<Rightarrow> 'w \<Rightarrow> await_end \<times> 'w) \<Rightarrow> (pystr \<Rightarrow> 'w \<Rightarrow> 'w) \<Rightarrow> TurnBudget \<Rightarrow> pystr
     \<Rightarrow> ('w \<Rightarrow> ('x turn_exn + 'a) \<times> 'w) \<Rightarrow> 'w \<Rightarrow> ('x turn_exn + 'a) \<times> 'w" where
  "run_turn_locked monotonic lock unlock budget user_id body w =
     (let (now, w1) = monotonic w in
      (case lock user_id (remaining_before_reserve budget now) w1 of
         (InTime, w2) \<Rightarrow> (let (r, w3) = body w2 in (r, unlock user_id w3))
       | (TimedOut, w2) \<Rightarrow> (Inl DeadlineExceeded, w2)
       | (Cancelled, w2) \<Rightarrow> (Inl CancelledError, w2)))"

definition on_world_of :: "('w \<Rightarrow> 'w) \<Rightarrow> 'w engine_state \<Rightarrow> 'w engine_state" where
  "on_world_of f s = s\<lparr>eg_world := f (eg_world s)\<rparr>"

definition engine_process_turn ::
    "'w engine \<Rightarrow> bool \<Rightarrow> pystr \<Rightarrow> pystr \<Rightarrow> (pystr \<times> EmotionStateResponse \<times> PersistedTurnRef option, 'w) en_action" where
  "engine_process_turn E background user_id user_message =
     io_bind (io_get (outside (sv_monotonic (en_service E)))) (\<lambda>now. let budget = create_budget (en_config E) now in
     run_turn_locked (outside (sv_monotonic (en_service E))) (\<lambda>i t. outside (en_lock E i t)) (\<lambda>i. on_world_of (en_unlock E i)) budget user_id
       (run_under_lock E background budget user_id user_message))"

section \<open>The active turn\<close>

text \<open>The ports of the use case, made of the engine's parts.\<close>

definition lift_client :: "'w client \<Rightarrow> 'w engine_state client" where
  "lift_client c = \<lparr>cl_select_profiles = (\<lambda>i. outside (cl_select_profiles c i)), cl_rpc = (\<lambda>n p. outside (cl_rpc c n p))\<rparr>"

definition as_process_exn :: "engine_exn \<Rightarrow> process_exn" where
  "as_process_exn e = (case e of
     EnProcess x \<Rightarrow> x
   | EnMemory (MemoryContextError c) \<Rightarrow> CtxExn c
   | EnMemory _ \<Rightarrow> ProviderExn (u ''memory'')
   | EnModel _ \<Rightarrow> ProviderExn (u ''model'')
   | EnEnvelope _ \<Rightarrow> ProviderExn (u ''envelope'')
   | EnOther t \<Rightarrow> ProviderExn t)"

definition for_process :: "('b \<Rightarrow> 'c) \<Rightarrow> ('b, 'w) en_action \<Rightarrow> 'w engine_state \<Rightarrow> (process_exn turn_exn + 'c) \<times> 'w engine_state" where
  "for_process f a s = (let (r, s') = a s in ((case r of Inl e \<Rightarrow> Inl (map_turn_exn as_process_exn e) | Inr x \<Rightarrow> Inr (f x)), s'))"

definition turn_ports :: "'w engine \<Rightarrow> TurnBudget \<Rightarrow> 'w engine_state ports" where
  "turn_ports E budget =
     (let K = en_codec E; P = en_service E in
      \<lparr>po_monotonic = outside (sv_monotonic P), po_clock = outside (sv_clock P), po_await = (\<lambda>t. outside (en_await E t)),
       po_cancelled = outside (sv_cancelled P), po_client = map_option lift_client (sv_client P),
       po_load_context = (\<lambda>user_id msg persona profile. for_process Inst
          (outside (from_memory (load_context_data (co_iso_utc (ec_turn K)) (ec_int16 K) (en_memory E) user_id msg profile persona)))),
       po_appraise = (\<lambda>msg. for_process Inst (engine_appraise E msg budget)),
       po_generate = (\<lambda>messages. for_process PStr (generate_with_messages E messages budget)),
       po_uuid4 = outside (en_uuid4 E)\<rparr>)"

datatype chat_exn = ChatProcess process_exn | ChatValueError

definition chat_process_turn ::
    "'w engine \<Rightarrow> pystr \<Rightarrow> pystr \<Rightarrow> pystr \<Rightarrow> TurnBudget option \<Rightarrow> TurnMode \<Rightarrow> pystr \<Rightarrow> 'w engine_state
     \<Rightarrow> (chat_exn turn_exn + ProcessTurnResult) \<times> 'w engine_state" where
  "chat_process_turn E user_id user_message request budget md correl =
     io_bind (case budget of Some b \<Rightarrow> io_lift (Inr b)
              | None \<Rightarrow> io_bind (io_get (outside (sv_monotonic (en_service E)))) (\<lambda>now. io_lift (Inr (create_budget (en_config E) now)))) (\<lambda>active_budget.
     run_turn_locked (outside (sv_monotonic (en_service E))) (\<lambda>i t. outside (en_lock E i t)) (\<lambda>i. on_world_of (en_unlock E i)) active_budget user_id
       (\<lambda>s. case ProcessTurnInput_init user_id request user_message active_budget correl md of
          None \<Rightarrow> (Inl (Raised ChatValueError), s)
        | Some inp \<Rightarrow> (let (r, s') = execute (ec_turn (en_codec E)) (turn_ports E active_budget) (en_turn E) inp s
                       in (with_error (map_turn_exn ChatProcess) r, s'))))"

section \<open>Archival extraction\<close>

datatype archival_end = ArchivalDisabled | ArchivalLoadFailed | ArchivalBudgetExceeded | ArchivalModelFailed | ArchivalInvalid | ArchivalStored
  | ArchivalDuplicate | ArchivalStoreFailed

definition archival_args :: exec_args where
  "archival_args = exec_default_args\<lparr>xa_total_deadline := flt 15, xa_supabase_timeout := flt 3, xa_commit_reserve := flt 8,
     xa_provider_attempt_timeout := flt 10, xa_connect_timeout := flt 2, xa_max_attempts := PInt 1\<rparr>"

definition archival_messages :: "pystr \<Rightarrow> pyobj list" where
  "archival_messages user_message = [message ''user'' (build_archival_prompt user_message)]"

text \<open>\<open>try: validate_provider_input(...) except ProviderEnvelopeError\<close>: whether the messages fit.\<close>

definition archival_fits :: "(pyobj \<Rightarrow> pystr option) \<Rightarrow> pyobj list \<Rightarrow> envelope_exn + bool" where
  "archival_fits canon messages = (case validate_provider_input canon (PList messages) (int PROVIDER_INPUT_MAX_ESTIMATED_UNITS) of
     Inr _ \<Rightarrow> Inr True
   | Inl e \<Rightarrow> if is_envelope_error e then Inr False else Inl e)"

fun retry_smaller :: "(pyobj \<Rightarrow> pystr option) \<Rightarrow> pystr \<Rightarrow> int \<Rightarrow> rat list \<Rightarrow> envelope_exn + pyobj list option" where
  "retry_smaller canon user_message max_content_bytes [] = Inr None"
| "retry_smaller canon user_message max_content_bytes (factor # factors) =
     (let smaller_bytes = \<lfloor>fmul (of_int max_content_bytes) factor\<rfloor> in
      if smaller_bytes < 10 then retry_smaller canon user_message max_content_bytes factors
      else rbind (truncate_utf8_safe_head_tail user_message smaller_bytes (fl (6 / 10))) (\<lambda>(truncated_msg, _).
           rbind (archival_fits canon (archival_messages truncated_msg)) (\<lambda>fits.
           if fits then Inr (Some (archival_messages truncated_msg)) else retry_smaller canon user_message max_content_bytes factors)))"

text \<open>The messages that are sent, or \<open>None\<close> when no truncation fits.\<close>

definition prepare_archival :: "(pyobj \<Rightarrow> pystr option) \<Rightarrow> pystr \<Rightarrow> envelope_exn + pyobj list option" where
  "prepare_archival canon user_message =
     rbind (archival_fits canon (archival_messages user_message)) (\<lambda>fits.
     if fits then Inr (Some (archival_messages user_message))
     else rbind (estimate_provider_input_units canon (PList (archival_messages []))) (\<lambda>overhead_units.
       let available_for_content = max 100 (int PROVIDER_INPUT_MAX_ESTIMATED_UNITS - int overhead_units);
           max_content_bytes = \<lfloor>fmul (of_int available_for_content) (fl (9 / 10))\<rfloor> in
       rbind (truncate_utf8_safe_head_tail user_message max_content_bytes (fl (6 / 10))) (\<lambda>(truncated_msg, _).
       rbind (archival_fits canon (archival_messages truncated_msg)) (\<lambda>fits.
       if fits then Inr (Some (archival_messages truncated_msg))
       else retry_smaller canon user_message max_content_bytes [fl (8 / 10), fl (6 / 10), fl (4 / 10), fl (2 / 10), fl (1 / 10)]))))"

text \<open>\<open>except Exception\<close> lets only the cancellation pass.\<close>

definition caught :: "'e turn_exn \<Rightarrow> 'b \<Rightarrow> 'e turn_exn + 'b" where
  "caught e outcome = (case e of CancelledError \<Rightarrow> Inl CancelledError | _ \<Rightarrow> Inr outcome)"

fun is_duplicate :: "engine_exn \<Rightarrow> bool" where
  "is_duplicate (EnMemory ArchivalDuplicateError) = True"
| "is_duplicate _ = False"

definition store_extraction ::
    "'w engine \<Rightarrow> TurnBudget \<Rightarrow> PersistedTurnRef \<Rightarrow> ArchivalExtractionEnvelope \<Rightarrow> 'w \<Rightarrow> (engine_exn turn_exn + archival_end) \<times> 'w" where
  "store_extraction E budget turn_ref envelope w =
     (case compute_idempotency_key (co_sha256 (ec_turn (en_codec E))) (ptr_user_id turn_ref) (source_chat_log_id turn_ref) EXTRACTOR_VERSION of
        None \<Rightarrow> (Inl (Raised (EnOther (u ''UnicodeEncodeError''))), w)
      | Some key \<Rightarrow> (let (r, w') = blocking_write (en_service E) budget is_duplicate
            (from_memory (store_archival_extraction (en_memory E) (ptr_user_id turn_ref) (source_chat_log_id turn_ref) key envelope)) w
          in ((case r of
                 Inr _ \<Rightarrow> Inr ArchivalStored
               | Inl (Raised x) \<Rightarrow> Inr (if is_duplicate x then ArchivalDuplicate else ArchivalStoreFailed)
               | Inl e \<Rightarrow> caught e ArchivalStoreFailed), w')))"

definition read_extraction :: "engine_codec \<Rightarrow> pystr \<Rightarrow> ArchivalExtractionEnvelope option" where
  "read_extraction K response_text = Option.bind (ec_loads K response_text) (\<lambda>raw. result_option (parse_archival_extraction (ec_lower K) raw))"

definition archival_answer ::
    "'w engine \<Rightarrow> TurnBudget \<Rightarrow> PersistedTurnRef \<Rightarrow> pyobj list \<Rightarrow> (archival_end, 'w) en_action" where
  "archival_answer E budget turn_ref messages s = (case engine_extract_archival E messages budget s of
     (Inl e, s1) \<Rightarrow> (caught e ArchivalModelFailed, s1)
   | (Inr response_text, s1) \<Rightarrow> (case read_extraction (en_codec E) response_text of
       None \<Rightarrow> (Inr ArchivalInvalid, s1)
     | Some envelope \<Rightarrow> outside (store_extraction E budget turn_ref envelope) s1))"

definition run_archival_extraction :: "'w engine \<Rightarrow> PersistedTurnRef \<Rightarrow> (archival_end, 'w) en_action" where
  "run_archival_extraction E turn_ref s =
     (if \<not> en_archival_extraction_enabled E then (Inr ArchivalDisabled, s)
      else case TurnExecutionConfig_init archival_args of
        Inl e \<Rightarrow> (Inl (Raised (EnOther (u ''ValueError''))), s)
      | Inr c \<Rightarrow> (let (now, s1) = outside (sv_monotonic (en_service E)) s; budget = create_budget c now in
          (case outside (blocking_read E budget (supabase_timeout (en_config E)) (\<lambda>_. False)
                  (from_memory (load_persisted_user_message (en_memory E) (ptr_user_id turn_ref) (source_chat_log_id turn_ref)))) s1 of
             (Inl e, s2) \<Rightarrow> (caught e ArchivalLoadFailed, s2)
           | (Inr user_message, s2) \<Rightarrow> (case prepare_archival (co_canon (ec_turn (en_codec E))) user_message of
               Inl e \<Rightarrow> (Inl (Raised (EnEnvelope e)), s2)
             | Inr None \<Rightarrow> (Inr ArchivalBudgetExceeded, s2)
             | Inr (Some messages) \<Rightarrow> archival_answer E budget turn_ref messages s2))))"

end
