(* ===== verification/Engine_Properties.thy ===== *)
theory Engine_Properties
  imports Conversation_Engine Turn_Result
begin

text \<open>
  What a turn and an archival extraction of the conversation engine guarantee.
\<close>

section \<open>The language model is called through validated messages\<close>

lemma outside_Inr: "outside f s = (x, s') \<longleftrightarrow> (\<exists>w. f (eg_world s) = (x, w) \<and> s' = s\<lparr>eg_world := w\<rparr>)"
  by (auto simp: outside_def split: prod.splits)

lemma engine_validated_Inr:
  "engine_validated E ms = Inr x \<longleftrightarrow> validate_provider_input (co_canon (ec_turn (en_codec E))) ms (int PROVIDER_INPUT_MAX_ESTIMATED_UNITS) = Inr ()"
  by (auto simp: engine_validated_def split: sum.splits)

lemma with_error_Inr [simp]: "with_error f r = Inr x \<longleftrightarrow> r = Inr x"
  by (cases r) simp_all

lemma generate_with_messages_Inr:
  assumes "generate_with_messages E ms b s = (Inr reply, s')"
  obtains m s1 where "validate_provider_input (co_canon (ec_turn (en_codec E))) (PList ms) (int PROVIDER_INPUT_MAX_ESTIMATED_UNITS) = Inr ()"
    "engine_model E s = (Inr m, s1)" "lm_generate m ms b (eg_world s1) = (Inr reply, eg_world s')"
  using assms
  by (auto simp: generate_with_messages_def on_model_of_def outside_Inr io_lift_Inr engine_validated_Inr split: prod.splits elim!: io_bind_InrE)

lemma engine_appraise_Inr:
  assumes "engine_appraise E msg b s = (Inr a, s')"
  obtains m s1 where "validate_provider_input (co_canon (ec_turn (en_codec E))) (appraisal_messages msg) (int PROVIDER_INPUT_MAX_ESTIMATED_UNITS) = Inr ()"
    "engine_model E s = (Inr m, s1)" "lm_appraise m msg b (eg_world s1) = (Inr a, eg_world s')"
  using assms
  by (auto simp: engine_appraise_def on_model_of_def outside_Inr io_lift_Inr engine_validated_Inr split: prod.splits elim!: io_bind_InrE)

lemma generation_failure_raised: "Raised (EnModel x) \<noteq> generation_failure e"
  by (cases e rule: generation_failure.cases) simp_all

lemma appraisal_failure_raised: "Raised (EnModel x) \<noteq> appraisal_failure e"
  by (cases e rule: appraisal_failure.cases) simp_all


lemma row_message_role: "row_message iso_utc i d = Inr m \<Longrightarrow> cm_role m \<in> {u ''user'', u ''assistant''}"
  by (auto simp: row_message_def ChatMessage_init_def in_frozenset_def Trusted_Context.reject_def str_or_empty_def split: option.splits if_splits pyobj.splits)

lemma history_messages_roles: "history_messages iso_utc i ds = Inr ms \<Longrightarrow> \<forall>m \<in> set ms. cm_role m \<in> {u ''user'', u ''assistant''}"
proof (induction ds arbitrary: i ms)
  case (Cons d ds)
  then obtain m ms' where m: "row_message iso_utc i d = Inr m" and r: "history_messages iso_utc (Suc i) ds = Inr ms'" and ms: "ms = m # ms'" by auto
  show ?case using row_message_role [OF m] Cons.IH [OF r] unfolding ms by simp
qed simp

lemma generation_messages_valid:
  assumes "generation_messages C es rs (Inst ld) msg = Inr ms"
  shows "validate_provider_input (co_canon C) (PList ms) (int PROVIDER_INPUT_MAX_ESTIMATED_UNITS) = Inr ()"
proof -
  obtain b r where b: "build_context_bundle (co_canon C) (co_iso_utc C) (PStr (build_trusted_policy es rs [])) (Inst ld) = Inr b"
    and r: "build_envelope (co_canon C) (Inst b) (PStr msg) (PInt (int PROVIDER_INPUT_MAX_ESTIMATED_UNITS)) = Inr r" and ms: "ms = br_messages r"
    using assms by (auto simp: generation_messages_def)
  have "history_messages (co_iso_utc C) 0 (ld_history_rows ld) = Inr (cb_history b)"
    using b by (auto simp: build_context_bundle_def ContextBundle_init_def)
  then have "\<forall>m \<in> set (cb_history b). cm_role m \<in> {u ''user'', u ''assistant''}" by (rule history_messages_roles)
  then show ?thesis using envelope_passes_provider_validation [OF r] ms by simp
qed

section \<open>The commit\<close>

lemma shielded_simps [simp]: "sv_monotonic (shielded P) = sv_monotonic P" "sv_cancelled (shielded P) w = (False, w)"
  by (simp_all add: shielded_def)

lemma from_memory_Inr: "fst (from_memory f w) = Inr x \<longleftrightarrow> fst (f w) = Inr x" "snd (from_memory f w) = snd (f w)"
  by (auto simp: from_memory_def split_beta Let_def)

lemma commit_protected_Inr:
  assumes "commit_protected E b uid msg reply es rs w = (Inr r, w')"
  obtains w1 w2 where "w1 = snd (sv_monotonic (en_service E) w)" "fst (save_turn (en_memory E) uid msg reply w1) = Inr r"
    "w2 = snd (sv_monotonic (en_service E) (snd (save_turn (en_memory E) uid msg reply w1)))"
    "fst (sync_state (en_memory E) uid (Inst es) (Inst rs) PNone w2) = Inr ()"
    "w' = snd (sv_cancelled (en_service E) (snd (sync_state (en_memory E) uid (Inst es) (Inst rs) PNone w2)))"
proof -
  obtain q v where c: "commit_section E b uid msg reply es rs w = (q, v)" by fastforce
  have "q = Inr r" and w': "w' = snd (sv_cancelled (en_service E) v)"
    using assms c by (auto simp: commit_protected_def drained_def split: if_splits sum.splits turn_exn.splits prod.splits)
  then obtain w2 x where s: "blocking_write (shielded (en_service E)) b (\<lambda>_. False) (from_memory (save_turn (en_memory E) uid msg reply)) w = (Inr r, w2)"
    and y: "blocking_write (shielded (en_service E)) b (\<lambda>_. False) (from_memory (sync_state (en_memory E) uid (Inst es) (Inst rs) PNone)) w2 = (Inr x, v)"
    using c unfolding commit_section_def by (auto simp: io_lift_Inr elim!: io_bind_InrE)
  obtain w1 where 1: "w1 = snd (sv_monotonic (en_service E) w)" "fst (save_turn (en_memory E) uid msg reply w1) = Inr r"
    "w2 = snd (save_turn (en_memory E) uid msg reply w1)"
    using blocking_write_Inr [OF s] by (auto simp: from_memory_Inr)
  obtain w3 where 2: "w3 = snd (sv_monotonic (en_service E) w2)" "fst (sync_state (en_memory E) uid (Inst es) (Inst rs) PNone w3) = Inr x"
    "v = snd (sync_state (en_memory E) uid (Inst es) (Inst rs) PNone w3)"
    using blocking_write_Inr [OF y] by (auto simp: from_memory_Inr)
  show ?thesis using 1 2 w' by (intro that [of w1 w3]) simp_all
qed

section \<open>The older turn\<close>

lemma blocking_read_Inr:
  assumes "blocking_read E b t allow f w = (Inr x, w')"
  obtains w2 where "f w2 = (Inr x, w')"
proof -
  obtain now w1 where m: "sv_monotonic (en_service E) w = (now, w1)" by fastforce
  show ?thesis
  proof (cases "min (remaining_before_reserve b now) t \<le> 0")
    case True
    then show ?thesis using assms m by (simp add: blocking_read_def run_blocking_read_def)
  next
    case False
    obtain a w2 where a: "en_await E (min (remaining_before_reserve b now) t) w1 = (a, w2)" by fastforce
    obtain r w3 where f: "f w2 = (r, w3)" by fastforce
    have "a = InTime" using assms m False a by (cases a) (auto simp: blocking_read_def run_blocking_read_def)
    then have "classify_read allow (end_of r) = Inr x \<and> w' = w3" using assms m False a f by (auto simp: blocking_read_def run_blocking_read_def)
    moreover have "classify_read allow (end_of r) = Inr x \<Longrightarrow> r = Inr x"
      by (cases r; cases "projl r") (auto simp: end_of_def split: if_splits)
    ultimately show ?thesis using f that by simp
  qed
qed

lemma memory_read_Inr:
  assumes "blocking_read E b t allow (from_memory f) s = (Inr x, s')"
  obtains w where "fst (f w) = Inr x"
proof -
  obtain w v where "from_memory f w = (Inr x, v)" using assms by (auto elim: blocking_read_Inr)
  then have "fst (f w) = Inr x" by (metis from_memory_Inr(1) fst_conv)
  then show ?thesis by (rule that)
qed

lemma translated_Inr: "(case p of (r, s1) \<Rightarrow> (with_error f r, s1)) = (Inr x, s') \<longleftrightarrow> p = (Inr x, s')"
  by (auto split: prod.splits)

definition turn_recorded ::
    "'w engine \<Rightarrow> pystr \<Rightarrow> pystr \<Rightarrow> pystr \<Rightarrow> EmotionalStateV1 \<Rightarrow> RelationshipStateV1 \<Rightarrow> PersistedTurnRef \<Rightarrow> 'w \<Rightarrow> bool" where
  "turn_recorded E uid msg reply es rs r w' \<longleftrightarrow> (\<exists>w1 w2. fst (save_turn (en_memory E) uid msg reply w1) = Inr r
     \<and> w2 = snd (sv_monotonic (en_service E) (snd (save_turn (en_memory E) uid msg reply w1)))
     \<and> fst (sync_state (en_memory E) uid (Inst es) (Inst rs) PNone w2) = Inr ()
     \<and> w' = snd (sv_cancelled (en_service E) (snd (sync_state (en_memory E) uid (Inst es) (Inst rs) PNone w2))))"

text \<open>
  What a returned turn is: the state was loaded, the message appraised, the two states advanced, the envelope of the new states and of the loaded context was
  validated and answered, and the turn was recorded; \<open>w'\<close> is the world after the recording.
\<close>

inductive turn_done ::
    "'w engine \<Rightarrow> bool \<Rightarrow> TurnBudget \<Rightarrow> pystr \<Rightarrow> pystr \<Rightarrow> pystr \<times> EmotionStateResponse \<times> PersistedTurnRef option \<Rightarrow> 'w \<Rightarrow> bool"
    for E background b uid msg where
  turn_doneI: "turn_done E background b uid msg (reply, emotion, task) w'"
  if "fst (mem_load_user_state (en_memory E) uid (Some (PFloat now)) w0) = Inr us"
    and "engine_states us (PFloat now) = Inr (es, rs)"
    and "fst (load_context_data (co_iso_utc (ec_turn (en_codec E))) (ec_int16 (en_codec E)) (en_memory E) uid msg (us_user_profile us)
         (us_persona_config us) w1) = Inr loaded"
    and "validate_provider_input (co_canon (ec_turn (en_codec E))) (appraisal_messages msg) (int PROVIDER_INPUT_MAX_ESTIMATED_UNITS) = Inr ()"
    and "lm_appraise (m :: 'w LanguageModel) msg b w2 = (Inr appraisal, w2')"
    and "next_states (ec_turn (en_codec E)) (en_turn E) es rs (Inst appraisal) (PFloat now) = Inr (es', rs')"
    and "generation_messages (ec_turn (en_codec E)) es' rs' (Inst loaded) msg = Inr messages"
    and "validate_provider_input (co_canon (ec_turn (en_codec E))) (PList messages) (int PROVIDER_INPUT_MAX_ESTIMATED_UNITS) = Inr ()"
    and "lm_generate (m' :: 'w LanguageModel) messages b w3 = (Inr reply, w3')"
    and "turn_recorded E uid msg reply es' rs' r w'"
    and "project_public_emotion (Some (Inst es')) (Some (Inst appraisal)) = Inr emotion"
    and "task = (if background \<and> en_archival_extraction_enabled E then Some r else None)"

lemma commit_protected_recorded: "commit_protected E b uid msg reply es rs w = (Inr r, w') \<Longrightarrow> turn_recorded E uid msg reply es rs r w'"
  unfolding turn_recorded_def by (elim commit_protected_Inr) blast

lemma run_under_lock_Inr:
  assumes "run_under_lock E background b uid msg s = (Inr x, s')"
  shows "turn_done E background b uid msg x (eg_world s')"
  using assms unfolding run_under_lock_def engine_load_state_def engine_load_context_def engine_generation_def Let_def
  apply (clarsimp simp: io_lift_Inr translated_Inr outside_Inr dest!: commit_protected_recorded split del: if_split
      elim!: io_bind_InrE memory_read_Inr engine_appraise_Inr generate_with_messages_Inr)
  apply (rule turn_doneI)
             apply (assumption | rule refl)+
  done

lemma run_turn_locked_Inr:
  assumes "run_turn_locked clk lock unlock b uid body s = (Inr x, s')"
  obtains s1 s2 where "body s1 = (Inr x, s2)" "s' = unlock uid s2"
  using assms by (auto simp: run_turn_locked_def split: prod.splits await_end.splits)


definition saved_row :: "int \<Rightarrow> string \<Rightarrow> pystr \<Rightarrow> pyobj" where
  "saved_row i role text' = PDict [(PStr (u ''id''), PInt i), (PStr (u ''role''), PStr (u role)), (PStr (u ''user_id''), PStr (u ''ana'')),
     (PStr (u ''content''), PStr text')]"

definition turn_memory :: "unit MemoryManager" where
  "turn_memory = MemoryManager_init (Pair (Fin 1)) (Pair 0) (Some (sample_memory_client
     \<lparr>mc_select_profile := (\<lambda>_. Pair (DbResponse False (Some (PList [PDict [(PStr (u ''user_profile''), PDict []),
        (PStr (u ''emotional_state''), EmotionalStateV1_to_dict calm_state), (PStr (u ''relationship_state''), RelationshipStateV1_to_dict friend_state)]])))),
      mc_update_profile := (\<lambda>_ _. Pair (DbResponse False (Some (PList [PDict []])))),
      mc_select_history := (\<lambda>_ _. Pair (DbResponse False (Some (PList [])))),
      mc_insert_turn := (\<lambda>_. Pair (DbResponse False (Some (PList [saved_row 1 ''user'' (u ''hi''), saved_row 2 ''assistant'' (u ''hi there'')]))))\<rparr>)) None False"

definition sample_language_model :: "unit LanguageModel" where
  "sample_language_model = \<lparr>lm_appraise = (\<lambda>_ _. Pair (Inr warm_appraisal)), lm_generate = (\<lambda>_ _. Pair (Inr (u ''hi there''))),
     lm_extract_archival = (\<lambda>_ _. Pair (Inr (u ''{}'')))\<rparr>"

definition sample_engine :: "unit engine" where
  "sample_engine = \<lparr>en_codec = \<lparr>ec_turn = sample_codecs, ec_loads = (\<lambda>_. None), ec_int16 = (\<lambda>_. None), ec_lower = id\<rparr>,
     en_config = projr TurnExecutionConfig_defaults, en_turn = sample_turn, en_archival_extraction_enabled = False, en_factory = None, en_probe = None,
     en_memory = turn_memory, en_service = \<lparr>sv_monotonic = Pair 0, sv_clock = Pair (Fin 2000), sv_cancelled = Pair False, sv_client = None\<rparr>,
     en_await = (\<lambda>_. Pair InTime), en_lock = (\<lambda>_ _. Pair InTime), en_unlock = (\<lambda>_ w. w), en_uuid4 = Pair []\<rparr>"

abbreviation (input) sample_budget :: TurnBudget where
  "sample_budget \<equiv> create_budget (en_config sample_engine) 0"

abbreviation (input) sample_eg :: "unit engine_state" where
  "sample_eg \<equiv> \<lparr>eg_model = Some sample_language_model, eg_world = ()\<rparr>"

definition sample_user_state :: user_state where
  "sample_user_state = \<lparr>us_persona_config = PNone, us_user_profile = PDict [], us_relationship_state = RelationshipStateV1_to_dict friend_state,
     us_emotional_state = EmotionalStateV1_to_dict calm_state\<rparr>"

lemma sample_loads_state: "mem_load_user_state turn_memory (u ''ana'') t () = (Inr sample_user_state, ())"
  by (simp add: mem_load_user_state_def turn_memory_def MemoryManager_init_def answer_data_def stored_state_def dict_get_Cons sample_user_state_def py_or_def
      EmotionalStateV1_to_dict_def RelationshipStateV1_to_dict_def dict_get_def [of "[]"])

abbreviation (input) no_context :: LoadedContextData where
  "no_context \<equiv> \<lparr>ld_history_rows = [], ld_retrieved_memories = [], ld_profile_snapshot = [], ld_persona_snapshot = []\<rparr>"

lemma sample_loads_context: "load_context_data Some int16 turn_memory (u ''ana'') (u ''hi'') (PDict []) PNone () = (Inr no_context, ())"
  by (simp add: load_context_data_def io_bind_def io_lift_def mem_load_recent_history_def turn_memory_def MemoryManager_init_def answer_data_def
      retrieve_relevant_entries_def retrieval_failure_def LoadedContextData_init_def py_or_def Let_def)

lemma sample_saves: "save_turn turn_memory (u ''ana'') (u ''hi'') (u ''hi there'') ()
    = (Inr \<lparr>ptr_user_id = u ''ana'', source_chat_log_id = 1, assistant_chat_log_id = 2\<rparr>, ())"
  by (simp add: save_turn_def turn_memory_def MemoryManager_init_def MAX_MESSAGE_LENGTH_def answer_data_def persisted_turn_def saved_row_def has_key_def
      dict_get_Cons length_u)

lemma sample_syncs: "sync_state turn_memory (u ''ana'') (Inst es) (Inst rs) PNone () = (Inr (), ())"
  by (simp add: sync_state_def turn_memory_def MemoryManager_init_def)

lemma default_execution:
  "case TurnExecutionConfig_defaults of Inl _ \<Rightarrow> False | Inr c \<Rightarrow> total_deadline c = 45 \<and> supabase_timeout c = 5 \<and> commit_reserve c = 10"
  by code_simp

lemma archival_execution:
  "case TurnExecutionConfig_init archival_args of Inl _ \<Rightarrow> False | Inr c \<Rightarrow> total_deadline c = 15 \<and> supabase_timeout c = 3 \<and> commit_reserve c = 8"
  by code_simp

lemma sample_config:
  "total_deadline (en_config sample_engine) = 45" "supabase_timeout (en_config sample_engine) = 5" "commit_reserve (en_config sample_engine) = 10"
proof -
  obtain c where c: "TurnExecutionConfig_defaults = Inr c" "total_deadline c = 45" "supabase_timeout c = 5" "commit_reserve c = 10"
    using default_execution by (auto split: sum.splits)
  have "en_config sample_engine = c" unfolding sample_engine_def engine.simps c(1) by simp
  then show "total_deadline (en_config sample_engine) = 45" "supabase_timeout (en_config sample_engine) = 5" "commit_reserve (en_config sample_engine) = 10"
    using c(2-4) by simp_all
qed

lemma sample_left: "remaining_before_reserve sample_budget 0 = 35" "remaining sample_budget 0 = 45" "tb_reserve sample_budget = 10"
proof -
  have "fl 45 = 45" "fl 35 = 35" using fl_small_int [of 45] fl_small_int [of 35] by simp_all
  then show "remaining_before_reserve sample_budget 0 = 35" "remaining sample_budget 0 = 45" "tb_reserve sample_budget = 10"
    by (simp_all add: remaining_before_reserve_def remaining_def create_budget_def sample_config fadd_def fsub_def)
qed

lemma sample_parts: "en_memory sample_engine = turn_memory" "sv_monotonic (en_service sample_engine) = Pair 0" "sv_clock (en_service sample_engine) = Pair (Fin 2000)"
  "sv_cancelled (en_service sample_engine) = Pair False" "en_await sample_engine t = Pair InTime" "en_lock sample_engine i t = Pair InTime"
  "en_unlock sample_engine i w = w" "ec_turn (en_codec sample_engine) = sample_codecs" "co_iso_utc sample_codecs = Some" "co_canon sample_codecs = count_canon"
  "en_turn sample_engine = sample_turn" "\<not> en_archival_extraction_enabled sample_engine"
  by (simp_all add: sample_engine_def sample_codecs_def)

lemma sample_generates:
  obtains ms where "generation_messages sample_codecs es rs (Inst no_context) (u ''hi'') = Inr ms"
    "generate_with_messages sample_engine ms b sample_eg = (Inr (u ''hi there''), sample_eg)"
proof -
  obtain ms where ms: "generation_messages sample_codecs es rs (Inst no_context) (u ''hi'') = Inr ms" using bare_generation by blast
  then have "engine_validated sample_engine (PList ms) = Inr ()"
    using generation_messages_valid [OF ms] by (simp add: engine_validated_Inr sample_parts)
  then show ?thesis
    by (intro that [OF ms]) (simp add: generate_with_messages_def io_bind_def io_lift_def on_model_of_def engine_model_def outside_def sample_language_model_def)
qed

lemma sample_appraises: "engine_appraise sample_engine (u ''hi'') b sample_eg = (Inr warm_appraisal, sample_eg)"
proof -
  have "\<forall>m \<in> set [PDict [(PStr (u ''role''), PStr (u ''system'')), (PStr (u ''content''), PStr APPRAISAL_POLICY)],
      PDict [(PStr (u ''role''), PStr (u ''user'')), (PStr (u ''content''), PStr (u ''hi''))]]. validate_message m = Inr ()"
    by (simp add: validate_message_def unknown_keys_def VALID_MESSAGE_KEYS_def VALID_ROLES_def dict_get_Cons)
  then have "engine_validated sample_engine (appraisal_messages (u ''hi'')) = Inr ()"
    using count_units [of "[PDict [(PStr (u ''role''), PStr (u ''system'')), (PStr (u ''content''), PStr APPRAISAL_POLICY)],
      PDict [(PStr (u ''role''), PStr (u ''user'')), (PStr (u ''content''), PStr (u ''hi''))]]"]
    by (simp add: engine_validated_Inr sample_parts appraisal_messages_def validate_provider_input_iff estimate_iff PROVIDER_INPUT_MAX_ESTIMATED_UNITS_def)
  then show ?thesis
    by (simp add: engine_appraise_def io_bind_def io_lift_def on_model_of_def engine_model_def outside_def sample_language_model_def)
qed

lemma sample_read:
  "f () = (Inr x, ()) \<Longrightarrow> blocking_read sample_engine sample_budget (supabase_timeout (en_config sample_engine)) allow f () = (Inr x, ())"
  by (simp add: blocking_read_def run_blocking_read_def sample_parts sample_left sample_config end_of_def)

lemma sample_commits: "\<exists>r. commit_protected sample_engine sample_budget (u ''ana'') (u ''hi'') (u ''hi there'') es rs () = (Inr r, ())"
  by (simp add: commit_protected_def commit_section_def io_bind_def io_lift_def blocking_write_def awaited_write_def sample_parts sample_left from_memory_def
      sample_saves sample_syncs worker_end_of_def classify_write_def drained_def shielded_def)

lemma sample_turn_returns:
  "\<exists>emotion s'. engine_process_turn sample_engine True (u ''ana'') (u ''hi'') sample_eg = (Inr (u ''hi there'', emotion, None), s')"
proof -
  let ?es = "next_state step_pow calm_state warm_appraisal 2000 default_config"
    and ?rs = "next_relationship friend_state warm_appraisal 2000 (projr RelationshipTransitionConfig_defaults)"
  have "valid_state ?es" by (rule next_state_valid [OF valid_calm_state]) simp
  then obtain em where em: "project_public_emotion (Some (Inst ?es)) (Some (Inst warm_appraisal)) = Inr em"
    using project_closed_form valid_warm_appraisal by blast
  have st: "engine_states sample_user_state (flt 2000) = Inr (calm_state, friend_state)"
    using migrate_stored [OF valid_calm_state] migrate_v1 [OF valid_friend_state]
    by (simp add: engine_states_def sample_user_state_def) (simp add: RelationshipStateV1_to_dict_def)
  have us: "us_user_profile sample_user_state = PDict []" "us_persona_config sample_user_state = PNone" by (simp_all add: sample_user_state_def)
  have ns: "next_states sample_codecs sample_turn calm_state friend_state (Inst warm_appraisal) (flt 2000) = Inr (?es, ?rs)"
    using next_states_closed [OF valid_calm_state valid_friend_state] by (simp add: friend_state_def sample_codecs_def sample_turn_def)
  obtain ms where ms: "generation_messages sample_codecs ?es ?rs (Inst no_context) (u ''hi'') = Inr ms"
    "generate_with_messages sample_engine ms sample_budget sample_eg = (Inr (u ''hi there''), sample_eg)" by (rule sample_generates)
  have tl: "engine_time_left sample_engine sample_budget t sample_eg = (Inr (), sample_eg)" if "t < 35" for t
    using that by (simp add: engine_time_left_def io_bind_def io_get_def io_lift_def outside_def sample_parts sample_left guard_def not_le)
  obtain r where cm: "commit_protected sample_engine sample_budget (u ''ana'') (u ''hi'') (u ''hi there'') ?es ?rs () = (Inr r, ())"
    using sample_commits by blast
  have "run_under_lock sample_engine True sample_budget (u ''ana'') (u ''hi'') sample_eg = (Inr (u ''hi there'', em, None), sample_eg)"
    unfolding run_under_lock_def engine_load_state_def engine_load_context_def engine_generation_def Let_def
    by (simp add: io_bind_def io_get_def io_lift_def sample_parts outside_def tl sample_read from_memory_def sample_loads_state st us sample_loads_context sample_appraises ns ms guard_def sample_left cm em)
  then show ?thesis
    by (simp add: engine_process_turn_def io_bind_def io_get_def outside_def sample_parts run_turn_locked_def on_world_of_def Let_def)
qed


section \<open>Archival extraction\<close>

abbreviation (input) archival_valid :: "(pyobj \<Rightarrow> pystr option) \<Rightarrow> pyobj list \<Rightarrow> bool" where
  "archival_valid canon ms \<equiv> validate_provider_input canon (PList ms) (int PROVIDER_INPUT_MAX_ESTIMATED_UNITS) = Inr ()"

lemma archival_fits_True: "archival_fits canon ms = Inr True \<longleftrightarrow> archival_valid canon ms"
  by (auto simp: archival_fits_def split: sum.splits if_splits)

text \<open>What is sent: the prompt of the message, or of a truncation of it.\<close>

definition archival_copy :: "pystr \<Rightarrow> pystr \<Rightarrow> bool" where
  "archival_copy user_message t \<longleftrightarrow> t = user_message \<or> (\<exists>n c. truncate_utf8_safe_head_tail user_message n (fl (6 / 10)) = Inr (t, c))"

lemma retry_smaller_valid:
  "retry_smaller canon user_message n factors = Inr (Some ms) \<Longrightarrow> \<exists>t. ms = archival_messages t \<and> archival_copy user_message t \<and> archival_valid canon ms"
  by (induction canon user_message n factors rule: retry_smaller.induct)
     (auto simp: Let_def archival_fits_True archival_copy_def split: if_splits)

lemma prepare_archival_valid:
  assumes "prepare_archival canon user_message = Inr (Some ms)"
  shows "\<exists>t. ms = archival_messages t \<and> archival_copy user_message t \<and> archival_valid canon ms"
proof -
  obtain b where b: "archival_fits canon (archival_messages user_message) = Inr b" using assms by (auto simp: prepare_archival_def)
  show ?thesis
  proof (cases b)
    case True
    then show ?thesis using assms b by (auto simp: prepare_archival_def archival_copy_def archival_fits_True)
  next
    case False
    then obtain n t c f fs where "truncate_utf8_safe_head_tail user_message n (fl (6 / 10)) = Inr (t, c)" "archival_fits canon (archival_messages t) = Inr f"
      "(if f then Inr (Some (archival_messages t)) else retry_smaller canon user_message n fs) = Inr (Some ms)"
      using assms b by (auto simp: prepare_archival_def Let_def simp del: retry_smaller.simps split: prod.splits)
    then show ?thesis using retry_smaller_valid [of canon user_message n fs ms] by (cases f) (auto simp: archival_fits_True archival_copy_def)
  qed
qed

text \<open>What a stored extraction is.\<close>

inductive extraction_done :: "'w engine \<Rightarrow> PersistedTurnRef \<Rightarrow> bool" for E r where
  extraction_doneI: "extraction_done E r"
  if "en_archival_extraction_enabled E"
    and "fst (load_persisted_user_message (en_memory E) (ptr_user_id r) (source_chat_log_id r) w0) = Inr user_message"
    and "archival_copy user_message t" and "archival_valid (co_canon (ec_turn (en_codec E))) (archival_messages t)"
    and "lm_extract_archival (m :: 'w LanguageModel) (archival_messages t) b w1 = (Inr answer, w2)"
    and "ec_loads (en_codec E) answer = Some raw" and "parse_archival_extraction (ec_lower (en_codec E)) raw = Inr envelope"
    and "compute_idempotency_key (co_sha256 (ec_turn (en_codec E))) (ptr_user_id r) (source_chat_log_id r) EXTRACTOR_VERSION = Some key"
    and "mm_supabase (en_memory E) = Some C"
    and "mc_insert_extraction C (extraction_row (ptr_user_id r) (source_chat_log_id r) key envelope) w3 = (DbResponse False (Some data), w4)"

lemma store_archival_Inr:
  assumes "fst (store_archival_extraction M uid src key envelope w) = Inr x"
  obtains C data w' where "mm_supabase M = Some C" "mc_insert_extraction C (extraction_row uid src key envelope) w = (DbResponse False (Some data), w')"
  using assms by (auto simp: store_archival_extraction_def answer_data_def Let_def split_beta split: option.splits db_answer.splits bool.splits if_splits)
    (metis prod.collapse)+

lemma store_extraction_stored:
  assumes "store_extraction E b r envelope w = (Inr ArchivalStored, w')"
  obtains key w3 where "compute_idempotency_key (co_sha256 (ec_turn (en_codec E))) (ptr_user_id r) (source_chat_log_id r) EXTRACTOR_VERSION = Some key"
    "fst (store_archival_extraction (en_memory E) (ptr_user_id r) (source_chat_log_id r) key envelope w3) = Inr ()"
proof -
  obtain key where k: "compute_idempotency_key (co_sha256 (ec_turn (en_codec E))) (ptr_user_id r) (source_chat_log_id r) EXTRACTOR_VERSION = Some key"
    using assms by (auto simp: store_extraction_def split: option.splits)
  obtain q v where q: "blocking_write (en_service E) b is_duplicate
      (from_memory (store_archival_extraction (en_memory E) (ptr_user_id r) (source_chat_log_id r) key envelope)) w = (q, v)" by fastforce
  have "q = Inr ()" using assms k q by (auto simp: store_extraction_def caught_def split: sum.splits turn_exn.splits if_splits)
  then have "blocking_write (en_service E) b is_duplicate
      (from_memory (store_archival_extraction (en_memory E) (ptr_user_id r) (source_chat_log_id r) key envelope)) w = (Inr (), v)" using q by simp
  from blocking_write_Inr [OF this] show ?thesis using that k by (metis from_memory_Inr(1))
qed

lemma archival_answer_stored:
  fixes E :: "'w engine"
  assumes "archival_answer E b r ms s = (Inr ArchivalStored, s')"
  obtains m :: "'w LanguageModel" and w1 answer w2 raw envelope w3 w4 where "lm_extract_archival m ms b w1 = (Inr answer, w2)" "ec_loads (en_codec E) answer = Some raw"
    "parse_archival_extraction (ec_lower (en_codec E)) raw = Inr envelope" "store_extraction E b r envelope w3 = (Inr ArchivalStored, w4)"
proof -
  obtain q s1 where q: "engine_extract_archival E ms b s = (q, s1)" by fastforce
  then obtain answer where a: "q = Inr answer" using assms by (cases q) (auto simp: archival_answer_def caught_def split: turn_exn.splits)
  then obtain envelope where e: "read_extraction (en_codec E) answer = Some envelope" using assms q by (auto simp: archival_answer_def split: option.splits)
  then obtain raw where r: "ec_loads (en_codec E) answer = Some raw" "result_option (parse_archival_extraction (ec_lower (en_codec E)) raw) = Some envelope"
    by (auto simp: read_extraction_def bind_eq_Some_conv)
  then have pe: "parse_archival_extraction (ec_lower (en_codec E)) raw = Inr envelope"
    by (cases "parse_archival_extraction (ec_lower (en_codec E)) raw") (simp_all add: result_option_def)
  obtain m :: "'w LanguageModel" and w1 w2 where m: "lm_extract_archival m ms b w1 = (Inr answer, w2)"
    using q a by (auto simp: engine_extract_archival_def on_model_of_def outside_Inr elim!: io_bind_InrE)
  obtain w3 w4 where "store_extraction E b r envelope w3 = (Inr ArchivalStored, w4)" using assms q a e by (auto simp: archival_answer_def outside_Inr)
  then show ?thesis using that m r(1) pe by blast
qed


lemma caught_Inl: "caught e x = Inl y \<longleftrightarrow> e = CancelledError \<and> y = CancelledError"
  by (auto simp: caught_def split: turn_exn.splits)

lemma store_extraction_error:
  assumes "fst (store_extraction E b r envelope w) = Inl e"
  shows "e = CancelledError \<or> e = Raised (EnOther (u ''UnicodeEncodeError''))"
proof (cases "compute_idempotency_key (co_sha256 (ec_turn (en_codec E))) (ptr_user_id r) (source_chat_log_id r) EXTRACTOR_VERSION")
  case (Some key)
  obtain q v where q: "blocking_write (en_service E) b is_duplicate
      (from_memory (store_archival_extraction (en_memory E) (ptr_user_id r) (source_chat_log_id r) key envelope)) w = (q, v)" by fastforce
  show ?thesis using assms Some q by (cases q; cases "projl q") (auto simp: store_extraction_def caught_Inl)
qed (use assms in \<open>simp add: store_extraction_def\<close>)

lemma archival_answer_error:
  assumes "fst (archival_answer E b r ms s) = Inl e"
  shows "e = CancelledError \<or> e = Raised (EnOther (u ''UnicodeEncodeError''))"
proof -
  obtain q s1 where q: "engine_extract_archival E ms b s = (q, s1)" by fastforce
  show ?thesis
    using assms q by (cases q) (auto simp: archival_answer_def caught_Inl outside_def split_beta Let_def split: option.splits dest: store_extraction_error)
qed

text \<open>An extraction runs beside the turns and disturbs nothing: no failure of the model, of the database or of a deadline leaves it, only a cancellation and
  what the encoding of the messages or of the key raises.\<close>

theorem archival_failures_contained:
  "fst (run_archival_extraction E r s) = Inl e \<Longrightarrow> e = CancelledError \<or> (\<exists>x. e = Raised (EnEnvelope x)) \<or> e = Raised (EnOther (u ''UnicodeEncodeError''))"
proof -
  assume r: "fst (run_archival_extraction E r s) = Inl e"
  obtain c where c: "TurnExecutionConfig_init archival_args = Inr c" using archival_execution by (auto split: sum.splits)
  show ?thesis
    using r archival_answer_error [of E _ r _ _ e] unfolding run_archival_extraction_def c
    by (auto simp: Let_def split_beta caught_Inl split: if_splits sum.splits option.splits prod.splits)
qed

definition archival_engine :: "unit engine" where
  "archival_engine = sample_engine\<lparr>en_archival_extraction_enabled := True,
     en_codec := en_codec sample_engine\<lparr>ec_loads := (\<lambda>_. Some (PDict [(PStr (u ''facts''), PList []), (PStr (u ''schema_version''), PInt 1),
        (PStr (u ''extractor_version''), PInt 1)]))\<rparr>,
     en_memory := MemoryManager_init (Pair (Fin 1)) (Pair 0) (Some (sample_memory_client
       \<lparr>mc_select_message := (\<lambda>_ _. Pair (DbResponse False (Some (PList [saved_row 1 ''user'' (u ''hi'')])))),
        mc_insert_extraction := (\<lambda>_. Pair (DbResponse False (Some (PList [PDict []]))))\<rparr>)) None False\<rparr>"

abbreviation (input) sample_ref :: PersistedTurnRef where
  "sample_ref \<equiv> \<lparr>ptr_user_id = u ''ana'', source_chat_log_id = 1, assistant_chat_log_id = 2\<rparr>"

lemma archival_parts: "en_archival_extraction_enabled archival_engine" "sv_monotonic (en_service archival_engine) = Pair 0"
  "sv_cancelled (en_service archival_engine) = Pair False" "en_await archival_engine t = Pair InTime"
  "co_canon (ec_turn (en_codec archival_engine)) = count_canon" "en_config archival_engine = en_config sample_engine"
  "co_sha256 (ec_turn (en_codec archival_engine)) b = u ''00''"
  by (simp_all add: archival_engine_def sample_parts) (simp_all add: sample_engine_def sample_codecs_def)

lemma archival_loads: "load_persisted_user_message (en_memory archival_engine) (u ''ana'') 1 () = (Inr (u ''hi''), ())"
  by (simp add: archival_engine_def load_persisted_user_message_def MemoryManager_init_def persisted_message_def saved_row_def dict_get_Cons has_key_def scalar_eq_def)

lemma archival_stores: "store_archival_extraction (en_memory archival_engine) (u ''ana'') 1 key envelope () = (Inr (), ())"
  by (simp add: archival_engine_def store_archival_extraction_def MemoryManager_init_def answer_data_def)

lemma archival_reads: "read_extraction (en_codec archival_engine) t = Some \<lparr>env_facts = [], env_schema_version = 1, env_extractor_version = 1\<rparr>"
  by (simp add: archival_engine_def read_extraction_def unknown_keys_def ENVELOPE_KEYS_def has_key_def dict_get_Cons ARCHIVAL_SCHEMA_VERSION_def EXTRACTOR_VERSION_def
      Archival_Memory.reject_def Let_def result_option_def)

lemma archival_prepares: "prepare_archival count_canon (u ''hi'') = Inr (Some (archival_messages (u ''hi'')))"
proof -
  have "archival_valid count_canon (archival_messages (u ''hi''))"
    using count_units [of "archival_messages (u ''hi'')"]
    by (simp add: archival_messages_def validate_provider_input_iff estimate_iff message_def validate_message_def unknown_keys_def VALID_MESSAGE_KEYS_def VALID_ROLES_def
        dict_get_Cons PROVIDER_INPUT_MAX_ESTIMATED_UNITS_def)
  then have "archival_fits count_canon (archival_messages (u ''hi'')) = Inr True" by (simp add: archival_fits_def)
  then show ?thesis by (simp add: prepare_archival_def)
qed

lemma archival_left:
  assumes "TurnExecutionConfig_init archival_args = Inr c"
  shows "remaining_before_reserve (create_budget c 0) 0 = 7" "remaining (create_budget c 0) 0 = 15"
proof -
  have "fl 15 = 15" "fl 7 = 7" using fl_small_int [of 15] fl_small_int [of 7] by simp_all
  moreover have "total_deadline c = 15" "commit_reserve c = 8" using archival_execution unfolding assms by simp_all
  ultimately show "remaining_before_reserve (create_budget c 0) 0 = 7" "remaining (create_budget c 0) 0 = 15"
    by (simp_all add: remaining_before_reserve_def remaining_def create_budget_def fadd_def fsub_def)
qed

lemma archival_answers:
  assumes "remaining b 0 = 15"
  shows "fst (archival_answer archival_engine b sample_ref ms sample_eg) = Inr ArchivalStored"
proof -
  have "utf8_encode (idempotency_input (u ''ana'') 1 EXTRACTOR_VERSION) \<noteq> None"
    by (simp add: utf8_encode_def scalar_def idempotency_input_def u_def dec_int_def dec_nat.simps EXTRACTOR_VERSION_def)
  then have "\<exists>k. compute_idempotency_key (co_sha256 (ec_turn (en_codec archival_engine))) (u ''ana'') 1 EXTRACTOR_VERSION = Some k"
    by (auto simp: compute_idempotency_key_def)
  then have "fst (store_extraction archival_engine b sample_ref envelope ()) = Inr ArchivalStored" for envelope
    using assms by (auto simp: store_extraction_def blocking_write_def awaited_write_def archival_parts from_memory_def archival_stores worker_end_of_def
        classify_write_def)
  then show ?thesis
    by (simp add: archival_answer_def engine_extract_archival_def on_model_of_def engine_model_def io_bind_def outside_def sample_language_model_def archival_reads
        split_beta Let_def)
qed

lemma archival_runs: "fst (run_archival_extraction archival_engine sample_ref sample_eg) = Inr ArchivalStored"
proof -
  obtain c where c: "TurnExecutionConfig_init archival_args = Inr c" using archival_execution by (auto split: sum.splits)
  show ?thesis
    unfolding run_archival_extraction_def c
    by (simp add: archival_parts outside_def blocking_read_def run_blocking_read_def archival_left [OF c] sample_config from_memory_def archival_loads end_of_def
        archival_prepares archival_answers)
qed


theorem archival_failures_contained_witness:
  "\<exists>e. fst (run_archival_extraction (archival_engine\<lparr>en_await := \<lambda>_. Pair Cancelled\<rparr>) sample_ref sample_eg) = Inl e
     \<and> (e = CancelledError \<or> (\<exists>x. e = Raised (EnEnvelope x)) \<or> e = Raised (EnOther (u ''UnicodeEncodeError'')))"
proof -
  obtain c where c: "TurnExecutionConfig_init archival_args = Inr c" using archival_execution by (auto split: sum.splits)
  have "fst (run_archival_extraction (archival_engine\<lparr>en_await := \<lambda>_. Pair Cancelled\<rparr>) sample_ref sample_eg) = Inl CancelledError"
    unfolding run_archival_extraction_def c
    by (simp add: archival_parts outside_def blocking_read_def run_blocking_read_def archival_left [OF c] sample_config caught_def)
  from archival_failures_contained [OF this] this show ?thesis by blast
qed

end
