(* ===== verification/Spec2Isabelle.thy ===== *)
theory Spec2Isabelle
  imports Emotional_Transition Appraisal_Parser Emotional_Serialization Relationship Emotion_Presentation
    Affective_Engine Lock_Manager Admission Archival_Memory Turn_Execution Turn_Result Local_Properties Companion_Properties
    Privacy_Operations Account_Deletion Retention Engine_Properties
begin

text \<open>
  \<^bold>\<open>A verification of the backend of Katherine Bot\<close>

  Katherine is a conversational companion.  A chat request is admitted (identity, message limits,
  rate decision of the store), the user's emotional and relationship snapshots are loaded, a language
  model appraises the message, the two snapshots move by pure transitions, a reply is generated, and the
  turn is committed within a time budget; facts for the long-term memory are extracted afterwards.  The
  development models the Python code of these steps under \<open>src/backend\<close> and proves what each promises
  to the next.

  \<^bold>\<open>Theories and sources\<close>

  \<^item> \<open>Prelude\<close>: results with errors (\<open>rbind\<close>, \<open>guard\<close>), insertion-ordered dictionaries, reachable states
    and the locale \<open>inductive_invariant\<close>.
  \<^item> \<open>Binary64\<close>: Python floats.  A finite float is its exact rational value and \<open>fl\<close> rounds after every
    operation; the locale \<open>rounding\<close> holds the laws the components use, interpreted on \<open>fl\<close>.
  \<^item> \<open>Py_Values\<close>, \<open>Py_Text\<close>: Python objects (\<open>pyobj\<close>), strings as code points, \<open>strip\<close>, \<open>split\<close>, UTF-8 both
    ways, decimal numerals; the locales \<open>float_validator\<close> and \<open>snapshot\<close>.
  \<^item> \<open>Emotional_Models\<close> (\<open>emotional_domain/models.py\<close>): the state and the appraisal with their validating
    constructors and strict dict parsers.
  \<^item> \<open>Emotional_Transition\<close> (\<open>emotional_domain/transition.py\<close>): decay, capped shifts, tension, coping mode,
    regulation.
  \<^item> \<open>Appraisal_Parser\<close> (\<open>emotional_domain/appraisal_parser.py\<close>): untrusted model output to an appraisal.
  \<^item> \<open>Emotional_Serialization\<close> (\<open>emotional_domain/serialization.py\<close>, \<open>migration.py\<close>).
  \<^item> \<open>Relationship\<close> (\<open>relationship.py\<close>): state, triggers, legacy migration, transition.
  \<^item> \<open>Emotion_Presentation\<close> (\<open>emotion_presentation.py\<close>): the public view of a state.
  \<^item> \<open>Affective_Engine\<close> (\<open>emotional_core.py\<close>): the older keyword engine.
  \<^item> \<open>Lock_Manager\<close> (\<open>lock_manager.py\<close>): per-user locks as a step relation over tasks.
  \<^item> \<open>Admission_Contracts\<close>, \<open>Admission\<close> (\<open>admission_contracts.py\<close>, \<open>admission.py\<close>): request identity, message
    limits, network identity behind proxies, HMAC references, the decision of the store.
  \<^item> \<open>Archival_Memory\<close> (\<open>archival_memory.py\<close>): extracted facts and idempotency keys.
  \<^item> \<open>Turn_Execution\<close> (\<open>turn_execution.py\<close>): budget, configuration, backoff, blocking reads and writes.
  \<^item> \<open>Transactional_Schema\<close>, \<open>Turn_Commit\<close>, \<open>Turn_Repositories\<close> (\<open>transactional_schema.py\<close>,
    \<open>atomic_turn_commit.py\<close>, \<open>turn_repositories.py\<close>): the rows of the two tables, validation and call of the
    commit procedure, the adapters of the use case.
  \<^item> \<open>Provider_Envelope\<close>, \<open>Trusted_Context\<close>, \<open>Trusted_Policy\<close> (\<open>provider_envelope.py\<close>, \<open>trusted_context.py\<close>,
    \<open>trusted_policy.py\<close>): what is sent to the language model.
  \<^item> \<open>Process_Turn\<close> (\<open>process_turn.py\<close>): the use case that composes all of this over its ports.
    \<open>Turn_Calls\<close> has the locale \<open>call_log\<close>, the lemmas about the database calls of each stage, and its
    interpretation for ports that record their calls; \<open>Turn_Result\<close> has the properties of whole turns.
  \<^item> \<open>Local_Contracts\<close> (\<open>local_storage/contracts.py\<close>, \<open>errors.py\<close>): the payload contracts of the desktop
    application and their comparison with the web contracts.
  \<^item> \<open>Local_Database\<close> (\<open>local_storage/migrations.py\<close> and the statements of \<open>storage.py\<close>): the tables with their
    constraints, foreign keys and cascades, transactions, statements that fail.  \<open>Local_Storage\<close>
    (\<open>local_storage/storage.py\<close>): every operation of the store.  \<open>Legacy_Import\<close> (\<open>legacy_import.py\<close>).
  \<^item> \<open>Local_Transactions\<close>: a calculus that relates an operation to the pure function of the database its
    transaction computes, and that function for every operation; \<open>Local_Invariant\<close>: the invariant of the
    database and the step relation of the store; \<open>Local_Properties\<close>: its properties.
  \<^item> \<open>Io_Wp\<close>: weakest preconditions of stateful operations.  \<open>Groq_Manager\<close> (\<open>groq_manager.py\<close>): the pool of
    provider keys and the attempts of a completion.  \<open>Groq_Language_Model\<close> (\<open>language_model.py\<close>,
    \<open>groq_language_model.py\<close>, \<open>provider_models.py\<close>): the error taxonomy of the boundary and the adapter.
  \<^item> \<open>Companion_Runtime\<close> (\<open>companion_runtime.py\<close>): the turn of the desktop application over the store and the
    language model, and the operations of its bridge; \<open>Companion_Properties\<close>: their properties.
  \<^item> \<open>Long_Term_Memory\<close> (\<open>memory.py\<close>): user state, history, retrieved memories, context, saved turns.
    \<open>Engine_Prompts\<close> and \<open>Conversation_Engine\<close> (\<open>engine.py\<close>, \<open>chat_engine.py\<close>): the prompts, the ports of the
    language model, the older turn, the active turn and the archival extraction; \<open>Engine_Properties\<close>: their
    properties, with the specifications \<open>turn_done\<close> and \<open>extraction_done\<close> they refine.
  \<^item> \<open>Service_Calls\<close>: the awaited database write of the operational services.  \<open>Privacy_Operations\<close>
    (\<open>privacy_operations.py\<close>, \<open>privacy_service.py\<close>), \<open>Account_Deletion\<close> (\<open>account_deletion.py\<close>,
    \<open>account_deletion_worker.py\<close>), \<open>Retention\<close> (\<open>retention_policy.py\<close>, \<open>retention.py\<close>).

  \<^bold>\<open>How the models correspond to the code\<close>

  A dataclass is a record, an enum a datatype, a constructor with its \<open>__post_init__\<close> a function ending in
  \<open>_init\<close> from untyped objects to \<open>error + record\<close>; \<open>Inl\<close> is a raised exception.  An argument tested with
  \<open>isinstance\<close> of a class of the program is \<open>Inst x\<close> or \<open>NotInst\<close>.  Names are those of the source without
  the leading underscore; where two modules use the same private name the second carries a prefix
  (\<open>rel_\<close>, \<open>lm_\<close>, \<open>env_\<close>).  Texts of error messages are kept only where the code reads them.
  Concurrent code is a step relation: one step is what runs between two points where the event loop may
  switch, and properties hold in every reachable state.

  \<^bold>\<open>What is shown\<close>

  \<^item> Emotional domain: the transition of a valid state is total and valid, fails exactly on bad arguments,
    moves by at most the configured shift, decays towards its baseline and selects the coping mode
    exactly as documented; every conversation keeps the invariant.  Strict parsers accept exactly the
    documented dicts and read back what was written; migration and JSON round trips.
  \<^item> Appraisal parser: it never raises, falls back to the neutral appraisal with a code, and reports
    alias conflicts by the documented precedence.
  \<^item> Relationship and projection: exact transitions and directions of the metrics, safe migration, and
    a public view that is total, ordered and independent of internal fields.
  \<^item> Locks: mutual exclusion per user, exact reference counts, no lost lock.
  \<^item> Admission: canonical UUIDs exactly, message limits exactly, an identity that forged headers cannot
    choose, domain separation of the HMAC inputs, fail-closed decisions, totality of the request.
  \<^item> Archival memory: the accepted envelopes exactly, and keys that separate extractions.
  \<^item> Turn execution: a write is never abandoned under any cancellations, a read never consumes the
    commit reserve, the configuration is exactly its invariants, the backoff stays in its bounds.
  \<^item> Commit: only parameters that satisfy the whole contract reach the database, at most once; an accepted
    result is coherent and stable; the snapshots of the domain and of the commit agree.
  \<^item> Context: the exact contents of an envelope, its acceptance by the provider validation, a complete
    report, and success exactly when the mandatory messages fit.
  \<^item> Turns: at most two commits under one request id, no commit in replay, a result that is read from
    what the database confirmed, success when the ports answer, and the write as a refinement of the step
    relation of the write helper.
  \<^item> Local store: every operation refines a pure transaction and a call that fails changes nothing, the
    database invariant under any operations, failures, crashes and restarts, the exact effect of a commit,
    replay of what was committed, deletion of the history that no late commit can undo, idempotent import.
  \<^item> Provider: which key is tried next, at most the configured attempts and no key twice, whatever other
    turns do to the pool; success when one working key is left; only canonical errors cross the boundary,
    and they keep the public codes.
  \<^item> Operational services: a privacy operation only acts for its caller and resets to the neutral snapshot; an
    account is deleted in the order database, authentication service, ledger, with an exact count; a retention
    round ends whatever the repository answers.
  \<^item> Conversation engine and memory: a returned turn went through every stage and was recorded, messages before
    states; the model is only called with validated messages and none of its errors escapes; a stored extraction
    holds what the model answered about the turn; retrieved context is always usable; a saved turn is exactly
    confirmed.
  \<^item> Desktop turns: atomic under provider and storage failures, replayed when repeated, and sanitized.

  \<^bold>\<open>Parameters\<close>

  Code outside the repository is an argument of the definitions: \<open>0.5 ** x\<close> (\<open>pw\<close> with \<open>pow_ok\<close>),
  \<open>json.dumps\<close> and \<open>json.loads\<close>, \<open>str.lower\<close> (\<open>lower_ok\<close>), HMAC-SHA256 (\<open>hmac_ok\<close>), SHA-256, the text
  forms of the \<open>ipaddress\<close> module (\<open>ip_ok\<close>), \<open>float(str)\<close>, \<open>int(str)\<close> and \<open>int(str, 16)\<close>, the embedding model, remote procedure calls, the SDK of the
  provider (every exception it can raise is a value of \<open>sdk_exn\<close>).  Each
  property that needs such a hypothesis has a witness on a concrete function.  The ports of a turn are functions
  on the state of the outside world, so an execution is one function of that state.  No model uses fuel:
  the batches of a retention category are a partial function of the option monad that is proved to return, the other loops run over finite lists or have a termination proof (the retry of a turn by its number of
  attempts, the truncation by the length of the text), and the step relations need no bound.

  \<^bold>\<open>Not modelled\<close>

  Log output, the web framework, the database and its SQL functions, the provider SDK, the desktop shell
  and the JavaScript frontend.
\<close>

end
